(* ===== verification/Prelude.thy ===== *)
theory Prelude
  imports Main "HOL-Library.Word" "HOL-Library.Char_ord" "HOL-Library.List_Lexorder"
    "HOL-Library.Sublist"
begin

text \<open>
  Shared vocabulary of the RockLake development: the machine integers and byte strings of the
  Rust sources, the arithmetic helpers of the Rust standard library the sources call
  (\<open>checked_add\<close>, \<open>saturating_sub\<close>, \<dots>), big-endian encodings, the \<open>Result\<close> and effect
  combinators the handlers are written in, and the generic lemmas on lists, maps and byte order
  every component uses.

  Conventions. \<open>u64\<close> is a 64-bit word, so \<open>+\<close> wraps as in a release build. A Rust \<open>str\<close> is a
  list of 8-bit \<open>char\<close>s, its UTF-8 bytes; \<open>str_bytes\<close> is \<open>as_bytes\<close>. Byte strings and strings are
  compared lexicographically (\<open>HOL-Library.List_Lexorder\<close>), as Rust compares \<open>Vec<u8>\<close> and
  \<open>str\<close>. A fallible function returns \<open>error + value\<close> with \<open>Inl\<close> the error.
\<close>

named_theorems key_simps \<open>unfolding rules for key builders\<close>
named_theorems io_simps \<open>unfolding rules for the effect combinators\<close>

section \<open>Types\<close>

type_synonym u8 = "8 word"
type_synonym u16 = "16 word"
type_synonym u32 = "32 word"
type_synonym u64 = "64 word"
type_synonym i64 = "64 word"
type_synonym bytes = "u8 list"

definition u64_max :: u64 where
  "u64_max = - 1"

definition str_bytes :: "string \<Rightarrow> bytes" where
  "str_bytes s = map of_char s"

definition bytes_str :: "bytes \<Rightarrow> string" where
  "bytes_str bs = map (\<lambda>b. char_of (unat b)) bs"

text \<open>Decimal display of unsigned integers, as \<open>format!("{n}")\<close> prints them.\<close>

fun show_nat :: "nat \<Rightarrow> string" where
  "show_nat n =
     (if n < 10 then [char_of (48 + n)] else show_nat (n div 10) @ [char_of (48 + n mod 10)])"

declare show_nat.simps [simp del]

definition show_u64 :: "u64 \<Rightarrow> string" where
  "show_u64 n = show_nat (unat n)"

section \<open>Results\<close>

text \<open>\<open>rbind\<close> is the \<open>?\<close> operator: the first error is the result. \<open>ok_or\<close> and \<open>map_err\<close> are the
  methods of \<open>Option\<close> and \<open>Result\<close> with those names.\<close>

definition rbind :: "'e + 'a \<Rightarrow> ('a \<Rightarrow> 'e + 'b) \<Rightarrow> 'e + 'b" where
  [io_simps]: "rbind r f = (case r of Inl e \<Rightarrow> Inl e | Inr a \<Rightarrow> f a)"

definition map_err :: "('e \<Rightarrow> 'f) \<Rightarrow> 'e + 'a \<Rightarrow> 'f + 'a" where
  [io_simps]: "map_err g r = (case r of Inl e \<Rightarrow> Inl (g e) | Inr a \<Rightarrow> Inr a)"

definition ok_or :: "'e \<Rightarrow> 'a option \<Rightarrow> 'e + 'a" where
  [io_simps]: "ok_or e x = (case x of None \<Rightarrow> Inl e | Some a \<Rightarrow> Inr a)"

lemma rbind_simps [simp]: "rbind (Inl e) f = Inl e" "rbind (Inr a) f = f a"
  by (simp_all add: rbind_def)

lemma map_err_simps [simp]: "map_err g (Inl e) = Inl (g e)" "map_err g (Inr a) = Inr a"
  by (simp_all add: map_err_def)

lemma ok_or_simps [simp]: "ok_or e None = Inl e" "ok_or e (Some a) = Inr a"
  by (simp_all add: ok_or_def)

lemma rbind_eq_Inr_iff: "rbind r f = Inr b \<longleftrightarrow> (\<exists>a. r = Inr a \<and> f a = Inr b)"
  by (cases r) auto

lemma map_err_eq_Inr_iff [simp]: "map_err g r = Inr a \<longleftrightarrow> r = Inr a"
  by (cases r) auto

lemma ok_or_eq_Inr_iff [simp]: "ok_or e x = Inr a \<longleftrightarrow> x = Some a"
  by (cases x) auto

section \<open>Arithmetic of the standard library\<close>

definition checked_add :: "'a::len word \<Rightarrow> 'a word \<Rightarrow> 'a word option" where
  "checked_add a b = (if unat a + unat b < 2 ^ LENGTH('a) then Some (a + b) else None)"

definition checked_mul :: "'a::len word \<Rightarrow> 'a word \<Rightarrow> 'a word option" where
  "checked_mul a b = (if unat a * unat b < 2 ^ LENGTH('a) then Some (a * b) else None)"

definition saturating_add :: "'a::len word \<Rightarrow> 'a word \<Rightarrow> 'a word" where
  "saturating_add a b = (if unat a + unat b < 2 ^ LENGTH('a) then a + b else - 1)"

definition saturating_sub :: "'a::len word \<Rightarrow> 'a word \<Rightarrow> 'a word" where
  "saturating_sub a b = (if a < b then 0 else a - b)"

lemma checked_add_Some_iff:
  "checked_add a b = Some c \<longleftrightarrow> unat c = unat a + unat b"
  for a b c :: "'a::len word"
proof
  assume "checked_add a b = Some c"
  then show "unat c = unat a + unat b"
    by (auto simp: checked_add_def unat_word_ariths split: if_splits)
next
  assume h: "unat c = unat a + unat b"
  then have "unat a + unat b < 2 ^ LENGTH('a)"
    using unsigned_less [of c, where ?'a = nat] by simp
  moreover from h this have "c = a + b"
    by (simp add: word_unat_eq_iff unat_word_ariths)
  ultimately show "checked_add a b = Some c"
    by (simp add: checked_add_def)
qed

lemma checked_add_None_iff:
  "checked_add a b = None \<longleftrightarrow> 2 ^ LENGTH('a) \<le> unat a + unat b" for a b :: "'a::len word"
  by (simp add: checked_add_def)

lemma checked_mul_Some_iff:
  "checked_mul a b = Some c \<longleftrightarrow> unat c = unat a * unat b"
  for a b c :: "'a::len word"
proof
  assume "checked_mul a b = Some c"
  then show "unat c = unat a * unat b"
    by (auto simp: checked_mul_def unat_word_ariths split: if_splits)
next
  assume h: "unat c = unat a * unat b"
  then have "unat a * unat b < 2 ^ LENGTH('a)"
    using unsigned_less [of c, where ?'a = nat] by simp
  moreover from h this have "c = a * b"
    by (simp add: word_unat_eq_iff unat_word_ariths)
  ultimately show "checked_mul a b = Some c"
    by (simp add: checked_mul_def)
qed

lemma unat_saturating_add:
  "unat (saturating_add a b) = min (unat a + unat b) (2 ^ LENGTH('a) - 1)"
  for a b :: "'a::len word"
  by (auto simp: saturating_add_def unat_word_ariths unsigned_minus_1_eq_mask mask_eq_exp_minus_1)

lemma unat_saturating_sub: "unat (saturating_sub a b) = unat a - unat b"
  by (auto simp: saturating_sub_def word_less_nat_alt unat_sub word_le_nat_alt)

lemma sint_u64: "sint d = (if unat d < 2^63 then int (unat d) else int (unat d) - 2^64)" for d :: u64
proof -
  define n where "n = unat d"
  have u: "uint d = int n" by (simp add: n_def)
  have b: "n < 2 ^ 64" using unsigned_less [of d, where ?'a = nat] by (simp add: n_def)
  have "sint d = signed_take_bit 63 (int n)" by (simp add: sint_uint u)
  also have "\<dots> = (int n + 2 ^ 63) mod 2 ^ 64 - 2 ^ 63"
    by (simp add: signed_take_bit_eq_take_bit_shift take_bit_eq_mod)
  also have "\<dots> = (if n < 2 ^ 63 then int n else int n - 2 ^ 64)"
  proof (cases "n < 2 ^ 63")
    case False
    then obtain j where "n = 2 ^ 63 + j" using le_Suc_ex by (metis linorder_not_less)
    then show ?thesis using b by simp
  qed simp
  finally show ?thesis by (simp add: n_def)
qed

lemma unat_uminus_u64: "unat (- d) = (if unat d = 0 then 0 else 2 ^ 64 - unat d)" for d :: u64
proof (cases "d = 0")
  case False
  define n where "n = unat d"
  have u: "uint d = int n" by (simp add: n_def)
  have b: "n < 2 ^ 64" using unsigned_less [of d, where ?'a = nat] by (simp add: n_def)
  have n0: "n \<noteq> 0" using False by (simp add: n_def unat_eq_0)
  have "uint (- d) = (- int n) mod 2 ^ 64" by (simp add: uint_word_ariths u)
  also have "\<dots> = 2 ^ 64 - int n" using n0 b by (simp add: zmod_zminus1_eq_if)
  finally have "unat (- d) = nat (2 ^ 64 - int n)" by (simp add: unat_eq_nat_uint)
  also have "nat (2 ^ 64 - int n) = 2 ^ 64 - n" using b by (simp add: nat_diff_distrib)
  finally show ?thesis using n0 by (simp add: n_def)
qed simp

text \<open>Adding a signed delta by \<open>saturating_add\<close> or, for a negative one, by \<open>saturating_sub\<close> of its
  two's complement negation clamps the exact sum.\<close>

lemma saturating_delta:
  "int (unat (if sint d < 0 then saturating_sub c (- d) else saturating_add c d)) =
     max 0 (min (2 ^ 64 - 1) (int (unat c) + sint d))"
  for c d :: u64
proof -
  obtain x y where xy: "unat c = x" "unat d = y" by blast
  have b: "x < 2 ^ 64" "y < 2 ^ 64"
    using unsigned_less [of c, where ?'a = nat] unsigned_less [of d, where ?'a = nat] xy by simp_all
  show ?thesis
  proof (cases "y < 2 ^ 63")
    case True
    then have s: "sint d = int y" by (simp add: sint_u64 xy)
    then have "(if sint d < 0 then saturating_sub c (- d) else saturating_add c d) = saturating_add c d" by simp
    then show ?thesis unfolding s xy(1) using unat_saturating_add [of c d] by (simp add: xy min_def)
  next
    case False
    then have s: "sint d = int y - 2 ^ 64" by (simp add: sint_u64 xy)
    then have e: "(if sint d < 0 then saturating_sub c (- d) else saturating_add c d) = saturating_sub c (- d)" using b by simp
    have "unat (- d) = 2 ^ 64 - y" using False by (simp add: unat_uminus_u64 xy)
    then have "unat (saturating_sub c (- d)) = x - (2 ^ 64 - y)" using unat_saturating_sub [of c "- d"] xy by simp
    then show ?thesis unfolding e s xy(1) using b by simp
  qed
qed

lemma unat_u64_max: "unat u64_max = 2 ^ 64 - 1"
  by (simp add: u64_max_def unsigned_minus_1_eq_mask mask_eq_exp_minus_1)

lemma one_less_u64_max [simp]: "1 < u64_max"
  by (simp add: word_less_nat_alt unat_u64_max)

lemma word_Suc_le: "a < b \<Longrightarrow> unat (a + 1) = Suc (unat a)" for a b :: "'a::len word"
  proof -
  assume "a < b"
  then have "Suc (unat a) < 2 ^ LENGTH('a)"
    by (simp add: word_less_nat_alt) (metis Suc_lessI order_less_trans unsigned_less order_less_le)
  then show ?thesis
    by (simp add: unat_word_ariths)
qed

section \<open>Big-endian encodings\<close>

fun be_bytes :: "nat \<Rightarrow> nat \<Rightarrow> bytes" where
  "be_bytes 0 x = []"
| "be_bytes (Suc n) x = be_bytes n (x div 256) @ [of_nat (x mod 256)]"

definition from_be_bytes :: "bytes \<Rightarrow> nat" where
  "from_be_bytes bs = foldl (\<lambda>a b. a * 256 + unat b) 0 bs"

lemma length_be_bytes [simp]: "length (be_bytes n x) = n"
  by (induction n arbitrary: x) auto

lemma from_be_bytes_snoc [simp]: "from_be_bytes (bs @ [b]) = from_be_bytes bs * 256 + unat b"
  by (simp add: from_be_bytes_def)

lemma from_be_bytes_Nil [simp]: "from_be_bytes [] = 0"
  by (simp add: from_be_bytes_def)

lemma unat_of_nat_byte: "x < 256 \<Longrightarrow> unat (of_nat x :: u8) = x"
  by (simp add: unat_of_nat)

lemma from_be_bytes_be_bytes: "x < 256 ^ n \<Longrightarrow> from_be_bytes (be_bytes n x) = x"
proof (induction n arbitrary: x)
  case 0
  then show ?case by simp
next
  case (Suc n)
  have "x div 256 < 256 ^ n"
    using Suc.prems by (simp add: less_mult_imp_div_less mult.commute)
  then have "from_be_bytes (be_bytes n (x div 256)) = x div 256"
    by (rule Suc.IH)
  moreover have "unat (of_nat (x mod 256) :: u8) = x mod 256"
    by (rule unat_of_nat_byte) simp
  ultimately show ?case
    by (simp add: mult.commute)
qed

lemma from_be_bytes_bound: "from_be_bytes bs < 256 ^ length bs"
proof (induction bs rule: rev_induct)
  case Nil
  then show ?case by simp
next
  case (snoc b bs)
  have "unat b < 256"
    using unsigned_less [of b, where ?'a = nat] by simp
  then show ?case
    using snoc.IH by simp
qed

lemma be_bytes_from_be_bytes: "length bs = n \<Longrightarrow> be_bytes n (from_be_bytes bs) = bs"
proof (induction n arbitrary: bs)
  case 0
  then show ?case by simp
next
  case (Suc n)
  then obtain cs b where bs: "bs = cs @ [b]" and len: "length cs = n"
    by (metis length_Suc_conv_rev)
  have "unat b < 256"
    using unsigned_less [of b, where ?'a = nat] by simp
  then show ?case
    using Suc.IH [OF len] by (simp add: bs)
qed

lemma be_bytes_inject:
  "x < 256 ^ n \<Longrightarrow> y < 256 ^ n \<Longrightarrow> be_bytes n x = be_bytes n y \<longleftrightarrow> x = y"
  by (metis from_be_bytes_be_bytes)

section \<open>Lexicographic order of byte strings\<close>

lemma lex_less_append_cancel [simp]:
  "p @ xs < p @ ys \<longleftrightarrow> xs < ys" for xs ys :: "'a::linorder list"
  by (induction p) auto

lemma lex_less_append_same_length:
  "length xs = length ys \<Longrightarrow> xs @ us < ys @ vs \<longleftrightarrow> xs < ys \<or> xs = ys \<and> us < vs"
  for xs ys :: "'a::linorder list"
  by (induction xs ys rule: list_induct2) auto

lemma div_mod_lex_less:
  "x div 256 < y div 256 \<or> x div 256 = y div 256 \<and> x mod 256 < y mod 256 \<longleftrightarrow> x < y"
  for x y :: nat
proof -
  have "x = 256 * (x div 256) + x mod 256" "y = 256 * (y div 256) + y mod 256"
    by simp_all
  moreover have "x mod 256 < 256" "y mod 256 < 256"
    by simp_all
  ultimately show ?thesis
    by linarith
qed

lemma be_bytes_less_iff:
  "x < 256 ^ n \<Longrightarrow> y < 256 ^ n \<Longrightarrow> be_bytes n x < be_bytes n y \<longleftrightarrow> x < y"
proof (induction n arbitrary: x y)
  case 0
  then show ?case by simp
next
  case (Suc n)
  have b: "x div 256 < 256 ^ n" "y div 256 < 256 ^ n"
    using Suc.prems by (simp_all add: less_mult_imp_div_less mult.commute)
  have w: "(of_nat (x mod 256) :: u8) < of_nat (y mod 256) \<longleftrightarrow> x mod 256 < y mod 256"
    by (simp add: word_less_nat_alt unat_of_nat_byte)
  have s: "[of_nat (x mod 256) :: u8] < [of_nat (y mod 256)] \<longleftrightarrow> x mod 256 < y mod 256"
    using w by simp
  have "be_bytes (Suc n) x < be_bytes (Suc n) y \<longleftrightarrow>
      x div 256 < y div 256 \<or> x div 256 = y div 256 \<and> x mod 256 < y mod 256"
    using b w by (simp add: lex_less_append_same_length Suc.IH be_bytes_inject)
  also have "\<dots> \<longleftrightarrow> x < y"
    by (rule div_mod_lex_less)
  finally show ?case .
qed

end
