(* ===== verification/Rust_Str.thy ===== *)
theory Rust_Str
  imports Prelude
begin

text \<open>
  The string functions of the Rust standard library that the parsers of the sources call:
  trimming, ASCII case, searching and splitting, and the integer and floating-point parsers
  behind \<open>str::parse\<close>. A \<open>str\<close> is the list of its UTF-8 bytes, so a character outside ASCII is a
  sequence of two to four elements.
\<close>

section \<open>Characters and boundaries\<close>

definition is_digit :: "char \<Rightarrow> bool" where
  "is_digit c \<longleftrightarrow> CHR ''0'' \<le> c \<and> c \<le> CHR ''9''"

definition digit_val :: "char \<Rightarrow> nat" where
  "digit_val c = of_char c - 48"

text \<open>A byte that continues a character of more than one byte; slicing a \<open>str\<close> in front of one
  panics, which the model reports as \<open>None\<close>.\<close>

definition is_continuation :: "char \<Rightarrow> bool" where
  "is_continuation c \<longleftrightarrow> 128 \<le> (of_char c :: nat) \<and> (of_char c :: nat) < 192"

definition is_char_boundary :: "string \<Rightarrow> nat \<Rightarrow> bool" where
  "is_char_boundary s i \<longleftrightarrow> i = length s \<or> i < length s \<and> \<not> is_continuation (s ! i)"

definition slice_to :: "string \<Rightarrow> nat \<Rightarrow> string option" where
  "slice_to s i = (if is_char_boundary s i then Some (take i s) else None)"

definition slice_from :: "string \<Rightarrow> nat \<Rightarrow> string option" where
  "slice_from s i = (if is_char_boundary s i then Some (drop i s) else None)"

text \<open>The number of characters of a string.\<close>

definition char_count :: "string \<Rightarrow> nat" where
  "char_count s = length (filter (\<lambda>c. \<not> is_continuation c) s)"

definition ascii_lower_char :: "char \<Rightarrow> char" where
  "ascii_lower_char c =
     (if CHR ''A'' \<le> c \<and> c \<le> CHR ''Z'' then char_of ((of_char c :: nat) + 32) else c)"

definition to_ascii_lowercase :: "string \<Rightarrow> string" where
  "to_ascii_lowercase s = map ascii_lower_char s"

section \<open>Prefixes, suffixes and trimming\<close>

definition starts_with :: "string \<Rightarrow> string \<Rightarrow> bool" where
  "starts_with s p \<longleftrightarrow> take (length p) s = p"

definition ends_with :: "string \<Rightarrow> string \<Rightarrow> bool" where
  "ends_with s p \<longleftrightarrow> starts_with (rev s) (rev p)"

text \<open>The encodings of the characters with the Unicode property \<open>White_Space\<close>.\<close>

definition white_space :: "string list" where
  "white_space = map (map char_of)
     [[9::nat], [10], [11], [12], [13], [32], [0xC2, 0x85], [0xC2, 0xA0], [0xE1, 0x9A, 0x80],
      [0xE2, 0x80, 0x80], [0xE2, 0x80, 0x81], [0xE2, 0x80, 0x82], [0xE2, 0x80, 0x83],
      [0xE2, 0x80, 0x84], [0xE2, 0x80, 0x85], [0xE2, 0x80, 0x86], [0xE2, 0x80, 0x87],
      [0xE2, 0x80, 0x88], [0xE2, 0x80, 0x89], [0xE2, 0x80, 0x8A], [0xE2, 0x80, 0xA8],
      [0xE2, 0x80, 0xA9], [0xE2, 0x80, 0xAF], [0xE2, 0x81, 0x9F], [0xE3, 0x80, 0x80]]"

text \<open>Removing words of a list from the front of a string as long as one is there.\<close>

function strip_words :: "string list \<Rightarrow> string \<Rightarrow> string" where
  "strip_words ws s =
     (case find (\<lambda>w. w \<noteq> [] \<and> starts_with s w) ws of
        None \<Rightarrow> s
      | Some w \<Rightarrow> strip_words ws (drop (length w) s))"
  by pat_completeness auto
termination
proof (relation "measure (\<lambda>(ws, s). length s)")
  fix ws :: "string list" and s w :: string
  assume "find (\<lambda>w. w \<noteq> [] \<and> starts_with s w) ws = Some w"
  then have "w \<noteq> []" "starts_with s w"
    by (auto simp: find_Some_iff)
  moreover from this have "s \<noteq> []"
    by (auto simp: starts_with_def)
  ultimately show "((ws, drop (length w) s), ws, s) \<in> measure (\<lambda>(ws, s). length s)"
    by (cases s; cases w) auto
qed simp

declare strip_words.simps [simp del]

definition trim_start :: "string \<Rightarrow> string" where
  "trim_start s = strip_words white_space s"

definition trim_end :: "string \<Rightarrow> string" where
  "trim_end s = rev (strip_words (map rev white_space) (rev s))"

definition trim :: "string \<Rightarrow> string" where
  "trim s = trim_end (trim_start s)"

definition trim_start_matches :: "char \<Rightarrow> string \<Rightarrow> string" where
  "trim_start_matches c s = dropWhile (\<lambda>d. d = c) s"

definition trim_end_matches :: "char \<Rightarrow> string \<Rightarrow> string" where
  "trim_end_matches c s = rev (dropWhile (\<lambda>d. d = c) (rev s))"

section \<open>Searching and splitting\<close>

text \<open>The byte position of the first occurrence of an ASCII character.\<close>

fun find_char :: "char \<Rightarrow> string \<Rightarrow> nat option" where
  "find_char c [] = None"
| "find_char c (d # s) = (if d = c then Some 0 else map_option Suc (find_char c s))"

fun split_char :: "char \<Rightarrow> string \<Rightarrow> string list" where
  "split_char c [] = [[]]"
| "split_char c (d # s) =
     (if d = c then [] # split_char c s
      else (case split_char c s of p # ps \<Rightarrow> (d # p) # ps | [] \<Rightarrow> [[d]]))"

text \<open>\<open>str::contains\<close> for a string pattern.\<close>

fun contains_str :: "string \<Rightarrow> string \<Rightarrow> bool" where
  "contains_str [] p \<longleftrightarrow> p = []"
| "contains_str (c # s) p \<longleftrightarrow> starts_with (c # s) p \<or> contains_str s p"

section \<open>Parsing integers\<close>

definition digits_val :: "string \<Rightarrow> nat" where
  "digits_val s = foldl (\<lambda>a c. 10 * a + digit_val c) 0 s"

definition digits :: "string \<Rightarrow> bool" where
  "digits s \<longleftrightarrow> s \<noteq> [] \<and> list_all is_digit s"

text \<open>\<open>str::parse\<close> at an integer type with the range from \<open>lo\<close> to \<open>hi\<close>: an optional sign, at
  least one digit, and a value in the range. A minus sign is a syntax error at the unsigned
  types.\<close>

definition parse_int :: "int \<Rightarrow> int \<Rightarrow> string \<Rightarrow> int option" where
  "parse_int lo hi s =
     (let (neg, ds) = (case s of
            c # cs \<Rightarrow> if c = CHR ''+'' then (False, cs)
                      else if c = CHR ''-'' \<and> lo < 0 then (True, cs) else (False, s)
          | [] \<Rightarrow> (False, s));
          v = (if neg then - int (digits_val ds) else int (digits_val ds))
      in if digits ds \<and> lo \<le> v \<and> v \<le> hi then Some v else None)"

definition parse_u8 :: "string \<Rightarrow> u8 option" where
  "parse_u8 s = map_option of_int (parse_int 0 (2 ^ 8 - 1) s)"

definition parse_u64 :: "string \<Rightarrow> u64 option" where
  "parse_u64 s = map_option of_int (parse_int 0 (2 ^ 64 - 1) s)"

definition parse_i64 :: "string \<Rightarrow> i64 option" where
  "parse_i64 s = map_option of_int (parse_int (- (2 ^ 63)) (2 ^ 63 - 1) s)"

definition parse_u128 :: "string \<Rightarrow> int option" where
  "parse_u128 s = parse_int 0 (2 ^ 128 - 1) s"

definition parse_i128 :: "string \<Rightarrow> int option" where
  "parse_i128 s = parse_int (- (2 ^ 127)) (2 ^ 127 - 1) s"

section \<open>Facts\<close>

lemma starts_with_append [simp]: "starts_with (p @ s) p"
  by (simp add: starts_with_def)

lemma starts_with_iff_prefix: "starts_with s p \<longleftrightarrow> prefix p s"
  by (auto simp: starts_with_def prefix_def) (metis append_take_drop_id)

lemma ends_with_append [simp]: "ends_with (s @ p) p"
  by (simp add: ends_with_def)

subsection \<open>Trimming\<close>

text \<open>Printable ASCII characters other than the space are not part of white space.\<close>

definition solid :: "char \<Rightarrow> bool" where
  "solid c \<longleftrightarrow> 33 \<le> (of_char c :: nat) \<and> (of_char c :: nat) < 127"

lemma white_space_ends:
  "list_all (\<lambda>w. w \<noteq> [] \<and> \<not> solid (hd w) \<and> \<not> solid (last w)) white_space"
  by code_simp

lemma strip_words_same:
  assumes "s = [] \<or> solid (hd s)" and "\<And>w. w \<in> set ws \<Longrightarrow> w \<noteq> [] \<Longrightarrow> \<not> solid (hd w)"
  shows "strip_words ws s = s"
proof -
  have "\<not> starts_with s w" if "w \<in> set ws" "w \<noteq> []" for w
    using assms(1) assms(2) [OF that] that(2) by (cases w; cases s) (auto simp: starts_with_def)
  then have "find (\<lambda>w. w \<noteq> [] \<and> starts_with s w) ws = None"
    by (auto simp: find_None_iff)
  then show ?thesis by (simp add: strip_words.simps)
qed

lemma trim_same:
  assumes "s = [] \<or> solid (hd s) \<and> solid (last s)"
  shows "trim s = s"
proof -
  have a: "strip_words white_space s = s"
    using assms white_space_ends by (intro strip_words_same) (auto simp: list_all_iff)
  have "strip_words (map rev white_space) (rev s) = rev s"
    using assms white_space_ends by (intro strip_words_same) (auto simp: list_all_iff hd_rev)
  with a show ?thesis by (simp add: trim_def trim_start_def trim_end_def)
qed

subsection \<open>Printed numbers are parsed\<close>

lemma is_digit_char_of: "is_digit (char_of (48 + n :: nat)) \<longleftrightarrow> n < 10" if "n < 10"
proof -
  have "n \<in> {0,1,2,3,4,5,6,7,8,9}" using that by auto
  then show ?thesis by (auto simp: is_digit_def less_eq_char_def)
qed

lemma digit_val_char_of: "n < 10 \<Longrightarrow> digit_val (char_of (48 + n :: nat)) = n"
  by (simp add: digit_val_def)

lemma digits_val_snoc [simp]: "digits_val (s @ [c]) = 10 * digits_val s + digit_val c"
  by (simp add: digits_val_def)

lemma digits_show_nat: "digits (show_nat n)"
proof (induction n rule: show_nat.induct)
  case (1 n)
  then show ?case
    by (subst show_nat.simps) (auto simp: digits_def is_digit_char_of)
qed

lemma digits_val_show_nat: "digits_val (show_nat n) = n"
proof (induction n rule: show_nat.induct)
  case (1 n)
  show ?case
  proof (cases "n < 10")
    case True
    then show ?thesis
      by (subst show_nat.simps) (simp add: digits_val_def digit_val_char_of)
  next
    case False
    then show ?thesis
      using 1 by (subst show_nat.simps) (simp add: digit_val_char_of)
  qed
qed

lemma digits_no_sign:
  assumes "digits s"
  obtains c cs where "s = c # cs" "c \<noteq> CHR ''+''" "c \<noteq> CHR ''-''"
proof (cases s)
  case (Cons c cs)
  then have "is_digit c" using assms by (simp add: digits_def)
  then have "c \<noteq> CHR ''+''" "c \<noteq> CHR ''-''" by (auto simp: is_digit_def)
  with Cons show ?thesis by (rule that)
qed (use assms in \<open>simp add: digits_def\<close>)

lemma parse_int_digits:
  assumes "digits s" and "lo \<le> 0" and "int (digits_val s) \<le> hi"
  shows "parse_int lo hi s = Some (int (digits_val s))"
proof -
  obtain c cs where "s = c # cs" "c \<noteq> CHR ''+''" "c \<noteq> CHR ''-''"
    using digits_no_sign [OF assms(1)] .
  then show ?thesis using assms by (simp add: parse_int_def Let_def)
qed

lemma parse_int_show_nat:
  "lo \<le> 0 \<Longrightarrow> int n \<le> hi \<Longrightarrow> parse_int lo hi (show_nat n) = Some (int n)"
  using parse_int_digits [OF digits_show_nat] by (simp add: digits_val_show_nat)

lemma parse_u64_show_u64: "parse_u64 (show_u64 n) = Some n"
  using parse_int_show_nat [of 0 "unat n" "2 ^ 64 - 1"] unsigned_less [of n, where ?'a = int]
  by (simp add: parse_u64_def show_u64_def)

lemma parse_u8_show_nat: "parse_u8 (show_nat (unat n)) = Some n"
  using parse_int_show_nat [of 0 "unat n" "2 ^ 8 - 1"] unsigned_less [of n, where ?'a = int]
  by (simp add: parse_u8_def)

lemma digit_solid: "is_digit c \<Longrightarrow> solid c"
  by (auto simp: is_digit_def solid_def less_eq_char_def)

lemma trim_digits: "digits s \<Longrightarrow> trim s = s"
  by (rule trim_same) (auto simp: digits_def list_all_iff intro: digit_solid)

end
