(* ===== verification/Rust_Float.thy ===== *)
theory Rust_Float
  imports Complex_Main Rust_Str "HOL-Library.Log_Nat"
begin

text \<open>
  The \<open>f64\<close> values the sources read from strings and compare: \<open>str::parse::<f64>\<close>, which rounds the
  decimal number to the nearest representable value (ties to even), and \<open>partial_cmp\<close>. The two
  zeros are one value here: the comparisons do not tell them apart.
\<close>

section \<open>Values and comparison\<close>

datatype f64 = F64_NaN | F64_NegInf | F64_Finite rat | F64_Inf

datatype Ordering = Less | Equal | Greater

definition cmp :: "'a::linorder \<Rightarrow> 'a \<Rightarrow> Ordering" where
  "cmp a b = (if a < b then Less else if a = b then Equal else Greater)"

fun partial_cmp :: "f64 \<Rightarrow> f64 \<Rightarrow> Ordering option" where
  "partial_cmp F64_NaN _ = None"
| "partial_cmp _ F64_NaN = None"
| "partial_cmp F64_NegInf F64_NegInf = Some Equal"
| "partial_cmp F64_NegInf _ = Some Less"
| "partial_cmp _ F64_NegInf = Some Greater"
| "partial_cmp F64_Inf F64_Inf = Some Equal"
| "partial_cmp F64_Inf _ = Some Greater"
| "partial_cmp _ F64_Inf = Some Less"
| "partial_cmp (F64_Finite a) (F64_Finite b) = Some (cmp a b)"

definition f64_less :: "f64 \<Rightarrow> f64 \<Rightarrow> bool" where
  "f64_less a b \<longleftrightarrow> partial_cmp a b = Some Less"

definition f64_neg :: "f64 \<Rightarrow> f64" where
  "f64_neg x = (case x of F64_NaN \<Rightarrow> F64_NaN | F64_NegInf \<Rightarrow> F64_Inf | F64_Inf \<Rightarrow> F64_NegInf
     | F64_Finite q \<Rightarrow> F64_Finite (- q))"

section \<open>Rounding\<close>

definition pow2 :: "int \<Rightarrow> rat" where
  "pow2 e = (if e \<ge> 0 then 2 ^ nat e else 1 / 2 ^ nat (- e))"

text \<open>The exponent of the leading bit of \<open>n / d\<close>.\<close>

definition floor_log2 :: "nat \<Rightarrow> nat \<Rightarrow> int" where
  "floor_log2 n d =
     (let k = int (floorlog 2 n) - int (floorlog 2 d)
      in if of_nat d * pow2 k \<le> of_nat n then k else k - 1)"

definition round_half_even :: "rat \<Rightarrow> int" where
  "round_half_even q =
     (let f = floor q; r = q - of_int f
      in if r < 1 / 2 then f else if r > 1 / 2 then f + 1 else if even f then f else f + 1)"

text \<open>\<open>n / d\<close> as an \<open>f64\<close>: 53 significant bits, exponents from \<open>-1074\<close>, infinity from \<open>2\<^sup>1\<^sup>0\<^sup>2\<^sup>4\<close>.\<close>

definition f64_of_ratio :: "nat \<Rightarrow> nat \<Rightarrow> f64" where
  "f64_of_ratio n d =
     (if n = 0 then F64_Finite 0
      else let e = max (- 1074) (floor_log2 n d - 52);
               m = round_half_even (of_nat n / (of_nat d * pow2 e));
               v = of_int m * pow2 e
           in if v \<ge> 2 ^ 1024 then F64_Inf else F64_Finite v)"

section \<open>Parsing\<close>

text \<open>An optional exponent: the letter, an optional sign and at least one digit.\<close>

definition parse_exponent :: "string \<Rightarrow> int option" where
  "parse_exponent s =
     (case s of
        [] \<Rightarrow> Some 0
      | c # cs \<Rightarrow>
          if c \<noteq> CHR ''e'' \<and> c \<noteq> CHR ''E'' then None
          else let (neg, ds) = (case cs of
                      d # ds \<Rightarrow> if d = CHR ''-'' then (True, ds)
                                else if d = CHR ''+'' then (False, ds) else (False, cs)
                    | [] \<Rightarrow> (False, cs))
               in if digits ds
                  then Some (if neg then - int (digits_val ds) else int (digits_val ds)) else None)"

definition parse_number :: "string \<Rightarrow> f64 option" where
  "parse_number s =
     (let ip = takeWhile is_digit s;
          r = dropWhile is_digit s;
          (fp, rest) = (case r of
             c # cs \<Rightarrow> if c = CHR ''.'' then (takeWhile is_digit cs, dropWhile is_digit cs) else ([], r)
           | [] \<Rightarrow> ([], r))
      in if ip = [] \<and> fp = [] then None
         else map_option (\<lambda>e. let x = e - int (length fp) in
             f64_of_ratio (digits_val (ip @ fp) * 10 ^ nat x) (10 ^ nat (- x)))
           (parse_exponent rest))"

definition parse_f64 :: "string \<Rightarrow> f64 option" where
  "parse_f64 s =
     (let (neg, t) = (case s of
            c # cs \<Rightarrow> if c = CHR ''-'' then (True, cs)
                      else if c = CHR ''+'' then (False, cs) else (False, s)
          | [] \<Rightarrow> (False, s));
          l = to_ascii_lowercase t;
          v = (if l = ''inf'' \<or> l = ''infinity'' then Some F64_Inf
               else if l = ''nan'' then Some F64_NaN else parse_number t)
      in map_option (\<lambda>x. if neg then f64_neg x else x) v)"

section \<open>Facts\<close>

definition rev_ord :: "Ordering \<Rightarrow> Ordering" where
  "rev_ord r = (case r of Less \<Rightarrow> Greater | Equal \<Rightarrow> Equal | Greater \<Rightarrow> Less)"

lemma cmp_simps [simp]:
  "cmp a b = Less \<longleftrightarrow> a < b" "cmp a b = Equal \<longleftrightarrow> a = b" "cmp a b = Greater \<longleftrightarrow> b < a"
  "Less = cmp a b \<longleftrightarrow> a < b" "Equal = cmp a b \<longleftrightarrow> a = b" "Greater = cmp a b \<longleftrightarrow> b < a"
  for a b :: "'a::linorder"
  by (auto simp: cmp_def)

lemma rev_ord_cmp: "rev_ord (cmp a b) = cmp b a" for a b :: "'a::linorder"
  by (auto simp: rev_ord_def cmp_def)

lemma cmp_trans:
  "cmp a b \<noteq> Greater \<Longrightarrow> cmp b c \<noteq> Greater \<Longrightarrow> cmp a c = (if cmp a b = Equal then cmp b c else Less)"
  for a b c :: "'a::linorder"
  by (auto simp: not_less)

text \<open>The order of the values that are not NaN is the one of a pair of integers and rationals.\<close>

definition f64_rank :: "f64 \<Rightarrow> int" where
  "f64_rank x = (case x of F64_NegInf \<Rightarrow> - 1 | F64_Inf \<Rightarrow> 1 | _ \<Rightarrow> 0)"

definition f64_val :: "f64 \<Rightarrow> rat" where
  "f64_val x = (case x of F64_Finite q \<Rightarrow> q | _ \<Rightarrow> 0)"

lemma partial_cmp_rank:
  "a \<noteq> F64_NaN \<Longrightarrow> b \<noteq> F64_NaN \<Longrightarrow>
     partial_cmp a b = Some (if f64_rank a = f64_rank b then cmp (f64_val a) (f64_val b)
                             else cmp (f64_rank a) (f64_rank b))"
  by (cases a; cases b) (auto simp: f64_rank_def f64_val_def cmp_def)

lemma partial_cmp_NaN [simp]: "partial_cmp a b = None \<longleftrightarrow> a = F64_NaN \<or> b = F64_NaN"
  by (cases a; cases b) auto

lemma partial_cmp_not_NaN: "partial_cmp a b = Some r \<Longrightarrow> a \<noteq> F64_NaN \<and> b \<noteq> F64_NaN"
  by (metis option.distinct(1) partial_cmp_NaN)

end
