(* ===== verification/Ducklake_Types.thy ===== *)
theory Ducklake_Types
  imports Rust_Float
begin

text \<open>
  \<open>crates/rocklake-core/src/types.rs\<close>: the DuckLake type system, its parser, and the type-aware
  comparison of statistics that file pruning uses. Values of statistics are strings. A slice of
  a string at a position inside a character panics; the functions that can reach one return an
  option, with \<open>None\<close> for the panic.
\<close>

section \<open>Types\<close>

datatype DuckLakeType =
    Integer bool u16
  | Decimal u8 u8
  | is_Float: Float u16
  | Timestamp bool u8
  | Date
  | Time bool
  | Interval
  | Varchar
  | Blob
  | Boolean
  | Uuid
  | Json
  | Variant
  | Geometry
  | List DuckLakeType
  | Struct "(string \<times> DuckLakeType) list"
  | Map DuckLakeType DuckLakeType
  | Unknown string

datatype TypeCompareError =
    UnsupportedType string
  | ParseError string string
  | NanComparison

datatype PruneResult = Prune | Keep

section \<open>Parsing type names\<close>

text \<open>\<open>split_top_level\<close>: the loop over the characters with the nesting depth and the part that is
  being read.\<close>

fun split_top_level_loop :: "char \<Rightarrow> nat \<Rightarrow> string \<Rightarrow> string \<Rightarrow> string list" where
  "split_top_level_loop sep depth cur [] = [cur]"
| "split_top_level_loop sep depth cur (c # s) =
     (if c = CHR ''<'' then split_top_level_loop sep (depth + 1) (cur @ [c]) s
      else if c = CHR ''>'' then split_top_level_loop sep (depth - 1) (cur @ [c]) s
      else if c = sep \<and> depth = 0 then cur # split_top_level_loop sep depth [] s
      else split_top_level_loop sep depth (cur @ [c]) s)"

definition split_top_level :: "string \<Rightarrow> char \<Rightarrow> string list" where
  "split_top_level s sep = split_top_level_loop sep 0 [] s"

definition primitive_types :: "(string list \<times> DuckLakeType) list" where
  "primitive_types =
    [([''int8'', ''tinyint''], Integer True 8),
     ([''int16'', ''smallint'', ''short''], Integer True 16),
     ([''int32'', ''int'', ''integer'', ''signed''], Integer True 32),
     ([''int64'', ''bigint'', ''long''], Integer True 64),
     ([''int128'', ''hugeint''], Integer True 128),
     ([''uint8'', ''utinyint''], Integer False 8),
     ([''uint16'', ''usmallint''], Integer False 16),
     ([''uint32'', ''uinteger''], Integer False 32),
     ([''uint64'', ''ubigint''], Integer False 64),
     ([''uint128'', ''uhugeint''], Integer False 128),
     ([''float'', ''float32'', ''real''], Float 32),
     ([''double'', ''float64'', ''float8''], Float 64),
     ([''timestamp'', ''datetime''], Timestamp False 6),
     ([''timestamp with time zone'', ''timestamptz'', ''timestamp_tz''], Timestamp True 6),
     ([''timestamp_s''], Timestamp False 0),
     ([''timestamp_ms''], Timestamp False 3),
     ([''timestamp_us''], Timestamp False 6),
     ([''timestamp_ns''], Timestamp False 9),
     ([''date'', ''date32''], Date),
     ([''time'', ''time without time zone''], Time False),
     ([''time with time zone'', ''timetz'', ''time_tz''], Time True),
     ([''interval''], Interval),
     ([''varchar'', ''text'', ''string'', ''char'', ''bpchar'', ''name''], Varchar),
     ([''blob'', ''bytea'', ''binary'', ''varbinary''], Blob),
     ([''boolean'', ''bool'', ''logical''], Boolean),
     ([''uuid''], Uuid),
     ([''json''], Json),
     ([''variant''], Variant),
     ([''geometry'', ''wkb_blob''], Geometry),
     ([''decimal'', ''numeric''], Decimal 18 3)]"

definition parse_primitive :: "string \<Rightarrow> DuckLakeType" where
  "parse_primitive lower =
     (case find (\<lambda>(names, t). lower \<in> set names) primitive_types of
        Some (_, t) \<Rightarrow> t | None \<Rightarrow> Unknown lower)"

definition parse_decimal_type :: "string \<Rightarrow> DuckLakeType" where
  "parse_decimal_type lower =
     (let start = (case find_char CHR ''('' lower of Some i \<Rightarrow> i | None \<Rightarrow> 0) + 1;
          inner = drop start (take (length lower - 1) lower)
      in case split_char CHR '','' inner of
           [p, s] \<Rightarrow>
             Decimal (case parse_u8 (trim p) of Some n \<Rightarrow> n | None \<Rightarrow> 18)
                     (case parse_u8 (trim s) of Some n \<Rightarrow> n | None \<Rightarrow> 0)
         | _ \<Rightarrow> Decimal 18 0)"

lemma length_strip_words: "length (strip_words ws s) \<le> length s"
proof (induction ws s rule: strip_words.induct)
  case (1 ws s)
  show ?case
  proof (cases "find (\<lambda>w. w \<noteq> [] \<and> starts_with s w) ws")
    case None
    then show ?thesis by (simp add: strip_words.simps)
  next
    case (Some w)
    then show ?thesis using 1 [OF Some] by (simp add: strip_words.simps [of ws s])
  qed
qed

lemma length_trim: "length (trim s) \<le> length s"
  unfolding trim_def trim_end_def trim_start_def
  by (metis length_rev length_strip_words order_trans)

lemma length_to_ascii_lowercase [simp]: "length (to_ascii_lowercase s) = length s"
  by (simp add: to_ascii_lowercase_def)

lemma split_top_level_loop_part:
  "p \<in> set (split_top_level_loop sep d cur s) \<Longrightarrow> length p \<le> length cur + length s"
  by (induction sep d cur s rule: split_top_level_loop.induct) (auto split: if_splits)

lemma split_top_level_part:
  "p \<in> set (split_top_level s sep) \<Longrightarrow> length p \<le> length s"
  using split_top_level_loop_part [of p sep 0 "[]" s] by (simp add: split_top_level_def)

lemma starts_with_length: "starts_with s p \<Longrightarrow> length p \<le> length s"
  by (metis starts_with_def length_take min.cobounded1)

function (sequential) parse :: "string \<Rightarrow> DuckLakeType" where
  "parse s0 =
     (let s = trim s0; lower = trim (to_ascii_lowercase s)
      in if starts_with lower ''list<'' \<and> ends_with lower ''>'' then
           List (parse (drop 5 (take (length s - 1) s)))
         else if starts_with lower ''struct<'' \<and> ends_with lower ''>'' then
           Struct (concat (map (\<lambda>part.
               case find_char CHR '':'' part of
                 Some colon \<Rightarrow> [(trim (take colon part), parse (trim (drop (colon + 1) part)))]
               | None \<Rightarrow> [])
             (split_top_level (drop 7 (take (length s - 1) s)) CHR '','')))
         else
           case (if starts_with lower ''map<'' \<and> ends_with lower ''>''
                 then split_top_level (drop 4 (take (length s - 1) s)) CHR '','' else []) of
             [k, v] \<Rightarrow> Map (parse (trim k)) (parse (trim v))
           | _ \<Rightarrow>
               if (starts_with lower ''decimal('' \<or> starts_with lower ''numeric('') \<and>
                  ends_with lower '')''
               then parse_decimal_type lower
               else parse_primitive lower)"
  by pat_completeness auto

lemma nested_shorter:
  assumes "starts_with (trim (to_ascii_lowercase (trim s))) p" and "p \<noteq> []" and "n = length p"
  shows "length (drop n (take (length (trim s) - 1) (trim s))) < length s"
proof -
  have "length p \<le> length (trim (to_ascii_lowercase (trim s)))"
    by (rule starts_with_length [OF assms(1)])
  also have "\<dots> \<le> length (trim s)"
    using length_trim [of "to_ascii_lowercase (trim s)"] by simp
  finally have "length p \<le> length (trim s)" .
  moreover have "0 < length p"
    using assms(2) by simp
  ultimately have "0 < length (trim s)" "0 < n"
    using assms(3) by linarith+
  then have "length (trim s) - 1 - n < length (trim s)" by linarith
  then show ?thesis
    using length_trim [of s] by simp
qed

lemma trim_part_shorter:
  "p \<in> set (split_top_level t sep) \<Longrightarrow> length t < n \<Longrightarrow>
     length (trim p) < n \<and> length (trim (drop k p)) < n"
  using split_top_level_part [of p t sep] length_trim [of "drop k p"] length_trim [of p] by simp

termination parse
proof (relation "measure length", simp, goal_cases)
  case (1 s0 s lower)
  then show ?case
    using nested_shorter [of s0 "''list<''" 5] by simp
next
  case (2 s0 s lower part colon)
  then show ?case
    using nested_shorter [of s0 "''struct<''" 7]
      trim_part_shorter [of part "drop 7 (take (length s - 1) s)" "CHR '',''" "length s0" "colon + 1"]
    by simp
next
  case (3 s0 s lower k ks v vs)
  then show ?case
    using nested_shorter [of s0 "''map<''" 4]
      trim_part_shorter [of k "drop 4 (take (length s - 1) s)" "CHR '',''" "length s0"]
    by (simp split: if_splits)
next
  case (4 s0 s lower k ks v vs)
  then show ?case
    using nested_shorter [of s0 "''map<''" 4]
      trim_part_shorter [of v "drop 4 (take (length s - 1) s)" "CHR '',''" "length s0"]
    by (simp split: if_splits)
qed

declare parse.simps [simp del]

section \<open>Parsing values\<close>

text \<open>\<open>-val\<close> at \<open>i128\<close> in a release build: the negation of the least value wraps.\<close>

definition neg_i128 :: "int \<Rightarrow> int" where
  "neg_i128 v = (if v = - (2 ^ 127) then v else - v)"

text \<open>\<open>format!("{:0<18}", s)\<close> pads with zeros on the right to 18 characters.\<close>

definition pad_zeros :: "nat \<Rightarrow> string \<Rightarrow> string" where
  "pad_zeros width s = s @ replicate (width - char_count s) CHR ''0''"

definition parse_decimal :: "string \<Rightarrow> int option option" where
  "parse_decimal s0 =
     (let s1 = trim s0;
          negative = starts_with s1 ''-'';
          s = trim_start_matches CHR ''+'' (trim_start_matches CHR ''-'' s1);
          (integer_part, decimal_part) = (case find_char CHR ''.'' s of
              Some dot_pos \<Rightarrow> (take dot_pos s, drop (dot_pos + 1) s)
            | None \<Rightarrow> (s, []))
      in map_option (\<lambda>frac.
           map_option (\<lambda>val. if negative then neg_i128 val else val)
             (parse_i128 (integer_part @ frac)))
         (slice_to (pad_zeros 18 decimal_part) 18))"

text \<open>The literals compared with contain no letter that is the lower case of a character outside
  ASCII, so \<open>to_lowercase\<close> and \<open>to_ascii_lowercase\<close> select the same strings.\<close>

definition parse_float :: "string \<Rightarrow> f64 option" where
  "parse_float s =
     (let l = to_ascii_lowercase s
      in if l \<in> set [''inf'', ''infinity'', ''+inf'', ''+infinity''] then Some F64_Inf
         else if l \<in> set [''-inf'', ''-infinity''] then Some F64_NegInf
         else if l = ''nan'' then Some F64_NaN
         else parse_f64 s)"

definition compare_floats :: "f64 \<Rightarrow> f64 \<Rightarrow> TypeCompareError + Ordering" where
  "compare_floats a b = ok_or NanComparison (partial_cmp a b)"

definition parse_bool :: "string \<Rightarrow> bool option" where
  "parse_bool s =
     (let l = to_ascii_lowercase s
      in if l \<in> set [''true'', ''t'', ''1'', ''yes''] then Some True
         else if l \<in> set [''false'', ''f'', ''0'', ''no''] then Some False
         else None)"

section \<open>Comparing values\<close>

text \<open>\<open>let l = f(left).map_err(..)?; let r = f(right).map_err(..)?; Ok(l.cmp(&r))\<close>.\<close>

definition compare_parsed ::
  "string \<Rightarrow> (string \<Rightarrow> 'a option) \<Rightarrow> ('a \<Rightarrow> 'a \<Rightarrow> TypeCompareError + Ordering)
     \<Rightarrow> string \<Rightarrow> string \<Rightarrow> TypeCompareError + Ordering" where
  "compare_parsed type_name f compare left right =
     rbind (ok_or (ParseError left type_name) (f left)) (\<lambda>l.
     rbind (ok_or (ParseError right type_name) (f right)) (\<lambda>r.
       compare l r))"

text \<open>Decimals: both calls of \<open>parse_decimal\<close> can panic, the second is only made after the first
  one succeeded.\<close>

definition compare_decimals :: "string \<Rightarrow> string \<Rightarrow> (TypeCompareError + Ordering) option" where
  "compare_decimals left right =
     (case parse_decimal left of
        None \<Rightarrow> None
      | Some None \<Rightarrow> Some (Inl (ParseError left ''decimal''))
      | Some (Some l) \<Rightarrow>
          (case parse_decimal right of
             None \<Rightarrow> None
           | Some None \<Rightarrow> Some (Inl (ParseError right ''decimal''))
           | Some (Some r) \<Rightarrow> Some (Inr (cmp l r))))"

definition type_aware_compare ::
  "string \<Rightarrow> string \<Rightarrow> DuckLakeType \<Rightarrow> (TypeCompareError + Ordering) option" where
  "type_aware_compare left right col_type =
     (case col_type of
        Integer is_signed _ \<Rightarrow>
          Some (if is_signed
            then compare_parsed ''signed integer'' parse_i128 (\<lambda>l r. Inr (cmp l r)) left right
            else compare_parsed ''unsigned integer'' parse_u128 (\<lambda>l r. Inr (cmp l r)) left right)
      | Decimal _ _ \<Rightarrow> compare_decimals left right
      | Float _ \<Rightarrow> Some (compare_parsed ''float'' parse_float compare_floats left right)
      | Timestamp _ _ \<Rightarrow> Some (Inr (cmp left right))
      | Date \<Rightarrow> Some (Inr (cmp left right))
      | Time _ \<Rightarrow> Some (Inr (cmp left right))
      | Varchar \<Rightarrow> Some (Inr (cmp left right))
      | Uuid \<Rightarrow> Some (Inr (cmp left right))
      | Json \<Rightarrow> Some (Inr (cmp left right))
      | Variant \<Rightarrow> Some (Inr Equal)
      | Geometry \<Rightarrow> Some (Inr Equal)
      | List _ \<Rightarrow> Some (Inr Equal)
      | Struct _ \<Rightarrow> Some (Inr Equal)
      | Map _ _ \<Rightarrow> Some (Inr Equal)
      | Boolean \<Rightarrow> Some (compare_parsed ''boolean'' parse_bool (\<lambda>l r. Inr (cmp l r)) left right)
      | Blob \<Rightarrow> Some (Inr (cmp left right))
      | Interval \<Rightarrow> Some (Inr (cmp left right))
      | Unknown name \<Rightarrow> Some (Inl (UnsupportedType name)))"

section \<open>Pruning one file\<close>

text \<open>One bound of \<open>prune_file\<close>: \<open>outside\<close> is the outcome of the comparison that prunes,
  \<open>next\<close> the rest of the function.\<close>

definition check_bound ::
  "string \<Rightarrow> string option \<Rightarrow> Ordering \<Rightarrow> DuckLakeType \<Rightarrow> (TypeCompareError + PruneResult) option
     \<Rightarrow> (TypeCompareError + PruneResult) option" where
  "check_bound predicate_value bound outside col_type next =
     (case bound of
        None \<Rightarrow> next
      | Some b \<Rightarrow>
          if b = [] then next
          else (case type_aware_compare predicate_value b col_type of
                  None \<Rightarrow> None
                | Some (Inl NanComparison) \<Rightarrow> Some (Inr Keep)
                | Some (Inl e) \<Rightarrow> Some (Inl e)
                | Some (Inr r) \<Rightarrow> if r = outside then Some (Inr Prune) else next))"

definition prune_file ::
  "(DuckLakeType \<Rightarrow> string) \<Rightarrow> string \<Rightarrow> string option \<Rightarrow> string option \<Rightarrow> bool \<Rightarrow> DuckLakeType
     \<Rightarrow> (TypeCompareError + PruneResult) option" where
  "prune_file debug predicate_value min_value max_value contains_nan col_type =
     (case col_type of
        Unknown _ \<Rightarrow> Some (Inl (UnsupportedType (debug col_type)))
      | Variant \<Rightarrow> Some (Inr Keep)
      | Geometry \<Rightarrow> Some (Inr Keep)
      | Json \<Rightarrow> Some (Inr Keep)
      | List _ \<Rightarrow> Some (Inr Keep)
      | Struct _ \<Rightarrow> Some (Inr Keep)
      | Map _ _ \<Rightarrow> Some (Inr Keep)
      | _ \<Rightarrow>
          if is_Float col_type \<and> (predicate_value = ''NaN'' \<or> predicate_value = ''nan'')
          then Some (Inr (if contains_nan then Keep else Prune))
          else check_bound predicate_value min_value Less col_type
                 (check_bound predicate_value max_value Greater col_type (Some (Inr Keep))))"

section \<open>Geometry statistics\<close>

record GeometryExtraStats =
  ge_min_x :: "f64 option"
  ge_max_x :: "f64 option"
  ge_min_y :: "f64 option"
  ge_max_y :: "f64 option"
  ge_min_z :: "f64 option"
  ge_max_z :: "f64 option"
  ge_min_m :: "f64 option"
  ge_max_m :: "f64 option"
  ge_geometry_type :: "string option"
  ge_srid :: "32 word option"

definition check_axis ::
  "(f64 \<Rightarrow> string) \<Rightarrow> string \<Rightarrow> f64 option \<Rightarrow> f64 option \<Rightarrow> string + unit" where
  "check_axis show_f64 axis mn mx =
     (case (mn, mx) of
        (Some a, Some b) \<Rightarrow>
          if f64_less b a
          then Inl (''min_'' @ axis @ '' ('' @ show_f64 a @ '') > max_'' @ axis @ '' ('' @ show_f64 b @ '')'')
          else Inr ()
      | _ \<Rightarrow> Inr ())"

text \<open>\<open>GeometryExtraStats::validate\<close>; the display of an \<open>f64\<close> in the messages is the argument
  \<open>show_f64\<close>.\<close>

definition validate_geometry :: "(f64 \<Rightarrow> string) \<Rightarrow> GeometryExtraStats \<Rightarrow> string + unit" where
  "validate_geometry show_f64 g =
     rbind (check_axis show_f64 ''x'' (ge_min_x g) (ge_max_x g)) (\<lambda>_.
     rbind (check_axis show_f64 ''y'' (ge_min_y g) (ge_max_y g)) (\<lambda>_.
     rbind (check_axis show_f64 ''z'' (ge_min_z g) (ge_max_z g)) (\<lambda>_.
       check_axis show_f64 ''m'' (ge_min_m g) (ge_max_m g))))"

definition outside_axis :: "f64 \<Rightarrow> f64 option \<Rightarrow> f64 option \<Rightarrow> bool" where
  "outside_axis v mn mx =
     (case (mn, mx) of
        (Some a, Some b) \<Rightarrow> f64_less v a \<or> f64_less b v
      | _ \<Rightarrow> False)"

definition prune_by_point :: "GeometryExtraStats \<Rightarrow> f64 \<Rightarrow> f64 \<Rightarrow> PruneResult" where
  "prune_by_point g x y =
     (if outside_axis x (ge_min_x g) (ge_max_x g) then Prune
      else if outside_axis y (ge_min_y g) (ge_max_y g) then Prune
      else Keep)"

text \<open>\<open>serde_json::from_str\<close> is the argument \<open>from_str\<close>: its error message, or nothing.\<close>

definition validate_extra_stats ::
  "(string \<Rightarrow> string + unit) \<Rightarrow> string option \<Rightarrow> string + unit" where
  "validate_extra_stats from_str extra_stats =
     (case extra_stats of
        Some s \<Rightarrow>
          if s \<noteq> [] then map_err (\<lambda>e. ''extra_stats is not valid JSON: '' @ e) (from_str s)
          else Inr ()
      | None \<Rightarrow> Inr ())"

section \<open>The comparison is a total preorder\<close>

text \<open>The values a type accepts, and the order of two such values.\<close>

definition comparable :: "DuckLakeType \<Rightarrow> string \<Rightarrow> bool" where
  "comparable t v \<longleftrightarrow> type_aware_compare v v t = Some (Inr Equal)"

definition value_le :: "DuckLakeType \<Rightarrow> string \<Rightarrow> string \<Rightarrow> bool" where
  "value_le t a b \<longleftrightarrow> (\<exists>r. type_aware_compare a b t = Some (Inr r) \<and> r \<noteq> Greater)"

text \<open>What the clients of a comparison rely on: outcomes are symmetric, every value that can be
  compared at all equals itself and can be compared with every other such value, and the order is
  transitive, strictly so when one of the steps is strict.\<close>

definition preorder_cmp :: "(string \<Rightarrow> string \<Rightarrow> (TypeCompareError + Ordering) option) \<Rightarrow> bool" where
  "preorder_cmp f \<longleftrightarrow>
     (\<forall>a b r. f a b = Some (Inr r) \<longrightarrow>
        f b a = Some (Inr (rev_ord r)) \<and> f a a = Some (Inr Equal) \<and> f b b = Some (Inr Equal)) \<and>
     (\<forall>a b. f a a = Some (Inr Equal) \<longrightarrow> f b b = Some (Inr Equal) \<longrightarrow> (\<exists>r. f a b = Some (Inr r))) \<and>
     (\<forall>a b c r q. f a b = Some (Inr r) \<longrightarrow> r \<noteq> Greater \<longrightarrow> f b c = Some (Inr q) \<longrightarrow> q \<noteq> Greater \<longrightarrow>
        f a c = Some (Inr (if r = Equal then q else Less)))"

text \<open>Every branch of the comparison compares the images of the values under a function into a
  linear order, where it is defined.\<close>

locale keyed_compare =
  fixes f :: "string \<Rightarrow> string \<Rightarrow> (TypeCompareError + Ordering) option"
    and key :: "string \<Rightarrow> 'k::linorder option"
  assumes keys: "key a = Some x \<Longrightarrow> key b = Some y \<Longrightarrow> f a b = Some (Inr (cmp x y))"
    and no_key: "key a = None \<or> key b = None \<Longrightarrow> f a b \<noteq> Some (Inr r)"
begin

lemma cmp_iff: "f a b = Some (Inr r) \<longleftrightarrow> (\<exists>x y. key a = Some x \<and> key b = Some y \<and> r = cmp x y)"
  using keys [of a _ b] no_key [of a b r] by (cases "key a"; cases "key b") auto

lemma symmetric: "f a b = Some (Inr r) \<Longrightarrow> f b a = Some (Inr (rev_ord r))"
  unfolding cmp_iff using rev_ord_cmp by metis

lemma reflexive: "f a b = Some (Inr r) \<Longrightarrow> f a a = Some (Inr Equal) \<and> f b b = Some (Inr Equal)"
  by (auto simp: cmp_iff)

lemma total: "f a a = Some (Inr Equal) \<Longrightarrow> f b b = Some (Inr Equal) \<Longrightarrow> \<exists>r. f a b = Some (Inr r)"
  by (auto simp: cmp_iff)

lemma transitive:
  "f a b = Some (Inr r) \<Longrightarrow> r \<noteq> Greater \<Longrightarrow> f b c = Some (Inr q) \<Longrightarrow> q \<noteq> Greater \<Longrightarrow>
     f a c = Some (Inr (if r = Equal then q else Less))"
  unfolding cmp_iff using cmp_trans by (metis option.inject)

lemma preorder: "preorder_cmp f"
  unfolding preorder_cmp_def using symmetric reflexive total transitive by meson

end

lemma compare_parsed_Inr:
  "compare_parsed n f g a b = Inr r \<longleftrightarrow> (\<exists>x y. f a = Some x \<and> f b = Some y \<and> g x y = Inr r)"
  by (auto simp: compare_parsed_def rbind_eq_Inr_iff)

interpretation signed_compare: keyed_compare
    "\<lambda>a b. Some (compare_parsed ''signed integer'' parse_i128 (\<lambda>l r. Inr (cmp l r)) a b)" parse_i128
  by unfold_locales (auto simp: compare_parsed_Inr)

interpretation unsigned_compare: keyed_compare
    "\<lambda>a b. Some (compare_parsed ''unsigned integer'' parse_u128 (\<lambda>l r. Inr (cmp l r)) a b)" parse_u128
  by unfold_locales (auto simp: compare_parsed_Inr)

interpretation boolean_compare: keyed_compare
    "\<lambda>a b. Some (compare_parsed ''boolean'' parse_bool (\<lambda>l r. Inr (cmp l r)) a b)" parse_bool
  by unfold_locales (auto simp: compare_parsed_Inr)

interpretation decimal_compare: keyed_compare compare_decimals
    "\<lambda>s. case parse_decimal s of Some (Some v) \<Rightarrow> Some v | _ \<Rightarrow> None"
  by unfold_locales (auto simp: compare_decimals_def split: option.splits)

interpretation string_compare: keyed_compare "\<lambda>a b. Some (Inr (cmp a b))" "\<lambda>s. Some s"
  by unfold_locales simp_all

interpretation constant_compare: keyed_compare "\<lambda>a b. Some (Inr Equal)" "\<lambda>s. Some (0 :: int)"
  by unfold_locales auto

definition float_key :: "string \<Rightarrow> rat list option" where
  "float_key s =
     (case parse_float s of
        None \<Rightarrow> None
      | Some x \<Rightarrow> if x = F64_NaN then None else Some [of_int (f64_rank x), f64_val x])"

lemma cmp_pair: "cmp [a, b] [c, d] = (if a = c then cmp b d else cmp a c)" for a :: "'a::linorder"
  by (auto simp: cmp_def)

lemma cmp_of_int: "cmp (of_int a :: rat) (of_int b) = cmp a b"
  by (auto simp: cmp_def)

interpretation float_compare: keyed_compare
    "\<lambda>a b. Some (compare_parsed ''float'' parse_float compare_floats a b)" float_key
  by unfold_locales
    (auto simp: compare_parsed_Inr compare_floats_def float_key_def partial_cmp_rank cmp_pair
      cmp_of_int split: option.splits if_splits dest: partial_cmp_not_NaN)

lemma unknown_compare: "preorder_cmp (\<lambda>a b. Some (Inl e))"
  by (simp add: preorder_cmp_def)

lemma integer_compare:
  "preorder_cmp (\<lambda>a b. Some (if is_signed
     then compare_parsed ''signed integer'' parse_i128 (\<lambda>l r. Inr (cmp l r)) a b
     else compare_parsed ''unsigned integer'' parse_u128 (\<lambda>l r. Inr (cmp l r)) a b))"
  by (cases is_signed) (simp_all add: signed_compare.preorder unsigned_compare.preorder)

lemma type_aware_compare_preorder: "preorder_cmp (\<lambda>a b. type_aware_compare a b t)"
  by (cases t)
    (simp_all add: type_aware_compare_def integer_compare
      boolean_compare.preorder decimal_compare.preorder string_compare.preorder
      constant_compare.preorder float_compare.preorder unknown_compare)

section \<open>Pruning keeps every file that can match\<close>

text \<open>A value of a column satisfies the predicate when it compares equal to it, or both are NaN.\<close>

definition value_matches :: "DuckLakeType \<Rightarrow> string \<Rightarrow> string \<Rightarrow> bool" where
  "value_matches t p x \<longleftrightarrow>
     type_aware_compare p x t = Some (Inr Equal) \<or>
     is_Float t \<and> parse_float p = Some F64_NaN \<and> parse_float x = Some F64_NaN"

text \<open>Statistics describe a value: it lies between the bounds that are present, or it is NaN and the
  NaN flag is set. Bounds are values of the type that are not NaN.\<close>

definition stats_cover :: "DuckLakeType \<Rightarrow> string option \<Rightarrow> string option \<Rightarrow> bool \<Rightarrow> string \<Rightarrow> bool" where
  "stats_cover t mn mx nan x \<longleftrightarrow>
     (\<forall>m. mn = Some m \<longrightarrow> m \<noteq> [] \<longrightarrow> comparable t m) \<and> (\<forall>m. mx = Some m \<longrightarrow> m \<noteq> [] \<longrightarrow> comparable t m) \<and>
     (if is_Float t \<and> parse_float x = Some F64_NaN then nan
      else (\<forall>m. mn = Some m \<longrightarrow> m \<noteq> [] \<longrightarrow> value_le t m x) \<and>
           (\<forall>m. mx = Some m \<longrightarrow> m \<noteq> [] \<longrightarrow> value_le t x m))"

lemmas compare_order = type_aware_compare_preorder [unfolded preorder_cmp_def]
lemmas compare_sym = compare_order [THEN conjunct1, rule_format, THEN conjunct1]
lemmas compare_trans = compare_order [THEN conjunct2, THEN conjunct2, rule_format]

lemma value_ge_match:
  assumes "value_le t x m" and "type_aware_compare p x t = Some (Inr Equal)"
  shows "\<exists>r. type_aware_compare p m t = Some (Inr r) \<and> r \<noteq> Greater"
proof -
  obtain r where r: "type_aware_compare x m t = Some (Inr r)" "r \<noteq> Greater"
    using assms(1) by (auto simp: value_le_def)
  from compare_trans [OF assms(2) _ this] r(2) show ?thesis by simp
qed

lemma value_le_match:
  assumes "value_le t m x" and "type_aware_compare p x t = Some (Inr Equal)"
  shows "\<exists>r. type_aware_compare p m t = Some (Inr r) \<and> r \<noteq> Less"
proof -
  obtain r where r: "type_aware_compare m x t = Some (Inr r)" "r \<noteq> Greater"
    using assms(1) by (auto simp: value_le_def)
  have "type_aware_compare x p t = Some (Inr Equal)"
    using compare_sym [OF assms(2)] by (simp add: rev_ord_def)
  from compare_sym [OF compare_trans [OF r this]] r(2) show ?thesis
    by (cases r) (simp_all add: rev_ord_def)
qed

lemma parse_float_NaN: "parse_float ''NaN'' = Some F64_NaN" "parse_float ''nan'' = Some F64_NaN"
  by code_simp+

lemma check_bound_keep:
  assumes "\<And>m. bound = Some m \<Longrightarrow> m \<noteq> [] \<Longrightarrow>
      (\<exists>r. type_aware_compare p m t = Some (Inr r) \<and> r \<noteq> outside) \<or>
      type_aware_compare p m t = Some (Inl NanComparison)"
    and "rest = Some (Inr Keep)"
  shows "check_bound p bound outside t rest = Some (Inr Keep)"
  using assms by (cases bound) (auto simp: check_bound_def)

lemma compare_NaN:
  assumes "is_Float t" and "parse_float p = Some F64_NaN" and "comparable t m"
  shows "type_aware_compare p m t = Some (Inl NanComparison)"
proof -
  from assms(1) obtain w where t: "t = Float w" by (cases t) auto
  obtain y where "parse_float m = Some y"
    using assms(3) by (auto simp: comparable_def t type_aware_compare_def compare_parsed_Inr)
  then show ?thesis
    using assms(2) by (simp add: t type_aware_compare_def compare_parsed_def compare_floats_def)
qed

lemma prune_file_keeps:
  assumes "value_matches t p x" and "stats_cover t mn mx nan x"
  shows "prune_file debug p mn mx nan t = Some (Inr Keep)"
proof (cases "is_Float t \<and> parse_float p = Some F64_NaN")
  case True
  then have n: "\<And>m. comparable t m \<Longrightarrow> type_aware_compare p m t = Some (Inl NanComparison)"
    using compare_NaN by blast
  from True obtain w where t: "t = Float w" by (cases t) auto
  from True have x: "parse_float x = Some F64_NaN"
    using assms(1) by (auto simp: value_matches_def t type_aware_compare_def compare_parsed_Inr
        compare_floats_def)
  then have "nan" using assms(2) by (simp add: stats_cover_def t)
  moreover have "check_bound p mn Less t (check_bound p mx Greater t (Some (Inr Keep))) = Some (Inr Keep)"
    using assms(2) n by (intro check_bound_keep) (auto simp: stats_cover_def)
  ultimately show ?thesis by (simp add: prune_file_def t)
next
  case False
  then have eq: "type_aware_compare p x t = Some (Inr Equal)"
    using assms(1) by (auto simp: value_matches_def)
  have x: "\<not> (is_Float t \<and> parse_float x = Some F64_NaN)"
  proof
    assume "is_Float t \<and> parse_float x = Some F64_NaN"
    then obtain w where "t = Float w" "parse_float x = Some F64_NaN" by (cases t) auto
    with eq show False
      by (auto simp: type_aware_compare_def compare_parsed_Inr compare_floats_def dest: partial_cmp_not_NaN)
  qed
  have cb: "check_bound p mn Less t (check_bound p mx Greater t (Some (Inr Keep))) = Some (Inr Keep)"
    using assms(2) x value_le_match [OF _ eq] value_ge_match [OF _ eq]
    by (intro check_bound_keep) (auto simp: stats_cover_def)
  have "\<not> (is_Float t \<and> (p = ''NaN'' \<or> p = ''nan''))"
    using False parse_float_NaN by blast
  then show ?thesis
    using eq cb by (cases t) (auto simp: prune_file_def type_aware_compare_def)
qed

end
