(* ===== verification/Tags.thy ===== *)
theory Tags
  imports Prelude
begin

text \<open>
  \<open>crates/rocklake-core/src/tags.rs\<close>: the tag bytes that open every catalog key, the counter
  and system-key suffixes, and the registry \<open>ALL_TAGS\<close> with its lookup.
\<close>

named_theorems tag_defs \<open>values of the tag, counter and suffix constants\<close>

section \<open>Descriptors\<close>

datatype TagStatus = Live | Deferred u8 | Unimplemented

datatype MvccBehavior = Versioned | AppendOnly | MutableSingleton | Custom

datatype UniqueGuard = NotNeeded | Required

record TagDescriptor =
  td_tag :: u8
  td_name :: string
  td_key_shape :: string
  td_mvcc :: MvccBehavior
  td_unique_guard :: UniqueGuard
  td_status :: TagStatus

section \<open>Constants\<close>

definition TAG_METADATA :: u8 where
  [tag_defs]: "TAG_METADATA = 0x01"

definition TAG_SNAPSHOT :: u8 where
  [tag_defs]: "TAG_SNAPSHOT = 0x02"

definition TAG_SNAPSHOT_CHANGES :: u8 where
  [tag_defs]: "TAG_SNAPSHOT_CHANGES = 0x03"

definition TAG_SCHEMA :: u8 where
  [tag_defs]: "TAG_SCHEMA = 0x04"

definition TAG_TABLE :: u8 where
  [tag_defs]: "TAG_TABLE = 0x05"

definition TAG_COLUMN :: u8 where
  [tag_defs]: "TAG_COLUMN = 0x06"

definition TAG_VIEW :: u8 where
  [tag_defs]: "TAG_VIEW = 0x07"

definition TAG_MACRO :: u8 where
  [tag_defs]: "TAG_MACRO = 0x08"

definition TAG_MACRO_IMPL :: u8 where
  [tag_defs]: "TAG_MACRO_IMPL = 0x09"

definition TAG_MACRO_PARAMETERS :: u8 where
  [tag_defs]: "TAG_MACRO_PARAMETERS = 0x0A"

definition TAG_DATA_FILE :: u8 where
  [tag_defs]: "TAG_DATA_FILE = 0x0B"

definition TAG_DELETE_FILE :: u8 where
  [tag_defs]: "TAG_DELETE_FILE = 0x0C"

definition TAG_FILES_SCHEDULED_FOR_DELETION :: u8 where
  [tag_defs]: "TAG_FILES_SCHEDULED_FOR_DELETION = 0x0D"

definition TAG_INLINED_DATA_TABLES :: u8 where
  [tag_defs]: "TAG_INLINED_DATA_TABLES = 0x0E"

definition TAG_COLUMN_MAPPING :: u8 where
  [tag_defs]: "TAG_COLUMN_MAPPING = 0x0F"

definition TAG_NAME_MAPPING :: u8 where
  [tag_defs]: "TAG_NAME_MAPPING = 0x10"

definition TAG_TABLE_STATS :: u8 where
  [tag_defs]: "TAG_TABLE_STATS = 0x11"

definition TAG_TABLE_COLUMN_STATS :: u8 where
  [tag_defs]: "TAG_TABLE_COLUMN_STATS = 0x12"

definition TAG_FILE_COLUMN_STATS :: u8 where
  [tag_defs]: "TAG_FILE_COLUMN_STATS = 0x13"

definition TAG_FILE_VARIANT_STATS :: u8 where
  [tag_defs]: "TAG_FILE_VARIANT_STATS = 0x14"

definition TAG_PARTITION_INFO :: u8 where
  [tag_defs]: "TAG_PARTITION_INFO = 0x15"

definition TAG_PARTITION_COLUMN :: u8 where
  [tag_defs]: "TAG_PARTITION_COLUMN = 0x16"

definition TAG_FILE_PARTITION_VALUE :: u8 where
  [tag_defs]: "TAG_FILE_PARTITION_VALUE = 0x17"

definition TAG_SORT_INFO :: u8 where
  [tag_defs]: "TAG_SORT_INFO = 0x18"

definition TAG_SORT_EXPRESSION :: u8 where
  [tag_defs]: "TAG_SORT_EXPRESSION = 0x19"

definition TAG_TAG :: u8 where
  [tag_defs]: "TAG_TAG = 0x1A"

definition TAG_COLUMN_TAG :: u8 where
  [tag_defs]: "TAG_COLUMN_TAG = 0x1B"

definition TAG_SCHEMA_VERSIONS :: u8 where
  [tag_defs]: "TAG_SCHEMA_VERSIONS = 0x1C"

definition TAG_ENCRYPTED_SECRET :: u8 where
  [tag_defs]: "TAG_ENCRYPTED_SECRET = 0x24"

definition TAG_ENCRYPTION_KEY :: u8 where
  [tag_defs]: "TAG_ENCRYPTION_KEY = 0x25"

definition TAG_SNAPSHOT_LEASE :: u8 where
  [tag_defs]: "TAG_SNAPSHOT_LEASE = 0x22"

definition TAG_EXTENSION_SCHEMA :: u8 where
  [tag_defs]: "TAG_EXTENSION_SCHEMA = 0x23"

definition TAG_DATA_FILE_BY_SNAPSHOT :: u8 where
  [tag_defs]: "TAG_DATA_FILE_BY_SNAPSHOT = 0x21"

definition TAG_TABLE_BY_ID :: u8 where
  [tag_defs]: "TAG_TABLE_BY_ID = 0xFC"

definition TAG_INLINED_ROWS :: u8 where
  [tag_defs]: "TAG_INLINED_ROWS = 0xFD"

definition TAG_COUNTERS :: u8 where
  [tag_defs]: "TAG_COUNTERS = 0xFE"

definition TAG_SYSTEM :: u8 where
  [tag_defs]: "TAG_SYSTEM = 0xFF"

definition INLINED_SUBTYPE_INSERT :: u8 where
  [tag_defs]: "INLINED_SUBTYPE_INSERT = 0x01"

definition INLINED_SUBTYPE_DELETE :: u8 where
  [tag_defs]: "INLINED_SUBTYPE_DELETE = 0x02"

definition COUNTER_NEXT_SNAPSHOT_ID :: u8 where
  [tag_defs]: "COUNTER_NEXT_SNAPSHOT_ID = 0x01"

definition COUNTER_NEXT_CATALOG_ID :: u8 where
  [tag_defs]: "COUNTER_NEXT_CATALOG_ID = 0x02"

definition COUNTER_NEXT_FILE_ID :: u8 where
  [tag_defs]: "COUNTER_NEXT_FILE_ID = 0x03"

definition COUNTER_NEXT_CHECKPOINT_ID :: u8 where
  [tag_defs]: "COUNTER_NEXT_CHECKPOINT_ID = 0x04"

definition COUNTER_NEXT_EXCISION_SEQ :: u8 where
  [tag_defs]: "COUNTER_NEXT_EXCISION_SEQ = 0x05"

definition COUNTER_NEXT_COLUMN_ID_PREFIX :: u8 where
  [tag_defs]: "COUNTER_NEXT_COLUMN_ID_PREFIX = 0x10"

definition COUNTER_NEXT_ROWID_PREFIX :: u8 where
  [tag_defs]: "COUNTER_NEXT_ROWID_PREFIX = 0x11"

definition SYSTEM_WRITER_EPOCH :: bytes where
  [tag_defs]: "SYSTEM_WRITER_EPOCH = str_bytes ''writer-epoch''"

definition SYSTEM_WRITER_NONCE :: bytes where
  [tag_defs]: "SYSTEM_WRITER_NONCE = str_bytes ''writer-nonce''"

definition SYSTEM_ENDPOINT :: bytes where
  [tag_defs]: "SYSTEM_ENDPOINT = str_bytes ''endpoint''"

definition SYSTEM_RETAIN_FROM :: bytes where
  [tag_defs]: "SYSTEM_RETAIN_FROM = str_bytes ''retain-from''"

definition SYSTEM_CATALOG_FORMAT_VERSION :: bytes where
  [tag_defs]: "SYSTEM_CATALOG_FORMAT_VERSION = str_bytes ''catalog-format-version''"

definition SYSTEM_EXCISED_PREFIX :: bytes where
  [tag_defs]: "SYSTEM_EXCISED_PREFIX = str_bytes ''excised''"

definition SYSTEM_HOT_KEY :: bytes where
  [tag_defs]: "SYSTEM_HOT_KEY = str_bytes ''hot-key''"

definition SYSTEM_KEY_ENCODING_V020_MIGRATED :: bytes where
  [tag_defs]: "SYSTEM_KEY_ENCODING_V020_MIGRATED = str_bytes ''key-encoding-v020-migrated''"

definition TAG_SECONDARY_INDEX :: u8 where
  [tag_defs]: "TAG_SECONDARY_INDEX = 0xFC"

definition CATALOG_FORMAT_VERSION :: u32 where
  [tag_defs]: "CATALOG_FORMAT_VERSION = 1"

section \<open>The registry\<close>

text \<open>\<open>ALL_TAGS\<close> in the order of the source, in two halves.\<close>

definition ALL_TAGS_catalog :: "TagDescriptor list" where
  "ALL_TAGS_catalog =
  [\<lparr>td_tag = TAG_METADATA, td_name = ''ducklake_metadata'',
     td_key_shape = ''scope_enum | scope_id | length-prefixed UTF-8 key'',
     td_mvcc = MutableSingleton, td_unique_guard = NotNeeded, td_status = Live\<rparr>,
   \<lparr>td_tag = TAG_SNAPSHOT, td_name = ''ducklake_snapshot'',
     td_key_shape = ''snapshot_id'',
     td_mvcc = AppendOnly, td_unique_guard = NotNeeded, td_status = Live\<rparr>,
   \<lparr>td_tag = TAG_SNAPSHOT_CHANGES, td_name = ''ducklake_snapshot_changes'',
     td_key_shape = ''snapshot_id'',
     td_mvcc = AppendOnly, td_unique_guard = NotNeeded, td_status = Live\<rparr>,
   \<lparr>td_tag = TAG_SCHEMA, td_name = ''ducklake_schema'',
     td_key_shape = ''schema_id'',
     td_mvcc = Versioned, td_unique_guard = Required, td_status = Live\<rparr>,
   \<lparr>td_tag = TAG_TABLE, td_name = ''ducklake_table'',
     td_key_shape = ''schema_id | table_id | begin_snapshot'',
     td_mvcc = Versioned, td_unique_guard = Required, td_status = Live\<rparr>,
   \<lparr>td_tag = TAG_COLUMN, td_name = ''ducklake_column'',
     td_key_shape = ''table_id | column_id | begin_snapshot'',
     td_mvcc = Versioned, td_unique_guard = NotNeeded, td_status = Live\<rparr>,
   \<lparr>td_tag = TAG_VIEW, td_name = ''ducklake_view'',
     td_key_shape = ''schema_id | view_id | begin_snapshot'',
     td_mvcc = Versioned, td_unique_guard = Required, td_status = Live\<rparr>,
   \<lparr>td_tag = TAG_MACRO, td_name = ''ducklake_macro'',
     td_key_shape = ''schema_id | macro_id | begin_snapshot'',
     td_mvcc = Versioned, td_unique_guard = Required, td_status = Live\<rparr>,
   \<lparr>td_tag = TAG_MACRO_IMPL, td_name = ''ducklake_macro_impl'',
     td_key_shape = ''macro_id | impl_id'',
     td_mvcc = AppendOnly, td_unique_guard = NotNeeded, td_status = Live\<rparr>,
   \<lparr>td_tag = TAG_MACRO_PARAMETERS, td_name = ''ducklake_macro_parameters'',
     td_key_shape = ''macro_id | impl_id | column_id'',
     td_mvcc = AppendOnly, td_unique_guard = NotNeeded, td_status = Live\<rparr>,
   \<lparr>td_tag = TAG_DATA_FILE, td_name = ''ducklake_data_file'',
     td_key_shape = ''table_id | data_file_id'',
     td_mvcc = AppendOnly, td_unique_guard = NotNeeded, td_status = Live\<rparr>,
   \<lparr>td_tag = TAG_DELETE_FILE, td_name = ''ducklake_delete_file'',
     td_key_shape = ''data_file_id | delete_file_id'',
     td_mvcc = AppendOnly, td_unique_guard = NotNeeded, td_status = Live\<rparr>,
   \<lparr>td_tag = TAG_FILES_SCHEDULED_FOR_DELETION, td_name = ''ducklake_files_scheduled_for_deletion'',
     td_key_shape = ''schedule_start | data_file_id'',
     td_mvcc = AppendOnly, td_unique_guard = NotNeeded, td_status = Live\<rparr>,
   \<lparr>td_tag = TAG_INLINED_DATA_TABLES, td_name = ''ducklake_inlined_data_tables'',
     td_key_shape = ''table_id | schema_version'',
     td_mvcc = AppendOnly, td_unique_guard = NotNeeded, td_status = Live\<rparr>,
   \<lparr>td_tag = TAG_COLUMN_MAPPING, td_name = ''ducklake_column_mapping'',
     td_key_shape = ''table_id | mapping_id'',
     td_mvcc = AppendOnly, td_unique_guard = NotNeeded, td_status = Live\<rparr>,
   \<lparr>td_tag = TAG_NAME_MAPPING, td_name = ''ducklake_name_mapping'',
     td_key_shape = ''mapping_id | column_id | source_name_hash'',
     td_mvcc = AppendOnly, td_unique_guard = NotNeeded, td_status = Live\<rparr>]"

definition ALL_TAGS_rest :: "TagDescriptor list" where
  "ALL_TAGS_rest =
  [\<lparr>td_tag = TAG_TABLE_STATS, td_name = ''ducklake_table_stats'',
     td_key_shape = ''table_id'',
     td_mvcc = MutableSingleton, td_unique_guard = NotNeeded, td_status = Live\<rparr>,
   \<lparr>td_tag = TAG_TABLE_COLUMN_STATS, td_name = ''ducklake_table_column_stats'',
     td_key_shape = ''table_id | column_id'',
     td_mvcc = MutableSingleton, td_unique_guard = NotNeeded, td_status = Live\<rparr>,
   \<lparr>td_tag = TAG_FILE_COLUMN_STATS, td_name = ''ducklake_file_column_stats'',
     td_key_shape = ''table_id | column_id | data_file_id'',
     td_mvcc = AppendOnly, td_unique_guard = NotNeeded, td_status = Live\<rparr>,
   \<lparr>td_tag = TAG_FILE_VARIANT_STATS, td_name = ''ducklake_file_variant_stats'',
     td_key_shape = ''table_id | column_id | variant_path_hash | data_file_id'',
     td_mvcc = AppendOnly, td_unique_guard = NotNeeded, td_status = Live\<rparr>,
   \<lparr>td_tag = TAG_PARTITION_INFO, td_name = ''ducklake_partition_info'',
     td_key_shape = ''table_id | partition_id | begin_snapshot'',
     td_mvcc = Versioned, td_unique_guard = NotNeeded, td_status = Live\<rparr>,
   \<lparr>td_tag = TAG_PARTITION_COLUMN, td_name = ''ducklake_partition_column'',
     td_key_shape = ''partition_id | partition_key_index'',
     td_mvcc = AppendOnly, td_unique_guard = NotNeeded, td_status = Live\<rparr>,
   \<lparr>td_tag = TAG_FILE_PARTITION_VALUE, td_name = ''ducklake_file_partition_value'',
     td_key_shape = ''table_id | partition_key_index | data_file_id'',
     td_mvcc = AppendOnly, td_unique_guard = NotNeeded, td_status = Live\<rparr>,
   \<lparr>td_tag = TAG_SORT_INFO, td_name = ''ducklake_sort_info'',
     td_key_shape = ''table_id | sort_id | begin_snapshot'',
     td_mvcc = Versioned, td_unique_guard = NotNeeded, td_status = Live\<rparr>,
   \<lparr>td_tag = TAG_SORT_EXPRESSION, td_name = ''ducklake_sort_expression'',
     td_key_shape = ''sort_id | sort_key_index'',
     td_mvcc = AppendOnly, td_unique_guard = NotNeeded, td_status = Live\<rparr>,
   \<lparr>td_tag = TAG_TAG, td_name = ''ducklake_tag'',
     td_key_shape = ''object_id | tag_key | begin_snapshot'',
     td_mvcc = Versioned, td_unique_guard = NotNeeded, td_status = Live\<rparr>,
   \<lparr>td_tag = TAG_COLUMN_TAG, td_name = ''ducklake_column_tag'',
     td_key_shape = ''table_id | column_id | tag_key | begin_snapshot'',
     td_mvcc = Versioned, td_unique_guard = NotNeeded, td_status = Live\<rparr>,
   \<lparr>td_tag = TAG_SCHEMA_VERSIONS, td_name = ''ducklake_schema_versions'',
     td_key_shape = ''table_id | begin_snapshot'',
     td_mvcc = AppendOnly, td_unique_guard = NotNeeded, td_status = Live\<rparr>,
   \<lparr>td_tag = TAG_INLINED_ROWS, td_name = ''dynamic_inlined_rows'',
     td_key_shape = ''subtype | table_id | (schema_version | data_file_id) | row_id'',
     td_mvcc = Custom, td_unique_guard = NotNeeded, td_status = Live\<rparr>,
   \<lparr>td_tag = TAG_COUNTERS, td_name = ''rocklake_counters'',
     td_key_shape = ''counter_id'',
     td_mvcc = MutableSingleton, td_unique_guard = NotNeeded, td_status = Live\<rparr>,
   \<lparr>td_tag = TAG_SYSTEM, td_name = ''rocklake_system'',
     td_key_shape = ''system_key_suffix'',
     td_mvcc = MutableSingleton, td_unique_guard = NotNeeded, td_status = Live\<rparr>,
   \<lparr>td_tag = TAG_SECONDARY_INDEX, td_name = ''rocklake_secondary_index'',
     td_key_shape = ''snapshot_id | table_id | data_file_id'',
     td_mvcc = AppendOnly, td_unique_guard = NotNeeded, td_status = Live\<rparr>]"

definition ALL_TAGS :: "TagDescriptor list" where
  "ALL_TAGS = ALL_TAGS_catalog @ ALL_TAGS_rest"

definition lookup_tag :: "u8 \<Rightarrow> TagDescriptor option" where
  "lookup_tag tag = find (\<lambda>d. td_tag d = tag) ALL_TAGS"

definition is_known_tag :: "u8 \<Rightarrow> bool" where
  "is_known_tag tag \<longleftrightarrow> lookup_tag tag \<noteq> None"

section \<open>Facts\<close>

lemmas ALL_TAGS_defs = ALL_TAGS_def ALL_TAGS_catalog_def ALL_TAGS_rest_def

lemma ALL_TAGS_tags:
  "map td_tag ALL_TAGS =
     [0x01, 0x02, 0x03, 0x04, 0x05, 0x06, 0x07, 0x08, 0x09, 0x0A, 0x0B, 0x0C, 0x0D, 0x0E, 0x0F,
      0x10, 0x11, 0x12, 0x13, 0x14, 0x15, 0x16, 0x17, 0x18, 0x19, 0x1A, 0x1B, 0x1C,
      0xFD, 0xFE, 0xFF, 0xFC]"
  by (simp add: ALL_TAGS_defs tag_defs)

lemma is_known_tag_set: "is_known_tag t \<longleftrightarrow> t \<in> set (map td_tag ALL_TAGS)"
  by (auto simp: is_known_tag_def lookup_tag_def find_None_iff)

lemma find_distinct_key:
  "distinct (map f xs) \<Longrightarrow> x \<in> set xs \<Longrightarrow> find (\<lambda>y. f y = f x) xs = Some x"
  by (induction xs) (auto simp: image_iff)

end
