(* ===== verification/Keys.thy ===== *)
theory Keys
  imports Tags
begin

text \<open>
  \<open>crates/rocklake-core/src/keys.rs\<close>: big-endian integer encodings, the key builders, one
  definition per \<open>pub fn\<close> in source order, the scan prefixes, and \<open>extract_tag\<close>. The facts at the
  end give the algebra the rest of the development uses: fixed-width fields can be cancelled in
  equations, prefixes and comparisons of keys.
\<close>

section \<open>Errors and integer fields\<close>

datatype KeyError =
    UnknownTag u8
  | TooShort nat nat
  | InvalidUtf8 string
  | IdentifierTooLong nat nat

definition encode_u64 :: "u64 \<Rightarrow> bytes" where
  "encode_u64 val = be_bytes 8 (unat val)"

definition decode_u64 :: "bytes \<Rightarrow> KeyError + u64" where
  "decode_u64 bs =
     (if length bs < 8 then Inl (TooShort 8 (length bs))
      else Inr (of_nat (from_be_bytes (take 8 bs))))"

definition decode_u32 :: "bytes \<Rightarrow> KeyError + u32" where
  "decode_u32 bs =
     (if length bs < 4 then Inl (TooShort 4 (length bs))
      else Inr (of_nat (from_be_bytes (take 4 bs))))"

definition encode_u32 :: "u32 \<Rightarrow> bytes" where
  "encode_u32 val = be_bytes 4 (unat val)"

text \<open>\<open>(n as u16).to_be_bytes()\<close> for a length \<open>n\<close>: the cast keeps the low 16 bits.\<close>

definition len_u16 :: "nat \<Rightarrow> bytes" where
  "len_u16 n = be_bytes 2 (unat (of_nat n :: u16))"

definition validate_identifier_len :: "string \<Rightarrow> KeyError + unit" where
  "validate_identifier_len s =
     (if 65535 < length s then Inl (IdentifierTooLong (length s) 65535) else Inr ())"

datatype MetadataScope = Global | Schema | Table

primrec scope_byte :: "MetadataScope \<Rightarrow> u8" where
  "scope_byte Global = 0x00"
| "scope_byte Schema = 0x01"
| "scope_byte Table = 0x02"

definition from_byte :: "u8 \<Rightarrow> KeyError + MetadataScope" where
  "from_byte b =
     (if b = 0x00 then Inr Global
      else if b = 0x01 then Inr Schema
      else if b = 0x02 then Inr Table
      else Inl (UnknownTag b))"

section \<open>Key builders\<close>

definition key_metadata :: "MetadataScope \<Rightarrow> u64 \<Rightarrow> string \<Rightarrow> bytes" where
  [key_simps]: "key_metadata scope scope_id key =
     [TAG_METADATA] @ [scope_byte scope] @ encode_u64 scope_id @ len_u16 (length (str_bytes key)) @ str_bytes key"

definition key_snapshot :: "u64 \<Rightarrow> bytes" where
  [key_simps]: "key_snapshot snapshot_id =
     [TAG_SNAPSHOT] @ encode_u64 snapshot_id"

definition key_snapshot_changes :: "u64 \<Rightarrow> bytes" where
  [key_simps]: "key_snapshot_changes snapshot_id =
     [TAG_SNAPSHOT_CHANGES] @ encode_u64 snapshot_id"

definition key_schema :: "u64 \<Rightarrow> bytes" where
  [key_simps]: "key_schema schema_id =
     [TAG_SCHEMA] @ encode_u64 schema_id"

definition key_table :: "u64 \<Rightarrow> u64 \<Rightarrow> u64 \<Rightarrow> bytes" where
  [key_simps]: "key_table schema_id table_id begin_snapshot =
     [TAG_TABLE] @ encode_u64 schema_id @ encode_u64 table_id @ encode_u64 begin_snapshot"

definition key_column :: "u64 \<Rightarrow> u64 \<Rightarrow> u64 \<Rightarrow> bytes" where
  [key_simps]: "key_column table_id column_id begin_snapshot =
     [TAG_COLUMN] @ encode_u64 table_id @ encode_u64 column_id @ encode_u64 begin_snapshot"

definition key_view :: "u64 \<Rightarrow> u64 \<Rightarrow> u64 \<Rightarrow> bytes" where
  [key_simps]: "key_view schema_id view_id begin_snapshot =
     [TAG_VIEW] @ encode_u64 schema_id @ encode_u64 view_id @ encode_u64 begin_snapshot"

definition key_macro :: "u64 \<Rightarrow> u64 \<Rightarrow> u64 \<Rightarrow> bytes" where
  [key_simps]: "key_macro schema_id macro_id begin_snapshot =
     [TAG_MACRO] @ encode_u64 schema_id @ encode_u64 macro_id @ encode_u64 begin_snapshot"

definition key_macro_impl :: "u64 \<Rightarrow> u64 \<Rightarrow> bytes" where
  [key_simps]: "key_macro_impl macro_id impl_id =
     [TAG_MACRO_IMPL] @ encode_u64 macro_id @ encode_u64 impl_id"

definition key_macro_parameters :: "u64 \<Rightarrow> u64 \<Rightarrow> u64 \<Rightarrow> bytes" where
  [key_simps]: "key_macro_parameters macro_id impl_id column_id =
     [TAG_MACRO_PARAMETERS] @ encode_u64 macro_id @ encode_u64 impl_id @ encode_u64 column_id"

definition key_data_file :: "u64 \<Rightarrow> u64 \<Rightarrow> bytes" where
  [key_simps]: "key_data_file table_id data_file_id =
     [TAG_DATA_FILE] @ encode_u64 table_id @ encode_u64 data_file_id"

definition key_data_file_by_snapshot :: "u64 \<Rightarrow> u64 \<Rightarrow> u64 \<Rightarrow> bytes" where
  [key_simps]: "key_data_file_by_snapshot table_id snapshot_id file_id =
     [TAG_DATA_FILE_BY_SNAPSHOT] @ encode_u64 table_id @ encode_u64 snapshot_id @ encode_u64 file_id"

definition prefix_data_files_by_snapshot_for_table :: "u64 \<Rightarrow> bytes" where
  [key_simps]: "prefix_data_files_by_snapshot_for_table table_id =
     [TAG_DATA_FILE_BY_SNAPSHOT] @ encode_u64 table_id"

definition prefix_data_files_by_snapshot_upper :: "u64 \<Rightarrow> u64 \<Rightarrow> bytes option" where
  [key_simps]: "prefix_data_files_by_snapshot_upper table_id snapshot_id =
     (case checked_add snapshot_id 1 of None \<Rightarrow> None
     | Some upper_snap \<Rightarrow> Some ([TAG_DATA_FILE_BY_SNAPSHOT] @ encode_u64 table_id @ encode_u64 upper_snap))"

definition key_delete_file :: "u64 \<Rightarrow> u64 \<Rightarrow> bytes" where
  [key_simps]: "key_delete_file data_file_id delete_file_id =
     [TAG_DELETE_FILE] @ encode_u64 data_file_id @ encode_u64 delete_file_id"

definition key_files_scheduled_for_deletion :: "u64 \<Rightarrow> u64 \<Rightarrow> bytes" where
  [key_simps]: "key_files_scheduled_for_deletion schedule_start data_file_id =
     [TAG_FILES_SCHEDULED_FOR_DELETION] @ encode_u64 schedule_start @ encode_u64 data_file_id"

definition key_inlined_data_tables :: "u64 \<Rightarrow> u64 \<Rightarrow> bytes" where
  [key_simps]: "key_inlined_data_tables table_id schema_version =
     [TAG_INLINED_DATA_TABLES] @ encode_u64 table_id @ encode_u64 schema_version"

definition key_column_mapping :: "u64 \<Rightarrow> u64 \<Rightarrow> bytes" where
  [key_simps]: "key_column_mapping table_id mapping_id =
     [TAG_COLUMN_MAPPING] @ encode_u64 table_id @ encode_u64 mapping_id"

definition key_name_mapping :: "u64 \<Rightarrow> u64 \<Rightarrow> u64 \<Rightarrow> bytes" where
  [key_simps]: "key_name_mapping mapping_id column_id source_name_hash =
     [TAG_NAME_MAPPING] @ encode_u64 mapping_id @ encode_u64 column_id @ encode_u64 source_name_hash"

definition key_table_stats :: "u64 \<Rightarrow> bytes" where
  [key_simps]: "key_table_stats table_id =
     [TAG_TABLE_STATS] @ encode_u64 table_id"

definition key_table_column_stats :: "u64 \<Rightarrow> u64 \<Rightarrow> bytes" where
  [key_simps]: "key_table_column_stats table_id column_id =
     [TAG_TABLE_COLUMN_STATS] @ encode_u64 table_id @ encode_u64 column_id"

definition key_file_column_stats :: "u64 \<Rightarrow> u64 \<Rightarrow> u64 \<Rightarrow> bytes" where
  [key_simps]: "key_file_column_stats table_id column_id data_file_id =
     [TAG_FILE_COLUMN_STATS] @ encode_u64 table_id @ encode_u64 column_id @ encode_u64 data_file_id"

definition key_file_variant_stats :: "u64 \<Rightarrow> u64 \<Rightarrow> u64 \<Rightarrow> u64 \<Rightarrow> bytes" where
  [key_simps]: "key_file_variant_stats table_id column_id variant_path_hash data_file_id =
     [TAG_FILE_VARIANT_STATS] @ encode_u64 table_id @ encode_u64 column_id @ encode_u64 variant_path_hash @ encode_u64 data_file_id"

definition key_partition_info :: "u64 \<Rightarrow> u64 \<Rightarrow> u64 \<Rightarrow> bytes" where
  [key_simps]: "key_partition_info table_id partition_id begin_snapshot =
     [TAG_PARTITION_INFO] @ encode_u64 table_id @ encode_u64 partition_id @ encode_u64 begin_snapshot"

definition key_partition_column :: "u64 \<Rightarrow> u64 \<Rightarrow> bytes" where
  [key_simps]: "key_partition_column partition_id partition_key_index =
     [TAG_PARTITION_COLUMN] @ encode_u64 partition_id @ encode_u64 partition_key_index"

definition key_file_partition_value :: "u64 \<Rightarrow> u64 \<Rightarrow> u64 \<Rightarrow> bytes" where
  [key_simps]: "key_file_partition_value table_id partition_key_index data_file_id =
     [TAG_FILE_PARTITION_VALUE] @ encode_u64 table_id @ encode_u64 partition_key_index @ encode_u64 data_file_id"

definition key_sort_info :: "u64 \<Rightarrow> u64 \<Rightarrow> u64 \<Rightarrow> bytes" where
  [key_simps]: "key_sort_info table_id sort_id begin_snapshot =
     [TAG_SORT_INFO] @ encode_u64 table_id @ encode_u64 sort_id @ encode_u64 begin_snapshot"

definition key_sort_expression :: "u64 \<Rightarrow> u64 \<Rightarrow> bytes" where
  [key_simps]: "key_sort_expression sort_id sort_key_index =
     [TAG_SORT_EXPRESSION] @ encode_u64 sort_id @ encode_u64 sort_key_index"

definition key_tag :: "u64 \<Rightarrow> u64 \<Rightarrow> u64 \<Rightarrow> bytes" where
  [key_simps]: "key_tag object_id tag_key_hash begin_snapshot =
     [TAG_TAG] @ encode_u64 object_id @ encode_u64 tag_key_hash @ encode_u64 begin_snapshot"

definition key_column_tag :: "u64 \<Rightarrow> u64 \<Rightarrow> u64 \<Rightarrow> u64 \<Rightarrow> bytes" where
  [key_simps]: "key_column_tag table_id column_id tag_key_hash begin_snapshot =
     [TAG_COLUMN_TAG] @ encode_u64 table_id @ encode_u64 column_id @ encode_u64 tag_key_hash @ encode_u64 begin_snapshot"

definition key_schema_versions :: "u64 \<Rightarrow> u64 \<Rightarrow> bytes" where
  [key_simps]: "key_schema_versions table_id begin_snapshot =
     [TAG_SCHEMA_VERSIONS] @ encode_u64 table_id @ encode_u64 begin_snapshot"

definition key_inlined_insert :: "u64 \<Rightarrow> u64 \<Rightarrow> u64 \<Rightarrow> bytes" where
  [key_simps]: "key_inlined_insert table_id schema_version row_id =
     [TAG_INLINED_ROWS] @ [INLINED_SUBTYPE_INSERT] @ encode_u64 table_id @ encode_u64 schema_version @ encode_u64 row_id"

definition key_inlined_delete :: "u64 \<Rightarrow> u64 \<Rightarrow> u64 \<Rightarrow> bytes" where
  [key_simps]: "key_inlined_delete table_id data_file_id row_id =
     [TAG_INLINED_ROWS] @ [INLINED_SUBTYPE_DELETE] @ encode_u64 table_id @ encode_u64 data_file_id @ encode_u64 row_id"

definition key_counter :: "u8 \<Rightarrow> bytes" where
  [key_simps]: "key_counter counter_id =
     [TAG_COUNTERS, counter_id]"

definition key_counter_column_id :: "u64 \<Rightarrow> bytes" where
  [key_simps]: "key_counter_column_id table_id =
     [TAG_COUNTERS] @ [COUNTER_NEXT_COLUMN_ID_PREFIX] @ encode_u64 table_id"

definition key_system :: "bytes \<Rightarrow> bytes" where
  [key_simps]: "key_system sfx =
     [TAG_SYSTEM] @ sfx"

definition key_audit :: "u64 \<Rightarrow> bytes" where
  [key_simps]: "key_audit snapshot_id =
     [TAG_SYSTEM] @ str_bytes ''audit'' @ encode_u64 snapshot_id"

definition audit_prefix :: "bytes" where
  [key_simps]: "audit_prefix =
     [TAG_SYSTEM] @ str_bytes ''audit''"

definition key_snapshot_lease :: "string \<Rightarrow> KeyError + bytes" where
  [key_simps]: "key_snapshot_lease consumer_id =
     rbind (validate_identifier_len consumer_id) (\<lambda>_. Inr ([TAG_SNAPSHOT_LEASE] @ len_u16 (length (str_bytes consumer_id)) @ str_bytes consumer_id))"

definition prefix_snapshot_leases :: "bytes" where
  [key_simps]: "prefix_snapshot_leases =
     [TAG_SNAPSHOT_LEASE]"

definition key_extension_schema :: "u8 \<Rightarrow> string \<Rightarrow> u64 \<Rightarrow> KeyError + bytes" where
  [key_simps]: "key_extension_schema extension_id table_name row_id =
     rbind (validate_identifier_len table_name) (\<lambda>_. Inr ([TAG_EXTENSION_SCHEMA] @ [extension_id] @ len_u16 (length (str_bytes table_name)) @ str_bytes table_name @ encode_u64 row_id))"

definition prefix_extension_table :: "u8 \<Rightarrow> string \<Rightarrow> KeyError + bytes" where
  [key_simps]: "prefix_extension_table extension_id table_name =
     rbind (validate_identifier_len table_name) (\<lambda>_. Inr ([TAG_EXTENSION_SCHEMA] @ [extension_id] @ len_u16 (length (str_bytes table_name)) @ str_bytes table_name))"

definition key_counter_rowid :: "u64 \<Rightarrow> bytes" where
  [key_simps]: "key_counter_rowid table_id =
     [TAG_COUNTERS] @ [COUNTER_NEXT_ROWID_PREFIX] @ encode_u64 table_id"

definition key_encrypted_secret :: "u64 \<Rightarrow> bytes" where
  [key_simps]: "key_encrypted_secret secret_id =
     [TAG_ENCRYPTED_SECRET] @ encode_u64 secret_id"

definition key_encryption_key :: "u64 \<Rightarrow> u64 \<Rightarrow> bytes" where
  [key_simps]: "key_encryption_key catalog_id begin_snapshot =
     [TAG_ENCRYPTION_KEY] @ encode_u64 catalog_id @ encode_u64 begin_snapshot"

definition prefix_for_tag :: "u8 \<Rightarrow> bytes" where
  [key_simps]: "prefix_for_tag tag =
     [tag]"

definition prefix_all_metadata :: "bytes" where
  [key_simps]: "prefix_all_metadata =
     [TAG_METADATA]"

definition prefix_data_files_for_table :: "u64 \<Rightarrow> bytes" where
  [key_simps]: "prefix_data_files_for_table table_id =
     [TAG_DATA_FILE] @ encode_u64 table_id"

definition prefix_columns_for_table :: "u64 \<Rightarrow> bytes" where
  [key_simps]: "prefix_columns_for_table table_id =
     [TAG_COLUMN] @ encode_u64 table_id"

definition prefix_tables_for_schema :: "u64 \<Rightarrow> bytes" where
  [key_simps]: "prefix_tables_for_schema schema_id =
     [TAG_TABLE] @ encode_u64 schema_id"

definition prefix_tables_for_schema_table :: "u64 \<Rightarrow> u64 \<Rightarrow> bytes" where
  [key_simps]: "prefix_tables_for_schema_table schema_id table_id =
     [TAG_TABLE] @ encode_u64 schema_id @ encode_u64 table_id"

definition key_table_by_id :: "u64 \<Rightarrow> bytes" where
  [key_simps]: "key_table_by_id table_id =
     [TAG_TABLE_BY_ID] @ encode_u64 table_id"

definition prefix_inlined_inserts_for_table :: "u64 \<Rightarrow> bytes" where
  [key_simps]: "prefix_inlined_inserts_for_table table_id =
     [TAG_INLINED_ROWS] @ [INLINED_SUBTYPE_INSERT] @ encode_u64 table_id"

definition prefix_inlined_deletes_for_table :: "u64 \<Rightarrow> bytes" where
  [key_simps]: "prefix_inlined_deletes_for_table table_id =
     [TAG_INLINED_ROWS] @ [INLINED_SUBTYPE_DELETE] @ encode_u64 table_id"

definition prefix_views_for_schema :: "u64 \<Rightarrow> bytes" where
  [key_simps]: "prefix_views_for_schema schema_id =
     [TAG_VIEW] @ encode_u64 schema_id"

definition prefix_macros_for_schema :: "u64 \<Rightarrow> bytes" where
  [key_simps]: "prefix_macros_for_schema schema_id =
     [TAG_MACRO] @ encode_u64 schema_id"

definition prefix_macro_impls :: "u64 \<Rightarrow> bytes" where
  [key_simps]: "prefix_macro_impls macro_id =
     [TAG_MACRO_IMPL] @ encode_u64 macro_id"

definition prefix_macro_params :: "u64 \<Rightarrow> u64 \<Rightarrow> bytes" where
  [key_simps]: "prefix_macro_params macro_id impl_id =
     [TAG_MACRO_PARAMETERS] @ encode_u64 macro_id @ encode_u64 impl_id"

definition prefix_tags_for_object :: "u64 \<Rightarrow> bytes" where
  [key_simps]: "prefix_tags_for_object object_id =
     [TAG_TAG] @ encode_u64 object_id"

definition prefix_column_tags :: "u64 \<Rightarrow> u64 \<Rightarrow> bytes" where
  [key_simps]: "prefix_column_tags table_id column_id =
     [TAG_COLUMN_TAG] @ encode_u64 table_id @ encode_u64 column_id"

definition key_hot :: "bytes" where
  [key_simps]: "key_hot =
     key_system SYSTEM_HOT_KEY"

definition key_secondary_index :: "u64 \<Rightarrow> u64 \<Rightarrow> u64 \<Rightarrow> bytes" where
  [key_simps]: "key_secondary_index snapshot_id table_id data_file_id =
     [TAG_SECONDARY_INDEX] @ encode_u64 snapshot_id @ encode_u64 table_id @ encode_u64 data_file_id"

definition prefix_secondary_index :: "u64 \<Rightarrow> u64 \<Rightarrow> bytes" where
  [key_simps]: "prefix_secondary_index snapshot_id table_id =
     [TAG_SECONDARY_INDEX] @ encode_u64 snapshot_id @ encode_u64 table_id"

definition key_packed_table_metadata :: "u64 \<Rightarrow> bytes" where
  [key_simps]: "key_packed_table_metadata table_id =
     [TAG_SYSTEM] @ str_bytes ''packed-meta'' @ encode_u64 table_id"

section \<open>Tag extraction\<close>

definition extract_tag :: "bytes \<Rightarrow> KeyError + u8" where
  "extract_tag key =
     (case key of
        [] \<Rightarrow> Inl (TooShort 1 0)
      | tag # _ \<Rightarrow> if \<not> is_known_tag tag then Inl (UnknownTag tag) else Inr tag)"

section \<open>Fixed-width fields\<close>

lemma length_encode_u64 [simp]: "length (encode_u64 a) = 8"
  by (simp add: encode_u64_def)

lemma unat_u64_bound [simp]: "unat (a :: u64) < 256 ^ 8"
  using unsigned_less [of a, where ?'a = nat] by simp

lemma encode_u64_inject [simp]: "encode_u64 a = encode_u64 b \<longleftrightarrow> a = b"
  unfolding encode_u64_def be_bytes_inject [OF unat_u64_bound unat_u64_bound]
  by (simp add: word_unat_eq_iff)

lemma encode_u64_less_iff [simp]: "encode_u64 a < encode_u64 b \<longleftrightarrow> a < b"
  unfolding encode_u64_def be_bytes_less_iff [OF unat_u64_bound unat_u64_bound]
    word_less_nat_alt ..

lemma encode_u64_append_eq [simp]:
  "encode_u64 a @ xs = encode_u64 b @ ys \<longleftrightarrow> a = b \<and> xs = ys"
  by (simp add: append_eq_append_conv)

lemma encode_u64_append_eq_single [simp]:
  "encode_u64 a @ xs = encode_u64 b \<longleftrightarrow> a = b \<and> xs = []"
  "encode_u64 a = encode_u64 b @ ys \<longleftrightarrow> a = b \<and> ys = []"
  using encode_u64_append_eq [of a xs b "[]"] encode_u64_append_eq [of a "[]" b ys] by auto

lemma encode_u64_append_less [simp]:
  "encode_u64 a @ xs < encode_u64 b @ ys \<longleftrightarrow> a < b \<or> a = b \<and> xs < ys"
  by (simp add: lex_less_append_same_length)

lemma prefix_same_length_append:
  "length xs = length ys \<Longrightarrow> prefix (xs @ us) (ys @ vs) \<longleftrightarrow> xs = ys \<and> prefix us vs"
  by (induction xs ys rule: list_induct2) auto

lemma encode_u64_append_prefix [simp]:
  "prefix (encode_u64 a @ xs) (encode_u64 b @ ys) \<longleftrightarrow> a = b \<and> prefix xs ys"
  by (simp add: prefix_same_length_append)

lemma encode_u64_prefix [simp]:
  "prefix (encode_u64 a) (encode_u64 b @ ys) \<longleftrightarrow> a = b"
  "prefix (encode_u64 a) (encode_u64 b) \<longleftrightarrow> a = b"
  "prefix (encode_u64 a @ xs) (encode_u64 b) \<longleftrightarrow> a = b \<and> xs = []"
  using encode_u64_append_prefix [of a "[]" b ys] encode_u64_append_prefix [of a "[]" b "[]"]
    encode_u64_append_prefix [of a xs b "[]"]
  by simp_all

lemma encode_u64_not_Nil [simp]: "encode_u64 a \<noteq> []" "[] \<noteq> encode_u64 a"
  using length_encode_u64 [of a] by (auto simp del: length_encode_u64)

lemma decode_encode_u64: "decode_u64 (encode_u64 a @ rest) = Inr a"
  by (simp add: decode_u64_def encode_u64_def from_be_bytes_be_bytes [OF unat_u64_bound])

lemma decode_u64_Inr: "decode_u64 bs = Inr a \<longleftrightarrow> 8 \<le> length bs \<and> take 8 bs = encode_u64 a"
proof -
  have "from_be_bytes (take 8 bs) < 2 ^ 64" if "8 \<le> length bs"
    using from_be_bytes_bound [of "take 8 bs"] that by simp
  then have "8 \<le> length bs \<Longrightarrow> encode_u64 (of_nat (from_be_bytes (take 8 bs))) = take 8 bs"
    by (simp add: encode_u64_def unat_of_nat be_bytes_from_be_bytes del: be_bytes.simps)
  then show ?thesis
    by (auto simp: decode_u64_def)
qed

lemma decode_encode_u32: "decode_u32 (encode_u32 a @ rest) = Inr a"
proof -
  have "unat a < 256 ^ 4"
    using unsigned_less [of a, where ?'a = nat] by simp
  then show ?thesis
    by (simp add: decode_u32_def encode_u32_def from_be_bytes_be_bytes del: be_bytes.simps)
qed

section \<open>String fields\<close>

lemma length_str_bytes [simp]: "length (str_bytes s) = length s"
  by (simp add: str_bytes_def)

lemma str_bytes_append [simp]: "str_bytes (s @ t) = str_bytes s @ str_bytes t"
  by (simp add: str_bytes_def)

lemma bytes_str_bytes [simp]: "bytes_str (str_bytes s) = s"
proof -
  have "char_of (unat (of_char c :: u8)) = c" for c :: char
  proof -
    have "(of_char c :: u8) = of_nat (of_char c)"
      by (simp add: of_nat_of_char)
    moreover have "(of_char c :: nat) < 256"
      using range_nat_of_char by auto
    ultimately have "unat (of_char c :: u8) = of_char c"
      by (metis unat_of_nat_byte)
    then show ?thesis
      by simp
  qed
  then show ?thesis
    by (simp add: bytes_str_def str_bytes_def comp_def)
qed

lemma str_bytes_inject [simp]: "str_bytes s = str_bytes t \<longleftrightarrow> s = t"
  by (metis bytes_str_bytes)

lemma length_len_u16 [simp]: "length (len_u16 n) = 2"
  by (simp add: len_u16_def)

lemma len_u16_inject: "n \<le> 65535 \<Longrightarrow> m \<le> 65535 \<Longrightarrow> len_u16 n = len_u16 m \<longleftrightarrow> n = m"
  by (simp add: len_u16_def be_bytes_inject unat_of_nat del: be_bytes.simps)

text \<open>A length-prefixed string is self-delimiting as long as the 16-bit length is exact.\<close>

lemma len_prefixed_prefix_iff:
  assumes "length s \<le> 65535" and "length t \<le> 65535"
  shows "prefix (len_u16 (length s) @ str_bytes s @ xs) (len_u16 (length t) @ str_bytes t @ ys)
    \<longleftrightarrow> s = t \<and> prefix xs ys"
proof -
  have "len_u16 (length s) = len_u16 (length t) \<longleftrightarrow> length s = length t"
    using assms by (rule len_u16_inject)
  moreover have "length s = length t \<Longrightarrow>
      prefix (str_bytes s @ xs) (str_bytes t @ ys) \<longleftrightarrow> s = t \<and> prefix xs ys"
    by (simp add: prefix_same_length_append)
  ultimately show ?thesis
    by (auto simp: prefix_same_length_append)
qed

lemma validate_identifier_len_Inr [simp]:
  "validate_identifier_len s = Inr u \<longleftrightarrow> length s \<le> 65535"
  by (simp add: validate_identifier_len_def)

lemma data_file_upper:
  "case prefix_data_files_by_snapshot_upper t s of
      None \<Rightarrow> s = u64_max
    | Some u \<Rightarrow> key_data_file_by_snapshot t b f < u \<longleftrightarrow> b \<le> s"
proof -
  have "b < u \<longleftrightarrow> b \<le> s" if "unat u = unat s + 1" for u
    using that by (auto simp: word_less_nat_alt word_le_nat_alt)
  moreover have "s = u64_max" if "2 ^ 64 \<le> unat s + 1"
  proof (rule word_unat_eq_iff [THEN iffD2])
    show "unat s = unat u64_max"
      using that unsigned_less [of s, where ?'a = nat] unat_u64_max by simp
  qed
  moreover have "encode_u64 b @ encode_u64 f < encode_u64 u \<longleftrightarrow> b < u" for u
    using encode_u64_append_less [of b "encode_u64 f" u "[]"] by simp
  ultimately show ?thesis
    by (auto simp: key_simps checked_add_Some_iff checked_add_None_iff split: option.split)
qed

lemma data_file_bound:
  "(case prefix_data_files_by_snapshot_upper t s of None \<Rightarrow> True
    | Some u \<Rightarrow> key_data_file_by_snapshot t b f < u) \<longleftrightarrow> b \<le> s"
  using data_file_upper [where t = t and s = s and b = b and f = f] by (auto simp: u64_max_def split: option.splits)

section \<open>Properties\<close>

text \<open>The secondary index of data files is ordered by table and then by snapshot, so that a scan
  of a table's prefix that stops at the upper bound sees exactly the files of that table registered
  at or before the read snapshot; the bound is absent only at the largest snapshot, where every file
  qualifies.\<close>

theorem data_file_index_window:
  "(prefix (prefix_data_files_by_snapshot_for_table t) (key_data_file_by_snapshot t' b f) \<longleftrightarrow> t = t') \<and>
   (case prefix_data_files_by_snapshot_upper t s of
      None \<Rightarrow> s = u64_max
    | Some u \<Rightarrow> key_data_file_by_snapshot t b f < u \<longleftrightarrow> b \<le> s)"
  using data_file_upper by (simp add: key_simps)

text \<open>The length prefix makes the keys of extension tables self-delimiting: whenever both
  identifiers pass validation, the scan prefix of an extension table matches the keys of that table
  and of no other, in particular not those of a table whose name extends it.\<close>

theorem extension_prefix_exact:
  assumes "prefix_extension_table i n = Inr p" and "key_extension_schema j m r = Inr k"
  shows "prefix p k \<longleftrightarrow> i = j \<and> n = m"
  using assms len_prefixed_prefix_iff [of n m "[]" "encode_u64 r"]
  by (auto simp: key_simps rbind_eq_Inr_iff)

theorem extension_prefix_exact_witness:
  "\<exists>p k. prefix_extension_table 3 ''tiles'' = Inr p \<and>
     key_extension_schema 3 ''tiles_v2'' 7 = Inr k \<and> \<not> prefix p k"
proof -
  obtain p k where "prefix_extension_table 3 ''tiles'' = Inr p"
    and "key_extension_schema 3 ''tiles_v2'' 7 = Inr k"
    by (simp add: key_simps rbind_eq_Inr_iff)
  from extension_prefix_exact [OF this] this show ?thesis by simp
qed

text \<open>Both integer codecs of the keys are round trips on every value, whatever bytes follow, the
  decoder accepts exactly the encodings, and the 64-bit one preserves the order.\<close>

theorem key_integer_codecs:
  "decode_u64 (encode_u64 a @ rest) = Inr a \<and>
   (decode_u64 bs = Inr a \<longleftrightarrow> take 8 bs = encode_u64 a) \<and>
   (encode_u64 a < encode_u64 b \<longleftrightarrow> a < b) \<and>
   decode_u32 (encode_u32 c @ rest) = Inr c"
proof -
  have "8 \<le> length bs" if "take 8 bs = encode_u64 a"
    using arg_cong [OF that, of length] by simp
  then show ?thesis
    using decode_u64_Inr [of bs a] decode_encode_u64 decode_encode_u32 by auto
qed

text \<open>The tag table does not list the tags of the keys introduced after it was written, so
  \<open>extract_tag\<close> rejects keys the catalog stores.\<close>

lemma extract_tag_rejects_stored_keys:
  "extract_tag (key_data_file_by_snapshot t s f) = Inl (UnknownTag TAG_DATA_FILE_BY_SNAPSHOT)"
  "extract_tag prefix_snapshot_leases = Inl (UnknownTag TAG_SNAPSHOT_LEASE)"
  "extract_tag (key_encrypted_secret i) = Inl (UnknownTag TAG_ENCRYPTED_SECRET)"
  by (simp_all add: extract_tag_def key_simps is_known_tag_set ALL_TAGS_tags tag_defs)

end
