(* ===== verification/Values.thy ===== *)
theory Values
  imports Keys
begin

text \<open>
  \<open>crates/rocklake-core/src/values.rs\<close>: the value envelope
  \<open>encoding_version | "SDKV" | payload\<close> and the codecs of counters, the catalog format version,
  raw bytes and protobuf messages inside it. The protobuf library (\<open>prost\<close>) is a parameter: a
  record of an encoder and a decoder per message type, with the round trip as its law
  (\<open>prost_ok\<close>).
\<close>

section \<open>The protobuf library as a parameter\<close>

record 'm prost =
  encode_to_vec :: "'m \<Rightarrow> bytes"
  pb_decode :: "bytes \<Rightarrow> string + 'm"

definition prost_ok :: "'m prost \<Rightarrow> bool" where
  "prost_ok P \<longleftrightarrow> (\<forall>m. pb_decode P (encode_to_vec P m) = Inr m)"

section \<open>Envelope\<close>

definition VALUE_MAGIC :: bytes where
  "VALUE_MAGIC = [0x53, 0x44, 0x4B, 0x56]"

definition ENCODING_VERSION :: u8 where
  "ENCODING_VERSION = 1"

datatype ValueError =
    ValTooShort nat nat
  | InvalidMagic bytes
  | UnsupportedVersion u8
  | DecodeError string
  | ValTooLarge nat nat

definition MAX_INLINED_VALUE_SIZE :: nat where
  "MAX_INLINED_VALUE_SIZE = 64 * 1024 * 1024"

definition encode_value :: "'m prost \<Rightarrow> 'm \<Rightarrow> bytes" where
  "encode_value P msg = [ENCODING_VERSION] @ VALUE_MAGIC @ encode_to_vec P msg"

definition decode_value_envelope :: "bytes \<Rightarrow> ValueError + bytes" where
  "decode_value_envelope data =
     (if length data < 5 then Inl (ValTooShort 5 (length data))
      else if data ! 0 \<noteq> ENCODING_VERSION then Inl (UnsupportedVersion (data ! 0))
      else if take 4 (drop 1 data) \<noteq> VALUE_MAGIC then Inl (InvalidMagic (take 4 (drop 1 data)))
      else Inr (drop 5 data))"

definition decode_value :: "'m prost \<Rightarrow> bytes \<Rightarrow> ValueError + 'm" where
  "decode_value P data =
     rbind (decode_value_envelope data) (\<lambda>payload. map_err DecodeError (pb_decode P payload))"

definition encode_counter :: "u64 \<Rightarrow> bytes" where
  "encode_counter val = [ENCODING_VERSION] @ VALUE_MAGIC @ be_bytes 8 (unat val)"

definition decode_counter :: "bytes \<Rightarrow> ValueError + u64" where
  "decode_counter data =
     rbind (decode_value_envelope data) (\<lambda>payload.
       if length payload < 8 then Inl (ValTooShort 8 (length payload))
       else Inr (of_nat (from_be_bytes (take 8 payload))))"

definition encode_format_version :: "u32 \<Rightarrow> bytes" where
  "encode_format_version val = [ENCODING_VERSION] @ VALUE_MAGIC @ be_bytes 4 (unat val)"

definition decode_format_version :: "bytes \<Rightarrow> ValueError + u32" where
  "decode_format_version data =
     rbind (decode_value_envelope data) (\<lambda>payload.
       if length payload < 4 then Inl (ValTooShort 4 (length payload))
       else Inr (of_nat (from_be_bytes (take 4 payload))))"

definition encode_raw_value :: "bytes \<Rightarrow> bytes" where
  "encode_raw_value data = [ENCODING_VERSION] @ VALUE_MAGIC @ data"

definition decode_raw_value :: "bytes \<Rightarrow> ValueError + bytes" where
  "decode_raw_value data = rbind (decode_value_envelope data) Inr"

section \<open>Facts\<close>

lemma decode_value_envelope_Inr:
  "decode_value_envelope data = Inr payload \<longleftrightarrow> data = [ENCODING_VERSION] @ VALUE_MAGIC @ payload"
proof
  assume h: "decode_value_envelope data = Inr payload"
  have len: "5 \<le> length data" and v: "data ! 0 = ENCODING_VERSION"
    and m: "take 4 (drop 1 data) = VALUE_MAGIC" and p: "payload = drop 5 data"
    using h by (auto simp: decode_value_envelope_def split: if_splits)
  have "data = [data ! 0] @ take 4 (drop 1 data) @ drop 4 (drop 1 data)"
    using len by (cases data) auto
  then show "data = [ENCODING_VERSION] @ VALUE_MAGIC @ payload"
    by (metis drop_drop m numeral_eq_one_iff p v numeral_plus_one semiring_norm(5) add.commute)
next
  assume "data = [ENCODING_VERSION] @ VALUE_MAGIC @ payload"
  then show "decode_value_envelope data = Inr payload"
    by (simp add: decode_value_envelope_def VALUE_MAGIC_def)
qed

lemma decode_value_envelope_wrap [simp]:
  "decode_value_envelope (ENCODING_VERSION # VALUE_MAGIC @ payload) = Inr payload"
  using decode_value_envelope_Inr [of "ENCODING_VERSION # VALUE_MAGIC @ payload" payload] by simp

lemma decode_encode_value [simp]:
  "prost_ok P \<Longrightarrow> decode_value P (encode_value P m) = Inr m"
  by (simp add: decode_value_def encode_value_def prost_ok_def)

lemma decode_encode_counter [simp]: "decode_counter (encode_counter v) = Inr v"
  by (simp add: decode_counter_def encode_counter_def
      from_be_bytes_be_bytes [OF unat_u64_bound] del: be_bytes.simps)

lemma encode_counter_inject [simp]: "encode_counter a = encode_counter b \<longleftrightarrow> a = b"
  by (metis decode_encode_counter sum.inject(2))

lemma decode_encode_format_version [simp]:
  "decode_format_version (encode_format_version v) = Inr v"
proof -
  have "unat v < 256 ^ 4"
    using unsigned_less [of v, where ?'a = nat] by simp
  then show ?thesis
    by (simp add: decode_format_version_def encode_format_version_def from_be_bytes_be_bytes
        del: be_bytes.simps)
qed

lemma decode_encode_raw_value [simp]: "decode_raw_value (encode_raw_value d) = Inr d"
  by (simp add: decode_raw_value_def encode_raw_value_def)

text \<open>The envelope check has one outcome per failing byte, in the order the code tests them.\<close>

lemma decode_value_envelope_errors:
  "decode_value_envelope data = Inl (ValTooShort a b) \<longleftrightarrow> length data < 5 \<and> a = 5 \<and> b = length data"
  "decode_value_envelope data = Inl (UnsupportedVersion v) \<longleftrightarrow>
     5 \<le> length data \<and> v = data ! 0 \<and> v \<noteq> ENCODING_VERSION"
  "decode_value_envelope data = Inl (InvalidMagic m) \<longleftrightarrow>
     5 \<le> length data \<and> data ! 0 = ENCODING_VERSION \<and> m = take 4 (drop 1 data) \<and> m \<noteq> VALUE_MAGIC"
  by (auto simp: decode_value_envelope_def)

end
