(* ===== verification/Catalog_Error.thy ===== *)
theory Catalog_Error
  imports Ducklake_Types Values
begin

text \<open>
  \<open>crates/rocklake-catalog/src/error.rs\<close>: the error type of the catalog, the classification of
  storage errors by their message, and the retry loop. An error of the storage engine is its
  message (\<open>e.to_string()\<close>), the only part of it the code looks at.
\<close>

datatype CatalogError =
    SlateDb string
  | KeyErr KeyError
  | ValueErr ValueError
  | FormatVersionMismatch u32 u32
  | NotInitialized
  | WriterEpochMismatch
  | NotFound string
  | Duplicate string
  | ValueTooLarge nat
  | TypeCompare TypeCompareError
  | TransactionConflict string
  | ObjectStoreTransient string
  | ObjectStorePermanent string
  | Corruption string
  | PinnedSnapshotBlocks u64 u64
  | ExcisionUnsafe u64 u64
  | RepairRefused string
  | SnapshotOutOfRetention u64 u64
  | Import nat string string
  | Internal string
  | InvalidInput string
  | GenerationMismatch u64 u64
  | UnsupportedDuckLakeVersion u64 string
  | MigrationSource string

section \<open>Classification\<close>

definition str_contains :: "string \<Rightarrow> string \<Rightarrow> bool" where
  "str_contains s pat = list_ex (prefix pat) (suffixes s)"

definition classify_slatedb_error :: "string \<Rightarrow> CatalogError" where
  "classify_slatedb_error msg =
     (let lower = to_ascii_lowercase msg; contains = str_contains lower in
      if contains ''conflict'' \<or> contains ''concurrent'' \<or> contains ''cas''
        then TransactionConflict msg
      else if contains ''checksum'' \<or> contains ''corrupt'' \<or> contains ''invalid data''
        then Corruption msg
      else if contains ''timeout'' \<or> contains ''timed out'' \<or> contains ''connection''
          \<or> contains ''throttl'' \<or> contains ''service unavailable'' \<or> contains ''503''
          \<or> contains ''temporary'' \<or> contains ''retry''
        then ObjectStoreTransient msg
      else if contains ''permission'' \<or> contains ''unauthorized'' \<or> contains ''forbidden''
          \<or> contains ''not found'' \<or> contains ''404'' \<or> contains ''403'' \<or> contains ''no such''
        then ObjectStorePermanent msg
      else SlateDb msg)"

definition is_transient :: "CatalogError \<Rightarrow> bool" where
  "is_transient e = (case e of ObjectStoreTransient _ \<Rightarrow> True | _ \<Rightarrow> False)"

section \<open>Retry\<close>

text \<open>\<open>with_transient_retry\<close> runs \<open>f\<close> on the world \<open>w\<close> at most \<open>max_attempts\<close> times.
  \<open>last_err\<close> is the loop's variable; \<open>None\<close> as the result is the panic of
  \<open>expect("max_attempts must be > 0")\<close>.\<close>

fun transient_retry_loop ::
  "nat \<Rightarrow> ('w \<Rightarrow> (CatalogError + 'a) \<times> 'w) \<Rightarrow> CatalogError option \<Rightarrow> 'w
     \<Rightarrow> (CatalogError + 'a) option \<times> 'w" where
  "transient_retry_loop 0 f last_err w = (map_option Inl last_err, w)"
| "transient_retry_loop (Suc n) f last_err w =
     (case f w of
        (Inr v, w') \<Rightarrow> (Some (Inr v), w')
      | (Inl e, w') \<Rightarrow>
          if is_transient e then transient_retry_loop n f (Some e) w'
          else (Some (Inl e), w'))"

definition with_transient_retry ::
  "u32 \<Rightarrow> ('w \<Rightarrow> (CatalogError + 'a) \<times> 'w) \<Rightarrow> 'w \<Rightarrow> (CatalogError + 'a) option \<times> 'w" where
  "with_transient_retry max_attempts f w = transient_retry_loop (unat max_attempts) f None w"

section \<open>Facts\<close>

lemma classify_message:
  "classify_slatedb_error msg \<in>
     {TransactionConflict msg, Corruption msg, ObjectStoreTransient msg, ObjectStorePermanent msg,
      SlateDb msg}"
  by (auto simp: classify_slatedb_error_def Let_def)

lemma transient_retry_None:
  "fst (transient_retry_loop n f last_err w) = None \<longleftrightarrow> n = 0 \<and> last_err = None"
  by (induction n f last_err w rule: transient_retry_loop.induct)
    (auto split: prod.splits sum.splits)

text \<open>The world after \<open>n\<close> runs of \<open>f\<close>.\<close>

primrec iterate_world :: "nat \<Rightarrow> ('w \<Rightarrow> 'r \<times> 'w) \<Rightarrow> 'w \<Rightarrow> 'w" where
  "iterate_world 0 f w = w"
| "iterate_world (Suc n) f w = iterate_world n f (snd (f w))"

lemma transient_retry_loop_spec:
  assumes "k < n"
    and "\<forall>i<k. \<exists>e. fst (f (iterate_world i f w)) = Inl e \<and> is_transient e"
    and "fst (f (iterate_world k f w)) = r" and "\<forall>e. r = Inl e \<longrightarrow> \<not> is_transient e"
  shows "transient_retry_loop n f le w = (Some r, iterate_world (Suc k) f w)"
  using assms
proof (induction k arbitrary: n le w)
  case 0
  then obtain m where "n = Suc m" by (cases n) auto
  then show ?case
    using 0 by (cases r) (auto simp: split: prod.splits sum.splits)
next
  case (Suc k)
  then obtain m where n: "n = Suc m" by (cases n) auto
  obtain e w' where f: "f w = (Inl e, w')" "is_transient e"
    using Suc.prems(2) by (metis iterate_world.simps(1) prod.collapse zero_less_Suc)
  have "transient_retry_loop m f (Some e) w' = (Some r, iterate_world (Suc k) f w')"
  proof (rule Suc.IH)
    show "k < m" using Suc.prems(1) n by simp
    show "\<forall>i<k. \<exists>e. fst (f (iterate_world i f w')) = Inl e \<and> is_transient e"
      using Suc.prems(2) f by (metis Suc_less_eq iterate_world.simps(2) snd_conv)
    show "fst (f (iterate_world k f w')) = r"
      using Suc.prems(3) f by simp
  qed (use Suc.prems(4) in simp)
  then show ?case
    using f by (simp add: n)
qed

section \<open>Properties\<close>

text \<open>\<open>with_transient_retry\<close> stops at the first outcome that is not a transient error, runs the
  operation exactly that often and returns that outcome; if all attempts fail transiently it returns
  a transient error after exactly the allowed number of attempts.\<close>

theorem transient_retry_correct:
  assumes "k < unat n"
    and "\<forall>i<k. \<exists>e. fst (f (iterate_world i f w)) = Inl e \<and> is_transient e"
    and "fst (f (iterate_world k f w)) = r" and "\<forall>e. r = Inl e \<longrightarrow> \<not> is_transient e"
  shows "with_transient_retry n f w = (Some r, iterate_world (Suc k) f w)"
  using assms by (simp add: with_transient_retry_def transient_retry_loop_spec)

theorem transient_retry_correct_witness:
  "with_transient_retry 3 (\<lambda>i::nat. (if i < 2 then Inl (ObjectStoreTransient ''busy'') else Inr i, Suc i)) 0
     = (Some (Inr 2), 3)"
proof -
  let ?f = "\<lambda>i::nat. (if i < 2 then Inl (ObjectStoreTransient ''busy'') else Inr i, Suc i)"
  have it: "iterate_world i ?f 0 = i" for i
  proof -
    have "iterate_world i ?f m = m + i" for m
      by (induction i arbitrary: m) simp_all
    then show ?thesis by simp
  qed
  show ?thesis
    using transient_retry_correct [of 2 3 ?f 0 "Inr 2"]
    by (simp only: it) (simp add: is_transient_def)
qed

end
