(* ===== verification/Slatedb.thy ===== *)
theory Slatedb
  imports Catalog_Error
begin

text \<open>
  The storage engine. SlateDB is a library outside the repository, so it is a parameter of every
  definition that calls it: a record of the operations the code uses, over an arbitrary type of
  database states. \<open>sdb_view\<close> is the specification's reading of a state, the key-value map it
  holds; no operation of the model reads it. What the code relies on is \<open>slatedb_ok\<close>:
  successful reads return the map's content, a prefix scan delivers the entries in key order, all of
  them unless its iterator stops with an error, writes update the map, and a transaction at isolation level \<open>SerializableSnapshot\<close> commits all of
  its writes or none, and only when what it read still holds.

  A transaction is the state it was begun on and the log of its operations. Another process can
  change the database between \<open>begin\<close> and \<open>commit\<close>: transactional operations of the model take
  that change as a function \<open>env\<close> on database states.
\<close>

section \<open>Operations\<close>

type_synonym kv = "bytes \<times> bytes"

datatype tx_op = TxGet bytes | TxScan bytes | TxPut bytes bytes | TxDelete bytes

record 'db slatedb =
  sdb_view :: "'db \<Rightarrow> bytes \<Rightarrow> bytes option"
  sdb_get :: "'db \<Rightarrow> bytes \<Rightarrow> string + bytes option"
  sdb_scan_prefix :: "'db \<Rightarrow> bytes \<Rightarrow> string + kv list \<times> string option"
  sdb_put :: "'db \<Rightarrow> bytes \<Rightarrow> bytes \<Rightarrow> (string + unit) \<times> 'db"
  sdb_delete :: "'db \<Rightarrow> bytes \<Rightarrow> (string + unit) \<times> 'db"
  sdb_begin :: "'db \<Rightarrow> string + 'db"
  sdb_tx_get :: "'db \<Rightarrow> tx_op list \<Rightarrow> bytes \<Rightarrow> string + bytes option"
  sdb_tx_scan_prefix :: "'db \<Rightarrow> tx_op list \<Rightarrow> bytes \<Rightarrow> string + kv list \<times> string option"
  sdb_tx_put :: "'db \<Rightarrow> tx_op list \<Rightarrow> bytes \<Rightarrow> bytes \<Rightarrow> string + unit"
  sdb_tx_commit :: "'db \<Rightarrow> tx_op list \<Rightarrow> 'db \<Rightarrow> (string + unit) \<times> 'db"

text \<open>A transaction handle: the state at \<open>begin\<close> and the operations so far, latest last.\<close>

record 'db transaction =
  tx_snap :: 'db
  tx_log :: "tx_op list"

section \<open>Laws\<close>

fun apply_op :: "tx_op \<Rightarrow> (bytes \<Rightarrow> bytes option) \<Rightarrow> bytes \<Rightarrow> bytes option" where
  "apply_op (TxGet k) m = m"
| "apply_op (TxScan p) m = m"
| "apply_op (TxPut k v) m = m(k \<mapsto> v)"
| "apply_op (TxDelete k) m = m(k := None)"

definition apply_log :: "tx_op list \<Rightarrow> (bytes \<Rightarrow> bytes option) \<Rightarrow> bytes \<Rightarrow> bytes option" where
  "apply_log ops m = fold apply_op ops m"

text \<open>What a transaction read on \<open>m\<close> it would read on \<open>m'\<close> too.\<close>

definition reads_agree ::
  "tx_op list \<Rightarrow> (bytes \<Rightarrow> bytes option) \<Rightarrow> (bytes \<Rightarrow> bytes option) \<Rightarrow> bool" where
  "reads_agree ops m m' \<longleftrightarrow>
     (\<forall>k. TxGet k \<in> set ops \<longrightarrow> m k = m' k) \<and>
     (\<forall>p k. TxScan p \<in> set ops \<longrightarrow> prefix p k \<longrightarrow> m k = m' k)"

definition prefix_listing :: "(bytes \<Rightarrow> bytes option) \<Rightarrow> bytes \<Rightarrow> kv list \<Rightarrow> bool" where
  "prefix_listing m p kvs \<longleftrightarrow>
     sorted_wrt (<) (map fst kvs) \<and> (\<forall>k v. (k, v) \<in> set kvs \<longleftrightarrow> prefix p k \<and> m k = Some v)"

definition slatedb_ok :: "'db slatedb \<Rightarrow> bool" where
  "slatedb_ok S \<longleftrightarrow>
     (\<forall>db k v. sdb_get S db k = Inr v \<longrightarrow> v = sdb_view S db k) \<and>
     (\<forall>db p kvs err. sdb_scan_prefix S db p = Inr (kvs, err) \<longrightarrow>
        (\<exists>rest. prefix_listing (sdb_view S db) p (kvs @ rest) \<and> (err = None \<longrightarrow> rest = []))) \<and>
     (\<forall>db k v db'. sdb_put S db k v = (Inr (), db') \<longrightarrow>
        sdb_view S db' = (sdb_view S db)(k \<mapsto> v)) \<and>
     (\<forall>db k db'. sdb_delete S db k = (Inr (), db') \<longrightarrow>
        sdb_view S db' = (sdb_view S db)(k := None)) \<and>
     (\<forall>db sn. sdb_begin S db = Inr sn \<longrightarrow> sdb_view S sn = sdb_view S db) \<and>
     (\<forall>sn ops k v. sdb_tx_get S sn ops k = Inr v \<longrightarrow> v = apply_log ops (sdb_view S sn) k) \<and>
     (\<forall>sn ops p kvs err. sdb_tx_scan_prefix S sn ops p = Inr (kvs, err) \<longrightarrow>
        (\<exists>rest. prefix_listing (apply_log ops (sdb_view S sn)) p (kvs @ rest) \<and>
           (err = None \<longrightarrow> rest = []))) \<and>
     (\<forall>sn ops db r db'. sdb_tx_commit S sn ops db = (r, db') \<longrightarrow>
        (sdb_view S db' = apply_log ops (sdb_view S db) \<and>
           reads_agree ops (sdb_view S sn) (sdb_view S db)) \<or>
        ((\<exists>e. r = Inl e) \<and> sdb_view S db' = sdb_view S db))"

text \<open>When the object store answers, every operation succeeds, and a transaction commits if
  nothing happened since it was begun.\<close>

definition slatedb_available :: "'db slatedb \<Rightarrow> bool" where
  "slatedb_available S \<longleftrightarrow>
     (\<forall>db k. \<exists>v. sdb_get S db k = Inr v) \<and>
     (\<forall>db p. \<exists>kvs. sdb_scan_prefix S db p = Inr (kvs, None)) \<and>
     (\<forall>db k v. fst (sdb_put S db k v) = Inr ()) \<and>
     (\<forall>db k. fst (sdb_delete S db k) = Inr ()) \<and>
     (\<forall>db. \<exists>sn. sdb_begin S db = Inr sn) \<and>
     (\<forall>sn ops k. \<exists>v. sdb_tx_get S sn ops k = Inr v) \<and>
     (\<forall>sn ops p. \<exists>kvs. sdb_tx_scan_prefix S sn ops p = Inr (kvs, None)) \<and>
     (\<forall>sn ops k v. sdb_tx_put S sn ops k v = Inr ()) \<and>
     (\<forall>db sn ops. sdb_begin S db = Inr sn \<longrightarrow> fst (sdb_tx_commit S sn ops db) = Inr ())"

text \<open>A write outside a transaction touches its own key at most, also when it reports an error: the
  write is then lost or, when only the acknowledgement was, applied.\<close>

definition writes_local :: "'db slatedb \<Rightarrow> bool" where
  "writes_local S \<longleftrightarrow>
     (\<forall>db k v r db'. sdb_put S db k v = (r, db') \<longrightarrow>
        sdb_view S db' = sdb_view S db \<or> sdb_view S db' = (sdb_view S db)(k \<mapsto> v)) \<and>
     (\<forall>db k r db'. sdb_delete S db k = (r, db') \<longrightarrow>
        sdb_view S db' = sdb_view S db \<or> sdb_view S db' = (sdb_view S db)(k := None))"

section \<open>Commands\<close>

text \<open>A handler with state \<open>'s\<close> returns a result and the state it leaves behind, also when it
  fails: a Rust method that returns early keeps the mutations made so far.\<close>

type_synonym ('s, 'a) cmd = "'s \<Rightarrow> (CatalogError + 'a) \<times> 's"

definition ret :: "'a \<Rightarrow> ('s, 'a) cmd" where
  [io_simps]: "ret a s = (Inr a, s)"

definition fail :: "CatalogError \<Rightarrow> ('s, 'a) cmd" where
  [io_simps]: "fail e s = (Inl e, s)"

definition bind :: "('s, 'a) cmd \<Rightarrow> ('a \<Rightarrow> ('s, 'b) cmd) \<Rightarrow> ('s, 'b) cmd" where
  [io_simps]: "bind m f s = (case m s of (Inl e, s') \<Rightarrow> (Inl e, s') | (Inr a, s') \<Rightarrow> f a s')"

definition lift :: "CatalogError + 'a \<Rightarrow> ('s, 'a) cmd" where
  [io_simps]: "lift r s = (r, s)"

text \<open>Reads through \<open>?\<close>, which classifies the error, and reads with an explicit
  \<open>map_err(|e| CatalogError::SlateDb(..))\<close>.\<close>

definition db_get :: "'db slatedb \<Rightarrow> 'db \<Rightarrow> bytes \<Rightarrow> CatalogError + bytes option" where
  [io_simps]: "db_get S db k = map_err classify_slatedb_error (sdb_get S db k)"

definition db_put :: "'db slatedb \<Rightarrow> bytes \<Rightarrow> bytes \<Rightarrow> ('db, unit) cmd" where
  [io_simps]: "db_put S k v db =
     (case sdb_put S db k v of (r, db') \<Rightarrow> (map_err classify_slatedb_error r, db'))"

definition db_delete :: "'db slatedb \<Rightarrow> bytes \<Rightarrow> ('db, unit) cmd" where
  [io_simps]: "db_delete S k db =
     (case sdb_delete S db k of (r, db') \<Rightarrow> (map_err classify_slatedb_error r, db'))"

definition begin_tx :: "'db slatedb \<Rightarrow> 'db \<Rightarrow> CatalogError + 'db transaction" where
  [io_simps]: "begin_tx S db =
     map_err SlateDb (rbind (sdb_begin S db) (\<lambda>sn. Inr \<lparr>tx_snap = sn, tx_log = []\<rparr>))"

definition tx_get :: "'db slatedb \<Rightarrow> bytes \<Rightarrow> ('db transaction, bytes option) cmd" where
  [io_simps]: "tx_get S k t =
     (map_err SlateDb (sdb_tx_get S (tx_snap t) (tx_log t) k),
      t\<lparr>tx_log := tx_log t @ [TxGet k]\<rparr>)"

definition tx_put :: "'db slatedb \<Rightarrow> bytes \<Rightarrow> bytes \<Rightarrow> ('db transaction, unit) cmd" where
  [io_simps]: "tx_put S k v t =
     (map_err SlateDb (sdb_tx_put S (tx_snap t) (tx_log t) k v),
      t\<lparr>tx_log := tx_log t @ [TxPut k v]\<rparr>)"

text \<open>The decoders of the scan loops: an enveloped message, a bare counter.\<close>

definition row_decoder :: "'m prost \<Rightarrow> kv \<Rightarrow> CatalogError + 'm" where
  "row_decoder P kv = map_err ValueErr (decode_value P (snd kv))"

definition counter_decoder :: "kv \<Rightarrow> CatalogError + u64" where
  "counter_decoder kv = map_err ValueErr (decode_counter (snd kv))"

text \<open>The loop \<open>while let Some(kv) = iter.next().await.map_err(SlateDb)? { let row = decode(..)?; \<dots> }\<close>
  that keeps the rows satisfying a condition: a decoding error of an entry comes before the
  iterator's own error, which comes after the entries it delivered. The error of opening the scan
  is converted as the call site does (\<open>cls\<close>), the iterator's always by \<open>SlateDb\<close>.\<close>

fun collect_rows ::
  "(kv \<Rightarrow> CatalogError + 'm) \<Rightarrow> ('m \<Rightarrow> bool) \<Rightarrow> kv list \<Rightarrow> string option
     \<Rightarrow> CatalogError + (bytes \<times> 'm) list" where
  "collect_rows dec keep [] err = (case err of None \<Rightarrow> Inr [] | Some e \<Rightarrow> Inl (SlateDb e))"
| "collect_rows dec keep (kv # kvs) err =
     rbind (dec kv) (\<lambda>row.
     rbind (collect_rows dec keep kvs err) (\<lambda>rest.
       Inr (if keep row then (fst kv, row) # rest else rest)))"

definition scan_rows ::
  "'db slatedb \<Rightarrow> (string \<Rightarrow> CatalogError) \<Rightarrow> (kv \<Rightarrow> CatalogError + 'm) \<Rightarrow> 'db \<Rightarrow> bytes \<Rightarrow> ('m \<Rightarrow> bool)
     \<Rightarrow> CatalogError + (bytes \<times> 'm) list" where
  "scan_rows S cls dec db p keep =
     rbind (map_err cls (sdb_scan_prefix S db p)) (\<lambda>(kvs, err). collect_rows dec keep kvs err)"

text \<open>The same loop with an early exit at the first row that satisfies the condition.\<close>

fun find_row ::
  "(kv \<Rightarrow> CatalogError + 'm) \<Rightarrow> ('m \<Rightarrow> bool) \<Rightarrow> kv list \<Rightarrow> string option
     \<Rightarrow> CatalogError + (bytes \<times> 'm) option" where
  "find_row dec found [] err = (case err of None \<Rightarrow> Inr None | Some e \<Rightarrow> Inl (SlateDb e))"
| "find_row dec found (kv # kvs) err =
     rbind (dec kv) (\<lambda>row.
       if found row then Inr (Some (fst kv, row)) else find_row dec found kvs err)"

definition scan_find ::
  "'db slatedb \<Rightarrow> (string \<Rightarrow> CatalogError) \<Rightarrow> (kv \<Rightarrow> CatalogError + 'm) \<Rightarrow> 'db \<Rightarrow> bytes \<Rightarrow> ('m \<Rightarrow> bool)
     \<Rightarrow> CatalogError + (bytes \<times> 'm) option" where
  "scan_find S cls dec db p found =
     rbind (map_err cls (sdb_scan_prefix S db p)) (\<lambda>(kvs, err). find_row dec found kvs err)"

text \<open>The scan inside a transaction, which joins its read set.\<close>

definition tx_scan_rows ::
  "'db slatedb \<Rightarrow> (kv \<Rightarrow> CatalogError + 'm) \<Rightarrow> bytes \<Rightarrow> ('m \<Rightarrow> bool)
     \<Rightarrow> ('db transaction, (bytes \<times> 'm) list) cmd" where
  "tx_scan_rows S dec p keep t =
     (rbind (map_err SlateDb (sdb_tx_scan_prefix S (tx_snap t) (tx_log t) p))
        (\<lambda>(kvs, err). collect_rows dec keep kvs err),
      t\<lparr>tx_log := tx_log t @ [TxScan p]\<rparr>)"

section \<open>Facts about the laws\<close>

lemma sdb_get_ok:
  "slatedb_ok S \<Longrightarrow> sdb_get S db k = Inr v \<Longrightarrow> v = sdb_view S db k"
  by (simp add: slatedb_ok_def)

lemma sdb_scan_prefix_partial:
  assumes "slatedb_ok S" and "sdb_scan_prefix S db p = Inr (kvs, err)"
  shows "\<exists>rest. prefix_listing (sdb_view S db) p (kvs @ rest) \<and> (err = None \<longrightarrow> rest = [])"
proof -
  from assms(1) have "\<forall>db p kvs err. sdb_scan_prefix S db p = Inr (kvs, err) \<longrightarrow>
      (\<exists>rest. prefix_listing (sdb_view S db) p (kvs @ rest) \<and> (err = None \<longrightarrow> rest = []))"
    unfolding slatedb_ok_def by (elim conjE)
  then show ?thesis
    using assms(2) by iprover
qed

lemma sdb_scan_prefix_ok:
  "slatedb_ok S \<Longrightarrow> sdb_scan_prefix S db p = Inr (kvs, None) \<Longrightarrow> prefix_listing (sdb_view S db) p kvs"
  using sdb_scan_prefix_partial by fastforce

lemma sdb_put_local:
  "writes_local S \<Longrightarrow> sdb_put S db k w = (r, db') \<Longrightarrow>
     sdb_view S db' = sdb_view S db \<or> sdb_view S db' = (sdb_view S db)(k \<mapsto> w)"
  unfolding writes_local_def by (elim conjE) blast

lemma sdb_delete_local:
  "writes_local S \<Longrightarrow> sdb_delete S db k = (r, db') \<Longrightarrow>
     sdb_view S db' = sdb_view S db \<or> sdb_view S db' = (sdb_view S db)(k := None)"
  unfolding writes_local_def by (elim conjE) blast

lemma sdb_put_ok:
  "slatedb_ok S \<Longrightarrow> sdb_put S db k w = (Inr (), db') \<Longrightarrow> sdb_view S db' = (sdb_view S db)(k \<mapsto> w)"
  by (simp add: slatedb_ok_def)

lemma sdb_delete_ok:
  "slatedb_ok S \<Longrightarrow> sdb_delete S db k = (Inr (), db') \<Longrightarrow> sdb_view S db' = (sdb_view S db)(k := None)"
  by (simp add: slatedb_ok_def)

lemma sdb_begin_ok:
  "slatedb_ok S \<Longrightarrow> sdb_begin S db = Inr sn \<Longrightarrow> sdb_view S sn = sdb_view S db"
  by (simp add: slatedb_ok_def)

lemma sdb_tx_get_ok:
  "slatedb_ok S \<Longrightarrow> sdb_tx_get S sn ops k = Inr v \<Longrightarrow> v = apply_log ops (sdb_view S sn) k"
  by (simp add: slatedb_ok_def)

lemma sdb_tx_scan_prefix_ok:
  assumes "slatedb_ok S" and "sdb_tx_scan_prefix S sn ops p = Inr (kvs, None)"
  shows "prefix_listing (apply_log ops (sdb_view S sn)) p kvs"
proof -
  from assms(1) have "\<forall>sn ops p kvs err. sdb_tx_scan_prefix S sn ops p = Inr (kvs, err) \<longrightarrow>
      (\<exists>rest. prefix_listing (apply_log ops (sdb_view S sn)) p (kvs @ rest) \<and>
         (err = None \<longrightarrow> rest = []))"
    unfolding slatedb_ok_def by (elim conjE)
  then show ?thesis
    using assms(2) by fastforce
qed

lemma sdb_tx_commit_ok:
  assumes "slatedb_ok S" and "sdb_tx_commit S sn ops db = (r, db')"
  shows "sdb_view S db' = apply_log ops (sdb_view S db) \<and>
       reads_agree ops (sdb_view S sn) (sdb_view S db) \<or>
     (\<exists>e. r = Inl e) \<and> sdb_view S db' = sdb_view S db"
proof -
  from assms(1) have "\<forall>sn ops db r db'. sdb_tx_commit S sn ops db = (r, db') \<longrightarrow>
        (sdb_view S db' = apply_log ops (sdb_view S db) \<and>
           reads_agree ops (sdb_view S sn) (sdb_view S db)) \<or>
        ((\<exists>e. r = Inl e) \<and> sdb_view S db' = sdb_view S db)"
    unfolding slatedb_ok_def by (elim conjE)
  then show ?thesis
    using assms(2) by iprover
qed

lemma sdb_tx_commit_Inr:
  "slatedb_ok S \<Longrightarrow> sdb_tx_commit S sn ops db = (Inr u, db') \<Longrightarrow>
     sdb_view S db' = apply_log ops (sdb_view S db) \<and>
     reads_agree ops (sdb_view S sn) (sdb_view S db)"
  using sdb_tx_commit_ok by fastforce

lemma sdb_get_available:
  "slatedb_available S \<Longrightarrow> \<exists>v. sdb_get S db k = Inr v"
  by (simp add: slatedb_available_def)

lemma sdb_scan_prefix_available:
  "slatedb_available S \<Longrightarrow> \<exists>kvs. sdb_scan_prefix S db p = Inr (kvs, None)"
  by (simp add: slatedb_available_def)

lemma sdb_put_available:
  "slatedb_available S \<Longrightarrow> fst (sdb_put S db k w) = Inr ()"
  by (simp add: slatedb_available_def)

lemma sdb_delete_available:
  "slatedb_available S \<Longrightarrow> fst (sdb_delete S db k) = Inr ()"
  by (simp add: slatedb_available_def)

lemma sdb_begin_available:
  "slatedb_available S \<Longrightarrow> \<exists>sn. sdb_begin S db = Inr sn"
  by (simp add: slatedb_available_def)

lemma sdb_tx_get_available:
  "slatedb_available S \<Longrightarrow> \<exists>v. sdb_tx_get S sn ops k = Inr v"
  by (simp add: slatedb_available_def)

lemma sdb_tx_scan_prefix_available:
  "slatedb_available S \<Longrightarrow> \<exists>kvs. sdb_tx_scan_prefix S sn ops p = Inr (kvs, None)"
  by (simp add: slatedb_available_def)

lemma sdb_tx_put_available:
  "slatedb_available S \<Longrightarrow> sdb_tx_put S sn ops k w = Inr ()"
  by (simp add: slatedb_available_def)

lemma sdb_tx_commit_available:
  "slatedb_available S \<Longrightarrow> sdb_begin S db = Inr sn \<Longrightarrow> fst (sdb_tx_commit S sn ops db) = Inr ()"
  by (simp add: slatedb_available_def)

lemma apply_log_simps [simp]:
  "apply_log [] m = m"
  "apply_log (TxGet k # ops) m = apply_log ops m"
  "apply_log (TxScan p # ops) m = apply_log ops m"
  "apply_log (TxPut k v # ops) m = apply_log ops (m(k \<mapsto> v))"
  "apply_log (TxDelete k # ops) m = apply_log ops (m(k := None))"
  by (simp_all add: apply_log_def)

lemma apply_log_append [simp]: "apply_log (xs @ ys) m = apply_log ys (apply_log xs m)"
  by (simp add: apply_log_def)

lemma reads_agree_get: "reads_agree ops m m' \<Longrightarrow> TxGet k \<in> set ops \<Longrightarrow> m k = m' k"
  by (simp add: reads_agree_def)

lemma reads_agree_scan:
  "reads_agree ops m m' \<Longrightarrow> TxScan p \<in> set ops \<Longrightarrow> prefix p k \<Longrightarrow> m k = m' k"
  by (simp add: reads_agree_def)

lemma prefix_listing_unique:
  assumes "prefix_listing m p kvs" and "prefix_listing m p kvs'"
  shows "kvs = kvs'"
proof (rule map_sorted_distinct_set_unique [where f = fst])
  show "set kvs = set kvs'"
    using assms by (auto simp: prefix_listing_def)
  then show "inj_on fst (set kvs \<union> set kvs')"
    using assms by (auto simp: prefix_listing_def inj_on_def)
qed (use assms in \<open>simp_all add: prefix_listing_def strict_sorted_iff\<close>)

section \<open>Facts about scans\<close>

definition decoded_row :: "(kv \<Rightarrow> CatalogError + 'm) \<Rightarrow> ('m \<Rightarrow> bool) \<Rightarrow> kv \<Rightarrow> (bytes \<times> 'm) option" where
  "decoded_row dec keep kv =
     (case dec kv of Inl _ \<Rightarrow> None | Inr r \<Rightarrow> if keep r then Some (fst kv, r) else None)"

text \<open>What a complete scan of the map \<open>m\<close> under the prefix \<open>p\<close> delivers.\<close>

definition rows_under ::
  "(kv \<Rightarrow> CatalogError + 'm) \<Rightarrow> ('m \<Rightarrow> bool) \<Rightarrow> (bytes \<Rightarrow> bytes option) \<Rightarrow> bytes \<Rightarrow> (bytes \<times> 'm) list \<Rightarrow> bool" where
  "rows_under dec keep m p rows \<longleftrightarrow>
     (\<exists>kvs. prefix_listing m p kvs \<and> (\<forall>kv\<in>set kvs. \<exists>r. dec kv = Inr r) \<and>
        rows = List.map_filter (decoded_row dec keep) kvs)"

lemma set_map_filter_Some: "y \<in> set (List.map_filter f xs) \<longleftrightarrow> (\<exists>x\<in>set xs. f x = Some y)"
  by (force simp: List.map_filter_def)

lemma collect_rows_Inr_iff:
  "collect_rows dec keep kvs err = Inr rows \<longleftrightarrow>
     err = None \<and> (\<forall>kv\<in>set kvs. \<exists>r. dec kv = Inr r) \<and>
     rows = List.map_filter (decoded_row dec keep) kvs"
proof (induction dec keep kvs err arbitrary: rows rule: collect_rows.induct)
  case (1 dec keep err)
  then show ?case by (auto split: option.splits simp: List.map_filter_def)
next
  case (2 dec keep kv kvs err)
  show ?case
  proof (cases "dec kv")
    case (Inl e)
    then show ?thesis by auto
  next
    case (Inr r)
    then have "collect_rows dec keep (kv # kvs) err = Inr rows \<longleftrightarrow>
        (\<exists>rest. collect_rows dec keep kvs err = Inr rest \<and>
           rows = (if keep r then (fst kv, r) # rest else rest))"
      by (auto simp: rbind_eq_Inr_iff)
    then show ?thesis
      using Inr 2 by (auto simp: decoded_row_def List.map_filter_def)
  qed
qed

lemma scan_rows_Inr:
  assumes "slatedb_ok S" and "scan_rows S cls dec db p keep = Inr rows"
  shows "rows_under dec keep (sdb_view S db) p rows"
proof -
  obtain kvs err where sc: "sdb_scan_prefix S db p = Inr (kvs, err)"
    and co: "collect_rows dec keep kvs err = Inr rows"
    using assms(2) by (auto simp: scan_rows_def rbind_eq_Inr_iff)
  have "prefix_listing (sdb_view S db) p kvs"
    using co sc sdb_scan_prefix_ok [OF assms(1)] by (simp add: collect_rows_Inr_iff)
  with co show ?thesis
    by (auto simp: collect_rows_Inr_iff rows_under_def)
qed

lemma tx_scan_rows_Inr:
  assumes "slatedb_ok S" and "tx_scan_rows S dec p keep t = (Inr rows, t')"
  shows "rows_under dec keep (apply_log (tx_log t) (sdb_view S (tx_snap t))) p rows"
    and "t' = t\<lparr>tx_log := tx_log t @ [TxScan p]\<rparr>"
proof -
  obtain kvs err where sc: "sdb_tx_scan_prefix S (tx_snap t) (tx_log t) p = Inr (kvs, err)"
    and co: "collect_rows dec keep kvs err = Inr rows"
    using assms(2) by (auto simp: tx_scan_rows_def rbind_eq_Inr_iff)
  have "prefix_listing (apply_log (tx_log t) (sdb_view S (tx_snap t))) p kvs"
    using co sc sdb_tx_scan_prefix_ok [OF assms(1)] by (simp add: collect_rows_Inr_iff)
  with co show "rows_under dec keep (apply_log (tx_log t) (sdb_view S (tx_snap t))) p rows"
    by (auto simp: collect_rows_Inr_iff rows_under_def)
  show "t' = t\<lparr>tx_log := tx_log t @ [TxScan p]\<rparr>"
    using assms(2) by (simp add: tx_scan_rows_def)
qed

lemma rows_under_set:
  assumes "rows_under dec keep m p rows"
  shows "(k, r) \<in> set rows \<longleftrightarrow>
     prefix p k \<and> (\<exists>v. m k = Some v \<and> dec (k, v) = Inr r) \<and> keep r"
proof -
  obtain kvs where l: "prefix_listing m p kvs"
    and rows: "rows = List.map_filter (decoded_row dec keep) kvs"
    using assms by (auto simp: rows_under_def)
  have "(k, v) \<in> set kvs \<longleftrightarrow> prefix p k \<and> m k = Some v" for k v
    using l by (simp add: prefix_listing_def)
  moreover have "decoded_row dec keep kv = Some (k, r) \<longleftrightarrow>
      fst kv = k \<and> dec kv = Inr r \<and> keep r" for kv
    by (auto simp: decoded_row_def split: sum.splits)
  ultimately show ?thesis
    unfolding rows set_map_filter_Some by (metis prod.collapse fst_conv)
qed

lemma rows_under_decodes:
  "rows_under dec keep m p rows \<Longrightarrow> prefix p k \<Longrightarrow> m k = Some v \<Longrightarrow> \<exists>r. dec (k, v) = Inr r"
  by (auto simp: rows_under_def prefix_listing_def)

text \<open>A scan is determined by the content under its prefix.\<close>

lemma rows_under_unique:
  assumes "rows_under dec keep m p rows" and "rows_under dec keep m' p rows'"
    and "\<And>k. prefix p k \<Longrightarrow> m k = m' k"
  shows "rows = rows'"
proof -
  obtain kvs kvs' where l: "prefix_listing m p kvs" "prefix_listing m' p kvs'"
    and r: "rows = List.map_filter (decoded_row dec keep) kvs"
      "rows' = List.map_filter (decoded_row dec keep) kvs'"
    using assms(1,2) by (auto simp: rows_under_def)
  have "prefix_listing m p kvs'"
    using l(2) assms(3) by (auto simp: prefix_listing_def)
  then show ?thesis
    using prefix_listing_unique [OF l(1)] r by simp
qed

end
