(* ===== verification/Transactions.thy ===== *)
theory Transactions
  imports Slatedb
begin

text \<open>
  The shape every transactional function of the catalog has: \<open>begin\<close>, a body of reads and buffered
  writes with early returns, \<open>commit\<close>; and the loop \<open>match tx.commit().await { Ok(_) => return ..,
  Err(_) => continue }\<close> around it. The facts here are the ones the clients use: a committed
  transaction takes effect on the state it commits on as if it had run there, and a retry loop
  ends at the first attempt no other process interferes with.
\<close>

section \<open>Running a transaction\<close>

text \<open>The body ends by leaving the transaction without a commit (\<open>Rollback\<close>) or by going on to
  \<open>tx.commit()\<close> (\<open>Commit\<close>).\<close>

datatype 'a tx_end = Rollback 'a | Commit 'a

datatype 'a tx_result = TxDone "CatalogError + 'a" | TxConflict string

definition run_tx ::
  "'db slatedb \<Rightarrow> ('db transaction, 'a tx_end) cmd \<Rightarrow> ('db \<Rightarrow> 'db) \<Rightarrow> 'db \<Rightarrow> 'a tx_result \<times> 'db" where
  "run_tx S body env db =
     (case begin_tx S db of
        Inl e \<Rightarrow> (TxDone (Inl e), db)
      | Inr t \<Rightarrow>
          (case body t of
             (Inl e, _) \<Rightarrow> (TxDone (Inl e), db)
           | (Inr (Rollback a), _) \<Rightarrow> (TxDone (Inr a), db)
           | (Inr (Commit a), t') \<Rightarrow>
               (case sdb_tx_commit S (tx_snap t') (tx_log t') (env db) of
                  (Inl e, db') \<Rightarrow> (TxConflict e, db')
                | (Inr _, db') \<Rightarrow> (TxDone (Inr a), db'))))"

text \<open>A single attempt: a failed commit is the caller's \<open>TransactionConflict\<close>.\<close>

definition once_tx ::
  "'db slatedb \<Rightarrow> ('db transaction, 'a tx_end) cmd \<Rightarrow> ('db \<Rightarrow> 'db) \<Rightarrow> ('db, 'a) cmd" where
  "once_tx S body env db =
     (case run_tx S body env db of
        (TxDone r, db') \<Rightarrow> (r, db')
      | (TxConflict e, db') \<Rightarrow> (Inl (TransactionConflict e), db'))"

text \<open>The retry loop, one attempt per element of \<open>envs\<close>, what the other processes do during that
  attempt; \<open>None\<close> means that the loop is still running after these attempts.\<close>

fun retry_tx ::
  "'db slatedb \<Rightarrow> ('db transaction, 'a tx_end) cmd \<Rightarrow> ('db \<Rightarrow> 'db) list \<Rightarrow> 'db
     \<Rightarrow> (CatalogError + 'a) option \<times> 'db" where
  "retry_tx S body [] db = (None, db)"
| "retry_tx S body (env # envs) db =
     (case run_tx S body env db of
        (TxDone r, db') \<Rightarrow> (Some r, db')
      | (TxConflict e, db') \<Rightarrow> retry_tx S body envs db')"

section \<open>Inside a transaction\<close>

lemma bind_Inr:
  "bind m f s = (Inr b, s') \<longleftrightarrow> (\<exists>a s1. m s = (Inr a, s1) \<and> f a s1 = (Inr b, s'))"
  by (auto simp: bind_def split: prod.splits sum.splits)

lemma lift_Inr [simp]: "lift r s = (Inr a, s') \<longleftrightarrow> r = Inr a \<and> s' = s"
  by (auto simp: lift_def)

lemma ret_Inr [simp]: "ret a s = (Inr b, s') \<longleftrightarrow> b = a \<and> s' = s"
  by (auto simp: ret_def)

lemma fail_Inr [simp]: "fail e s \<noteq> (Inr b, s')"
  by (simp add: fail_def)

lemma tx_get_Inr:
  assumes "slatedb_ok S"
  shows "tx_get S k t = (Inr v, t') \<Longrightarrow>
     apply_log (tx_log t) (sdb_view S (tx_snap t)) k = v \<and> t' = t\<lparr>tx_log := tx_log t @ [TxGet k]\<rparr>"
  by (auto simp: tx_get_def dest: sdb_tx_get_ok [OF assms])

lemma tx_put_Inr [simp]:
  "tx_put S k v t = (Inr u, t') \<longleftrightarrow>
     sdb_tx_put S (tx_snap t) (tx_log t) k v = Inr () \<and>
     t' = t\<lparr>tx_log := tx_log t @ [TxPut k v]\<rparr>"
  by (auto simp: tx_put_def)

lemma tx_get_total:
  assumes "slatedb_ok S" and "slatedb_available S"
  shows "tx_get S k t =
     (Inr (apply_log (tx_log t) (sdb_view S (tx_snap t)) k), t\<lparr>tx_log := tx_log t @ [TxGet k]\<rparr>)"
  using sdb_tx_get_available [OF assms(2), of "tx_snap t" "tx_log t" k]
    sdb_tx_get_ok [OF assms(1)]
  by (auto simp: tx_get_def)

lemma tx_put_total:
  "slatedb_available S \<Longrightarrow> tx_put S k v t = (Inr (), t\<lparr>tx_log := tx_log t @ [TxPut k v]\<rparr>)"
  by (simp add: tx_put_def sdb_tx_put_available)

lemma begin_tx_Inr:
  assumes "slatedb_ok S" and "begin_tx S db = Inr t"
  shows "sdb_view S (tx_snap t) = sdb_view S db" and "tx_log t = []"
  using assms by (auto simp: begin_tx_def rbind_eq_Inr_iff dest: sdb_begin_ok)

section \<open>Direct reads and writes\<close>

lemma db_put_Inr:
  assumes "slatedb_ok S" and "db_put S k v db = (Inr u, db')"
  shows "sdb_view S db' = (sdb_view S db)(k \<mapsto> v)"
  using assms by (auto simp: db_put_def split: prod.splits intro: sdb_put_ok)

lemma db_delete_Inr:
  assumes "slatedb_ok S" and "db_delete S k db = (Inr u, db')"
  shows "sdb_view S db' = (sdb_view S db)(k := None)"
  using assms by (auto simp: db_delete_def split: prod.splits intro: sdb_delete_ok)

lemma db_get_Inr: "slatedb_ok S \<Longrightarrow> db_get S db k = Inr v \<Longrightarrow> v = sdb_view S db k"
  by (simp add: db_get_def sdb_get_ok)

section \<open>Effect of a transaction\<close>

text \<open>An attempt that returns normally either left the database alone after a body that decided so,
  or its log took effect on the state at commit, where its reads still hold.\<close>

lemma run_tx_Inr:
  assumes "slatedb_ok S" and "run_tx S body env db = (TxDone (Inr a), db')"
  obtains t t' where "sdb_view S (tx_snap t) = sdb_view S db" and "tx_log t = []"
      and "body t = (Inr (Rollback a), t')" and "db' = db"
  | t t' where "sdb_view S (tx_snap t) = sdb_view S db" and "tx_log t = []"
      and "body t = (Inr (Commit a), t')"
      and "sdb_view S db' = apply_log (tx_log t') (sdb_view S (env db))"
      and "reads_agree (tx_log t') (sdb_view S (tx_snap t')) (sdb_view S (env db))"
proof -
  obtain t where t: "begin_tx S db = Inr t"
    using assms(2) by (cases "begin_tx S db") (auto simp: run_tx_def)
  note b = begin_tx_Inr [OF assms(1) t]
  obtain r t' where bt: "body t = (r, t')" by (cases "body t")
  from assms(2) t bt obtain e where r: "r = Inr e"
    by (cases r) (auto simp: run_tx_def)
  show thesis
  proof (cases e)
    case (Rollback x)
    with assms(2) t bt r show thesis
      using that(1) [OF b] by (simp add: run_tx_def)
  next
    case (Commit x)
    obtain cr db1 where c: "sdb_tx_commit S (tx_snap t') (tx_log t') (env db) = (cr, db1)"
      by (cases "sdb_tx_commit S (tx_snap t') (tx_log t') (env db)")
    with assms(2) t bt r Commit obtain u where cr: "cr = Inr u" "x = a" "db1 = db'"
      by (cases cr) (auto simp: run_tx_def)
    with c have "sdb_tx_commit S (tx_snap t') (tx_log t') (env db) = (Inr u, db')" by simp
    from sdb_tx_commit_Inr [OF assms(1) this] that(2) [OF b] bt r Commit cr show thesis
      by simp
  qed
qed

text \<open>An attempt that does not return normally applied its whole log or nothing.\<close>

lemma run_tx_atomic:
  assumes "slatedb_ok S" and "run_tx S body env db = (r, db')"
  shows "db' = db \<or> sdb_view S db' = sdb_view S (env db) \<or>
     (\<exists>t a t'. sdb_view S (tx_snap t) = sdb_view S db \<and> tx_log t = [] \<and>
        body t = (Inr (Commit a), t') \<and>
        sdb_view S db' = apply_log (tx_log t') (sdb_view S (env db)) \<and>
        reads_agree (tx_log t') (sdb_view S (tx_snap t')) (sdb_view S (env db)))"
proof (cases "begin_tx S db")
  case (Inl e)
  then show ?thesis using assms(2) by (simp add: run_tx_def)
next
  case (Inr t)
  note b = begin_tx_Inr [OF assms(1) Inr]
  obtain br t' where bt: "body t = (br, t')" by (cases "body t")
  show ?thesis
  proof (cases "\<exists>a. br = Inr (Commit a)")
    case False
    then have "db' = db"
      using assms(2) Inr bt by (auto simp: run_tx_def split: sum.splits tx_end.splits)
    then show ?thesis ..
  next
    case True
    then obtain a where br: "br = Inr (Commit a)" ..
    obtain cr db1 where c: "sdb_tx_commit S (tx_snap t') (tx_log t') (env db) = (cr, db1)"
      by (cases "sdb_tx_commit S (tx_snap t') (tx_log t') (env db)")
    with assms(2) Inr bt br have "db1 = db'"
      by (auto simp: run_tx_def split: sum.splits)
    with sdb_tx_commit_ok [OF assms(1) c] b bt br show ?thesis
      by blast
  qed
qed

text \<open>Without interference and failures the attempt runs to its end. The commands a body is made
  of keep the state the transaction was begun on.\<close>

definition keeps_snap :: "('db transaction, 'a) cmd \<Rightarrow> bool" where
  "keeps_snap m \<longleftrightarrow> (\<forall>t. tx_snap (snd (m t)) = tx_snap t)"

lemma keeps_snap_simps [simp]:
  "keeps_snap (ret a)" "keeps_snap (fail e)" "keeps_snap (lift r)"
  "keeps_snap (tx_get S k)" "keeps_snap (tx_put S k v)" "keeps_snap (tx_scan_rows S dec p keep)"
  by (simp_all add: keeps_snap_def ret_def fail_def lift_def tx_get_def tx_put_def tx_scan_rows_def)

lemma keeps_snap_bind [intro]:
  assumes "keeps_snap m" and "\<And>a. keeps_snap (f a)"
  shows "keeps_snap (bind m f)"
proof -
  have "tx_snap (snd (bind m f t)) = tx_snap t" for t
    using assms by (cases "m t"; cases "fst (m t)")
      (auto simp: keeps_snap_def bind_def dest: spec [of _ t])
  then show ?thesis by (simp add: keeps_snap_def)
qed

lemma run_tx_available:
  assumes "slatedb_available S" and "keeps_snap body"
  shows "\<exists>r db'. run_tx S body id db = (TxDone r, db')"
proof -
  obtain sn where sn: "sdb_begin S db = Inr sn"
    using sdb_begin_available [OF assms(1)] by blast
  then have t: "begin_tx S db = Inr \<lparr>tx_snap = sn, tx_log = []\<rparr>"
    by (simp add: begin_tx_def)
  obtain r t' where bt: "body \<lparr>tx_snap = sn, tx_log = []\<rparr> = (r, t')"
    by (cases "body \<lparr>tx_snap = sn, tx_log = []\<rparr>")
  then have s: "tx_snap t' = sn"
    using assms(2) by (metis keeps_snap_def select_convs(1) snd_conv)
  have c: "fst (sdb_tx_commit S sn (tx_log t') db) = Inr ()"
    by (rule sdb_tx_commit_available [OF assms(1) sn])
  show ?thesis
  proof (cases "\<exists>a. r = Inr (Commit a)")
    case False
    with t bt show ?thesis
      by (auto simp: run_tx_def split: sum.splits tx_end.splits)
  next
    case True
    with t bt s c show ?thesis
      by (cases "sdb_tx_commit S sn (tx_log t') db") (auto simp: run_tx_def)
  qed
qed

section \<open>Retry loops\<close>

lemma retry_tx_Some:
  "retry_tx S body envs db = (Some r, db') \<Longrightarrow>
     \<exists>env db0. env \<in> set envs \<and> run_tx S body env db0 = (TxDone r, db')"
  by (induction S body envs db rule: retry_tx.induct) (auto split: prod.splits tx_result.splits)

text \<open>The loop returns as soon as one attempt is undisturbed.\<close>

lemma retry_tx_returns:
  assumes "slatedb_available S" and "keeps_snap body" and "id \<in> set envs"
  shows "\<exists>r db'. retry_tx S body envs db = (Some r, db')"
  using assms(3)
proof (induction envs arbitrary: db)
  case Nil
  then show ?case by simp
next
  case (Cons env envs)
  show ?case
  proof (cases "env = id")
    case True
    with run_tx_available [OF assms(1,2), of db] show ?thesis by auto
  next
    case False
    with Cons show ?thesis by (cases "run_tx S body env db") (auto split: tx_result.splits)
  qed
qed

section \<open>What other processes keep\<close>

text \<open>A property of the content that every concurrent step keeps, and that a commit of the body
  keeps where its reads still hold, is kept by all attempts of the loop.\<close>

definition kept_by :: "'db slatedb \<Rightarrow> ((bytes \<Rightarrow> bytes option) \<Rightarrow> bool) \<Rightarrow> ('db \<Rightarrow> 'db) \<Rightarrow> bool" where
  "kept_by S Q env \<longleftrightarrow> (\<forall>db. Q (sdb_view S db) \<longrightarrow> Q (sdb_view S (env db)))"

lemma run_tx_keeps:
  assumes "slatedb_ok S" and "run_tx S body env db = (r, db')" and "Q (sdb_view S db)"
    and "kept_by S Q env"
    and step: "\<And>t t' a m. body t = (Inr (Commit a), t') \<Longrightarrow> tx_log t = [] \<Longrightarrow>
        reads_agree (tx_log t') (sdb_view S (tx_snap t')) m \<Longrightarrow> Q m \<Longrightarrow> Q (apply_log (tx_log t') m)"
  shows "Q (sdb_view S db')"
  using run_tx_atomic [OF assms(1,2)] assms(3,4) step unfolding kept_by_def by metis

lemma retry_tx_keeps:
  assumes "slatedb_ok S" and "\<forall>env\<in>set envs. kept_by S Q env"
    and step: "\<And>t t' a m. body t = (Inr (Commit a), t') \<Longrightarrow> tx_log t = [] \<Longrightarrow>
        reads_agree (tx_log t') (sdb_view S (tx_snap t')) m \<Longrightarrow> Q m \<Longrightarrow> Q (apply_log (tx_log t') m)"
  shows "retry_tx S body envs db = (Some r, db') \<Longrightarrow> Q (sdb_view S db) \<Longrightarrow>
     \<exists>env db0. env \<in> set envs \<and> Q (sdb_view S db0) \<and> run_tx S body env db0 = (TxDone r, db')"
  using assms(2)
proof (induction envs arbitrary: db)
  case Nil
  then show ?case by simp
next
  case (Cons env envs)
  obtain tr db1 where run: "run_tx S body env db = (tr, db1)" by (cases "run_tx S body env db")
  show ?case
  proof (cases tr)
    case (TxDone x)
    then show ?thesis using Cons.prems run by auto
  next
    case (TxConflict e)
    have "Q (sdb_view S db1)"
      by (rule run_tx_keeps [OF assms(1) run Cons.prems(2) _ step]) (use Cons.prems(3) in auto)
    moreover have "retry_tx S body envs db1 = (Some r, db')"
      using Cons.prems(1) run TxConflict by simp
    ultimately have "\<exists>env db0. env \<in> set envs \<and> Q (sdb_view S db0) \<and>
        run_tx S body env db0 = (TxDone r, db')"
      using Cons.IH Cons.prems(3) by simp
    then show ?thesis by auto
  qed
qed

end
