(* ===== verification/Mem_Db.thy ===== *)
theory Mem_Db
  imports Transactions
begin

text \<open>
  A storage engine that satisfies the laws of \<open>Slatedb\<close>: an association list in memory, with
  optimistic transactions that validate their read set at commit. It shows that the laws can be met
  and is the instance the concrete evaluations of the development run on.
\<close>

type_synonym mem_db = "kv list"

definition mem_scan :: "mem_db \<Rightarrow> bytes \<Rightarrow> kv list" where
  "mem_scan db p =
     map (\<lambda>k. (k, the (map_of db k))) (filter (prefix p) (remdups (sort (map fst db))))"

fun mem_apply_op :: "tx_op \<Rightarrow> mem_db \<Rightarrow> mem_db" where
  "mem_apply_op (TxGet k) db = db"
| "mem_apply_op (TxScan p) db = db"
| "mem_apply_op (TxPut k v) db = (k, v) # db"
| "mem_apply_op (TxDelete k) db = filter (\<lambda>kv. fst kv \<noteq> k) db"

definition mem_apply :: "tx_op list \<Rightarrow> mem_db \<Rightarrow> mem_db" where
  "mem_apply ops db = fold mem_apply_op ops db"

fun mem_valid :: "mem_db \<Rightarrow> mem_db \<Rightarrow> tx_op \<Rightarrow> bool" where
  "mem_valid sn db (TxGet k) = (map_of sn k = map_of db k)"
| "mem_valid sn db (TxScan p) =
     list_all (\<lambda>kv. prefix p (fst kv) \<longrightarrow> map_of sn (fst kv) = map_of db (fst kv)) (sn @ db)"
| "mem_valid sn db (TxPut k v) = True"
| "mem_valid sn db (TxDelete k) = True"

definition mem_commit :: "mem_db \<Rightarrow> tx_op list \<Rightarrow> mem_db \<Rightarrow> (string + unit) \<times> mem_db" where
  "mem_commit sn ops db =
     (if list_all (mem_valid sn db) ops then (Inr (), mem_apply ops db)
      else (Inl ''transaction conflict'', db))"

definition mem_slatedb :: "mem_db slatedb" where
  "mem_slatedb =
     \<lparr>sdb_view = map_of,
      sdb_get = (\<lambda>db k. Inr (map_of db k)),
      sdb_scan_prefix = (\<lambda>db p. Inr (mem_scan db p, None)),
      sdb_put = (\<lambda>db k v. (Inr (), (k, v) # db)),
      sdb_delete = (\<lambda>db k. (Inr (), filter (\<lambda>kv. fst kv \<noteq> k) db)),
      sdb_begin = Inr,
      sdb_tx_get = (\<lambda>sn ops k. Inr (map_of (mem_apply ops sn) k)),
      sdb_tx_scan_prefix = (\<lambda>sn ops p. Inr (mem_scan (mem_apply ops sn) p, None)),
      sdb_tx_put = (\<lambda>sn ops k v. Inr ()),
      sdb_tx_commit = mem_commit\<rparr>"

lemma mem_slatedb_simps [simp]:
  "sdb_view mem_slatedb = map_of"
  "sdb_get mem_slatedb db k = Inr (map_of db k)"
  "sdb_scan_prefix mem_slatedb db p = Inr (mem_scan db p, None)"
  "sdb_put mem_slatedb db k v = (Inr (), (k, v) # db)"
  "sdb_delete mem_slatedb db k = (Inr (), filter (\<lambda>kv. fst kv \<noteq> k) db)"
  "sdb_begin mem_slatedb db = Inr db"
  "sdb_tx_get mem_slatedb sn ops k = Inr (map_of (mem_apply ops sn) k)"
  "sdb_tx_scan_prefix mem_slatedb sn ops p = Inr (mem_scan (mem_apply ops sn) p, None)"
  "sdb_tx_put mem_slatedb sn ops k v = Inr ()"
  "sdb_tx_commit mem_slatedb sn ops db = mem_commit sn ops db"
  by (simp_all add: mem_slatedb_def)

section \<open>The laws hold\<close>

lemma mem_scan_listing: "prefix_listing (map_of db) p (mem_scan db p)"
proof -
  have "sorted_wrt (<) (filter (prefix p) (remdups (sort (map fst db))))"
    by (intro sorted_wrt_filter) (simp add: strict_sorted_iff)
  moreover have "(k, v) \<in> set (mem_scan db p) \<longleftrightarrow> prefix p k \<and> map_of db k = Some v" for k v
  proof -
    have "(k, v) \<in> set (mem_scan db p) \<longleftrightarrow>
        k \<in> fst ` set db \<and> prefix p k \<and> v = the (map_of db k)"
      by (auto simp: mem_scan_def)
    also have "k \<in> fst ` set db \<longleftrightarrow> map_of db k \<noteq> None"
      by (simp add: map_of_eq_None_iff)
    finally show ?thesis by auto
  qed
  ultimately show ?thesis
    by (simp add: prefix_listing_def mem_scan_def comp_def)
qed

lemma map_of_filter_ne: "map_of (filter (\<lambda>kv. fst kv \<noteq> k) db) = (map_of db)(k := None)"
  by (induction db) auto

lemma map_of_mem_apply: "map_of (mem_apply ops db) = apply_log ops (map_of db)"
proof (induction ops arbitrary: db)
  case (Cons op ops)
  then show ?case
    by (cases op) (simp_all add: mem_apply_def map_of_filter_ne fun_upd_def)
qed (simp add: mem_apply_def)

lemma mem_valid_reads_agree:
  assumes "list_all (mem_valid sn db) ops"
  shows "reads_agree ops (map_of sn) (map_of db)"
proof -
  have "map_of sn k = map_of db k" if "TxGet k \<in> set ops" for k
    using assms that unfolding list_all_iff by fastforce
  moreover have "map_of sn k = map_of db k" if "TxScan p \<in> set ops" "prefix p k" for p k
  proof -
    have v: "list_all (\<lambda>kv. prefix p (fst kv) \<longrightarrow> map_of sn (fst kv) = map_of db (fst kv)) (sn @ db)"
      unfolding mem_valid.simps(2) [symmetric]
      using assms that(1) unfolding list_all_iff by (rule bspec)
    show ?thesis
    proof (cases "k \<in> fst ` (set sn \<union> set db)")
      case True
      then obtain kv where kv: "kv \<in> set (sn @ db)" and k: "fst kv = k"
        by auto
      have "prefix p (fst kv) \<longrightarrow> map_of sn (fst kv) = map_of db (fst kv)"
        using v kv unfolding list_all_iff by (rule bspec)
      then show ?thesis using that(2) k by simp
    next
      case False
      then show ?thesis by (simp add: image_Un map_of_eq_None_iff [THEN iffD2])
    qed
  qed
  ultimately show ?thesis
    by (simp add: reads_agree_def)
qed

lemma mem_writes_local: "writes_local mem_slatedb"
  by (auto simp: writes_local_def map_of_filter_ne)

lemma mem_slatedb_ok: "slatedb_ok mem_slatedb"
  by (auto simp: slatedb_ok_def mem_scan_listing map_of_filter_ne map_of_mem_apply
      mem_commit_def mem_valid_reads_agree split: if_splits)
    (metis mem_scan_listing map_of_mem_apply)?

lemma mem_valid_refl: "mem_valid db db op"
  by (cases op) (simp_all add: list_all_iff)

lemma mem_slatedb_available: "slatedb_available mem_slatedb"
  by (simp add: slatedb_available_def mem_commit_def mem_valid_refl list_all_iff)

end
