(* ===== verification/Rows.thy ===== *)
theory Rows
  imports Prelude
begin

text \<open>
  \<open>crates/rocklake-core/src/rows.rs\<close>: the row types of the catalog, one record per \<open>struct\<close>, its
  fields in source order. Every record has a field prefix of its own, because Isabelle keeps field
  names in one name space and the sources reuse \<open>table_id\<close>, \<open>begin_snapshot\<close> and so on.
\<close>

record MetadataRow =
  md_key :: string
  md_value :: string
  md_scope :: "string option"
  md_scope_id :: "u64 option"

record SnapshotRow =
  sn_snapshot_id :: u64
  sn_schema_version :: u64
  sn_snapshot_time :: string
  sn_author :: "string option"
  sn_message :: "string option"
  sn_next_catalog_id :: "u64 option"
  sn_next_file_id :: "u64 option"

record SnapshotChangesRow =
  sc_snapshot_id :: u64
  sc_change_type :: string
  sc_change_info :: "string option"
  sc_schema_id :: "u64 option"
  sc_table_id :: "u64 option"
  sc_author :: "string option"
  sc_commit_message :: "string option"
  sc_commit_extra_info :: "string option"
  sc_changes_made :: "string option"

record SchemaRow =
  sr_schema_id :: u64
  sr_schema_name :: string
  sr_begin_snapshot :: u64
  sr_end_snapshot :: "u64 option"
  sr_schema_uuid :: "string option"
  sr_path :: "string option"
  sr_path_is_relative :: "bool option"

record TableRow =
  tr_table_id :: u64
  tr_schema_id :: u64
  tr_table_name :: string
  tr_begin_snapshot :: u64
  tr_end_snapshot :: "u64 option"
  tr_path :: "string option"
  tr_table_uuid :: "string option"
  tr_path_is_relative :: "bool option"

record ColumnRow =
  cr_column_id :: u64
  cr_table_id :: u64
  cr_column_name :: string
  cr_data_type :: string
  cr_column_index :: u64
  cr_begin_snapshot :: u64
  cr_end_snapshot :: "u64 option"
  cr_default_value :: "string option"
  cr_is_nullable :: bool
  cr_initial_default :: "string option"
  cr_default_value_type :: "string option"
  cr_default_value_dialect :: "string option"
  cr_parent_column :: "u64 option"

record ViewRow =
  vr_view_id :: u64
  vr_schema_id :: u64
  vr_view_name :: string
  vr_sql :: string
  vr_begin_snapshot :: u64
  vr_end_snapshot :: "u64 option"
  vr_view_uuid :: "string option"
  vr_dialect :: "string option"
  vr_column_aliases :: "string option"

record MacroRow =
  mr_macro_id :: u64
  mr_schema_id :: u64
  mr_macro_name :: string
  mr_macro_type :: string
  mr_begin_snapshot :: u64
  mr_end_snapshot :: "u64 option"
  mr_macro_uuid :: "string option"

record MacroImplRow =
  mi_impl_id :: u64
  mi_macro_id :: u64
  mi_sql :: string
  mi_dialect :: "string option"
  mi_impl_type :: "string option"

record MacroParametersRow =
  mp_macro_id :: u64
  mp_impl_id :: u64
  mp_column_id :: u64
  mp_parameter_name :: string
  mp_parameter_type :: string
  mp_default_value :: "string option"
  mp_default_value_type :: "string option"

record DataFileRow =
  df_data_file_id :: u64
  df_table_id :: u64
  df_path :: string
  df_file_format :: string
  df_record_count :: u64
  df_file_size_bytes :: u64
  df_footer_size :: "i64 option"
  df_encryption_key :: "string option"
  df_begin_snapshot :: "u64 option"
  df_end_snapshot :: "u64 option"
  df_file_order :: "u64 option"
  df_path_is_relative :: "bool option"
  df_row_id_start :: "u64 option"
  df_partition_id :: "u64 option"
  df_mapping_id :: "u64 option"
  df_partial_max :: "string option"

record DeleteFileRow =
  del_delete_file_id :: u64
  del_data_file_id :: u64
  del_path :: string
  del_delete_count :: u64
  del_file_size_bytes :: u64
  del_snapshot_id :: u64
  del_table_id :: "u64 option"
  del_begin_snapshot :: "u64 option"
  del_end_snapshot :: "u64 option"
  del_path_is_relative :: "bool option"
  del_format :: "string option"
  del_footer_size :: "i64 option"
  del_partial_max :: "string option"

record FilesScheduledForDeletionRow =
  fsd_data_file_id :: u64
  fsd_schedule_start :: u64
  fsd_path :: string
  fsd_file_type :: "string option"
  fsd_path_is_relative :: "bool option"

record InlinedDataTablesRow =
  idt_table_id :: u64
  idt_schema_version :: u64
  idt_sql :: string

record ColumnMappingRow =
  cm_mapping_id :: u64
  cm_table_id :: u64
  cm_file_column_name :: "string option"
  cm_column_id :: "u64 option"
  cm_mapping_type :: "string option"

record NameMappingRow =
  nm_mapping_id :: u64
  nm_column_id :: u64
  nm_name :: string
  nm_source_name_hash :: "u64 option"
  nm_target_field_id :: "u64 option"
  nm_parent_column :: "u64 option"
  nm_is_partition :: "bool option"

record TableStatsRow =
  ts_table_id :: u64
  ts_record_count :: u64
  ts_internal_file_count :: u64
  ts_file_size_bytes :: u64
  ts_next_row_id :: "u64 option"

record TableColumnStatsRow =
  tcs_table_id :: u64
  tcs_column_id :: u64
  tcs_contains_null :: bool
  tcs_min_value :: "string option"
  tcs_max_value :: "string option"
  tcs_contains_nan :: "bool option"
  tcs_extra_stats :: "string option"

record FileColumnStatsRow =
  fcs_table_id :: u64
  fcs_column_id :: u64
  fcs_data_file_id :: u64
  fcs_contains_null :: bool
  fcs_min_value :: "string option"
  fcs_max_value :: "string option"
  fcs_contains_nan :: bool
  fcs_column_size_bytes :: "u64 option"
  fcs_value_count :: "u64 option"
  fcs_null_count :: "u64 option"
  fcs_extra_stats :: "string option"

record FileVariantStatsRow =
  fvs_table_id :: u64
  fvs_column_id :: u64
  fvs_deprecated_variant_path_hash :: "u64 option"
  fvs_data_file_id :: u64
  fvs_variant_key :: string
  fvs_min_value :: "string option"
  fvs_max_value :: "string option"
  fvs_shredded_type :: "string option"
  fvs_column_size_bytes :: "u64 option"
  fvs_value_count :: "u64 option"
  fvs_null_count :: "u64 option"
  fvs_contains_nan :: "bool option"
  fvs_extra_stats :: "string option"

record PartitionInfoRow =
  pi_partition_id :: u64
  pi_table_id :: u64
  pi_begin_snapshot :: u64
  pi_end_snapshot :: "u64 option"

record PartitionColumnRow =
  pc_partition_id :: u64
  pc_partition_key_index :: u64
  pc_column_id :: u64
  pc_transform :: "string option"
  pc_table_id :: "u64 option"

record FilePartitionValueRow =
  fpv_table_id :: u64
  fpv_partition_key_index :: u64
  fpv_data_file_id :: u64
  fpv_partition_value :: "string option"

record SortInfoRow =
  si_sort_id :: u64
  si_table_id :: u64
  si_begin_snapshot :: u64
  si_end_snapshot :: "u64 option"

record SortExpressionRow =
  se_sort_id :: u64
  se_sort_key_index :: u64
  se_column_id :: u64
  se_sort_direction :: "string option"
  se_null_order :: "string option"
  se_table_id :: "u64 option"
  se_expression :: "string option"
  se_dialect :: "string option"

record TagRow =
  tg_object_id :: u64
  tg_tag_key :: string
  tg_tag_value :: string
  tg_begin_snapshot :: u64
  tg_end_snapshot :: "u64 option"

record ColumnTagRow =
  ctg_table_id :: u64
  ctg_column_id :: u64
  ctg_tag_key :: string
  ctg_tag_value :: string
  ctg_begin_snapshot :: u64
  ctg_end_snapshot :: "u64 option"

record SchemaVersionsRow =
  sv_table_id :: u64
  sv_begin_snapshot :: u64
  sv_schema_version :: u64

record InlinedInsertRow =
  ii_table_id :: u64
  ii_schema_version :: u64
  ii_row_id :: u64
  ii_payload :: bytes
  ii_begin_snapshot :: u64
  ii_end_snapshot :: "u64 option"

record InlinedDeleteRow =
  idl_table_id :: u64
  idl_data_file_id :: u64
  idl_row_id :: u64
  idl_begin_snapshot :: u64

record ExcisionRecord =
  ex_timestamp :: string
  ex_before_snapshot :: u64
  ex_keys_removed :: u64
  ex_operator :: "string option"

record TableFileCount =
  tfc_table_id :: u64
  tfc_file_count :: u64

record HotKeyValue =
  hk_current_snapshot_id :: u64
  hk_table_file_counts :: "TableFileCount list"

record PackedTableMetadata =
  ptm_table_id :: u64
  ptm_columns :: "ColumnRow list"
  ptm_partition_info :: "PartitionInfoRow list"
  ptm_sort_info :: "SortInfoRow list"
  ptm_table_stats :: "TableStatsRow option"
  ptm_schema_version :: u64

record SecondaryIndexEntry =
  sie_data_file_id :: u64
  sie_path :: string

record SnapshotLeaseRow =
  sl_consumer_id :: string
  sl_min_snapshot_id :: u64
  sl_expires_at_unix_ms :: u64

record ExtensionSchemaRow =
  es_extension_id :: u32
  es_table_name :: string
  es_row_id :: u64
  es_data_json :: string

record EncryptedSecretRow =
  ecs_secret_id :: u64
  ecs_secret_name :: string
  ecs_encrypted_secret :: string

record EncryptionKeyRow =
  ek_catalog_id :: u64
  ek_begin_snapshot :: u64
  ek_end_snapshot :: "u64 option"
  ek_encryption_type :: string
  ek_key_id :: "string option"
  ek_encryption_key :: "string option"

end
