(* ===== verification/Codecs.thy ===== *)
theory Codecs
  imports Rows Values
begin

text \<open>
  One protobuf codec per row type, the parameter through which every handler encodes and decodes
  rows. \<open>codecs_ok\<close> is the assumption on them: a message decodes to itself.
\<close>

record codecs =
  pb_MetadataRow :: "MetadataRow prost"
  pb_SnapshotRow :: "SnapshotRow prost"
  pb_SnapshotChangesRow :: "SnapshotChangesRow prost"
  pb_SchemaRow :: "SchemaRow prost"
  pb_TableRow :: "TableRow prost"
  pb_ColumnRow :: "ColumnRow prost"
  pb_ViewRow :: "ViewRow prost"
  pb_MacroRow :: "MacroRow prost"
  pb_MacroImplRow :: "MacroImplRow prost"
  pb_MacroParametersRow :: "MacroParametersRow prost"
  pb_DataFileRow :: "DataFileRow prost"
  pb_DeleteFileRow :: "DeleteFileRow prost"
  pb_FilesScheduledForDeletionRow :: "FilesScheduledForDeletionRow prost"
  pb_InlinedDataTablesRow :: "InlinedDataTablesRow prost"
  pb_ColumnMappingRow :: "ColumnMappingRow prost"
  pb_NameMappingRow :: "NameMappingRow prost"
  pb_TableStatsRow :: "TableStatsRow prost"
  pb_TableColumnStatsRow :: "TableColumnStatsRow prost"
  pb_FileColumnStatsRow :: "FileColumnStatsRow prost"
  pb_FileVariantStatsRow :: "FileVariantStatsRow prost"
  pb_PartitionInfoRow :: "PartitionInfoRow prost"
  pb_PartitionColumnRow :: "PartitionColumnRow prost"
  pb_FilePartitionValueRow :: "FilePartitionValueRow prost"
  pb_SortInfoRow :: "SortInfoRow prost"
  pb_SortExpressionRow :: "SortExpressionRow prost"
  pb_TagRow :: "TagRow prost"
  pb_ColumnTagRow :: "ColumnTagRow prost"
  pb_SchemaVersionsRow :: "SchemaVersionsRow prost"
  pb_InlinedInsertRow :: "InlinedInsertRow prost"
  pb_InlinedDeleteRow :: "InlinedDeleteRow prost"
  pb_ExcisionRecord :: "ExcisionRecord prost"
  pb_TableFileCount :: "TableFileCount prost"
  pb_HotKeyValue :: "HotKeyValue prost"
  pb_PackedTableMetadata :: "PackedTableMetadata prost"
  pb_SecondaryIndexEntry :: "SecondaryIndexEntry prost"
  pb_SnapshotLeaseRow :: "SnapshotLeaseRow prost"
  pb_ExtensionSchemaRow :: "ExtensionSchemaRow prost"
  pb_EncryptedSecretRow :: "EncryptedSecretRow prost"
  pb_EncryptionKeyRow :: "EncryptionKeyRow prost"

definition codecs_ok :: "codecs \<Rightarrow> bool" where
  "codecs_ok C \<longleftrightarrow>
     prost_ok (pb_MetadataRow C) \<and>
     prost_ok (pb_SnapshotRow C) \<and>
     prost_ok (pb_SnapshotChangesRow C) \<and>
     prost_ok (pb_SchemaRow C) \<and>
     prost_ok (pb_TableRow C) \<and>
     prost_ok (pb_ColumnRow C) \<and>
     prost_ok (pb_ViewRow C) \<and>
     prost_ok (pb_MacroRow C) \<and>
     prost_ok (pb_MacroImplRow C) \<and>
     prost_ok (pb_MacroParametersRow C) \<and>
     prost_ok (pb_DataFileRow C) \<and>
     prost_ok (pb_DeleteFileRow C) \<and>
     prost_ok (pb_FilesScheduledForDeletionRow C) \<and>
     prost_ok (pb_InlinedDataTablesRow C) \<and>
     prost_ok (pb_ColumnMappingRow C) \<and>
     prost_ok (pb_NameMappingRow C) \<and>
     prost_ok (pb_TableStatsRow C) \<and>
     prost_ok (pb_TableColumnStatsRow C) \<and>
     prost_ok (pb_FileColumnStatsRow C) \<and>
     prost_ok (pb_FileVariantStatsRow C) \<and>
     prost_ok (pb_PartitionInfoRow C) \<and>
     prost_ok (pb_PartitionColumnRow C) \<and>
     prost_ok (pb_FilePartitionValueRow C) \<and>
     prost_ok (pb_SortInfoRow C) \<and>
     prost_ok (pb_SortExpressionRow C) \<and>
     prost_ok (pb_TagRow C) \<and>
     prost_ok (pb_ColumnTagRow C) \<and>
     prost_ok (pb_SchemaVersionsRow C) \<and>
     prost_ok (pb_InlinedInsertRow C) \<and>
     prost_ok (pb_InlinedDeleteRow C) \<and>
     prost_ok (pb_ExcisionRecord C) \<and>
     prost_ok (pb_TableFileCount C) \<and>
     prost_ok (pb_HotKeyValue C) \<and>
     prost_ok (pb_PackedTableMetadata C) \<and>
     prost_ok (pb_SecondaryIndexEntry C) \<and>
     prost_ok (pb_SnapshotLeaseRow C) \<and>
     prost_ok (pb_ExtensionSchemaRow C) \<and>
     prost_ok (pb_EncryptedSecretRow C) \<and>
     prost_ok (pb_EncryptionKeyRow C)"

lemma codecs_okD [simp]:
  assumes "codecs_ok C"
  shows "prost_ok (pb_MetadataRow C)"
    and "prost_ok (pb_SnapshotRow C)"
    and "prost_ok (pb_SnapshotChangesRow C)"
    and "prost_ok (pb_SchemaRow C)"
    and "prost_ok (pb_TableRow C)"
    and "prost_ok (pb_ColumnRow C)"
    and "prost_ok (pb_ViewRow C)"
    and "prost_ok (pb_MacroRow C)"
    and "prost_ok (pb_MacroImplRow C)"
    and "prost_ok (pb_MacroParametersRow C)"
    and "prost_ok (pb_DataFileRow C)"
    and "prost_ok (pb_DeleteFileRow C)"
    and "prost_ok (pb_FilesScheduledForDeletionRow C)"
    and "prost_ok (pb_InlinedDataTablesRow C)"
    and "prost_ok (pb_ColumnMappingRow C)"
    and "prost_ok (pb_NameMappingRow C)"
    and "prost_ok (pb_TableStatsRow C)"
    and "prost_ok (pb_TableColumnStatsRow C)"
    and "prost_ok (pb_FileColumnStatsRow C)"
    and "prost_ok (pb_FileVariantStatsRow C)"
    and "prost_ok (pb_PartitionInfoRow C)"
    and "prost_ok (pb_PartitionColumnRow C)"
    and "prost_ok (pb_FilePartitionValueRow C)"
    and "prost_ok (pb_SortInfoRow C)"
    and "prost_ok (pb_SortExpressionRow C)"
    and "prost_ok (pb_TagRow C)"
    and "prost_ok (pb_ColumnTagRow C)"
    and "prost_ok (pb_SchemaVersionsRow C)"
    and "prost_ok (pb_InlinedInsertRow C)"
    and "prost_ok (pb_InlinedDeleteRow C)"
    and "prost_ok (pb_ExcisionRecord C)"
    and "prost_ok (pb_TableFileCount C)"
    and "prost_ok (pb_HotKeyValue C)"
    and "prost_ok (pb_PackedTableMetadata C)"
    and "prost_ok (pb_SecondaryIndexEntry C)"
    and "prost_ok (pb_SnapshotLeaseRow C)"
    and "prost_ok (pb_ExtensionSchemaRow C)"
    and "prost_ok (pb_EncryptedSecretRow C)"
    and "prost_ok (pb_EncryptionKeyRow C)"
  using assms by (simp_all add: codecs_ok_def)

end
