(* ===== verification/Mem_Codecs.thy ===== *)
theory Mem_Codecs
  imports Codecs
begin

text \<open>
   Message codecs that satisfy \<open>codecs_ok\<close>: a self-delimiting encoding built by
       combinators, one per
  row type. It shows that the assumption on the protobuf library can be met, and concrete
  evaluations use it.
\<close>

section \<open>Combinators\<close>

record 'a codec =
  c_enc :: "'a \<Rightarrow> bytes"
  c_dec :: "bytes \<Rightarrow> ('a \<times> bytes) option"

definition codec_ok :: "'a codec \<Rightarrow> bool" where
  "codec_ok c \<longleftrightarrow> (\<forall>a rest. c_dec c (c_enc c a @ rest) = Some (a, rest))"

definition cod_u64 :: "u64 codec" where
  "cod_u64 = \<lparr>c_enc = encode_u64,
      c_dec = (\<lambda>bs. case decode_u64 bs of Inl _ \<Rightarrow> None | Inr a \<Rightarrow>
       Some (a, drop 8 bs))\<rparr>"

definition cod_byte :: "u8 codec" where
  "cod_byte = \<lparr>c_enc = (\<lambda>b. [b]),
      c_dec = (\<lambda>bs. case bs of [] \<Rightarrow> None | b # r \<Rightarrow> Some (b,
       r))\<rparr>"

definition cod_pair :: "'a codec \<Rightarrow> 'b codec \<Rightarrow> ('a \<times> 'b) codec" where
  "cod_pair c d = \<lparr>c_enc = (\<lambda>(a, b). c_enc c a @ c_enc d b),
     c_dec = (\<lambda>bs. case c_dec c bs of None \<Rightarrow> None
        | Some (a, r) \<Rightarrow> (case c_dec d r of None \<Rightarrow> None | Some (b, r')
       \<Rightarrow> Some ((a, b), r')))\<rparr>"

definition cod_iso :: "('b \<Rightarrow> 'a) \<Rightarrow> ('a \<Rightarrow> 'b) \<Rightarrow> 'a
       codec \<Rightarrow> 'b codec" where
  "cod_iso f g c = \<lparr>c_enc = (\<lambda>b. c_enc c (f b)),
     c_dec = (\<lambda>bs. map_option (\<lambda>(a, r). (g a, r)) (c_dec c bs))\<rparr>"

primrec enc_list :: "('a \<Rightarrow> bytes) \<Rightarrow> 'a list \<Rightarrow> bytes" where
  "enc_list e [] = [0]"
| "enc_list e (x # xs) = 1 # e x @ enc_list e xs"

fun dec_list :: "nat \<Rightarrow> (bytes \<Rightarrow> ('a \<times> bytes) option) \<Rightarrow>
       bytes \<Rightarrow> ('a list \<times> bytes) option" where
  "dec_list 0 d bs = None"
| "dec_list (Suc n) d bs =
     (case bs of [] \<Rightarrow> None
      | b # r \<Rightarrow> if b = 0 then Some ([], r)
          else (case d r of None \<Rightarrow> None
             | Some (x, r') \<Rightarrow> map_option (\<lambda>(xs, r''). (x # xs, r'')) (dec_list
       n d r')))"

definition cod_list :: "'a codec \<Rightarrow> 'a list codec" where
   "cod_list c = \<lparr>c_enc = enc_list (c_enc c), c_dec = (\<lambda>bs. dec_list (length bs)
       (c_dec c) bs)\<rparr>"

definition cod_option :: "'a codec \<Rightarrow> 'a option codec" where
  "cod_option c = cod_iso (\<lambda>x. case x of None \<Rightarrow> [] | Some a \<Rightarrow> [a])
     (\<lambda>xs. case xs of [] \<Rightarrow> None | a # _ \<Rightarrow> Some a) (cod_list c)"

definition cod_bool :: "bool codec" where
  "cod_bool = cod_iso (\<lambda>b. if b then 1 else 0) (\<lambda>x. x = 1) cod_byte"

definition cod_u32 :: "u32 codec" where
  "cod_u32 = cod_iso (\<lambda>x. of_nat (unat x)) (\<lambda>x. of_nat (unat x)) cod_u64"

definition cod_bytes :: "bytes codec" where
  "cod_bytes = cod_list cod_byte"

definition cod_string :: "string codec" where
  "cod_string = cod_iso str_bytes bytes_str cod_bytes"

definition prost_of :: "'a codec \<Rightarrow> 'a prost" where
  "prost_of c = \<lparr>encode_to_vec = c_enc c,
      pb_decode = (\<lambda>bs. case c_dec c bs of None \<Rightarrow> Inl ''malformed message'' |
       Some (a, _) \<Rightarrow> Inr a)\<rparr>"

section \<open>Laws of the combinators\<close>

lemma codec_ok_u64 [simp]: "codec_ok cod_u64"
  by (simp add: codec_ok_def cod_u64_def decode_encode_u64)

lemma codec_ok_byte [simp]: "codec_ok cod_byte"
  by (simp add: codec_ok_def cod_byte_def)

lemma codec_ok_pair [simp]: "codec_ok c \<Longrightarrow> codec_ok d \<Longrightarrow> codec_ok
       (cod_pair c d)"
  by (simp add: codec_ok_def cod_pair_def)

lemma codec_ok_iso: "codec_ok c \<Longrightarrow> (\<And>b. g (f b) = b) \<Longrightarrow>
       codec_ok (cod_iso f g c)"
  by (simp add: codec_ok_def cod_iso_def)

lemma dec_enc_list:
  assumes "\<And>a rest. d (e a @ rest) = Some (a, rest)"
  shows "length xs < n \<Longrightarrow> dec_list n d (enc_list e xs @ rest) = Some (xs, rest)"
proof (induction xs arbitrary: n)
  case Nil
  then show ?case by (cases n) auto
next
  case (Cons x xs)
  then show ?case by (cases n) (auto simp: assms)
qed

lemma length_enc_list: "length xs < length (enc_list e xs)"
  by (induction xs) auto

lemma codec_ok_list [simp]: "codec_ok c \<Longrightarrow> codec_ok (cod_list c)"
  by (auto simp: codec_ok_def cod_list_def intro!: dec_enc_list trans_less_add1 length_enc_list)

lemma codec_ok_option [simp]: "codec_ok c \<Longrightarrow> codec_ok (cod_option c)"
  unfolding cod_option_def by (rule codec_ok_iso) (auto split: option.splits)

lemma codec_ok_bool [simp]: "codec_ok cod_bool"
  unfolding cod_bool_def by (rule codec_ok_iso) auto

lemma codec_ok_u32 [simp]: "codec_ok cod_u32"
proof -
  have "of_nat (unat (of_nat (unat b) :: u64)) = b" for b :: u32
  proof -
    have "unat b < 2 ^ 64"
      using unsigned_less [of b, where ?'a = nat] by simp
    then have "unat (of_nat (unat b) :: u64) = unat b"
      by (simp only: unat_of_nat) (simp add: take_bit_nat_eq_self_iff)
    then show ?thesis by simp
  qed
  then show ?thesis
    unfolding cod_u32_def by (intro codec_ok_iso codec_ok_u64)
qed

lemma codec_ok_bytes [simp]: "codec_ok cod_bytes"
  unfolding cod_bytes_def by (rule codec_ok_list) simp

lemma codec_ok_string [simp]: "codec_ok cod_string"
  unfolding cod_string_def by (rule codec_ok_iso) simp_all

lemma prost_ok_of: "codec_ok c \<Longrightarrow> prost_ok (prost_of c)"
  by (simp add: prost_ok_def prost_of_def codec_ok_def)
    (metis append_Nil2 option.simps(5) split_conv)

section \<open>Row codecs\<close>

definition cod_MetadataRow :: "MetadataRow codec" where
  "cod_MetadataRow = cod_iso
     (\<lambda>r. (md_key r, md_value r, md_scope r, md_scope_id r))
      (\<lambda>(x0, x1, x2, x3). \<lparr>md_key = x0, md_value = x1, md_scope = x2, md_scope_id =
       x3\<rparr>)
      (cod_pair cod_string (cod_pair cod_string (cod_pair (cod_option cod_string) (cod_option
       cod_u64))))"

lemma codec_ok_MetadataRow [simp]: "codec_ok cod_MetadataRow"
   unfolding cod_MetadataRow_def by (rule codec_ok_iso) simp_all

definition cod_SnapshotRow :: "SnapshotRow codec" where
  "cod_SnapshotRow = cod_iso
      (\<lambda>r. (sn_snapshot_id r, sn_schema_version r, sn_snapshot_time r, sn_author r,
       sn_message r, sn_next_catalog_id r, sn_next_file_id r))
      (\<lambda>(x0, x1, x2, x3, x4, x5, x6). \<lparr>sn_snapshot_id = x0, sn_schema_version = x1,
       sn_snapshot_time = x2, sn_author = x3, sn_message = x4, sn_next_catalog_id = x5,
       sn_next_file_id = x6\<rparr>)
      (cod_pair cod_u64 (cod_pair cod_u64 (cod_pair cod_string (cod_pair (cod_option cod_string)
       (cod_pair (cod_option cod_string) (cod_pair (cod_option cod_u64) (cod_option
       cod_u64)))))))"

lemma codec_ok_SnapshotRow [simp]: "codec_ok cod_SnapshotRow"
   unfolding cod_SnapshotRow_def by (rule codec_ok_iso) simp_all

definition cod_SnapshotChangesRow :: "SnapshotChangesRow codec" where
  "cod_SnapshotChangesRow = cod_iso
      (\<lambda>r. (sc_snapshot_id r, sc_change_type r, sc_change_info r, sc_schema_id r,
       sc_table_id r, sc_author r, sc_commit_message r, sc_commit_extra_info r, sc_changes_made
       r))
      (\<lambda>(x0, x1, x2, x3, x4, x5, x6, x7, x8). \<lparr>sc_snapshot_id = x0, sc_change_type
       = x1, sc_change_info = x2, sc_schema_id = x3, sc_table_id = x4, sc_author = x5,
       sc_commit_message = x6, sc_commit_extra_info = x7, sc_changes_made = x8\<rparr>)
      (cod_pair cod_u64 (cod_pair cod_string (cod_pair (cod_option cod_string) (cod_pair
       (cod_option cod_u64) (cod_pair (cod_option cod_u64) (cod_pair (cod_option cod_string)
       (cod_pair (cod_option cod_string) (cod_pair (cod_option cod_string) (cod_option
       cod_string)))))))))"

lemma codec_ok_SnapshotChangesRow [simp]: "codec_ok cod_SnapshotChangesRow"
   unfolding cod_SnapshotChangesRow_def by (rule codec_ok_iso) simp_all

definition cod_SchemaRow :: "SchemaRow codec" where
  "cod_SchemaRow = cod_iso
      (\<lambda>r. (sr_schema_id r, sr_schema_name r, sr_begin_snapshot r, sr_end_snapshot r,
       sr_schema_uuid r, sr_path r, sr_path_is_relative r))
      (\<lambda>(x0, x1, x2, x3, x4, x5, x6). \<lparr>sr_schema_id = x0, sr_schema_name = x1,
       sr_begin_snapshot = x2, sr_end_snapshot = x3, sr_schema_uuid = x4, sr_path = x5,
       sr_path_is_relative = x6\<rparr>)
      (cod_pair cod_u64 (cod_pair cod_string (cod_pair cod_u64 (cod_pair (cod_option cod_u64)
       (cod_pair (cod_option cod_string) (cod_pair (cod_option cod_string) (cod_option
       cod_bool)))))))"

lemma codec_ok_SchemaRow [simp]: "codec_ok cod_SchemaRow"
   unfolding cod_SchemaRow_def by (rule codec_ok_iso) simp_all

definition cod_TableRow :: "TableRow codec" where
  "cod_TableRow = cod_iso
      (\<lambda>r. (tr_table_id r, tr_schema_id r, tr_table_name r, tr_begin_snapshot r,
       tr_end_snapshot r, tr_path r, tr_table_uuid r, tr_path_is_relative r))
      (\<lambda>(x0, x1, x2, x3, x4, x5, x6, x7). \<lparr>tr_table_id = x0, tr_schema_id = x1,
       tr_table_name = x2, tr_begin_snapshot = x3, tr_end_snapshot = x4, tr_path = x5,
       tr_table_uuid = x6, tr_path_is_relative = x7\<rparr>)
      (cod_pair cod_u64 (cod_pair cod_u64 (cod_pair cod_string (cod_pair cod_u64 (cod_pair
       (cod_option cod_u64) (cod_pair (cod_option cod_string) (cod_pair (cod_option cod_string)
       (cod_option cod_bool))))))))"

lemma codec_ok_TableRow [simp]: "codec_ok cod_TableRow"
   unfolding cod_TableRow_def by (rule codec_ok_iso) simp_all

definition cod_ColumnRow :: "ColumnRow codec" where
  "cod_ColumnRow = cod_iso
      (\<lambda>r. (cr_column_id r, cr_table_id r, cr_column_name r, cr_data_type r,
       cr_column_index r, cr_begin_snapshot r, cr_end_snapshot r, cr_default_value r,
       cr_is_nullable r, cr_initial_default r, cr_default_value_type r, cr_default_value_dialect
       r, cr_parent_column r))
      (\<lambda>(x0, x1, x2, x3, x4, x5, x6, x7, x8, x9, x10, x11, x12). \<lparr>cr_column_id =
       x0, cr_table_id = x1, cr_column_name = x2, cr_data_type = x3, cr_column_index = x4,
       cr_begin_snapshot = x5, cr_end_snapshot = x6, cr_default_value = x7, cr_is_nullable = x8,
       cr_initial_default = x9, cr_default_value_type = x10, cr_default_value_dialect = x11,
       cr_parent_column = x12\<rparr>)
      (cod_pair cod_u64 (cod_pair cod_u64 (cod_pair cod_string (cod_pair cod_string (cod_pair
       cod_u64 (cod_pair cod_u64 (cod_pair (cod_option cod_u64) (cod_pair (cod_option cod_string)
       (cod_pair cod_bool (cod_pair (cod_option cod_string) (cod_pair (cod_option cod_string)
       (cod_pair (cod_option cod_string) (cod_option cod_u64)))))))))))))"

lemma codec_ok_ColumnRow [simp]: "codec_ok cod_ColumnRow"
   unfolding cod_ColumnRow_def by (rule codec_ok_iso) simp_all

definition cod_ViewRow :: "ViewRow codec" where
  "cod_ViewRow = cod_iso
      (\<lambda>r. (vr_view_id r, vr_schema_id r, vr_view_name r, vr_sql r, vr_begin_snapshot r,
       vr_end_snapshot r, vr_view_uuid r, vr_dialect r, vr_column_aliases r))
      (\<lambda>(x0, x1, x2, x3, x4, x5, x6, x7, x8). \<lparr>vr_view_id = x0, vr_schema_id = x1,
       vr_view_name = x2, vr_sql = x3, vr_begin_snapshot = x4, vr_end_snapshot = x5, vr_view_uuid
       = x6, vr_dialect = x7, vr_column_aliases = x8\<rparr>)
      (cod_pair cod_u64 (cod_pair cod_u64 (cod_pair cod_string (cod_pair cod_string (cod_pair
       cod_u64 (cod_pair (cod_option cod_u64) (cod_pair (cod_option cod_string) (cod_pair
       (cod_option cod_string) (cod_option cod_string)))))))))"

lemma codec_ok_ViewRow [simp]: "codec_ok cod_ViewRow"
   unfolding cod_ViewRow_def by (rule codec_ok_iso) simp_all

definition cod_MacroRow :: "MacroRow codec" where
  "cod_MacroRow = cod_iso
      (\<lambda>r. (mr_macro_id r, mr_schema_id r, mr_macro_name r, mr_macro_type r,
       mr_begin_snapshot r, mr_end_snapshot r, mr_macro_uuid r))
      (\<lambda>(x0, x1, x2, x3, x4, x5, x6). \<lparr>mr_macro_id = x0, mr_schema_id = x1,
       mr_macro_name = x2, mr_macro_type = x3, mr_begin_snapshot = x4, mr_end_snapshot = x5,
       mr_macro_uuid = x6\<rparr>)
      (cod_pair cod_u64 (cod_pair cod_u64 (cod_pair cod_string (cod_pair cod_string (cod_pair
       cod_u64 (cod_pair (cod_option cod_u64) (cod_option cod_string)))))))"

lemma codec_ok_MacroRow [simp]: "codec_ok cod_MacroRow"
   unfolding cod_MacroRow_def by (rule codec_ok_iso) simp_all

definition cod_MacroImplRow :: "MacroImplRow codec" where
  "cod_MacroImplRow = cod_iso
     (\<lambda>r. (mi_impl_id r, mi_macro_id r, mi_sql r, mi_dialect r, mi_impl_type r))
      (\<lambda>(x0, x1, x2, x3, x4). \<lparr>mi_impl_id = x0, mi_macro_id = x1, mi_sql = x2,
       mi_dialect = x3, mi_impl_type = x4\<rparr>)
      (cod_pair cod_u64 (cod_pair cod_u64 (cod_pair cod_string (cod_pair (cod_option cod_string)
       (cod_option cod_string)))))"

lemma codec_ok_MacroImplRow [simp]: "codec_ok cod_MacroImplRow"
   unfolding cod_MacroImplRow_def by (rule codec_ok_iso) simp_all

definition cod_MacroParametersRow :: "MacroParametersRow codec" where
  "cod_MacroParametersRow = cod_iso
      (\<lambda>r. (mp_macro_id r, mp_impl_id r, mp_column_id r, mp_parameter_name r,
       mp_parameter_type r, mp_default_value r, mp_default_value_type r))
      (\<lambda>(x0, x1, x2, x3, x4, x5, x6). \<lparr>mp_macro_id = x0, mp_impl_id = x1,
       mp_column_id = x2, mp_parameter_name = x3, mp_parameter_type = x4, mp_default_value = x5,
       mp_default_value_type = x6\<rparr>)
      (cod_pair cod_u64 (cod_pair cod_u64 (cod_pair cod_u64 (cod_pair cod_string (cod_pair
       cod_string (cod_pair (cod_option cod_string) (cod_option cod_string)))))))"

lemma codec_ok_MacroParametersRow [simp]: "codec_ok cod_MacroParametersRow"
   unfolding cod_MacroParametersRow_def by (rule codec_ok_iso) simp_all

definition cod_DataFileRow :: "DataFileRow codec" where
  "cod_DataFileRow = cod_iso
      (\<lambda>r. (df_data_file_id r, df_table_id r, df_path r, df_file_format r, df_record_count
       r, df_file_size_bytes r, df_footer_size r, df_encryption_key r, df_begin_snapshot r,
       df_end_snapshot r, df_file_order r, df_path_is_relative r, df_row_id_start r,
       df_partition_id r, df_mapping_id r, df_partial_max r))
      (\<lambda>(x0, x1, x2, x3, x4, x5, x6, x7, x8, x9, x10, x11, x12, x13, x14, x15).
       \<lparr>df_data_file_id = x0, df_table_id = x1, df_path = x2, df_file_format = x3,
       df_record_count = x4, df_file_size_bytes = x5, df_footer_size = x6, df_encryption_key = x7,
       df_begin_snapshot = x8, df_end_snapshot = x9, df_file_order = x10, df_path_is_relative =
       x11, df_row_id_start = x12, df_partition_id = x13, df_mapping_id = x14, df_partial_max =
       x15\<rparr>)
      (cod_pair cod_u64 (cod_pair cod_u64 (cod_pair cod_string (cod_pair cod_string (cod_pair
       cod_u64 (cod_pair cod_u64 (cod_pair (cod_option cod_u64) (cod_pair (cod_option cod_string)
       (cod_pair (cod_option cod_u64) (cod_pair (cod_option cod_u64) (cod_pair (cod_option
       cod_u64) (cod_pair (cod_option cod_bool) (cod_pair (cod_option cod_u64) (cod_pair
       (cod_option cod_u64) (cod_pair (cod_option cod_u64) (cod_option cod_string))))))))))))))))"

lemma codec_ok_DataFileRow [simp]: "codec_ok cod_DataFileRow"
   unfolding cod_DataFileRow_def by (rule codec_ok_iso) simp_all

definition cod_DeleteFileRow :: "DeleteFileRow codec" where
  "cod_DeleteFileRow = cod_iso
      (\<lambda>r. (del_delete_file_id r, del_data_file_id r, del_path r, del_delete_count r,
       del_file_size_bytes r, del_snapshot_id r, del_table_id r, del_begin_snapshot r,
       del_end_snapshot r, del_path_is_relative r, del_format r, del_footer_size r,
       del_partial_max r))
      (\<lambda>(x0, x1, x2, x3, x4, x5, x6, x7, x8, x9, x10, x11, x12).
       \<lparr>del_delete_file_id = x0, del_data_file_id = x1, del_path = x2, del_delete_count =
       x3, del_file_size_bytes = x4, del_snapshot_id = x5, del_table_id = x6, del_begin_snapshot =
       x7, del_end_snapshot = x8, del_path_is_relative = x9, del_format = x10, del_footer_size =
       x11, del_partial_max = x12\<rparr>)
      (cod_pair cod_u64 (cod_pair cod_u64 (cod_pair cod_string (cod_pair cod_u64 (cod_pair cod_u64
       (cod_pair cod_u64 (cod_pair (cod_option cod_u64) (cod_pair (cod_option cod_u64) (cod_pair
       (cod_option cod_u64) (cod_pair (cod_option cod_bool) (cod_pair (cod_option cod_string)
       (cod_pair (cod_option cod_u64) (cod_option cod_string)))))))))))))"

lemma codec_ok_DeleteFileRow [simp]: "codec_ok cod_DeleteFileRow"
   unfolding cod_DeleteFileRow_def by (rule codec_ok_iso) simp_all

definition cod_FilesScheduledForDeletionRow :: "FilesScheduledForDeletionRow codec" where
  "cod_FilesScheduledForDeletionRow = cod_iso
      (\<lambda>r. (fsd_data_file_id r, fsd_schedule_start r, fsd_path r, fsd_file_type r,
       fsd_path_is_relative r))
      (\<lambda>(x0, x1, x2, x3, x4). \<lparr>fsd_data_file_id = x0, fsd_schedule_start = x1,
       fsd_path = x2, fsd_file_type = x3, fsd_path_is_relative = x4\<rparr>)
      (cod_pair cod_u64 (cod_pair cod_u64 (cod_pair cod_string (cod_pair (cod_option cod_string)
       (cod_option cod_bool)))))"

lemma codec_ok_FilesScheduledForDeletionRow [simp]: "codec_ok cod_FilesScheduledForDeletionRow"
   unfolding cod_FilesScheduledForDeletionRow_def by (rule codec_ok_iso) simp_all

definition cod_InlinedDataTablesRow :: "InlinedDataTablesRow codec" where
  "cod_InlinedDataTablesRow = cod_iso
     (\<lambda>r. (idt_table_id r, idt_schema_version r, idt_sql r))
      (\<lambda>(x0, x1, x2). \<lparr>idt_table_id = x0, idt_schema_version = x1, idt_sql =
       x2\<rparr>)
     (cod_pair cod_u64 (cod_pair cod_u64 cod_string))"

lemma codec_ok_InlinedDataTablesRow [simp]: "codec_ok cod_InlinedDataTablesRow"
   unfolding cod_InlinedDataTablesRow_def by (rule codec_ok_iso) simp_all

definition cod_ColumnMappingRow :: "ColumnMappingRow codec" where
  "cod_ColumnMappingRow = cod_iso
      (\<lambda>r. (cm_mapping_id r, cm_table_id r, cm_file_column_name r, cm_column_id r,
       cm_mapping_type r))
      (\<lambda>(x0, x1, x2, x3, x4). \<lparr>cm_mapping_id = x0, cm_table_id = x1,
       cm_file_column_name = x2, cm_column_id = x3, cm_mapping_type = x4\<rparr>)
      (cod_pair cod_u64 (cod_pair cod_u64 (cod_pair (cod_option cod_string) (cod_pair (cod_option
       cod_u64) (cod_option cod_string)))))"

lemma codec_ok_ColumnMappingRow [simp]: "codec_ok cod_ColumnMappingRow"
   unfolding cod_ColumnMappingRow_def by (rule codec_ok_iso) simp_all

definition cod_NameMappingRow :: "NameMappingRow codec" where
  "cod_NameMappingRow = cod_iso
      (\<lambda>r. (nm_mapping_id r, nm_column_id r, nm_name r, nm_source_name_hash r,
       nm_target_field_id r, nm_parent_column r, nm_is_partition r))
      (\<lambda>(x0, x1, x2, x3, x4, x5, x6). \<lparr>nm_mapping_id = x0, nm_column_id = x1,
       nm_name = x2, nm_source_name_hash = x3, nm_target_field_id = x4, nm_parent_column = x5,
       nm_is_partition = x6\<rparr>)
      (cod_pair cod_u64 (cod_pair cod_u64 (cod_pair cod_string (cod_pair (cod_option cod_u64)
       (cod_pair (cod_option cod_u64) (cod_pair (cod_option cod_u64) (cod_option cod_bool)))))))"

lemma codec_ok_NameMappingRow [simp]: "codec_ok cod_NameMappingRow"
   unfolding cod_NameMappingRow_def by (rule codec_ok_iso) simp_all

definition cod_TableStatsRow :: "TableStatsRow codec" where
  "cod_TableStatsRow = cod_iso
      (\<lambda>r. (ts_table_id r, ts_record_count r, ts_internal_file_count r, ts_file_size_bytes
       r, ts_next_row_id r))
      (\<lambda>(x0, x1, x2, x3, x4). \<lparr>ts_table_id = x0, ts_record_count = x1,
       ts_internal_file_count = x2, ts_file_size_bytes = x3, ts_next_row_id = x4\<rparr>)
      (cod_pair cod_u64 (cod_pair cod_u64 (cod_pair cod_u64 (cod_pair cod_u64 (cod_option
       cod_u64)))))"

lemma codec_ok_TableStatsRow [simp]: "codec_ok cod_TableStatsRow"
   unfolding cod_TableStatsRow_def by (rule codec_ok_iso) simp_all

definition cod_TableColumnStatsRow :: "TableColumnStatsRow codec" where
  "cod_TableColumnStatsRow = cod_iso
      (\<lambda>r. (tcs_table_id r, tcs_column_id r, tcs_contains_null r, tcs_min_value r,
       tcs_max_value r, tcs_contains_nan r, tcs_extra_stats r))
      (\<lambda>(x0, x1, x2, x3, x4, x5, x6). \<lparr>tcs_table_id = x0, tcs_column_id = x1,
       tcs_contains_null = x2, tcs_min_value = x3, tcs_max_value = x4, tcs_contains_nan = x5,
       tcs_extra_stats = x6\<rparr>)
      (cod_pair cod_u64 (cod_pair cod_u64 (cod_pair cod_bool (cod_pair (cod_option cod_string)
       (cod_pair (cod_option cod_string) (cod_pair (cod_option cod_bool) (cod_option
       cod_string)))))))"

lemma codec_ok_TableColumnStatsRow [simp]: "codec_ok cod_TableColumnStatsRow"
   unfolding cod_TableColumnStatsRow_def by (rule codec_ok_iso) simp_all

definition cod_FileColumnStatsRow :: "FileColumnStatsRow codec" where
  "cod_FileColumnStatsRow = cod_iso
      (\<lambda>r. (fcs_table_id r, fcs_column_id r, fcs_data_file_id r, fcs_contains_null r,
       fcs_min_value r, fcs_max_value r, fcs_contains_nan r, fcs_column_size_bytes r,
       fcs_value_count r, fcs_null_count r, fcs_extra_stats r))
      (\<lambda>(x0, x1, x2, x3, x4, x5, x6, x7, x8, x9, x10). \<lparr>fcs_table_id = x0,
       fcs_column_id = x1, fcs_data_file_id = x2, fcs_contains_null = x3, fcs_min_value = x4,
       fcs_max_value = x5, fcs_contains_nan = x6, fcs_column_size_bytes = x7, fcs_value_count =
       x8, fcs_null_count = x9, fcs_extra_stats = x10\<rparr>)
      (cod_pair cod_u64 (cod_pair cod_u64 (cod_pair cod_u64 (cod_pair cod_bool (cod_pair
       (cod_option cod_string) (cod_pair (cod_option cod_string) (cod_pair cod_bool (cod_pair
       (cod_option cod_u64) (cod_pair (cod_option cod_u64) (cod_pair (cod_option cod_u64)
       (cod_option cod_string)))))))))))"

lemma codec_ok_FileColumnStatsRow [simp]: "codec_ok cod_FileColumnStatsRow"
   unfolding cod_FileColumnStatsRow_def by (rule codec_ok_iso) simp_all

definition cod_FileVariantStatsRow :: "FileVariantStatsRow codec" where
  "cod_FileVariantStatsRow = cod_iso
      (\<lambda>r. (fvs_table_id r, fvs_column_id r, fvs_deprecated_variant_path_hash r,
       fvs_data_file_id r, fvs_variant_key r, fvs_min_value r, fvs_max_value r, fvs_shredded_type
       r, fvs_column_size_bytes r, fvs_value_count r, fvs_null_count r, fvs_contains_nan r,
       fvs_extra_stats r))
      (\<lambda>(x0, x1, x2, x3, x4, x5, x6, x7, x8, x9, x10, x11, x12). \<lparr>fvs_table_id =
       x0, fvs_column_id = x1, fvs_deprecated_variant_path_hash = x2, fvs_data_file_id = x3,
       fvs_variant_key = x4, fvs_min_value = x5, fvs_max_value = x6, fvs_shredded_type = x7,
       fvs_column_size_bytes = x8, fvs_value_count = x9, fvs_null_count = x10, fvs_contains_nan =
       x11, fvs_extra_stats = x12\<rparr>)
      (cod_pair cod_u64 (cod_pair cod_u64 (cod_pair (cod_option cod_u64) (cod_pair cod_u64
       (cod_pair cod_string (cod_pair (cod_option cod_string) (cod_pair (cod_option cod_string)
       (cod_pair (cod_option cod_string) (cod_pair (cod_option cod_u64) (cod_pair (cod_option
       cod_u64) (cod_pair (cod_option cod_u64) (cod_pair (cod_option cod_bool) (cod_option
       cod_string)))))))))))))"

lemma codec_ok_FileVariantStatsRow [simp]: "codec_ok cod_FileVariantStatsRow"
   unfolding cod_FileVariantStatsRow_def by (rule codec_ok_iso) simp_all

definition cod_PartitionInfoRow :: "PartitionInfoRow codec" where
  "cod_PartitionInfoRow = cod_iso
     (\<lambda>r. (pi_partition_id r, pi_table_id r, pi_begin_snapshot r, pi_end_snapshot r))
      (\<lambda>(x0, x1, x2, x3). \<lparr>pi_partition_id = x0, pi_table_id = x1,
       pi_begin_snapshot = x2, pi_end_snapshot = x3\<rparr>)
     (cod_pair cod_u64 (cod_pair cod_u64 (cod_pair cod_u64 (cod_option cod_u64))))"

lemma codec_ok_PartitionInfoRow [simp]: "codec_ok cod_PartitionInfoRow"
   unfolding cod_PartitionInfoRow_def by (rule codec_ok_iso) simp_all

definition cod_PartitionColumnRow :: "PartitionColumnRow codec" where
  "cod_PartitionColumnRow = cod_iso
      (\<lambda>r. (pc_partition_id r, pc_partition_key_index r, pc_column_id r, pc_transform r,
       pc_table_id r))
      (\<lambda>(x0, x1, x2, x3, x4). \<lparr>pc_partition_id = x0, pc_partition_key_index = x1,
       pc_column_id = x2, pc_transform = x3, pc_table_id = x4\<rparr>)
      (cod_pair cod_u64 (cod_pair cod_u64 (cod_pair cod_u64 (cod_pair (cod_option cod_string)
       (cod_option cod_u64)))))"

lemma codec_ok_PartitionColumnRow [simp]: "codec_ok cod_PartitionColumnRow"
   unfolding cod_PartitionColumnRow_def by (rule codec_ok_iso) simp_all

definition cod_FilePartitionValueRow :: "FilePartitionValueRow codec" where
  "cod_FilePartitionValueRow = cod_iso
      (\<lambda>r. (fpv_table_id r, fpv_partition_key_index r, fpv_data_file_id r,
       fpv_partition_value r))
      (\<lambda>(x0, x1, x2, x3). \<lparr>fpv_table_id = x0, fpv_partition_key_index = x1,
       fpv_data_file_id = x2, fpv_partition_value = x3\<rparr>)
     (cod_pair cod_u64 (cod_pair cod_u64 (cod_pair cod_u64 (cod_option cod_string))))"

lemma codec_ok_FilePartitionValueRow [simp]: "codec_ok cod_FilePartitionValueRow"
   unfolding cod_FilePartitionValueRow_def by (rule codec_ok_iso) simp_all

definition cod_SortInfoRow :: "SortInfoRow codec" where
  "cod_SortInfoRow = cod_iso
     (\<lambda>r. (si_sort_id r, si_table_id r, si_begin_snapshot r, si_end_snapshot r))
      (\<lambda>(x0, x1, x2, x3). \<lparr>si_sort_id = x0, si_table_id = x1, si_begin_snapshot =
       x2, si_end_snapshot = x3\<rparr>)
     (cod_pair cod_u64 (cod_pair cod_u64 (cod_pair cod_u64 (cod_option cod_u64))))"

lemma codec_ok_SortInfoRow [simp]: "codec_ok cod_SortInfoRow"
   unfolding cod_SortInfoRow_def by (rule codec_ok_iso) simp_all

definition cod_SortExpressionRow :: "SortExpressionRow codec" where
  "cod_SortExpressionRow = cod_iso
      (\<lambda>r. (se_sort_id r, se_sort_key_index r, se_column_id r, se_sort_direction r,
       se_null_order r, se_table_id r, se_expression r, se_dialect r))
      (\<lambda>(x0, x1, x2, x3, x4, x5, x6, x7). \<lparr>se_sort_id = x0, se_sort_key_index = x1,
       se_column_id = x2, se_sort_direction = x3, se_null_order = x4, se_table_id = x5,
       se_expression = x6, se_dialect = x7\<rparr>)
      (cod_pair cod_u64 (cod_pair cod_u64 (cod_pair cod_u64 (cod_pair (cod_option cod_string)
       (cod_pair (cod_option cod_string) (cod_pair (cod_option cod_u64) (cod_pair (cod_option
       cod_string) (cod_option cod_string))))))))"

lemma codec_ok_SortExpressionRow [simp]: "codec_ok cod_SortExpressionRow"
   unfolding cod_SortExpressionRow_def by (rule codec_ok_iso) simp_all

definition cod_TagRow :: "TagRow codec" where
  "cod_TagRow = cod_iso
      (\<lambda>r. (tg_object_id r, tg_tag_key r, tg_tag_value r, tg_begin_snapshot r,
       tg_end_snapshot r))
      (\<lambda>(x0, x1, x2, x3, x4). \<lparr>tg_object_id = x0, tg_tag_key = x1, tg_tag_value =
       x2, tg_begin_snapshot = x3, tg_end_snapshot = x4\<rparr>)
      (cod_pair cod_u64 (cod_pair cod_string (cod_pair cod_string (cod_pair cod_u64 (cod_option
       cod_u64)))))"

lemma codec_ok_TagRow [simp]: "codec_ok cod_TagRow"
   unfolding cod_TagRow_def by (rule codec_ok_iso) simp_all

definition cod_ColumnTagRow :: "ColumnTagRow codec" where
  "cod_ColumnTagRow = cod_iso
      (\<lambda>r. (ctg_table_id r, ctg_column_id r, ctg_tag_key r, ctg_tag_value r,
       ctg_begin_snapshot r, ctg_end_snapshot r))
      (\<lambda>(x0, x1, x2, x3, x4, x5). \<lparr>ctg_table_id = x0, ctg_column_id = x1,
       ctg_tag_key = x2, ctg_tag_value = x3, ctg_begin_snapshot = x4, ctg_end_snapshot =
       x5\<rparr>)
      (cod_pair cod_u64 (cod_pair cod_u64 (cod_pair cod_string (cod_pair cod_string (cod_pair
       cod_u64 (cod_option cod_u64))))))"

lemma codec_ok_ColumnTagRow [simp]: "codec_ok cod_ColumnTagRow"
   unfolding cod_ColumnTagRow_def by (rule codec_ok_iso) simp_all

definition cod_SchemaVersionsRow :: "SchemaVersionsRow codec" where
  "cod_SchemaVersionsRow = cod_iso
     (\<lambda>r. (sv_table_id r, sv_begin_snapshot r, sv_schema_version r))
      (\<lambda>(x0, x1, x2). \<lparr>sv_table_id = x0, sv_begin_snapshot = x1, sv_schema_version
       = x2\<rparr>)
     (cod_pair cod_u64 (cod_pair cod_u64 cod_u64))"

lemma codec_ok_SchemaVersionsRow [simp]: "codec_ok cod_SchemaVersionsRow"
   unfolding cod_SchemaVersionsRow_def by (rule codec_ok_iso) simp_all

definition cod_InlinedInsertRow :: "InlinedInsertRow codec" where
  "cod_InlinedInsertRow = cod_iso
      (\<lambda>r. (ii_table_id r, ii_schema_version r, ii_row_id r, ii_payload r,
       ii_begin_snapshot r, ii_end_snapshot r))
      (\<lambda>(x0, x1, x2, x3, x4, x5). \<lparr>ii_table_id = x0, ii_schema_version = x1,
       ii_row_id = x2, ii_payload = x3, ii_begin_snapshot = x4, ii_end_snapshot = x5\<rparr>)
      (cod_pair cod_u64 (cod_pair cod_u64 (cod_pair cod_u64 (cod_pair cod_bytes (cod_pair cod_u64
       (cod_option cod_u64))))))"

lemma codec_ok_InlinedInsertRow [simp]: "codec_ok cod_InlinedInsertRow"
   unfolding cod_InlinedInsertRow_def by (rule codec_ok_iso) simp_all

definition cod_InlinedDeleteRow :: "InlinedDeleteRow codec" where
  "cod_InlinedDeleteRow = cod_iso
     (\<lambda>r. (idl_table_id r, idl_data_file_id r, idl_row_id r, idl_begin_snapshot r))
      (\<lambda>(x0, x1, x2, x3). \<lparr>idl_table_id = x0, idl_data_file_id = x1, idl_row_id =
       x2, idl_begin_snapshot = x3\<rparr>)
     (cod_pair cod_u64 (cod_pair cod_u64 (cod_pair cod_u64 cod_u64)))"

lemma codec_ok_InlinedDeleteRow [simp]: "codec_ok cod_InlinedDeleteRow"
   unfolding cod_InlinedDeleteRow_def by (rule codec_ok_iso) simp_all

definition cod_ExcisionRecord :: "ExcisionRecord codec" where
  "cod_ExcisionRecord = cod_iso
     (\<lambda>r. (ex_timestamp r, ex_before_snapshot r, ex_keys_removed r, ex_operator r))
      (\<lambda>(x0, x1, x2, x3). \<lparr>ex_timestamp = x0, ex_before_snapshot = x1,
       ex_keys_removed = x2, ex_operator = x3\<rparr>)
     (cod_pair cod_string (cod_pair cod_u64 (cod_pair cod_u64 (cod_option cod_string))))"

lemma codec_ok_ExcisionRecord [simp]: "codec_ok cod_ExcisionRecord"
   unfolding cod_ExcisionRecord_def by (rule codec_ok_iso) simp_all

definition cod_TableFileCount :: "TableFileCount codec" where
  "cod_TableFileCount = cod_iso
     (\<lambda>r. (tfc_table_id r, tfc_file_count r))
     (\<lambda>(x0, x1). \<lparr>tfc_table_id = x0, tfc_file_count = x1\<rparr>)
     (cod_pair cod_u64 cod_u64)"

lemma codec_ok_TableFileCount [simp]: "codec_ok cod_TableFileCount"
   unfolding cod_TableFileCount_def by (rule codec_ok_iso) simp_all

definition cod_HotKeyValue :: "HotKeyValue codec" where
  "cod_HotKeyValue = cod_iso
     (\<lambda>r. (hk_current_snapshot_id r, hk_table_file_counts r))
     (\<lambda>(x0, x1). \<lparr>hk_current_snapshot_id = x0, hk_table_file_counts = x1\<rparr>)
     (cod_pair cod_u64 (cod_list cod_TableFileCount))"

lemma codec_ok_HotKeyValue [simp]: "codec_ok cod_HotKeyValue"
   unfolding cod_HotKeyValue_def by (rule codec_ok_iso) simp_all

definition cod_PackedTableMetadata :: "PackedTableMetadata codec" where
  "cod_PackedTableMetadata = cod_iso
      (\<lambda>r. (ptm_table_id r, ptm_columns r, ptm_partition_info r, ptm_sort_info r,
       ptm_table_stats r, ptm_schema_version r))
      (\<lambda>(x0, x1, x2, x3, x4, x5). \<lparr>ptm_table_id = x0, ptm_columns = x1,
       ptm_partition_info = x2, ptm_sort_info = x3, ptm_table_stats = x4, ptm_schema_version =
       x5\<rparr>)
      (cod_pair cod_u64 (cod_pair (cod_list cod_ColumnRow) (cod_pair (cod_list
       cod_PartitionInfoRow) (cod_pair (cod_list cod_SortInfoRow) (cod_pair (cod_option
       cod_TableStatsRow) cod_u64)))))"

lemma codec_ok_PackedTableMetadata [simp]: "codec_ok cod_PackedTableMetadata"
   unfolding cod_PackedTableMetadata_def by (rule codec_ok_iso) simp_all

definition cod_SecondaryIndexEntry :: "SecondaryIndexEntry codec" where
  "cod_SecondaryIndexEntry = cod_iso
     (\<lambda>r. (sie_data_file_id r, sie_path r))
     (\<lambda>(x0, x1). \<lparr>sie_data_file_id = x0, sie_path = x1\<rparr>)
     (cod_pair cod_u64 cod_string)"

lemma codec_ok_SecondaryIndexEntry [simp]: "codec_ok cod_SecondaryIndexEntry"
   unfolding cod_SecondaryIndexEntry_def by (rule codec_ok_iso) simp_all

definition cod_SnapshotLeaseRow :: "SnapshotLeaseRow codec" where
  "cod_SnapshotLeaseRow = cod_iso
     (\<lambda>r. (sl_consumer_id r, sl_min_snapshot_id r, sl_expires_at_unix_ms r))
      (\<lambda>(x0, x1, x2). \<lparr>sl_consumer_id = x0, sl_min_snapshot_id = x1,
       sl_expires_at_unix_ms = x2\<rparr>)
     (cod_pair cod_string (cod_pair cod_u64 cod_u64))"

lemma codec_ok_SnapshotLeaseRow [simp]: "codec_ok cod_SnapshotLeaseRow"
   unfolding cod_SnapshotLeaseRow_def by (rule codec_ok_iso) simp_all

definition cod_ExtensionSchemaRow :: "ExtensionSchemaRow codec" where
  "cod_ExtensionSchemaRow = cod_iso
     (\<lambda>r. (es_extension_id r, es_table_name r, es_row_id r, es_data_json r))
      (\<lambda>(x0, x1, x2, x3). \<lparr>es_extension_id = x0, es_table_name = x1, es_row_id =
       x2, es_data_json = x3\<rparr>)
     (cod_pair cod_u32 (cod_pair cod_string (cod_pair cod_u64 cod_string)))"

lemma codec_ok_ExtensionSchemaRow [simp]: "codec_ok cod_ExtensionSchemaRow"
   unfolding cod_ExtensionSchemaRow_def by (rule codec_ok_iso) simp_all

definition cod_EncryptedSecretRow :: "EncryptedSecretRow codec" where
  "cod_EncryptedSecretRow = cod_iso
     (\<lambda>r. (ecs_secret_id r, ecs_secret_name r, ecs_encrypted_secret r))
      (\<lambda>(x0, x1, x2). \<lparr>ecs_secret_id = x0, ecs_secret_name = x1,
       ecs_encrypted_secret = x2\<rparr>)
     (cod_pair cod_u64 (cod_pair cod_string cod_string))"

lemma codec_ok_EncryptedSecretRow [simp]: "codec_ok cod_EncryptedSecretRow"
   unfolding cod_EncryptedSecretRow_def by (rule codec_ok_iso) simp_all

definition cod_EncryptionKeyRow :: "EncryptionKeyRow codec" where
  "cod_EncryptionKeyRow = cod_iso
      (\<lambda>r. (ek_catalog_id r, ek_begin_snapshot r, ek_end_snapshot r, ek_encryption_type r,
       ek_key_id r, ek_encryption_key r))
      (\<lambda>(x0, x1, x2, x3, x4, x5). \<lparr>ek_catalog_id = x0, ek_begin_snapshot = x1,
       ek_end_snapshot = x2, ek_encryption_type = x3, ek_key_id = x4, ek_encryption_key =
       x5\<rparr>)
      (cod_pair cod_u64 (cod_pair cod_u64 (cod_pair (cod_option cod_u64) (cod_pair cod_string
       (cod_pair (cod_option cod_string) (cod_option cod_string))))))"

lemma codec_ok_EncryptionKeyRow [simp]: "codec_ok cod_EncryptionKeyRow"
   unfolding cod_EncryptionKeyRow_def by (rule codec_ok_iso) simp_all

definition mem_codecs :: codecs where
  "mem_codecs = \<lparr>pb_MetadataRow = prost_of cod_MetadataRow,
     pb_SnapshotRow = prost_of cod_SnapshotRow,
     pb_SnapshotChangesRow = prost_of cod_SnapshotChangesRow,
     pb_SchemaRow = prost_of cod_SchemaRow,
     pb_TableRow = prost_of cod_TableRow,
     pb_ColumnRow = prost_of cod_ColumnRow,
     pb_ViewRow = prost_of cod_ViewRow,
     pb_MacroRow = prost_of cod_MacroRow,
     pb_MacroImplRow = prost_of cod_MacroImplRow,
     pb_MacroParametersRow = prost_of cod_MacroParametersRow,
     pb_DataFileRow = prost_of cod_DataFileRow,
     pb_DeleteFileRow = prost_of cod_DeleteFileRow,
     pb_FilesScheduledForDeletionRow = prost_of cod_FilesScheduledForDeletionRow,
     pb_InlinedDataTablesRow = prost_of cod_InlinedDataTablesRow,
     pb_ColumnMappingRow = prost_of cod_ColumnMappingRow,
     pb_NameMappingRow = prost_of cod_NameMappingRow,
     pb_TableStatsRow = prost_of cod_TableStatsRow,
     pb_TableColumnStatsRow = prost_of cod_TableColumnStatsRow,
     pb_FileColumnStatsRow = prost_of cod_FileColumnStatsRow,
     pb_FileVariantStatsRow = prost_of cod_FileVariantStatsRow,
     pb_PartitionInfoRow = prost_of cod_PartitionInfoRow,
     pb_PartitionColumnRow = prost_of cod_PartitionColumnRow,
     pb_FilePartitionValueRow = prost_of cod_FilePartitionValueRow,
     pb_SortInfoRow = prost_of cod_SortInfoRow,
     pb_SortExpressionRow = prost_of cod_SortExpressionRow,
     pb_TagRow = prost_of cod_TagRow,
     pb_ColumnTagRow = prost_of cod_ColumnTagRow,
     pb_SchemaVersionsRow = prost_of cod_SchemaVersionsRow,
     pb_InlinedInsertRow = prost_of cod_InlinedInsertRow,
     pb_InlinedDeleteRow = prost_of cod_InlinedDeleteRow,
     pb_ExcisionRecord = prost_of cod_ExcisionRecord,
     pb_TableFileCount = prost_of cod_TableFileCount,
     pb_HotKeyValue = prost_of cod_HotKeyValue,
     pb_PackedTableMetadata = prost_of cod_PackedTableMetadata,
     pb_SecondaryIndexEntry = prost_of cod_SecondaryIndexEntry,
     pb_SnapshotLeaseRow = prost_of cod_SnapshotLeaseRow,
     pb_ExtensionSchemaRow = prost_of cod_ExtensionSchemaRow,
     pb_EncryptedSecretRow = prost_of cod_EncryptedSecretRow,
     pb_EncryptionKeyRow = prost_of cod_EncryptionKeyRow\<rparr>"

lemma mem_codecs_ok: "codecs_ok mem_codecs"
  by (simp add: codecs_ok_def mem_codecs_def prost_ok_of)

end
