(* ===== verification/Counters.thy ===== *)
theory Counters
  imports Values
begin

text \<open>
  \<open>crates/rocklake-core/src/counters.rs\<close>: the counter domains with their keys and the writer's
  in-memory counter cache. The increments of the allocators are the release build's wrapping
  \<open>u64\<close> additions.
\<close>

datatype CounterDomain = SnapshotIdDomain | CatalogIdDomain | FileIdDomain | ColumnIdDomain u64

primrec CounterDomain_key :: "CounterDomain \<Rightarrow> bytes" where
  "CounterDomain_key SnapshotIdDomain = key_counter COUNTER_NEXT_SNAPSHOT_ID"
| "CounterDomain_key CatalogIdDomain = key_counter COUNTER_NEXT_CATALOG_ID"
| "CounterDomain_key FileIdDomain = key_counter COUNTER_NEXT_FILE_ID"
| "CounterDomain_key (ColumnIdDomain table_id) = key_counter_column_id table_id"

record CounterCache =
  cc_next_snapshot_id :: u64
  cc_next_catalog_id :: u64
  cc_next_file_id :: u64

definition CounterCache_new :: "u64 \<Rightarrow> u64 \<Rightarrow> u64 \<Rightarrow> CounterCache" where
  "CounterCache_new s c f =
     \<lparr>cc_next_snapshot_id = s, cc_next_catalog_id = c, cc_next_file_id = f\<rparr>"

definition alloc_snapshot_id :: "CounterCache \<Rightarrow> u64 \<times> CounterCache" where
  "alloc_snapshot_id c =
     (let i = cc_next_snapshot_id c in (i, c\<lparr>cc_next_snapshot_id := i + 1\<rparr>))"

definition alloc_catalog_id :: "CounterCache \<Rightarrow> u64 \<times> CounterCache" where
  "alloc_catalog_id c =
     (let i = cc_next_catalog_id c in (i, c\<lparr>cc_next_catalog_id := i + 1\<rparr>))"

definition alloc_file_id :: "CounterCache \<Rightarrow> u64 \<times> CounterCache" where
  "alloc_file_id c =
     (let i = cc_next_file_id c in (i, c\<lparr>cc_next_file_id := i + 1\<rparr>))"

definition peek_snapshot_id :: "CounterCache \<Rightarrow> u64" where
  "peek_snapshot_id c = cc_next_snapshot_id c"

definition peek_catalog_id :: "CounterCache \<Rightarrow> u64" where
  "peek_catalog_id c = cc_next_catalog_id c"

definition peek_file_id :: "CounterCache \<Rightarrow> u64" where
  "peek_file_id c = cc_next_file_id c"

definition encode_snapshot_counter :: "CounterCache \<Rightarrow> bytes" where
  "encode_snapshot_counter c = encode_counter (cc_next_snapshot_id c)"

definition encode_catalog_counter :: "CounterCache \<Rightarrow> bytes" where
  "encode_catalog_counter c = encode_counter (cc_next_catalog_id c)"

definition encode_file_counter :: "CounterCache \<Rightarrow> bytes" where
  "encode_file_counter c = encode_counter (cc_next_file_id c)"

definition sync_from :: "u64 \<Rightarrow> u64 \<Rightarrow> u64 \<Rightarrow> CounterCache \<Rightarrow> CounterCache" where
  "sync_from s c f cache =
     cache\<lparr>cc_next_snapshot_id := s, cc_next_catalog_id := c, cc_next_file_id := f\<rparr>"

definition encode_column_counter :: "u64 \<Rightarrow> bytes" where
  "encode_column_counter next_column_id = encode_counter next_column_id"

definition decode_counter_value :: "bytes \<Rightarrow> ValueError + u64" where
  "decode_counter_value data = decode_counter data"

lemmas counter_defs = alloc_snapshot_id_def alloc_catalog_id_def alloc_file_id_def
  peek_snapshot_id_def peek_catalog_id_def peek_file_id_def sync_from_def CounterCache_new_def
  encode_snapshot_counter_def encode_catalog_counter_def encode_file_counter_def

section \<open>Facts\<close>

text \<open>An allocator is a counter: it returns the cached value, which is then larger by one.\<close>

locale id_allocator =
  fixes alloc :: "'c \<Rightarrow> u64 \<times> 'c" and peek :: "'c \<Rightarrow> u64"
  assumes alloc_fst: "fst (alloc c) = peek c"
    and alloc_peek: "peek (snd (alloc c)) = peek c + 1"
begin

primrec alloc_many :: "nat \<Rightarrow> 'c \<Rightarrow> u64 list \<times> 'c" where
  "alloc_many 0 c = ([], c)"
| "alloc_many (Suc n) c =
     (let (i, c1) = alloc c; (is, c2) = alloc_many n c1 in (i # is, c2))"

lemma alloc_many_ids:
  "fst (alloc_many n c) = map (\<lambda>i. peek c + of_nat i) [0..<n]"
proof (induction n arbitrary: c)
  case 0
  then show ?case by simp
next
  case (Suc n)
  obtain i c1 where a: "alloc c = (i, c1)" by (cases "alloc c")
  have i: "i = peek c" and p: "peek c1 = peek c + 1"
    using alloc_fst [of c] alloc_peek [of c] a by simp_all
  have "fst (alloc_many (Suc n) c) = i # map (\<lambda>j. peek c1 + of_nat j) [0..<n]"
    using Suc.IH [of c1] by (simp add: a case_prod_beta)
  also have "\<dots> = map (\<lambda>j. peek c + of_nat j) (0 # map Suc [0..<n])"
    by (simp add: i p comp_def add.assoc)
  also have "0 # map Suc [0..<n] = [0..<Suc n]"
    by (simp add: map_Suc_upt upt_conv_Cons del: upt_Suc)
  finally show ?case .
qed

text \<open>Without wrap-around no id is handed out twice, and the ids increase.\<close>

lemma alloc_many_sorted:
  assumes "unat (peek c) + n \<le> 2 ^ 64"
  shows "sorted_wrt (<) (fst (alloc_many n c))"
proof -
  have "peek c + of_nat i < peek c + of_nat j" if "i < j" "j < n" for i j
    using assms that by (simp add: word_less_nat_alt unat_word_ariths unat_of_nat)
  then show ?thesis
    by (simp add: alloc_many_ids sorted_wrt_iff_nth_less)
qed

end

interpretation snapshot_alloc: id_allocator alloc_snapshot_id peek_snapshot_id
  by unfold_locales (simp_all add: counter_defs Let_def)

interpretation catalog_alloc: id_allocator alloc_catalog_id peek_catalog_id
  by unfold_locales (simp_all add: counter_defs Let_def)

interpretation file_alloc: id_allocator alloc_file_id peek_file_id
  by unfold_locales (simp_all add: counter_defs Let_def)

lemma CounterDomain_key_inject [simp]:
  "CounterDomain_key d = CounterDomain_key d' \<longleftrightarrow> d = d'"
  by (cases d; cases d') (simp_all add: key_simps tag_defs)

section \<open>Properties\<close>

text \<open>Any number of consecutive allocations from one of the three counters hands out strictly
  increasing, hence pairwise different, identifiers, as long as the 64-bit counter does not wrap.\<close>

theorem allocated_ids_increase:
  assumes "unat (peek_snapshot_id c) + n \<le> 2 ^ 64" "unat (peek_catalog_id c) + n \<le> 2 ^ 64"
    "unat (peek_file_id c) + n \<le> 2 ^ 64"
  shows "sorted_wrt (<) (fst (snapshot_alloc.alloc_many n c)) \<and>
    sorted_wrt (<) (fst (catalog_alloc.alloc_many n c)) \<and>
    sorted_wrt (<) (fst (file_alloc.alloc_many n c))"
  using assms snapshot_alloc.alloc_many_sorted catalog_alloc.alloc_many_sorted
    file_alloc.alloc_many_sorted by blast

theorem allocated_ids_increase_witness:
  "sorted_wrt (<) (fst (catalog_alloc.alloc_many 5 (CounterCache_new 1 2 3)))"
  using allocated_ids_increase [of "CounterCache_new 1 2 3" 5] by (simp add: counter_defs)

end
