(* ===== verification/Catalog_Writer.thy ===== *)
theory Catalog_Writer
  imports Transactions Codecs Counters
begin

text \<open>
  \<open>crates/rocklake-catalog/src/writer/mod.rs\<close>: the staging operations of \<open>CatalogWriter\<close>. The
  record holds the fields of the struct except the database handle: the database state the handle
  points to is an argument (\<open>db\<close>) of the operations that read it and the state of the commands that
  write it directly. Staging operations are commands on the writer. UUIDs, the wall clock and the
  hash of \<open>std::collections::hash_map::DefaultHasher\<close>, whose algorithm the library leaves open,
  are arguments.
\<close>

section \<open>State\<close>

record CatalogWriter =
  w_counters :: CounterCache
  w_writer_epoch :: u64
  w_writer_nonce :: string
  w_schema_changed :: bool
  w_current_schema_version :: u64
  w_staged :: "kv list"
  w_pending_snapshot_changes :: "SnapshotChangesRow option"

definition CatalogWriter_new :: "CounterCache \<Rightarrow> u64 \<Rightarrow> string \<Rightarrow> u64 \<Rightarrow> CatalogWriter" where
  "CatalogWriter_new counters writer_epoch writer_nonce schema_version =
     \<lparr>w_counters = counters, w_writer_epoch = writer_epoch, w_writer_nonce = writer_nonce,
      w_schema_changed = False, w_current_schema_version = schema_version, w_staged = [],
      w_pending_snapshot_changes = None\<rparr>"

definition stage :: "bytes \<Rightarrow> bytes \<Rightarrow> CatalogWriter \<Rightarrow> CatalogWriter" where
  "stage key value w = w\<lparr>w_staged := w_staged w @ [(key, value)]\<rparr>"

definition mark_schema_changed :: "CatalogWriter \<Rightarrow> CatalogWriter" where
  "mark_schema_changed w = w\<lparr>w_schema_changed := True\<rparr>"

definition CatalogWriter_schema_version :: "CatalogWriter \<Rightarrow> u64" where
  "CatalogWriter_schema_version w = w_current_schema_version w"

text \<open>\<open>self.counters.alloc_catalog_id()\<close>, \<open>self.counters.alloc_file_id()\<close> and
  \<open>self.counters.peek_snapshot_id()\<close> on the writer.\<close>

definition w_alloc_catalog_id :: "CatalogWriter \<Rightarrow> u64 \<times> CatalogWriter" where
  "w_alloc_catalog_id w =
     (let (i, c) = alloc_catalog_id (w_counters w) in (i, w\<lparr>w_counters := c\<rparr>))"

definition w_alloc_file_id :: "CatalogWriter \<Rightarrow> u64 \<times> CatalogWriter" where
  "w_alloc_file_id w =
     (let (i, c) = alloc_file_id (w_counters w) in (i, w\<lparr>w_counters := c\<rparr>))"

definition w_snapshot :: "CatalogWriter \<Rightarrow> u64" where
  "w_snapshot w = peek_snapshot_id (w_counters w)"

text \<open>The lookup the drop operations share:
  \<open>self.db.get(&key).await?.ok_or_else(|| NotFound(..))?\<close> and \<open>values::decode_value(..)?\<close>.\<close>

definition fetch_row ::
  "'db slatedb \<Rightarrow> 'm prost \<Rightarrow> 'db \<Rightarrow> bytes \<Rightarrow> string \<Rightarrow> CatalogError + 'm" where
  "fetch_row S P db key what =
     rbind (db_get S db key) (\<lambda>d.
     rbind (ok_or (NotFound what) d) (\<lambda>data.
       map_err ValueErr (decode_value P data)))"

section \<open>Schemas\<close>

definition create_schema ::
  "codecs \<Rightarrow> string \<Rightarrow> string \<Rightarrow> (CatalogWriter, u64) cmd" where
  "create_schema C uuid schema_name w =
     (let (schema_id, w1) = w_alloc_catalog_id w;
          row = \<lparr>sr_schema_id = schema_id, sr_schema_name = schema_name,
                 sr_begin_snapshot = w_snapshot w1, sr_end_snapshot = None,
                 sr_schema_uuid = Some uuid, sr_path = None, sr_path_is_relative = Some True\<rparr>
      in (Inr schema_id,
          mark_schema_changed
            (stage (key_schema schema_id) (encode_value (pb_SchemaRow C) row) w1)))"

definition drop_schema ::
  "'db slatedb \<Rightarrow> codecs \<Rightarrow> 'db \<Rightarrow> u64 \<Rightarrow> (CatalogWriter, unit) cmd" where
  "drop_schema S C db schema_id w =
     (let key = key_schema schema_id in
      case fetch_row S (pb_SchemaRow C) db key (''schema '' @ show_u64 schema_id) of
        Inl e \<Rightarrow> (Inl e, w)
      | Inr row \<Rightarrow>
          (Inr (), mark_schema_changed (stage key
             (encode_value (pb_SchemaRow C) (row\<lparr>sr_end_snapshot := Some (w_snapshot w)\<rparr>)) w)))"

section \<open>Tables\<close>

definition create_table ::
  "codecs \<Rightarrow> string \<Rightarrow> u64 \<Rightarrow> string \<Rightarrow> string option \<Rightarrow> (CatalogWriter, u64) cmd" where
  "create_table C uuid schema_id table_name data_path w =
     (let (table_id, w1) = w_alloc_catalog_id w;
          snapshot_id = w_snapshot w1;
          row = \<lparr>tr_table_id = table_id, tr_schema_id = schema_id, tr_table_name = table_name,
                 tr_begin_snapshot = snapshot_id, tr_end_snapshot = None, tr_path = data_path,
                 tr_table_uuid = Some uuid, tr_path_is_relative = Some True\<rparr>;
          w2 = stage (key_table schema_id table_id snapshot_id)
                 (encode_value (pb_TableRow C) row) w1;
          w3 = stage (key_table_by_id table_id) (encode_counter schema_id) w2
      in (Inr table_id, mark_schema_changed w3))"

text \<open>One cascade block of \<open>drop_table\<close>: collect the matching live rows under a prefix, then stage
  them with their end snapshot set (\<open>retire\<close>); the rows are returned for the blocks that need them.\<close>

definition stage_all :: "kv list \<Rightarrow> (CatalogWriter, unit) cmd" where
  "stage_all kvs w = (Inr (), w\<lparr>w_staged := w_staged w @ kvs\<rparr>)"

definition retire_scan ::
  "'db slatedb \<Rightarrow> 'm prost \<Rightarrow> 'db \<Rightarrow> bytes \<Rightarrow> ('m \<Rightarrow> bool) \<Rightarrow> ('m \<Rightarrow> 'm)
     \<Rightarrow> (CatalogWriter, (bytes \<times> 'm) list) cmd" where
  "retire_scan S P db p live retire =
     bind (lift (scan_rows S SlateDb (row_decoder P) db p live)) (\<lambda>rows.
     bind (stage_all (map (\<lambda>(k, r). (k, encode_value P (retire r))) rows)) (\<lambda>_.
       ret rows))"

text \<open>The data file block stages the retired row under its canonical key and under the secondary
  index.\<close>

definition retire_data_files ::
  "'db slatedb \<Rightarrow> codecs \<Rightarrow> 'db \<Rightarrow> u64 \<Rightarrow> u64 \<Rightarrow> (CatalogWriter, u64 list) cmd" where
  "retire_data_files S C db table_id snapshot_id =
     bind (lift (scan_rows S SlateDb (row_decoder (pb_DataFileRow C)) db
         (prefix_for_tag TAG_DATA_FILE)
         (\<lambda>r. df_table_id r = table_id \<and> df_end_snapshot r = None))) (\<lambda>rows.
     bind (stage_all (concat (map (\<lambda>(k, r).
         let encoded = encode_value (pb_DataFileRow C) (r\<lparr>df_end_snapshot := Some snapshot_id\<rparr>);
             begin_snap = (case df_begin_snapshot r of None \<Rightarrow> 0 | Some b \<Rightarrow> b)
         in [(k, encoded),
             (key_data_file_by_snapshot table_id begin_snap (df_data_file_id r), encoded)]) rows)))
       (\<lambda>_. ret (map (\<lambda>(k, r). df_data_file_id r) rows)))"

text \<open>The statements of \<open>drop_table\<close> after \<open>let snapshot_id = self.counters.peek_snapshot_id()\<close>.\<close>

definition drop_table_at ::
  "'db slatedb \<Rightarrow> codecs \<Rightarrow> 'db \<Rightarrow> u64 \<Rightarrow> u64 \<Rightarrow> u64 \<Rightarrow> u64 \<Rightarrow> (CatalogWriter, unit) cmd" where
  "drop_table_at S C db schema_id table_id begin_snapshot snapshot_id =
     (let key = key_table schema_id table_id begin_snapshot in
      bind (lift (fetch_row S (pb_TableRow C) db key (''table '' @ show_u64 table_id))) (\<lambda>row.
      bind (stage_all [(key, encode_value (pb_TableRow C)
          (row\<lparr>tr_end_snapshot := Some snapshot_id\<rparr>))]) (\<lambda>_.
      bind (retire_scan S (pb_ColumnRow C) db (prefix_columns_for_table table_id)
          (\<lambda>r. cr_end_snapshot r = None) (cr_end_snapshot_update (\<lambda>_. Some snapshot_id))) (\<lambda>_.
      bind (retire_data_files S C db table_id snapshot_id) (\<lambda>retired_data_file_ids.
      bind (retire_scan S (pb_PartitionInfoRow C) db (prefix_for_tag TAG_PARTITION_INFO)
          (\<lambda>r. pi_table_id r = table_id \<and> pi_end_snapshot r = None)
          (pi_end_snapshot_update (\<lambda>_. Some snapshot_id))) (\<lambda>_.
      bind (retire_scan S (pb_TagRow C) db (prefix_for_tag TAG_TAG)
          (\<lambda>r. tg_object_id r = table_id \<and> tg_end_snapshot r = None)
          (tg_end_snapshot_update (\<lambda>_. Some snapshot_id))) (\<lambda>_.
      bind (retire_scan S (pb_ColumnTagRow C) db (prefix_for_tag TAG_COLUMN_TAG)
          (\<lambda>r. ctg_table_id r = table_id \<and> ctg_end_snapshot r = None)
          (ctg_end_snapshot_update (\<lambda>_. Some snapshot_id))) (\<lambda>_.
      bind (retire_scan S (pb_SortInfoRow C) db (prefix_for_tag TAG_SORT_INFO)
          (\<lambda>r. si_table_id r = table_id \<and> si_end_snapshot r = None)
          (si_end_snapshot_update (\<lambda>_. Some snapshot_id))) (\<lambda>_.
      bind (retire_scan S (pb_DeleteFileRow C) db (prefix_for_tag TAG_DELETE_FILE)
          (\<lambda>r. del_end_snapshot r = None \<and>
             (case del_table_id r of
                Some tid \<Rightarrow> tid = table_id
              | None \<Rightarrow> del_data_file_id r \<in> set retired_data_file_ids))
          (del_end_snapshot_update (\<lambda>_. Some snapshot_id))) (\<lambda>_.
      bind (retire_scan S (pb_InlinedInsertRow C) db (prefix_inlined_inserts_for_table table_id)
          (\<lambda>r. ii_end_snapshot r = None) (ii_end_snapshot_update (\<lambda>_. Some snapshot_id))) (\<lambda>_.
        (\<lambda>w. (Inr (), mark_schema_changed w)))))))))))))"

definition drop_table ::
  "'db slatedb \<Rightarrow> codecs \<Rightarrow> 'db \<Rightarrow> u64 \<Rightarrow> u64 \<Rightarrow> u64 \<Rightarrow> (CatalogWriter, unit) cmd" where
  "drop_table S C db schema_id table_id begin_snapshot w =
     drop_table_at S C db schema_id table_id begin_snapshot (w_snapshot w) w"

definition find_table_schema_id ::
  "'db slatedb \<Rightarrow> codecs \<Rightarrow> 'db \<Rightarrow> u64 \<Rightarrow> CatalogError + u64 option" where
  "find_table_schema_id S C db table_id =
     rbind (db_get S db (key_table_by_id table_id)) (\<lambda>d.
       case d of
         Some data \<Rightarrow> rbind (map_err ValueErr (decode_counter data)) (\<lambda>i. Inr (Some i))
       | None \<Rightarrow>
           rbind (scan_find S SlateDb (row_decoder (pb_TableRow C)) db (prefix_for_tag TAG_TABLE)
               (\<lambda>r. tr_table_id r = table_id \<and> tr_end_snapshot r = None)) (\<lambda>found.
             Inr (map_option (tr_schema_id \<circ> snd) found)))"

section \<open>Columns\<close>

definition add_column_with_opts ::
  "codecs \<Rightarrow> u64 \<Rightarrow> string \<Rightarrow> string \<Rightarrow> u64 \<Rightarrow> bool \<Rightarrow> string option \<Rightarrow> string option
     \<Rightarrow> string option \<Rightarrow> string option \<Rightarrow> u64 option \<Rightarrow> (CatalogWriter, u64) cmd" where
  "add_column_with_opts C table_id column_name data_type column_index is_nullable default_value
       initial_default default_value_type default_value_dialect parent_column w =
     (let (column_id, w1) = w_alloc_catalog_id w;
          snapshot_id = w_snapshot w1;
          row = \<lparr>cr_column_id = column_id, cr_table_id = table_id, cr_column_name = column_name,
                 cr_data_type = data_type, cr_column_index = column_index,
                 cr_begin_snapshot = snapshot_id, cr_end_snapshot = None,
                 cr_default_value = default_value, cr_is_nullable = is_nullable,
                 cr_initial_default = initial_default, cr_default_value_type = default_value_type,
                 cr_default_value_dialect = default_value_dialect,
                 cr_parent_column = parent_column\<rparr>
      in (Inr column_id,
          mark_schema_changed (stage (key_column table_id column_id snapshot_id)
            (encode_value (pb_ColumnRow C) row) w1)))"

definition add_column ::
  "codecs \<Rightarrow> u64 \<Rightarrow> string \<Rightarrow> string \<Rightarrow> u64 \<Rightarrow> bool \<Rightarrow> string option \<Rightarrow> (CatalogWriter, u64) cmd" where
  "add_column C table_id column_name data_type column_index is_nullable default_value =
     add_column_with_opts C table_id column_name data_type column_index is_nullable default_value
       None None None None"

definition drop_column ::
  "'db slatedb \<Rightarrow> codecs \<Rightarrow> 'db \<Rightarrow> u64 \<Rightarrow> u64 \<Rightarrow> u64 \<Rightarrow> (CatalogWriter, unit) cmd" where
  "drop_column S C db table_id column_id begin_snapshot w =
     (let key = key_column table_id column_id begin_snapshot in
      case fetch_row S (pb_ColumnRow C) db key (''column '' @ show_u64 column_id) of
        Inl e \<Rightarrow> (Inl e, w)
      | Inr row \<Rightarrow>
          (Inr (), mark_schema_changed (stage key
             (encode_value (pb_ColumnRow C) (row\<lparr>cr_end_snapshot := Some (w_snapshot w)\<rparr>)) w)))"

definition find_column_table_id ::
  "'db slatedb \<Rightarrow> codecs \<Rightarrow> 'db \<Rightarrow> u64 \<Rightarrow> CatalogError + u64 option" where
  "find_column_table_id S C db column_id =
     rbind (scan_find S SlateDb (row_decoder (pb_ColumnRow C)) db (prefix_for_tag TAG_COLUMN)
         (\<lambda>r. cr_column_id r = column_id \<and> cr_end_snapshot r = None)) (\<lambda>found.
       Inr (map_option (cr_table_id \<circ> snd) found))"

definition rename_column ::
  "'db slatedb \<Rightarrow> codecs \<Rightarrow> 'db \<Rightarrow> u64 \<Rightarrow> u64 \<Rightarrow> (CatalogWriter, ColumnRow) cmd" where
  "rename_column S C db table_id column_id w =
     (case rbind (scan_find S SlateDb (row_decoder (pb_ColumnRow C)) db
             (prefix_columns_for_table table_id)
             (\<lambda>r. cr_column_id r = column_id \<and> cr_end_snapshot r = None))
           (ok_or (NotFound (''column '' @ show_u64 column_id))) of
        Inl e \<Rightarrow> (Inl e, w)
      | Inr (old_key, old_row) \<Rightarrow>
          (Inr old_row, stage old_key (encode_value (pb_ColumnRow C)
             (old_row\<lparr>cr_end_snapshot := Some (w_snapshot w)\<rparr>)) w))"

definition insert_renamed_column :: "codecs \<Rightarrow> ColumnRow \<Rightarrow> string \<Rightarrow> (CatalogWriter, unit) cmd" where
  "insert_renamed_column C row0 new_name w =
     (let snapshot_id = w_snapshot w;
          row = row0\<lparr>cr_column_name := new_name, cr_begin_snapshot := snapshot_id,
                     cr_end_snapshot := None\<rparr>
      in (Inr (), mark_schema_changed
            (stage (key_column (cr_table_id row) (cr_column_id row) snapshot_id)
               (encode_value (pb_ColumnRow C) row) w)))"

section \<open>Data files and delete files\<close>

definition default_table_stats :: TableStatsRow where
  "default_table_stats = \<lparr>ts_table_id = 0, ts_record_count = 0, ts_internal_file_count = 0,
     ts_file_size_bytes = 0, ts_next_row_id = None\<rparr>"

definition read_row_id_start :: "'db slatedb \<Rightarrow> codecs \<Rightarrow> 'db \<Rightarrow> u64 \<Rightarrow> CatalogError + u64" where
  "read_row_id_start S C db table_id =
     rbind (db_get S db (key_table_stats table_id)) (\<lambda>d.
       case d of
         Some data \<Rightarrow>
           Inr (case ts_next_row_id (case decode_value (pb_TableStatsRow C) data of
                    Inl _ \<Rightarrow> default_table_stats | Inr r \<Rightarrow> r) of
                  None \<Rightarrow> 0 | Some n \<Rightarrow> n)
       | None \<Rightarrow> Inr 0)"

definition register_data_file_with_metadata ::
  "'db slatedb \<Rightarrow> codecs \<Rightarrow> 'db \<Rightarrow> u64 \<Rightarrow> string \<Rightarrow> string \<Rightarrow> u64 \<Rightarrow> u64 \<Rightarrow> i64 option
     \<Rightarrow> string option \<Rightarrow> u64 option \<Rightarrow> u64 option \<Rightarrow> string option \<Rightarrow> (CatalogWriter, u64) cmd" where
  "register_data_file_with_metadata S C db table_id path file_format record_count
       file_size_bytes footer_size encryption_key partition_id mapping_id partial_max w =
     (let (data_file_id, w1) = w_alloc_file_id w;
          snapshot_id = w_snapshot w1 in
      case read_row_id_start S C db table_id of
        Inl e \<Rightarrow> (Inl e, w1)
      | Inr row_id_start \<Rightarrow>
          (let row = \<lparr>df_data_file_id = data_file_id, df_table_id = table_id, df_path = path,
                 df_file_format = file_format, df_record_count = record_count,
                 df_file_size_bytes = file_size_bytes, df_footer_size = footer_size,
                 df_encryption_key = encryption_key, df_begin_snapshot = Some snapshot_id,
                 df_end_snapshot = None, df_file_order = Some data_file_id,
                 df_path_is_relative = Some False, df_row_id_start = Some row_id_start,
                 df_partition_id = partition_id, df_mapping_id = mapping_id,
                 df_partial_max = partial_max\<rparr>;
               encoded = encode_value (pb_DataFileRow C) row
           in (Inr data_file_id,
               stage (key_data_file_by_snapshot table_id snapshot_id data_file_id) encoded
                 (stage (key_data_file table_id data_file_id) encoded w1))))"

definition register_data_file ::
  "'db slatedb \<Rightarrow> codecs \<Rightarrow> 'db \<Rightarrow> u64 \<Rightarrow> string \<Rightarrow> string \<Rightarrow> u64 \<Rightarrow> u64 \<Rightarrow> (CatalogWriter, u64) cmd" where
  "register_data_file S C db table_id path file_format record_count file_size_bytes =
     register_data_file_with_metadata S C db table_id path file_format record_count file_size_bytes
       None None None None None"

definition register_data_file_partial ::
  "'db slatedb \<Rightarrow> codecs \<Rightarrow> 'db \<Rightarrow> u64 \<Rightarrow> string \<Rightarrow> string \<Rightarrow> u64 \<Rightarrow> u64 \<Rightarrow> string option
     \<Rightarrow> (CatalogWriter, u64) cmd" where
  "register_data_file_partial S C db table_id path file_format record_count file_size_bytes
       partial_max =
     register_data_file_with_metadata S C db table_id path file_format record_count file_size_bytes
       None None None None partial_max"

definition register_delete_file_with_metadata ::
  "codecs \<Rightarrow> u64 \<Rightarrow> string \<Rightarrow> u64 \<Rightarrow> u64 \<Rightarrow> i64 option \<Rightarrow> string option \<Rightarrow> (CatalogWriter, u64) cmd" where
  "register_delete_file_with_metadata C data_file_id path delete_count file_size_bytes footer_size
       partial_max w =
     (let (delete_file_id, w1) = w_alloc_file_id w;
          snapshot_id = w_snapshot w1;
          row = \<lparr>del_delete_file_id = delete_file_id, del_data_file_id = data_file_id,
                 del_path = path, del_delete_count = delete_count,
                 del_file_size_bytes = file_size_bytes, del_snapshot_id = snapshot_id,
                 del_table_id = None, del_begin_snapshot = Some snapshot_id,
                 del_end_snapshot = None, del_path_is_relative = Some False,
                 del_format = Some ''parquet'', del_footer_size = footer_size,
                 del_partial_max = partial_max\<rparr>
      in (Inr delete_file_id,
          stage (key_delete_file data_file_id delete_file_id)
            (encode_value (pb_DeleteFileRow C) row) w1))"

definition register_delete_file ::
  "codecs \<Rightarrow> u64 \<Rightarrow> string \<Rightarrow> u64 \<Rightarrow> u64 \<Rightarrow> (CatalogWriter, u64) cmd" where
  "register_delete_file C data_file_id path delete_count file_size_bytes =
     register_delete_file_with_metadata C data_file_id path delete_count file_size_bytes None None"

section \<open>Inlined rows\<close>

definition register_inlined_insert ::
  "codecs \<Rightarrow> u64 \<Rightarrow> u64 \<Rightarrow> u64 \<Rightarrow> bytes \<Rightarrow> (CatalogWriter, unit) cmd" where
  "register_inlined_insert C table_id schema_version row_id payload w =
     (let encoded_size = length payload + 100 in
      if encoded_size > MAX_INLINED_VALUE_SIZE then (Inl (ValueTooLarge encoded_size), w)
      else
        (let row = \<lparr>ii_table_id = table_id, ii_schema_version = schema_version, ii_row_id = row_id,
                    ii_payload = payload, ii_begin_snapshot = w_snapshot w,
                    ii_end_snapshot = None\<rparr>
         in (Inr (), stage (key_inlined_insert table_id schema_version row_id)
               (encode_value (pb_InlinedInsertRow C) row) w)))"

definition inlined_insert_key_exists ::
  "'db slatedb \<Rightarrow> 'db \<Rightarrow> CatalogWriter \<Rightarrow> u64 \<Rightarrow> u64 \<Rightarrow> u64 \<Rightarrow> CatalogError + bool" where
  "inlined_insert_key_exists S db w table_id schema_version row_id =
     (let key = key_inlined_insert table_id schema_version row_id in
      if list_ex (\<lambda>(staged_key, _). staged_key = key) (w_staged w) then Inr True
      else rbind (db_get S db key) (\<lambda>d. Inr (d \<noteq> None)))"

definition register_inlined_data_table ::
  "codecs \<Rightarrow> u64 \<Rightarrow> string \<Rightarrow> u64 \<Rightarrow> (CatalogWriter, unit) cmd" where
  "register_inlined_data_table C table_id table_name schema_version w =
     (Inr (), stage (key_inlined_data_tables table_id schema_version)
        (encode_value (pb_InlinedDataTablesRow C)
           \<lparr>idt_table_id = table_id, idt_schema_version = schema_version, idt_sql = table_name\<rparr>) w)"

definition register_schema_version :: "codecs \<Rightarrow> u64 \<Rightarrow> u64 \<Rightarrow> u64 \<Rightarrow> (CatalogWriter, unit) cmd" where
  "register_schema_version C begin_snapshot schema_version table_id w =
     (Inr (), stage (key_schema_versions table_id begin_snapshot)
        (encode_value (pb_SchemaVersionsRow C)
           \<lparr>sv_table_id = table_id, sv_begin_snapshot = begin_snapshot,
            sv_schema_version = schema_version\<rparr>) w)"

definition mark_inlined_insert_deleted ::
  "'db slatedb \<Rightarrow> codecs \<Rightarrow> 'db \<Rightarrow> u64 \<Rightarrow> u64 \<Rightarrow> u64 \<Rightarrow> (CatalogWriter, unit) cmd" where
  "mark_inlined_insert_deleted S C db table_id schema_version row_id w =
     (let key = key_inlined_insert table_id schema_version row_id in
      case fetch_row S (pb_InlinedInsertRow C) db key (''inlined row '' @ show_u64 row_id) of
        Inl e \<Rightarrow> (Inl e, w)
      | Inr row \<Rightarrow>
          (Inr (), stage key (encode_value (pb_InlinedInsertRow C)
             (row\<lparr>ii_end_snapshot := Some (w_snapshot w)\<rparr>)) w))"

definition register_inlined_delete ::
  "codecs \<Rightarrow> u64 \<Rightarrow> u64 \<Rightarrow> u64 \<Rightarrow> (CatalogWriter, unit) cmd" where
  "register_inlined_delete C table_id data_file_id row_id w =
     (Inr (), stage (key_inlined_delete table_id data_file_id row_id)
        (encode_value (pb_InlinedDeleteRow C)
           \<lparr>idl_table_id = table_id, idl_data_file_id = data_file_id, idl_row_id = row_id,
            idl_begin_snapshot = w_snapshot w\<rparr>) w)"

section \<open>Views\<close>

definition create_view_with_opts ::
  "codecs \<Rightarrow> string \<Rightarrow> u64 \<Rightarrow> string \<Rightarrow> string \<Rightarrow> string option \<Rightarrow> string option \<Rightarrow> string option
     \<Rightarrow> (CatalogWriter, u64) cmd" where
  "create_view_with_opts C uuid schema_id view_name sql view_uuid dialect column_aliases w =
     (let (view_id, w1) = w_alloc_catalog_id w;
          snapshot_id = w_snapshot w1;
          row = \<lparr>vr_view_id = view_id, vr_schema_id = schema_id, vr_view_name = view_name,
                 vr_sql = sql, vr_begin_snapshot = snapshot_id, vr_end_snapshot = None,
                 vr_view_uuid = (case view_uuid of None \<Rightarrow> Some uuid | Some u \<Rightarrow> Some u),
                 vr_dialect = dialect, vr_column_aliases = column_aliases\<rparr>
      in (Inr view_id,
          mark_schema_changed (stage (key_view schema_id view_id snapshot_id)
            (encode_value (pb_ViewRow C) row) w1)))"

definition create_view ::
  "codecs \<Rightarrow> string \<Rightarrow> u64 \<Rightarrow> string \<Rightarrow> string \<Rightarrow> (CatalogWriter, u64) cmd" where
  "create_view C uuid schema_id view_name sql =
     create_view_with_opts C uuid schema_id view_name sql None None None"

definition drop_view ::
  "'db slatedb \<Rightarrow> codecs \<Rightarrow> 'db \<Rightarrow> u64 \<Rightarrow> u64 \<Rightarrow> u64 \<Rightarrow> (CatalogWriter, unit) cmd" where
  "drop_view S C db schema_id view_id begin_snapshot w =
     (let key = key_view schema_id view_id begin_snapshot in
      case fetch_row S (pb_ViewRow C) db key (''view '' @ show_u64 view_id) of
        Inl e \<Rightarrow> (Inl e, w)
      | Inr row \<Rightarrow>
          (Inr (), mark_schema_changed (stage key
             (encode_value (pb_ViewRow C) (row\<lparr>vr_end_snapshot := Some (w_snapshot w)\<rparr>)) w)))"

section \<open>Macros\<close>

definition create_macro ::
  "codecs \<Rightarrow> string \<Rightarrow> u64 \<Rightarrow> string \<Rightarrow> string \<Rightarrow> (CatalogWriter, u64) cmd" where
  "create_macro C uuid schema_id macro_name macro_type w =
     (let (macro_id, w1) = w_alloc_catalog_id w;
          snapshot_id = w_snapshot w1;
          row = \<lparr>mr_macro_id = macro_id, mr_schema_id = schema_id, mr_macro_name = macro_name,
                 mr_macro_type = macro_type, mr_begin_snapshot = snapshot_id,
                 mr_end_snapshot = None, mr_macro_uuid = Some uuid\<rparr>
      in (Inr macro_id,
          mark_schema_changed (stage (key_macro schema_id macro_id snapshot_id)
            (encode_value (pb_MacroRow C) row) w1)))"

definition drop_macro ::
  "'db slatedb \<Rightarrow> codecs \<Rightarrow> 'db \<Rightarrow> u64 \<Rightarrow> u64 \<Rightarrow> u64 \<Rightarrow> (CatalogWriter, unit) cmd" where
  "drop_macro S C db schema_id macro_id begin_snapshot w =
     (let key = key_macro schema_id macro_id begin_snapshot in
      case fetch_row S (pb_MacroRow C) db key (''macro '' @ show_u64 macro_id) of
        Inl e \<Rightarrow> (Inl e, w)
      | Inr row \<Rightarrow>
          (Inr (), mark_schema_changed (stage key
             (encode_value (pb_MacroRow C) (row\<lparr>mr_end_snapshot := Some (w_snapshot w)\<rparr>)) w)))"

definition add_macro_impl_with_opts ::
  "codecs \<Rightarrow> u64 \<Rightarrow> string \<Rightarrow> string option \<Rightarrow> string option \<Rightarrow> (CatalogWriter, u64) cmd" where
  "add_macro_impl_with_opts C macro_id sql dialect impl_type w =
     (let (impl_id, w1) = w_alloc_catalog_id w;
          row = \<lparr>mi_impl_id = impl_id, mi_macro_id = macro_id, mi_sql = sql, mi_dialect = dialect,
                 mi_impl_type = impl_type\<rparr>
      in (Inr impl_id,
          stage (key_macro_impl macro_id impl_id) (encode_value (pb_MacroImplRow C) row) w1))"

definition add_macro_impl :: "codecs \<Rightarrow> u64 \<Rightarrow> string \<Rightarrow> (CatalogWriter, u64) cmd" where
  "add_macro_impl C macro_id sql = add_macro_impl_with_opts C macro_id sql None None"

definition add_macro_parameter_with_opts ::
  "'db slatedb \<Rightarrow> codecs \<Rightarrow> u64 \<Rightarrow> u64 \<Rightarrow> u64 \<Rightarrow> string \<Rightarrow> string \<Rightarrow> string option \<Rightarrow> string option
     \<Rightarrow> ('db, unit) cmd" where
  "add_macro_parameter_with_opts S C macro_id impl_id column_id parameter_name parameter_type
       default_value default_value_type =
     db_put S (key_macro_parameters macro_id impl_id column_id)
       (encode_value (pb_MacroParametersRow C)
          \<lparr>mp_macro_id = macro_id, mp_impl_id = impl_id, mp_column_id = column_id,
           mp_parameter_name = parameter_name, mp_parameter_type = parameter_type,
           mp_default_value = default_value, mp_default_value_type = default_value_type\<rparr>)"

definition add_macro_parameter ::
  "'db slatedb \<Rightarrow> codecs \<Rightarrow> u64 \<Rightarrow> u64 \<Rightarrow> u64 \<Rightarrow> string \<Rightarrow> string \<Rightarrow> string option \<Rightarrow> ('db, unit) cmd" where
  "add_macro_parameter S C macro_id impl_id column_id parameter_name parameter_type default_value =
     add_macro_parameter_with_opts S C macro_id impl_id column_id parameter_name parameter_type
       default_value None"

section \<open>Tags\<close>

definition set_tag ::
  "codecs \<Rightarrow> (string \<Rightarrow> u64) \<Rightarrow> u64 \<Rightarrow> string \<Rightarrow> string \<Rightarrow> (CatalogWriter, unit) cmd" where
  "set_tag C hash_tag_key object_id tag_key tag_value w =
     (let snapshot_id = w_snapshot w;
          row = \<lparr>tg_object_id = object_id, tg_tag_key = tag_key, tg_tag_value = tag_value,
                 tg_begin_snapshot = snapshot_id, tg_end_snapshot = None\<rparr>
      in (Inr (), stage (key_tag object_id (hash_tag_key tag_key) snapshot_id)
            (encode_value (pb_TagRow C) row) w))"

definition remove_tag ::
  "'db slatedb \<Rightarrow> codecs \<Rightarrow> (string \<Rightarrow> u64) \<Rightarrow> 'db \<Rightarrow> u64 \<Rightarrow> string \<Rightarrow> u64 \<Rightarrow> (CatalogWriter, unit) cmd" where
  "remove_tag S C hash_tag_key db object_id tag_key begin_snapshot w =
     (let key = key_tag object_id (hash_tag_key tag_key) begin_snapshot in
      case fetch_row S (pb_TagRow C) db key
          (''tag '' @ tag_key @ '' on '' @ show_u64 object_id) of
        Inl e \<Rightarrow> (Inl e, w)
      | Inr row \<Rightarrow>
          (Inr (), stage key (encode_value (pb_TagRow C)
             (row\<lparr>tg_end_snapshot := Some (w_snapshot w)\<rparr>)) w))"

definition set_column_tag ::
  "codecs \<Rightarrow> (string \<Rightarrow> u64) \<Rightarrow> u64 \<Rightarrow> u64 \<Rightarrow> string \<Rightarrow> string \<Rightarrow> (CatalogWriter, unit) cmd" where
  "set_column_tag C hash_tag_key table_id column_id tag_key tag_value w =
     (let snapshot_id = w_snapshot w;
          row = \<lparr>ctg_table_id = table_id, ctg_column_id = column_id, ctg_tag_key = tag_key,
                 ctg_tag_value = tag_value, ctg_begin_snapshot = snapshot_id,
                 ctg_end_snapshot = None\<rparr>
      in (Inr (), stage (key_column_tag table_id column_id (hash_tag_key tag_key) snapshot_id)
            (encode_value (pb_ColumnTagRow C) row) w))"

definition remove_column_tag ::
  "'db slatedb \<Rightarrow> codecs \<Rightarrow> (string \<Rightarrow> u64) \<Rightarrow> 'db \<Rightarrow> u64 \<Rightarrow> u64 \<Rightarrow> string \<Rightarrow> u64
     \<Rightarrow> (CatalogWriter, unit) cmd" where
  "remove_column_tag S C hash_tag_key db table_id column_id tag_key begin_snapshot w =
     (let key = key_column_tag table_id column_id (hash_tag_key tag_key) begin_snapshot in
      case fetch_row S (pb_ColumnTagRow C) db key
          (''column tag '' @ tag_key @ '' on '' @ show_u64 table_id @ ''.'' @ show_u64 column_id) of
        Inl e \<Rightarrow> (Inl e, w)
      | Inr row \<Rightarrow>
          (Inr (), stage key (encode_value (pb_ColumnTagRow C)
             (row\<lparr>ctg_end_snapshot := Some (w_snapshot w)\<rparr>)) w))"

definition add_sort_info :: "codecs \<Rightarrow> u64 \<Rightarrow> u64 \<Rightarrow> (CatalogWriter, unit) cmd" where
  "add_sort_info C table_id sort_id w =
     (let snapshot_id = w_snapshot w in
      (Inr (), stage (key_sort_info table_id sort_id snapshot_id)
         (encode_value (pb_SortInfoRow C)
            \<lparr>si_sort_id = sort_id, si_table_id = table_id, si_begin_snapshot = snapshot_id,
             si_end_snapshot = None\<rparr>) w))"

section \<open>Scheduled deletions\<close>

definition schedule_file_deletion ::
  "'db slatedb \<Rightarrow> codecs \<Rightarrow> u64 \<Rightarrow> u64 \<Rightarrow> string \<Rightarrow> string \<Rightarrow> ('db, unit) cmd" where
  "schedule_file_deletion S C now_secs data_file_id path file_type =
     db_put S (key_files_scheduled_for_deletion now_secs data_file_id)
       (encode_value (pb_FilesScheduledForDeletionRow C)
          \<lparr>fsd_data_file_id = data_file_id, fsd_schedule_start = now_secs, fsd_path = path,
           fsd_file_type = (if file_type = [] then None else Some file_type),
           fsd_path_is_relative = None\<rparr>)"

definition remove_scheduled_deletion :: "'db slatedb \<Rightarrow> u64 \<Rightarrow> u64 \<Rightarrow> ('db, unit) cmd" where
  "remove_scheduled_deletion S schedule_start data_file_id =
     db_delete S (key_files_scheduled_for_deletion schedule_start data_file_id)"

section \<open>Application metadata\<close>

text \<open>\<open>str::splitn(n, sep)\<close>: at most \<open>n\<close> pieces, the last one unsplit.\<close>

fun splitn :: "nat \<Rightarrow> char \<Rightarrow> string \<Rightarrow> string list" where
  "splitn 0 sep s = []"
| "splitn (Suc 0) sep s = [s]"
| "splitn (Suc (Suc n)) sep s =
     (case dropWhile (\<lambda>c. c \<noteq> sep) s of
        [] \<Rightarrow> [s]
      | _ # rest \<Rightarrow> takeWhile (\<lambda>c. c \<noteq> sep) s # splitn (Suc n) sep rest)"

text \<open>The \<open>Debug\<close> form of a string, with the escapes of printable ASCII text.\<close>

definition debug_str :: "string \<Rightarrow> string" where
  "debug_str s = [CHR 0x22] @
     concat (map (\<lambda>c. if c = CHR 0x22 then [CHR 0x5C, CHR 0x22]
       else if c = CHR 0x5C then [CHR 0x5C, CHR 0x5C] else [c]) s) @ [CHR 0x22]"

definition validate_app_metadata_key :: "string \<Rightarrow> CatalogError + unit" where
  "validate_app_metadata_key key =
     (if key = [] then Inl (InvalidInput ''metadata key must not be empty'')
      else if CHR ''.'' \<in> set key then
        (let parts = splitn 4 (CHR ''.'') key in
         if length parts < 3 \<or> list_ex (\<lambda>p. p = []) parts
         then Inl (InvalidInput (''application metadata key must follow {app}.{instance}.{key} '' @
           ''convention (at least 3 non-empty dot-separated parts); got '' @ debug_str key))
         else Inr ())
      else Inr ())"

definition set_metadata ::
  "codecs \<Rightarrow> MetadataScope \<Rightarrow> u64 \<Rightarrow> string \<Rightarrow> string \<Rightarrow> (CatalogWriter, unit) cmd" where
  "set_metadata C scope scope_id key value w =
     (case validate_app_metadata_key key of
        Inl e \<Rightarrow> (Inl e, w)
      | Inr _ \<Rightarrow>
          (let scope_str = (case scope of Global \<Rightarrow> ''global'' | Schema \<Rightarrow> ''schema''
                 | Table \<Rightarrow> ''table'')
           in (Inr (), stage (key_metadata scope scope_id key)
                 (encode_value (pb_MetadataRow C)
                    \<lparr>md_key = key, md_value = value, md_scope = Some scope_str,
                     md_scope_id = Some scope_id\<rparr>) w)))"

section \<open>Row id ranges\<close>

text \<open>The loop body of \<open>next_rowid_range\<close>, the same in the method and the standalone function.\<close>

definition rowid_body :: "'db slatedb \<Rightarrow> u64 \<Rightarrow> u64 \<Rightarrow> ('db transaction, (u64 \<times> u64) tx_end) cmd" where
  "rowid_body S table_id count =
     (let key = key_counter_rowid table_id in
      bind (tx_get S key) (\<lambda>d.
      bind (case d of Some data \<Rightarrow> lift (map_err ValueErr (decode_counter data))
            | None \<Rightarrow> ret 0) (\<lambda>current.
      bind (lift (ok_or (InvalidInput (''rowid overflow: '' @ show_u64 current @ '' + '' @
          show_u64 count @ '' exceeds u64::MAX'')) (checked_add current count))) (\<lambda>range_end.
      bind (tx_put S key (encode_counter range_end)) (\<lambda>_.
        ret (Commit (current, range_end)))))))"

definition next_rowid_range ::
  "'db slatedb \<Rightarrow> u64 \<Rightarrow> u64 \<Rightarrow> ('db \<Rightarrow> 'db) list \<Rightarrow> 'db
     \<Rightarrow> (CatalogError + u64 \<times> u64) option \<times> 'db" where
  "next_rowid_range S table_id count envs db =
     (if count = 0 then (Some (Inl (InvalidInput ''rowid range count must be > 0'')), db)
      else retry_tx S (rowid_body S table_id count) envs db)"

section \<open>Snapshot changes\<close>

definition add_snapshot_changes ::
  "string \<Rightarrow> string option \<Rightarrow> u64 option \<Rightarrow> u64 option \<Rightarrow> (CatalogWriter, unit) cmd" where
  "add_snapshot_changes change_type change_info schema_id table_id w =
     (let snapshot_id = w_snapshot w;
          token = (case change_info of
             Some info \<Rightarrow> if info \<noteq> [] then change_type @ '':'' @ info else change_type
           | None \<Rightarrow> change_type);
          pending = (case w_pending_snapshot_changes w of
             None \<Rightarrow>
               \<lparr>sc_snapshot_id = snapshot_id, sc_change_type = change_type,
                sc_change_info = change_info, sc_schema_id = schema_id, sc_table_id = table_id,
                sc_author = None, sc_commit_message = None, sc_commit_extra_info = None,
                sc_changes_made = (if token = [] then None else Some token)\<rparr>
           | Some existing \<Rightarrow>
               existing\<lparr>
                 sc_changes_made :=
                   (if token \<noteq> [] then
                      (case sc_changes_made existing of
                         None \<Rightarrow> Some token | Some cm \<Rightarrow> Some (cm @ '','' @ token))
                    else sc_changes_made existing),
                 sc_schema_id := (case sc_schema_id existing of None \<Rightarrow> schema_id | x \<Rightarrow> x),
                 sc_table_id := (case sc_table_id existing of None \<Rightarrow> table_id | x \<Rightarrow> x)\<rparr>)
      in (Inr (), w\<lparr>w_pending_snapshot_changes := Some pending\<rparr>))"

section \<open>Statistics delta\<close>

text \<open>\<open>row_count_delta\<close> is a signed 64-bit integer: \<open>sint\<close> reads its sign, and
  \<open>(-row_count_delta) as u64\<close> is the two's complement negation.\<close>

definition apply_table_stats_delta ::
  "'db slatedb \<Rightarrow> codecs \<Rightarrow> u64 \<Rightarrow> i64 \<Rightarrow> ('db, unit) cmd" where
  "apply_table_stats_delta S C table_id row_count_delta db =
     (let key = key_table_stats table_id;
          zero = \<lparr>ts_table_id = table_id, ts_record_count = 0, ts_internal_file_count = 0,
                  ts_file_size_bytes = 0, ts_next_row_id = None\<rparr> in
      case db_get S db key of
        Inl e \<Rightarrow> (Inl e, db)
      | Inr d \<Rightarrow>
          (let existing = (case d of
                 Some data \<Rightarrow> (case decode_value (pb_TableStatsRow C) data of Inl _ \<Rightarrow> zero | Inr r \<Rightarrow> r)
               | None \<Rightarrow> zero);
               new_count = (if sint row_count_delta < 0
                 then saturating_sub (ts_record_count existing) (- row_count_delta)
                 else saturating_add (ts_record_count existing) row_count_delta)
           in db_put S key (encode_value (pb_TableStatsRow C)
                \<lparr>ts_table_id = table_id, ts_record_count = new_count,
                 ts_internal_file_count = ts_internal_file_count existing,
                 ts_file_size_bytes = ts_file_size_bytes existing,
                 ts_next_row_id = ts_next_row_id existing\<rparr>) db))"

section \<open>Facts about row id ranges\<close>

text \<open>The next row id of a table in a database content.\<close>

definition next_rowid_of :: "u64 \<Rightarrow> (bytes \<Rightarrow> bytes option) \<Rightarrow> u64 \<Rightarrow> bool" where
  "next_rowid_of table_id m n \<longleftrightarrow>
     (case m (key_counter_rowid table_id) of None \<Rightarrow> n = 0 | Some d \<Rightarrow> decode_counter d = Inr n)"

lemma rowid_body_keeps_snap: "keeps_snap (rowid_body S table_id count)"
  unfolding rowid_body_def Let_def by (auto intro!: keeps_snap_bind split: option.splits)

lemma rowid_body_Inr:
  assumes "slatedb_ok S" and "rowid_body S table_id count t = (Inr e, t')" and "tx_log t = []"
  shows "\<exists>a b. e = Commit (a, b) \<and> next_rowid_of table_id (sdb_view S (tx_snap t)) a \<and>
     unat b = unat a + unat count \<and>
     t' = t\<lparr>tx_log := [TxGet (key_counter_rowid table_id),
              TxPut (key_counter_rowid table_id) (encode_counter b)]\<rparr>"
proof -
  obtain d t1 where g: "tx_get S (key_counter_rowid table_id) t = (Inr d, t1)"
    using assms(2) by (auto simp: rowid_body_def bind_Inr Let_def)
  have d: "sdb_view S (tx_snap t) (key_counter_rowid table_id) = d"
    and t1: "t1 = t\<lparr>tx_log := [TxGet (key_counter_rowid table_id)]\<rparr>"
    using tx_get_Inr [OF assms(1) g] assms(3) by simp_all
  show ?thesis
    using assms(2) g d t1
    by (cases d) (auto simp: rowid_body_def bind_Inr Let_def next_rowid_of_def
        checked_add_Some_iff)
qed

lemma rowid_attempt:
  assumes "slatedb_ok S" and "run_tx S (rowid_body S table_id count) env db = (TxDone (Inr (a, b)), db')"
  shows "next_rowid_of table_id (sdb_view S (env db)) a \<and> unat b = unat a + unat count \<and>
     sdb_view S db' = (sdb_view S (env db))(key_counter_rowid table_id \<mapsto> encode_counter b)"
  using assms(2)
proof (cases rule: run_tx_Inr [OF assms(1), consumes 1, case_names Rollback Commit])
  case (Rollback t t')
  then show ?thesis using rowid_body_Inr [OF assms(1) Rollback(3,2)] by auto
next
  case (Commit t t')
  have r: "next_rowid_of table_id (sdb_view S (tx_snap t)) a" "unat b = unat a + unat count"
    "t' = t\<lparr>tx_log := [TxGet (key_counter_rowid table_id),
              TxPut (key_counter_rowid table_id) (encode_counter b)]\<rparr>"
    using rowid_body_Inr [OF assms(1) Commit(3,2)] by auto
  moreover have "next_rowid_of table_id (sdb_view S (env db)) a"
    using r Commit(5) by (simp add: reads_agree_def next_rowid_of_def)
  ultimately show ?thesis using Commit(4) by simp
qed

section \<open>Properties\<close>

text \<open>C28. Row id ranges never overlap. Whatever other allocators, which only ever advance the counter,
  do concurrently, the range handed out has the requested length without wrap-around, starts at or
  above the counter stored when the call began, and the stored counter is then the end of the range,
  where the next range starts at the earliest.\<close>

theorem rowid_ranges_disjoint:
  assumes "slatedb_ok S" and "next_rowid_range S table_id count envs db = (Some (Inr (a, b)), db')"
    and "next_rowid_of table_id (sdb_view S db) n"
    and "\<forall>env\<in>set envs. kept_by S (\<lambda>m. \<exists>x. next_rowid_of table_id m x \<and> n \<le> x) env"
  shows "n \<le> a \<and> a < b \<and> unat b = unat a + unat count \<and> next_rowid_of table_id (sdb_view S db') b"
proof -
  let ?Q = "\<lambda>m. \<exists>x. next_rowid_of table_id m x \<and> n \<le> x"
  have c: "count \<noteq> 0" and r: "retry_tx S (rowid_body S table_id count) envs db = (Some (Inr (a, b)), db')"
    using assms(2) by (auto simp: next_rowid_range_def split: if_splits)
  have "\<exists>env db0. env \<in> set envs \<and> ?Q (sdb_view S db0) \<and>
      run_tx S (rowid_body S table_id count) env db0 = (TxDone (Inr (a, b)), db')"
  proof (rule retry_tx_keeps [where Q = ?Q, OF assms(1,4) _ r])
    fix t t' x m
    assume cm: "rowid_body S table_id count t = (Inr (Commit x), t')" "tx_log t = []"
      and ra: "reads_agree (tx_log t') (sdb_view S (tx_snap t')) m" and "?Q m"
    then obtain y where y: "next_rowid_of table_id m y" "n \<le> y" by blast
    obtain c d where x: "next_rowid_of table_id (sdb_view S (tx_snap t)) c"
      "unat d = unat c + unat count"
      "t' = t\<lparr>tx_log := [TxGet (key_counter_rowid table_id),
              TxPut (key_counter_rowid table_id) (encode_counter d)]\<rparr>"
      using rowid_body_Inr [OF assms(1) cm] by auto
    have "y = c"
      using y(1) x(1,3) ra by (auto simp: reads_agree_def next_rowid_of_def split: option.splits)
    then have "n \<le> d" using y(2) x(2) by (simp add: word_le_nat_alt)
    then show "?Q (apply_log (tx_log t') m)"
      by (auto simp: x(3) next_rowid_of_def)
  qed (use assms(3) in auto)
  then obtain env db0 where "env \<in> set envs" "?Q (sdb_view S db0)"
    and run: "run_tx S (rowid_body S table_id count) env db0 = (TxDone (Inr (a, b)), db')" by blast
  then have "?Q (sdb_view S (env db0))" using assms(4) by (auto simp: kept_by_def)
  then obtain y where "next_rowid_of table_id (sdb_view S (env db0)) y" "n \<le> y" by blast
  moreover note ra = rowid_attempt [OF assms(1) run]
  ultimately have "n \<le> a" by (auto simp: next_rowid_of_def split: option.splits)
  moreover have "a < b" using ra c by (simp add: word_less_nat_alt unat_gt_0)
  ultimately show ?thesis using ra by (auto simp: next_rowid_of_def)
qed

text \<open>The outcome of a row id allocation that nobody interferes with: a request for no rows and one
  that would pass the largest row id are rejected and change nothing, every other request gets exactly
  the next range.\<close>

theorem next_rowid_range_outcome:
  assumes "slatedb_ok S" "slatedb_available S" and "next_rowid_of table_id (sdb_view S db) n"
  shows "\<exists>r db'. next_rowid_range S table_id count [id] db = (Some r, db') \<and>
     (if count = 0 \<or> 2 ^ 64 \<le> unat n + unat count
      then (\<exists>msg. r = Inl (InvalidInput msg)) \<and> sdb_view S db' = sdb_view S db
      else r = Inr (n, n + count) \<and>
        sdb_view S db' = (sdb_view S db)(key_counter_rowid table_id \<mapsto> encode_counter (n + count)))"
proof (cases "count = 0")
  case True
  then show ?thesis by (simp add: next_rowid_range_def)
next
  case False
  let ?k = "key_counter_rowid table_id"
  obtain sn where sn: "sdb_begin S db = Inr sn" using sdb_begin_available [OF assms(2)] by blast
  let ?t = "\<lparr>tx_snap = sn, tx_log = []\<rparr>"
  have b: "begin_tx S db = Inr ?t" by (simp add: begin_tx_def sn)
  have v: "sdb_view S sn = sdb_view S db" using sdb_begin_ok [OF assms(1) sn] .
  have body: "rowid_body S table_id count ?t =
    (case checked_add n count of
       None \<Rightarrow> (Inl (InvalidInput (''rowid overflow: '' @ show_u64 n @ '' + '' @
          show_u64 count @ '' exceeds u64::MAX'')), ?t\<lparr>tx_log := [TxGet ?k]\<rparr>)
     | Some e \<Rightarrow> (Inr (Commit (n, e)), ?t\<lparr>tx_log := [TxGet ?k, TxPut ?k (encode_counter e)]\<rparr>))"
    using assms(3)
    by (cases "sdb_view S db ?k")
      (auto simp: rowid_body_def Let_def bind_def tx_get_total [OF assms(1,2)] tx_put_total [OF assms(2)]
        next_rowid_of_def v ret_def lift_def apply_log_def split: option.split)
  show ?thesis
  proof (cases "checked_add n count")
    case None
    then have "\<exists>msg. next_rowid_range S table_id count [id] db = (Some (Inl (InvalidInput msg)), db)"
      using False body b by (simp add: next_rowid_range_def run_tx_def)
    moreover have "2 ^ 64 \<le> unat n + unat count"
      using None by (simp add: checked_add_None_iff)
    ultimately show ?thesis by auto
  next
    case (Some e)
    then have e: "e = n + count" "\<not> 2 ^ 64 \<le> unat n + unat count"
      by (auto simp: checked_add_def split: if_splits)
    obtain db' where c: "sdb_tx_commit S sn [TxGet ?k, TxPut ?k (encode_counter e)] db = (Inr (), db')"
      using sdb_tx_commit_available [OF assms(2) sn] by (metis prod.collapse)
    have run: "run_tx S (rowid_body S table_id count) id db = (TxDone (Inr (n, e)), db')"
      using body Some b c by (simp add: run_tx_def)
    then have "next_rowid_range S table_id count [id] db = (Some (Inr (n, e)), db')"
      using False by (simp add: next_rowid_range_def)
    then show ?thesis
      using rowid_attempt [OF assms(1) run] e False by simp
  qed
qed

text \<open>Statistics deltas saturate: applying a signed row count delta to stored statistics yields the
  mathematical sum clamped to the range of the counter, so deletes beyond the recorded count leave zero
  and never wrap around, and the other statistics are kept.\<close>

theorem stats_delta_clamps:
  assumes "slatedb_ok S" and "prost_ok (pb_TableStatsRow C)"
    and "sdb_view S db (key_table_stats t) = Some (encode_value (pb_TableStatsRow C) old)"
    and "apply_table_stats_delta S C t delta db = (Inr (), db')"
  shows "\<exists>new. sdb_view S db' = (sdb_view S db)(key_table_stats t \<mapsto> encode_value (pb_TableStatsRow C) new) \<and>
     int (unat (ts_record_count new)) =
       max 0 (min (2 ^ 64 - 1) (int (unat (ts_record_count old)) + sint delta)) \<and>
     ts_internal_file_count new = ts_internal_file_count old \<and>
     ts_file_size_bytes new = ts_file_size_bytes old \<and> ts_next_row_id new = ts_next_row_id old"
proof -
  let ?c = "ts_record_count old"
  let ?n = "if sint delta < 0 then saturating_sub ?c (- delta) else saturating_add ?c delta"
  obtain v where g: "db_get S db (key_table_stats t) = Inr v"
    using assms(4) by (auto simp: apply_table_stats_delta_def Let_def split: sum.splits)
  have v: "v = Some (encode_value (pb_TableStatsRow C) old)"
    using db_get_Inr [OF assms(1) g] assms(3) by simp
  let ?new = "\<lparr>ts_table_id = t, ts_record_count = ?n, ts_internal_file_count = ts_internal_file_count old,
     ts_file_size_bytes = ts_file_size_bytes old, ts_next_row_id = ts_next_row_id old\<rparr>"
  have "db_put S (key_table_stats t) (encode_value (pb_TableStatsRow C) ?new) db = (Inr (), db')"
    using assms(4) assms(2) by (simp add: apply_table_stats_delta_def Let_def g v)
  then have w: "sdb_view S db' = (sdb_view S db)(key_table_stats t \<mapsto> encode_value (pb_TableStatsRow C) ?new)"
    by (rule db_put_Inr [OF assms(1)])
  have "int (unat ?n) = max 0 (min (2 ^ 64 - 1) (int (unat ?c) + sint delta))"
    by (rule saturating_delta)
  with w show ?thesis by (intro exI [of _ ?new]) simp
qed

end
