(* ===== verification/Catalog_Init.thy ===== *)
theory Catalog_Init
  imports Transactions Counters
begin

text \<open>
  \<open>crates/rocklake-catalog/src/init.rs\<close>: creation of a catalog in an empty database, and loading
  the counters and the format version of an existing one.
\<close>

section \<open>Reading the counters\<close>

text \<open>One counter read inside a transaction, the three statements \<open>load_counters\<close> repeats.\<close>

definition tx_counter :: "'db slatedb \<Rightarrow> bytes \<Rightarrow> ('db transaction, u64) cmd" where
  "tx_counter S k =
     bind (tx_get S k) (\<lambda>d.
     bind (lift (ok_or NotInitialized d)) (\<lambda>data.
       lift (map_err ValueErr (decode_counter data))))"

definition load_counters :: "'db slatedb \<Rightarrow> ('db transaction, CounterCache) cmd" where
  "load_counters S =
     bind (tx_counter S (key_counter COUNTER_NEXT_SNAPSHOT_ID)) (\<lambda>s.
     bind (tx_counter S (key_counter COUNTER_NEXT_CATALOG_ID)) (\<lambda>c.
     bind (tx_counter S (key_counter COUNTER_NEXT_FILE_ID)) (\<lambda>f.
       ret (CounterCache_new s c f))))"

definition db_counter :: "'db slatedb \<Rightarrow> 'db \<Rightarrow> bytes \<Rightarrow> CatalogError + u64" where
  "db_counter S db k =
     rbind (db_get S db k) (\<lambda>d.
     rbind (ok_or NotInitialized d) (\<lambda>data. map_err ValueErr (decode_counter data)))"

definition load_counters_from_db :: "'db slatedb \<Rightarrow> 'db \<Rightarrow> CatalogError + CounterCache" where
  "load_counters_from_db S db =
     rbind (db_counter S db (key_counter COUNTER_NEXT_SNAPSHOT_ID)) (\<lambda>s.
     rbind (db_counter S db (key_counter COUNTER_NEXT_CATALOG_ID)) (\<lambda>c.
     rbind (db_counter S db (key_counter COUNTER_NEXT_FILE_ID)) (\<lambda>f.
       Inr (CounterCache_new s c f))))"

section \<open>Initialization\<close>

definition check_format :: "bytes \<Rightarrow> CatalogError + unit" where
  "check_format data =
     rbind (map_err ValueErr (decode_format_version data)) (\<lambda>version.
       if version \<noteq> CATALOG_FORMAT_VERSION
       then Inl (FormatVersionMismatch CATALOG_FORMAT_VERSION version) else Inr ())"

definition initialize_body :: "'db slatedb \<Rightarrow> ('db transaction, CounterCache tx_end) cmd" where
  "initialize_body S =
     (let format_key = key_system SYSTEM_CATALOG_FORMAT_VERSION in
      bind (tx_get S format_key) (\<lambda>existing.
        case existing of
          Some data \<Rightarrow>
            bind (lift (check_format data)) (\<lambda>_.
            bind (load_counters S) (\<lambda>cache. ret (Rollback cache)))
        | None \<Rightarrow>
            bind (tx_put S format_key (encode_format_version CATALOG_FORMAT_VERSION)) (\<lambda>_.
            bind (tx_put S (key_counter COUNTER_NEXT_SNAPSHOT_ID) (encode_counter 1)) (\<lambda>_.
            bind (tx_put S (key_counter COUNTER_NEXT_CATALOG_ID) (encode_counter 1)) (\<lambda>_.
            bind (tx_put S (key_counter COUNTER_NEXT_FILE_ID) (encode_counter 1)) (\<lambda>_.
            bind (tx_put S (key_system SYSTEM_RETAIN_FROM) (encode_counter 0)) (\<lambda>_.
              ret (Commit (CounterCache_new 1 1 1)))))))))"

definition initialize_catalog :: "'db slatedb \<Rightarrow> ('db \<Rightarrow> 'db) \<Rightarrow> ('db, CounterCache) cmd" where
  "initialize_catalog S env = once_tx S (initialize_body S) env"

definition verify_format_version :: "'db slatedb \<Rightarrow> 'db \<Rightarrow> CatalogError + unit" where
  "verify_format_version S db =
     rbind (db_get S db (key_system SYSTEM_CATALOG_FORMAT_VERSION)) (\<lambda>d.
     rbind (ok_or NotInitialized d) check_format)"

section \<open>Facts\<close>

text \<open>The content of an initialized catalog: its format version and its three counters.\<close>

definition stored_counters :: "(bytes \<Rightarrow> bytes option) \<Rightarrow> CounterCache \<Rightarrow> bool" where
  "stored_counters m c \<longleftrightarrow>
     (\<exists>a b d. m (key_counter COUNTER_NEXT_SNAPSHOT_ID) = Some a \<and>
        decode_counter a = Inr (cc_next_snapshot_id c) \<and>
        m (key_counter COUNTER_NEXT_CATALOG_ID) = Some b \<and>
        decode_counter b = Inr (cc_next_catalog_id c) \<and>
        m (key_counter COUNTER_NEXT_FILE_ID) = Some d \<and>
        decode_counter d = Inr (cc_next_file_id c))"

definition format_ok :: "(bytes \<Rightarrow> bytes option) \<Rightarrow> bool" where
  "format_ok m \<longleftrightarrow>
     (\<exists>d. m (key_system SYSTEM_CATALOG_FORMAT_VERSION) = Some d \<and>
        decode_format_version d = Inr CATALOG_FORMAT_VERSION)"

definition fresh_catalog :: "(bytes \<Rightarrow> bytes option) \<Rightarrow> bytes \<Rightarrow> bytes option" where
  "fresh_catalog m = m
     (key_system SYSTEM_CATALOG_FORMAT_VERSION \<mapsto> encode_format_version CATALOG_FORMAT_VERSION,
      key_counter COUNTER_NEXT_SNAPSHOT_ID \<mapsto> encode_counter 1,
      key_counter COUNTER_NEXT_CATALOG_ID \<mapsto> encode_counter 1,
      key_counter COUNTER_NEXT_FILE_ID \<mapsto> encode_counter 1,
      key_system SYSTEM_RETAIN_FROM \<mapsto> encode_counter 0)"

lemma tx_counter_Inr:
  assumes "slatedb_ok S" and "tx_counter S k t = (Inr v, t')"
  shows "(\<exists>d. apply_log (tx_log t) (sdb_view S (tx_snap t)) k = Some d \<and> decode_counter d = Inr v) \<and>
     t' = t\<lparr>tx_log := tx_log t @ [TxGet k]\<rparr>"
  using assms(2) by (auto simp: tx_counter_def bind_Inr dest!: tx_get_Inr [OF assms(1)])

lemma load_counters_Inr:
  assumes "slatedb_ok S" and "load_counters S t = (Inr c, t')"
  shows "stored_counters (apply_log (tx_log t) (sdb_view S (tx_snap t))) c"
    and "tx_snap t' = tx_snap t"
  using assms(2)
  by (auto simp: load_counters_def bind_Inr stored_counters_def CounterCache_new_def
      dest!: tx_counter_Inr [OF assms(1)])

lemma stored_counters_unique: "stored_counters m c \<Longrightarrow> stored_counters m c' \<Longrightarrow> c = c'"
  by (auto simp: stored_counters_def)

lemma fresh_catalog_simps:
  "stored_counters (fresh_catalog m) (CounterCache_new 1 1 1)"
  "format_ok (fresh_catalog m)"
  by (simp_all add: fresh_catalog_def stored_counters_def format_ok_def CounterCache_new_def
      key_simps tag_defs)

lemma check_format_Inr [simp]:
  "check_format d = Inr u \<longleftrightarrow> decode_format_version d = Inr CATALOG_FORMAT_VERSION"
  by (auto simp: check_format_def rbind_eq_Inr_iff)

text \<open>The two ways the body of the transaction ends: the catalog was there, with the right version
  and these counters, or it was absent and the log writes a fresh one.\<close>

lemma initialize_body_cases:
  assumes "slatedb_ok S" and "initialize_body S t = (Inr e, t')" and "tx_log t = []"
  shows "(\<exists>c. e = Rollback c \<and> format_ok (sdb_view S (tx_snap t)) \<and>
        stored_counters (sdb_view S (tx_snap t)) c) \<or>
     (e = Commit (CounterCache_new 1 1 1) \<and> tx_snap t' = tx_snap t \<and>
        sdb_view S (tx_snap t) (key_system SYSTEM_CATALOG_FORMAT_VERSION) = None \<and>
        TxGet (key_system SYSTEM_CATALOG_FORMAT_VERSION) \<in> set (tx_log t') \<and>
        (\<forall>m. apply_log (tx_log t') m = fresh_catalog m))"
proof -
  let ?k = "key_system SYSTEM_CATALOG_FORMAT_VERSION"
  obtain x t1 where g: "tx_get S ?k t = (Inr x, t1)"
    using assms(2) by (auto simp: initialize_body_def bind_Inr Let_def)
  note g' = tx_get_Inr [OF assms(1) g]
  show ?thesis
  proof (cases x)
    case None
    then show ?thesis
      using assms g g' by (auto simp: initialize_body_def bind_Inr Let_def fresh_catalog_def)
  next
    case (Some d)
    then obtain c where "load_counters S t1 = (Inr c, t')" and "e = Rollback c"
      and "decode_format_version d = Inr CATALOG_FORMAT_VERSION"
      using assms(2) g by (auto simp: initialize_body_def bind_Inr Let_def)
    with load_counters_Inr [OF assms(1)] g' Some assms(3) show ?thesis
      by (fastforce simp: format_ok_def)
  qed
qed

section \<open>Properties\<close>

lemma initialize_catalog_Inr:
  assumes "slatedb_ok S" and "initialize_catalog S env db = (Inr c, db')"
  shows "(db' = db \<and> format_ok (sdb_view S db) \<and> stored_counters (sdb_view S db) c) \<or>
     (c = CounterCache_new 1 1 1 \<and> sdb_view S db' = fresh_catalog (sdb_view S (env db)) \<and>
        sdb_view S (env db) (key_system SYSTEM_CATALOG_FORMAT_VERSION) = None)"
proof -
  have "run_tx S (initialize_body S) env db = (TxDone (Inr c), db')"
    using assms(2) by (auto simp: initialize_catalog_def once_tx_def split: prod.splits tx_result.splits)
  then show ?thesis
  proof (cases rule: run_tx_Inr [OF assms(1), consumes 1, case_names Rollback Commit])
    case (Rollback t t')
    then show ?thesis using initialize_body_cases [OF assms(1) Rollback(3,2)] by auto
  next
    case (Commit t t')
    then show ?thesis
      using initialize_body_cases [OF assms(1) Commit(3,2)] by (auto simp: reads_agree_def)
  qed
qed

text \<open>C29. Initialization is idempotent and safe under a race. When it succeeds, the database holds a
  catalog of the expected format whose counters are the ones returned. Either it was there and nothing
  was written, or there was none, also at commit time, whatever another process that initializes the
  same database did, and a fresh one was written whose counters are all one.\<close>

theorem initialize_catalog_correct:
  assumes "slatedb_ok S" and "initialize_catalog S env db = (Inr c, db')"
  shows "format_ok (sdb_view S db') \<and> stored_counters (sdb_view S db') c \<and>
     (db' = db \<or>
      c = CounterCache_new 1 1 1 \<and> sdb_view S db' = fresh_catalog (sdb_view S (env db)) \<and>
      sdb_view S (env db) (key_system SYSTEM_CATALOG_FORMAT_VERSION) = None)"
  using initialize_catalog_Inr [OF assms] fresh_catalog_simps by metis

end
