(* ===== verification/Mvcc.thy ===== *)
theory Mvcc
  imports Prelude
begin

text \<open>
  \<open>crates/rocklake-core/src/mvcc.rs\<close>: visibility of versioned rows at a DuckLake snapshot, GC
  eligibility, and the selection of the latest visible version. \<open>SnapshotId\<close> is the newtype over
  \<open>u64\<close> with its derived order.
\<close>

section \<open>Snapshots\<close>

datatype SnapshotId = SnapshotId (as_u64: u64)

definition SnapshotId_new :: "u64 \<Rightarrow> SnapshotId" where
  "SnapshotId_new i = SnapshotId i"

instantiation SnapshotId :: linorder
begin

definition less_eq_SnapshotId :: "SnapshotId \<Rightarrow> SnapshotId \<Rightarrow> bool" where
  "less_eq_SnapshotId a b \<longleftrightarrow> as_u64 a \<le> as_u64 b"

definition less_SnapshotId :: "SnapshotId \<Rightarrow> SnapshotId \<Rightarrow> bool" where
  "less_SnapshotId a b \<longleftrightarrow> as_u64 a < as_u64 b"

instance
  by standard (auto simp: less_eq_SnapshotId_def less_SnapshotId_def SnapshotId.expand)

end

lemma SnapshotId_le [simp]: "SnapshotId a \<le> SnapshotId b \<longleftrightarrow> a \<le> b"
  by (simp add: less_eq_SnapshotId_def)

section \<open>Visibility\<close>

definition is_visible :: "u64 \<Rightarrow> u64 option \<Rightarrow> SnapshotId \<Rightarrow> bool" where
  "is_visible begin_snapshot end_snapshot dl_snapshot_id =
     (if begin_snapshot > as_u64 dl_snapshot_id then False
      else case end_snapshot of None \<Rightarrow> True | Some e \<Rightarrow> as_u64 dl_snapshot_id < e)"

definition is_inlined_insert_visible :: "u64 \<Rightarrow> u64 option \<Rightarrow> SnapshotId \<Rightarrow> bool" where
  "is_inlined_insert_visible begin_snapshot end_snapshot dl_snapshot_id =
     is_visible begin_snapshot end_snapshot dl_snapshot_id"

definition is_inlined_delete_visible :: "u64 \<Rightarrow> SnapshotId \<Rightarrow> bool" where
  "is_inlined_delete_visible begin_snapshot dl_snapshot_id \<longleftrightarrow>
     begin_snapshot \<le> as_u64 dl_snapshot_id"

definition is_insert_gc_eligible :: "u64 option \<Rightarrow> u64 \<Rightarrow> bool" where
  "is_insert_gc_eligible end_snapshot oldest_retained_snapshot =
     (case end_snapshot of None \<Rightarrow> False | Some e \<Rightarrow> e \<le> oldest_retained_snapshot)"

text \<open>The loop of \<open>latest_visible_version\<close>: \<open>best\<close> is the mutable variable of that name.\<close>

fun latest_visible_loop ::
  "(u64 \<times> u64 option \<times> 'a) list \<Rightarrow> SnapshotId \<Rightarrow> (u64 \<times> 'a) option \<Rightarrow> (u64 \<times> 'a) option" where
  "latest_visible_loop [] s best = best"
| "latest_visible_loop ((b, e, item) # vs) s best =
     latest_visible_loop vs s
       (if is_visible b e s then
          (case best of
             None \<Rightarrow> Some (b, item)
           | Some (prev_begin, prev) \<Rightarrow> if b > prev_begin then Some (b, item) else best)
        else best)"

definition latest_visible_version ::
  "(u64 \<times> u64 option \<times> 'a) list \<Rightarrow> SnapshotId \<Rightarrow> 'a option" where
  "latest_visible_version versions s = map_option snd (latest_visible_loop versions s None)"

section \<open>Facts\<close>

lemma is_visible_iff:
  "is_visible b e s \<longleftrightarrow> b \<le> as_u64 s \<and> (\<forall>x. e = Some x \<longrightarrow> as_u64 s < x)"
  by (auto simp: is_visible_def not_less split: option.splits)

text \<open>Retiring a row at \<open>n\<close> cuts its window at \<open>n\<close> and changes nothing before.\<close>

lemma is_visible_retire:
  "is_visible b (Some n) s \<longleftrightarrow> is_visible b None s \<and> as_u64 s < n"
  by (auto simp: is_visible_iff)

lemma not_visible_beyond_end:
  "e = Some x \<Longrightarrow> x \<le> as_u64 s \<Longrightarrow> \<not> is_visible b e s"
  by (auto simp: is_visible_iff not_less)

lemma visible_interval:
  "is_visible b e s \<Longrightarrow> is_visible b e t \<Longrightarrow> s \<le> u \<Longrightarrow> u \<le> t \<Longrightarrow> is_visible b e u"
  by (cases e) (auto simp: is_visible_iff less_eq_SnapshotId_def)

text \<open>The specification of the loop: the first element, in iteration order, of largest begin
  among the visible ones and the starting candidate.\<close>

lemma latest_visible_loop_None:
  "latest_visible_loop vs s best = None \<longleftrightarrow>
     best = None \<and> (\<forall>(b, e, x)\<in>set vs. \<not> is_visible b e s)"
  by (induction vs s best rule: latest_visible_loop.induct) (auto split: option.splits)

lemma latest_visible_loop_Some:
  assumes "latest_visible_loop vs s best = Some (b, x)"
  shows "(best = Some (b, x) \<or> (\<exists>e. (b, e, x) \<in> set vs \<and> is_visible b e s)) \<and>
     (\<forall>(b', e', x')\<in>set vs. is_visible b' e' s \<longrightarrow> b' \<le> b) \<and>
     (\<forall>b0 x0. best = Some (b0, x0) \<longrightarrow> b0 \<le> b)"
  using assms
proof (induction vs s best rule: latest_visible_loop.induct)
  case (1 s best)
  then show ?case by auto
next
  case (2 b1 e1 x1 vs s best)
  let ?best = "if is_visible b1 e1 s then
          (case best of None \<Rightarrow> Some (b1, x1)
           | Some (p, q) \<Rightarrow> if b1 > p then Some (b1, x1) else best) else best"
  from 2 have ih: "(?best = Some (b, x) \<or> (\<exists>e. (b, e, x) \<in> set vs \<and> is_visible b e s)) \<and>
     (\<forall>(b', e', x')\<in>set vs. is_visible b' e' s \<longrightarrow> b' \<le> b) \<and>
     (\<forall>b0 x0. ?best = Some (b0, x0) \<longrightarrow> b0 \<le> b)"
    by simp
  show ?case
  proof (cases "is_visible b1 e1 s")
    case False
    then show ?thesis using ih by auto
  next
    case True
    show ?thesis
    proof (cases best)
      case None
      then show ?thesis using ih True by auto
    next
      case (Some pq)
      then obtain p q where "best = Some (p, q)" by (cases pq) auto
      then show ?thesis using ih True by (cases "b1 > p") auto
    qed
  qed
qed

section \<open>Properties\<close>

text \<open>\<open>latest_visible_version\<close> returns nothing exactly when no version is visible; otherwise it
  returns a visible version, and no visible version began later.\<close>

theorem latest_visible_version_correct:
  "(latest_visible_version vs s = None \<longleftrightarrow> \<not> (\<exists>b e x. (b, e, x) \<in> set vs \<and> is_visible b e s)) \<and>
   (latest_visible_version vs s = Some x \<longrightarrow>
      (\<exists>b e. (b, e, x) \<in> set vs \<and> is_visible b e s \<and>
         (\<forall>b' e' x'. (b', e', x') \<in> set vs \<and> is_visible b' e' s \<longrightarrow> b' \<le> b)))"
proof (cases "latest_visible_loop vs s None")
  case None
  then show ?thesis
    using latest_visible_loop_None [of vs s None] by (auto simp: latest_visible_version_def)
next
  case (Some bx)
  obtain b y where bx: "bx = (b, y)" by (cases bx)
  have "\<exists>e. (b, e, y) \<in> set vs \<and> is_visible b e s"
    and "\<forall>b' e' x'. (b', e', x') \<in> set vs \<and> is_visible b' e' s \<longrightarrow> b' \<le> b"
    using latest_visible_loop_Some [OF Some [unfolded bx]] by fastforce+
  moreover have "latest_visible_version vs s = Some y"
    using Some by (simp add: latest_visible_version_def bx)
  ultimately show ?thesis by fastforce
qed

theorem latest_visible_version_correct_witness:
  "latest_visible_version [(1, Some 4, ''a''), (4, None, ''b''), (9, None, ''c'')] (SnapshotId 6)
     = Some ''b'' \<and>
   (\<exists>b e. (b, e, ''b'') \<in> set [(1, Some 4, ''a''), (4, None, ''b''), (9, None, ''c'')] \<and>
      is_visible b e (SnapshotId 6) \<and>
      (\<forall>b' e' x'. (b', e', x') \<in> set [(1, Some 4, ''a''), (4, None, ''b''), (9, None, ''c'')] \<and>
          is_visible b' e' (SnapshotId 6) \<longrightarrow> b' \<le> b))"
proof -
  have "latest_visible_version [(1, Some 4, ''a''), (4, None, ''b''), (9, None, ''c'')] (SnapshotId 6)
      = Some ''b''"
    by code_simp
  with latest_visible_version_correct
    [of "[(1, Some 4, ''a''), (4, None, ''b''), (9, None, ''c'')]" "SnapshotId 6" "''b''"]
  show ?thesis by blast
qed

text \<open>An inlined row that is eligible for physical collection is invisible at every retained
  snapshot, and a retired row that is invisible at every retained snapshot from its begin on is
  eligible: the test of eligibility is neither too eager nor too timid.\<close>

theorem gc_eligible_iff_invisible:
  assumes "b \<le> oldest"
  shows "is_insert_gc_eligible e oldest \<longleftrightarrow>
    (\<forall>s. oldest \<le> s \<longrightarrow> \<not> is_inlined_insert_visible b e (SnapshotId s))"
  using assms
  by (auto simp: is_insert_gc_eligible_def is_inlined_insert_visible_def is_visible_iff
      split: option.split intro!: exI [of _ oldest])

theorem gc_eligible_iff_invisible_witness:
  "is_insert_gc_eligible (Some 5) 7 \<longleftrightarrow>
    (\<forall>s. 7 \<le> s \<longrightarrow> \<not> is_inlined_insert_visible 2 (Some 5) (SnapshotId s))"
  using gc_eligible_iff_invisible [of 2 7 "Some 5"] by simp

end
