(* ===== verification/Snapshot_Commit.thy ===== *)
theory Snapshot_Commit
  imports Catalog_Writer Catalog_Init Mvcc
begin

text \<open>
  \<open>crates/rocklake-catalog/src/writer/snapshot.rs\<close>: the epoch check and \<open>create_snapshot\<close>, the commit
  boundary of the catalog. The RFC 3339 time of the snapshot row is an argument. \<open>env\<close> is what other
  processes do to the database between the \<open>begin\<close> and the \<open>commit\<close> of the transaction.
\<close>

record CommitResult =
  cmr_snapshot_id :: SnapshotId
  cmr_next_snapshot_id :: u64
  cmr_next_catalog_id :: u64
  cmr_next_file_id :: u64
  cmr_schema_version :: u64

section \<open>Fencing\<close>

text \<open>The stored nonce is compared as text after a UTF-8 check; a nonce is valid UTF-8, so this is
  equality of the bytes.\<close>

definition check_epoch :: "'db slatedb \<Rightarrow> CatalogWriter \<Rightarrow> ('db transaction, unit) cmd" where
  "check_epoch S w =
     bind (tx_get S (key_system SYSTEM_WRITER_EPOCH)) (\<lambda>d.
     bind (case d of
         Some data \<Rightarrow>
           bind (lift (map_err ValueErr (decode_counter data))) (\<lambda>stored_epoch.
             if stored_epoch \<noteq> w_writer_epoch w then fail WriterEpochMismatch else ret ())
       | None \<Rightarrow> fail WriterEpochMismatch) (\<lambda>_.
     bind (tx_get S (key_system SYSTEM_WRITER_NONCE)) (\<lambda>d.
       case d of
         Some data \<Rightarrow>
           if data \<noteq> str_bytes (w_writer_nonce w) then fail WriterEpochMismatch else ret ()
       | None \<Rightarrow> fail WriterEpochMismatch)))"

section \<open>Commit\<close>

definition empty_changes_row :: "u64 \<Rightarrow> SnapshotChangesRow" where
  "empty_changes_row snapshot_id =
     \<lparr>sc_snapshot_id = snapshot_id, sc_change_type = [], sc_change_info = None,
      sc_schema_id = None, sc_table_id = None, sc_author = None, sc_commit_message = None,
      sc_commit_extra_info = None, sc_changes_made = None\<rparr>"

definition finalize_changes ::
  "u64 \<Rightarrow> string option \<Rightarrow> string option \<Rightarrow> SnapshotChangesRow option \<Rightarrow> SnapshotChangesRow option" where
  "finalize_changes snapshot_id author message pending =
     (let row0 = (case pending of None \<Rightarrow> empty_changes_row snapshot_id | Some r \<Rightarrow> r);
          row = row0\<lparr>sc_snapshot_id := snapshot_id,
            sc_author := (case sc_author row0 of None \<Rightarrow> author | x \<Rightarrow> x),
            sc_commit_message := (case sc_commit_message row0 of None \<Rightarrow> message | x \<Rightarrow> x)\<rparr>
      in if sc_author row \<noteq> None \<or> sc_commit_message row \<noteq> None \<or> sc_changes_made row \<noteq> None
           \<or> sc_change_type row \<noteq> [] then Some row else None)"

primrec tx_put_all :: "'db slatedb \<Rightarrow> kv list \<Rightarrow> ('db transaction, unit) cmd" where
  "tx_put_all S [] = ret ()"
| "tx_put_all S (kv # kvs) = bind (tx_put S (fst kv) (snd kv)) (\<lambda>_. tx_put_all S kvs)"

text \<open>The writer after the allocation and the draining of its buffers, which happen before the
  transaction is begun.\<close>

definition drained :: "CatalogWriter \<Rightarrow> CatalogWriter" where
  "drained w =
     (let (snapshot_id, counters) = alloc_snapshot_id (w_counters w);
          w1 = w\<lparr>w_counters := counters\<rparr>;
          w2 = (if w_schema_changed w1
                then w1\<lparr>w_current_schema_version := w_current_schema_version w1 + 1,
                        w_schema_changed := False\<rparr>
                else w1)
      in w2\<lparr>w_staged := [], w_pending_snapshot_changes := None\<rparr>)"

text \<open>The rows and counters the commit adds to the staged writes.\<close>

definition snapshot_writes ::
  "codecs \<Rightarrow> string \<Rightarrow> string option \<Rightarrow> string option \<Rightarrow> CatalogWriter \<Rightarrow> kv list" where
  "snapshot_writes C now author message w =
     (let snapshot_id = w_snapshot w;
          w' = drained w;
          row = \<lparr>sn_snapshot_id = snapshot_id, sn_schema_version = w_current_schema_version w',
                 sn_snapshot_time = now, sn_author = None, sn_message = None,
                 sn_next_catalog_id = Some (peek_catalog_id (w_counters w')),
                 sn_next_file_id = Some (peek_file_id (w_counters w'))\<rparr>
      in [(key_snapshot snapshot_id, encode_value (pb_SnapshotRow C) row)] @
         (case finalize_changes snapshot_id author message (w_pending_snapshot_changes w) of
            Some changes_row \<Rightarrow>
              [(key_snapshot_changes snapshot_id,
                encode_value (pb_SnapshotChangesRow C) changes_row)]
          | None \<Rightarrow> []) @
         [(key_counter COUNTER_NEXT_SNAPSHOT_ID, encode_snapshot_counter (w_counters w')),
          (key_counter COUNTER_NEXT_CATALOG_ID, encode_catalog_counter (w_counters w')),
          (key_counter COUNTER_NEXT_FILE_ID, encode_file_counter (w_counters w'))])"

definition create_snapshot ::
  "'db slatedb \<Rightarrow> codecs \<Rightarrow> string \<Rightarrow> ('db \<Rightarrow> 'db) \<Rightarrow> string option \<Rightarrow> string option
     \<Rightarrow> (CatalogWriter \<times> 'db, CommitResult) cmd" where
  "create_snapshot S C now env author message = (\<lambda>(w, db).
     (let w' = drained w;
          body = bind (check_epoch S w) (\<lambda>_.
            bind (tx_put_all S (w_staged w @ snapshot_writes C now author message w)) (\<lambda>_.
              ret (Commit
                \<lparr>cmr_snapshot_id = SnapshotId_new (w_snapshot w),
                 cmr_next_snapshot_id = peek_snapshot_id (w_counters w'),
                 cmr_next_catalog_id = peek_catalog_id (w_counters w'),
                 cmr_next_file_id = peek_file_id (w_counters w'),
                 cmr_schema_version = w_current_schema_version w'\<rparr>)));
          (r, db') = once_tx S body env db
      in (r, (w', db'))))"

section \<open>Facts\<close>

definition epoch_of :: "(bytes \<Rightarrow> bytes option) \<Rightarrow> u64 \<Rightarrow> string \<Rightarrow> bool" where
  "epoch_of m epoch nonce \<longleftrightarrow>
     (\<exists>d. m (key_system SYSTEM_WRITER_EPOCH) = Some d \<and> decode_counter d = Inr epoch) \<and>
     m (key_system SYSTEM_WRITER_NONCE) = Some (str_bytes nonce)"

definition put_all :: "kv list \<Rightarrow> (bytes \<Rightarrow> bytes option) \<Rightarrow> bytes \<Rightarrow> bytes option" where
  "put_all kvs m = fold (\<lambda>(k, v) m. m(k \<mapsto> v)) kvs m"

lemma put_all_simps [simp]:
  "put_all [] m = m" "put_all ((k, v) # kvs) m = put_all kvs (m(k \<mapsto> v))"
  "put_all (xs @ ys) m = put_all ys (put_all xs m)"
  by (simp_all add: put_all_def)

lemma put_all_other: "k \<notin> fst ` set kvs \<Longrightarrow> put_all kvs m k = m k"
  by (induction kvs arbitrary: m) auto

lemma put_all_map_of: "put_all kvs m k = (case map_of (rev kvs) k of None \<Rightarrow> m k | Some v \<Rightarrow> Some v)"
  by (induction kvs rule: rev_induct) auto

lemma check_epoch_Inr:
  assumes "slatedb_ok S" and "check_epoch S w t = (Inr u, t')" and "tx_log t = []"
  shows "epoch_of (sdb_view S (tx_snap t)) (w_writer_epoch w) (w_writer_nonce w) \<and>
     t' = t\<lparr>tx_log := [TxGet (key_system SYSTEM_WRITER_EPOCH),
                       TxGet (key_system SYSTEM_WRITER_NONCE)]\<rparr>"
  using assms(2,3)
  by (auto simp: check_epoch_def bind_Inr epoch_of_def split: option.splits if_splits
      dest!: tx_get_Inr [OF assms(1)])

lemma tx_put_all_Inr:
  "tx_put_all S kvs t = (Inr u, t') \<Longrightarrow>
     t' = t\<lparr>tx_log := tx_log t @ map (\<lambda>(k, v). TxPut k v) kvs\<rparr>"
proof (induction kvs arbitrary: t)
  case Nil
  then show ?case by simp
next
  case (Cons kv kvs)
  then have "tx_put_all S kvs (t\<lparr>tx_log := tx_log t @ [TxPut (fst kv) (snd kv)]\<rparr>) = (Inr u, t')"
    by (auto simp: bind_Inr)
  from Cons.IH [OF this] show ?case
    by (simp add: case_prod_beta)
qed

lemma apply_log_puts [simp]: "apply_log (map (\<lambda>(k, v). TxPut k v) kvs) m = put_all kvs m"
  by (induction kvs arbitrary: m) auto

lemma check_epoch_keeps_snap: "keeps_snap (check_epoch S w)"
  unfolding check_epoch_def by (auto intro!: keeps_snap_bind split: option.splits)

lemma tx_put_all_keeps_snap: "keeps_snap (tx_put_all S kvs)"
  by (induction kvs) (auto intro!: keeps_snap_bind)

lemma drained_simps [simp]:
  "w_staged (drained w) = []" "w_pending_snapshot_changes (drained w) = None"
  "w_writer_epoch (drained w) = w_writer_epoch w" "w_writer_nonce (drained w) = w_writer_nonce w"
  "cc_next_snapshot_id (w_counters (drained w)) = w_snapshot w + 1"
  "cc_next_catalog_id (w_counters (drained w)) = cc_next_catalog_id (w_counters w)"
  "cc_next_file_id (w_counters (drained w)) = cc_next_file_id (w_counters w)"
  by (simp_all add: drained_def Let_def counter_defs w_snapshot_def)

definition commit_result :: "CatalogWriter \<Rightarrow> CommitResult" where
  "commit_result w =
     \<lparr>cmr_snapshot_id = SnapshotId (w_snapshot w),
      cmr_next_snapshot_id = w_snapshot w + 1,
      cmr_next_catalog_id = cc_next_catalog_id (w_counters w),
      cmr_next_file_id = cc_next_file_id (w_counters w),
      cmr_schema_version = w_current_schema_version (drained w)\<rparr>"

text \<open>The body of the commit transaction, when it reaches the commit.\<close>

lemma commit_body_Inr:
  assumes "slatedb_ok S" and "tx_log t = []"
    and "bind (check_epoch S w) (\<lambda>_. bind (tx_put_all S kvs) (\<lambda>_. ret (Commit x))) t = (Inr e, t')"
  shows "e = Commit x \<and> epoch_of (sdb_view S (tx_snap t)) (w_writer_epoch w) (w_writer_nonce w) \<and>
     t' = t\<lparr>tx_log := [TxGet (key_system SYSTEM_WRITER_EPOCH),
              TxGet (key_system SYSTEM_WRITER_NONCE)] @ map (\<lambda>(k, v). TxPut k v) kvs\<rparr>"
proof -
  obtain t1 t2 where c: "check_epoch S w t = (Inr (), t1)" and p: "tx_put_all S kvs t1 = (Inr (), t2)"
    and "e = Commit x" "t' = t2"
    using assms(3) by (auto simp: bind_Inr)
  then show ?thesis
    using check_epoch_Inr [OF assms(1) c assms(2)] tx_put_all_Inr [OF p] by simp
qed

lemma epoch_of_cong:
  "m (key_system SYSTEM_WRITER_EPOCH) = m' (key_system SYSTEM_WRITER_EPOCH) \<Longrightarrow>
   m (key_system SYSTEM_WRITER_NONCE) = m' (key_system SYSTEM_WRITER_NONCE) \<Longrightarrow>
   epoch_of m e n = epoch_of m' e n"
  by (simp add: epoch_of_def)

lemma create_snapshot_Inr:
  assumes "slatedb_ok S"
    and "create_snapshot S C now env author message (w, db) = (Inr r, (w', db'))"
  shows "w' = drained w \<and> r = commit_result w \<and>
     epoch_of (sdb_view S (env db)) (w_writer_epoch w) (w_writer_nonce w) \<and>
     sdb_view S db' =
       put_all (w_staged w @ snapshot_writes C now author message w) (sdb_view S (env db))"
proof -
  let ?kvs = "w_staged w @ snapshot_writes C now author message w"
  let ?body = "bind (check_epoch S w) (\<lambda>_. bind (tx_put_all S ?kvs) (\<lambda>_.
      ret (Commit (commit_result w))))"
  have w': "w' = drained w" and o: "once_tx S ?body env db = (Inr r, db')"
    using assms(2)
    by (auto simp: create_snapshot_def Let_def commit_result_def SnapshotId_new_def counter_defs
        split: prod.splits)
  then have "run_tx S ?body env db = (TxDone (Inr r), db')"
    by (auto simp: once_tx_def split: prod.splits tx_result.splits)
  then show ?thesis
  proof (cases rule: run_tx_Inr [OF assms(1), consumes 1, case_names Rollback Commit])
    case (Rollback t t')
    then show ?thesis using commit_body_Inr [OF assms(1) Rollback(2,3)] by simp
  next
    case (Commit t t')
    note b = commit_body_Inr [OF assms(1) Commit(2,3)]
    have "epoch_of (sdb_view S (env db)) (w_writer_epoch w) (w_writer_nonce w)"
      using b Commit(5) epoch_of_cong [of "sdb_view S (tx_snap t)" "sdb_view S (env db)"]
      by (auto simp: reads_agree_def)
    then show ?thesis
      using b Commit(4) w' by simp
  qed
qed

text \<open>The counters stored by a commit are those of the writer after it.\<close>

lemma stored_counters_commit:
  "stored_counters (put_all (kvs @ snapshot_writes C now author message w) m) (w_counters (drained w))"
proof -
  have "\<exists>pre. kvs @ snapshot_writes C now author message w = pre @
     [(key_counter COUNTER_NEXT_SNAPSHOT_ID, encode_snapshot_counter (w_counters (drained w))),
      (key_counter COUNTER_NEXT_CATALOG_ID, encode_catalog_counter (w_counters (drained w))),
      (key_counter COUNTER_NEXT_FILE_ID, encode_file_counter (w_counters (drained w)))]"
    by (simp add: snapshot_writes_def Let_def)
  then obtain pre where "put_all (kvs @ snapshot_writes C now author message w) m = put_all (pre @
     [(key_counter COUNTER_NEXT_SNAPSHOT_ID, encode_snapshot_counter (w_counters (drained w))),
      (key_counter COUNTER_NEXT_CATALOG_ID, encode_catalog_counter (w_counters (drained w))),
      (key_counter COUNTER_NEXT_FILE_ID, encode_file_counter (w_counters (drained w)))]) m"
    by metis
  then show ?thesis
    by (simp add: stored_counters_def counter_defs key_counter_def tag_defs)
qed

section \<open>Properties\<close>

text \<open>C2. Atomicity and fencing of the commit. When \<open>create_snapshot\<close> succeeds, the database content
  is the content at commit time with exactly the staged writes, the snapshot row, the changes row if
  there is one and the three counters added; at that time the stored epoch and nonce were still those
  of this writer, whatever the other processes did meanwhile; the stored counters are the writer's;
  and the writer's buffers are empty.\<close>

theorem create_snapshot_commits:
  assumes "slatedb_ok S"
    and "create_snapshot S C now env author message (w, db) = (Inr r, (w', db'))"
  shows "sdb_view S db' =
       put_all (w_staged w @ snapshot_writes C now author message w) (sdb_view S (env db)) \<and>
     epoch_of (sdb_view S (env db)) (w_writer_epoch w) (w_writer_nonce w) \<and>
     as_u64 (cmr_snapshot_id r) = cc_next_snapshot_id (w_counters w) \<and>
     stored_counters (sdb_view S db') (CounterCache_new (cmr_next_snapshot_id r)
       (cmr_next_catalog_id r) (cmr_next_file_id r)) \<and>
     w_staged w' = [] \<and> w_pending_snapshot_changes w' = None"
proof -
  note c = create_snapshot_Inr [OF assms]
  have "w_counters (drained w) = CounterCache_new (cmr_next_snapshot_id r)
       (cmr_next_catalog_id r) (cmr_next_file_id r)"
    using c by (simp add: commit_result_def CounterCache_new_def drained_def Let_def counter_defs
        w_snapshot_def)
  then show ?thesis
    using c stored_counters_commit [of "w_staged w" C now author message w "sdb_view S (env db)"]
    by (simp add: commit_result_def w_snapshot_def peek_snapshot_id_def)
qed

text \<open>A writer that has been fenced commits nothing: if another process has opened the catalog, so
  that the stored epoch is a different one, \<open>create_snapshot\<close> fails, also when that happens after the
  epoch check of the transaction.\<close>

theorem fenced_writer_cannot_commit:
  assumes "slatedb_ok S"
    and "sdb_view S (env db) (key_system SYSTEM_WRITER_EPOCH) = Some (encode_counter e)"
    and "e \<noteq> w_writer_epoch w"
  shows "\<exists>err. fst (create_snapshot S C now env author message (w, db)) = Inl err"
proof (cases "fst (create_snapshot S C now env author message (w, db))")
  case (Inr r)
  then obtain w' db' where
    "create_snapshot S C now env author message (w, db) = (Inr r, (w', db'))"
    by (metis prod.collapse)
  from create_snapshot_Inr [OF assms(1) this] show ?thesis
    using assms(2,3) by (auto simp: epoch_of_def)
qed auto

lemma create_snapshot_Inl:
  assumes "slatedb_ok S"
    and "create_snapshot S C now env author message (w, db) = (Inl e, (w', db'))"
  shows "sdb_view S db' = sdb_view S db \<or> sdb_view S db' = sdb_view S (env db) \<or>
     (epoch_of (sdb_view S (env db)) (w_writer_epoch w) (w_writer_nonce w) \<and>
      sdb_view S db' =
        put_all (w_staged w @ snapshot_writes C now author message w) (sdb_view S (env db)))"
proof -
  let ?kvs = "w_staged w @ snapshot_writes C now author message w"
  let ?body = "bind (check_epoch S w) (\<lambda>_. bind (tx_put_all S ?kvs) (\<lambda>_.
      ret (Commit (commit_result w))))"
  have "once_tx S ?body env db = (Inl e, db')"
    using assms(2)
    by (auto simp: create_snapshot_def Let_def commit_result_def SnapshotId_new_def counter_defs
        split: prod.splits)
  then obtain r where "run_tx S ?body env db = (r, db')"
    by (auto simp: once_tx_def split: prod.splits tx_result.splits)
  from run_tx_atomic [OF assms(1) this] show ?thesis
  proof (elim disjE exE conjE)
    fix t a t'
    assume t: "sdb_view S (tx_snap t) = sdb_view S db" "tx_log t = []"
      and b: "?body t = (Inr (Commit a), t')"
      and v: "sdb_view S db' = apply_log (tx_log t') (sdb_view S (env db))"
      and r: "reads_agree (tx_log t') (sdb_view S (tx_snap t')) (sdb_view S (env db))"
    note c = commit_body_Inr [OF assms(1) t(2) b]
    have "epoch_of (sdb_view S (env db)) (w_writer_epoch w) (w_writer_nonce w)"
      using c r epoch_of_cong [of "sdb_view S (tx_snap t)" "sdb_view S (env db)"]
      by (auto simp: reads_agree_def)
    then show ?thesis using c v by simp
  qed auto
qed

text \<open>C3. All or nothing. A \<open>create_snapshot\<close> that reports an error has written none of the snapshot, or
  (when the acknowledgement of the commit was lost) all of it, and the latter only if the writer held
  the epoch: no reader ever sees a part of a snapshot.\<close>

theorem failed_commit_is_atomic:
  assumes "slatedb_ok S"
    and "create_snapshot S C now env author message (w, db) = (Inl e, (w', db'))"
  shows "sdb_view S db' = sdb_view S db \<or> sdb_view S db' = sdb_view S (env db) \<or>
     (epoch_of (sdb_view S (env db)) (w_writer_epoch w) (w_writer_nonce w) \<and>
      sdb_view S db' =
        put_all (w_staged w @ snapshot_writes C now author message w) (sdb_view S (env db)))"
  by (rule create_snapshot_Inl [OF assms])

text \<open>The staged writes are gone after any outcome: a second call on the same writer after an error
  commits a snapshot without them.\<close>

lemma create_snapshot_drains_writer:
  "fst (snd (create_snapshot S C now env author message (w, db))) = drained w"
  by (simp add: create_snapshot_def Let_def split: prod.splits)

end
