(* ===== verification/Catalog_Reader.thy ===== *)
theory Catalog_Reader
  imports Slatedb Codecs Mvcc "HOL-Library.Multiset"
begin

text \<open>
  \<open>crates/rocklake-catalog/src/reader.rs\<close>: reads of the catalog at a DuckLake snapshot. A
  \<open>CatalogReader\<close> is a database handle and a snapshot id, the arguments \<open>db\<close> and \<open>s\<close> here. The
  statistics-based pruning of files is in \<open>File_Pruning\<close>.
\<close>

section \<open>The scan all list operations share\<close>

text \<open>\<open>self.db.scan_prefix(&prefix).await?\<close> and the loop that decodes every entry and keeps the rows
  satisfying a condition.\<close>

definition read_rows ::
  "'db slatedb \<Rightarrow> 'm prost \<Rightarrow> 'db \<Rightarrow> bytes \<Rightarrow> ('m \<Rightarrow> bool) \<Rightarrow> CatalogError + 'm list" where
  "read_rows S P db p keep =
     rbind (scan_rows S classify_slatedb_error (row_decoder P) db p keep) (\<lambda>rows.
       Inr (map snd rows))"

definition read_row :: "'db slatedb \<Rightarrow> 'm prost \<Rightarrow> 'db \<Rightarrow> bytes \<Rightarrow> CatalogError + 'm option" where
  "read_row S P db k =
     rbind (db_get S db k) (\<lambda>d.
       case d of None \<Rightarrow> Inr None
       | Some data \<Rightarrow> rbind (map_err ValueErr (decode_value P data)) (\<lambda>r. Inr (Some r)))"

section \<open>Point reads and lists\<close>

definition get_snapshot ::
  "'db slatedb \<Rightarrow> codecs \<Rightarrow> 'db \<Rightarrow> SnapshotId \<Rightarrow> CatalogError + SnapshotRow option" where
  "get_snapshot S C db s = read_row S (pb_SnapshotRow C) db (key_snapshot (as_u64 s))"

definition list_all_snapshot_changes ::
  "'db slatedb \<Rightarrow> codecs \<Rightarrow> 'db \<Rightarrow> SnapshotId  \<Rightarrow> CatalogError + SnapshotChangesRow list" where
  "list_all_snapshot_changes S C db s =
     read_rows S (pb_SnapshotChangesRow C) db (prefix_for_tag TAG_SNAPSHOT_CHANGES) (\<lambda>_. True)"

definition list_schemas ::
  "'db slatedb \<Rightarrow> codecs \<Rightarrow> 'db \<Rightarrow> SnapshotId  \<Rightarrow> CatalogError + SchemaRow list" where
  "list_schemas S C db s =
     read_rows S (pb_SchemaRow C) db (prefix_for_tag TAG_SCHEMA) (\<lambda>r. is_visible (sr_begin_snapshot r) (sr_end_snapshot r) s)"

definition list_tables ::
  "'db slatedb \<Rightarrow> codecs \<Rightarrow> 'db \<Rightarrow> SnapshotId \<Rightarrow> u64 \<Rightarrow> CatalogError + TableRow list" where
  "list_tables S C db s schema_id =
     read_rows S (pb_TableRow C) db (prefix_tables_for_schema schema_id) (\<lambda>r. is_visible (tr_begin_snapshot r) (tr_end_snapshot r) s)"

definition list_delete_files ::
  "'db slatedb \<Rightarrow> codecs \<Rightarrow> 'db \<Rightarrow> SnapshotId \<Rightarrow> u64 \<Rightarrow> CatalogError + DeleteFileRow list" where
  "list_delete_files S C db s table_id =
     (let snap = as_u64 s in
      read_rows S (pb_DeleteFileRow C) db (prefix_for_tag TAG_DELETE_FILE) (\<lambda>row.
        if (case del_table_id row of Some tid \<Rightarrow> tid \<noteq> table_id | None \<Rightarrow> False) then False
        else if (case del_begin_snapshot row of None \<Rightarrow> del_snapshot_id row | Some b \<Rightarrow> b) > snap
          then False
        else (case del_end_snapshot row of Some e \<Rightarrow> \<not> e \<le> snap | None \<Rightarrow> True)))"

definition get_table_stats ::
  "'db slatedb \<Rightarrow> codecs \<Rightarrow> 'db \<Rightarrow> u64 \<Rightarrow> CatalogError + TableStatsRow option" where
  "get_table_stats S C db table_id = read_row S (pb_TableStatsRow C) db (key_table_stats table_id)"

definition get_metadata ::
  "'db slatedb \<Rightarrow> codecs \<Rightarrow> 'db \<Rightarrow> MetadataScope \<Rightarrow> u64 \<Rightarrow> string \<Rightarrow> CatalogError + MetadataRow option" where
  "get_metadata S C db scope scope_id key =
     read_row S (pb_MetadataRow C) db (key_metadata scope scope_id key)"

definition list_all_table_stats ::
  "'db slatedb \<Rightarrow> codecs \<Rightarrow> 'db \<Rightarrow> SnapshotId  \<Rightarrow> CatalogError + TableStatsRow list" where
  "list_all_table_stats S C db s =
     read_rows S (pb_TableStatsRow C) db (prefix_for_tag TAG_TABLE_STATS) (\<lambda>_. True)"

definition list_file_column_stats ::
  "'db slatedb \<Rightarrow> codecs \<Rightarrow> 'db \<Rightarrow> SnapshotId \<Rightarrow> u64 \<Rightarrow> u64 \<Rightarrow> CatalogError + FileColumnStatsRow list" where
  "list_file_column_stats S C db s table_id column_id =
     read_rows S (pb_FileColumnStatsRow C) db ([TAG_FILE_COLUMN_STATS] @ encode_u64 table_id @ encode_u64 column_id) (\<lambda>_. True)"

definition list_inlined_inserts ::
  "'db slatedb \<Rightarrow> codecs \<Rightarrow> 'db \<Rightarrow> SnapshotId \<Rightarrow> u64 \<Rightarrow> CatalogError + InlinedInsertRow list" where
  "list_inlined_inserts S C db s table_id =
     read_rows S (pb_InlinedInsertRow C) db (prefix_inlined_inserts_for_table table_id) (\<lambda>r. is_inlined_insert_visible (ii_begin_snapshot r) (ii_end_snapshot r) s)"

definition list_inlined_deletes ::
  "'db slatedb \<Rightarrow> codecs \<Rightarrow> 'db \<Rightarrow> SnapshotId \<Rightarrow> u64 \<Rightarrow> CatalogError + InlinedDeleteRow list" where
  "list_inlined_deletes S C db s table_id =
     read_rows S (pb_InlinedDeleteRow C) db (prefix_inlined_deletes_for_table table_id) (\<lambda>r. is_inlined_delete_visible (idl_begin_snapshot r) s)"

text \<open>\<open>rows.sort_by_key(|row| (row.table_id, row.schema_version))\<close>: a stable sort on the pair is the
  sort on its second component followed by the stable sort on its first.\<close>

definition list_inlined_data_tables ::
  "'db slatedb \<Rightarrow> codecs \<Rightarrow> 'db \<Rightarrow> u64 option \<Rightarrow> CatalogError + InlinedDataTablesRow list" where
  "list_inlined_data_tables S C db table_id =
     rbind (read_rows S (pb_InlinedDataTablesRow C) db (prefix_for_tag TAG_INLINED_DATA_TABLES)
         (\<lambda>r. case table_id of None \<Rightarrow> True | Some i \<Rightarrow> i = idt_table_id r)) (\<lambda>rows.
       Inr (sort_key idt_table_id (sort_key idt_schema_version rows)))"

definition list_views ::
  "'db slatedb \<Rightarrow> codecs \<Rightarrow> 'db \<Rightarrow> SnapshotId \<Rightarrow> u64 \<Rightarrow> CatalogError + ViewRow list" where
  "list_views S C db s schema_id =
     read_rows S (pb_ViewRow C) db (prefix_views_for_schema schema_id) (\<lambda>r. is_visible (vr_begin_snapshot r) (vr_end_snapshot r) s)"

definition list_all_views ::
  "'db slatedb \<Rightarrow> codecs \<Rightarrow> 'db \<Rightarrow> SnapshotId  \<Rightarrow> CatalogError + ViewRow list" where
  "list_all_views S C db s =
     read_rows S (pb_ViewRow C) db (prefix_for_tag TAG_VIEW) (\<lambda>r. is_visible (vr_begin_snapshot r) (vr_end_snapshot r) s)"

definition list_macros ::
  "'db slatedb \<Rightarrow> codecs \<Rightarrow> 'db \<Rightarrow> SnapshotId \<Rightarrow> u64 \<Rightarrow> CatalogError + MacroRow list" where
  "list_macros S C db s schema_id =
     read_rows S (pb_MacroRow C) db (prefix_macros_for_schema schema_id) (\<lambda>r. is_visible (mr_begin_snapshot r) (mr_end_snapshot r) s)"

definition list_all_macros ::
  "'db slatedb \<Rightarrow> codecs \<Rightarrow> 'db \<Rightarrow> SnapshotId  \<Rightarrow> CatalogError + MacroRow list" where
  "list_all_macros S C db s =
     read_rows S (pb_MacroRow C) db (prefix_for_tag TAG_MACRO) (\<lambda>r. is_visible (mr_begin_snapshot r) (mr_end_snapshot r) s)"

definition list_all_metadata ::
  "'db slatedb \<Rightarrow> codecs \<Rightarrow> 'db \<Rightarrow> SnapshotId  \<Rightarrow> CatalogError + MetadataRow list" where
  "list_all_metadata S C db s =
     read_rows S (pb_MetadataRow C) db (prefix_all_metadata) (\<lambda>_. True)"

definition list_macro_impls ::
  "'db slatedb \<Rightarrow> codecs \<Rightarrow> 'db \<Rightarrow> SnapshotId \<Rightarrow> u64 \<Rightarrow> CatalogError + MacroImplRow list" where
  "list_macro_impls S C db s macro_id =
     read_rows S (pb_MacroImplRow C) db (prefix_macro_impls macro_id) (\<lambda>_. True)"

definition list_macro_parameters ::
  "'db slatedb \<Rightarrow> codecs \<Rightarrow> 'db \<Rightarrow> SnapshotId \<Rightarrow> u64 \<Rightarrow> u64 \<Rightarrow> CatalogError + MacroParametersRow list" where
  "list_macro_parameters S C db s macro_id impl_id =
     read_rows S (pb_MacroParametersRow C) db (prefix_macro_params macro_id impl_id) (\<lambda>_. True)"

definition list_tags ::
  "'db slatedb \<Rightarrow> codecs \<Rightarrow> 'db \<Rightarrow> SnapshotId \<Rightarrow> u64 \<Rightarrow> CatalogError + TagRow list" where
  "list_tags S C db s object_id =
     read_rows S (pb_TagRow C) db (prefix_tags_for_object object_id) (\<lambda>r. is_visible (tg_begin_snapshot r) (tg_end_snapshot r) s)"

definition list_column_tags ::
  "'db slatedb \<Rightarrow> codecs \<Rightarrow> 'db \<Rightarrow> SnapshotId \<Rightarrow> u64 \<Rightarrow> u64 \<Rightarrow> CatalogError + ColumnTagRow list" where
  "list_column_tags S C db s table_id column_id =
     read_rows S (pb_ColumnTagRow C) db (prefix_column_tags table_id column_id) (\<lambda>r. is_visible (ctg_begin_snapshot r) (ctg_end_snapshot r) s)"

definition list_file_variant_stats ::
  "'db slatedb \<Rightarrow> codecs \<Rightarrow> 'db \<Rightarrow> SnapshotId \<Rightarrow> u64 \<Rightarrow> u64 \<Rightarrow> CatalogError + FileVariantStatsRow list" where
  "list_file_variant_stats S C db s table_id column_id =
     read_rows S (pb_FileVariantStatsRow C) db ([TAG_FILE_VARIANT_STATS] @ encode_u64 table_id @ encode_u64 column_id) (\<lambda>_. True)"

definition list_files_scheduled_for_deletion ::
  "'db slatedb \<Rightarrow> codecs \<Rightarrow> 'db \<Rightarrow> SnapshotId  \<Rightarrow> CatalogError + FilesScheduledForDeletionRow list" where
  "list_files_scheduled_for_deletion S C db s =
     read_rows S (pb_FilesScheduledForDeletionRow C) db (prefix_for_tag TAG_FILES_SCHEDULED_FOR_DELETION) (\<lambda>_. True)"

definition list_all_tags ::
  "'db slatedb \<Rightarrow> codecs \<Rightarrow> 'db \<Rightarrow> SnapshotId  \<Rightarrow> CatalogError + TagRow list" where
  "list_all_tags S C db s =
     read_rows S (pb_TagRow C) db (prefix_for_tag TAG_TAG) (\<lambda>r. is_visible (tg_begin_snapshot r) (tg_end_snapshot r) s)"

definition list_all_column_tags ::
  "'db slatedb \<Rightarrow> codecs \<Rightarrow> 'db \<Rightarrow> SnapshotId  \<Rightarrow> CatalogError + ColumnTagRow list" where
  "list_all_column_tags S C db s =
     read_rows S (pb_ColumnTagRow C) db (prefix_for_tag TAG_COLUMN_TAG) (\<lambda>r. is_visible (ctg_begin_snapshot r) (ctg_end_snapshot r) s)"

definition list_all_sort_info ::
  "'db slatedb \<Rightarrow> codecs \<Rightarrow> 'db \<Rightarrow> SnapshotId  \<Rightarrow> CatalogError + SortInfoRow list" where
  "list_all_sort_info S C db s =
     read_rows S (pb_SortInfoRow C) db (prefix_for_tag TAG_SORT_INFO) (\<lambda>r. is_visible (si_begin_snapshot r) (si_end_snapshot r) s)"

definition list_all_schema_versions ::
  "'db slatedb \<Rightarrow> codecs \<Rightarrow> 'db \<Rightarrow> SnapshotId  \<Rightarrow> CatalogError + SchemaVersionsRow list" where
  "list_all_schema_versions S C db s =
     read_rows S (pb_SchemaVersionsRow C) db (prefix_for_tag TAG_SCHEMA_VERSIONS) (\<lambda>_. True)"

definition list_all_table_column_stats ::
  "'db slatedb \<Rightarrow> codecs \<Rightarrow> 'db \<Rightarrow> SnapshotId  \<Rightarrow> CatalogError + TableColumnStatsRow list" where
  "list_all_table_column_stats S C db s =
     read_rows S (pb_TableColumnStatsRow C) db (prefix_for_tag TAG_TABLE_COLUMN_STATS) (\<lambda>_. True)"

section \<open>Data files\<close>

text \<open>The scan of \<open>list_data_files\<close> stops before the first key at or above the upper bound; an
  iterator error after that point is never seen.\<close>

definition cut_at :: "bytes option \<Rightarrow> kv list \<times> string option \<Rightarrow> kv list \<times> string option" where
  "cut_at upper scan =
     (case upper of
        None \<Rightarrow> scan
      | Some u \<Rightarrow>
          if list_all (\<lambda>kv. fst kv < u) (fst scan) then scan
          else (takeWhile (\<lambda>kv. fst kv < u) (fst scan), None))"

definition list_data_files ::
  "'db slatedb \<Rightarrow> codecs \<Rightarrow> 'db \<Rightarrow> SnapshotId \<Rightarrow> u64 \<Rightarrow> CatalogError + DataFileRow list" where
  "list_data_files S C db s table_id =
     rbind (map_err classify_slatedb_error
         (sdb_scan_prefix S db (prefix_data_files_by_snapshot_for_table table_id))) (\<lambda>scan.
     let (kvs, err) = cut_at (prefix_data_files_by_snapshot_upper table_id (as_u64 s)) scan in
     rbind (collect_rows (row_decoder (pb_DataFileRow C))
         (\<lambda>row. case df_end_snapshot row of Some e \<Rightarrow> \<not> e \<le> as_u64 s | None \<Rightarrow> True) kvs err) (\<lambda>rows.
       Inr (sort_key (\<lambda>f. case df_file_order f of None \<Rightarrow> df_data_file_id f | Some x \<Rightarrow> x)
              (map snd rows))))"

section \<open>Tables and their columns\<close>

fun best_by :: "('a \<Rightarrow> u64) \<Rightarrow> 'a list \<Rightarrow> 'a option \<Rightarrow> 'a option" where
  "best_by begin_of [] best = best"
| "best_by begin_of (row # rows) best =
     best_by begin_of rows
       (case best of
          None \<Rightarrow> Some row
        | Some existing \<Rightarrow> if begin_of row > begin_of existing then Some row else best)"

text \<open>\<open>Vec::dedup_by_key\<close>: of consecutive elements with the same key the first stays.\<close>

fun dedup_by_key :: "('a \<Rightarrow> 'k) \<Rightarrow> 'a list \<Rightarrow> 'a list" where
  "dedup_by_key key (x # y # ys) =
     (if key x = key y then dedup_by_key key (x # ys) else x # dedup_by_key key (y # ys))"
| "dedup_by_key key xs = xs"

text \<open>The children map of \<open>sort_columns_tree\<close> as an association list; \<open>or_default().push\<close> appends.\<close>

fun add_child :: "u64 \<Rightarrow> ColumnRow \<Rightarrow> (u64 \<times> ColumnRow list) list \<Rightarrow> (u64 \<times> ColumnRow list) list" where
  "add_child p c [] = [(p, [c])]"
| "add_child p c ((q, cs) # rest) =
     (if p = q then (q, cs @ [c]) # rest else (q, cs) # add_child p c rest)"

fun split_roots ::
  "ColumnRow list \<Rightarrow> ColumnRow list \<times> (u64 \<times> ColumnRow list) list
     \<Rightarrow> ColumnRow list \<times> (u64 \<times> ColumnRow list) list" where
  "split_roots [] acc = acc"
| "split_roots (c # cs) (roots, children) =
     split_roots cs
       (case cr_parent_column c of
          Some p \<Rightarrow> (roots, add_child p c children)
        | None \<Rightarrow> (roots @ [c], children))"

text \<open>\<open>expand\<close> on all roots: the recursive calls visit a column, then its children, which are taken out
  of the map first, then the remaining siblings; the pending siblings are the work list here.\<close>

function (sequential) expand_all ::
  "ColumnRow list \<Rightarrow> (u64 \<times> ColumnRow list) list \<Rightarrow> ColumnRow list \<times> (u64 \<times> ColumnRow list) list" where
  "expand_all [] children = ([], children)"
| "expand_all (c # cs) children =
     (let (out, rest) =
        (case map_of children (cr_column_id c) of
           None \<Rightarrow> expand_all cs children
         | Some kids \<Rightarrow>
             expand_all (sort_key cr_column_index kids @ cs)
               (filter (\<lambda>e. fst e \<noteq> cr_column_id c) children))
      in (c # out, rest))"
  by pat_completeness auto

termination
proof (relation "measures [\<lambda>(cs, children). length children, \<lambda>(cs, children). length cs]")
  fix c :: ColumnRow and cs and children :: "(u64 \<times> ColumnRow list) list" and kids
  assume "map_of children (cr_column_id c) = Some kids"
  then have "(cr_column_id c, kids) \<in> set children"
    by (rule map_of_SomeD)
  then have "length (filter (\<lambda>e. fst e \<noteq> cr_column_id c) children) < length children"
    by (metis (mono_tags, lifting) fst_conv length_filter_less)
  then show "((sort_key cr_column_index kids @ cs,
      filter (\<lambda>e. fst e \<noteq> cr_column_id c) children), c # cs, children)
      \<in> measures [\<lambda>(cs, children). length children, \<lambda>(cs, children). length cs]"
    by simp
qed auto

text \<open>Children whose parent does not exist come last, in the iteration order of the hash map, the
  argument \<open>order\<close>.\<close>

definition sort_columns_tree ::
  "((u64 \<times> ColumnRow list) list \<Rightarrow> (u64 \<times> ColumnRow list) list) \<Rightarrow> ColumnRow list \<Rightarrow> ColumnRow list" where
  "sort_columns_tree order columns =
     (let (roots, children) = split_roots (sort_key cr_column_index columns) ([], []);
          (out, orphans) = expand_all roots children
      in out @ concat (map snd (order orphans)))"

definition describe_table ::
  "'db slatedb \<Rightarrow> codecs \<Rightarrow> ((u64 \<times> ColumnRow list) list \<Rightarrow> (u64 \<times> ColumnRow list) list) \<Rightarrow> 'db
     \<Rightarrow> SnapshotId \<Rightarrow> u64 \<Rightarrow> CatalogError + (TableRow \<times> ColumnRow list) option" where
  "describe_table S C order db s table_id =
     rbind (db_get S db (key_table_by_id table_id)) (\<lambda>d.
     rbind (case d of
         Some data \<Rightarrow> rbind (map_err ValueErr (decode_counter data)) (\<lambda>i. Inr (Some i))
       | None \<Rightarrow> Inr None) (\<lambda>schema_id_opt.
     rbind (case schema_id_opt of
         Some schema_id \<Rightarrow>
           read_rows S (pb_TableRow C) db (prefix_tables_for_schema_table schema_id table_id)
             (\<lambda>r. is_visible (tr_begin_snapshot r) (tr_end_snapshot r) s)
       | None \<Rightarrow>
           read_rows S (pb_TableRow C) db (prefix_for_tag TAG_TABLE)
             (\<lambda>r. tr_table_id r = table_id \<and>
                is_visible (tr_begin_snapshot r) (tr_end_snapshot r) s)) (\<lambda>rows.
     case best_by tr_begin_snapshot rows None of
       None \<Rightarrow> Inr None
     | Some table \<Rightarrow>
         rbind (read_rows S (pb_ColumnRow C) db (prefix_columns_for_table table_id)
             (\<lambda>r. is_visible (cr_begin_snapshot r) (cr_end_snapshot r) s)) (\<lambda>columns.
           Inr (Some (table, sort_columns_tree order
             (dedup_by_key cr_column_id
               (sort_key cr_column_id (sort_key (\<lambda>c. u64_max - cr_begin_snapshot c) columns)))))))))"

definition get_column_type ::
  "'db slatedb \<Rightarrow> codecs \<Rightarrow> 'db \<Rightarrow> SnapshotId \<Rightarrow> u64 \<Rightarrow> u64 \<Rightarrow> CatalogError + string option" where
  "get_column_type S C db s table_id column_id =
     rbind (read_rows S (pb_ColumnRow C) db (prefix_columns_for_table table_id)
         (\<lambda>r. cr_column_id r = column_id \<and>
            is_visible (cr_begin_snapshot r) (cr_end_snapshot r) s)) (\<lambda>rows.
       Inr (map_option cr_data_type (best_by cr_begin_snapshot rows None)))"

section \<open>Snapshot diff\<close>

record SnapshotDiff =
  sd_from_snapshot :: SnapshotId
  sd_to_snapshot :: SnapshotId
  sd_added_schemas :: "SchemaRow list"
  sd_retired_schemas :: "SchemaRow list"
  sd_added_tables :: "TableRow list"
  sd_retired_tables :: "TableRow list"
  sd_added_columns :: "ColumnRow list"
  sd_retired_columns :: "ColumnRow list"
  sd_added_data_files :: "DataFileRow list"
  sd_retired_data_files :: "DataFileRow list"

definition SnapshotDiff_is_empty :: "SnapshotDiff \<Rightarrow> bool" where
  "SnapshotDiff_is_empty d \<longleftrightarrow>
     sd_added_schemas d = [] \<and> sd_retired_schemas d = [] \<and> sd_added_tables d = [] \<and>
     sd_retired_tables d = [] \<and> sd_added_columns d = [] \<and> sd_retired_columns d = [] \<and>
     sd_added_data_files d = [] \<and> sd_retired_data_files d = []"

definition change_count :: "SnapshotDiff \<Rightarrow> nat" where
  "change_count d =
     length (sd_added_schemas d) + length (sd_retired_schemas d) + length (sd_added_tables d) +
     length (sd_retired_tables d) + length (sd_added_columns d) + length (sd_retired_columns d) +
     length (sd_added_data_files d) + length (sd_retired_data_files d)"

text \<open>The test \<open>x > from && x <= to\<close> of the four loops, on a begin and on an optional end.\<close>

definition in_window :: "u64 \<Rightarrow> u64 \<Rightarrow> u64 \<Rightarrow> bool" where
  "in_window from to x \<longleftrightarrow> x > from \<and> x \<le> to"

definition end_in_window :: "u64 \<Rightarrow> u64 \<Rightarrow> u64 option \<Rightarrow> bool" where
  "end_in_window from to e = (case e of None \<Rightarrow> False | Some x \<Rightarrow> in_window from to x)"

definition snapshot_diff ::
  "'db slatedb \<Rightarrow> codecs \<Rightarrow> 'db \<Rightarrow> SnapshotId \<Rightarrow> SnapshotId \<Rightarrow> CatalogError + SnapshotDiff" where
  "snapshot_diff S C db from_snapshot to_snapshot =
     (let from = as_u64 from_snapshot; to = as_u64 to_snapshot in
      rbind (read_rows S (pb_SchemaRow C) db (prefix_for_tag TAG_SCHEMA) (\<lambda>_. True)) (\<lambda>schemas.
      rbind (read_rows S (pb_TableRow C) db (prefix_for_tag TAG_TABLE) (\<lambda>_. True)) (\<lambda>tables.
      rbind (read_rows S (pb_ColumnRow C) db (prefix_for_tag TAG_COLUMN) (\<lambda>_. True)) (\<lambda>columns.
      rbind (read_rows S (pb_DataFileRow C) db (prefix_for_tag TAG_DATA_FILE) (\<lambda>_. True)) (\<lambda>files.
        Inr \<lparr>sd_from_snapshot = from_snapshot, sd_to_snapshot = to_snapshot,
          sd_added_schemas = filter (\<lambda>r. in_window from to (sr_begin_snapshot r)) schemas,
          sd_retired_schemas = filter (\<lambda>r. end_in_window from to (sr_end_snapshot r)) schemas,
          sd_added_tables = filter (\<lambda>r. in_window from to (tr_begin_snapshot r)) tables,
          sd_retired_tables = filter (\<lambda>r. end_in_window from to (tr_end_snapshot r)) tables,
          sd_added_columns = filter (\<lambda>r. in_window from to (cr_begin_snapshot r)) columns,
          sd_retired_columns = filter (\<lambda>r. end_in_window from to (cr_end_snapshot r)) columns,
          sd_added_data_files = filter (\<lambda>r. in_window from to
            (case df_begin_snapshot r of None \<Rightarrow> 0 | Some b \<Rightarrow> b)) files,
          sd_retired_data_files = filter (\<lambda>r. end_in_window from to (df_end_snapshot r)) files\<rparr>)))))"

section \<open>Facts about the column tree\<close>

lemma mset_add_child:
  "mset (concat (map snd (add_child p c children))) = mset (concat (map snd children)) + {#c#}"
  by (induction p c children rule: add_child.induct) auto

lemma distinct_add_child:
  "distinct (map fst children) \<Longrightarrow> distinct (map fst (add_child p c children)) \<and>
     fst ` set (add_child p c children) = insert p (fst ` set children)"
  by (induction p c children rule: add_child.induct) auto

lemma split_roots_mset:
  assumes "split_roots cs (roots, children) = (roots', children')"
    and "distinct (map fst children)"
  shows "mset roots' + mset (concat (map snd children')) =
       mset cs + mset roots + mset (concat (map snd children)) \<and> distinct (map fst children')"
  using assms
proof (induction cs arbitrary: roots children)
  case Nil
  then show ?case by simp
next
  case (Cons c cs)
  show ?case
  proof (cases "cr_parent_column c")
    case None
    then show ?thesis using Cons.IH [of "roots @ [c]" children] Cons.prems by simp
  next
    case (Some p)
    then show ?thesis
      using Cons.IH [of roots "add_child p c children"] Cons.prems
      by (simp add: mset_add_child distinct_add_child)
  qed
qed

lemma mset_remove_key:
  assumes "distinct (map fst children)" and "map_of children k = Some kids"
  shows "mset (concat (map snd children)) =
     mset kids + mset (concat (map snd (filter (\<lambda>e. fst e \<noteq> k) children)))"
  using assms
proof (induction children)
  case Nil
  then show ?case by simp
next
  case (Cons e es)
  show ?case
  proof (cases "fst e = k")
    case True
    then have "k \<notin> fst ` set es"
      using Cons.prems(1) by auto
    then have "filter (\<lambda>e. fst e \<noteq> k) es = es"
      by (intro filter_True ballI) (metis imageI)
    then show ?thesis using Cons.prems True by (cases e) auto
  next
    case False
    then show ?thesis using Cons by (cases e) auto
  qed
qed

lemma expand_all_mset:
  assumes "expand_all cs children = (out, rest)" and "distinct (map fst children)"
  shows "mset out + mset (concat (map snd rest)) = mset cs + mset (concat (map snd children))"
  using assms
proof (induction cs children arbitrary: out rest rule: expand_all.induct)
  case (1 children)
  then show ?case by simp
next
  case (2 c cs children)
  show ?case
  proof (cases "map_of children (cr_column_id c)")
    case None
    then obtain out' where "expand_all cs children = (out', rest)" "out = c # out'"
      using 2(3) by (auto simp: case_prod_beta Let_def) (metis surjective_pairing)
    then show ?thesis using 2(1) [OF None] 2(4) by simp
  next
    case (Some kids)
    let ?ch = "filter (\<lambda>e. fst e \<noteq> cr_column_id c) children"
    obtain out' where e: "expand_all (sort_key cr_column_index kids @ cs) ?ch = (out', rest)"
      and o: "out = c # out'"
      using 2(3) Some by (auto simp: case_prod_beta Let_def) (metis surjective_pairing)
    have "distinct (map fst ?ch)"
      using 2(4) by (simp add: distinct_map_filter)
    then show ?thesis
      using 2(2) [OF Some e] mset_remove_key [OF 2(4) Some] o by simp
  qed
qed

lemma sort_columns_tree_mset:
  assumes "\<And>xs. mset (order xs) = mset xs"
  shows "mset (sort_columns_tree order columns) = mset columns"
proof -
  obtain roots children where s: "split_roots (sort_key cr_column_index columns) ([], []) = (roots, children)"
    by fastforce
  obtain out orphans where e: "expand_all roots children = (out, orphans)" by fastforce
  have c: "mset (concat (map snd xs)) = (\<Sum>x\<in>#mset xs. mset (snd x))" for xs :: "(u64 \<times> ColumnRow list) list"
    by (induction xs) simp_all
  have "mset (concat (map snd (order orphans))) = mset (concat (map snd orphans))"
    unfolding c assms ..
  then show ?thesis
    using split_roots_mset [OF s] expand_all_mset [OF e]
    by (simp add: sort_columns_tree_def s e)
qed

lemma distinct_map_filter_keys:
  assumes "distinct (map fst kvs)" and "\<And>kv x. f kv = Some x \<Longrightarrow> fst x = fst kv"
  shows "distinct (map fst (List.map_filter f kvs))"
  using assms
proof (induction kvs)
  case (Cons kv kvs)
  have "fst ` set (List.map_filter f kvs) \<subseteq> fst ` set kvs"
    using Cons.prems(2) by (force simp: set_map_filter_Some)
  then show ?case
    using Cons by (auto simp: List.map_filter_simps split: option.splits)
qed (simp add: List.map_filter_simps)

section \<open>Properties\<close>

text \<open>C31. The column tree sort loses and invents no column: whatever the parent references are,
  dangling, shared or cyclic, and in whatever order the hash map yields the orphans, the result is a
  permutation of the columns, and the recursive expansion ends.\<close>

theorem sort_columns_tree_permutes:
  assumes "\<forall>xs. mset (order xs) = mset xs"
  shows "mset (sort_columns_tree order columns) = mset columns"
  using assms by (simp add: sort_columns_tree_mset)

text \<open>The index of data files is consistent when every entry under a table's prefix is stored under the
  begin snapshot and the file id of its row.\<close>

definition data_file_index_ok :: "codecs \<Rightarrow> (bytes \<Rightarrow> bytes option) \<Rightarrow> u64 \<Rightarrow> bool" where
  "data_file_index_ok C m t \<longleftrightarrow>
     (\<forall>k v row. prefix (prefix_data_files_by_snapshot_for_table t) k \<and> m k = Some v \<and>
        decode_value (pb_DataFileRow C) v = Inr row \<longrightarrow>
        (\<exists>b. df_begin_snapshot row = Some b \<and>
           k = key_data_file_by_snapshot t b (df_data_file_id row)))"

text \<open>The reference: the rows of the index visible at the snapshot.\<close>

definition visible_data_files :: "codecs \<Rightarrow> (bytes \<Rightarrow> bytes option) \<Rightarrow> u64 \<Rightarrow> SnapshotId \<Rightarrow> DataFileRow set" where
  "visible_data_files C m t s =
     {row. \<exists>k v b. prefix (prefix_data_files_by_snapshot_for_table t) k \<and> m k = Some v \<and>
        decode_value (pb_DataFileRow C) v = Inr row \<and> df_begin_snapshot row = Some b \<and>
        is_visible b (df_end_snapshot row) s}"

text \<open>The part of a complete listing that the early exit leaves out lies at or above the bound.\<close>

lemma cut_at_listing:
  assumes "prefix_listing m p (kvs @ rest)" and "err = None \<longrightarrow> rest = []"
    and "cut_at (Some u) (kvs, err) = (kvs', None)"
  shows "set kvs' = {(k, v). prefix p k \<and> m k = Some v \<and> k < u} \<and> distinct (map fst kvs')"
proof -
  let ?all = "kvs @ rest"
  have sorted: "sorted_wrt (<) (map fst ?all)" and
    all: "\<And>k v. (k, v) \<in> set ?all \<longleftrightarrow> prefix p k \<and> m k = Some v"
    using assms(1) unfolding prefix_listing_def by blast+
  have tw: "kvs' = takeWhile (\<lambda>kv. fst kv < u) ?all"
  proof (cases "list_all (\<lambda>kv. fst kv < u) kvs")
    case True
    then have "kvs' = kvs" "err = None" using assms(3) by (auto simp: cut_at_def)
    moreover have "takeWhile (\<lambda>kv. fst kv < u) kvs = kvs"
      using True by (simp add: takeWhile_eq_all_conv list_all_iff)
    ultimately show ?thesis using assms(2) by (metis append_Nil2)
  next
    case False
    then have "kvs' = takeWhile (\<lambda>kv. fst kv < u) kvs" using assms(3) by (auto simp: cut_at_def)
    moreover obtain x where "x \<in> set kvs" "\<not> fst x < u" using False by (auto simp: list_all_iff)
    ultimately show ?thesis by (simp add: takeWhile_append1)
  qed
  have "takeWhile (\<lambda>kv. fst kv < u) xs = filter (\<lambda>kv. fst kv < u) xs"
    if "sorted_wrt (<) (map fst xs)" for xs :: "kv list"
    using that by (induction xs) (auto simp: empty_filter_conv dest: less_trans)
  then have "kvs' = filter (\<lambda>kv. fst kv < u) ?all" using tw sorted by simp
  moreover have "distinct (map fst ?all)" using sorted strict_sorted_iff by blast
  ultimately show ?thesis using all by (auto simp: distinct_map_filter)
qed

lemma list_data_files_entries:
  assumes "slatedb_ok S" and "list_data_files S C db s t = Inr files"
    and "data_file_index_ok C (sdb_view S db) t"
  obtains kvs rows where "collect_rows (row_decoder (pb_DataFileRow C))
      (\<lambda>row. case df_end_snapshot row of Some e \<Rightarrow> \<not> e \<le> as_u64 s | None \<Rightarrow> True) kvs None = Inr rows"
    and "files = sort_key (\<lambda>f. case df_file_order f of None \<Rightarrow> df_data_file_id f | Some x \<Rightarrow> x) (map snd rows)"
    and "distinct (map fst kvs)"
    and "\<And>k v. (k, v) \<in> set kvs \<longleftrightarrow> prefix (prefix_data_files_by_snapshot_for_table t) k \<and>
        sdb_view S db k = Some v \<and>
        (case prefix_data_files_by_snapshot_upper t (as_u64 s) of None \<Rightarrow> True | Some u \<Rightarrow> k < u)"
proof -
  let ?p = "prefix_data_files_by_snapshot_for_table t" and ?m = "sdb_view S db"
  let ?u = "prefix_data_files_by_snapshot_upper t (as_u64 s)"
  obtain kvs err where sc: "sdb_scan_prefix S db ?p = Inr (kvs, err)"
    using assms(2) by (auto simp: list_data_files_def rbind_eq_Inr_iff)
  obtain kvs' err' where cut: "cut_at ?u (kvs, err) = (kvs', err')" by fastforce
  obtain rows where co: "collect_rows (row_decoder (pb_DataFileRow C))
      (\<lambda>row. case df_end_snapshot row of Some e \<Rightarrow> \<not> e \<le> as_u64 s | None \<Rightarrow> True) kvs' err' = Inr rows"
    and f: "files = sort_key (\<lambda>f. case df_file_order f of None \<Rightarrow> df_data_file_id f | Some x \<Rightarrow> x) (map snd rows)"
    using assms(2) sc cut by (auto simp: list_data_files_def rbind_eq_Inr_iff)
  have err': "err' = None" using co by (simp add: collect_rows_Inr_iff)
  obtain rest where l: "prefix_listing ?m ?p (kvs @ rest)" and re: "err = None \<longrightarrow> rest = []"
    using sdb_scan_prefix_partial [OF assms(1) sc] by blast
  have "distinct (map fst kvs') \<and> (\<forall>k v. (k, v) \<in> set kvs' \<longleftrightarrow> prefix ?p k \<and> ?m k = Some v \<and>
      (case ?u of None \<Rightarrow> True | Some u \<Rightarrow> k < u))"
  proof (cases ?u)
    case None
    then have "kvs' = kvs @ rest" using cut err' re by (simp add: cut_at_def)
    moreover have "distinct (map fst (kvs @ rest))"
      using l strict_sorted_iff [of "map fst (kvs @ rest)"] by (simp only: prefix_listing_def)
    ultimately show ?thesis
      using l None by (simp add: prefix_listing_def)
  next
    case (Some u)
    then show ?thesis
      using cut_at_listing [OF l re, of u kvs'] cut err' by auto
  qed
  then show thesis
    using that [of kvs' rows] co f err' by blast
qed

lemma collect_rows_set:
  assumes "collect_rows (row_decoder P) keep kvs None = Inr rows"
  shows "(k, row) \<in> set rows \<longleftrightarrow> (\<exists>v. (k, v) \<in> set kvs \<and> decode_value P v = Inr row) \<and> keep row"
  using assms by (force simp: collect_rows_Inr_iff set_map_filter_Some decoded_row_def row_decoder_def
      split: sum.splits if_splits)

lemma data_file_index_key:
  assumes "data_file_index_ok C m t" and "prefix (prefix_data_files_by_snapshot_for_table t) k"
    and "m k = Some v" and "decode_value (pb_DataFileRow C) v = Inr row"
  shows "\<exists>b. df_begin_snapshot row = Some b \<and> k = key_data_file_by_snapshot t b (df_data_file_id row)"
  using assms unfolding data_file_index_ok_def by blast

lemma list_data_files_set:
  assumes "slatedb_ok S" and "list_data_files S C db s t = Inr files"
    and "data_file_index_ok C (sdb_view S db) t"
  shows "set files = visible_data_files C (sdb_view S db) t s"
proof (rule list_data_files_entries [OF assms])
  fix kvs rows
  let ?p = "prefix_data_files_by_snapshot_for_table t" and ?m = "sdb_view S db"
  let ?keep = "\<lambda>row. case df_end_snapshot row of Some e \<Rightarrow> \<not> e \<le> as_u64 s | None \<Rightarrow> True"
  assume co: "collect_rows (row_decoder (pb_DataFileRow C)) ?keep kvs None = Inr rows"
    and f: "files = sort_key (\<lambda>f. case df_file_order f of None \<Rightarrow> df_data_file_id f | Some x \<Rightarrow> x) (map snd rows)"
    and kvs: "\<And>k v. (k, v) \<in> set kvs \<longleftrightarrow> prefix ?p k \<and> ?m k = Some v \<and>
        (case prefix_data_files_by_snapshot_upper t (as_u64 s) of None \<Rightarrow> True | Some u \<Rightarrow> k < u)"
  note rows = collect_rows_set [OF co] and index = data_file_index_key [OF assms(3)]
  have bound: "(case prefix_data_files_by_snapshot_upper t (as_u64 s) of None \<Rightarrow> True
      | Some u \<Rightarrow> key_data_file_by_snapshot t b i < u) \<longleftrightarrow> b \<le> as_u64 s" for b i
    by (rule data_file_bound)
  have vis: "is_visible b (df_end_snapshot row) s \<longleftrightarrow> b \<le> as_u64 s \<and> ?keep row" for b row
    by (auto simp: is_visible_def not_le split: option.splits)
  show "set files = visible_data_files C ?m t s"
  proof (intro set_eqI iffI)
    fix row assume "row \<in> set files"
    then obtain k v where "(k, v) \<in> set kvs" "decode_value (pb_DataFileRow C) v = Inr row" "?keep row"
      using rows by (auto simp: f)
    then show "row \<in> visible_data_files C ?m t s"
      unfolding visible_data_files_def using index bound vis kvs by blast
  next
    fix row assume "row \<in> visible_data_files C ?m t s"
    then obtain k v b where h: "prefix ?p k" "?m k = Some v" "decode_value (pb_DataFileRow C) v = Inr row"
      "df_begin_snapshot row = Some b" "is_visible b (df_end_snapshot row) s"
      unfolding visible_data_files_def by blast
    then have "k = key_data_file_by_snapshot t b (df_data_file_id row)"
      using index by force
    then have "(k, v) \<in> set kvs" using h bound vis kvs by blast
    then have "(k, row) \<in> set rows" using rows h vis by blast
    then show "row \<in> set files" by (force simp: f)
  qed
qed

lemma list_data_files_distinct:
  assumes "slatedb_ok S" and "list_data_files S C db s t = Inr files"
    and "data_file_index_ok C (sdb_view S db) t"
  shows "distinct files"
proof (rule list_data_files_entries [OF assms])
  fix kvs rows
  let ?p = "prefix_data_files_by_snapshot_for_table t" and ?m = "sdb_view S db"
  let ?keep = "\<lambda>row. case df_end_snapshot row of Some e \<Rightarrow> \<not> e \<le> as_u64 s | None \<Rightarrow> True"
  assume co: "collect_rows (row_decoder (pb_DataFileRow C)) ?keep kvs None = Inr rows"
    and f: "files = sort_key (\<lambda>f. case df_file_order f of None \<Rightarrow> df_data_file_id f | Some x \<Rightarrow> x) (map snd rows)"
    and d: "distinct (map fst kvs)"
    and kvs: "\<And>k v. (k, v) \<in> set kvs \<longleftrightarrow> prefix ?p k \<and> ?m k = Some v \<and>
        (case prefix_data_files_by_snapshot_upper t (as_u64 s) of None \<Rightarrow> True | Some u \<Rightarrow> k < u)"
  note rows = collect_rows_set [OF co] and index = data_file_index_key [OF assms(3)]
  have "distinct (map fst rows)"
    using co d by (auto simp: collect_rows_Inr_iff intro!: distinct_map_filter_keys
      simp: decoded_row_def split: sum.splits if_splits)
  then have dr: "distinct rows" by (simp add: distinct_map)
  have "inj_on snd (set rows)"
  proof (rule inj_onI)
    fix x y assume "x \<in> set rows" "y \<in> set rows" "snd x = snd y"
    then show "x = y"
      using rows [of "fst x" "snd x"] rows [of "fst y" "snd y"] index kvs
      by (metis option.inject prod.collapse)
  qed
  then show "distinct files" using dr by (simp add: f distinct_map)
qed

lemma list_data_files_sorted:
  "list_data_files S C db s t = Inr files \<Longrightarrow>
     sorted (map (\<lambda>f. case df_file_order f of None \<Rightarrow> df_data_file_id f | Some x \<Rightarrow> x) files)"
  by (auto simp: list_data_files_def rbind_eq_Inr_iff case_prod_beta Let_def)

text \<open>C8. The bounded index scan of \<open>list_data_files\<close>, which stops at the first key beyond the read
  snapshot and never looks at later entries, returns exactly the visible files of the table, each once,
  in file order: it agrees with filtering the whole index by visibility.\<close>

theorem list_data_files_correct:
  assumes "slatedb_ok S" and "list_data_files S C db s t = Inr files"
    and "data_file_index_ok C (sdb_view S db) t"
  shows "set files = visible_data_files C (sdb_view S db) t s \<and> distinct files \<and>
     sorted (map (\<lambda>f. case df_file_order f of None \<Rightarrow> df_data_file_id f | Some x \<Rightarrow> x) files)"
  using list_data_files_set [OF assms] list_data_files_distinct [OF assms]
    list_data_files_sorted [OF assms(2)]
  by simp

lemma read_rows_set:
  assumes "slatedb_ok S" and "read_rows S P db p keep = Inr rows"
  shows "row \<in> set rows \<longleftrightarrow>
     (\<exists>k v. prefix p k \<and> sdb_view S db k = Some v \<and> decode_value P v = Inr row) \<and> keep row"
proof -
  obtain krows where sc: "scan_rows S classify_slatedb_error (row_decoder P) db p keep = Inr krows"
    and r: "rows = map snd krows"
    using assms(2) by (auto simp: read_rows_def rbind_eq_Inr_iff)
  have "row \<in> set rows \<longleftrightarrow> (\<exists>k. (k, row) \<in> set krows)" by (force simp: r)
  then show ?thesis
    using rows_under_set [OF scan_rows_Inr [OF assms(1) sc]] by (auto simp: row_decoder_def)
qed


end
