(* ===== verification/Key_Migration.thy ===== *)
theory Key_Migration
  imports Transactions Codecs
begin

text \<open>
  \<open>crates/rocklake-catalog/src/key_migration.rs\<close>: the rewrite of hash-encoded lease and extension
  keys to length-prefixed keys, run once per catalog.
\<close>

section \<open>Migration\<close>

text \<open>The key a row should be stored under: \<open>None\<close> for a value that does not decode, which the scan
  skips.\<close>

definition lease_target :: "codecs \<Rightarrow> bytes \<Rightarrow> (KeyError + bytes) option" where
  "lease_target C value =
     (case pb_decode (pb_SnapshotLeaseRow C) value of Inl _ \<Rightarrow> None
      | Inr row \<Rightarrow> Some (key_snapshot_lease (sl_consumer_id row)))"

definition extension_target :: "codecs \<Rightarrow> bytes \<Rightarrow> (KeyError + bytes) option" where
  "extension_target C value =
     (case pb_decode (pb_ExtensionSchemaRow C) value of Inl _ \<Rightarrow> None
      | Inr row \<Rightarrow> Some (key_extension_schema (ucast (es_extension_id row)) (es_table_name row)
          (es_row_id row)))"

text \<open>The two loops of \<open>migrate_lease_keys\<close> and \<open>migrate_extension_keys\<close>, which differ in the
  target key only: collect the entries whose key is not the expected one, then move them.\<close>

fun collect_migrations ::
  "(bytes \<Rightarrow> (KeyError + bytes) option) \<Rightarrow> kv list \<Rightarrow> string option \<Rightarrow> CatalogError + kv list" where
  "collect_migrations target [] err = (case err of None \<Rightarrow> Inr [] | Some e \<Rightarrow> Inl (SlateDb e))"
| "collect_migrations target ((k, v) # kvs) err =
     (case target v of
        None \<Rightarrow> collect_migrations target kvs err
      | Some r \<Rightarrow>
          rbind (map_err KeyErr r) (\<lambda>expected.
          rbind (collect_migrations target kvs err) (\<lambda>rest.
            Inr (if k \<noteq> expected then (k, v) # rest else rest))))"

fun move_entries ::
  "'db slatedb \<Rightarrow> (bytes \<Rightarrow> (KeyError + bytes) option) \<Rightarrow> kv list \<Rightarrow> ('db, unit) cmd" where
  "move_entries S target [] = ret ()"
| "move_entries S target ((old_key, v) # kvs) =
     (case target v of
        None \<Rightarrow> move_entries S target kvs
      | Some r \<Rightarrow>
          bind (lift (map_err KeyErr r)) (\<lambda>new_key.
          bind (db_put S new_key v) (\<lambda>_.
          bind (db_delete S old_key) (\<lambda>_.
            move_entries S target kvs))))"

definition migrate_keys ::
  "'db slatedb \<Rightarrow> bytes \<Rightarrow> (bytes \<Rightarrow> (KeyError + bytes) option) \<Rightarrow> ('db, unit) cmd" where
  "migrate_keys S p target db =
     (case map_err classify_slatedb_error (sdb_scan_prefix S db p) of
        Inl e \<Rightarrow> (Inl e, db)
      | Inr (kvs, err) \<Rightarrow>
          (case collect_migrations target kvs err of
             Inl e \<Rightarrow> (Inl e, db)
           | Inr todo \<Rightarrow> move_entries S target todo db))"

definition migrate_lease_keys :: "'db slatedb \<Rightarrow> codecs \<Rightarrow> ('db, unit) cmd" where
  "migrate_lease_keys S C = migrate_keys S [TAG_SNAPSHOT_LEASE] (lease_target C)"

definition migrate_extension_keys :: "'db slatedb \<Rightarrow> codecs \<Rightarrow> ('db, unit) cmd" where
  "migrate_extension_keys S C = migrate_keys S [TAG_EXTENSION_SCHEMA] (extension_target C)"

definition migrate_key_encoding_if_needed :: "'db slatedb \<Rightarrow> codecs \<Rightarrow> ('db, unit) cmd" where
  "migrate_key_encoding_if_needed S C =
     (let marker_key = key_system SYSTEM_KEY_ENCODING_V020_MIGRATED in
      bind (\<lambda>db. (db_get S db marker_key, db)) (\<lambda>m.
        if m \<noteq> None then ret ()
        else
          bind (migrate_lease_keys S C) (\<lambda>_.
          bind (migrate_extension_keys S C) (\<lambda>_.
            db_put S marker_key (str_bytes ''1'')))))"

section \<open>Facts\<close>

text \<open>The effect of moving the entries, on the content of the database.\<close>

fun move_map ::
  "(bytes \<Rightarrow> (KeyError + bytes) option) \<Rightarrow> kv list \<Rightarrow> (bytes \<Rightarrow> bytes option) \<Rightarrow> bytes \<Rightarrow> bytes option" where
  "move_map target [] m = m"
| "move_map target ((k, v) # kvs) m =
     (case target v of Some (Inr k') \<Rightarrow> move_map target kvs (m(k' \<mapsto> v, k := None))
      | _ \<Rightarrow> move_map target kvs m)"

lemma move_entries_Inr:
  assumes "slatedb_ok S"
  shows "move_entries S target kvs db = (Inr u, db') \<Longrightarrow>
     sdb_view S db' = move_map target kvs (sdb_view S db)"
proof (induction kvs arbitrary: db)
  case Nil
  then show ?case by simp
next
  case (Cons kv kvs)
  obtain k v where kv: "kv = (k, v)" by (cases kv)
  show ?case
  proof (cases "target v")
    case None
    then show ?thesis using Cons by (simp add: kv)
  next
    case (Some r)
    with Cons.prems obtain k' db1 db2 where r: "r = Inr k'" and p: "db_put S k' v db = (Inr (), db1)"
      and d: "db_delete S k db1 = (Inr (), db2)" and m: "move_entries S target kvs db2 = (Inr u, db')"
      by (auto simp: kv bind_Inr)
    show ?thesis
      using Cons.IH [OF m] db_put_Inr [OF assms p] db_delete_Inr [OF assms d] Some r
      by (simp add: kv fun_upd_def)
  qed
qed

lemma collect_migrations_Inr:
  "collect_migrations target kvs err = Inr todo \<Longrightarrow>
     err = None \<and>
     todo = filter (\<lambda>(k, v). \<exists>k'. target v = Some (Inr k') \<and> k \<noteq> k') kvs \<and>
     (\<forall>(k, v)\<in>set kvs. \<forall>e. target v \<noteq> Some (Inl e))"
proof (induction target kvs err arbitrary: todo rule: collect_migrations.induct)
  case (1 target err)
  then show ?case by (auto split: option.splits)
next
  case (2 target k v kvs err)
  show ?case
  proof (cases "target v")
    case None
    then show ?thesis using 2 by simp
  next
    case (Some r)
    with 2(3) obtain k' rest where "r = Inr k'" "collect_migrations target kvs err = Inr rest"
      "todo = (if k \<noteq> k' then (k, v) # rest else rest)"
      by (auto simp: rbind_eq_Inr_iff)
    with 2(2) [OF Some] Some show ?thesis by simp
  qed
qed

text \<open>Keys outside the scanned prefix are left alone.\<close>

lemma move_map_other:
  assumes "\<And>v k'. target v = Some (Inr k') \<Longrightarrow> prefix p k'"
    and "\<forall>(k, v)\<in>set kvs. prefix p k" and "\<not> prefix p x"
  shows "move_map target kvs m x = m x"
  using assms
proof (induction target kvs m rule: move_map.induct)
  case (2 target k v kvs m)
  have "k' \<noteq> x" if "target v = Some (Inr k')" for k'
    using 2(4) [OF that] 2(6) by blast
  moreover have "k \<noteq> x" using 2(5,6) by auto
  ultimately show ?case
    using 2 by (auto simp: fun_upd_def split: option.splits sum.splits)
qed simp

lemma move_map_untouched:
  "x \<notin> fst ` set kvs \<Longrightarrow> (\<forall>(k, v)\<in>set kvs. target v \<noteq> Some (Inr x)) \<Longrightarrow>
     move_map target kvs m x = m x"
  by (induction target kvs m rule: move_map.induct) (auto split: option.splits sum.splits)

text \<open>Where every source has a target, the targets are pairwise different and none of them is a
  source, each value ends up at its target and the sources are gone.\<close>

definition movable_list :: "(bytes \<Rightarrow> (KeyError + bytes) option) \<Rightarrow> kv list \<Rightarrow> bool" where
  "movable_list target kvs \<longleftrightarrow> distinct (map fst kvs) \<and>
     (\<forall>k v. (k, v) \<in> set kvs \<longrightarrow> (\<exists>k'. target v = Some (Inr k') \<and> k' \<notin> fst ` set kvs)) \<and>
     (\<forall>k1 v1 k2 v2. (k1, v1) \<in> set kvs \<and> (k2, v2) \<in> set kvs \<and> target v1 = target v2 \<longrightarrow> k1 = k2)"

lemma movable_list_Cons:
  assumes "movable_list target ((k, v) # kvs)"
  obtains k' where "movable_list target kvs" "target v = Some (Inr k')" "k' \<noteq> k"
    "k' \<notin> fst ` set kvs" "k \<notin> fst ` set kvs"
    "\<forall>(k2, v2)\<in>set kvs. target v2 \<noteq> Some (Inr k')" "\<forall>(k2, v2)\<in>set kvs. target v2 \<noteq> Some (Inr k)"
proof -
  let ?l = "(k, v) # kvs"
  have d: "distinct (map fst ?l)"
    and t: "\<forall>k1 v1. (k1, v1) \<in> set ?l \<longrightarrow> (\<exists>k'. target v1 = Some (Inr k') \<and> k' \<notin> fst ` set ?l)"
    and i: "\<forall>k1 v1 k2 v2. (k1, v1) \<in> set ?l \<and> (k2, v2) \<in> set ?l \<and> target v1 = target v2 \<longrightarrow> k1 = k2"
    using assms [unfolded movable_list_def, THEN conjunct1]
      assms [unfolded movable_list_def, THEN conjunct2, THEN conjunct1]
      assms [unfolded movable_list_def, THEN conjunct2, THEN conjunct2] by iprover+
  obtain k' where k': "target v = Some (Inr k')" "k' \<noteq> k" "k' \<notin> fst ` set kvs"
    using t [rule_format, of k v] by auto
  have k: "k \<notin> fst ` set kvs" using d by simp
  have tl: "\<exists>k'. target v1 = Some (Inr k') \<and> k' \<noteq> k \<and> k' \<notin> fst ` set kvs" if "(k1, v1) \<in> set kvs" for k1 v1
    using t [rule_format, of k1 v1] that by auto
  have "movable_list target kvs"
    unfolding movable_list_def
  proof (intro conjI allI impI)
    show "distinct (map fst kvs)" using d by simp
    show "\<exists>k'. target v1 = Some (Inr k') \<and> k' \<notin> fst ` set kvs" if "(k1, v1) \<in> set kvs" for k1 v1
      using tl [OF that] by blast
    show "k1 = k2" if "(k1, v1) \<in> set kvs \<and> (k2, v2) \<in> set kvs \<and> target v1 = target v2" for k1 v1 k2 v2
      using i [rule_format, of k1 v1 k2 v2] that by simp
  qed
  moreover have "target v2 \<noteq> Some (Inr k')" if "(k2, v2) \<in> set kvs" for k2 v2
    using i [rule_format, of k v k2 v2] that k' k by force
  moreover have "target v2 \<noteq> Some (Inr k)" if "(k2, v2) \<in> set kvs" for k2 v2
    using tl [OF that] by auto
  ultimately show thesis
    using that k' k by blast
qed

lemma move_map_sources:
  "movable_list target kvs \<Longrightarrow> k \<in> fst ` set kvs \<Longrightarrow> move_map target kvs m k = None"
proof (induction kvs arbitrary: m)
  case (Cons kv kvs)
  obtain k0 v0 where kv: "kv = (k0, v0)" by (cases kv)
  from Cons.prems(1) show ?case
    unfolding kv
  proof (rule movable_list_Cons, goal_cases)
    case (1 k')
    then show ?case
      using Cons.IH [of "m(k' \<mapsto> v0, k0 := None)"] Cons.prems(2)
        move_map_untouched [of k0 kvs target "m(k' \<mapsto> v0, k0 := None)"]
      by (cases "k = k0") (simp_all add: kv fun_upd_def)
  qed
qed simp

lemma move_map_targets:
  "movable_list target kvs \<Longrightarrow> (k, v) \<in> set kvs \<Longrightarrow> target v = Some (Inr k') \<Longrightarrow>
     move_map target kvs m k' = Some v"
proof (induction kvs arbitrary: m)
  case (Cons kv kvs)
  obtain k0 v0 where kv: "kv = (k0, v0)" by (cases kv)
  from Cons.prems(1) show ?case
    unfolding kv
  proof (rule movable_list_Cons, goal_cases)
    case (1 k1)
    then show ?case
      using Cons move_map_untouched [of k1 kvs target "m(k1 \<mapsto> v0, k0 := None)"] by (auto simp: kv)
  qed
qed simp

lemma migrate_keys_Inr:
  assumes "slatedb_ok S" and "migrate_keys S p target db = (Inr u, db')"
  shows "\<exists>kvs. prefix_listing (sdb_view S db) p kvs \<and>
     sdb_view S db' = move_map target
       (filter (\<lambda>(k, v). \<exists>k'. target v = Some (Inr k') \<and> k \<noteq> k') kvs) (sdb_view S db)"
proof -
  obtain kvs err todo where sc: "sdb_scan_prefix S db p = Inr (kvs, err)"
    and c: "collect_migrations target kvs err = Inr todo"
    and mv: "move_entries S target todo db = (Inr u, db')"
    using assms(2)
    by (auto simp: migrate_keys_def map_err_def split: sum.splits prod.splits)
  note c' = collect_migrations_Inr [OF c]
  have "prefix_listing (sdb_view S db) p kvs"
    using sdb_scan_prefix_ok [OF assms(1), of db p kvs] sc c' by simp
  then show ?thesis
    using move_entries_Inr [OF assms(1) mv] c' by blast
qed

lemma target_prefix:
  "lease_target C v = Some (Inr k) \<Longrightarrow> prefix [TAG_SNAPSHOT_LEASE] k"
  "extension_target C v = Some (Inr k) \<Longrightarrow> prefix [TAG_EXTENSION_SCHEMA] k"
  by (auto simp: lease_target_def extension_target_def key_snapshot_lease_def
      key_extension_schema_def rbind_eq_Inr_iff split: sum.splits)

lemma migrate_keys_other:
  assumes "slatedb_ok S" and "migrate_keys S p target db = (Inr u, db')"
    and "\<And>v k'. target v = Some (Inr k') \<Longrightarrow> prefix p k'" and "\<not> prefix p x"
  shows "sdb_view S db' x = sdb_view S db x"
proof -
  obtain kvs where l: "prefix_listing (sdb_view S db) p kvs"
    and v: "sdb_view S db' = move_map target
       (filter (\<lambda>(k, v). \<exists>k'. target v = Some (Inr k') \<and> k \<noteq> k') kvs) (sdb_view S db)"
    using migrate_keys_Inr [OF assms(1,2)] by blast
  show ?thesis
    unfolding v by (rule move_map_other [OF assms(3) _ assms(4)])
      (use l in \<open>auto simp: prefix_listing_def\<close>)
qed

text \<open>One of the two migrations on a content where the misplaced rows have free and different
  targets.\<close>

definition rows_movable ::
  "bytes \<Rightarrow> (bytes \<Rightarrow> (KeyError + bytes) option) \<Rightarrow> (bytes \<Rightarrow> bytes option) \<Rightarrow> bool" where
  "rows_movable p target m \<longleftrightarrow>
     (\<forall>k v k'. prefix p k \<and> m k = Some v \<and> target v = Some (Inr k') \<and> k \<noteq> k' \<longrightarrow> m k' = None) \<and>
     (\<forall>k1 v1 k2 v2. prefix p k1 \<and> m k1 = Some v1 \<and> prefix p k2 \<and> m k2 = Some v2 \<and>
        target v1 \<noteq> None \<and> target v1 = target v2 \<longrightarrow> k1 = k2)"

definition rows_placed ::
  "bytes \<Rightarrow> (bytes \<Rightarrow> (KeyError + bytes) option) \<Rightarrow> (bytes \<Rightarrow> bytes option)
     \<Rightarrow> (bytes \<Rightarrow> bytes option) \<Rightarrow> bool" where
  "rows_placed p target m m' \<longleftrightarrow>
     (\<forall>k v k'. prefix p k \<and> m k = Some v \<and> target v = Some (Inr k') \<longrightarrow> m' k' = Some v) \<and>
     (\<forall>k v k'. prefix p k \<and> m' k = Some v \<and> target v = Some (Inr k') \<longrightarrow> k = k' \<and> (\<exists>k0. prefix p k0 \<and> m k0 = Some v)) \<and>
     (\<forall>k v. prefix p k \<and> m k = Some v \<and> target v = None \<longrightarrow> m' k = Some v)"

lemma rows_movableD:
  assumes "rows_movable p target m"
  shows "prefix p k \<Longrightarrow> m k = Some v \<Longrightarrow> target v = Some (Inr k') \<Longrightarrow> k \<noteq> k' \<Longrightarrow> m k' = None"
    and "prefix p k1 \<Longrightarrow> m k1 = Some v1 \<Longrightarrow> prefix p k2 \<Longrightarrow> m k2 = Some v2 \<Longrightarrow>
      target v1 \<noteq> None \<Longrightarrow> target v1 = target v2 \<Longrightarrow> k1 = k2"
  using assms [unfolded rows_movable_def] by iprover+

lemma rows_placedD:
  assumes "rows_placed p target m m'"
  shows "prefix p k \<Longrightarrow> m k = Some v \<Longrightarrow> target v = Some (Inr k') \<Longrightarrow> m' k' = Some v"
    and "prefix p k \<Longrightarrow> m' k = Some v \<Longrightarrow> target v = Some (Inr k') \<Longrightarrow>
      k = k' \<and> (\<exists>k0. prefix p k0 \<and> m k0 = Some v)"
    and "prefix p k \<Longrightarrow> m k = Some v \<Longrightarrow> target v = None \<Longrightarrow> m' k = Some v"
  using assms [unfolded rows_placed_def] by iprover+

lemma rows_placed_cong:
  assumes "rows_placed p target m1 m2" and "\<And>k. prefix p k \<Longrightarrow> m1 k = m k"
    and "\<And>k. prefix p k \<Longrightarrow> m2 k = m' k" and "\<And>v k'. target v = Some (Inr k') \<Longrightarrow> prefix p k'"
  shows "rows_placed p target m m'"
  unfolding rows_placed_def
proof (intro conjI allI impI; elim conjE)
  fix k v k' assume a: "prefix p k" "m k = Some v" "target v = Some (Inr k')"
  have "m2 k' = Some v"
    using rows_placedD(1) [OF assms(1) a(1) _ a(3)] assms(2) [OF a(1)] a(2) by simp
  then show "m' k' = Some v" using assms(3) [OF assms(4) [OF a(3)]] by simp
next
  fix k v k' assume a: "prefix p k" "m' k = Some v" "target v = Some (Inr k')"
  then have "m2 k = Some v" using assms(3) by simp
  from rows_placedD(2) [OF assms(1) a(1) this a(3)]
  have "k = k' \<and> (\<exists>k0. prefix p k0 \<and> m1 k0 = Some v)" .
  then show "k = k'" "\<exists>k0. prefix p k0 \<and> m k0 = Some v" using assms(2) by auto
next
  fix k v assume a: "prefix p k" "m k = Some v" "target v = None"
  show "m' k = Some v"
    using rows_placedD(3) [OF assms(1) a(1) _ a(3)] assms(2,3) [OF a(1)] a(2) by simp
qed

lemma rows_movable_cong:
  assumes "rows_movable p target m" and "\<And>k. prefix p k \<Longrightarrow> m' k = m k"
    and "\<And>v k'. target v = Some (Inr k') \<Longrightarrow> prefix p k'"
  shows "rows_movable p target m'"
  unfolding rows_movable_def
proof (intro conjI allI impI; elim conjE)
  fix k v k' assume a: "prefix p k" "m' k = Some v" "target v = Some (Inr k')" "k \<noteq> k'"
  have "m k' = None"
    using rows_movableD(1) [OF assms(1) a(1) _ a(3,4)] assms(2) [OF a(1)] a(2) by simp
  then show "m' k' = None" using assms(2) [OF assms(3) [OF a(3)]] by simp
next
  fix k1 v1 k2 v2
  assume a: "prefix p k1" "m' k1 = Some v1" "prefix p k2" "m' k2 = Some v2"
    "target v1 \<noteq> None" "target v1 = target v2"
  show "k1 = k2"
    using rows_movableD(2) [OF assms(1) a(1) _ a(3) _ a(5,6)] assms(2) a(1-4) by simp
qed

lemma migrate_keys_places:
  assumes "slatedb_ok S" and "migrate_keys S p target db = (Inr u, db')"
    and "\<And>v k'. target v = Some (Inr k') \<Longrightarrow> prefix p k'"
    and "rows_movable p target (sdb_view S db)"
  shows "rows_placed p target (sdb_view S db) (sdb_view S db')"
proof -
  let ?m = "sdb_view S db" and ?m' = "sdb_view S db'"
  obtain kvs where l: "prefix_listing ?m p kvs"
    and v: "?m' = move_map target
       (filter (\<lambda>(k, v). \<exists>k'. target v = Some (Inr k') \<and> k \<noteq> k') kvs) ?m"
    using migrate_keys_Inr [OF assms(1,2)] by blast
  let ?todo = "filter (\<lambda>(k, v). \<exists>k'. target v = Some (Inr k') \<and> k \<noteq> k') kvs"
  have set: "(k, v) \<in> set kvs \<longleftrightarrow> prefix p k \<and> ?m k = Some v" for k v
    using l by (simp add: prefix_listing_def)
  have todo: "(k, v) \<in> set ?todo \<longleftrightarrow>
      prefix p k \<and> ?m k = Some v \<and> (\<exists>k'. target v = Some (Inr k') \<and> k \<noteq> k')" for k v
    by (auto simp: set)
  note movable = assms(4) [unfolded rows_movable_def]
  have mv: "movable_list target ?todo"
    unfolding movable_list_def
  proof (intro conjI allI impI)
    have "distinct (map fst kvs)"
      using l strict_sorted_iff by (auto simp: prefix_listing_def)
    then show "distinct (map fst ?todo)" by (rule distinct_map_filter)
    show "\<exists>k'. target v = Some (Inr k') \<and> k' \<notin> fst ` set ?todo" if "(k, v) \<in> set ?todo" for k v
    proof -
      obtain k' where k': "target v = Some (Inr k')" "?m k' = None"
        using movable \<open>(k, v) \<in> set ?todo\<close> unfolding todo by blast
      moreover have "k' \<notin> fst ` set ?todo" using k'(2) todo by force
      ultimately show ?thesis by blast
    qed
    show "k1 = k2" if "(k1, v1) \<in> set ?todo \<and> (k2, v2) \<in> set ?todo \<and> target v1 = target v2"
      for k1 v1 k2 v2
      using movable that unfolding todo by (metis option.distinct(1))
  qed
  have moved: "?m' k' = Some v" if "(k, v) \<in> set ?todo" "target v = Some (Inr k')" for k v k'
    unfolding v using mv that by (rule move_map_targets)
  have gone: "?m' k = None" if "k \<in> fst ` set ?todo" for k
    unfolding v using mv that by (rule move_map_sources)
  have stays: "?m' x = ?m x" if "x \<notin> fst ` set ?todo" "\<forall>(k, v)\<in>set ?todo. target v \<noteq> Some (Inr x)" for x
    unfolding v using that by (rule move_map_untouched)
  have kept: "?m' x = Some v" if "prefix p x" "?m x = Some v" "target v = None \<or> target v = Some (Inr x)"
    for x v
  proof -
    have "x \<notin> fst ` set ?todo" using that todo by fastforce
    moreover have "target v0 \<noteq> Some (Inr x)" if "(k0, v0) \<in> set ?todo" for k0 v0
      using movable that \<open>?m x = Some v\<close> unfolding todo by (metis option.distinct(1) option.inject sum.inject(2))
    ultimately show ?thesis using stays that by fastforce
  qed
  have placed: "?m' k' = Some v" if "prefix p k" "?m k = Some v" "target v = Some (Inr k')" for k v k'
    using that kept [of k v] moved [of k v k'] todo by blast
  have rehomed: "k = k' \<and> (\<exists>k0. prefix p k0 \<and> ?m k0 = Some v)" if "prefix p k" "?m' k = Some v" "target v = Some (Inr k')" for k v k'
  proof (cases "\<exists>k0 v0. (k0, v0) \<in> set ?todo \<and> target v0 = Some (Inr k)")
    case True
    then obtain k0 v0 where t: "(k0, v0) \<in> set ?todo" "target v0 = Some (Inr k)" by blast
    then have "v0 = v" using moved that by force
    then show ?thesis using t that unfolding todo by auto
  next
    case False
    have n: "k \<notin> fst ` set ?todo" using gone that by force
    have "\<forall>(k0, v0)\<in>set ?todo. target v0 \<noteq> Some (Inr k)"
      using False by blast
    from stays [OF n this] have m: "?m k = Some v" using that(2) by simp
    have "(k, v) \<notin> set ?todo" using n by force
    then have "k = k'" using m that(1,3) unfolding todo by blast
    then show ?thesis using m that(1) by blast
  qed
  show ?thesis
    unfolding rows_placed_def
  proof (intro conjI allI impI; elim conjE)
    show "?m' k' = Some v" if "prefix p k" "?m k = Some v" "target v = Some (Inr k')" for k v k'
      using that by (rule placed)
    show "k = k'" "\<exists>k0. prefix p k0 \<and> ?m k0 = Some v"
      if "prefix p k" "?m' k = Some v" "target v = Some (Inr k')" for k v k'
      using rehomed [OF that] by simp_all
    show "?m' k = Some v" if "prefix p k" "?m k = Some v" "target v = None" for k v
      using kept that by simp
  qed
qed

lemma migrate_other:
  assumes "slatedb_ok S" and "migrate_key_encoding_if_needed S C db = (Inr u, db')"
    and "\<not> prefix [TAG_SNAPSHOT_LEASE] x" and "\<not> prefix [TAG_EXTENSION_SCHEMA] x"
    and "x \<noteq> key_system SYSTEM_KEY_ENCODING_V020_MIGRATED"
  shows "sdb_view S db' x = sdb_view S db x"
proof -
  consider "db' = db"
    | db1 db2 where "migrate_lease_keys S C db = (Inr (), db1)"
      "migrate_extension_keys S C db1 = (Inr (), db2)"
      "db_put S (key_system SYSTEM_KEY_ENCODING_V020_MIGRATED) (str_bytes ''1'') db2 = (Inr u, db')"
    using assms(2) by (auto simp: migrate_key_encoding_if_needed_def Let_def bind_Inr split: if_splits)
  then show ?thesis
  proof cases
    case 1
    then show ?thesis by simp
  next
    case 2
    have "sdb_view S db1 x = sdb_view S db x"
      by (rule migrate_keys_other [OF assms(1) 2(1) [unfolded migrate_lease_keys_def]
            target_prefix(1) assms(3)])
    moreover have "sdb_view S db2 x = sdb_view S db1 x"
      by (rule migrate_keys_other [OF assms(1) 2(2) [unfolded migrate_extension_keys_def]
            target_prefix(2) assms(4)])
    ultimately show ?thesis
      using db_put_Inr [OF assms(1) 2(3)] assms(5) by simp
  qed
qed

section \<open>Properties\<close>

text \<open>After a successful run the marker is present, and with the marker present the function changes
  nothing: the migration is idempotent.\<close>

lemma migrate_sets_marker:
  assumes "slatedb_ok S" and "migrate_key_encoding_if_needed S C db = (Inr u, db')"
  shows "sdb_view S db' (key_system SYSTEM_KEY_ENCODING_V020_MIGRATED) \<noteq> None"
  using assms(2)
  by (auto simp: migrate_key_encoding_if_needed_def Let_def bind_Inr split: if_splits
      dest!: db_get_Inr [OF assms(1)] db_put_Inr [OF assms(1)])

lemma migrate_noop:
  assumes "slatedb_ok S" and "sdb_view S db (key_system SYSTEM_KEY_ENCODING_V020_MIGRATED) \<noteq> None"
    and "migrate_key_encoding_if_needed S C db = (r, db')"
  shows "db' = db"
  using assms(2,3)
  by (auto simp: migrate_key_encoding_if_needed_def Let_def bind_def ret_def
      split: if_splits sum.splits dest!: db_get_Inr [OF assms(1)])

text \<open>The key migration puts every row where it belongs. Where the misplaced lease and extension
  rows have free and different target keys, a run that succeeds on a catalog without the marker
  leaves each decodable row under the key computed from its own fields and under no other, keeps the
  rows that do not decode, changes no other key, and sets the marker, with which every later run is a
  no-op.\<close>

theorem migration_places_rows:
  assumes "slatedb_ok S" and "migrate_key_encoding_if_needed S C db = (Inr u, db')"
    and "sdb_view S db (key_system SYSTEM_KEY_ENCODING_V020_MIGRATED) = None"
    and "rows_movable [TAG_SNAPSHOT_LEASE] (lease_target C) (sdb_view S db)"
    and "rows_movable [TAG_EXTENSION_SCHEMA] (extension_target C) (sdb_view S db)"
  shows "rows_placed [TAG_SNAPSHOT_LEASE] (lease_target C) (sdb_view S db) (sdb_view S db') \<and>
     rows_placed [TAG_EXTENSION_SCHEMA] (extension_target C) (sdb_view S db) (sdb_view S db') \<and>
     (\<forall>k. \<not> prefix [TAG_SNAPSHOT_LEASE] k \<and> \<not> prefix [TAG_EXTENSION_SCHEMA] k \<and>
        k \<noteq> key_system SYSTEM_KEY_ENCODING_V020_MIGRATED \<longrightarrow> sdb_view S db' k = sdb_view S db k) \<and>
     snd (migrate_key_encoding_if_needed S C db') = db'"
proof -
  let ?mk = "key_system SYSTEM_KEY_ENCODING_V020_MIGRATED"
  obtain db1 db2 where m: "migrate_lease_keys S C db = (Inr (), db1)"
      "migrate_extension_keys S C db1 = (Inr (), db2)"
      "db_put S ?mk (str_bytes ''1'') db2 = (Inr u, db')"
    using assms(2,3)
    by (auto simp: migrate_key_encoding_if_needed_def Let_def bind_Inr split: if_splits
        dest!: db_get_Inr [OF assms(1)])
  note ml = m(1) [unfolded migrate_lease_keys_def]
  note me = m(2) [unfolded migrate_extension_keys_def]
  have v': "sdb_view S db' = (sdb_view S db2)(?mk \<mapsto> str_bytes ''1'')"
    by (rule db_put_Inr [OF assms(1) m(3)])
  have tags: "prefix [TAG_SNAPSHOT_LEASE] k \<Longrightarrow> \<not> prefix [TAG_EXTENSION_SCHEMA] k \<and> k \<noteq> ?mk"
    "prefix [TAG_EXTENSION_SCHEMA] k \<Longrightarrow> \<not> prefix [TAG_SNAPSHOT_LEASE] k \<and> k \<noteq> ?mk" for k
    by (cases k; simp add: tag_defs key_simps)+
  have l1: "rows_placed [TAG_SNAPSHOT_LEASE] (lease_target C) (sdb_view S db) (sdb_view S db1)"
    by (rule migrate_keys_places [OF assms(1) ml target_prefix(1) assms(4)])
  have eq1: "sdb_view S db' k = sdb_view S db1 k" if "prefix [TAG_SNAPSHOT_LEASE] k" for k
    using migrate_keys_other [OF assms(1) me target_prefix(2), where x = k] tags(1) [OF that] v' by simp
  have eq0: "sdb_view S db1 k = sdb_view S db k" if "prefix [TAG_EXTENSION_SCHEMA] k" for k
    using migrate_keys_other [OF assms(1) ml target_prefix(1), where x = k] tags(2) [OF that] by simp
  have eq2: "sdb_view S db' k = sdb_view S db2 k" if "prefix [TAG_EXTENSION_SCHEMA] k" for k
    using tags(2) [OF that] v' by simp
  have e0: "rows_movable [TAG_EXTENSION_SCHEMA] (extension_target C) (sdb_view S db1)"
    by (rule rows_movable_cong [OF assms(5) eq0 target_prefix(2)])
  have e1: "rows_placed [TAG_EXTENSION_SCHEMA] (extension_target C) (sdb_view S db1) (sdb_view S db2)"
    by (rule migrate_keys_places [OF assms(1) me target_prefix(2) e0])
  show ?thesis
  proof (intro conjI allI impI)
    show "rows_placed [TAG_SNAPSHOT_LEASE] (lease_target C) (sdb_view S db) (sdb_view S db')"
      by (rule rows_placed_cong [OF l1 refl eq1 [symmetric] target_prefix(1)])
    show "rows_placed [TAG_EXTENSION_SCHEMA] (extension_target C) (sdb_view S db) (sdb_view S db')"
      by (rule rows_placed_cong [OF e1 eq0 eq2 [symmetric] target_prefix(2)])
    show "sdb_view S db' k = sdb_view S db k" if "\<not> prefix [TAG_SNAPSHOT_LEASE] k \<and>
        \<not> prefix [TAG_EXTENSION_SCHEMA] k \<and> k \<noteq> ?mk" for k
      using migrate_other [OF assms(1,2)] that by blast
    show "snd (migrate_key_encoding_if_needed S C db') = db'"
      using migrate_noop [OF assms(1) migrate_sets_marker [OF assms(1,2)]] by (metis prod.collapse)
  qed
qed

end
