(* ===== verification/Lease.thy ===== *)
theory Lease
  imports Transactions Codecs
begin

text \<open>
  \<open>crates/rocklake-catalog/src/lease.rs\<close>: snapshot leases. Lease rows are stored as bare protobuf,
  without the value envelope. The clock is an argument: \<open>None\<close> is a clock before the UNIX epoch,
  \<open>Some now_ms\<close> the time in milliseconds. \<open>dbg\<close> prints a key for the error message.
\<close>

section \<open>Operations\<close>

definition clock_ms :: "u64 option \<Rightarrow> CatalogError + u64" where
  "clock_ms now = ok_or (Internal ''system clock before UNIX epoch'') now"

definition lease_expiry :: "u64 \<Rightarrow> u64 \<Rightarrow> CatalogError + u64" where
  "lease_expiry now_ms ttl_seconds =
     rbind (ok_or (InvalidInput (''lease TTL overflow: '' @ show_u64 ttl_seconds @
         '' * 1000 exceeds u64::MAX'')) (checked_mul ttl_seconds 1000)) (\<lambda>ttl_ms.
       ok_or (InvalidInput (''lease expiry overflow: '' @ show_u64 now_ms @ '' + '' @
         show_u64 ttl_ms @ '' exceeds u64::MAX'')) (checked_add now_ms ttl_ms))"

definition hold_snapshot ::
  "'db slatedb \<Rightarrow> codecs \<Rightarrow> u64 option \<Rightarrow> string \<Rightarrow> u64 \<Rightarrow> u64 \<Rightarrow> ('db, SnapshotLeaseRow) cmd" where
  "hold_snapshot S C now consumer_id min_snapshot_id ttl_seconds =
     bind (lift (clock_ms now)) (\<lambda>now_ms.
     bind (lift (lease_expiry now_ms ttl_seconds)) (\<lambda>expires_at.
       let row = \<lparr>sl_consumer_id = consumer_id, sl_min_snapshot_id = min_snapshot_id,
                  sl_expires_at_unix_ms = expires_at\<rparr> in
       bind (lift (map_err KeyErr (key_snapshot_lease consumer_id))) (\<lambda>key.
       bind (db_put S key (encode_to_vec (pb_SnapshotLeaseRow C) row)) (\<lambda>_.
         ret row))))"

definition release_snapshot :: "'db slatedb \<Rightarrow> string \<Rightarrow> ('db, bool) cmd" where
  "release_snapshot S consumer_id =
     bind (lift (map_err KeyErr (key_snapshot_lease consumer_id))) (\<lambda>key.
     bind (\<lambda>db. (db_get S db key, db)) (\<lambda>existing.
     bind (db_delete S key) (\<lambda>_.
       ret (existing \<noteq> None))))"

definition lease_decoder :: "codecs \<Rightarrow> (bytes \<Rightarrow> string) \<Rightarrow> kv \<Rightarrow> CatalogError + SnapshotLeaseRow" where
  "lease_decoder C dbg kv =
     map_err (\<lambda>e. Internal (''corrupt snapshot lease row (key '' @ dbg (fst kv) @ ''): '' @ e))
       (pb_decode (pb_SnapshotLeaseRow C) (snd kv))"

definition list_active_leases ::
  "'db slatedb \<Rightarrow> codecs \<Rightarrow> (bytes \<Rightarrow> string) \<Rightarrow> u64 option \<Rightarrow> 'db
     \<Rightarrow> CatalogError + SnapshotLeaseRow list" where
  "list_active_leases S C dbg now db =
     rbind (clock_ms now) (\<lambda>now_ms.
     rbind (scan_rows S classify_slatedb_error (lease_decoder C dbg) db prefix_snapshot_leases
         (\<lambda>row. now_ms < sl_expires_at_unix_ms row)) (\<lambda>rows.
       Inr (map snd rows)))"

text \<open>\<open>Iterator::min\<close> over \<open>u64\<close>: \<open>None\<close> on the empty iterator.\<close>

definition iter_min :: "u64 list \<Rightarrow> u64 option" where
  "iter_min xs = (case xs of [] \<Rightarrow> None | x # ys \<Rightarrow> Some (foldl min x ys))"

definition minimum_leased_snapshot ::
  "'db slatedb \<Rightarrow> codecs \<Rightarrow> (bytes \<Rightarrow> string) \<Rightarrow> u64 option \<Rightarrow> 'db \<Rightarrow> CatalogError + u64 option" where
  "minimum_leased_snapshot S C dbg now db =
     rbind (list_active_leases S C dbg now db) (\<lambda>leases.
       Inr (iter_min (map sl_min_snapshot_id leases)))"

definition min_step :: "u64 option \<Rightarrow> u64 \<Rightarrow> u64 option" where
  "min_step acc x = (case acc of None \<Rightarrow> Some x | Some cur \<Rightarrow> Some (min cur x))"

definition minimum_leased_snapshot_in_tx ::
  "'db slatedb \<Rightarrow> codecs \<Rightarrow> (bytes \<Rightarrow> string) \<Rightarrow> u64 option \<Rightarrow> ('db transaction, u64 option) cmd" where
  "minimum_leased_snapshot_in_tx S C dbg now =
     bind (lift (clock_ms now)) (\<lambda>now_ms.
     bind (tx_scan_rows S (lease_decoder C dbg) prefix_snapshot_leases
         (\<lambda>row. now_ms < sl_expires_at_unix_ms row)) (\<lambda>rows.
       ret (foldl min_step None (map (sl_min_snapshot_id \<circ> snd) rows))))"

section \<open>Facts\<close>

lemma foldl_min_le: "foldl min x ys \<le> (x :: u64)"
proof (induction ys arbitrary: x)
  case (Cons a ys)
  show ?case using Cons.IH [of "min x a"] by simp
qed simp

lemma foldl_min_le_elem: "y \<in> set ys \<Longrightarrow> foldl min x ys \<le> (y :: u64)"
proof (induction ys arbitrary: x)
  case (Cons a ys)
  then show ?case using foldl_min_le [of "min x a" ys] by auto
qed simp

lemma foldl_min_in: "foldl min x ys \<in> insert (x :: u64) (set ys)"
  by (induction ys arbitrary: x) (auto simp: min_def split: if_splits)

lemma iter_min_None: "iter_min xs = None \<longleftrightarrow> xs = []"
  by (simp add: iter_min_def split: list.splits)

lemma iter_min_Some:
  "iter_min xs = Some m \<Longrightarrow> m \<in> set xs \<and> (\<forall>x\<in>set xs. m \<le> x)"
proof (cases xs)
  case (Cons a ys)
  assume "iter_min xs = Some m"
  then have m: "m = foldl min a ys"
    by (simp add: Cons iter_min_def)
  show ?thesis
    using foldl_min_in [of a ys] foldl_min_le [of a ys] foldl_min_le_elem [of _ ys a]
    by (simp add: Cons m)
qed (simp add: iter_min_def)

text \<open>The accumulator of the transactional variant computes the same minimum.\<close>

lemma foldl_min_step: "foldl min_step (Some a) xs = Some (foldl min a xs)"
  by (induction xs arbitrary: a) (auto simp: min_step_def)

lemma foldl_min_step_None: "foldl min_step None xs = iter_min xs"
  by (cases xs) (simp_all add: iter_min_def min_step_def foldl_min_step)

lemma lease_expiry_Inr:
  "lease_expiry now_ms ttl = Inr e \<longleftrightarrow> unat e = unat now_ms + unat ttl * 1000"
proof -
  have "lease_expiry now_ms ttl = Inr e \<longleftrightarrow>
      (\<exists>x :: u64. unat x = unat ttl * 1000 \<and> unat e = unat now_ms + unat x)"
    by (simp add: lease_expiry_def rbind_eq_Inr_iff checked_mul_Some_iff checked_add_Some_iff)
  also have "\<dots> \<longleftrightarrow> unat e = unat now_ms + unat ttl * 1000"
  proof
    assume h: "unat e = unat now_ms + unat ttl * 1000"
    then have "unat ttl * 1000 < 2 ^ 64"
      using unsigned_less [of e, where ?'a = nat] by simp
    then have "unat (of_nat (unat ttl * 1000) :: u64) = unat ttl * 1000"
      by (simp only: unat_of_nat) (simp add: take_bit_nat_eq_self_iff)
    with h show "\<exists>x :: u64. unat x = unat ttl * 1000 \<and> unat e = unat now_ms + unat x"
      by metis
  qed auto
  finally show ?thesis .
qed

end
