(* ===== verification/Gc.thy ===== *)
theory Gc
  imports Lease
begin

text \<open>
  \<open>crates/rocklake-catalog/src/gc.rs\<close>: visibility GC, which advances the \<open>retain-from\<close> floor. The
  cutoff time of a plan (\<open>chrono::Utc::now() - Duration::days(..)\<close> as RFC 3339 text) is an argument.
\<close>

section \<open>Keys and reads\<close>

record GcPlan =
  gp_current_retain_from :: u64
  gp_proposed_retain_from :: u64
  gp_snapshots_affected :: u64
  gp_pinned_snapshots :: "u64 list"

record GcApplyResult =
  gr_previous_retain_from :: u64
  gr_new_retain_from :: u64
  gr_snapshots_hidden :: u64

definition key_pinned_snapshot :: "u64 \<Rightarrow> bytes" where
  [key_simps]: "key_pinned_snapshot snapshot_id = [TAG_SYSTEM] @ str_bytes ''pinned:'' @ encode_u64 snapshot_id"

definition pinned_snapshot_prefix :: bytes where
  [key_simps]: "pinned_snapshot_prefix = [TAG_SYSTEM] @ str_bytes ''pinned:''"

definition read_retain_from :: "'db slatedb \<Rightarrow> 'db \<Rightarrow> CatalogError + u64" where
  "read_retain_from S db =
     rbind (db_get S db (key_system SYSTEM_RETAIN_FROM)) (\<lambda>d.
       case d of None \<Rightarrow> Inr 0 | Some data \<Rightarrow> map_err ValueErr (decode_counter data))"

definition read_latest_snapshot_id :: "'db slatedb \<Rightarrow> 'db \<Rightarrow> CatalogError + u64" where
  "read_latest_snapshot_id S db =
     rbind (db_get S db (key_counter COUNTER_NEXT_SNAPSHOT_ID)) (\<lambda>d.
       case d of None \<Rightarrow> Inr 0
       | Some data \<Rightarrow> rbind (map_err ValueErr (decode_counter data)) (\<lambda>nxt.
           Inr (if nxt > 0 then nxt - 1 else 0)))"

definition before_cutoff_step :: "string \<Rightarrow> u64 \<Rightarrow> u64 \<Rightarrow> SnapshotRow \<Rightarrow> u64" where
  "before_cutoff_step cutoff_time max_snapshot last_id row =
     (if sn_snapshot_id row \<le> max_snapshot \<and> sn_snapshot_time row < cutoff_time
         \<and> sn_snapshot_id row > last_id
      then sn_snapshot_id row else last_id)"

definition find_snapshot_before_time ::
  "'db slatedb \<Rightarrow> codecs \<Rightarrow> 'db \<Rightarrow> string \<Rightarrow> u64 \<Rightarrow> CatalogError + u64" where
  "find_snapshot_before_time S C db cutoff_time max_snapshot =
     rbind (scan_rows S classify_slatedb_error (row_decoder (pb_SnapshotRow C)) db
         (prefix_for_tag TAG_SNAPSHOT) (\<lambda>_. True)) (\<lambda>rows.
       Inr (foldl (before_cutoff_step cutoff_time max_snapshot) 0 (map snd rows)))"

definition read_pinned_snapshots :: "'db slatedb \<Rightarrow> 'db \<Rightarrow> CatalogError + u64 list" where
  "read_pinned_snapshots S db =
     rbind (scan_rows S classify_slatedb_error counter_decoder db pinned_snapshot_prefix (\<lambda>_. True))
       (\<lambda>rows. Inr (map snd rows))"

definition read_pinned_snapshots_in_tx :: "'db slatedb \<Rightarrow> ('db transaction, u64 list) cmd" where
  "read_pinned_snapshots_in_tx S =
     bind (tx_scan_rows S counter_decoder pinned_snapshot_prefix (\<lambda>_. True)) (\<lambda>rows.
       ret (map snd rows))"

definition is_within_retention :: "u64 \<Rightarrow> u64 \<Rightarrow> bool" where
  "is_within_retention snapshot_id retain_from \<longleftrightarrow> retain_from = 0 \<or> snapshot_id \<ge> retain_from"

section \<open>Plan and apply\<close>

definition gc_plan :: "'db slatedb \<Rightarrow> codecs \<Rightarrow> string \<Rightarrow> 'db \<Rightarrow> u64 \<Rightarrow> CatalogError + GcPlan" where
  "gc_plan S C cutoff_time db retention_days =
     rbind (read_retain_from S db) (\<lambda>current.
     rbind (read_latest_snapshot_id S db) (\<lambda>latest.
     rbind (if retention_days = 0 then Inr current
            else find_snapshot_before_time S C db cutoff_time latest) (\<lambda>proposed.
     let affected = saturating_sub proposed current in
     rbind (read_pinned_snapshots S db) (\<lambda>pinned.
     let effective = (case iter_min pinned of
           Some min_pin \<Rightarrow> if proposed \<ge> min_pin then saturating_sub min_pin 1 else proposed
         | None \<Rightarrow> proposed) in
       Inr \<lparr>gp_current_retain_from = current, gp_proposed_retain_from = effective,
            gp_snapshots_affected = affected, gp_pinned_snapshots = pinned\<rparr>))))"

text \<open>The second half of the loop body of \<open>gc_apply\<close>: the lease check and the write.\<close>

definition gc_apply_leases ::
  "'db slatedb \<Rightarrow> codecs \<Rightarrow> (bytes \<Rightarrow> string) \<Rightarrow> u64 option \<Rightarrow> u64 \<Rightarrow> u64
     \<Rightarrow> ('db transaction, GcApplyResult tx_end) cmd" where
  "gc_apply_leases S C dbg now new_retain_from current =
     bind (minimum_leased_snapshot_in_tx S C dbg now) (\<lambda>l.
     bind (case l of
         Some min_leased \<Rightarrow>
           if new_retain_from > min_leased
           then fail (PinnedSnapshotBlocks min_leased new_retain_from) else ret ()
       | None \<Rightarrow> ret ()) (\<lambda>_.
     bind (tx_put S (key_system SYSTEM_RETAIN_FROM) (encode_counter new_retain_from)) (\<lambda>_.
       ret (Commit \<lparr>gr_previous_retain_from = current, gr_new_retain_from = new_retain_from,
                    gr_snapshots_hidden = new_retain_from - current\<rparr>))))"

definition gc_apply_body ::
  "'db slatedb \<Rightarrow> codecs \<Rightarrow> (bytes \<Rightarrow> string) \<Rightarrow> u64 option \<Rightarrow> u64
     \<Rightarrow> ('db transaction, GcApplyResult tx_end) cmd" where
  "gc_apply_body S C dbg now new_retain_from =
     bind (tx_get S (key_system SYSTEM_RETAIN_FROM)) (\<lambda>d.
     bind (case d of None \<Rightarrow> ret 0 | Some data \<Rightarrow> lift (map_err ValueErr (decode_counter data)))
       (\<lambda>current.
     if new_retain_from \<le> current then
       ret (Rollback \<lparr>gr_previous_retain_from = current, gr_new_retain_from = current,
                      gr_snapshots_hidden = 0\<rparr>)
     else
       bind (read_pinned_snapshots_in_tx S) (\<lambda>pinned.
       case iter_min pinned of
         Some min_pin \<Rightarrow>
           if new_retain_from \<ge> min_pin then fail (PinnedSnapshotBlocks min_pin new_retain_from)
           else gc_apply_leases S C dbg now new_retain_from current
       | None \<Rightarrow> gc_apply_leases S C dbg now new_retain_from current)))"

definition gc_apply ::
  "'db slatedb \<Rightarrow> codecs \<Rightarrow> (bytes \<Rightarrow> string) \<Rightarrow> u64 option \<Rightarrow> u64 \<Rightarrow> ('db \<Rightarrow> 'db) list \<Rightarrow> 'db
     \<Rightarrow> (CatalogError + GcApplyResult) option \<times> 'db" where
  "gc_apply S C dbg now new_retain_from envs db =
     retry_tx S (gc_apply_body S C dbg now new_retain_from) envs db"

definition pin_snapshot :: "'db slatedb \<Rightarrow> u64 \<Rightarrow> ('db, unit) cmd" where
  "pin_snapshot S snapshot_id =
     db_put S (key_pinned_snapshot snapshot_id) (encode_counter snapshot_id)"

definition unpin_snapshot :: "'db slatedb \<Rightarrow> u64 \<Rightarrow> ('db, unit) cmd" where
  "unpin_snapshot S snapshot_id = db_delete S (key_pinned_snapshot snapshot_id)"

section \<open>Facts\<close>

text \<open>The floor, the pins and the active leases of a database content.\<close>

definition retain_from_of :: "(bytes \<Rightarrow> bytes option) \<Rightarrow> u64 \<Rightarrow> bool" where
  "retain_from_of m r \<longleftrightarrow>
     (case m (key_system SYSTEM_RETAIN_FROM) of None \<Rightarrow> r = 0 | Some d \<Rightarrow> decode_counter d = Inr r)"

definition pinned_in :: "(bytes \<Rightarrow> bytes option) \<Rightarrow> u64 \<Rightarrow> bool" where
  "pinned_in m p \<longleftrightarrow>
     (\<exists>k d. prefix pinned_snapshot_prefix k \<and> m k = Some d \<and> decode_counter d = Inr p)"

definition leased_in :: "codecs \<Rightarrow> u64 \<Rightarrow> (bytes \<Rightarrow> bytes option) \<Rightarrow> u64 \<Rightarrow> bool" where
  "leased_in C now_ms m s \<longleftrightarrow>
     (\<exists>k d row. prefix prefix_snapshot_leases k \<and> m k = Some d \<and>
        pb_decode (pb_SnapshotLeaseRow C) d = Inr row \<and> now_ms < sl_expires_at_unix_ms row \<and>
        sl_min_snapshot_id row = s)"

lemma minimum_leased_snapshot_in_tx_Inr:
  assumes "slatedb_ok S" and "minimum_leased_snapshot_in_tx S C dbg now t = (Inr l, t')"
  shows "\<exists>now_ms. now = Some now_ms \<and>
     (\<forall>s. leased_in C now_ms (apply_log (tx_log t) (sdb_view S (tx_snap t))) s \<longrightarrow>
        (\<exists>m. l = Some m \<and> m \<le> s)) \<and>
     t' = t\<lparr>tx_log := tx_log t @ [TxScan prefix_snapshot_leases]\<rparr>"
proof -
  let ?m = "apply_log (tx_log t) (sdb_view S (tx_snap t))"
  obtain now_ms rows where now: "now = Some now_ms"
    and sc: "tx_scan_rows S (lease_decoder C dbg) prefix_snapshot_leases
         (\<lambda>row. now_ms < sl_expires_at_unix_ms row) t = (Inr rows, t')"
    and l: "l = iter_min (map (sl_min_snapshot_id \<circ> snd) rows)"
    using assms(2)
    by (auto simp: minimum_leased_snapshot_in_tx_def bind_Inr clock_ms_def foldl_min_step_None)
  note r = tx_scan_rows_Inr [OF assms(1) sc]
  have "\<exists>m. l = Some m \<and> m \<le> s" if lsd: "leased_in C now_ms ?m s" for s
  proof -
    obtain k d row where "prefix prefix_snapshot_leases k" "?m k = Some d"
      "pb_decode (pb_SnapshotLeaseRow C) d = Inr row" "now_ms < sl_expires_at_unix_ms row"
      and s: "sl_min_snapshot_id row = s"
      using lsd by (auto simp: leased_in_def)
    then have "(k, row) \<in> set rows"
      using rows_under_set [OF r(1)] by (auto simp: lease_decoder_def)
    then have mem: "s \<in> set (map (sl_min_snapshot_id \<circ> snd) rows)"
      using s by force
    then have "l \<noteq> None"
      unfolding l by (metis iter_min_None length_pos_if_in_set less_numeral_extra(3) list.size(3))
    then obtain m where m: "l = Some m"
      by auto
    then have "m \<le> s"
      using iter_min_Some [OF m [unfolded l]] mem by blast
    with m show ?thesis by blast
  qed
  then show ?thesis
    using now r(2) by blast
qed

lemma read_pinned_snapshots_in_tx_Inr:
  assumes "slatedb_ok S" and "read_pinned_snapshots_in_tx S t = (Inr ps, t')"
  shows "(\<forall>p. pinned_in (apply_log (tx_log t) (sdb_view S (tx_snap t))) p \<longleftrightarrow> p \<in> set ps) \<and>
     t' = t\<lparr>tx_log := tx_log t @ [TxScan pinned_snapshot_prefix]\<rparr>"
proof -
  obtain rows where sc: "tx_scan_rows S counter_decoder pinned_snapshot_prefix (\<lambda>_. True) t =
      (Inr rows, t')" and ps: "ps = map snd rows"
    using assms(2) by (auto simp: read_pinned_snapshots_in_tx_def bind_Inr)
  note r = tx_scan_rows_Inr [OF assms(1) sc]
  have "p \<in> set ps \<longleftrightarrow> (\<exists>k. (k, p) \<in> set rows)" for p
    by (force simp: ps)
  then show ?thesis
    using rows_under_set [OF r(1)] r(2) by (auto simp: pinned_in_def counter_decoder_def)
qed

lemma gc_apply_body_keeps_snap: "keeps_snap (gc_apply_body S C dbg now n)"
  unfolding gc_apply_body_def gc_apply_leases_def read_pinned_snapshots_in_tx_def
    minimum_leased_snapshot_in_tx_def
  by (auto intro!: keeps_snap_bind split: option.splits)

text \<open>What a body that goes on to commit has read and writes.\<close>

lemma gc_apply_leases_Commit:
  assumes "slatedb_ok S" and "gc_apply_leases S C dbg now n cur t = (Inr (Commit r), t')"
  shows "\<exists>now_ms. now = Some now_ms \<and>
     (\<forall>s. leased_in C now_ms (apply_log (tx_log t) (sdb_view S (tx_snap t))) s \<longrightarrow> n \<le> s) \<and>
     r = \<lparr>gr_previous_retain_from = cur, gr_new_retain_from = n, gr_snapshots_hidden = n - cur\<rparr> \<and>
     t' = t\<lparr>tx_log := tx_log t @ [TxScan prefix_snapshot_leases,
               TxPut (key_system SYSTEM_RETAIN_FROM) (encode_counter n)]\<rparr>"
proof -
  obtain l t1 t2 where m: "minimum_leased_snapshot_in_tx S C dbg now t = (Inr l, t1)"
    and g: "(case l of Some ml \<Rightarrow> if n > ml then fail (PinnedSnapshotBlocks ml n) else ret ()
       | None \<Rightarrow> ret ()) t1 = (Inr (), t2)"
    and p: "tx_put S (key_system SYSTEM_RETAIN_FROM) (encode_counter n) t2 = (Inr (), t')"
    and r: "r = \<lparr>gr_previous_retain_from = cur, gr_new_retain_from = n,
        gr_snapshots_hidden = n - cur\<rparr>"
    using assms(2) by (auto simp: gc_apply_leases_def bind_Inr)
  obtain now_ms where now: "now = Some now_ms"
    and ls: "\<forall>s. leased_in C now_ms (apply_log (tx_log t) (sdb_view S (tx_snap t))) s \<longrightarrow>
        (\<exists>m. l = Some m \<and> m \<le> s)"
    and t1: "t1 = t\<lparr>tx_log := tx_log t @ [TxScan prefix_snapshot_leases]\<rparr>"
    using minimum_leased_snapshot_in_tx_Inr [OF assms(1) m] by blast
  have t2: "t2 = t1" and le: "\<forall>ml. l = Some ml \<longrightarrow> n \<le> ml"
    using g by (auto split: option.splits if_splits)
  have "\<forall>s. leased_in C now_ms (apply_log (tx_log t) (sdb_view S (tx_snap t))) s \<longrightarrow> n \<le> s"
    using ls le by (meson order_trans)
  with now r p t2 show ?thesis
    by (simp add: t1)
qed

lemma gc_apply_body_Commit:
  assumes "slatedb_ok S" and "gc_apply_body S C dbg now n t = (Inr (Commit r), t')"
    and "tx_log t = []"
  shows "\<exists>now_ms cur. now = Some now_ms \<and> retain_from_of (sdb_view S (tx_snap t)) cur \<and> cur < n \<and>
     (\<forall>p. pinned_in (sdb_view S (tx_snap t)) p \<longrightarrow> n < p) \<and>
     (\<forall>s. leased_in C now_ms (sdb_view S (tx_snap t)) s \<longrightarrow> n \<le> s) \<and>
     r = \<lparr>gr_previous_retain_from = cur, gr_new_retain_from = n, gr_snapshots_hidden = n - cur\<rparr> \<and>
     t' = t\<lparr>tx_log := [TxGet (key_system SYSTEM_RETAIN_FROM), TxScan pinned_snapshot_prefix,
               TxScan prefix_snapshot_leases,
               TxPut (key_system SYSTEM_RETAIN_FROM) (encode_counter n)]\<rparr>"
proof -
  let ?m = "sdb_view S (tx_snap t)"
  obtain d t1 where g: "tx_get S (key_system SYSTEM_RETAIN_FROM) t = (Inr d, t1)"
    using assms(2) by (auto simp: gc_apply_body_def bind_Inr)
  note g' = tx_get_Inr [OF assms(1) g]
  have dd: "?m (key_system SYSTEM_RETAIN_FROM) = d"
    using g' assms(3) by simp
  let ?rest = "\<lambda>cur. bind (read_pinned_snapshots_in_tx S) (\<lambda>pinned.
       case iter_min pinned of
         Some min_pin \<Rightarrow>
           if n \<ge> min_pin then fail (PinnedSnapshotBlocks min_pin n)
           else gc_apply_leases S C dbg now n cur
       | None \<Rightarrow> gc_apply_leases S C dbg now n cur)"
  obtain cur where cur: "retain_from_of ?m cur" "cur < n" and rest: "?rest cur t1 = (Inr (Commit r), t')"
    using assms(2) g dd
    by (cases d) (auto simp: gc_apply_body_def bind_Inr retain_from_of_def not_le word_neq_0_conv
        simp del: word_gt_0 split: if_splits)
  then obtain pinned t2 where p: "read_pinned_snapshots_in_tx S t1 = (Inr pinned, t2)"
    and "(case iter_min pinned of
         Some min_pin \<Rightarrow>
           if n \<ge> min_pin then fail (PinnedSnapshotBlocks min_pin n)
           else gc_apply_leases S C dbg now n cur
       | None \<Rightarrow> gc_apply_leases S C dbg now n cur) t2 = (Inr (Commit r), t')"
    by (auto simp: bind_Inr)
  then have min: "\<forall>mp. iter_min pinned = Some mp \<longrightarrow> n < mp"
    and l: "gc_apply_leases S C dbg now n cur t2 = (Inr (Commit r), t')"
    by (auto simp: iter_min_def split: option.splits if_splits list.splits)
  note p' = read_pinned_snapshots_in_tx_Inr [OF assms(1) p]
  have pins: "n < q" if "pinned_in ?m q" for q
  proof -
    have "q \<in> set pinned"
      using that p' g' assms(3) by simp
    then show ?thesis
      using min iter_min_Some [of pinned] by (cases "iter_min pinned") (auto simp: iter_min_None intro: less_le_trans)
  qed
  show ?thesis
    using gc_apply_leases_Commit [OF assms(1) l] cur pins p' g' assms(3) by auto
qed

lemma gc_apply_body_Rollback:
  assumes "slatedb_ok S" and "gc_apply_body S C dbg now n t = (Inr (Rollback r), t')"
    and "tx_log t = []"
  shows "\<exists>cur. retain_from_of (sdb_view S (tx_snap t)) cur \<and> n \<le> cur \<and>
     r = \<lparr>gr_previous_retain_from = cur, gr_new_retain_from = cur, gr_snapshots_hidden = 0\<rparr>"
proof -
  obtain d t1 where g: "tx_get S (key_system SYSTEM_RETAIN_FROM) t = (Inr d, t1)"
    using assms(2) by (auto simp: gc_apply_body_def bind_Inr)
  have dd: "sdb_view S (tx_snap t) (key_system SYSTEM_RETAIN_FROM) = d"
    using tx_get_Inr [OF assms(1) g] assms(3) by simp
  show ?thesis
    using assms(2) g dd
    by (cases d) (auto simp: gc_apply_body_def gc_apply_leases_def bind_Inr retain_from_of_def
        split: if_splits option.splits)
qed

text \<open>A successful run against processes that keep \<open>Q\<close>, a property of the content that does not
  depend on the floor: the content \<open>m\<close> it commits on satisfies \<open>Q\<close>.\<close>

definition gc_advanced ::
  "codecs \<Rightarrow> u64 option \<Rightarrow> u64 \<Rightarrow> (bytes \<Rightarrow> bytes option) \<Rightarrow> GcApplyResult \<Rightarrow> bool" where
  "gc_advanced C now n m r \<longleftrightarrow>
     (\<exists>now_ms. now = Some now_ms \<and> (\<forall>s. leased_in C now_ms m s \<longrightarrow> n \<le> s)) \<and>
     (\<forall>p. pinned_in m p \<longrightarrow> n < p) \<and>
     retain_from_of m (gr_previous_retain_from r) \<and> gr_previous_retain_from r < n \<and>
     gr_new_retain_from r = n \<and>
     unat (gr_snapshots_hidden r) = unat n - unat (gr_previous_retain_from r)"

definition gc_unchanged :: "u64 \<Rightarrow> (bytes \<Rightarrow> bytes option) \<Rightarrow> GcApplyResult \<Rightarrow> bool" where
  "gc_unchanged n m r \<longleftrightarrow> n \<le> gr_previous_retain_from r \<and>
     gr_new_retain_from r = gr_previous_retain_from r \<and> gr_snapshots_hidden r = 0 \<and>
     retain_from_of m (gr_previous_retain_from r)"

lemma gc_apply_attempt:
  assumes "slatedb_ok S" and "run_tx S (gc_apply_body S C dbg now n) env db = (TxDone (Inr r), db')"
  shows "(db' = db \<and> gc_unchanged n (sdb_view S db) r) \<or>
     (gc_advanced C now n (sdb_view S (env db)) r \<and>
      sdb_view S db' = (sdb_view S (env db))(key_system SYSTEM_RETAIN_FROM \<mapsto> encode_counter n))"
  using assms(2)
proof (cases rule: run_tx_Inr [OF assms(1), consumes 1, case_names Rollback Commit])
  case (Rollback t t')
  then show ?thesis
    using gc_apply_body_Rollback [OF assms(1) Rollback(3,2)] by (auto simp: gc_unchanged_def)
next
  case (Commit t t')
  let ?rk = "key_system SYSTEM_RETAIN_FROM"
  let ?m = "sdb_view S (tx_snap t)" and ?m' = "sdb_view S (env db)"
  obtain now_ms cur where h: "now = Some now_ms" "retain_from_of ?m cur" "cur < n"
    "\<forall>p. pinned_in ?m p \<longrightarrow> n < p" "\<forall>s. leased_in C now_ms ?m s \<longrightarrow> n \<le> s"
    "r = \<lparr>gr_previous_retain_from = cur, gr_new_retain_from = n, gr_snapshots_hidden = n - cur\<rparr>"
    "t' = t\<lparr>tx_log := [TxGet ?rk, TxScan pinned_snapshot_prefix,
             TxScan prefix_snapshot_leases, TxPut ?rk (encode_counter n)]\<rparr>"
    using gc_apply_body_Commit [OF assms(1) Commit(3,2)] by blast
  have "?m ?rk = ?m' ?rk"
    and "\<And>k. prefix pinned_snapshot_prefix k \<Longrightarrow> ?m k = ?m' k"
    and "\<And>k. prefix prefix_snapshot_leases k \<Longrightarrow> ?m k = ?m' k"
    using Commit(5) h(7) by (auto simp: reads_agree_def)
  then have "retain_from_of ?m' cur" "\<forall>p. pinned_in ?m' p \<longrightarrow> n < p"
    "\<forall>s. leased_in C now_ms ?m' s \<longrightarrow> n \<le> s"
    using h(2,4,5) unfolding retain_from_of_def pinned_in_def leased_in_def by metis+
  moreover have "unat (n - cur) = unat n - unat cur"
    using h(3) by (simp add: unat_sub)
  moreover have "sdb_view S db' = ?m'(?rk \<mapsto> encode_counter n)"
    using Commit(4) h(7) by simp
  ultimately show ?thesis
    using h(1,3,6) by (auto simp: gc_advanced_def)
qed

lemma gc_apply_loop:
  assumes "slatedb_ok S" and "gc_apply S C dbg now n envs db = (Some (Inr r), db')"
    and "Q (sdb_view S db)" and "\<forall>env\<in>set envs. kept_by S Q env"
    and "\<And>m x. Q m \<Longrightarrow> Q (m(key_system SYSTEM_RETAIN_FROM \<mapsto> x))"
  shows "gc_unchanged n (sdb_view S db') r \<or>
     (\<exists>m. Q m \<and> gc_advanced C now n m r \<and>
        sdb_view S db' = m(key_system SYSTEM_RETAIN_FROM \<mapsto> encode_counter n))"
proof -
  have "\<exists>env db0. env \<in> set envs \<and> Q (sdb_view S db0) \<and>
      run_tx S (gc_apply_body S C dbg now n) env db0 = (TxDone (Inr r), db')"
  proof (rule retry_tx_keeps [OF assms(1,4) _ assms(2) [unfolded gc_apply_def] assms(3)])
    fix t t' x m
    assume c: "gc_apply_body S C dbg now n t = (Inr (Commit x), t')" "tx_log t = []" and "Q m"
    obtain ops where "t' = t\<lparr>tx_log := ops\<rparr>" "ops = [TxGet (key_system SYSTEM_RETAIN_FROM),
        TxScan pinned_snapshot_prefix, TxScan prefix_snapshot_leases,
        TxPut (key_system SYSTEM_RETAIN_FROM) (encode_counter n)]"
      using gc_apply_body_Commit [OF assms(1) c] by blast
    then show "Q (apply_log (tx_log t') m)"
      using assms(5) [OF \<open>Q m\<close>] by simp
  qed
  then obtain env db0 where e: "env \<in> set envs" "Q (sdb_view S db0)"
    and run: "run_tx S (gc_apply_body S C dbg now n) env db0 = (TxDone (Inr r), db')"
    by blast
  then have "Q (sdb_view S (env db0))" using assms(4) by (auto simp: kept_by_def)
  then show ?thesis
    using gc_apply_attempt [OF assms(1) run] by blast
qed

section \<open>Properties\<close>





text \<open>A plan never proposes a floor that \<open>gc_apply\<close> would refuse because of a pin: the proposed
  floor is below every pinned snapshot (or zero), and it does not exceed the time-based proposal.\<close>

theorem gc_plan_respects_pins:
  assumes "slatedb_ok S" and "gc_plan S C cutoff db days = Inr plan"
    and "pinned_in (sdb_view S db) p" and "p > 0"
  shows "gp_proposed_retain_from plan < p"
proof -
  obtain current latest proposed pinned where
    rp: "read_pinned_snapshots S db = Inr pinned"
    and plan: "gp_proposed_retain_from plan = (case iter_min pinned of
           Some min_pin \<Rightarrow> if proposed \<ge> min_pin then saturating_sub min_pin 1 else proposed
         | None \<Rightarrow> proposed)"
    using assms(2) by (auto simp: gc_plan_def rbind_eq_Inr_iff Let_def)
  obtain rows where sc: "scan_rows S classify_slatedb_error counter_decoder db
      pinned_snapshot_prefix (\<lambda>_. True) = Inr rows" and ps: "pinned = map snd rows"
    using rp by (auto simp: read_pinned_snapshots_def rbind_eq_Inr_iff)
  have "p \<in> set pinned"
    using assms(3) rows_under_set [OF scan_rows_Inr [OF assms(1) sc]]
    by (force simp: ps pinned_in_def counter_decoder_def)
  then obtain mp where mp: "iter_min pinned = Some mp" "mp \<le> p"
    using iter_min_Some [of pinned] by (cases "iter_min pinned") (auto simp: iter_min_None)
  show ?thesis
  proof (cases "proposed \<ge> mp")
    case True
    have "unat (saturating_sub mp 1) < unat p"
      using mp(2) assms(4) by (auto simp: unat_saturating_sub word_le_nat_alt word_less_nat_alt)
    then show ?thesis using plan mp True by (simp add: word_less_nat_alt)
  next
    case False
    then show ?thesis using plan mp by (simp add: less_le_trans)
  qed
qed

end
