(* ===== verification/Catalog_Store.thy ===== *)
theory Catalog_Store
  imports Snapshot_Commit Catalog_Reader Key_Migration Gc
begin

text \<open>
  \<open>crates/rocklake-catalog/src/store.rs\<close>: opening a catalog with its writer epoch, readers and
  writers of a store. The record holds the fields of \<open>CatalogStore\<close> that are data; the database the
  handle points to is the state of the commands. The opened \<open>Db\<close> (with or without block encryption) and
  the object store handle are outside the model.
\<close>

record CatalogStore =
  cs_counters :: CounterCache
  cs_writer_epoch :: u64
  cs_writer_nonce :: string
  cs_schema_version :: u64
  cs_retain_from_cache :: u64

record CatalogReader =
  rd_dl_snapshot_id :: SnapshotId

section \<open>Opening\<close>

definition acquire_epoch_body ::
  "'db slatedb \<Rightarrow> string \<Rightarrow> ('db transaction, u64 tx_end) cmd" where
  "acquire_epoch_body S writer_nonce =
     bind (tx_get S (key_system SYSTEM_WRITER_EPOCH)) (\<lambda>d.
     bind (case d of Some data \<Rightarrow> lift (map_err ValueErr (decode_counter data)) | None \<Rightarrow> ret 0)
       (\<lambda>current_epoch.
     bind (lift (ok_or (Internal ''writer epoch counter overflow'') (checked_add current_epoch 1)))
       (\<lambda>new_epoch.
     bind (tx_put S (key_system SYSTEM_WRITER_EPOCH) (encode_counter new_epoch)) (\<lambda>_.
     bind (tx_put S (key_system SYSTEM_WRITER_NONCE) (str_bytes writer_nonce)) (\<lambda>_.
       ret (Commit new_epoch))))))"

definition load_schema_version :: "'db slatedb \<Rightarrow> codecs \<Rightarrow> 'db \<Rightarrow> CounterCache \<Rightarrow> u64" where
  "load_schema_version S C db counters =
     (if peek_snapshot_id counters > 1 then
        (case sdb_get S db (key_snapshot (peek_snapshot_id counters - 1)) of
           Inr (Some data) \<Rightarrow>
             (case decode_value (pb_SnapshotRow C) data of
                Inr row \<Rightarrow> sn_schema_version row | Inl _ \<Rightarrow> 0)
         | _ \<Rightarrow> 0)
      else 0)"

text \<open>\<open>CatalogStore::open\<close> on an opened database: \<open>env\<close> is what other processes do during the
  initialization transaction, \<open>envs\<close> during the attempts of the epoch loop.\<close>

definition open_store ::
  "'db slatedb \<Rightarrow> codecs \<Rightarrow> string \<Rightarrow> ('db \<Rightarrow> 'db) \<Rightarrow> ('db \<Rightarrow> 'db) list \<Rightarrow> 'db
     \<Rightarrow> (CatalogError + CatalogStore) option \<times> 'db" where
  "open_store S C writer_nonce env envs db =
     (case initialize_catalog S env db of
        (Inl e, db1) \<Rightarrow> (Some (Inl e), db1)
      | (Inr counters, db1) \<Rightarrow>
          (case migrate_key_encoding_if_needed S C db1 of
             (Inl e, db2) \<Rightarrow> (Some (Inl e), db2)
           | (Inr _, db2) \<Rightarrow>
               (case retry_tx S (acquire_epoch_body S writer_nonce) envs db2 of
                  (None, db3) \<Rightarrow> (None, db3)
                | (Some (Inl e), db3) \<Rightarrow> (Some (Inl e), db3)
                | (Some (Inr writer_epoch), db3) \<Rightarrow>
                    (Some (Inr
                       \<lparr>cs_counters = counters, cs_writer_epoch = writer_epoch,
                        cs_writer_nonce = writer_nonce,
                        cs_schema_version = load_schema_version S C db3 counters,
                        cs_retain_from_cache =
                          (case read_retain_from S db3 of Inl _ \<Rightarrow> 0 | Inr r \<Rightarrow> r)\<rparr>), db3))))"

section \<open>Readers and writers\<close>

definition read_at :: "CatalogStore \<Rightarrow> SnapshotId \<Rightarrow> CatalogError + CatalogReader" where
  "read_at st dl_snapshot_id =
     (let retain_from = cs_retain_from_cache st in
      if retain_from > 0 \<and> as_u64 dl_snapshot_id < retain_from
      then Inl (SnapshotOutOfRetention (as_u64 dl_snapshot_id) retain_from)
      else Inr \<lparr>rd_dl_snapshot_id = dl_snapshot_id\<rparr>)"

definition read_latest :: "CatalogStore \<Rightarrow> CatalogReader" where
  "read_latest st =
     (let latest = (if peek_snapshot_id (cs_counters st) > 1
                    then peek_snapshot_id (cs_counters st) - 1 else 0)
      in \<lparr>rd_dl_snapshot_id = SnapshotId_new latest\<rparr>)"

definition read_fresh_latest :: "'db slatedb \<Rightarrow> 'db \<Rightarrow> CatalogError + CatalogReader" where
  "read_fresh_latest S db =
     rbind (db_get S db (key_counter COUNTER_NEXT_SNAPSHOT_ID)) (\<lambda>d.
     rbind (case d of
         Some data \<Rightarrow> rbind (map_err ValueErr (decode_counter data)) (\<lambda>nxt.
           Inr (saturating_sub nxt 1))
       | None \<Rightarrow> Inr 0) (\<lambda>latest.
       Inr \<lparr>rd_dl_snapshot_id = SnapshotId_new latest\<rparr>))"

definition update_retain_from_cache :: "u64 \<Rightarrow> CatalogStore \<Rightarrow> CatalogStore" where
  "update_retain_from_cache new_retain_from st = st\<lparr>cs_retain_from_cache := new_retain_from\<rparr>"

definition begin_write :: "CatalogStore \<Rightarrow> CatalogWriter" where
  "begin_write st =
     CatalogWriter_new
       (CounterCache_new (peek_snapshot_id (cs_counters st)) (peek_catalog_id (cs_counters st))
          (peek_file_id (cs_counters st)))
       (cs_writer_epoch st) (cs_writer_nonce st) (cs_schema_version st)"

definition commit_writer :: "CommitResult \<Rightarrow> CatalogStore \<Rightarrow> CatalogStore" where
  "commit_writer result st =
     st\<lparr>cs_counters := sync_from (cmr_next_snapshot_id result) (cmr_next_catalog_id result)
           (cmr_next_file_id result) (cs_counters st),
        cs_schema_version := cmr_schema_version result\<rparr>"

section \<open>Facts\<close>

text \<open>The epoch stored in a database content, zero when there is none.\<close>

definition stored_epoch :: "(bytes \<Rightarrow> bytes option) \<Rightarrow> u64 \<Rightarrow> bool" where
  "stored_epoch m e \<longleftrightarrow>
     (case m (key_system SYSTEM_WRITER_EPOCH) of None \<Rightarrow> e = 0 | Some d \<Rightarrow> decode_counter d = Inr e)"

lemma acquire_epoch_keeps_snap: "keeps_snap (acquire_epoch_body S nonce)"
  unfolding acquire_epoch_body_def by (auto intro!: keeps_snap_bind split: option.splits)

lemma acquire_epoch_Inr:
  assumes "slatedb_ok S" and "acquire_epoch_body S nonce t = (Inr x, t')" and "tx_log t = []"
  shows "\<exists>a b. x = Commit b \<and> stored_epoch (sdb_view S (tx_snap t)) a \<and> unat b = unat a + 1 \<and>
     t' = t\<lparr>tx_log := [TxGet (key_system SYSTEM_WRITER_EPOCH),
              TxPut (key_system SYSTEM_WRITER_EPOCH) (encode_counter b),
              TxPut (key_system SYSTEM_WRITER_NONCE) (str_bytes nonce)]\<rparr>"
proof -
  obtain d t1 where g: "tx_get S (key_system SYSTEM_WRITER_EPOCH) t = (Inr d, t1)"
    using assms(2) by (auto simp: acquire_epoch_body_def bind_Inr)
  have d: "sdb_view S (tx_snap t) (key_system SYSTEM_WRITER_EPOCH) = d"
    and t1: "t1 = t\<lparr>tx_log := [TxGet (key_system SYSTEM_WRITER_EPOCH)]\<rparr>"
    using tx_get_Inr [OF assms(1) g] assms(3) by simp_all
  show ?thesis
    using assms(2) g d t1
    by (cases d) (auto simp: acquire_epoch_body_def bind_Inr stored_epoch_def checked_add_Some_iff)
qed

lemma system_keys_differ:
  "key_system SYSTEM_WRITER_NONCE \<noteq> key_system SYSTEM_WRITER_EPOCH"
  "key_system SYSTEM_WRITER_EPOCH \<noteq> key_system SYSTEM_WRITER_NONCE"
  by (simp_all add: key_system_def SYSTEM_WRITER_NONCE_def SYSTEM_WRITER_EPOCH_def)

text \<open>Other processes may only raise the stored epoch.\<close>

definition epoch_at_least :: "u64 \<Rightarrow> (bytes \<Rightarrow> bytes option) \<Rightarrow> bool" where
  "epoch_at_least a m \<longleftrightarrow> (\<exists>b. stored_epoch m b \<and> a \<le> b)"

lemma stored_epoch_unique: "stored_epoch m a \<Longrightarrow> stored_epoch m b \<Longrightarrow> a = b"
  by (auto simp: stored_epoch_def split: option.splits)

lemma acquire_epoch_commit_state:
  assumes "slatedb_ok S" and "run_tx S (acquire_epoch_body S nonce) env db0 = (TxDone (Inr b), db')"
  shows "\<exists>a. stored_epoch (sdb_view S (env db0)) a \<and> unat b = unat a + 1 \<and>
     sdb_view S db' = (sdb_view S (env db0))(key_system SYSTEM_WRITER_EPOCH \<mapsto> encode_counter b,
                        key_system SYSTEM_WRITER_NONCE \<mapsto> str_bytes nonce)"
  using assms(2)
proof (cases rule: run_tx_Inr [OF assms(1), consumes 1, case_names Rollback Commit])
  case (Rollback t t')
  then show ?thesis using acquire_epoch_Inr [OF assms(1) Rollback(3,2)] by auto
next
  case (Commit t t')
  obtain a where a: "stored_epoch (sdb_view S (tx_snap t)) a" "unat b = unat a + 1"
    "t' = t\<lparr>tx_log := [TxGet (key_system SYSTEM_WRITER_EPOCH),
            TxPut (key_system SYSTEM_WRITER_EPOCH) (encode_counter b),
            TxPut (key_system SYSTEM_WRITER_NONCE) (str_bytes nonce)]\<rparr>"
    using acquire_epoch_Inr [OF assms(1) Commit(3,2)] by auto
  moreover have "stored_epoch (sdb_view S (env db0)) a"
    using a Commit(5) by (simp add: reads_agree_def stored_epoch_def)
  ultimately show ?thesis
    using Commit(4) by auto
qed

text \<open>A property of the content that the concurrent steps keep and that does not depend on the two
  epoch keys survives the epoch loop; so does a lower bound of the epoch.\<close>

lemma acquire_epoch_loop:
  assumes "slatedb_ok S" and "retry_tx S (acquire_epoch_body S nonce) envs db = (Some (Inr b), db')"
    and "Q (sdb_view S db)" and "\<forall>env\<in>set envs. kept_by S Q env"
    and "\<And>m a x. Q m \<Longrightarrow> stored_epoch m a \<Longrightarrow> unat x = unat a + 1 \<Longrightarrow>
        Q (m(key_system SYSTEM_WRITER_EPOCH \<mapsto> encode_counter x,
             key_system SYSTEM_WRITER_NONCE \<mapsto> str_bytes nonce))"
  shows "\<exists>m a. Q m \<and> stored_epoch m a \<and> unat b = unat a + 1 \<and>
     sdb_view S db' = m(key_system SYSTEM_WRITER_EPOCH \<mapsto> encode_counter b,
                        key_system SYSTEM_WRITER_NONCE \<mapsto> str_bytes nonce)"
proof -
  have "\<exists>env db0. env \<in> set envs \<and> Q (sdb_view S db0) \<and>
      run_tx S (acquire_epoch_body S nonce) env db0 = (TxDone (Inr b), db')"
  proof (rule retry_tx_keeps [OF assms(1,4) _ assms(2,3)])
    fix t t' x m
    assume c: "acquire_epoch_body S nonce t = (Inr (Commit x), t')" "tx_log t = []"
      and r: "reads_agree (tx_log t') (sdb_view S (tx_snap t')) m" and q: "Q m"
    obtain a where a: "stored_epoch (sdb_view S (tx_snap t)) a" "unat x = unat a + 1"
      "t' = t\<lparr>tx_log := [TxGet (key_system SYSTEM_WRITER_EPOCH),
            TxPut (key_system SYSTEM_WRITER_EPOCH) (encode_counter x),
            TxPut (key_system SYSTEM_WRITER_NONCE) (str_bytes nonce)]\<rparr>"
      using acquire_epoch_Inr [OF assms(1) c] by auto
    then have "stored_epoch m a"
      using r by (simp add: reads_agree_def stored_epoch_def)
    from assms(5) [OF q this a(2)] show "Q (apply_log (tx_log t') m)"
      by (simp add: a(3))
  qed
  then show ?thesis
    using acquire_epoch_commit_state [OF assms(1)] assms(4) unfolding kept_by_def by blast
qed

lemma epoch_at_least_bump:
  assumes "epoch_at_least a m" and "stored_epoch m c" and "unat x = unat c + 1"
  shows "epoch_at_least a (m(key_system SYSTEM_WRITER_EPOCH \<mapsto> encode_counter x,
             key_system SYSTEM_WRITER_NONCE \<mapsto> str_bytes nonce)) \<and> a < x"
proof -
  have "a \<le> c" using assms(1,2) stored_epoch_unique unfolding epoch_at_least_def by blast
  then have "a < x" using assms(3) by (simp add: word_le_nat_alt word_less_nat_alt)
  then show ?thesis
    using system_keys_differ by (auto simp: epoch_at_least_def stored_epoch_def intro: less_imp_le)
qed

text \<open>The steps of \<open>open\<close>, when it succeeds.\<close>

lemma open_store_steps:
  assumes "open_store S C nonce env envs db = (Some (Inr st), db')"
  obtains db1 db2 where "initialize_catalog S env db = (Inr (cs_counters st), db1)"
    "migrate_key_encoding_if_needed S C db1 = (Inr (), db2)"
    "retry_tx S (acquire_epoch_body S nonce) envs db2 = (Some (Inr (cs_writer_epoch st)), db')"
    "cs_writer_nonce st = nonce"
  using assms
  by (auto simp: open_store_def split: prod.splits sum.splits option.splits)

lemma open_store_epoch:
  assumes "slatedb_ok S" and "open_store S C nonce env envs db = (Some (Inr st), db')"
    and "stored_epoch (sdb_view S db) a"
    and "\<forall>e\<in>set (env # envs). kept_by S (epoch_at_least a) e"
  shows "epoch_of (sdb_view S db') (cs_writer_epoch st) nonce \<and> a < cs_writer_epoch st"
proof -
  obtain db1 db2 where i: "initialize_catalog S env db = (Inr (cs_counters st), db1)"
    and m: "migrate_key_encoding_if_needed S C db1 = (Inr (), db2)"
    and r: "retry_tx S (acquire_epoch_body S nonce) envs db2 = (Some (Inr (cs_writer_epoch st)), db')"
    using open_store_steps [OF assms(2)] by metis
  have 0: "epoch_at_least a (sdb_view S db)" using assms(3) by (auto simp: epoch_at_least_def)
  then have "epoch_at_least a (sdb_view S (env db))" using assms(4) by (simp add: kept_by_def)
  then have 1: "epoch_at_least a (sdb_view S db1)"
    using initialize_catalog_Inr [OF assms(1) i] 0
    by (auto simp: epoch_at_least_def stored_epoch_def fresh_catalog_def key_simps tag_defs)
  have "sdb_view S db2 (key_system SYSTEM_WRITER_EPOCH) = sdb_view S db1 (key_system SYSTEM_WRITER_EPOCH)"
    by (rule migrate_other [OF assms(1) m]) (simp_all add: key_simps tag_defs)
  with 1 have 2: "epoch_at_least a (sdb_view S db2)" by (simp add: epoch_at_least_def stored_epoch_def)
  obtain m' c where "epoch_at_least a m'" "stored_epoch m' c" "unat (cs_writer_epoch st) = unat c + 1"
    "sdb_view S db' = m'(key_system SYSTEM_WRITER_EPOCH \<mapsto> encode_counter (cs_writer_epoch st),
                        key_system SYSTEM_WRITER_NONCE \<mapsto> str_bytes nonce)"
    using acquire_epoch_loop [where Q = "epoch_at_least a", OF assms(1) r 2] assms(4)
      epoch_at_least_bump by auto
  with epoch_at_least_bump system_keys_differ show ?thesis
    by (auto simp: epoch_of_def)
qed

section \<open>Properties\<close>

text \<open>Epoch acquisition. A successful \<open>open\<close> leaves its own epoch and nonce in the database, and
  that epoch is strictly above the one stored when it began, hence above the epoch of every store
  opened before, whatever other processes that only ever raise the epoch do meanwhile.\<close>

theorem open_acquires_epoch:
  assumes "slatedb_ok S" and "open_store S C nonce env envs db = (Some (Inr st), db')"
    and "stored_epoch (sdb_view S db) a"
    and "\<forall>e\<in>set (env # envs). kept_by S (epoch_at_least a) e"
  shows "epoch_of (sdb_view S db') (cs_writer_epoch st) (cs_writer_nonce st) \<and>
     cs_writer_nonce st = nonce \<and> a < cs_writer_epoch st"
  using open_store_epoch [OF assms] open_store_steps [OF assms(2)] by metis

text \<open>C4. Fencing across processes. Once a second process has opened the catalog, a writer that holds
  the epoch stored before, or an older one, cannot commit any more: its \<open>create_snapshot\<close> fails,
  also when further processes open the catalog meanwhile.\<close>

theorem second_open_fences_first:
  assumes "slatedb_ok S" and "open_store S C nonce env envs db = (Some (Inr st2), db2)"
    and "stored_epoch (sdb_view S db) a" and "w_writer_epoch w \<le> a"
    and "\<forall>e\<in>set (env # envs). kept_by S (epoch_at_least a) e"
    and "kept_by S (epoch_at_least (cs_writer_epoch st2)) env'"
  shows "\<exists>err. fst (create_snapshot S C now env' author message (w, db2)) = Inl err"
proof (cases "fst (create_snapshot S C now env' author message (w, db2))")
  case (Inr r)
  then obtain w' db' where
    "create_snapshot S C now env' author message (w, db2) = (Inr r, (w', db'))"
    by (metis prod.collapse)
  from create_snapshot_Inr [OF assms(1) this]
  have "stored_epoch (sdb_view S (env' db2)) (w_writer_epoch w)"
    by (auto simp: epoch_of_def stored_epoch_def)
  moreover have o: "epoch_of (sdb_view S db2) (cs_writer_epoch st2) nonce \<and> a < cs_writer_epoch st2"
    by (rule open_store_epoch [OF assms(1,2,3,5)])
  then have "epoch_at_least (cs_writer_epoch st2) (sdb_view S db2)"
    by (auto simp: epoch_of_def epoch_at_least_def stored_epoch_def)
  then have "epoch_at_least (cs_writer_epoch st2) (sdb_view S (env' db2))"
    using assms(6) by (simp add: kept_by_def)
  ultimately have "cs_writer_epoch st2 \<le> w_writer_epoch w"
    using stored_epoch_unique unfolding epoch_at_least_def by blast
  with o assms(4) have False by (meson leD order_trans)
  then show ?thesis ..
qed auto

text \<open>The counters of a store. When no other process changes the counters during \<open>open\<close>, the
  counters of the store are the stored ones, so its first writer allocates fresh identifiers.\<close>

theorem open_counters_current:
  assumes "slatedb_ok S" and "open_store S C nonce env envs db = (Some (Inr st), db')"
    and "\<forall>e\<in>set envs. kept_by S (\<lambda>m. stored_counters m (cs_counters st)) e"
  shows "stored_counters (sdb_view S db') (cs_counters st)"
proof -
  obtain db1 db2 where i: "initialize_catalog S env db = (Inr (cs_counters st), db1)"
    and m: "migrate_key_encoding_if_needed S C db1 = (Inr (), db2)"
    and r: "retry_tx S (acquire_epoch_body S nonce) envs db2 = (Some (Inr (cs_writer_epoch st)), db')"
    using open_store_steps [OF assms(2)] by metis
  have "stored_counters (sdb_view S db1) (cs_counters st)"
    using initialize_catalog_Inr [OF assms(1) i] fresh_catalog_simps by metis
  moreover have "sdb_view S db2 (key_counter c) = sdb_view S db1 (key_counter c)" for c
    by (rule migrate_other [OF assms(1) m]) (simp_all add: key_simps tag_defs)
  ultimately have 2: "stored_counters (sdb_view S db2) (cs_counters st)"
    by (simp add: stored_counters_def)
  have upd: "stored_counters (m(key_system SYSTEM_WRITER_EPOCH \<mapsto> x, key_system SYSTEM_WRITER_NONCE \<mapsto> y)) c"
    if "stored_counters m c" for m x y c
    using that by (simp add: stored_counters_def key_simps tag_defs)
  from acquire_epoch_loop [where Q = "\<lambda>m. stored_counters m (cs_counters st)",
      OF assms(1) r 2 assms(3)] upd show ?thesis by metis
qed

text \<open>C15. The read snapshot of a store follows its commits: after \<open>commit_writer\<close>, the latest reader is
  at the committed snapshot, the next write session starts from the counters the commit stored, and a
  reader opened from the database itself is at the same snapshot.\<close>

theorem commit_writer_advances:
  assumes "slatedb_ok S" "slatedb_available S"
    and "create_snapshot S C now env author message (begin_write st, db) = (Inr r, (w', db'))"
    and "cc_next_snapshot_id (cs_counters st) > 0" "cc_next_snapshot_id (cs_counters st) < u64_max"
  shows "rd_dl_snapshot_id (read_latest (commit_writer r st)) = cmr_snapshot_id r \<and>
     w_counters (begin_write (commit_writer r st)) = w_counters w' \<and>
     stored_counters (sdb_view S db') (w_counters (begin_write (commit_writer r st))) \<and>
     read_fresh_latest S db' = Inr (read_latest (commit_writer r st))"
proof -
  note c = create_snapshot_Inr [OF assms(1,3)]
  let ?n = "cc_next_snapshot_id (cs_counters st)"
  have n: "unat (?n + 1) = Suc (unat ?n)" using assms(5) by (rule word_Suc_le)
  have gt: "?n + 1 > 1" using assms(4) n by (simp add: word_less_nat_alt unat_gt_0)
  have bw: "w_counters (begin_write st) = cs_counters st" "w_snapshot (begin_write st) = ?n"
    by (simp_all add: begin_write_def CatalogWriter_new_def counter_defs w_snapshot_def)
  have rl: "read_latest (commit_writer r st) = \<lparr>rd_dl_snapshot_id = SnapshotId ?n\<rparr>"
    using c bw gt by (simp add: read_latest_def commit_writer_def counter_defs commit_result_def
        SnapshotId_new_def)
  have wc: "w_counters (begin_write (commit_writer r st)) = w_counters w'"
    using c bw by (simp add: begin_write_def CatalogWriter_new_def commit_writer_def counter_defs
        commit_result_def drained_def Let_def w_snapshot_def)
  have sc: "stored_counters (sdb_view S db') (w_counters w')"
    using c stored_counters_commit by metis
  then obtain d where d: "sdb_view S db' (key_counter COUNTER_NEXT_SNAPSHOT_ID) = Some d"
    and dd: "decode_counter d = Inr (?n + 1)"
    using c bw by (auto simp: stored_counters_def)
  obtain v where g: "sdb_get S db' (key_counter COUNTER_NEXT_SNAPSHOT_ID) = Inr v"
    using sdb_get_available [OF assms(2)] by blast
  have v: "v = Some d" using sdb_get_ok [OF assms(1)] g d by metis
  have "saturating_sub (?n + 1) 1 = ?n"
    using unat_saturating_sub [of "?n + 1" 1] n by (metis Suc_eq_plus1 diff_Suc_1 unat_1 word_unat_eq_iff)
  then have "read_fresh_latest S db' = Inr \<lparr>rd_dl_snapshot_id = SnapshotId ?n\<rparr>"
    by (simp add: read_fresh_latest_def db_get_def g v dd SnapshotId_new_def)
  then show ?thesis
    using rl wc sc c bw by (simp add: commit_result_def)
qed

text \<open>The retention floor. A reader is refused exactly when the snapshot is below a nonzero floor,
  and with the floor that a \<open>gc_apply\<close> reported the store refuses exactly the snapshots the
  retention predicate excludes.\<close>

theorem read_at_respects_retention:
  "(read_at (update_retain_from_cache f st) s = Inr \<lparr>rd_dl_snapshot_id = s\<rparr> \<longleftrightarrow>
      is_within_retention (as_u64 s) f) \<and>
   (read_at (update_retain_from_cache f st) s = Inl (SnapshotOutOfRetention (as_u64 s) f) \<longleftrightarrow>
      \<not> is_within_retention (as_u64 s) f)"
  by (auto simp: read_at_def update_retain_from_cache_def is_within_retention_def word_gt_0 Let_def)

end
