(* ===== verification/Versioning.thy ===== *)
theory Versioning
  imports Catalog_Reader Snapshot_Commit
begin

text \<open>
  What makes reads at a snapshot stable. Ten row types of the catalog carry a begin and an optional
  end snapshot; the locale \<open>versioned\<close> states their common interface, a begin field and an end field
  that can be set, and derives once what the readers need: a commit at snapshot \<open>n\<close> whose writes
  are insertions of rows born at \<open>n\<close> and retirements at \<open>n\<close> of live rows changes no list at an
  earlier snapshot, up to the end field of the rows retired. The interpretations are the row types
  with the decoder the readers use.
\<close>

section \<open>Sorted row lists\<close>

lemma rows_under_sorted:
  assumes "rows_under dec keep m p rows"
  shows "sorted_wrt (<) (map fst rows)"
proof -
  obtain kvs where l: "prefix_listing m p kvs" and r: "rows = List.map_filter (decoded_row dec keep) kvs"
    using assms by (auto simp: rows_under_def)
  have "fst y = fst x" if "decoded_row dec keep x = Some y" for x y
    using that by (auto simp: decoded_row_def split: sum.splits if_splits)
  then have "map fst (List.map_filter (decoded_row dec keep) kvs) =
      map fst (filter (\<lambda>x. decoded_row dec keep x \<noteq> None) kvs)"
    by (induction kvs) (auto simp: List.map_filter_def)
  moreover have "sorted_wrt (<) (map fst (filter Q kvs))" for Q
    using l by (auto simp: prefix_listing_def sorted_wrt_map intro: sorted_wrt_filter)
  ultimately show ?thesis
    by (simp add: r)
qed

text \<open>Two strictly sorted lists with the same elements up to \<open>f\<close> are the same up to \<open>f\<close>.\<close>

lemma sorted_rows_eq:
  fixes xs ys :: "('k::linorder \<times> 'r) list" and f :: "'r \<Rightarrow> 'b"
  assumes "sorted_wrt (<) (map fst xs)" and "sorted_wrt (<) (map fst ys)"
    and "\<And>k v. (\<exists>r. (k, r) \<in> set xs \<and> f r = v) \<longleftrightarrow> (\<exists>r. (k, r) \<in> set ys \<and> f r = v)"
  shows "map (f \<circ> snd) xs = map (f \<circ> snd) ys"
proof -
  let ?g = "\<lambda>(k, r). (k, f r)"
  have mem: "(k, v) \<in> set (map ?g xs) \<longleftrightarrow> (\<exists>r. (k, r) \<in> set xs \<and> f r = v)"
    "(k, v) \<in> set (map ?g ys) \<longleftrightarrow> (\<exists>r. (k, r) \<in> set ys \<and> f r = v)" for k v
    by force+
  have s: "set (map ?g xs) = set (map ?g ys)"
  proof (rule set_eqI)
    fix x :: "'k \<times> 'b"
    obtain k v where x: "x = (k, v)" by (cases x)
    show "x \<in> set (map ?g xs) \<longleftrightarrow> x \<in> set (map ?g ys)"
      unfolding x mem by (rule assms(3))
  qed
  have d: "map fst (map ?g zs) = map fst zs" for zs :: "('k \<times> 'r) list"
    by (simp add: comp_def case_prod_beta)
  have "map ?g xs = map ?g ys"
  proof (rule map_sorted_distinct_set_unique [where f = fst])
    have "inj_on fst (set (map ?g xs))"
      using assms(1) d [of xs] by (metis distinct_map strict_sorted_iff)
    then show "inj_on fst (set (map ?g xs) \<union> set (map ?g ys))"
      using s by simp
  qed (use assms(1,2) s in \<open>simp_all only: d strict_sorted_iff simp_thms\<close>)
  then have "map (snd \<circ> ?g) xs = map (snd \<circ> ?g) ys"
    by (metis map_map)
  then show ?thesis
    by (simp add: comp_def case_prod_beta)
qed

section \<open>The interface of versioned rows\<close>

locale versioned =
  fixes begin_of :: "'r \<Rightarrow> u64" and end_of :: "'r \<Rightarrow> u64 option"
    and set_end :: "u64 option \<Rightarrow> 'r \<Rightarrow> 'r"
  assumes begin_set_end: "begin_of (set_end e r) = begin_of r"
    and end_set_end: "end_of (set_end e r) = e"
    and set_end_twice: "set_end e (set_end e' r) = set_end e r"
begin

text \<open>The row without its end.\<close>

definition body_of :: "'r \<Rightarrow> 'r" where
  "body_of r = set_end None r"

lemma body_set_end [simp]: "body_of (set_end e r) = body_of r"
  by (simp add: body_of_def set_end_twice)

text \<open>A write at snapshot \<open>n\<close> that inserts a row born at \<open>n\<close> under a free key or retires a live row
  at \<open>n\<close>.\<close>

definition change_ok ::
  "(kv \<Rightarrow> CatalogError + 'r) \<Rightarrow> u64 \<Rightarrow> (bytes \<Rightarrow> bytes option) \<Rightarrow> kv \<Rightarrow> bool" where
  "change_ok dec n m kv \<longleftrightarrow>
     (\<exists>r. dec kv = Inr r \<and>
        (m (fst kv) = None \<and> begin_of r = n \<or>
         (\<exists>v0 r0. m (fst kv) = Some v0 \<and> dec (fst kv, v0) = Inr r0 \<and> end_of r0 = None \<and>
            r = set_end (Some n) r0)))"

lemma retire_visible:
  "as_u64 s < n \<Longrightarrow> end_of r = None \<Longrightarrow>
     is_visible (begin_of (set_end (Some n) r)) (end_of (set_end (Some n) r)) s \<longleftrightarrow>
     is_visible (begin_of r) (end_of r) s"
  by (simp add: begin_set_end end_set_end is_visible_retire)

text \<open>The content under a prefix after such writes, read at an earlier snapshot.\<close>

lemma history_stable:
  assumes before: "rows_under dec (\<lambda>r. is_visible (begin_of r) (end_of r) s) m p rows"
    and after: "rows_under dec (\<lambda>r. is_visible (begin_of r) (end_of r) s) m' p rows'"
    and changes: "\<And>k. prefix p k \<Longrightarrow> m' k = m k \<or> (\<exists>v. m' k = Some v \<and> change_ok dec n m (k, v))"
    and early: "as_u64 s < n"
  shows "map (body_of \<circ> snd) rows = map (body_of \<circ> snd) rows'"
proof (rule sorted_rows_eq [OF rows_under_sorted [OF before] rows_under_sorted [OF after]])
  fix k b
  let ?vis = "\<lambda>m r. \<exists>v. m k = Some v \<and> dec (k, v) = Inr r \<and> is_visible (begin_of r) (end_of r) s"
  have "(\<exists>r. ?vis m r \<and> body_of r = b) \<longleftrightarrow> (\<exists>r. ?vis m' r \<and> body_of r = b)" if p: "prefix p k"
  proof (cases "m' k = m k")
    case True
    then show ?thesis by simp
  next
    case False
    then obtain v r where v: "m' k = Some v" "dec (k, v) = Inr r"
      and c: "m k = None \<and> begin_of r = n \<or>
         (\<exists>v0 r0. m k = Some v0 \<and> dec (k, v0) = Inr r0 \<and> end_of r0 = None \<and>
            r = set_end (Some n) r0)"
      using changes [OF p] by (auto simp: change_ok_def)
    from c show ?thesis
    proof
      assume h: "m k = None \<and> begin_of r = n"
      then have "\<not> is_visible (begin_of r) (end_of r) s"
        using early by (auto simp: is_visible_iff)
      with h v show ?thesis by auto
    next
      assume "\<exists>v0 r0. m k = Some v0 \<and> dec (k, v0) = Inr r0 \<and> end_of r0 = None \<and>
            r = set_end (Some n) r0"
      then show ?thesis
        using v retire_visible [OF early] by auto
    qed
  qed
  then show "(\<exists>r. (k, r) \<in> set rows \<and> body_of r = b) \<longleftrightarrow> (\<exists>r. (k, r) \<in> set rows' \<and> body_of r = b)"
    unfolding rows_under_set [OF before] rows_under_set [OF after] by blast
qed

text \<open>A retired row is gone from its end on, for every later reader.\<close>

lemma retired_invisible:
  "end_of r = Some e \<Longrightarrow> e \<le> as_u64 s \<Longrightarrow> \<not> is_visible (begin_of r) (end_of r) s"
  by (simp add: not_visible_beyond_end)

text \<open>Staged writes: the last write to a key decides.\<close>

lemma put_all_changes:
  assumes "\<And>kv. kv \<in> set kvs \<Longrightarrow> prefix p (fst kv) \<Longrightarrow> change_ok dec n m kv" and "prefix p k"
  shows "put_all kvs m k = m k \<or> (\<exists>v. put_all kvs m k = Some v \<and> change_ok dec n m (k, v))"
proof (cases "map_of (rev kvs) k")
  case None
  then show ?thesis by (simp add: put_all_map_of)
next
  case (Some v)
  then have "(k, v) \<in> set kvs"
    using map_of_SomeD by fastforce
  then show ?thesis
    using assms(1) [of "(k, v)"] assms(2) Some by (simp add: put_all_map_of)
qed

end

section \<open>The row types\<close>

interpretation schema_rows: versioned sr_begin_snapshot sr_end_snapshot
    "\<lambda>e. sr_end_snapshot_update (\<lambda>_. e)"
  by unfold_locales simp_all

interpretation table_rows: versioned tr_begin_snapshot tr_end_snapshot
    "\<lambda>e. tr_end_snapshot_update (\<lambda>_. e)"
  by unfold_locales simp_all

interpretation column_rows: versioned cr_begin_snapshot cr_end_snapshot
    "\<lambda>e. cr_end_snapshot_update (\<lambda>_. e)"
  by unfold_locales simp_all

interpretation view_rows: versioned vr_begin_snapshot vr_end_snapshot
    "\<lambda>e. vr_end_snapshot_update (\<lambda>_. e)"
  by unfold_locales simp_all

interpretation macro_rows: versioned mr_begin_snapshot mr_end_snapshot
    "\<lambda>e. mr_end_snapshot_update (\<lambda>_. e)"
  by unfold_locales simp_all

interpretation tag_rows: versioned tg_begin_snapshot tg_end_snapshot
    "\<lambda>e. tg_end_snapshot_update (\<lambda>_. e)"
  by unfold_locales simp_all

interpretation column_tag_rows: versioned ctg_begin_snapshot ctg_end_snapshot
    "\<lambda>e. ctg_end_snapshot_update (\<lambda>_. e)"
  by unfold_locales simp_all

interpretation sort_info_rows: versioned si_begin_snapshot si_end_snapshot
    "\<lambda>e. si_end_snapshot_update (\<lambda>_. e)"
  by unfold_locales simp_all

interpretation partition_info_rows: versioned pi_begin_snapshot pi_end_snapshot
    "\<lambda>e. pi_end_snapshot_update (\<lambda>_. e)"
  by unfold_locales simp_all

interpretation inlined_insert_rows: versioned ii_begin_snapshot ii_end_snapshot
    "\<lambda>e. ii_end_snapshot_update (\<lambda>_. e)"
  by unfold_locales simp_all

end
