(* ===== verification/Write_Session.thy ===== *)
theory Write_Session
  imports Versioning
begin

text \<open>
  A write session as a state machine: \<open>wstep\<close> has one rule per staging operation of
  \<open>CatalogWriter\<close>, on a database that the session only reads. The invariant is that every staged
  write of a schema, table, column, view or macro row is an insertion at the session's snapshot
  under a free key or the retirement of a live row at that snapshot.
\<close>

section \<open>Session steps\<close>

text \<open>The rules of the drop operations require that the row they end is live, the obligation of their
  callers; the allocating ones that the 64-bit catalog counter does not wrap.\<close>

definition live :: "'db slatedb \<Rightarrow> 'm prost \<Rightarrow> ('m \<Rightarrow> u64 option) \<Rightarrow> 'db \<Rightarrow> bytes \<Rightarrow> bool" where
  "live S P end_of db k \<longleftrightarrow>
     (\<forall>v row. sdb_view S db k = Some v \<longrightarrow> decode_value P v = Inr row \<longrightarrow> end_of row = None)"

definition can_alloc :: "CatalogWriter \<Rightarrow> bool" where
  "can_alloc w \<longleftrightarrow> peek_catalog_id (w_counters w) < u64_max"

inductive wstep :: "'db slatedb \<Rightarrow> codecs \<Rightarrow> 'db \<Rightarrow> CatalogWriter \<Rightarrow> CatalogWriter \<Rightarrow> bool"
  for S :: "'db slatedb" and C :: codecs and db :: 'db where
  step_create_schema:
    "create_schema C uuid name w = (r1, w') \<Longrightarrow> can_alloc w \<Longrightarrow> wstep S C db w w'"
| step_drop_schema:
    "drop_schema S C db i w = (r2, w') \<Longrightarrow>
     live S (pb_SchemaRow C) sr_end_snapshot db (key_schema i) \<Longrightarrow> wstep S C db w w'"
| step_create_table:
    "create_table C uuid i name path w = (r3, w') \<Longrightarrow> can_alloc w \<Longrightarrow> wstep S C db w w'"
| step_drop_table:
    "drop_table S C db i t b w = (r4, w') \<Longrightarrow>
     live S (pb_TableRow C) tr_end_snapshot db (key_table i t b) \<Longrightarrow> wstep S C db w w'"
| step_add_column:
    "add_column_with_opts C t name ty ix nl dv idf dvt ddl pc w = (r5, w') \<Longrightarrow> can_alloc w \<Longrightarrow>
     wstep S C db w w'"
| step_drop_column:
    "drop_column S C db t c b w = (r6, w') \<Longrightarrow>
     live S (pb_ColumnRow C) cr_end_snapshot db (key_column t c b) \<Longrightarrow> wstep S C db w w'"
| step_rename_column: "rename_column S C db t c w = (r7, w') \<Longrightarrow> wstep S C db w w'"
| step_insert_renamed_column:
    "insert_renamed_column C row name w = (r8, w') \<Longrightarrow> wstep S C db w w'"
| step_register_data_file:
    "register_data_file_with_metadata S C db t path fmt rc sz fs ek pid mid pm w = (r9, w') \<Longrightarrow>
     wstep S C db w w'"
| step_register_delete_file:
    "register_delete_file_with_metadata C d path dc sz fs pm w = (r10, w') \<Longrightarrow> wstep S C db w w'"
| step_register_inlined_insert:
    "register_inlined_insert C t sv rid payload w = (r11, w') \<Longrightarrow> wstep S C db w w'"
| step_register_inlined_data_table:
    "register_inlined_data_table C t name sv w = (r12, w') \<Longrightarrow> wstep S C db w w'"
| step_register_schema_version:
    "register_schema_version C b sv t w = (r13, w') \<Longrightarrow> wstep S C db w w'"
| step_mark_inlined_insert_deleted:
    "mark_inlined_insert_deleted S C db t sv rid w = (r14, w') \<Longrightarrow> wstep S C db w w'"
| step_register_inlined_delete:
    "register_inlined_delete C t d rid w = (r15, w') \<Longrightarrow> wstep S C db w w'"
| step_create_view:
    "create_view_with_opts C uuid i name sql vu dia als w = (r16, w') \<Longrightarrow> can_alloc w \<Longrightarrow>
     wstep S C db w w'"
| step_drop_view:
    "drop_view S C db i v b w = (r17, w') \<Longrightarrow>
     live S (pb_ViewRow C) vr_end_snapshot db (key_view i v b) \<Longrightarrow> wstep S C db w w'"
| step_create_macro:
    "create_macro C uuid i name ty w = (r18, w') \<Longrightarrow> can_alloc w \<Longrightarrow> wstep S C db w w'"
| step_drop_macro:
    "drop_macro S C db i v b w = (r19, w') \<Longrightarrow>
     live S (pb_MacroRow C) mr_end_snapshot db (key_macro i v b) \<Longrightarrow> wstep S C db w w'"
| step_add_macro_impl:
    "add_macro_impl_with_opts C i sql dia ty w = (r20, w') \<Longrightarrow> can_alloc w \<Longrightarrow> wstep S C db w w'"
| step_set_tag: "set_tag C hash i key val w = (r21, w') \<Longrightarrow> wstep S C db w w'"
| step_remove_tag: "remove_tag S C hash db i key b w = (r22, w') \<Longrightarrow> wstep S C db w w'"
| step_set_column_tag: "set_column_tag C hash t c key val w = (r23, w') \<Longrightarrow> wstep S C db w w'"
| step_remove_column_tag:
    "remove_column_tag S C hash db t c key b w = (r24, w') \<Longrightarrow> wstep S C db w w'"
| step_add_sort_info: "add_sort_info C t i w = (r25, w') \<Longrightarrow> wstep S C db w w'"
| step_set_metadata: "set_metadata C scope i key val w = (r26, w') \<Longrightarrow> wstep S C db w w'"
| step_add_snapshot_changes:
    "add_snapshot_changes ty info i t w = (r27, w') \<Longrightarrow> wstep S C db w w'"

section \<open>Invariant\<close>

definition history_ok :: "codecs \<Rightarrow> u64 \<Rightarrow> (bytes \<Rightarrow> bytes option) \<Rightarrow> kv \<Rightarrow> bool" where
  "history_ok C n m kv \<longleftrightarrow>
     (prefix [TAG_SCHEMA] (fst kv) \<longrightarrow>
        schema_rows.change_ok (row_decoder (pb_SchemaRow C)) n m kv) \<and>
     (prefix [TAG_TABLE] (fst kv) \<longrightarrow>
        table_rows.change_ok (row_decoder (pb_TableRow C)) n m kv) \<and>
     (prefix [TAG_COLUMN] (fst kv) \<longrightarrow>
        column_rows.change_ok (row_decoder (pb_ColumnRow C)) n m kv) \<and>
     (prefix [TAG_VIEW] (fst kv) \<longrightarrow>
        view_rows.change_ok (row_decoder (pb_ViewRow C)) n m kv) \<and>
     (prefix [TAG_MACRO] (fst kv) \<longrightarrow>
        macro_rows.change_ok (row_decoder (pb_MacroRow C)) n m kv)"

text \<open>No stored id or snapshot reaches the counters it was allocated from.\<close>

definition ids_below :: "(bytes \<Rightarrow> bytes option) \<Rightarrow> CounterCache \<Rightarrow> bool" where
  "ids_below m c \<longleftrightarrow>
     (\<forall>i. m (key_schema i) \<noteq> None \<longrightarrow> i < cc_next_catalog_id c) \<and>
     (\<forall>a b s. m (key_table a b s) \<noteq> None \<longrightarrow> s < cc_next_snapshot_id c) \<and>
     (\<forall>a b s. m (key_column a b s) \<noteq> None \<longrightarrow> s < cc_next_snapshot_id c) \<and>
     (\<forall>a b s. m (key_view a b s) \<noteq> None \<longrightarrow> s < cc_next_snapshot_id c) \<and>
     (\<forall>a b s. m (key_macro a b s) \<noteq> None \<longrightarrow> s < cc_next_snapshot_id c)"

definition session_inv :: "codecs \<Rightarrow> (bytes \<Rightarrow> bytes option) \<Rightarrow> u64 \<Rightarrow> CatalogWriter \<Rightarrow> bool" where
  "session_inv C m n w \<longleftrightarrow>
     w_snapshot w = n \<and> ids_below m (w_counters w) \<and>
     (\<forall>kv\<in>set (w_staged w). history_ok C n m kv)"

section \<open>Operations that only add staged writes\<close>

text \<open>A command that leaves the counters alone and appends writes satisfying \<open>Q\<close>, also when it fails
  half-way.\<close>

definition adds :: "(kv \<Rightarrow> bool) \<Rightarrow> (CatalogWriter, 'a) cmd \<Rightarrow> bool" where
  "adds Q op \<longleftrightarrow>
     (\<forall>w. w_counters (snd (op w)) = w_counters w \<and>
        (\<exists>kvs. w_staged (snd (op w)) = w_staged w @ kvs \<and> (\<forall>kv\<in>set kvs. Q kv)))"

lemma adds_simps [simp]:
  "adds Q (ret a)" "adds Q (fail e)" "adds Q (lift r)"
  "adds Q (\<lambda>w. (r', mark_schema_changed w))"
  by (simp_all add: adds_def ret_def fail_def lift_def mark_schema_changed_def)

lemma adds_stage_all: "(\<And>kv. kv \<in> set kvs \<Longrightarrow> Q kv) \<Longrightarrow> adds Q (stage_all kvs)"
  by (auto simp: adds_def stage_all_def)

lemma adds_bind:
  assumes "adds Q m" and "\<And>a. adds Q (f a)"
  shows "adds Q (bind m f)"
proof -
  have "w_counters (snd (bind m f w)) = w_counters w \<and>
      (\<exists>kvs. w_staged (snd (bind m f w)) = w_staged w @ kvs \<and> (\<forall>kv\<in>set kvs. Q kv))" for w
  proof -
    obtain r w1 where m: "m w = (r, w1)" by (cases "m w")
    then obtain kvs where 1: "w_counters w1 = w_counters w" "w_staged w1 = w_staged w @ kvs"
      "\<forall>kv\<in>set kvs. Q kv"
      using assms(1) by (auto simp: adds_def dest: spec [of _ w])
    show ?thesis
    proof (cases r)
      case (Inl e)
      then show ?thesis using m 1 by (auto simp: bind_def)
    next
      case (Inr a)
      obtain kvs' where "w_counters (snd (f a w1)) = w_counters w1"
        "w_staged (snd (f a w1)) = w_staged w1 @ kvs'" "\<forall>kv\<in>set kvs'. Q kv"
        using assms(2) [of a] by (auto simp: adds_def dest: spec [of _ w1])
      then show ?thesis
        using m 1 Inr by (auto simp: bind_def intro: exI [of _ "kvs @ kvs'"])
    qed
  qed
  then show ?thesis by (simp add: adds_def)
qed

lemma adds_lift_bind:
  assumes "\<And>a. r = Inr a \<Longrightarrow> adds Q (f a)"
  shows "adds Q (bind (lift r) f)"
  using assms by (cases r) (auto simp: adds_def bind_def lift_def)

text \<open>A cascade block adds only retirements of the live rows the scan found.\<close>

lemma adds_retire_scan:
  assumes "slatedb_ok S"
    and "\<And>k r v. prefix p k \<Longrightarrow> sdb_view S db k = Some v \<Longrightarrow> decode_value P v = Inr r \<Longrightarrow> keep r \<Longrightarrow>
      Q (k, encode_value P (f r))"
  shows "adds Q (retire_scan S P db p keep f)"
  unfolding retire_scan_def
proof (rule adds_lift_bind)
  fix rows
  assume "scan_rows S SlateDb (row_decoder P) db p keep = Inr rows"
  note rows = rows_under_set [OF scan_rows_Inr [OF assms(1) this]]
  have "Q kv" if "kv \<in> set (map (\<lambda>(k, r). (k, encode_value P (f r))) rows)" for kv
    using that assms(2) by (auto simp: rows row_decoder_def)
  then show "adds Q (bind (stage_all (map (\<lambda>(k, r). (k, encode_value P (f r))) rows)) (\<lambda>_. ret rows))"
    by (intro adds_bind adds_stage_all) simp_all
qed

section \<open>Writes that keep history\<close>

lemmas family_tags = TAG_SCHEMA_def TAG_TABLE_def TAG_COLUMN_def TAG_VIEW_def TAG_MACRO_def

lemma prefix_tag_other: "prefix [t] (u # k) \<longleftrightarrow> t = u"
  by simp

lemma history_ok_other:
  assumes "k = t # k'" and "t \<notin> {TAG_SCHEMA, TAG_TABLE, TAG_COLUMN, TAG_VIEW, TAG_MACRO}"
  shows "history_ok C n m (k, v)"
  using assms by (auto simp: history_ok_def)

lemma history_ok_insert:
  assumes "codecs_ok C"
  shows "m (key_schema i) = None \<Longrightarrow> sr_begin_snapshot r1 = n \<Longrightarrow>
      history_ok C n m (key_schema i, encode_value (pb_SchemaRow C) r1)"
    and "m (key_table a b c) = None \<Longrightarrow> tr_begin_snapshot r2 = n \<Longrightarrow>
      history_ok C n m (key_table a b c, encode_value (pb_TableRow C) r2)"
    and "m (key_column a b c) = None \<Longrightarrow> cr_begin_snapshot r3 = n \<Longrightarrow>
      history_ok C n m (key_column a b c, encode_value (pb_ColumnRow C) r3)"
    and "m (key_view a b c) = None \<Longrightarrow> vr_begin_snapshot r4 = n \<Longrightarrow>
      history_ok C n m (key_view a b c, encode_value (pb_ViewRow C) r4)"
    and "m (key_macro a b c) = None \<Longrightarrow> mr_begin_snapshot r5 = n \<Longrightarrow>
      history_ok C n m (key_macro a b c, encode_value (pb_MacroRow C) r5)"
  using assms
  by (simp_all add: history_ok_def schema_rows.change_ok_def table_rows.change_ok_def
      column_rows.change_ok_def view_rows.change_ok_def macro_rows.change_ok_def row_decoder_def
      key_schema_def key_table_def key_column_def key_view_def key_macro_def family_tags)

lemma history_ok_retire:
  assumes "codecs_ok C" and "m k = Some v"
  shows "prefix [TAG_SCHEMA] k \<Longrightarrow> decode_value (pb_SchemaRow C) v = Inr r1 \<Longrightarrow>
      sr_end_snapshot r1 = None \<Longrightarrow>
      history_ok C n m (k, encode_value (pb_SchemaRow C) (r1\<lparr>sr_end_snapshot := Some n\<rparr>))"
    and "prefix [TAG_TABLE] k \<Longrightarrow> decode_value (pb_TableRow C) v = Inr r2 \<Longrightarrow>
      tr_end_snapshot r2 = None \<Longrightarrow>
      history_ok C n m (k, encode_value (pb_TableRow C) (r2\<lparr>tr_end_snapshot := Some n\<rparr>))"
    and "prefix [TAG_COLUMN] k \<Longrightarrow> decode_value (pb_ColumnRow C) v = Inr r3 \<Longrightarrow>
      cr_end_snapshot r3 = None \<Longrightarrow>
      history_ok C n m (k, encode_value (pb_ColumnRow C) (r3\<lparr>cr_end_snapshot := Some n\<rparr>))"
    and "prefix [TAG_VIEW] k \<Longrightarrow> decode_value (pb_ViewRow C) v = Inr r4 \<Longrightarrow>
      vr_end_snapshot r4 = None \<Longrightarrow>
      history_ok C n m (k, encode_value (pb_ViewRow C) (r4\<lparr>vr_end_snapshot := Some n\<rparr>))"
    and "prefix [TAG_MACRO] k \<Longrightarrow> decode_value (pb_MacroRow C) v = Inr r5 \<Longrightarrow>
      mr_end_snapshot r5 = None \<Longrightarrow>
      history_ok C n m (k, encode_value (pb_MacroRow C) (r5\<lparr>mr_end_snapshot := Some n\<rparr>))"
  using assms
  by (auto simp: history_ok_def schema_rows.change_ok_def table_rows.change_ok_def
      column_rows.change_ok_def view_rows.change_ok_def macro_rows.change_ok_def row_decoder_def
      family_tags prefix_def)

lemma history_ok_tag:
  assumes "prefix [t] k" and "t \<notin> {TAG_SCHEMA, TAG_TABLE, TAG_COLUMN, TAG_VIEW, TAG_MACRO}"
  shows "history_ok C n m (k, v)"
  using assms by (auto simp: prefix_def intro: history_ok_other)

lemma fetch_row_Inr:
  assumes "slatedb_ok S" and "fetch_row S P db k what = Inr row"
  shows "\<exists>v. sdb_view S db k = Some v \<and> decode_value P v = Inr row"
  using assms by (auto simp: fetch_row_def rbind_eq_Inr_iff db_get_def) (metis sdb_get_ok)

text \<open>The tags of the rows outside the five families.\<close>

lemma other_tags [simp]:
  "TAG_DATA_FILE \<notin> {TAG_SCHEMA, TAG_TABLE, TAG_COLUMN, TAG_VIEW, TAG_MACRO}"
  "TAG_DATA_FILE_BY_SNAPSHOT \<notin> {TAG_SCHEMA, TAG_TABLE, TAG_COLUMN, TAG_VIEW, TAG_MACRO}"
  "TAG_PARTITION_INFO \<notin> {TAG_SCHEMA, TAG_TABLE, TAG_COLUMN, TAG_VIEW, TAG_MACRO}"
  "TAG_TAG \<notin> {TAG_SCHEMA, TAG_TABLE, TAG_COLUMN, TAG_VIEW, TAG_MACRO}"
  "TAG_COLUMN_TAG \<notin> {TAG_SCHEMA, TAG_TABLE, TAG_COLUMN, TAG_VIEW, TAG_MACRO}"
  "TAG_SORT_INFO \<notin> {TAG_SCHEMA, TAG_TABLE, TAG_COLUMN, TAG_VIEW, TAG_MACRO}"
  "TAG_DELETE_FILE \<notin> {TAG_SCHEMA, TAG_TABLE, TAG_COLUMN, TAG_VIEW, TAG_MACRO}"
  "TAG_INLINED_ROWS \<notin> {TAG_SCHEMA, TAG_TABLE, TAG_COLUMN, TAG_VIEW, TAG_MACRO}"
  "TAG_TABLE_BY_ID \<notin> {TAG_SCHEMA, TAG_TABLE, TAG_COLUMN, TAG_VIEW, TAG_MACRO}"
  "TAG_INLINED_DATA_TABLES \<notin> {TAG_SCHEMA, TAG_TABLE, TAG_COLUMN, TAG_VIEW, TAG_MACRO}"
  "TAG_SCHEMA_VERSIONS \<notin> {TAG_SCHEMA, TAG_TABLE, TAG_COLUMN, TAG_VIEW, TAG_MACRO}"
  "TAG_MACRO_IMPL \<notin> {TAG_SCHEMA, TAG_TABLE, TAG_COLUMN, TAG_VIEW, TAG_MACRO}"
  "TAG_METADATA \<notin> {TAG_SCHEMA, TAG_TABLE, TAG_COLUMN, TAG_VIEW, TAG_MACRO}"
  "TAG_SNAPSHOT \<notin> {TAG_SCHEMA, TAG_TABLE, TAG_COLUMN, TAG_VIEW, TAG_MACRO}"
  "TAG_SNAPSHOT_CHANGES \<notin> {TAG_SCHEMA, TAG_TABLE, TAG_COLUMN, TAG_VIEW, TAG_MACRO}"
  "TAG_COUNTERS \<notin> {TAG_SCHEMA, TAG_TABLE, TAG_COLUMN, TAG_VIEW, TAG_MACRO}"
  by (simp_all add: tag_defs)

section \<open>Cascading drop\<close>

lemma retire_data_files_adds:
  assumes "slatedb_ok S"
  shows "adds (history_ok C n m) (retire_data_files S C db t k)"
  unfolding retire_data_files_def
proof (rule adds_lift_bind)
  fix rows
  assume "scan_rows S SlateDb (row_decoder (pb_DataFileRow C)) db (prefix_for_tag TAG_DATA_FILE)
      (\<lambda>r. df_table_id r = t \<and> df_end_snapshot r = None) = Inr rows"
  note rows = rows_under_set [OF scan_rows_Inr [OF assms this]]
  show "adds (history_ok C n m) (bind (stage_all (concat (map (\<lambda>(key, r).
         let encoded = encode_value (pb_DataFileRow C) (r\<lparr>df_end_snapshot := Some k\<rparr>);
             begin_snap = (case df_begin_snapshot r of None \<Rightarrow> 0 | Some b \<Rightarrow> b)
         in [(key, encoded),
             (key_data_file_by_snapshot t begin_snap (df_data_file_id r), encoded)]) rows)))
       (\<lambda>_. ret (map (\<lambda>(k, r). df_data_file_id r) rows)))"
    by (intro adds_bind adds_stage_all)
      (auto simp: Let_def rows prefix_for_tag_def key_data_file_by_snapshot_def
        intro: history_ok_tag [OF _ other_tags(1)] history_ok_other [OF refl other_tags(2)])
qed

lemma drop_table_at_adds:
  assumes ok: "slatedb_ok S" and C: "codecs_ok C"
    and live: "live S (pb_TableRow C) tr_end_snapshot db (key_table i t b)"
  shows "adds (history_ok C n (sdb_view S db)) (drop_table_at S C db i t b n)"
proof -
  let ?Q = "history_ok C n (sdb_view S db)"
  have tag: "adds ?Q (retire_scan S P db (prefix_for_tag tg) keep f)"
    if "tg \<notin> {TAG_SCHEMA, TAG_TABLE, TAG_COLUMN, TAG_VIEW, TAG_MACRO}"
    for P :: "'m prost" and tg keep f
    by (rule adds_retire_scan [OF ok])
      (use that in \<open>auto simp: prefix_for_tag_def intro: history_ok_tag\<close>)
  have ins: "adds ?Q (retire_scan S P db (prefix_inlined_inserts_for_table t) keep f)"
    for P :: "'m prost" and keep f
    by (rule adds_retire_scan [OF ok])
      (auto simp: prefix_inlined_inserts_for_table_def prefix_def
        intro: history_ok_other [OF refl other_tags(8)])
  have col: "adds ?Q (retire_scan S (pb_ColumnRow C) db (prefix_columns_for_table t)
      (\<lambda>r. cr_end_snapshot r = None) (cr_end_snapshot_update (\<lambda>_. Some n)))"
    by (rule adds_retire_scan [OF ok])
      (auto simp: prefix_columns_for_table_def prefix_def intro!: history_ok_retire(3) [OF C])
  have tbl: "adds ?Q (stage_all [(key_table i t b,
      encode_value (pb_TableRow C) (row\<lparr>tr_end_snapshot := Some n\<rparr>))])"
    if "fetch_row S (pb_TableRow C) db (key_table i t b) what = Inr row" for row what
    using fetch_row_Inr [OF ok that] live
    by (intro adds_stage_all)
      (auto simp: live_def key_table_def intro!: history_ok_retire(2) [OF C])
  show ?thesis
    unfolding drop_table_at_def Let_def
    by (intro adds_lift_bind adds_bind tbl col tag ins other_tags
        retire_data_files_adds [OF ok] adds_simps)
qed

section \<open>Every step keeps the invariant\<close>

lemma session_inv_extend:
  assumes "session_inv C m n w" and "w_snapshot w' = w_snapshot w"
    and "cc_next_catalog_id (w_counters w) \<le> cc_next_catalog_id (w_counters w')"
    and "w_staged w' = w_staged w @ kvs" and "\<And>kv. kv \<in> set kvs \<Longrightarrow> history_ok C n m kv"
  shows "session_inv C m n w'"
proof -
  have snap: "cc_next_snapshot_id (w_counters w') = cc_next_snapshot_id (w_counters w)"
    using assms(2) by (simp add: w_snapshot_def peek_snapshot_id_def)
  have "ids_below m (w_counters w)"
    using assms(1) by (simp add: session_inv_def)
  then have "ids_below m (w_counters w')"
    unfolding ids_below_def snap using assms(3) by (meson less_le_trans)
  then show ?thesis
    using assms by (auto simp: session_inv_def)
qed

lemmas w_simps = w_snapshot_def w_alloc_catalog_id_def w_alloc_file_id_def stage_def
  mark_schema_changed_def counter_defs Let_def

text \<open>A step that stages one write, with or without an allocation.\<close>

lemma session_inv_stage:
  assumes "session_inv C m n w" and "history_ok C n m (k, v)"
  shows "session_inv C m n (stage k v w)"
    and "session_inv C m n (mark_schema_changed (stage k v w))"
    and "session_inv C m n (stage k v (snd (w_alloc_file_id w)))"
    and "can_alloc w \<Longrightarrow> session_inv C m n (stage k v (snd (w_alloc_catalog_id w)))"
    and "can_alloc w \<Longrightarrow>
      session_inv C m n (mark_schema_changed (stage k v (snd (w_alloc_catalog_id w))))"
proof -
  have le: "cc_next_catalog_id (w_counters w) \<le> cc_next_catalog_id (w_counters w) + 1"
    if "can_alloc w"
    using that word_Suc_le [of "cc_next_catalog_id (w_counters w)" u64_max]
    by (simp add: can_alloc_def peek_catalog_id_def word_le_nat_alt)
  show "session_inv C m n (stage k v w)"
    and "session_inv C m n (mark_schema_changed (stage k v w))"
    and "session_inv C m n (stage k v (snd (w_alloc_file_id w)))"
    by (rule session_inv_extend [OF assms(1), where kvs = "[(k, v)]"];
        use assms(2) in \<open>simp add: w_simps\<close>)+
  show "session_inv C m n (stage k v (snd (w_alloc_catalog_id w)))"
    and "session_inv C m n (mark_schema_changed (stage k v (snd (w_alloc_catalog_id w))))"
    if "can_alloc w"
    by (rule session_inv_extend [OF assms(1), where kvs = "[(k, v)]"];
        use assms(2) le [OF that] in \<open>simp add: w_simps\<close>)+
qed

lemma session_inv_fresh:
  assumes "session_inv C m n w"
  shows "m (key_schema (fst (w_alloc_catalog_id w))) = None"
    and "m (key_table a b n) = None" and "m (key_column a b n) = None"
    and "m (key_view a b n) = None" and "m (key_macro a b n) = None"
proof -
  have "ids_below m (w_counters w)" and n: "n = cc_next_snapshot_id (w_counters w)"
    using assms by (auto simp: session_inv_def w_snapshot_def peek_snapshot_id_def)
  note below = this(1) [unfolded ids_below_def]
  have "fst (w_alloc_catalog_id w) = cc_next_catalog_id (w_counters w)"
    by (simp add: w_simps)
  then show "m (key_schema (fst (w_alloc_catalog_id w))) = None"
    using below by (metis less_irrefl)
  show "m (key_table a b n) = None" and "m (key_column a b n) = None"
    and "m (key_view a b n) = None" and "m (key_macro a b n) = None"
    using below unfolding n by (metis less_irrefl)+
qed

lemma snapshot_after_alloc [simp]:
  "w_snapshot (snd (w_alloc_catalog_id w)) = w_snapshot w"
  "w_snapshot (snd (w_alloc_file_id w)) = w_snapshot w"
  "w_snapshot (stage k v w) = w_snapshot w"
  by (simp_all add: w_simps)

lemma session_inv_alloc_file:
  "session_inv C m n w \<Longrightarrow> session_inv C m n (snd (w_alloc_file_id w))"
  by (rule session_inv_extend [where kvs = "[]"]) (simp_all add: w_simps)

lemma session_inv_create:
  assumes C: "codecs_ok C" and inv: "session_inv C m n w" and can: "can_alloc w"
  shows "session_inv C m n (snd (create_schema C uuid name w))"
    and "session_inv C m n (snd (create_table C uuid i name path w))"
    and "session_inv C m n (snd (add_column_with_opts C t name ty ix nl dv idf dvt ddl pc w))"
    and "session_inv C m n (snd (create_view_with_opts C uuid i name sql vu dia als w))"
    and "session_inv C m n (snd (create_macro C uuid i name ty w))"
    and "session_inv C m n (snd (add_macro_impl_with_opts C i sql dia mty w))"
proof -
  have n: "w_snapshot w = n"
    using inv by (simp add: session_inv_def)
  note fresh = session_inv_fresh [OF inv]
  note ins = history_ok_insert [OF C, where m = m]
  show "session_inv C m n (snd (create_schema C uuid name w))"
    unfolding create_schema_def
    by (auto simp: Let_def case_prod_beta n
        intro!: session_inv_stage(5) [OF inv _ can] ins(1) [OF fresh(1)])
  show "session_inv C m n (snd (create_table C uuid i name path w))"
  proof -
    obtain tid w1 where a: "w_alloc_catalog_id w = (tid, w1)" by (cases "w_alloc_catalog_id w")
    let ?v = "encode_value (pb_TableRow C) \<lparr>tr_table_id = tid, tr_schema_id = i, tr_table_name = name,
       tr_begin_snapshot = n, tr_end_snapshot = None, tr_path = path,
       tr_table_uuid = Some uuid, tr_path_is_relative = Some True\<rparr>"
    have "session_inv C m n (stage (key_table i tid n) ?v (snd (w_alloc_catalog_id w)))"
      by (intro session_inv_stage(4) [OF inv _ can] ins(2) [OF fresh(2)]) simp
    then have "session_inv C m n (mark_schema_changed
        (stage (key_table_by_id tid) (encode_counter i) (stage (key_table i tid n) ?v w1)))"
      by (intro session_inv_stage(2))
        (auto simp: a key_table_by_id_def intro: history_ok_other [OF refl other_tags(9)])
    moreover have "w_snapshot w1 = n"
      using snapshot_after_alloc(1) [of w] n by (simp add: a)
    ultimately show ?thesis
      by (simp add: create_table_def a)
  qed
  show "session_inv C m n (snd (add_column_with_opts C t name ty ix nl dv idf dvt ddl pc w))"
    unfolding add_column_with_opts_def
    by (auto simp: Let_def case_prod_beta n
        intro!: session_inv_stage(5) [OF inv _ can] ins(3) [OF fresh(3)])
  show "session_inv C m n (snd (create_view_with_opts C uuid i name sql vu dia als w))"
    unfolding create_view_with_opts_def
    by (auto simp: Let_def case_prod_beta n
        intro!: session_inv_stage(5) [OF inv _ can] ins(4) [OF fresh(4)])
  show "session_inv C m n (snd (create_macro C uuid i name ty w))"
    unfolding create_macro_def
    by (auto simp: Let_def case_prod_beta n
        intro!: session_inv_stage(5) [OF inv _ can] ins(5) [OF fresh(5)])
  show "session_inv C m n (snd (add_macro_impl_with_opts C i sql dia mty w))"
    unfolding add_macro_impl_with_opts_def
    by (auto simp: Let_def case_prod_beta key_macro_impl_def
        intro!: session_inv_stage(4) [OF inv _ can] history_ok_other [OF refl other_tags(12)])
qed

lemma session_inv_adds:
  assumes "session_inv C m n w" and "adds (history_ok C n m) op"
  shows "session_inv C m n (snd (op w))"
proof -
  obtain kvs where c: "w_counters (snd (op w)) = w_counters w"
    and "w_staged (snd (op w)) = w_staged w @ kvs" "\<forall>kv\<in>set kvs. history_ok C n m kv"
    using assms(2) by (auto simp: adds_def dest: spec [of _ w])
  then show ?thesis
    by (intro session_inv_extend [OF assms(1), where kvs = kvs]) (auto simp: w_snapshot_def c)
qed

lemma session_inv_drop:
  assumes ok: "slatedb_ok S" and C: "codecs_ok C" and inv: "session_inv C (sdb_view S db) n w"
  shows "live S (pb_SchemaRow C) sr_end_snapshot db (key_schema i) \<Longrightarrow>
      session_inv C (sdb_view S db) n (snd (drop_schema S C db i w))"
    and "live S (pb_TableRow C) tr_end_snapshot db (key_table i t b) \<Longrightarrow>
      session_inv C (sdb_view S db) n (snd (drop_table S C db i t b w))"
    and "live S (pb_ColumnRow C) cr_end_snapshot db (key_column t c b) \<Longrightarrow>
      session_inv C (sdb_view S db) n (snd (drop_column S C db t c b w))"
    and "live S (pb_ViewRow C) vr_end_snapshot db (key_view i v b) \<Longrightarrow>
      session_inv C (sdb_view S db) n (snd (drop_view S C db i v b w))"
    and "live S (pb_MacroRow C) mr_end_snapshot db (key_macro i v b) \<Longrightarrow>
      session_inv C (sdb_view S db) n (snd (drop_macro S C db i v b w))"
proof -
  have n: "w_snapshot w = n"
    using inv by (simp add: session_inv_def)
  note st = session_inv_stage(2) [OF inv] and ret = history_ok_retire [OF C]
  show "session_inv C (sdb_view S db) n (snd (drop_schema S C db i w))"
    if "live S (pb_SchemaRow C) sr_end_snapshot db (key_schema i)"
    using that inv by (auto simp: drop_schema_def Let_def live_def n key_schema_def
        dest!: fetch_row_Inr [OF ok] split: sum.split intro!: st ret(1))
  show "session_inv C (sdb_view S db) n (snd (drop_table S C db i t b w))"
    if "live S (pb_TableRow C) tr_end_snapshot db (key_table i t b)"
    unfolding drop_table_def n by (rule session_inv_adds [OF inv drop_table_at_adds [OF ok C that]])
  show "session_inv C (sdb_view S db) n (snd (drop_column S C db t c b w))"
    if "live S (pb_ColumnRow C) cr_end_snapshot db (key_column t c b)"
    using that inv by (auto simp: drop_column_def Let_def live_def n key_column_def
        dest!: fetch_row_Inr [OF ok] split: sum.split intro!: st ret(3))
  show "session_inv C (sdb_view S db) n (snd (drop_view S C db i v b w))"
    if "live S (pb_ViewRow C) vr_end_snapshot db (key_view i v b)"
    using that inv by (auto simp: drop_view_def Let_def live_def n key_view_def
        dest!: fetch_row_Inr [OF ok] split: sum.split intro!: st ret(4))
  show "session_inv C (sdb_view S db) n (snd (drop_macro S C db i v b w))"
    if "live S (pb_MacroRow C) mr_end_snapshot db (key_macro i v b)"
    using that inv by (auto simp: drop_macro_def Let_def live_def n key_macro_def
        dest!: fetch_row_Inr [OF ok] split: sum.split intro!: st ret(5))
qed

lemma find_row_Inr:
  "find_row dec found kvs err = Inr (Some (k, r)) \<Longrightarrow>
     \<exists>v. (k, v) \<in> set kvs \<and> dec (k, v) = Inr r \<and> found r"
proof (induction kvs)
  case (Cons kv kvs)
  then show ?case by (cases kv) (auto simp: rbind_eq_Inr_iff split: if_splits)
qed (auto split: option.splits)

lemma scan_find_Inr:
  assumes "slatedb_ok S" and "scan_find S cls dec db p found = Inr (Some (k, r))"
  shows "\<exists>v. prefix p k \<and> sdb_view S db k = Some v \<and> dec (k, v) = Inr r \<and> found r"
proof -
  obtain kvs err where sc: "sdb_scan_prefix S db p = Inr (kvs, err)"
    and f: "find_row dec found kvs err = Inr (Some (k, r))"
    using assms(2) by (auto simp: scan_find_def rbind_eq_Inr_iff)
  obtain v where "(k, v) \<in> set kvs" "dec (k, v) = Inr r" "found r"
    using find_row_Inr [OF f] by blast
  then show ?thesis
    using sdb_scan_prefix_partial [OF assms(1) sc] by (auto simp: prefix_listing_def)
qed

text \<open>\<open>rename_column\<close> retires the live row its scan found; the renamed row is new at this snapshot.\<close>

lemma session_inv_rename:
  assumes ok: "slatedb_ok S" and C: "codecs_ok C"
    and inv: "session_inv C (sdb_view S db) n w"
  shows "session_inv C (sdb_view S db) n (snd (rename_column S C db t c w))"
    and "session_inv C (sdb_view S db) n (snd (insert_renamed_column C row name w))"
proof -
  have n: "w_snapshot w = n"
    using inv by (simp add: session_inv_def)
  show "session_inv C (sdb_view S db) n (snd (rename_column S C db t c w))"
  proof (cases "rbind (scan_find S SlateDb (row_decoder (pb_ColumnRow C)) db
             (prefix_columns_for_table t) (\<lambda>r. cr_column_id r = c \<and> cr_end_snapshot r = None))
           (ok_or (NotFound (''column '' @ show_u64 c)))")
    case (Inl e)
    then show ?thesis using inv by (simp add: rename_column_def)
  next
    case (Inr kr)
    obtain k r where kr: "kr = (k, r)" by (cases kr)
    obtain v where v: "prefix (prefix_columns_for_table t) k" "sdb_view S db k = Some v"
      "decode_value (pb_ColumnRow C) v = Inr r" "cr_end_snapshot r = None"
      using Inr scan_find_Inr [OF ok] by (fastforce simp: rbind_eq_Inr_iff kr row_decoder_def)
    have "prefix [TAG_COLUMN] k"
      using v(1) by (auto simp: prefix_columns_for_table_def prefix_def)
    then show ?thesis
      using Inr v by (simp add: rename_column_def kr n)
        (intro session_inv_stage(1) [OF inv] history_ok_retire(3) [OF C])
  qed
  show "session_inv C (sdb_view S db) n (snd (insert_renamed_column C row name w))"
    unfolding insert_renamed_column_def
    by (simp add: Let_def n)
      (intro session_inv_stage(2) [OF inv] history_ok_insert(3) [OF C] session_inv_fresh(3) [OF inv], simp)
qed

lemma session_inv_other:
  assumes inv: "session_inv C m n w"
  shows "session_inv C m n (snd (register_data_file_with_metadata S C db t path fmt rc sz fs ek pid mid pm w))"
    and "session_inv C m n (snd (register_delete_file_with_metadata C d path dc sz fs pm w))"
    and "session_inv C m n (snd (register_inlined_insert C t sv rid payload w))"
    and "session_inv C m n (snd (register_inlined_data_table C t name sv w))"
    and "session_inv C m n (snd (register_schema_version C b sv t w))"
    and "session_inv C m n (snd (mark_inlined_insert_deleted S C db t sv rid w))"
    and "session_inv C m n (snd (register_inlined_delete C t d rid w))"
    and "session_inv C m n (snd (set_tag C hash i key val w))"
    and "session_inv C m n (snd (remove_tag S C hash db i key b w))"
    and "session_inv C m n (snd (set_column_tag C hash t c key val w))"
    and "session_inv C m n (snd (remove_column_tag S C hash db t c key b w))"
    and "session_inv C m n (snd (add_sort_info C t i w))"
    and "session_inv C m n (snd (set_metadata C scope i key val w))"
    and "session_inv C m n (snd (add_snapshot_changes ty info j u w))"
proof -
  note other = history_ok_other [OF refl]
  have files: "session_inv C m n (snd (w_alloc_file_id w))"
    by (rule session_inv_alloc_file [OF inv])
  show "session_inv C m n (snd (register_data_file_with_metadata S C db t path fmt rc sz fs ek pid mid pm w))"
    by (simp add: register_data_file_with_metadata_def case_prod_beta Let_def
        key_data_file_def key_data_file_by_snapshot_def files split: sum.split)
      (intro allI impI session_inv_stage(1) session_inv_stage(3) [OF inv] other other_tags)
  show "session_inv C m n (snd (register_delete_file_with_metadata C d path dc sz fs pm w))"
    by (simp add: register_delete_file_with_metadata_def case_prod_beta Let_def key_delete_file_def)
      (intro session_inv_stage(3) [OF inv] other other_tags)
  show "session_inv C m n (snd (register_inlined_insert C t sv rid payload w))"
    using inv by (simp add: register_inlined_insert_def Let_def key_inlined_insert_def)
      (intro impI session_inv_stage(1) [OF inv] other other_tags)
  show "session_inv C m n (snd (register_inlined_data_table C t name sv w))"
    by (simp add: register_inlined_data_table_def key_inlined_data_tables_def)
      (intro session_inv_stage(1) [OF inv] other other_tags)
  show "session_inv C m n (snd (register_schema_version C b sv t w))"
    by (simp add: register_schema_version_def key_schema_versions_def)
      (intro session_inv_stage(1) [OF inv] other other_tags)
  show "session_inv C m n (snd (mark_inlined_insert_deleted S C db t sv rid w))"
    using inv by (simp add: mark_inlined_insert_deleted_def Let_def key_inlined_insert_def
        split: sum.split) (intro allI impI session_inv_stage(1) [OF inv] other other_tags)
  show "session_inv C m n (snd (register_inlined_delete C t d rid w))"
    by (simp add: register_inlined_delete_def key_inlined_delete_def)
      (intro session_inv_stage(1) [OF inv] other other_tags)
  show "session_inv C m n (snd (set_tag C hash i key val w))"
    by (simp add: set_tag_def Let_def key_tag_def)
      (intro session_inv_stage(1) [OF inv] other other_tags)
  show "session_inv C m n (snd (remove_tag S C hash db i key b w))"
    using inv by (simp add: remove_tag_def Let_def key_tag_def split: sum.split)
      (intro allI impI session_inv_stage(1) [OF inv] other other_tags)
  show "session_inv C m n (snd (set_column_tag C hash t c key val w))"
    by (simp add: set_column_tag_def Let_def key_column_tag_def)
      (intro session_inv_stage(1) [OF inv] other other_tags)
  show "session_inv C m n (snd (remove_column_tag S C hash db t c key b w))"
    using inv by (simp add: remove_column_tag_def Let_def key_column_tag_def split: sum.split)
      (intro allI impI session_inv_stage(1) [OF inv] other other_tags)
  show "session_inv C m n (snd (add_sort_info C t i w))"
    by (simp add: add_sort_info_def Let_def key_sort_info_def)
      (intro session_inv_stage(1) [OF inv] other other_tags)
  show "session_inv C m n (snd (set_metadata C scope i key val w))"
    using inv by (simp add: set_metadata_def Let_def key_metadata_def split: sum.split)
      (intro allI impI session_inv_stage(1) [OF inv] other other_tags)
  show "session_inv C m n (snd (add_snapshot_changes ty info j u w))"
    by (rule session_inv_extend [OF inv, where kvs = "[]"])
      (simp_all add: add_snapshot_changes_def Let_def w_snapshot_def)
qed

theorem wstep_session_inv:
  assumes "slatedb_ok S" and "codecs_ok C" and "wstep S C db w w'"
    and "session_inv C (sdb_view S db) n w"
  shows "session_inv C (sdb_view S db) n w'"
  using assms(3,4)
  by (induction rule: wstep.induct)
    (metis snd_conv session_inv_create [OF assms(2)] session_inv_drop [OF assms(1,2)]
      session_inv_rename [OF assms(1,2)] session_inv_other)+


lemma wsteps_session_inv:
  assumes "slatedb_ok S" and "codecs_ok C" and "(wstep S C db)\<^sup>*\<^sup>* w w'"
    and "session_inv C (sdb_view S db) n w"
  shows "session_inv C (sdb_view S db) n w'"
  using assms(3,4) by (induction rule: rtranclp_induct) (auto intro: wstep_session_inv [OF assms(1,2)])

lemma session_inv_begin:
  "w_staged w = [] \<Longrightarrow> ids_below m (w_counters w) \<Longrightarrow> session_inv C m (w_snapshot w) w"
  by (simp add: session_inv_def)

section \<open>History after a commit\<close>

lemma snapshot_writes_history_ok:
  "kv \<in> set (snapshot_writes C now author message w) \<Longrightarrow> history_ok C n m kv"
  by (auto simp: snapshot_writes_def Let_def key_snapshot_def key_snapshot_changes_def
      key_counter_def split: option.splits intro!: history_ok_other [OF refl other_tags(14)]
      history_ok_other [OF refl other_tags(15)] history_ok_other [OF refl other_tags(16)])

text \<open>What the readers of the five families see of a database content.\<close>

definition same_rows_at ::
  "'db slatedb \<Rightarrow> codecs \<Rightarrow> 'db \<Rightarrow> 'db \<Rightarrow> SnapshotId \<Rightarrow> bool" where
  "same_rows_at S C db db' s \<longleftrightarrow>
     (\<forall>a b. list_schemas S C db s = Inr a \<longrightarrow> list_schemas S C db' s = Inr b \<longrightarrow>
        map (sr_end_snapshot_update (\<lambda>_. None)) a = map (sr_end_snapshot_update (\<lambda>_. None)) b) \<and>
     (\<forall>i a b. list_tables S C db s i = Inr a \<longrightarrow> list_tables S C db' s i = Inr b \<longrightarrow>
        map (tr_end_snapshot_update (\<lambda>_. None)) a = map (tr_end_snapshot_update (\<lambda>_. None)) b) \<and>
     (\<forall>t a b. read_rows S (pb_ColumnRow C) db (prefix_columns_for_table t)
          (\<lambda>r. is_visible (cr_begin_snapshot r) (cr_end_snapshot r) s) = Inr a \<longrightarrow>
        read_rows S (pb_ColumnRow C) db' (prefix_columns_for_table t)
          (\<lambda>r. is_visible (cr_begin_snapshot r) (cr_end_snapshot r) s) = Inr b \<longrightarrow>
        map (cr_end_snapshot_update (\<lambda>_. None)) a = map (cr_end_snapshot_update (\<lambda>_. None)) b) \<and>
     (\<forall>i a b. list_views S C db s i = Inr a \<longrightarrow> list_views S C db' s i = Inr b \<longrightarrow>
        map (vr_end_snapshot_update (\<lambda>_. None)) a = map (vr_end_snapshot_update (\<lambda>_. None)) b) \<and>
     (\<forall>i a b. list_macros S C db s i = Inr a \<longrightarrow> list_macros S C db' s i = Inr b \<longrightarrow>
        map (mr_end_snapshot_update (\<lambda>_. None)) a = map (mr_end_snapshot_update (\<lambda>_. None)) b)"

lemma read_rows_Inr:
  assumes "slatedb_ok S" and "read_rows S P db p keep = Inr a"
  shows "\<exists>rows. rows_under (row_decoder P) keep (sdb_view S db) p rows \<and> a = map snd rows"
  using assms by (auto simp: read_rows_def rbind_eq_Inr_iff dest: scan_rows_Inr)

context versioned
begin

lemma change_ok_cong: "m (fst kv) = m' (fst kv) \<Longrightarrow> change_ok dec n m kv = change_ok dec n m' kv"
  by (simp add: change_ok_def)

text \<open>Two reads of a prefix, one before and one after a list of good writes.\<close>

lemma reads_stable:
  assumes ok: "slatedb_ok S"
    and a: "read_rows S P db p (\<lambda>r. is_visible (begin_of r) (end_of r) s) = Inr a"
    and b: "read_rows S P db' p (\<lambda>r. is_visible (begin_of r) (end_of r) s) = Inr b"
    and view: "sdb_view S db' = put_all kvs m"
    and agree: "\<And>k. prefix p k \<Longrightarrow> m k = sdb_view S db k"
    and changes: "\<And>kv. kv \<in> set kvs \<Longrightarrow> prefix p (fst kv) \<Longrightarrow>
      change_ok (row_decoder P) n (sdb_view S db) kv"
    and early: "as_u64 s < n"
  shows "map (set_end None) a = map (set_end None) b"
proof -
  obtain rows rows' where
    r: "rows_under (row_decoder P) (\<lambda>r. is_visible (begin_of r) (end_of r) s) (sdb_view S db) p rows"
      "rows_under (row_decoder P) (\<lambda>r. is_visible (begin_of r) (end_of r) s) (sdb_view S db') p rows'"
    and ab: "a = map snd rows" "b = map snd rows'"
    using read_rows_Inr [OF ok a] read_rows_Inr [OF ok b] by blast
  have "sdb_view S db' k = sdb_view S db k \<or>
      (\<exists>v. sdb_view S db' k = Some v \<and> change_ok (row_decoder P) n (sdb_view S db) (k, v))"
    if k: "prefix p k" for k
  proof -
    have "change_ok (row_decoder P) n m kv" if "kv \<in> set kvs" "prefix p (fst kv)" for kv
      using changes [OF that] change_ok_cong [of m kv "sdb_view S db"] agree [OF that(2)] by simp
    from put_all_changes [OF this k] show ?thesis
      using view agree [OF k] change_ok_cong [of m "(k, _)" "sdb_view S db"] by fastforce
  qed
  from history_stable [OF r this early] show ?thesis
    by (simp add: ab body_of_def comp_def)
qed

end

lemma prefix_of_tag:
  "prefix (prefix_for_tag t) k \<Longrightarrow> prefix [t] k"
  "prefix (prefix_tables_for_schema i) k \<Longrightarrow> prefix [TAG_TABLE] k"
  "prefix (prefix_columns_for_table i) k \<Longrightarrow> prefix [TAG_COLUMN] k"
  "prefix (prefix_views_for_schema i) k \<Longrightarrow> prefix [TAG_VIEW] k"
  "prefix (prefix_macros_for_schema i) k \<Longrightarrow> prefix [TAG_MACRO] k"
  by (auto simp: prefix_def prefix_for_tag_def prefix_tables_for_schema_def
      prefix_columns_for_table_def prefix_views_for_schema_def prefix_macros_for_schema_def)

lemma history_writes_keep_rows:
  assumes ok: "slatedb_ok S" and view: "sdb_view S db' = put_all kvs m"
    and writes: "\<And>kv. kv \<in> set kvs \<Longrightarrow> history_ok C n (sdb_view S db) kv"
    and agree: "\<And>t k. t \<in> {TAG_SCHEMA, TAG_TABLE, TAG_COLUMN, TAG_VIEW, TAG_MACRO} \<Longrightarrow>
      prefix [t] k \<Longrightarrow> m k = sdb_view S db k"
    and early: "as_u64 s < n"
  shows "same_rows_at S C db db' s"
proof -
  note W = writes [unfolded history_ok_def]
  have w: "\<And>kv. kv \<in> set kvs \<Longrightarrow> prefix [TAG_SCHEMA] (fst kv) \<Longrightarrow>
      schema_rows.change_ok (row_decoder (pb_SchemaRow C)) n (sdb_view S db) kv"
    "\<And>kv. kv \<in> set kvs \<Longrightarrow> prefix [TAG_TABLE] (fst kv) \<Longrightarrow>
      table_rows.change_ok (row_decoder (pb_TableRow C)) n (sdb_view S db) kv"
    "\<And>kv. kv \<in> set kvs \<Longrightarrow> prefix [TAG_COLUMN] (fst kv) \<Longrightarrow>
      column_rows.change_ok (row_decoder (pb_ColumnRow C)) n (sdb_view S db) kv"
    "\<And>kv. kv \<in> set kvs \<Longrightarrow> prefix [TAG_VIEW] (fst kv) \<Longrightarrow>
      view_rows.change_ok (row_decoder (pb_ViewRow C)) n (sdb_view S db) kv"
    "\<And>kv. kv \<in> set kvs \<Longrightarrow> prefix [TAG_MACRO] (fst kv) \<Longrightarrow>
      macro_rows.change_ok (row_decoder (pb_MacroRow C)) n (sdb_view S db) kv"
    using W by blast+
  have g: "prefix [TAG_SCHEMA] k \<Longrightarrow> m k = sdb_view S db k"
    "prefix [TAG_TABLE] k \<Longrightarrow> m k = sdb_view S db k"
    "prefix [TAG_COLUMN] k \<Longrightarrow> m k = sdb_view S db k"
    "prefix [TAG_VIEW] k \<Longrightarrow> m k = sdb_view S db k"
    "prefix [TAG_MACRO] k \<Longrightarrow> m k = sdb_view S db k" for k
    by - (erule agree [rotated], simp)+
  show ?thesis
    unfolding same_rows_at_def list_schemas_def list_tables_def list_views_def list_macros_def
    by (intro conjI allI impI;
        (erule (1) schema_rows.reads_stable [OF ok _ _ view _ _ early] |
         erule (1) table_rows.reads_stable [OF ok _ _ view _ _ early] |
         erule (1) column_rows.reads_stable [OF ok _ _ view _ _ early] |
         erule (1) view_rows.reads_stable [OF ok _ _ view _ _ early] |
         erule (1) macro_rows.reads_stable [OF ok _ _ view _ _ early]);
        blast intro: w g prefix_of_tag)
qed


end
