(* ===== verification/Concrete_Runs.thy ===== *)
theory Concrete_Runs
  imports Mem_Db Mem_Codecs Catalog_Store Write_Session
begin

text \<open>
  Concrete runs of the catalog on the in-memory storage engine and the concrete codecs. They
  instantiate the properties of the development: each witness applies a property to one of these runs.
\<close>

section \<open>Evaluation on the in-memory engine\<close>

lemma mem_commit_same [simp]: "mem_commit db ops db = (Inr (), mem_apply ops db)"
  by (simp add: mem_commit_def mem_valid_refl list_all_iff)

lemma mem_begin [simp]: "begin_tx mem_slatedb db = Inr \<lparr>tx_snap = db, tx_log = []\<rparr>"
  by (simp add: begin_tx_def)

lemma mem_tx_get [simp]:
  "tx_get mem_slatedb k t =
     (Inr (map_of (mem_apply (tx_log t) (tx_snap t)) k), t\<lparr>tx_log := tx_log t @ [TxGet k]\<rparr>)"
  by (simp add: tx_get_def)

lemma mem_tx_put [simp]:
  "tx_put mem_slatedb k v t = (Inr (), t\<lparr>tx_log := tx_log t @ [TxPut k v]\<rparr>)"
  by (simp add: tx_put_def)

lemma mem_apply_simps [simp]:
  "mem_apply [] db = db" "mem_apply (op # ops) db = mem_apply ops (mem_apply_op op db)"
  by (simp_all add: mem_apply_def)

lemma mem_scan_none: "list_all (\<lambda>kv. \<not> prefix p (fst kv)) db \<Longrightarrow> mem_scan db p = []"
  by (auto simp: mem_scan_def list_all_iff filter_empty_conv)

lemma bind_simps [simp]:
  "bind (ret a) f s = f a s" "bind (lift (Inr a)) f s = f a s" "bind (lift (Inl e)) f s = (Inl e, s)"
  "bind (fail e) f s = (Inl e, s)" "m s = (Inr a, s1) \<Longrightarrow> bind m f s = f a s1"
  "m s = (Inl e, s1) \<Longrightarrow> bind m f s = (Inl e, s1)"
  by (simp_all add: bind_def ret_def lift_def fail_def)

lemma mem_tx_put_all [simp]:
  "tx_put_all mem_slatedb kvs t = (Inr (), t\<lparr>tx_log := tx_log t @ map (\<lambda>(k, v). TxPut k v) kvs\<rparr>)"
  by (induction kvs arbitrary: t) (auto simp: ret_def)

section \<open>A catalog owned by one writer\<close>

definition owned_db :: "u64 \<Rightarrow> mem_db" where
  "owned_db e = [(key_system SYSTEM_WRITER_EPOCH, encode_counter e),
                 (key_system SYSTEM_WRITER_NONCE, str_bytes ''nonce'')]"

definition owner :: CatalogWriter where
  "owner = CatalogWriter_new (CounterCache_new 1 1 1) 1 ''nonce'' 0"

lemma owned_db_get [simp]:
  "map_of (owned_db e) (key_system SYSTEM_WRITER_EPOCH) = Some (encode_counter e)"
  "map_of (owned_db e) (key_system SYSTEM_WRITER_NONCE) = Some (str_bytes ''nonce'')"
  using system_keys_differ by (simp_all add: owned_db_def)

text \<open>A writer that holds the stored epoch and nonce commits.\<close>

lemma mem_create_snapshot:
  assumes "map_of db (key_system SYSTEM_WRITER_EPOCH) = Some (encode_counter (w_writer_epoch w))"
    and "map_of db (key_system SYSTEM_WRITER_NONCE) = Some (str_bytes (w_writer_nonce w))"
  shows "\<exists>r db'. create_snapshot mem_slatedb C now id author message (w, db) =
     (Inr r, (drained w, db')) \<and> cmr_snapshot_id r = SnapshotId (w_snapshot w)"
  using assms
  by (simp add: create_snapshot_def Let_def once_tx_def run_tx_def check_epoch_def
      SnapshotId_new_def ret_def)

lemma owner_commits:
  assumes "w_writer_epoch w = 1" and "w_writer_nonce w = ''nonce''"
  obtains r db' where "create_snapshot mem_slatedb C now id author message (w, owned_db 1) =
      (Inr r, (drained w, db'))" and "cmr_snapshot_id r = SnapshotId (w_snapshot w)"
  using mem_create_snapshot [of "owned_db 1" w C now author message] assms by auto

section \<open>Witnesses\<close>

lemmas gc_run_defs = gc_apply_def run_tx_def gc_apply_body_def gc_apply_leases_def
  read_pinned_snapshots_in_tx_def minimum_leased_snapshot_in_tx_def clock_ms_def
  tx_scan_rows_def iter_min_def ret_def

lemma mem_gc_apply:
  "gc_apply mem_slatedb mem_codecs (\<lambda>_. []) (Some 0) 1 [id] [] =
     (Some (Inr \<lparr>gr_previous_retain_from = 0, gr_new_retain_from = 1, gr_snapshots_hidden = 1\<rparr>),
      [(key_system SYSTEM_RETAIN_FROM, encode_counter 1)])"
  by (simp add: gc_run_defs mem_scan_def)


lemma kept_by_id [simp]: "kept_by S Q id"
  by (simp add: kept_by_def)

text \<open>A catalog with floor 5 in which snapshot 3 is pinned or leased: a request for floor 5 is a no-op.\<close>

definition floor_db :: mem_db where
  "floor_db = [(key_system SYSTEM_RETAIN_FROM, encode_counter 5)]"

lemma mem_gc_noop:
  assumes "map_of db (key_system SYSTEM_RETAIN_FROM) = Some (encode_counter 5)"
  shows "gc_apply mem_slatedb C dbg now 5 [id] db =
     (Some (Inr \<lparr>gr_previous_retain_from = 5, gr_new_retain_from = 5, gr_snapshots_hidden = 0\<rparr>), db)"
  using assms by (simp add: gc_run_defs)


lemma mem_codecs_parts [simp]:
  "prost_ok (pb_SnapshotLeaseRow mem_codecs)" "prost_ok (pb_TableStatsRow mem_codecs)"
  "prost_ok (pb_SchemaRow mem_codecs)" "prost_ok (pb_DataFileRow mem_codecs)"
  "prost_ok (pb_SnapshotRow mem_codecs)"
  using mem_codecs_ok unfolding codecs_ok_def by iprover+


theorem gc_plan_respects_pins_witness:
  "\<exists>plan. gc_plan mem_slatedb mem_codecs ''2026'' [(key_pinned_snapshot 3, encode_counter 3)] 0 = Inr plan \<and>
     gp_proposed_retain_from plan < 3"
proof -
  let ?db = "[(key_pinned_snapshot 3, encode_counter 3)]"
  have ne: "key_pinned_snapshot 3 \<noteq> key_system SYSTEM_RETAIN_FROM"
    "key_pinned_snapshot 3 \<noteq> key_counter COUNTER_NEXT_SNAPSHOT_ID"
    "prefix pinned_snapshot_prefix (key_pinned_snapshot 3)"
    by (simp_all add: key_simps tag_defs str_bytes_def)
  obtain plan where p: "gc_plan mem_slatedb mem_codecs ''2026'' ?db 0 = Inr plan"
    using ne by (auto simp: gc_plan_def read_retain_from_def read_latest_snapshot_id_def db_get_def
        read_pinned_snapshots_def scan_rows_def mem_scan_def counter_decoder_def)
  have "pinned_in (sdb_view mem_slatedb ?db) 3"
    unfolding pinned_in_def
    by (intro exI [of _ "key_pinned_snapshot 3"] exI [of _ "encode_counter 3"]) (simp add: ne(3))
  from gc_plan_respects_pins [OF mem_slatedb_ok p this] p show ?thesis by simp
qed


theorem create_snapshot_commits_witness:
  "\<exists>r w' db'. create_snapshot mem_slatedb mem_codecs ''now'' id None None (owner, owned_db 1) =
       (Inr r, (w', db')) \<and> as_u64 (cmr_snapshot_id r) = 1 \<and> w_staged w' = [] \<and>
     epoch_of (map_of (owned_db 1)) 1 ''nonce''"
proof -
  obtain r db' where c: "create_snapshot mem_slatedb mem_codecs ''now'' id None None
      (owner, owned_db 1) = (Inr r, (drained owner, db'))"
    by (rule owner_commits [of owner]) (simp_all add: owner_def CatalogWriter_new_def)
  from create_snapshot_commits [OF mem_slatedb_ok c] c show ?thesis
    by (auto simp: owner_def CatalogWriter_new_def CounterCache_new_def)
qed

theorem fenced_writer_cannot_commit_witness:
  "\<exists>err. fst (create_snapshot mem_slatedb mem_codecs ''now'' id None None (owner, owned_db 2)) = Inl err"
  by (rule fenced_writer_cannot_commit [OF mem_slatedb_ok, where e = 2])
    (simp_all add: owner_def CatalogWriter_new_def)


section \<open>Opening an empty database\<close>

definition opened_db :: "string \<Rightarrow> mem_db" where
  "opened_db nonce =
     [(key_system SYSTEM_WRITER_NONCE, str_bytes nonce),
      (key_system SYSTEM_WRITER_EPOCH, encode_counter 1),
      (key_system SYSTEM_KEY_ENCODING_V020_MIGRATED, str_bytes ''1''),
      (key_system SYSTEM_RETAIN_FROM, encode_counter 0),
      (key_counter COUNTER_NEXT_FILE_ID, encode_counter 1),
      (key_counter COUNTER_NEXT_CATALOG_ID, encode_counter 1),
      (key_counter COUNTER_NEXT_SNAPSHOT_ID, encode_counter 1),
      (key_system SYSTEM_CATALOG_FORMAT_VERSION, encode_format_version CATALOG_FORMAT_VERSION)]"

definition opened_store :: "string \<Rightarrow> CatalogStore" where
  "opened_store nonce =
     \<lparr>cs_counters = CounterCache_new 1 1 1, cs_writer_epoch = 1, cs_writer_nonce = nonce,
      cs_schema_version = 0, cs_retain_from_cache = 0\<rparr>"

lemma mem_initialize:
  "initialize_catalog mem_slatedb id [] = (Inr (CounterCache_new 1 1 1), drop 3 (opened_db nonce))"
  by (simp add: initialize_catalog_def once_tx_def run_tx_def initialize_body_def Let_def ret_def
      opened_db_def)

lemma mem_migrate:
  "migrate_key_encoding_if_needed mem_slatedb C (drop 3 (opened_db nonce)) =
     (Inr (), drop 2 (opened_db nonce))"
  by (simp add: migrate_key_encoding_if_needed_def Let_def migrate_lease_keys_def
      migrate_extension_keys_def migrate_keys_def mem_scan_none opened_db_def db_get_def db_put_def
      bind_def ret_def key_simps tag_defs)

lemma mem_open:
  "open_store mem_slatedb C nonce id [id] [] = (Some (Inr (opened_store nonce)), opened_db nonce)"
proof -
  have "map_of (drop 2 (opened_db nonce)) (key_system SYSTEM_WRITER_EPOCH) = None"
    by (simp add: opened_db_def key_simps tag_defs)
  moreover have "checked_add (0 :: u64) 1 = Some 1"
    by (simp add: checked_add_def)
  ultimately have "retry_tx mem_slatedb (acquire_epoch_body mem_slatedb nonce) [id]
      (drop 2 (opened_db nonce)) = (Some (Inr 1), opened_db nonce)"
    by (simp add: run_tx_def acquire_epoch_body_def ret_def opened_db_def)
  moreover have "read_retain_from mem_slatedb (opened_db nonce) = Inr 0"
    by (simp add: read_retain_from_def db_get_def opened_db_def key_simps tag_defs)
  ultimately show ?thesis
    by (simp add: open_store_def mem_initialize [where nonce = nonce] mem_migrate
        load_schema_version_def opened_store_def counter_defs)
qed

theorem initialize_catalog_correct_witness:
  "initialize_catalog mem_slatedb id [] = (Inr (CounterCache_new 1 1 1), drop 3 (opened_db [])) \<and>
   format_ok (map_of (drop 3 (opened_db [])))"
  using initialize_catalog_correct [OF mem_slatedb_ok mem_initialize [of "[]"]] mem_initialize [of "[]"]
  by simp

lemma stored_epoch_empty: "stored_epoch (sdb_view mem_slatedb []) 0"
  by (simp add: stored_epoch_def)

theorem open_acquires_epoch_witness:
  "open_store mem_slatedb mem_codecs ''n1'' id [id] [] = (Some (Inr (opened_store ''n1'')), opened_db ''n1'') \<and>
   epoch_of (map_of (opened_db ''n1'')) 1 ''n1''"
  using open_acquires_epoch [OF mem_slatedb_ok mem_open [of mem_codecs "''n1''"] stored_epoch_empty]
  by (simp add: mem_open opened_store_def)

theorem open_counters_current_witness:
  "open_store mem_slatedb mem_codecs ''n1'' id [id] [] = (Some (Inr (opened_store ''n1'')), opened_db ''n1'') \<and>
   stored_counters (map_of (opened_db ''n1'')) (CounterCache_new 1 1 1)"
  using open_counters_current [OF mem_slatedb_ok mem_open [of mem_codecs "''n1''"]]
  by (simp add: mem_open opened_store_def)

text \<open>A second process opens the catalog; \<open>env\<close> is what happens during its epoch transaction.\<close>

definition reopened_store :: "string \<Rightarrow> CatalogStore" where
  "reopened_store nonce = (opened_store nonce)\<lparr>cs_writer_epoch := 2\<rparr>"

lemma opened_db_get [simp]:
  "map_of (opened_db n) (key_system SYSTEM_WRITER_NONCE) = Some (str_bytes n)"
  "map_of (opened_db n) (key_system SYSTEM_WRITER_EPOCH) = Some (encode_counter 1)"
  "map_of (opened_db n) (key_system SYSTEM_KEY_ENCODING_V020_MIGRATED) = Some (str_bytes ''1'')"
  "map_of (opened_db n) (key_system SYSTEM_RETAIN_FROM) = Some (encode_counter 0)"
  "map_of (opened_db n) (key_counter COUNTER_NEXT_FILE_ID) = Some (encode_counter 1)"
  "map_of (opened_db n) (key_counter COUNTER_NEXT_CATALOG_ID) = Some (encode_counter 1)"
  "map_of (opened_db n) (key_counter COUNTER_NEXT_SNAPSHOT_ID) = Some (encode_counter 1)"
  "map_of (opened_db n) (key_system SYSTEM_CATALOG_FORMAT_VERSION) =
     Some (encode_format_version CATALOG_FORMAT_VERSION)"
  by (simp_all add: opened_db_def key_simps tag_defs)

lemma mem_reopen:
  assumes "map_of (env (opened_db n1)) (key_system SYSTEM_WRITER_EPOCH) = Some (encode_counter 1)"
    and "map_of (env (opened_db n1)) (key_system SYSTEM_RETAIN_FROM) = Some (encode_counter 0)"
  shows "open_store mem_slatedb C n2 id [env] (opened_db n1) =
    (Some (Inr (reopened_store n2)), (key_system SYSTEM_WRITER_NONCE, str_bytes n2) #
       (key_system SYSTEM_WRITER_EPOCH, encode_counter 2) # env (opened_db n1))"
proof -
  let ?db' = "(key_system SYSTEM_WRITER_NONCE, str_bytes n2) #
       (key_system SYSTEM_WRITER_EPOCH, encode_counter 2) # env (opened_db n1)"
  have i: "initialize_catalog mem_slatedb id (opened_db n1) = (Inr (CounterCache_new 1 1 1), opened_db n1)"
    by (simp add: initialize_catalog_def once_tx_def run_tx_def initialize_body_def Let_def
        check_format_def load_counters_def tx_counter_def ret_def)
  have m: "migrate_key_encoding_if_needed mem_slatedb C (opened_db n1) = (Inr (), opened_db n1)"
    by (simp add: migrate_key_encoding_if_needed_def Let_def db_get_def ret_def)
  have "mem_commit (opened_db n1) [TxGet (key_system SYSTEM_WRITER_EPOCH),
      TxPut (key_system SYSTEM_WRITER_EPOCH) (encode_counter 2),
      TxPut (key_system SYSTEM_WRITER_NONCE) (str_bytes n2)] (env (opened_db n1)) = (Inr (), ?db')"
    using assms(1) by (simp add: mem_commit_def)
  then have r: "retry_tx mem_slatedb (acquire_epoch_body mem_slatedb n2) [env] (opened_db n1) =
      (Some (Inr 2), ?db')"
    by (simp add: run_tx_def acquire_epoch_body_def ret_def checked_add_def)
  have "read_retain_from mem_slatedb ?db' = Inr 0"
    using assms(2) by (simp add: read_retain_from_def db_get_def key_simps tag_defs)
  then show ?thesis
    by (simp add: open_store_def i m r load_schema_version_def reopened_store_def opened_store_def
        counter_defs del: retry_tx.simps)
qed

theorem second_open_fences_first_witness:
  "\<exists>err db2. open_store mem_slatedb mem_codecs ''n2'' id [id] (opened_db ''n1'') =
       (Some (Inr (reopened_store ''n2'')), db2) \<and>
     fst (create_snapshot mem_slatedb mem_codecs ''now'' id None None
       (begin_write (opened_store ''n1''), db2)) = Inl err"
proof -
  have o: "open_store mem_slatedb mem_codecs ''n2'' id [id] (opened_db ''n1'') =
      (Some (Inr (reopened_store ''n2'')), (key_system SYSTEM_WRITER_NONCE, str_bytes ''n2'') #
       (key_system SYSTEM_WRITER_EPOCH, encode_counter 2) # opened_db ''n1'')"
    using mem_reopen [of id "''n1''" mem_codecs "''n2''"] by simp
  have "stored_epoch (sdb_view mem_slatedb (opened_db ''n1'')) 1"
    by (simp add: stored_epoch_def)
  from second_open_fences_first [OF mem_slatedb_ok o this, of "begin_write (opened_store ''n1'')" id]
  show ?thesis
    using o by (auto simp: begin_write_def CatalogWriter_new_def opened_store_def)
qed

text \<open>The counters of a store are read before its epoch is acquired. If the previous owner commits a
  snapshot in between, which its epoch still allows, the new store starts from stale counters: its
  first commit succeeds and reuses snapshot id 1.\<close>

definition late_commit :: "mem_db \<Rightarrow> mem_db" where
  "late_commit db = snd (snd (create_snapshot mem_slatedb mem_codecs ''now'' id None None
     (begin_write (opened_store ''n1''), db)))"

lemma open_counters_can_be_stale:
  "\<exists>db2. open_store mem_slatedb mem_codecs ''n2'' id [late_commit] (opened_db ''n1'') =
       (Some (Inr (reopened_store ''n2'')), db2) \<and>
     cs_counters (reopened_store ''n2'') = CounterCache_new 1 1 1 \<and>
     stored_counters (map_of db2) (CounterCache_new 2 1 1) \<and>
     (\<exists>r w db3. create_snapshot mem_slatedb mem_codecs ''later'' id None None
        (begin_write (reopened_store ''n2''), db2) = (Inr r, (w, db3)) \<and>
        cmr_snapshot_id r = SnapshotId 1)"
proof -
  let ?w = "begin_write (opened_store ''n1'')"
  have w: "w_writer_epoch ?w = 1" "w_writer_nonce ?w = ''n1''" "w_staged ?w = []"
    "w_counters ?w = CounterCache_new 1 1 1" "w_pending_snapshot_changes ?w = None"
    by (simp_all add: begin_write_def CatalogWriter_new_def opened_store_def counter_defs)
  obtain r db' where c: "create_snapshot mem_slatedb mem_codecs ''now'' id None None
      (?w, opened_db ''n1'') = (Inr r, (drained ?w, db'))"
    using mem_create_snapshot [of "opened_db ''n1''" ?w mem_codecs "''now''" None None] w by auto
  then have l: "late_commit (opened_db ''n1'') = db'" by (simp add: late_commit_def)
  have v: "map_of db' = put_all (snapshot_writes mem_codecs ''now'' None None ?w) (map_of (opened_db ''n1''))"
    using create_snapshot_Inr [OF mem_slatedb_ok c] w(3) by simp
  have sc: "stored_counters (map_of db') (w_counters (drained ?w))"
    using stored_counters_commit [of "[]"] v by simp
  have sys: "map_of db' (key_system x) = map_of (opened_db ''n1'') (key_system x)" for x
    unfolding v by (rule put_all_other)
      (auto simp: snapshot_writes_def Let_def finalize_changes_def empty_changes_row_def w key_simps tag_defs)
  have o: "open_store mem_slatedb mem_codecs ''n2'' id [late_commit] (opened_db ''n1'') =
      (Some (Inr (reopened_store ''n2'')), (key_system SYSTEM_WRITER_NONCE, str_bytes ''n2'') #
       (key_system SYSTEM_WRITER_EPOCH, encode_counter 2) # db')"
    using mem_reopen [of late_commit "''n1''" mem_codecs "''n2''"] sys by (simp add: l)
  let ?db2 = "(key_system SYSTEM_WRITER_NONCE, str_bytes ''n2'') #
       (key_system SYSTEM_WRITER_EPOCH, encode_counter 2) # db'"
  have "w_counters (drained ?w) = CounterCache_new 2 1 1"
    by (simp add: drained_def w counter_defs Let_def)
  with sc have s2: "stored_counters (map_of ?db2) (CounterCache_new 2 1 1)"
    by (simp add: stored_counters_def key_simps tag_defs)
  let ?w2 = "begin_write (reopened_store ''n2'')"
  have w2: "w_writer_epoch ?w2 = 2" "w_writer_nonce ?w2 = ''n2''" "w_snapshot ?w2 = 1"
    by (simp_all add: begin_write_def CatalogWriter_new_def reopened_store_def opened_store_def
        counter_defs w_snapshot_def)
  have "\<exists>r db3. create_snapshot mem_slatedb mem_codecs ''later'' id None None (?w2, ?db2) =
     (Inr r, (drained ?w2, db3)) \<and> cmr_snapshot_id r = SnapshotId 1"
    using mem_create_snapshot [of ?db2 ?w2 mem_codecs "''later''" None None] w2 system_keys_differ
    by auto
  with o s2 show ?thesis
    by (auto simp: reopened_store_def opened_store_def)
qed

end
