(* ===== verification/Concrete_Sessions.thy ===== *)
theory Concrete_Sessions
  imports Concrete_Runs
begin

text \<open>
  Further concrete runs on the in-memory storage engine: row id allocation, statistics, failed
  commits, key migration and the reads. Each witness applies a property of the development to one of
  these runs.
\<close>

section \<open>Row ids and statistics\<close>

lemma next_rowid_of_empty: "next_rowid_of 7 (sdb_view mem_slatedb []) 0"
  by (simp add: next_rowid_of_def)

theorem next_rowid_range_outcome_witness:
  "\<exists>db'. next_rowid_range mem_slatedb 7 5 [id] [] = (Some (Inr (0, 5)), db')"
  using next_rowid_range_outcome [OF mem_slatedb_ok mem_slatedb_available next_rowid_of_empty, of 5]
  by auto

lemma mem_rowid:
  "next_rowid_range mem_slatedb 7 5 [id] [] =
     (Some (Inr (0, 5)), [(key_counter_rowid 7, encode_counter 5)])"
  by (simp add: next_rowid_range_def run_tx_def rowid_body_def Let_def ret_def checked_add_def)

theorem rowid_ranges_disjoint_witness:
  "\<exists>a b db'. next_rowid_range mem_slatedb 7 5 [id] [] = (Some (Inr (a, b)), db') \<and>
     a < b \<and> next_rowid_of 7 (map_of db') b"
  using rowid_ranges_disjoint [OF mem_slatedb_ok mem_rowid next_rowid_of_empty] mem_rowid by auto

theorem stats_delta_clamps_witness:
  "\<exists>db' new. apply_table_stats_delta mem_slatedb mem_codecs 7 (- 3)
       [(key_table_stats 7, encode_value (pb_TableStatsRow mem_codecs) (default_table_stats\<lparr>ts_record_count := 1\<rparr>))]
       = (Inr (), db') \<and>
     map_of db' (key_table_stats 7) = Some (encode_value (pb_TableStatsRow mem_codecs) new) \<and>
     ts_record_count new = 0"
proof -
  let ?old = "default_table_stats\<lparr>ts_record_count := 1\<rparr>"
  let ?db = "[(key_table_stats 7, encode_value (pb_TableStatsRow mem_codecs) ?old)]"
  have "\<exists>db'. apply_table_stats_delta mem_slatedb mem_codecs 7 (- 3) ?db = (Inr (), db')"
    by (simp add: apply_table_stats_delta_def Let_def db_get_def db_put_def)
  then obtain db' where r: "apply_table_stats_delta mem_slatedb mem_codecs 7 (- 3) ?db = (Inr (), db')" ..
  have o: "sdb_view mem_slatedb ?db (key_table_stats 7) = Some (encode_value (pb_TableStatsRow mem_codecs) ?old)"
    by simp
  obtain new where n: "map_of db' = (map_of ?db)(key_table_stats 7 \<mapsto> encode_value (pb_TableStatsRow mem_codecs) new)"
    and c: "int (unat (ts_record_count new)) = max 0 (min (2 ^ 64 - 1) (int (unat (ts_record_count ?old)) + sint (- 3 :: i64)))"
    using stats_delta_clamps [OF mem_slatedb_ok mem_codecs_parts(2) o r] by auto
  have "sint (- 3 :: i64) = - 3" by simp
  then have "int (unat (ts_record_count new)) = 0" unfolding c by simp
  then have "unat (ts_record_count new) = 0" by (simp only: of_nat_eq_0_iff)
  with r n show ?thesis by (auto simp: unat_eq_0)
qed

section \<open>Commits\<close>

theorem failed_commit_is_atomic_witness:
  "\<exists>e w' db'. create_snapshot mem_slatedb mem_codecs ''now'' id None None (owner, owned_db 2) =
       (Inl e, (w', db')) \<and> map_of db' (key_snapshot 1) = None"
proof -
  have w: "w_writer_epoch owner = 1" "w_writer_nonce owner = ''nonce''"
    by (simp_all add: owner_def CatalogWriter_new_def)
  have ne: "\<not> epoch_of (map_of (owned_db 2)) (w_writer_epoch owner) (w_writer_nonce owner)"
    by (simp add: epoch_of_def w)
  obtain r w' db' where c0: "create_snapshot mem_slatedb mem_codecs ''now'' id None None
      (owner, owned_db 2) = (r, (w', db'))" by (metis prod.exhaust)
  obtain e where "r = Inl e"
  proof (cases r)
    case (Inr x)
    then show thesis using create_snapshot_Inr [OF mem_slatedb_ok c0 [unfolded Inr]] ne by simp
  qed
  with c0 have c: "create_snapshot mem_slatedb mem_codecs ''now'' id None None
      (owner, owned_db 2) = (Inl e, (w', db'))" by simp
  from ne have "map_of db' = map_of (owned_db 2)"
    using failed_commit_is_atomic [OF mem_slatedb_ok c] by auto
  then show ?thesis
    using c by (auto simp: owned_db_def key_simps tag_defs)
qed

theorem commit_writer_advances_witness:
  "\<exists>r w' db'. create_snapshot mem_slatedb mem_codecs ''now'' id None None
       (begin_write (opened_store ''n1''), opened_db ''n1'') = (Inr r, (w', db')) \<and>
     rd_dl_snapshot_id (read_latest (commit_writer r (opened_store ''n1''))) = SnapshotId 1"
proof -
  let ?w = "begin_write (opened_store ''n1'')"
  have w: "w_writer_epoch ?w = 1" "w_writer_nonce ?w = ''n1''" "w_snapshot ?w = 1"
    by (simp_all add: begin_write_def CatalogWriter_new_def opened_store_def counter_defs w_snapshot_def)
  obtain r db' where c: "create_snapshot mem_slatedb mem_codecs ''now'' id None None
      (?w, opened_db ''n1'') = (Inr r, (drained ?w, db'))" and "cmr_snapshot_id r = SnapshotId 1"
    using mem_create_snapshot [of "opened_db ''n1''" ?w mem_codecs "''now''" None None] w by auto
  then show ?thesis
    using commit_writer_advances [OF mem_slatedb_ok mem_slatedb_available c]
    by (auto simp: opened_store_def CounterCache_new_def)
qed

section \<open>Key migration\<close>

text \<open>A lease row stored under an old, hashed key.\<close>

definition old_lease_db :: mem_db where
  "old_lease_db = [([TAG_SNAPSHOT_LEASE, 1, 2, 3], encode_to_vec (pb_SnapshotLeaseRow mem_codecs)
     \<lparr>sl_consumer_id = ''reader'', sl_min_snapshot_id = 3, sl_expires_at_unix_ms = 60000\<rparr>)]"

theorem migration_places_rows_witness:
  "\<exists>k db'. key_snapshot_lease ''reader'' = Inr k \<and>
     migrate_key_encoding_if_needed mem_slatedb mem_codecs old_lease_db = (Inr (), db') \<and>
     map_of db' k = map_of old_lease_db [TAG_SNAPSHOT_LEASE, 1, 2, 3]"
proof -
  let ?row = "\<lparr>sl_consumer_id = ''reader'', sl_min_snapshot_id = 3, sl_expires_at_unix_ms = 60000\<rparr>"
  let ?old = "[TAG_SNAPSHOT_LEASE, 1, 2, 3]" and ?v = "encode_to_vec (pb_SnapshotLeaseRow mem_codecs) ?row"
  obtain k where k: "key_snapshot_lease ''reader'' = Inr k" and len: "length k = 9"
    and pk: "prefix [TAG_SNAPSHOT_LEASE] k"
    by (simp add: key_simps rbind_eq_Inr_iff)
  have ne: "k \<noteq> ?old" using len by auto
  have t: "lease_target mem_codecs ?v = Some (Inr k)"
    using mem_codecs_parts(1) k by (simp add: lease_target_def prost_ok_def)
  have sl: "mem_scan old_lease_db [TAG_SNAPSHOT_LEASE] = [(?old, ?v)]"
    by (simp add: old_lease_db_def mem_scan_def)
  have tags: "TAG_EXTENSION_SCHEMA \<noteq> TAG_SNAPSHOT_LEASE" by (simp add: tag_defs)
  have se: "mem_scan [(k, ?v)] [TAG_EXTENSION_SCHEMA] = []"
    using pk tags by (intro mem_scan_none) (auto simp: prefix_def)
  have mk: "map_of old_lease_db (key_system SYSTEM_KEY_ENCODING_V020_MIGRATED) = None"
    by (simp add: old_lease_db_def key_simps tag_defs)
  have l: "migrate_lease_keys mem_slatedb mem_codecs old_lease_db = (Inr (), [(k, ?v)])"
    using sl t ne by (simp add: migrate_lease_keys_def migrate_keys_def db_put_def db_delete_def
        old_lease_db_def ret_def)
  have e: "migrate_extension_keys mem_slatedb mem_codecs [(k, ?v)] = (Inr (), [(k, ?v)])"
    using se by (simp add: migrate_extension_keys_def migrate_keys_def ret_def)
  obtain db' where m: "migrate_key_encoding_if_needed mem_slatedb mem_codecs old_lease_db = (Inr (), db')"
    using mk l e by (simp add: migrate_key_encoding_if_needed_def Let_def db_get_def db_put_def)
  have "rows_movable [TAG_SNAPSHOT_LEASE] (lease_target mem_codecs) (sdb_view mem_slatedb old_lease_db)"
    using t ne by (auto simp: rows_movable_def old_lease_db_def)
  moreover have "rows_movable [TAG_EXTENSION_SCHEMA] (extension_target mem_codecs) (sdb_view mem_slatedb old_lease_db)"
    using tags by (auto simp: rows_movable_def old_lease_db_def)
  ultimately have "rows_placed [TAG_SNAPSHOT_LEASE] (lease_target mem_codecs)
      (sdb_view mem_slatedb old_lease_db) (sdb_view mem_slatedb db')"
    using migration_places_rows [OF mem_slatedb_ok m] mk by simp
  from rows_placedD(1) [OF this, of ?old ?v k] have "map_of db' k = Some ?v"
    using t by (simp add: old_lease_db_def)
  then show ?thesis
    using k m by (auto simp: old_lease_db_def)
qed

section \<open>Reads\<close>

definition column_at :: "u64 \<Rightarrow> u64 option \<Rightarrow> u64 \<Rightarrow> ColumnRow" where
  "column_at i parent index =
     \<lparr>cr_column_id = i, cr_table_id = 1, cr_column_name = ''c'', cr_data_type = ''INTEGER'',
      cr_column_index = index, cr_begin_snapshot = 1, cr_end_snapshot = None, cr_default_value = None,
      cr_is_nullable = True, cr_initial_default = None, cr_default_value_type = None,
      cr_default_value_dialect = None, cr_parent_column = parent\<rparr>"

theorem sort_columns_tree_permutes_witness:
  "mset (sort_columns_tree id [column_at 3 (Some 1) 0, column_at 2 None 1, column_at 1 None 0]) =
     {#column_at 3 (Some 1) 0, column_at 2 None 1, column_at 1 None 0#}"
  using sort_columns_tree_permutes [of id "[column_at 3 (Some 1) 0, column_at 2 None 1, column_at 1 None 0]"]
  by simp

definition data_file_at :: "u64 \<Rightarrow> DataFileRow" where
  "data_file_at b = \<lparr>df_data_file_id = 9, df_table_id = 7, df_path = ''f'', df_file_format = ''parquet'',
     df_record_count = 1, df_file_size_bytes = 1, df_footer_size = None, df_encryption_key = None,
     df_begin_snapshot = Some b, df_end_snapshot = None, df_file_order = Some 9,
     df_path_is_relative = Some False, df_row_id_start = Some 0, df_partition_id = None,
     df_mapping_id = None, df_partial_max = None\<rparr>"

definition file_db :: mem_db where
  "file_db = [(key_data_file_by_snapshot 7 2 9, encode_value (pb_DataFileRow mem_codecs) (data_file_at 2))]"

theorem list_data_files_correct_witness:
  "\<exists>files. list_data_files mem_slatedb mem_codecs file_db (SnapshotId 4) 7 = Inr files \<and>
     set files = {data_file_at 2}"
proof -
  have sc: "mem_scan file_db (prefix_data_files_by_snapshot_for_table 7) = file_db"
    by (simp add: mem_scan_def file_db_def key_simps)
  have dec: "decode_value (pb_DataFileRow mem_codecs) (encode_value (pb_DataFileRow mem_codecs) (data_file_at 2))
      = Inr (data_file_at 2)"
    by simp
  obtain files where f: "list_data_files mem_slatedb mem_codecs file_db (SnapshotId 4) 7 = Inr files"
  proof -
    let ?c = "cut_at (prefix_data_files_by_snapshot_upper 7 4) (file_db, None)"
    have "?c = (file_db, None) \<or> ?c = ([], None)"
      by (cases "prefix_data_files_by_snapshot_upper 7 4") (auto simp: cut_at_def file_db_def)
    then have "\<exists>files. list_data_files mem_slatedb mem_codecs file_db (SnapshotId 4) 7 = Inr files"
    proof
      assume "?c = (file_db, None)"
      then have "list_data_files mem_slatedb mem_codecs file_db (SnapshotId 4) 7 =
          rbind (collect_rows (row_decoder (pb_DataFileRow mem_codecs))
            (\<lambda>row. case df_end_snapshot row of Some e \<Rightarrow> \<not> e \<le> as_u64 (SnapshotId 4) | None \<Rightarrow> True) file_db None) (\<lambda>rows.
          Inr (sort_key (\<lambda>f. case df_file_order f of None \<Rightarrow> df_data_file_id f | Some x \<Rightarrow> x) (map snd rows)))"
        using sc by (simp add: list_data_files_def)
      also have "\<dots> = Inr [data_file_at 2]"
        using dec by (simp add: file_db_def row_decoder_def) (simp add: data_file_at_def)
      finally show ?thesis by blast
    next
      assume "?c = ([], None)"
      then show ?thesis using sc by (simp add: list_data_files_def)
    qed
    then show thesis using that by blast
  qed
  have i: "data_file_index_ok mem_codecs (sdb_view mem_slatedb file_db) 7"
    by (auto simp: data_file_index_ok_def file_db_def data_file_at_def split: if_splits)
  have "visible_data_files mem_codecs (map_of file_db) 7 (SnapshotId 4) = {data_file_at 2}"
    by (auto simp: visible_data_files_def file_db_def data_file_at_def is_visible_def key_simps split: if_splits intro!: exI [of _ 2])
  with list_data_files_correct [OF mem_slatedb_ok f i] f show ?thesis by auto
qed

definition schema_db :: mem_db where
  "schema_db = [(key_schema 1, encode_value (pb_SchemaRow mem_codecs)
     \<lparr>sr_schema_id = 1, sr_schema_name = ''main'', sr_begin_snapshot = 2, sr_end_snapshot = None,
      sr_schema_uuid = None, sr_path = None, sr_path_is_relative = None\<rparr>)]"


end
