(* ===== verification/Excise.thy ===== *)
theory Excise
  imports Gc Versioning
begin

text \<open>
  \<open>crates/rocklake-catalog/src/excise.rs\<close>: physical deletion of the rows no retained snapshot can
  see, with an audit entry. The deletions are plain writes outside any transaction; one that
  fails is counted and skipped. The codec of the audit entries is the argument \<open>PA\<close>.
\<close>

section \<open>Data\<close>

record ExcisePlan =
  ep_before_snapshot :: u64
  ep_version_rows_eligible :: u64
  ep_inlined_inserts_eligible :: u64
  ep_inlined_deletes_eligible :: u64
  ep_data_files_eligible :: "string list"
  ep_is_safe :: bool

record ExciseResult =
  er_keys_deleted :: u64
  er_keys_failed :: u64
  er_audit_entry_id :: u64

record ExciseAuditEntry =
  ea_timestamp_millis :: u64
  ea_before_snapshot :: u64
  ea_keys_deleted :: u64
  ea_keys_failed :: u64
  ea_operator :: string

definition excise_audit_prefix :: bytes where
  "excise_audit_prefix = [TAG_SYSTEM] @ SYSTEM_EXCISED_PREFIX"

definition excise_audit_key_with_seq :: "u64 \<Rightarrow> u32 \<Rightarrow> bytes" where
  "excise_audit_key_with_seq timestamp_millis seq =
     [TAG_SYSTEM] @ SYSTEM_EXCISED_PREFIX @ str_bytes '':'' @ be_bytes 8 (unat timestamp_millis) @
     str_bytes '':'' @ be_bytes 4 (unat seq)"

section \<open>Planning\<close>

text \<open>The six scan loops differ in the prefix, the row type and the condition.\<close>

definition ended_by :: "u64 \<Rightarrow> u64 option \<Rightarrow> bool" where
  "ended_by before_snapshot e = (case e of Some x \<Rightarrow> x \<le> before_snapshot | None \<Rightarrow> False)"

definition count_rows ::
  "'db slatedb \<Rightarrow> 'm prost \<Rightarrow> bytes \<Rightarrow> ('m \<Rightarrow> bool) \<Rightarrow> 'db \<Rightarrow> CatalogError + u64" where
  "count_rows S P p cond db =
     rbind (scan_rows S classify_slatedb_error (row_decoder P) db p cond) (\<lambda>rows.
       Inr (of_nat (length rows)))"

definition count_excisable_schemas :: "'db slatedb \<Rightarrow> codecs \<Rightarrow> 'db \<Rightarrow> u64 \<Rightarrow> CatalogError + u64" where
  "count_excisable_schemas S C db before_snapshot =
     count_rows S (pb_SchemaRow C) (prefix_for_tag TAG_SCHEMA)
       (\<lambda>r. ended_by before_snapshot (sr_end_snapshot r)) db"

definition count_excisable_tables :: "'db slatedb \<Rightarrow> codecs \<Rightarrow> 'db \<Rightarrow> u64 \<Rightarrow> CatalogError + u64" where
  "count_excisable_tables S C db before_snapshot =
     count_rows S (pb_TableRow C) (prefix_for_tag TAG_TABLE)
       (\<lambda>r. ended_by before_snapshot (tr_end_snapshot r)) db"

definition count_excisable_columns :: "'db slatedb \<Rightarrow> codecs \<Rightarrow> 'db \<Rightarrow> u64 \<Rightarrow> CatalogError + u64" where
  "count_excisable_columns S C db before_snapshot =
     count_rows S (pb_ColumnRow C) (prefix_for_tag TAG_COLUMN)
       (\<lambda>r. ended_by before_snapshot (cr_end_snapshot r)) db"

definition count_excisable_inlined_inserts ::
  "'db slatedb \<Rightarrow> codecs \<Rightarrow> 'db \<Rightarrow> u64 \<Rightarrow> CatalogError + u64" where
  "count_excisable_inlined_inserts S C db before_snapshot =
     count_rows S (pb_InlinedInsertRow C) [TAG_INLINED_ROWS, INLINED_SUBTYPE_INSERT]
       (\<lambda>r. ended_by before_snapshot (ii_end_snapshot r)) db"

definition count_excisable_inlined_deletes ::
  "'db slatedb \<Rightarrow> codecs \<Rightarrow> 'db \<Rightarrow> u64 \<Rightarrow> CatalogError + u64" where
  "count_excisable_inlined_deletes S C db before_snapshot =
     count_rows S (pb_InlinedDeleteRow C) [TAG_INLINED_ROWS, INLINED_SUBTYPE_DELETE]
       (\<lambda>r. idl_begin_snapshot r < before_snapshot) db"

definition find_excisable_data_files ::
  "'db slatedb \<Rightarrow> codecs \<Rightarrow> 'db \<Rightarrow> u64 \<Rightarrow> CatalogError + string list" where
  "find_excisable_data_files S C db before_snapshot =
     rbind (read_rows S (pb_DataFileRow C) db (prefix_for_tag TAG_DATA_FILE)
         (\<lambda>r. (case df_begin_snapshot r of Some b \<Rightarrow> b | None \<Rightarrow> 0) < before_snapshot)) (\<lambda>rows.
       Inr (map df_path rows))"

definition excise_plan :: "'db slatedb \<Rightarrow> codecs \<Rightarrow> 'db \<Rightarrow> u64 \<Rightarrow> CatalogError + ExcisePlan" where
  "excise_plan S C db before_snapshot =
     rbind (read_retain_from S db) (\<lambda>retain_from.
     let is_safe = (retain_from > 0 \<and> retain_from \<ge> before_snapshot) in
     rbind (count_excisable_schemas S C db before_snapshot) (\<lambda>a.
     rbind (count_excisable_tables S C db before_snapshot) (\<lambda>b.
     rbind (count_excisable_columns S C db before_snapshot) (\<lambda>c.
     rbind (count_excisable_inlined_inserts S C db before_snapshot) (\<lambda>i.
     rbind (count_excisable_inlined_deletes S C db before_snapshot) (\<lambda>d.
     rbind (find_excisable_data_files S C db before_snapshot) (\<lambda>files.
       Inr \<lparr>ep_before_snapshot = before_snapshot, ep_version_rows_eligible = a + b + c,
            ep_inlined_inserts_eligible = i, ep_inlined_deletes_eligible = d,
            ep_data_files_eligible = files, ep_is_safe = is_safe\<rparr>)))))))"

section \<open>Applying\<close>

fun delete_keys :: "'db slatedb \<Rightarrow> bytes list \<Rightarrow> 'db \<Rightarrow> (u64 \<times> u64) \<times> 'db" where
  "delete_keys S [] db = ((0, 0), db)"
| "delete_keys S (k # ks) db =
     (case sdb_delete S db k of
        (r, db1) \<Rightarrow>
          (case delete_keys S ks db1 of
             ((d, f), db2) \<Rightarrow> ((case r of Inr _ \<Rightarrow> (d + 1, f) | Inl _ \<Rightarrow> (d, f + 1)), db2)))"

definition delete_rows ::
  "'db slatedb \<Rightarrow> 'm prost \<Rightarrow> bytes \<Rightarrow> ('m \<Rightarrow> bool) \<Rightarrow> ('db, u64 \<times> u64) cmd" where
  "delete_rows S P p cond db =
     (case scan_rows S classify_slatedb_error (row_decoder P) db p cond of
        Inl e \<Rightarrow> (Inl e, db)
      | Inr rows \<Rightarrow> (case delete_keys S (map fst rows) db of (n, db') \<Rightarrow> (Inr n, db')))"

definition delete_excisable_schemas :: "'db slatedb \<Rightarrow> codecs \<Rightarrow> u64 \<Rightarrow> ('db, u64 \<times> u64) cmd" where
  "delete_excisable_schemas S C before_snapshot =
     delete_rows S (pb_SchemaRow C) (prefix_for_tag TAG_SCHEMA)
       (\<lambda>r. ended_by before_snapshot (sr_end_snapshot r))"

definition delete_excisable_tables :: "'db slatedb \<Rightarrow> codecs \<Rightarrow> u64 \<Rightarrow> ('db, u64 \<times> u64) cmd" where
  "delete_excisable_tables S C before_snapshot =
     delete_rows S (pb_TableRow C) (prefix_for_tag TAG_TABLE)
       (\<lambda>r. ended_by before_snapshot (tr_end_snapshot r))"

definition delete_excisable_columns :: "'db slatedb \<Rightarrow> codecs \<Rightarrow> u64 \<Rightarrow> ('db, u64 \<times> u64) cmd" where
  "delete_excisable_columns S C before_snapshot =
     delete_rows S (pb_ColumnRow C) (prefix_for_tag TAG_COLUMN)
       (\<lambda>r. ended_by before_snapshot (cr_end_snapshot r))"

definition delete_excisable_inlined_inserts ::
  "'db slatedb \<Rightarrow> codecs \<Rightarrow> u64 \<Rightarrow> ('db, u64 \<times> u64) cmd" where
  "delete_excisable_inlined_inserts S C before_snapshot =
     delete_rows S (pb_InlinedInsertRow C) [TAG_INLINED_ROWS, INLINED_SUBTYPE_INSERT]
       (\<lambda>r. ended_by before_snapshot (ii_end_snapshot r))"

definition delete_excisable_inlined_deletes ::
  "'db slatedb \<Rightarrow> codecs \<Rightarrow> u64 \<Rightarrow> ('db, u64 \<times> u64) cmd" where
  "delete_excisable_inlined_deletes S C before_snapshot =
     delete_rows S (pb_InlinedDeleteRow C) [TAG_INLINED_ROWS, INLINED_SUBTYPE_DELETE]
       (\<lambda>r. idl_begin_snapshot r < before_snapshot)"

definition delete_old_snapshots :: "'db slatedb \<Rightarrow> codecs \<Rightarrow> u64 \<Rightarrow> ('db, u64 \<times> u64) cmd" where
  "delete_old_snapshots S C before_snapshot =
     delete_rows S (pb_SnapshotRow C) (prefix_for_tag TAG_SNAPSHOT)
       (\<lambda>r. sn_snapshot_id r < before_snapshot)"

text \<open>The sequence counter is read, truncated to 32 bits and written back plus one; the sum is taken
  at 32 bits. \<open>now_millis\<close> is the clock.\<close>

definition record_audit_entry ::
  "'db slatedb \<Rightarrow> ExciseAuditEntry prost \<Rightarrow> u64 \<Rightarrow> u64 \<Rightarrow> u64 \<Rightarrow> u64 \<Rightarrow> string \<Rightarrow> ('db, u64) cmd" where
  "record_audit_entry S PA now_millis before_snapshot keys_deleted keys_failed operator =
     (let seq_key = key_counter COUNTER_NEXT_EXCISION_SEQ in
      bind (\<lambda>db. (db_get S db seq_key, db)) (\<lambda>d.
      bind (case d of Some data \<Rightarrow> bind (lift (map_err ValueErr (decode_counter data))) (\<lambda>c. ret (ucast c))
            | None \<Rightarrow> ret 0) (\<lambda>seq :: u32.
      bind (db_put S seq_key (encode_counter (ucast (seq + 1)))) (\<lambda>_.
      bind (db_put S (excise_audit_key_with_seq now_millis seq)
          (encode_value PA \<lparr>ea_timestamp_millis = now_millis, ea_before_snapshot = before_snapshot,
             ea_keys_deleted = keys_deleted, ea_keys_failed = keys_failed, ea_operator = operator\<rparr>)) (\<lambda>_.
        ret now_millis)))))"

definition excise_apply ::
  "'db slatedb \<Rightarrow> codecs \<Rightarrow> ExciseAuditEntry prost \<Rightarrow> u64 \<Rightarrow> u64 \<Rightarrow> string \<Rightarrow> ('db, ExciseResult) cmd" where
  "excise_apply S C PA now_millis before_snapshot operator =
     bind (\<lambda>db. (read_retain_from S db, db)) (\<lambda>retain_from.
     if retain_from = 0 \<or> retain_from < before_snapshot
     then fail (ExcisionUnsafe retain_from before_snapshot)
     else
       bind (delete_excisable_schemas S C before_snapshot) (\<lambda>(d1, f1).
       bind (delete_excisable_tables S C before_snapshot) (\<lambda>(d2, f2).
       bind (delete_excisable_columns S C before_snapshot) (\<lambda>(d3, f3).
       bind (delete_excisable_inlined_inserts S C before_snapshot) (\<lambda>(d4, f4).
       bind (delete_excisable_inlined_deletes S C before_snapshot) (\<lambda>(d5, f5).
       bind (delete_old_snapshots S C before_snapshot) (\<lambda>(d6, f6).
       let keys_deleted = d1 + d2 + d3 + d4 + d5 + d6;
           keys_failed = f1 + f2 + f3 + f4 + f5 + f6
       in bind (record_audit_entry S PA now_millis before_snapshot keys_deleted keys_failed operator)
            (\<lambda>audit_entry_id.
              ret \<lparr>er_keys_deleted = keys_deleted, er_keys_failed = keys_failed,
                   er_audit_entry_id = audit_entry_id\<rparr>))))))))"

definition read_audit_entries ::
  "'db slatedb \<Rightarrow> ExciseAuditEntry prost \<Rightarrow> 'db \<Rightarrow> CatalogError + ExciseAuditEntry list" where
  "read_audit_entries S PA db = read_rows S PA db excise_audit_prefix (\<lambda>_. True)"

section \<open>What an excision removes\<close>

text \<open>The rows that are deleted: versions that ended by the floor, and all delete markers and
  snapshot rows the scans select.\<close>

definition excisable :: "codecs \<Rightarrow> u64 \<Rightarrow> (bytes \<Rightarrow> bytes option) \<Rightarrow> bytes \<Rightarrow> bool" where
  "excisable C before m k \<longleftrightarrow>
     (\<exists>v. m k = Some v \<and>
        (prefix [TAG_SCHEMA] k \<and>
           (\<exists>r. decode_value (pb_SchemaRow C) v = Inr r \<and> ended_by before (sr_end_snapshot r)) \<or>
         prefix [TAG_TABLE] k \<and>
           (\<exists>r. decode_value (pb_TableRow C) v = Inr r \<and> ended_by before (tr_end_snapshot r)) \<or>
         prefix [TAG_COLUMN] k \<and>
           (\<exists>r. decode_value (pb_ColumnRow C) v = Inr r \<and> ended_by before (cr_end_snapshot r)) \<or>
         prefix [TAG_INLINED_ROWS, INLINED_SUBTYPE_INSERT] k \<and>
           (\<exists>r. decode_value (pb_InlinedInsertRow C) v = Inr r \<and> ended_by before (ii_end_snapshot r)) \<or>
         prefix [TAG_INLINED_ROWS, INLINED_SUBTYPE_DELETE] k \<or> prefix [TAG_SNAPSHOT] k))"

definition bookkeeping :: "bytes \<Rightarrow> bool" where
  "bookkeeping k \<longleftrightarrow> prefix [TAG_COUNTERS] k \<or> prefix [TAG_SYSTEM] k"

definition excise_effect ::
  "codecs \<Rightarrow> u64 \<Rightarrow> (bytes \<Rightarrow> bytes option) \<Rightarrow> (bytes \<Rightarrow> bytes option) \<Rightarrow> bool" where
  "excise_effect C before m m' \<longleftrightarrow>
     (\<forall>k. m' k = m k \<or> m' k = None \<and> excisable C before m k \<or> bookkeeping k)"

lemma excisable_cong: "m k = m' k \<Longrightarrow> excisable C before m k = excisable C before m' k"
  by (simp add: excisable_def)

lemma excise_effect_refl: "excise_effect C before m m"
  by (simp add: excise_effect_def)

lemma excise_effect_trans:
  assumes "excise_effect C before m m'" and "excise_effect C before m' m''"
  shows "excise_effect C before m m''"
  unfolding excise_effect_def
proof
  fix k
  consider "m'' k = m' k" | "m'' k = None" "excisable C before m' k" | "bookkeeping k"
    using assms(2) [unfolded excise_effect_def, rule_format, of k] by iprover
  then show "m'' k = m k \<or> m'' k = None \<and> excisable C before m k \<or> bookkeeping k"
  proof cases
    case 2
    then have "m' k \<noteq> None" by (auto simp: excisable_def)
    then have "m' k = m k \<or> bookkeeping k"
      using assms(1) by (auto simp: excise_effect_def)
    then show ?thesis using 2 excisable_cong [of m k m'] by auto
  qed (use assms(1) in \<open>auto simp: excise_effect_def\<close>)
qed

lemma delete_keys_view:
  assumes "writes_local S" and "delete_keys S ks db = (n, db')"
  shows "sdb_view S db' k = sdb_view S db k \<or> sdb_view S db' k = None \<and> k \<in> set ks"
  using assms(2)
proof (induction ks arbitrary: db n)
  case (Cons k' ks)
  obtain r db1 where d: "sdb_delete S db k' = (r, db1)" by (cases "sdb_delete S db k'")
  obtain n1 where "delete_keys S ks db1 = (n1, db')"
    using Cons.prems d by (auto split: prod.splits)
  from Cons.IH [OF this] show ?case
    using sdb_delete_local [OF assms(1) d] by (auto split: if_splits)
qed simp

lemma delete_rows_effect:
  assumes "slatedb_ok S" and "writes_local S" and "delete_rows S P p cond db = (r, db')"
    and "\<And>k v row. prefix p k \<Longrightarrow> sdb_view S db k = Some v \<Longrightarrow> decode_value P v = Inr row \<Longrightarrow> cond row \<Longrightarrow>
      excisable C before (sdb_view S db) k"
  shows "excise_effect C before (sdb_view S db) (sdb_view S db')"
proof (cases "scan_rows S classify_slatedb_error (row_decoder P) db p cond")
  case (Inl e)
  then show ?thesis using assms(3) by (simp add: delete_rows_def excise_effect_refl)
next
  case (Inr rows)
  obtain n where d: "delete_keys S (map fst rows) db = (n, db')"
    using assms(3) Inr by (auto simp: delete_rows_def split: prod.splits)
  have "excisable C before (sdb_view S db) k" if "k \<in> set (map fst rows)" for k
  proof -
    from that obtain row where "(k, row) \<in> set rows" by auto
    then show ?thesis
      using rows_under_set [OF scan_rows_Inr [OF assms(1) Inr], of k row] assms(4)
      by (auto simp: row_decoder_def)
  qed
  then show ?thesis
    unfolding excise_effect_def using delete_keys_view [OF assms(2) d] by blast
qed

text \<open>A write of the audit trail.\<close>

lemma put_effect:
  assumes "writes_local S" and "db_put S k v db = (r, db')" and "bookkeeping k"
  shows "excise_effect C before (sdb_view S db) (sdb_view S db')"
proof -
  obtain q where "sdb_put S db k v = (q, db')"
    using assms(2) by (auto simp: db_put_def split: prod.splits)
  from sdb_put_local [OF assms(1) this] show ?thesis
    using assms(3) by (auto simp: excise_effect_def split: if_splits)
qed

text \<open>Commands all of whose outcomes have that effect, closed under sequencing.\<close>

definition excises :: "'db slatedb \<Rightarrow> codecs \<Rightarrow> u64 \<Rightarrow> ('db, 'a) cmd \<Rightarrow> bool" where
  "excises S C before c \<longleftrightarrow>
     (\<forall>db r db'. c db = (r, db') \<longrightarrow> excise_effect C before (sdb_view S db) (sdb_view S db'))"

lemma excises_bind:
  assumes "excises S C before c" and "\<And>a. excises S C before (f a)"
  shows "excises S C before (bind c f)"
  unfolding excises_def
proof (intro allI impI)
  fix db r db' assume b: "bind c f db = (r, db')"
  obtain q db1 where c: "c db = (q, db1)" by (cases "c db")
  note e = assms(1) [unfolded excises_def, rule_format, OF c]
  show "excise_effect C before (sdb_view S db) (sdb_view S db')"
  proof (cases q)
    case (Inl x)
    then show ?thesis using b c e by (simp add: bind_def)
  next
    case (Inr a)
    then have "f a db1 = (r, db')" using b c by (simp add: bind_def)
    then show ?thesis using assms(2) [unfolded excises_def] e excise_effect_trans by blast
  qed
qed

lemma excises_pure: "excises S C before (\<lambda>db. (x db, db))"
  by (simp add: excises_def excise_effect_refl)

lemma excises_simple: "excises S C before (ret a)" "excises S C before (fail e)" "excises S C before (lift q)"
  using excises_pure [of S C before "\<lambda>_. Inr a"] excises_pure [of S C before "\<lambda>_. Inl e"]
    excises_pure [of S C before "\<lambda>_. q"]
  by (simp_all add: ret_def fail_def lift_def excises_def)

lemma excises_put: "writes_local S \<Longrightarrow> bookkeeping k \<Longrightarrow> excises S C before (db_put S k v)"
  by (auto simp: excises_def intro: put_effect)

lemma excises_delete:
  assumes "slatedb_ok S" and "writes_local S"
  shows "excises S C before (delete_excisable_schemas S C before)"
    "excises S C before (delete_excisable_tables S C before)"
    "excises S C before (delete_excisable_columns S C before)"
    "excises S C before (delete_excisable_inlined_inserts S C before)"
    "excises S C before (delete_excisable_inlined_deletes S C before)"
    "excises S C before (delete_old_snapshots S C before)"
  unfolding excises_def delete_excisable_schemas_def delete_excisable_tables_def
    delete_excisable_columns_def delete_excisable_inlined_inserts_def
    delete_excisable_inlined_deletes_def delete_old_snapshots_def
  by (intro allI impI, erule delete_rows_effect [OF assms], fastforce simp: excisable_def prefix_for_tag_def)+

lemma excises_record: "writes_local S \<Longrightarrow> excises S C before (record_audit_entry S PA now b d f op)"
  unfolding record_audit_entry_def Let_def
  by (intro excises_bind excises_pure excises_put)
    (auto simp: bookkeeping_def key_counter_def excise_audit_key_with_seq_def split: option.split
      intro!: excises_bind excises_simple)

lemma excises_apply:
  "slatedb_ok S \<Longrightarrow> writes_local S \<Longrightarrow> excises S C before (excise_apply S C PA now before op)"
  unfolding excise_apply_def Let_def
  by (auto intro!: excises_bind excises_pure excises_delete excises_record excises_simple split: prod.split)

text \<open>Two reads of a prefix whose rows are the same up to rows that are not kept.\<close>

lemma reads_same:
  assumes "slatedb_ok S" and "read_rows S P db p keep = Inr a" and "read_rows S P db' p keep = Inr b"
    and "\<And>k. prefix p k \<Longrightarrow> sdb_view S db' k = sdb_view S db k \<or> sdb_view S db' k = None \<and>
      (\<forall>v r. sdb_view S db k = Some v \<longrightarrow> decode_value P v = Inr r \<longrightarrow> \<not> keep r)"
  shows "b = a"
proof -
  obtain rows where a: "rows_under (row_decoder P) keep (sdb_view S db) p rows" "a = map snd rows"
    using assms(1,2) by (auto simp: read_rows_def rbind_eq_Inr_iff dest: scan_rows_Inr)
  obtain rows' where b: "rows_under (row_decoder P) keep (sdb_view S db') p rows'" "b = map snd rows'"
    using assms(1,3) by (auto simp: read_rows_def rbind_eq_Inr_iff dest: scan_rows_Inr)
  have "(k, r) \<in> set rows \<longleftrightarrow> (k, r) \<in> set rows'" for k r
    unfolding rows_under_set [OF a(1)] rows_under_set [OF b(1)] row_decoder_def
    by (cases "sdb_view S db' k = sdb_view S db k") (use assms(4) [of k] in auto)
  then have "map (id \<circ> snd) rows = map (id \<circ> snd) rows'"
    by (intro sorted_rows_eq [OF rows_under_sorted [OF a(1)] rows_under_sorted [OF b(1)]]) auto
  then show ?thesis by (simp add: a(2) b(2))
qed

lemma ended_invisible: "ended_by before e \<Longrightarrow> before \<le> as_u64 s \<Longrightarrow> \<not> is_visible b e s"
  by (auto simp: ended_by_def is_visible_def split: option.splits)

text \<open>What can disappear under each tag that is read.\<close>

lemma excisable_under:
  "prefix [TAG_SCHEMA] k \<Longrightarrow> excisable C before m k \<longleftrightarrow>
     (\<exists>v r. m k = Some v \<and> decode_value (pb_SchemaRow C) v = Inr r \<and> ended_by before (sr_end_snapshot r))"
  "prefix [TAG_TABLE] k \<Longrightarrow> excisable C before m k \<longleftrightarrow>
     (\<exists>v r. m k = Some v \<and> decode_value (pb_TableRow C) v = Inr r \<and> ended_by before (tr_end_snapshot r))"
  "prefix [TAG_COLUMN] k \<Longrightarrow> excisable C before m k \<longleftrightarrow>
     (\<exists>v r. m k = Some v \<and> decode_value (pb_ColumnRow C) v = Inr r \<and> ended_by before (cr_end_snapshot r))"
  "prefix [TAG_INLINED_ROWS, INLINED_SUBTYPE_INSERT] k \<Longrightarrow> excisable C before m k \<longleftrightarrow>
     (\<exists>v r. m k = Some v \<and> decode_value (pb_InlinedInsertRow C) v = Inr r \<and> ended_by before (ii_end_snapshot r))"
  "prefix [TAG_VIEW] k \<Longrightarrow> \<not> excisable C before m k"
  "prefix [TAG_MACRO] k \<Longrightarrow> \<not> excisable C before m k"
  by (auto simp: excisable_def prefix_def tag_defs)

lemma not_bookkeeping:
  "prefix (t # ts) k \<Longrightarrow> t \<in> {TAG_SCHEMA, TAG_TABLE, TAG_COLUMN, TAG_VIEW, TAG_MACRO, TAG_INLINED_ROWS} \<Longrightarrow>
     \<not> bookkeeping k"
  by (auto simp: bookkeeping_def prefix_def tag_defs)

lemma excise_effectD:
  assumes "excise_effect C before m m'" and "prefix (t # ts) k"
    and "t \<in> {TAG_SCHEMA, TAG_TABLE, TAG_COLUMN, TAG_VIEW, TAG_MACRO, TAG_INLINED_ROWS}"
  shows "m' k = m k \<or> m' k = None \<and> excisable C before m k"
  using assms(1) not_bookkeeping [OF assms(2,3)] unfolding excise_effect_def by iprover

text \<open>A family of versioned rows under a tag, read at a snapshot that is not below the floor.\<close>

lemma excise_keeps_reads:
  assumes "slatedb_ok S" and "excise_effect C before (sdb_view S db) (sdb_view S db')" and "before \<le> as_u64 s"
    and "read_rows S P db p (\<lambda>r. is_visible (begin_of r) (end_of r) s) = Inr a"
    and "read_rows S P db' p (\<lambda>r. is_visible (begin_of r) (end_of r) s) = Inr b"
    and "t \<in> {TAG_SCHEMA, TAG_TABLE, TAG_COLUMN, TAG_VIEW, TAG_MACRO, TAG_INLINED_ROWS}"
    and "prefix (t # ts) p"
    and "\<And>k. prefix (t # ts) k \<Longrightarrow> excisable C before (sdb_view S db) k \<Longrightarrow>
      \<exists>v r. sdb_view S db k = Some v \<and> decode_value P v = Inr r \<and> ended_by before (end_of r)"
  shows "b = a"
proof (rule reads_same [OF assms(1,4,5)])
  fix k assume "prefix p k"
  then have k: "prefix (t # ts) k" using assms(7) prefix_order.order_trans by blast
  show "sdb_view S db' k = sdb_view S db k \<or> sdb_view S db' k = None \<and>
      (\<forall>v r. sdb_view S db k = Some v \<longrightarrow> decode_value P v = Inr r \<longrightarrow> \<not> is_visible (begin_of r) (end_of r) s)"
    using excise_effectD [OF assms(2) k assms(6)] assms(8) [OF k] ended_invisible [OF _ assms(3)]
    by fastforce
qed


section \<open>Delete markers\<close>

text \<open>The delete markers are the exception: a marker has no end, it applies from its begin on, and
  the excision removes the ones that begin before the floor although every retained snapshot still
  needs them.\<close>

lemma delete_keys_gone:
  assumes "slatedb_ok S" and "slatedb_available S" and "delete_keys S ks db = (n, db')"
    and "k \<in> set ks \<or> sdb_view S db k = None"
  shows "sdb_view S db' k = None"
  using assms(3,4)
proof (induction ks arbitrary: db n)
  case (Cons k' ks)
  obtain db1 where d: "sdb_delete S db k' = (Inr (), db1)"
    using sdb_delete_available [OF assms(2), of db k'] by (cases "sdb_delete S db k'") auto
  then obtain n1 where "delete_keys S ks db1 = (n1, db')"
    using Cons.prems by (auto split: prod.splits)
  from Cons.IH [OF this] show ?case
    using Cons.prems(2) sdb_delete_ok [OF assms(1) d] by auto
qed simp

lemma excise_drops_visible_deletes:
  assumes "slatedb_ok S" and "slatedb_available S"
    and "delete_excisable_inlined_deletes S C before db = (Inr n, db')"
    and "prefix [TAG_INLINED_ROWS, INLINED_SUBTYPE_DELETE] k" and "sdb_view S db k = Some v"
    and "decode_value (pb_InlinedDeleteRow C) v = Inr row" and "idl_begin_snapshot row < before"
  shows "sdb_view S db' k = None" and "before \<le> as_u64 s \<Longrightarrow> is_inlined_delete_visible (idl_begin_snapshot row) s"
proof -
  obtain rows where sc: "scan_rows S classify_slatedb_error (row_decoder (pb_InlinedDeleteRow C)) db
      [TAG_INLINED_ROWS, INLINED_SUBTYPE_DELETE] (\<lambda>r. idl_begin_snapshot r < before) = Inr rows"
    and d: "delete_keys S (map fst rows) db = (n, db')"
    using assms(3) by (auto simp: delete_excisable_inlined_deletes_def delete_rows_def
        split: sum.splits prod.splits)
  have "(k, row) \<in> set rows"
    using rows_under_set [OF scan_rows_Inr [OF assms(1) sc], of k row] assms(4-7)
    by (simp add: row_decoder_def)
  then show "sdb_view S db' k = None"
    using delete_keys_gone [OF assms(1,2) d] by force
  show "is_inlined_delete_visible (idl_begin_snapshot row) s" if "before \<le> as_u64 s"
    using assms(7) that by (simp add: is_inlined_delete_visible_def)
qed

end
