(* ===== verification/Checkpoint.thy ===== *)
theory Checkpoint
  imports Versioning
begin

text \<open>
  \<open>crates/rocklake-catalog/src/checkpoint.rs\<close>: named points of the snapshot history. A checkpoint is
  a metadata row under a system key; restoring one ends the rows that began after it. All writes
  are plain writes outside a transaction. The codec of the metadata is the argument \<open>PC\<close>, the
  clock is read twice: \<open>now_millis\<close> and \<open>now\<close>.
\<close>

section \<open>Data and keys\<close>

record CheckpointInfo =
  ci_id :: u64
  ci_created_at :: string
  ci_snapshot_id :: u64
  ci_label :: "string option"

record CheckpointMetadata =
  cm_id :: u64
  cm_created_at :: string
  cm_snapshot_id :: u64
  cm_label :: "string option"

record CheckpointPin =
  cp_name :: string
  cp_snapshot_id :: u64
  cp_created_at :: string

definition checkpoint_prefix :: bytes where
  "checkpoint_prefix = [TAG_SYSTEM] @ str_bytes ''checkpoint:''"

definition checkpoint_key :: "u64 \<Rightarrow> bytes" where
  "checkpoint_key i = [TAG_SYSTEM] @ str_bytes ''checkpoint:'' @ be_bytes 8 (unat i)"

definition checkpoint_pin_prefix :: bytes where
  "checkpoint_pin_prefix = [TAG_SYSTEM] @ str_bytes ''checkpoint-pin:''"

definition checkpoint_pin_key :: "string \<Rightarrow> bytes" where
  "checkpoint_pin_key name = checkpoint_pin_prefix @ str_bytes name"

definition info_of :: "CheckpointMetadata \<Rightarrow> CheckpointInfo" where
  "info_of meta = \<lparr>ci_id = cm_id meta, ci_created_at = cm_created_at meta,
     ci_snapshot_id = cm_snapshot_id meta, ci_label = cm_label meta\<rparr>"

section \<open>Creating and listing\<close>

definition read_db :: "'db slatedb \<Rightarrow> bytes \<Rightarrow> ('db, bytes option) cmd" where
  "read_db S k db = (db_get S db k, db)"

definition create_checkpoint ::
  "'db slatedb \<Rightarrow> CheckpointMetadata prost \<Rightarrow> u64 \<Rightarrow> string \<Rightarrow> string option \<Rightarrow> ('db, CheckpointInfo) cmd" where
  "create_checkpoint S PC now_millis now label =
     bind (read_db S (key_counter COUNTER_NEXT_SNAPSHOT_ID)) (\<lambda>d.
     bind (case d of
         Some data \<Rightarrow> bind (lift (map_err ValueErr (decode_counter data))) (\<lambda>nxt.
             ret (if nxt > 0 then nxt - 1 else 0))
       | None \<Rightarrow> ret 0) (\<lambda>current_snapshot.
     let counter_key = key_counter COUNTER_NEXT_CHECKPOINT_ID in
     bind (read_db S counter_key) (\<lambda>d.
     bind (case d of Some data \<Rightarrow> lift (map_err ValueErr (decode_counter data)) | None \<Rightarrow> ret 0)
       (\<lambda>next_counter.
     let i = max now_millis next_counter in
     bind (db_put S counter_key (encode_counter (i + 1))) (\<lambda>_.
     let meta = \<lparr>cm_id = i, cm_created_at = now, cm_snapshot_id = current_snapshot, cm_label = label\<rparr> in
     bind (db_put S (checkpoint_key i) (encode_value PC meta)) (\<lambda>_.
       ret (info_of meta)))))))"

definition list_checkpoints ::
  "'db slatedb \<Rightarrow> CheckpointMetadata prost \<Rightarrow> 'db \<Rightarrow> CatalogError + CheckpointInfo list" where
  "list_checkpoints S PC db =
     rbind (read_rows S PC db checkpoint_prefix (\<lambda>_. True)) (\<lambda>rows.
       Inr (sort_key ci_id (map info_of rows)))"

section \<open>Restoring\<close>

text \<open>One of the six loops of \<open>hide_post_checkpoint_facts\<close>. The scan reads a consistent view while
  the loop body writes, so the rows are those of the state at the start of the loop; the writes
  made before a decoding or iterator error stay.\<close>

fun hide_rows ::
  "'db slatedb \<Rightarrow> 'm prost \<Rightarrow> ('m \<Rightarrow> u64) \<Rightarrow> ('m \<Rightarrow> u64 option) \<Rightarrow> (u64 option \<Rightarrow> 'm \<Rightarrow> 'm) \<Rightarrow> u64 \<Rightarrow> u64
     \<Rightarrow> kv list \<Rightarrow> string option \<Rightarrow> ('db, unit) cmd" where
  "hide_rows S P begin_of end_of set_end checkpoint hide [] err =
     (case err of None \<Rightarrow> ret () | Some e \<Rightarrow> fail (SlateDb e))"
| "hide_rows S P begin_of end_of set_end checkpoint hide (kv # kvs) err =
     bind (lift (row_decoder P kv)) (\<lambda>row.
     bind (if begin_of row > checkpoint \<and>
              (case end_of row of None \<Rightarrow> True | Some e \<Rightarrow> e > checkpoint)
           then db_put S (fst kv) (encode_value P (set_end (Some hide) row)) else ret ()) (\<lambda>_.
       hide_rows S P begin_of end_of set_end checkpoint hide kvs err))"

definition hide_under ::
  "'db slatedb \<Rightarrow> 'm prost \<Rightarrow> ('m \<Rightarrow> u64) \<Rightarrow> ('m \<Rightarrow> u64 option) \<Rightarrow> (u64 option \<Rightarrow> 'm \<Rightarrow> 'm) \<Rightarrow> u64 \<Rightarrow> u64
     \<Rightarrow> bytes \<Rightarrow> ('db, unit) cmd" where
  "hide_under S P begin_of end_of set_end checkpoint hide p db =
     (case map_err classify_slatedb_error (sdb_scan_prefix S db p) of
        Inl e \<Rightarrow> (Inl e, db)
      | Inr (kvs, err) \<Rightarrow> hide_rows S P begin_of end_of set_end checkpoint hide kvs err db)"

definition hide_post_checkpoint_facts :: "'db slatedb \<Rightarrow> codecs \<Rightarrow> u64 \<Rightarrow> u64 \<Rightarrow> ('db, unit) cmd" where
  "hide_post_checkpoint_facts S C checkpoint hide =
     bind (hide_under S (pb_SchemaRow C) sr_begin_snapshot sr_end_snapshot
       (\<lambda>e. sr_end_snapshot_update (\<lambda>_. e)) checkpoint hide (prefix_for_tag TAG_SCHEMA)) (\<lambda>_.
     bind (hide_under S (pb_TableRow C) tr_begin_snapshot tr_end_snapshot
       (\<lambda>e. tr_end_snapshot_update (\<lambda>_. e)) checkpoint hide (prefix_for_tag TAG_TABLE)) (\<lambda>_.
     bind (hide_under S (pb_ColumnRow C) cr_begin_snapshot cr_end_snapshot
       (\<lambda>e. cr_end_snapshot_update (\<lambda>_. e)) checkpoint hide (prefix_for_tag TAG_COLUMN)) (\<lambda>_.
     bind (hide_under S (pb_ViewRow C) vr_begin_snapshot vr_end_snapshot
       (\<lambda>e. vr_end_snapshot_update (\<lambda>_. e)) checkpoint hide (prefix_for_tag TAG_VIEW)) (\<lambda>_.
     bind (hide_under S (pb_MacroRow C) mr_begin_snapshot mr_end_snapshot
       (\<lambda>e. mr_end_snapshot_update (\<lambda>_. e)) checkpoint hide (prefix_for_tag TAG_MACRO)) (\<lambda>_.
       hide_under S (pb_InlinedInsertRow C) ii_begin_snapshot ii_end_snapshot
       (\<lambda>e. ii_end_snapshot_update (\<lambda>_. e)) checkpoint hide
       [TAG_INLINED_ROWS, INLINED_SUBTYPE_INSERT])))))"

definition restore_checkpoint ::
  "'db slatedb \<Rightarrow> codecs \<Rightarrow> CheckpointMetadata prost \<Rightarrow> u64 \<Rightarrow> ('db, CheckpointInfo) cmd" where
  "restore_checkpoint S C PC checkpoint_id =
     bind (read_db S (checkpoint_key checkpoint_id)) (\<lambda>d.
     bind (lift (ok_or (NotFound (''checkpoint '' @ show_u64 checkpoint_id)) d)) (\<lambda>data.
     bind (lift (map_err ValueErr (decode_value PC data))) (\<lambda>meta.
     let counter_key = key_counter COUNTER_NEXT_SNAPSHOT_ID in
     bind (read_db S counter_key) (\<lambda>d.
     bind (case d of Some data \<Rightarrow> lift (map_err ValueErr (decode_counter data))
           | None \<Rightarrow> ret (cm_snapshot_id meta + 1)) (\<lambda>hide_snapshot.
     bind (if hide_snapshot > cm_snapshot_id meta + 1 then
             bind (hide_post_checkpoint_facts S C (cm_snapshot_id meta) hide_snapshot) (\<lambda>_.
               db_put S counter_key (encode_counter (hide_snapshot + 1)))
           else ret ()) (\<lambda>_.
       ret (info_of meta)))))))"

section \<open>Pins\<close>

definition pin_checkpoint ::
  "'db slatedb \<Rightarrow> CheckpointMetadata prost \<Rightarrow> string \<Rightarrow> string \<Rightarrow> u64 \<Rightarrow> ('db, CheckpointPin) cmd" where
  "pin_checkpoint S PC now name snapshot_id =
     bind (db_put S (checkpoint_pin_key name) (encode_value PC
         \<lparr>cm_id = 0, cm_created_at = now, cm_snapshot_id = snapshot_id, cm_label = Some name\<rparr>)) (\<lambda>_.
       ret \<lparr>cp_name = name, cp_snapshot_id = snapshot_id, cp_created_at = now\<rparr>)"

definition unpin_checkpoint :: "'db slatedb \<Rightarrow> string \<Rightarrow> ('db, unit) cmd" where
  "unpin_checkpoint S name =
     bind (read_db S (checkpoint_pin_key name)) (\<lambda>d.
     bind (lift (ok_or (NotFound (''checkpoint pin '' @ [CHR 0x27] @ name @ [CHR 0x27])) d)) (\<lambda>_.
       db_delete S (checkpoint_pin_key name)))"

text \<open>The name is cut from the key; \<open>String::from_utf8_lossy\<close> is the argument \<open>lossy\<close>.\<close>

definition list_checkpoint_pins ::
  "'db slatedb \<Rightarrow> CheckpointMetadata prost \<Rightarrow> (bytes \<Rightarrow> string) \<Rightarrow> 'db \<Rightarrow> CatalogError + CheckpointPin list" where
  "list_checkpoint_pins S PC lossy db =
     rbind (scan_rows S classify_slatedb_error (row_decoder PC) db checkpoint_pin_prefix (\<lambda>_. True)) (\<lambda>rows.
       Inr (sort_key cp_name (map (\<lambda>(k, meta).
         \<lparr>cp_name = lossy (drop (length checkpoint_pin_prefix) k),
          cp_snapshot_id = cm_snapshot_id meta, cp_created_at = cm_created_at meta\<rparr>) rows)))"

section \<open>The effect of hiding\<close>

context versioned
begin

text \<open>The content after one loop: the rows that began after the checkpoint and are not ended by it are
  ended at the hide snapshot.\<close>

definition hidden_value :: "'r prost \<Rightarrow> u64 \<Rightarrow> u64 \<Rightarrow> bytes \<Rightarrow> bytes" where
  "hidden_value P c h v =
     (case decode_value P v of
        Inl _ \<Rightarrow> v
      | Inr row \<Rightarrow>
          if begin_of row > c \<and> (case end_of row of None \<Rightarrow> True | Some e \<Rightarrow> e > c)
          then encode_value P (set_end (Some h) row) else v)"

lemma hide_rows_Inr:
  assumes "slatedb_ok S" and "hide_rows S P begin_of end_of set_end c h kvs err db = (Inr u, db')"
    and "distinct (map fst kvs)" and "\<And>kv. kv \<in> set kvs \<Longrightarrow> sdb_view S db (fst kv) = Some (snd kv)"
  shows "err = None \<and> (\<forall>k. sdb_view S db' k =
     (if k \<in> fst ` set kvs then map_option (hidden_value P c h) (sdb_view S db k) else sdb_view S db k))"
  using assms(2-4)
proof (induction kvs arbitrary: db)
  case Nil
  then show ?case by (auto simp: fail_def split: option.splits)
next
  case (Cons kv kvs)
  from Cons.prems(1) obtain row db1 where d: "decode_value P (snd kv) = Inr row"
    and st: "(if begin_of row > c \<and> (case end_of row of None \<Rightarrow> True | Some e \<Rightarrow> e > c)
           then db_put S (fst kv) (encode_value P (set_end (Some h) row)) else ret ()) db = (Inr (), db1)"
    and rest: "hide_rows S P begin_of end_of set_end c h kvs err db1 = (Inr u, db')"
    by (auto simp: bind_Inr row_decoder_def)
  have v1: "sdb_view S db1 = (sdb_view S db)(fst kv \<mapsto> hidden_value P c h (snd kv))"
    using st d Cons.prems(3) [of kv]
    by (auto simp: hidden_value_def fun_upd_idem split: if_splits dest: db_put_Inr [OF assms(1)])
  have "sdb_view S db1 (fst x) = Some (snd x)" if "x \<in> set kvs" for x
  proof -
    have "fst x \<noteq> fst kv" using Cons.prems(2) that by (auto simp: image_iff)
    then show ?thesis using Cons.prems(3) [of x] that v1 by simp
  qed
  from Cons.IH [OF rest _ this] Cons.prems(2)
  have ih: "err = None" "\<And>k. sdb_view S db' k =
      (if k \<in> fst ` set kvs then map_option (hidden_value P c h) (sdb_view S db1 k) else sdb_view S db1 k)"
    by auto
  have "fst kv \<notin> fst ` set kvs" using Cons.prems(2) by simp
  then show ?case
    using ih v1 Cons.prems(3) [of kv] by (auto simp: image_iff)
qed

lemma hide_under_Inr:
  assumes "slatedb_ok S" and "hide_under S P begin_of end_of set_end c h p db = (Inr u, db')"
  shows "sdb_view S db' k =
     (if prefix p k then map_option (hidden_value P c h) (sdb_view S db k) else sdb_view S db k)"
proof -
  obtain kvs err where sc: "sdb_scan_prefix S db p = Inr (kvs, err)"
    and h: "hide_rows S P begin_of end_of set_end c h kvs err db = (Inr u, db')"
    using assms(2) by (auto simp: hide_under_def split: sum.splits prod.splits)
  obtain rest where l: "prefix_listing (sdb_view S db) p (kvs @ rest)" and e: "err = None \<longrightarrow> rest = []"
    using sdb_scan_prefix_partial [OF assms(1) sc] by blast
  have d: "distinct (map fst kvs)"
    using l by (auto simp: prefix_listing_def strict_sorted_iff)
  have m: "sdb_view S db (fst kv) = Some (snd kv)" if "kv \<in> set kvs" for kv
    using l that by (cases kv) (auto simp: prefix_listing_def)
  note r = hide_rows_Inr [OF assms(1) h d m]
  have l': "prefix_listing (sdb_view S db) p kvs" using l r e by simp
  have "k \<in> fst ` set kvs \<longleftrightarrow> (\<exists>v. (k, v) \<in> set kvs)" by force
  then have "k \<in> fst ` set kvs \<longleftrightarrow> prefix p k \<and> sdb_view S db k \<noteq> None"
    using l' by (auto simp: prefix_listing_def)
  then show ?thesis
    using r by (cases "sdb_view S db k") auto
qed

text \<open>Reading the rows at or after the hide snapshot.\<close>

lemma hidden_reads:
  assumes "slatedb_ok S" and "prost_ok P"
    and view: "\<And>k. prefix p k \<Longrightarrow> sdb_view S db' k = map_option (hidden_value P c h) (sdb_view S db k)"
    and "h \<le> as_u64 s" and "c < h"
    and a: "read_rows S P db p (\<lambda>r. is_visible (begin_of r) (end_of r) s) = Inr a"
    and b: "read_rows S P db' p (\<lambda>r. is_visible (begin_of r) (end_of r) s) = Inr b"
  shows "b = filter (\<lambda>r. begin_of r \<le> c) a"
proof -
  let ?vis = "\<lambda>r. is_visible (begin_of r) (end_of r) s"
  obtain rows where ra: "rows_under (row_decoder P) ?vis (sdb_view S db) p rows" "a = map snd rows"
    using assms(1) a by (auto simp: read_rows_def rbind_eq_Inr_iff dest: scan_rows_Inr)
  obtain rows' where rb: "rows_under (row_decoder P) ?vis (sdb_view S db') p rows'" "b = map snd rows'"
    using assms(1) b by (auto simp: read_rows_def rbind_eq_Inr_iff dest: scan_rows_Inr)
  let ?f = "filter (\<lambda>x. begin_of (snd x) \<le> c) rows"
  have gone: "\<not> ?vis (set_end (Some h) r)" for r
    using assms(4) by (simp add: end_set_end is_visible_def not_less)
  have old: "\<not> ?vis r" if "end_of r = Some e" "e \<le> c" for r e
    using that assms(4,5) by (auto simp: is_visible_def)
  have "(k, r) \<in> set ?f \<longleftrightarrow> (k, r) \<in> set rows'" for k r
  proof (cases "prefix p k \<and> sdb_view S db k \<noteq> None")
    case True
    then obtain v where v: "sdb_view S db k = Some v" "prefix p k" by auto
    then have v': "sdb_view S db' k = Some (hidden_value P c h v)" using view by simp
    show ?thesis
    proof (cases "decode_value P v")
      case (Inl e)
      then show ?thesis
        using v v' by (simp add: rows_under_set [OF ra(1)] rows_under_set [OF rb(1)] row_decoder_def hidden_value_def)
    next
      case (Inr row)
      then show ?thesis
        using v v' gone [of row] old [of row] decode_encode_value [OF assms(2)]
        by (auto simp: rows_under_set [OF ra(1)] rows_under_set [OF rb(1)] row_decoder_def
            hidden_value_def not_less split: option.splits if_splits)
    qed
  next
    case False
    then show ?thesis
      using view [of k] by (auto simp: rows_under_set [OF ra(1)] rows_under_set [OF rb(1)])
  qed
  moreover have "sorted_wrt (<) (map fst ?f)"
    using rows_under_sorted [OF ra(1)] by (simp add: sorted_wrt_map sorted_wrt_filter)
  ultimately have "map (id \<circ> snd) ?f = map (id \<circ> snd) rows'"
    by (intro sorted_rows_eq [OF _ rows_under_sorted [OF rb(1)]]) auto
  then show ?thesis by (simp add: ra(2) rb(2) filter_map comp_def)
qed

end

section \<open>Restoring a checkpoint\<close>

text \<open>The view after all six loops, under the tag of each family.\<close>

lemma hide_post_checkpoint_facts_Inr:
  assumes "slatedb_ok S" and "hide_post_checkpoint_facts S C c h db = (Inr u, db')"
  shows "prefix [TAG_SCHEMA] k \<Longrightarrow> sdb_view S db' k =
      map_option (schema_rows.hidden_value (pb_SchemaRow C) c h) (sdb_view S db k)"
    and "prefix [TAG_TABLE] k \<Longrightarrow> sdb_view S db' k =
      map_option (table_rows.hidden_value (pb_TableRow C) c h) (sdb_view S db k)"
    and "prefix [TAG_COLUMN] k \<Longrightarrow> sdb_view S db' k =
      map_option (column_rows.hidden_value (pb_ColumnRow C) c h) (sdb_view S db k)"
    and "prefix [TAG_VIEW] k \<Longrightarrow> sdb_view S db' k =
      map_option (view_rows.hidden_value (pb_ViewRow C) c h) (sdb_view S db k)"
    and "prefix [TAG_MACRO] k \<Longrightarrow> sdb_view S db' k =
      map_option (macro_rows.hidden_value (pb_MacroRow C) c h) (sdb_view S db k)"
    and "prefix [TAG_INLINED_ROWS, INLINED_SUBTYPE_INSERT] k \<Longrightarrow> sdb_view S db' k =
      map_option (inlined_insert_rows.hidden_value (pb_InlinedInsertRow C) c h) (sdb_view S db k)"
proof -
  obtain d1 d2 d3 d4 d5 where
    "hide_under S (pb_SchemaRow C) sr_begin_snapshot sr_end_snapshot
       (\<lambda>e. sr_end_snapshot_update (\<lambda>_. e)) c h (prefix_for_tag TAG_SCHEMA) db = (Inr (), d1)"
    "hide_under S (pb_TableRow C) tr_begin_snapshot tr_end_snapshot
       (\<lambda>e. tr_end_snapshot_update (\<lambda>_. e)) c h (prefix_for_tag TAG_TABLE) d1 = (Inr (), d2)"
    "hide_under S (pb_ColumnRow C) cr_begin_snapshot cr_end_snapshot
       (\<lambda>e. cr_end_snapshot_update (\<lambda>_. e)) c h (prefix_for_tag TAG_COLUMN) d2 = (Inr (), d3)"
    "hide_under S (pb_ViewRow C) vr_begin_snapshot vr_end_snapshot
       (\<lambda>e. vr_end_snapshot_update (\<lambda>_. e)) c h (prefix_for_tag TAG_VIEW) d3 = (Inr (), d4)"
    "hide_under S (pb_MacroRow C) mr_begin_snapshot mr_end_snapshot
       (\<lambda>e. mr_end_snapshot_update (\<lambda>_. e)) c h (prefix_for_tag TAG_MACRO) d4 = (Inr (), d5)"
    "hide_under S (pb_InlinedInsertRow C) ii_begin_snapshot ii_end_snapshot
       (\<lambda>e. ii_end_snapshot_update (\<lambda>_. e)) c h [TAG_INLINED_ROWS, INLINED_SUBTYPE_INSERT] d5 = (Inr u, db')"
    using assms(2) by (auto simp: hide_post_checkpoint_facts_def bind_Inr)
  note v = this(1) [THEN schema_rows.hide_under_Inr [OF assms(1)], of k]
    this(2) [THEN table_rows.hide_under_Inr [OF assms(1)], of k]
    this(3) [THEN column_rows.hide_under_Inr [OF assms(1)], of k]
    this(4) [THEN view_rows.hide_under_Inr [OF assms(1)], of k]
    this(5) [THEN macro_rows.hide_under_Inr [OF assms(1)], of k]
    this(6) [THEN inlined_insert_rows.hide_under_Inr [OF assms(1)], of k]
  note p = prefix_for_tag_def prefix_def tag_defs
  show "prefix [TAG_SCHEMA] k \<Longrightarrow> sdb_view S db' k =
      map_option (schema_rows.hidden_value (pb_SchemaRow C) c h) (sdb_view S db k)"
    "prefix [TAG_TABLE] k \<Longrightarrow> sdb_view S db' k =
      map_option (table_rows.hidden_value (pb_TableRow C) c h) (sdb_view S db k)"
    "prefix [TAG_COLUMN] k \<Longrightarrow> sdb_view S db' k =
      map_option (column_rows.hidden_value (pb_ColumnRow C) c h) (sdb_view S db k)"
    "prefix [TAG_VIEW] k \<Longrightarrow> sdb_view S db' k =
      map_option (view_rows.hidden_value (pb_ViewRow C) c h) (sdb_view S db k)"
    "prefix [TAG_MACRO] k \<Longrightarrow> sdb_view S db' k =
      map_option (macro_rows.hidden_value (pb_MacroRow C) c h) (sdb_view S db k)"
    "prefix [TAG_INLINED_ROWS, INLINED_SUBTYPE_INSERT] k \<Longrightarrow> sdb_view S db' k =
      map_option (inlined_insert_rows.hidden_value (pb_InlinedInsertRow C) c h) (sdb_view S db k)"
    using v by (auto simp: p)
qed

text \<open>The outcome of a restore that has something to hide.\<close>

lemma restore_checkpoint_Inr:
  assumes "slatedb_ok S" and "restore_checkpoint S C PC i db = (Inr info, db')"
    and "sdb_view S db (key_counter COUNTER_NEXT_SNAPSHOT_ID) = Some d" and "decode_counter d = Inr h"
    and "ci_snapshot_id info + 1 < h"
  obtains db1 where "hide_post_checkpoint_facts S C (ci_snapshot_id info) h db = (Inr (), db1)"
    "sdb_view S db' = (sdb_view S db1)(key_counter COUNTER_NEXT_SNAPSHOT_ID \<mapsto> encode_counter (h + 1))"
proof -
  from assms(2) obtain data meta where
    "decode_value PC data = Inr meta" "info = info_of meta"
    and r: "(if h > cm_snapshot_id meta + 1 then
             bind (hide_post_checkpoint_facts S C (cm_snapshot_id meta) h) (\<lambda>_.
               db_put S (key_counter COUNTER_NEXT_SNAPSHOT_ID) (encode_counter (h + 1)))
           else ret ()) db = (Inr (), db')"
    using db_get_Inr [OF assms(1), of db "key_counter COUNTER_NEXT_SNAPSHOT_ID"] assms(3,4)
    by (auto simp: restore_checkpoint_def bind_Inr read_db_def Let_def split: option.splits)
  then have "bind (hide_post_checkpoint_facts S C (ci_snapshot_id info) h) (\<lambda>_.
        db_put S (key_counter COUNTER_NEXT_SNAPSHOT_ID) (encode_counter (h + 1))) db = (Inr (), db')"
    using assms(5) by (simp add: info_of_def)
  then show thesis
    by (auto simp: bind_Inr dest: db_put_Inr [OF assms(1)] intro: that)
qed


section \<open>What a restore does not undo\<close>

text \<open>A row that was live at the checkpoint and dropped after it stays dropped: only rows that began
  after the checkpoint are touched.\<close>

lemma restore_keeps_later_drops:
  assumes "decode_value (pb_SchemaRow C) v = Inr row" and "sr_begin_snapshot row \<le> c"
  shows "schema_rows.hidden_value (pb_SchemaRow C) c h v = v"
  using assms by (auto simp: schema_rows.hidden_value_def)

text \<open>A row that was created and dropped again after the checkpoint gets its end moved to the hide
  snapshot: it is visible again at the historical snapshots between its drop and the restore.\<close>

lemma restore_reopens_dropped_rows:
  assumes "prost_ok (pb_SchemaRow C)" and "decode_value (pb_SchemaRow C) v = Inr row"
    and "c < sr_begin_snapshot row" and "sr_end_snapshot row = Some e" and "sr_begin_snapshot row \<le> e"
    and "e \<le> as_u64 s" and "as_u64 s < h"
  shows "\<not> is_visible (sr_begin_snapshot row) (sr_end_snapshot row) s"
    and "\<exists>row'. decode_value (pb_SchemaRow C) (schema_rows.hidden_value (pb_SchemaRow C) c h v) = Inr row' \<and>
      is_visible (sr_begin_snapshot row') (sr_end_snapshot row') s"
  using assms by (auto simp: schema_rows.hidden_value_def is_visible_def)

section \<open>Checkpoint ids\<close>

lemma counter_case:
  "(case d of Some data \<Rightarrow> lift (map_err ValueErr (decode_counter data)) | None \<Rightarrow> ret z) db = (Inr n, db1) \<longleftrightarrow>
     db1 = db \<and> (case d of None \<Rightarrow> n = z | Some data \<Rightarrow> decode_counter data = Inr n)"
  "(case d of Some data \<Rightarrow> bind (lift (map_err ValueErr (decode_counter data))) (\<lambda>c. ret (f c)) | None \<Rightarrow> ret z) db =
     (Inr n, db1) \<longleftrightarrow>
     db1 = db \<and> (case d of None \<Rightarrow> n = z | Some data \<Rightarrow> \<exists>c. decode_counter data = Inr c \<and> n = f c)"
  by (auto simp: bind_Inr split: option.splits)

lemma create_checkpoint_Inr:
  assumes "slatedb_ok S" and "create_checkpoint S PC now_millis now label db = (Inr info, db')"
  shows "\<exists>n. (case sdb_view S db (key_counter COUNTER_NEXT_CHECKPOINT_ID) of
        None \<Rightarrow> n = 0 | Some d \<Rightarrow> decode_counter d = Inr n) \<and>
      ci_id info = max now_millis n \<and>
      sdb_view S db' = (sdb_view S db)(key_counter COUNTER_NEXT_CHECKPOINT_ID \<mapsto> encode_counter (ci_id info + 1),
        checkpoint_key (ci_id info) \<mapsto> encode_value PC \<lparr>cm_id = ci_id info, cm_created_at = now,
          cm_snapshot_id = ci_snapshot_id info, cm_label = label\<rparr>)"
proof -
  from assms(2) obtain d c n db1 u1 u2 where
    g: "db_get S db (key_counter COUNTER_NEXT_CHECKPOINT_ID) = Inr d"
    and n: "case d of None \<Rightarrow> n = 0 | Some data \<Rightarrow> decode_counter data = Inr n"
    and p: "db_put S (key_counter COUNTER_NEXT_CHECKPOINT_ID) (encode_counter (max now_millis n + 1)) db = (Inr u1, db1)"
      "db_put S (checkpoint_key (max now_millis n)) (encode_value PC
        \<lparr>cm_id = max now_millis n, cm_created_at = now, cm_snapshot_id = c, cm_label = label\<rparr>) db1 = (Inr u2, db')"
    and i: "info = info_of \<lparr>cm_id = max now_millis n, cm_created_at = now, cm_snapshot_id = c, cm_label = label\<rparr>"
    unfolding create_checkpoint_def Let_def bind_Inr read_db_def counter_case ret_Inr prod.inject by blast
  show ?thesis
    using n i db_put_Inr [OF assms(1) p(1)] db_put_Inr [OF assms(1) p(2)] db_get_Inr [OF assms(1) g]
    by (intro exI [of _ n]) (auto simp: info_of_def split: option.splits)
qed

lemma checkpoint_keys_differ:
  "checkpoint_key i \<noteq> key_counter c" "checkpoint_key i = checkpoint_key j \<longleftrightarrow> i = j"
proof -
  show "checkpoint_key i \<noteq> key_counter c"
    by (simp add: checkpoint_key_def key_counter_def tag_defs)
  show "checkpoint_key i = checkpoint_key j \<longleftrightarrow> i = j"
    using be_bytes_inject [of "unat i" 8 "unat j"] unsigned_less [of i, where ?'a = nat]
      unsigned_less [of j, where ?'a = nat]
    by (auto simp: checkpoint_key_def word_unat_eq_iff)
qed

text \<open>C27. Checkpoints created one after the other have strictly increasing ids, also when the clock stands
  still or runs backwards, and the second does not overwrite the first.\<close>

theorem checkpoint_ids_increase:
  assumes "slatedb_ok S"
    and "create_checkpoint S PC t1 now1 label1 db = (Inr c1, db1)"
    and "create_checkpoint S PC t2 now2 label2 db1 = (Inr c2, db2)"
    and "ci_id c1 < u64_max"
  shows "ci_id c1 < ci_id c2 \<and>
    sdb_view S db2 (checkpoint_key (ci_id c1)) = sdb_view S db1 (checkpoint_key (ci_id c1)) \<and>
    sdb_view S db1 (checkpoint_key (ci_id c1)) \<noteq> None"
proof -
  note v1 = create_checkpoint_Inr [OF assms(1,2)]
  then have c: "sdb_view S db1 (key_counter COUNTER_NEXT_CHECKPOINT_ID) = Some (encode_counter (ci_id c1 + 1))"
    using checkpoint_keys_differ by (metis fun_upd_other fun_upd_same)
  obtain n where n: "decode_counter (encode_counter (ci_id c1 + 1)) = Inr n" "ci_id c2 = max t2 n"
    and v2: "sdb_view S db2 = (sdb_view S db1)(key_counter COUNTER_NEXT_CHECKPOINT_ID \<mapsto> encode_counter (ci_id c2 + 1),
        checkpoint_key (ci_id c2) \<mapsto> encode_value PC \<lparr>cm_id = ci_id c2, cm_created_at = now2,
          cm_snapshot_id = ci_snapshot_id c2, cm_label = label2\<rparr>)"
    using create_checkpoint_Inr [OF assms(1,3)] unfolding c by auto
  have "ci_id c1 < ci_id c2"
    using n word_Suc_le [OF assms(4)] by (auto simp: word_less_nat_alt max_def word_le_nat_alt)
  moreover have "sdb_view S db1 (checkpoint_key (ci_id c1)) \<noteq> None"
    using v1 by auto
  ultimately show ?thesis
    unfolding v2 using checkpoint_keys_differ by auto
qed

end
