(* ===== verification/Copy_Parser.thy ===== *)
theory Copy_Parser
  imports Prelude
begin

text \<open>
  \<open>crates/rocklake-pgwire/src/copy_parser.rs\<close>: the parser of PostgreSQL's binary COPY format. The
  code walks over the data with a position; here the position is the part of the data that is
  left, so \<open>pos + n > data.len()\<close> reads \<open>length rest < n\<close>.
\<close>

section \<open>The code\<close>

definition PGCOPY_SIGNATURE :: bytes where
  "PGCOPY_SIGNATURE = str_bytes ''PGCOPY'' @ [0x0A, 0xFF, 0x0D, 0x0A, 0x00]"

datatype CopyParseError =
    TooShort
  | BadSignature
  | TruncatedHeaderExt
  | TruncatedFieldCount nat
  | TruncatedFieldLength nat nat
  | TruncatedFieldBody nat nat nat nat
  | MissingEndMarker

text \<open>The loop over the fields of row \<open>row_idx\<close>: field \<open>field_idx\<close> is next, \<open>n\<close> fields are left. A
  negative length, which as an unsigned number is at least \<open>2\<^sup>3\<^sup>1\<close>, is the SQL null.\<close>

fun copy_fields ::
  "nat \<Rightarrow> nat \<Rightarrow> nat \<Rightarrow> bytes \<Rightarrow> CopyParseError + (bytes option list \<times> bytes)" where
  "copy_fields row_idx field_idx 0 rest = Inr ([], rest)"
| "copy_fields row_idx field_idx (Suc n) rest =
     (if length rest < 4 then Inl (TruncatedFieldLength row_idx field_idx)
      else let len = from_be_bytes (take 4 rest); rest1 = drop 4 rest
           in if len \<ge> 2 ^ 31 then
                rbind (copy_fields row_idx (field_idx + 1) n rest1) (\<lambda>(row, rest2).
                  Inr (None # row, rest2))
              else if len > length rest1 then
                Inl (TruncatedFieldBody row_idx field_idx len (length rest1))
              else
                rbind (copy_fields row_idx (field_idx + 1) n (drop len rest1)) (\<lambda>(row, rest2).
                  Inr (Some (take len rest1) # row, rest2)))"

lemma copy_fields_rest: "copy_fields r i n rest = Inr (row, rest') \<Longrightarrow> length rest' \<le> length rest"
proof (induction r i n rest arbitrary: row rule: copy_fields.induct)
  case (2 r i n rest)
  let ?len = "from_be_bytes (take 4 rest)" and ?rest1 = "drop 4 rest"
  have l: "\<not> length rest < 4" using "2.prems" by (auto split: if_splits)
  show ?case
  proof (cases "?len \<ge> 2 ^ 31")
    case True
    then obtain row' where "copy_fields r (i + 1) n ?rest1 = Inr (row', rest')"
      using "2.prems" l by (auto simp: Let_def rbind_eq_Inr_iff)
    from "2.IH"(1) [OF l refl refl True this] show ?thesis by simp
  next
    case False
    then obtain row' where "copy_fields r (i + 1) n (drop ?len ?rest1) = Inr (row', rest')"
      and "\<not> ?len > length ?rest1"
      using "2.prems" l by (auto simp: Let_def rbind_eq_Inr_iff split: if_splits)
    from "2.IH"(2) [OF l refl refl False this(2,1)] show ?thesis by simp
  qed
qed simp

text \<open>The loop over the rows; a negative field count ends it.\<close>

function copy_rows :: "nat \<Rightarrow> bytes \<Rightarrow> CopyParseError + bytes option list list" where
  "copy_rows row_idx rest =
     (if length rest < 2 then Inl (TruncatedFieldCount row_idx)
      else let field_count = from_be_bytes (take 2 rest); rest1 = drop 2 rest
           in if field_count \<ge> 2 ^ 15 then Inr []
              else (case copy_fields row_idx 0 field_count rest1 of
                      Inl e \<Rightarrow> Inl e
                    | Inr (row, rest2) \<Rightarrow>
                        rbind (copy_rows (row_idx + 1) rest2) (\<lambda>rows. Inr (row # rows))))"
  by pat_completeness auto
termination
  by (relation "measure (\<lambda>(i, rest). length rest)") (auto dest!: copy_fields_rest)

declare copy_rows.simps [simp del]

definition parse_binary_copy_rows :: "bytes \<Rightarrow> CopyParseError + bytes option list list" where
  "parse_binary_copy_rows data =
     (if length data < length PGCOPY_SIGNATURE + 8 then Inl TooShort
      else if take (length PGCOPY_SIGNATURE) data \<noteq> PGCOPY_SIGNATURE then Inl BadSignature
      else let rest = drop 4 (drop (length PGCOPY_SIGNATURE) data)
           in if length rest < 4 then Inl TruncatedHeaderExt
              else let ext_len = from_be_bytes (take 4 rest); rest1 = drop 4 rest
                   in if length rest1 < ext_len then Inl TruncatedHeaderExt
                      else copy_rows 0 (drop ext_len rest1))"

text \<open>\<open>row.get(idx)?.as_ref()?\<close>.\<close>

definition copy_field :: "bytes option list \<Rightarrow> nat \<Rightarrow> bytes option" where
  "copy_field row idx = (if idx < length row then row ! idx else None)"

definition extract_i64 :: "bytes option list \<Rightarrow> nat \<Rightarrow> i64 option" where
  "extract_i64 row idx =
     (case copy_field row idx of
        None \<Rightarrow> None
      | Some bs \<Rightarrow> if length bs = 8 then Some (of_nat (from_be_bytes bs)) else None)"

definition extract_varchar :: "(bytes \<Rightarrow> string) \<Rightarrow> bytes option list \<Rightarrow> nat \<Rightarrow> string option" where
  "extract_varchar from_utf8_lossy row idx = map_option from_utf8_lossy (copy_field row idx)"

section \<open>The format\<close>

text \<open>The stream of a list of rows, with any flags and header extension.\<close>

definition field_bytes :: "bytes option \<Rightarrow> bytes" where
  "field_bytes f = (case f of None \<Rightarrow> be_bytes 4 (2 ^ 32 - 1) | Some bs \<Rightarrow> be_bytes 4 (length bs) @ bs)"

definition row_bytes :: "bytes option list \<Rightarrow> bytes" where
  "row_bytes row = be_bytes 2 (length row) @ concat (map field_bytes row)"

definition rows_bytes :: "bytes option list list \<Rightarrow> bytes" where
  "rows_bytes rows = concat (map row_bytes rows) @ be_bytes 2 (2 ^ 16 - 1)"

definition copy_stream :: "bytes \<Rightarrow> bytes \<Rightarrow> bytes option list list \<Rightarrow> bytes" where
  "copy_stream flags ext rows =
     PGCOPY_SIGNATURE @ flags @ be_bytes 4 (length ext) @ ext @ rows_bytes rows"

definition copy_field_ok :: "bytes option \<Rightarrow> bool" where
  "copy_field_ok f \<longleftrightarrow> (case f of None \<Rightarrow> True | Some bs \<Rightarrow> length bs < 2 ^ 31)"

definition copy_row_ok :: "bytes option list \<Rightarrow> bool" where
  "copy_row_ok row \<longleftrightarrow> length row < 2 ^ 15 \<and>
     list_all copy_field_ok row"

lemma field_simps [simp]:
  "field_bytes None = be_bytes 4 (2 ^ 32 - 1)" "field_bytes (Some bs) = be_bytes 4 (length bs) @ bs"
  "copy_field_ok None" "copy_field_ok (Some bs) \<longleftrightarrow> length bs < 2 ^ 31"
  by (simp_all add: field_bytes_def copy_field_ok_def)

lemma be4: "n < 2 ^ 32 \<Longrightarrow> from_be_bytes (be_bytes 4 n) = n"
  by (rule from_be_bytes_be_bytes) simp

lemma be2: "n < 2 ^ 16 \<Longrightarrow> from_be_bytes (be_bytes 2 n) = n"
  by (rule from_be_bytes_be_bytes) simp

lemma copy_fields_encoded:
  assumes "list_all copy_field_ok row"
  shows "copy_fields r i (length row) (concat (map field_bytes row) @ rest) = Inr (row, rest)"
  using assms
proof (induction row arbitrary: i)
  case (Cons f row)
  then show ?case
    by (cases f) (simp_all add: be4 Let_def)
qed simp

lemma copy_rows_encoded:
  assumes "list_all copy_row_ok rows"
  shows "copy_rows i (rows_bytes rows @ rest) = Inr rows"
  using assms
proof (induction rows arbitrary: i)
  case Nil
  then show ?case by (subst copy_rows.simps) (simp add: rows_bytes_def be2)
next
  case (Cons row rows)
  have "copy_fields i 0 (length row) (concat (map field_bytes row) @ rows_bytes rows @ rest) =
      Inr (row, rows_bytes rows @ rest)"
    using Cons.prems by (intro copy_fields_encoded) (simp add: copy_row_ok_def)
  then show ?case
    using Cons by (subst copy_rows.simps) (simp add: rows_bytes_def row_bytes_def be2 copy_row_ok_def)
qed

section \<open>Truncated streams\<close>

lemma copy_fields_truncated:
  assumes "list_all copy_field_ok row"
    and "k < length (concat (map field_bytes row))"
  shows "\<exists>e. copy_fields r i (length row) (take k (concat (map field_bytes row))) = Inl e"
  using assms
proof (induction row arbitrary: i k)
  case (Cons f row)
  show ?case
  proof (cases "k < length (field_bytes f)")
    case True
    then show ?thesis
      using Cons.prems by (cases f) (auto simp: be4 Let_def)
  next
    case False
    have "\<exists>e. copy_fields r (i + 1) (length row)
        (take (k - length (field_bytes f)) (concat (map field_bytes row))) = Inl e"
      using Cons.prems False by (intro Cons.IH) simp_all
    then show ?thesis
      using False Cons.prems by (cases f) (auto simp: be4 Let_def)
  qed
qed simp

lemma copy_rows_truncated:
  assumes "list_all copy_row_ok rows" and "k < length (rows_bytes rows)"
  shows "\<exists>e. copy_rows i (take k (rows_bytes rows)) = Inl e"
  using assms
proof (induction rows arbitrary: i k)
  case Nil
  then show ?case by (subst copy_rows.simps) (simp add: rows_bytes_def)
next
  case (Cons row rows)
  let ?fs = "concat (map field_bytes row)"
  have ok: "length row < 2 ^ 15" "list_all copy_field_ok row"
    using Cons.prems(1) by (simp_all add: copy_row_ok_def)
  have split: "rows_bytes (row # rows) = be_bytes 2 (length row) @ ?fs @ rows_bytes rows"
    by (simp add: rows_bytes_def row_bytes_def)
  consider "k < 2" | "2 \<le> k" "k < 2 + length ?fs" | "2 + length ?fs \<le> k" by linarith
  then show ?case
  proof cases
    case 1
    then show ?thesis by (subst copy_rows.simps) (simp add: split)
  next
    case 2
    have "\<exists>e. copy_fields i 0 (length row) (take (k - 2) ?fs) = Inl e"
      using 2 by (intro copy_fields_truncated ok(2)) linarith
    then show ?thesis
      using 2 ok(1) by (subst copy_rows.simps) (auto simp: split be2)
  next
    case 3
    have "\<exists>e. copy_rows (i + 1) (take (k - 2 - length ?fs) (rows_bytes rows)) = Inl e"
      using Cons.prems 3 by (intro Cons.IH) (simp_all add: split)
    moreover have "copy_fields i 0 (length row) (?fs @ take (k - 2 - length ?fs) (rows_bytes rows)) =
        Inr (row, take (k - 2 - length ?fs) (rows_bytes rows))"
      by (rule copy_fields_encoded [OF ok(2)])
    ultimately show ?thesis
      using 3 ok(1) by (subst copy_rows.simps) (auto simp: split be2)
  qed
qed

text \<open>C22. The COPY parser inverts the binary format: from a stream of rows with any flags, header extension
  and trailing bytes it returns exactly the rows, nulls and empty fields included.\<close>

theorem copy_round_trip:
  assumes "length flags = 4" and "length ext < 2 ^ 32" and "list_all copy_row_ok rows"
  shows "parse_binary_copy_rows (copy_stream flags ext rows @ trailing) = Inr rows"
  using assms copy_rows_encoded [OF assms(3), of 0 trailing]
  by (simp add: parse_binary_copy_rows_def copy_stream_def be4 Let_def)

text \<open>C23. The parser is fail-closed: a stream that is cut off at any point before its end marker is
  complete is rejected with an error and yields no rows.\<close>

theorem copy_truncation_rejected:
  assumes "length flags = 4" and "length ext < 2 ^ 32" and "list_all copy_row_ok rows"
    and "k < length (copy_stream flags ext rows)"
  shows "\<exists>e. parse_binary_copy_rows (take k (copy_stream flags ext rows)) = Inl e"
proof -
  let ?n = "length PGCOPY_SIGNATURE + 8"
  consider "k < ?n" | "?n \<le> k" "k < ?n + length ext" | "?n + length ext \<le> k" by linarith
  then show ?thesis
  proof cases
    case 1
    then show ?thesis using assms by (simp add: parse_binary_copy_rows_def)
  next
    case 2
    then show ?thesis
      using assms by (auto simp: parse_binary_copy_rows_def copy_stream_def be4 Let_def)
  next
    case 3
    have "\<exists>e. copy_rows 0 (take (k - ?n - length ext) (rows_bytes rows)) = Inl e"
      using assms 3 by (intro copy_rows_truncated) (auto simp: copy_stream_def)
    then show ?thesis
      using assms 3 by (auto simp: parse_binary_copy_rows_def copy_stream_def be4 Let_def ac_simps)
  qed
qed

end
