(* ===== verification/File_Pruning.thy ===== *)
theory File_Pruning
  imports Catalog_Reader
begin

text \<open>
  \<open>CatalogReader::prune_files\<close> of \<open>crates/rocklake-catalog/src/reader.rs\<close>: the files of a table
  that can contain a value equal to the predicate, judged by the stored column statistics and by
  the \<open>partial_max\<close> of the data files. The outer option is \<open>None\<close> when a slice panics inside
  the decimal parser.
\<close>

section \<open>The code\<close>

definition prefix_file_column_stats :: "u64 \<Rightarrow> u64 \<Rightarrow> bytes" where
  "prefix_file_column_stats table_id column_id =
     [TAG_FILE_COLUMN_STATS] @ encode_u64 table_id @ encode_u64 column_id"

text \<open>The loop over the statistics rows: the scan's error at the end, the decoder's and the
  pruning function's errors where they occur.\<close>

fun prune_rows ::
  "codecs \<Rightarrow> (DuckLakeType \<Rightarrow> string) \<Rightarrow> string \<Rightarrow> DuckLakeType \<Rightarrow> kv list \<Rightarrow> string option
     \<Rightarrow> (CatalogError + u64 list) option" where
  "prune_rows C debug v t [] err =
     Some (case err of None \<Rightarrow> Inr [] | Some e \<Rightarrow> Inl (SlateDb e))"
| "prune_rows C debug v t (kv # kvs) err =
     (case row_decoder (pb_FileColumnStatsRow C) kv of
        Inl e \<Rightarrow> Some (Inl e)
      | Inr row \<Rightarrow>
          (case prune_file debug v (fcs_min_value row) (fcs_max_value row) (fcs_contains_nan row) t of
             None \<Rightarrow> None
           | Some (Inl e) \<Rightarrow> Some (Inl (TypeCompare e))
           | Some (Inr result) \<Rightarrow>
               map_option (\<lambda>rest. rbind rest (\<lambda>ids.
                   Inr (if result = Keep then fcs_data_file_id row # ids else ids)))
                 (prune_rows C debug v t kvs err)))"

text \<open>\<open>partial_map\<close>, a hash map built from the files in order: a later file replaces an earlier
  one with the same id.\<close>

definition partial_map :: "DataFileRow list \<Rightarrow> u64 \<Rightarrow> string option" where
  "partial_map files = map_of (rev (List.map_filter (\<lambda>f.
     map_option (\<lambda>pm. (df_data_file_id f, pm)) (df_partial_max f)) files))"

text \<open>\<open>retain\<close> with the comparison against \<open>partial_max\<close>; \<open>None\<close> when one panics.\<close>

fun retain_partial ::
  "(u64 \<Rightarrow> string option) \<Rightarrow> string \<Rightarrow> DuckLakeType \<Rightarrow> u64 list \<Rightarrow> u64 list option" where
  "retain_partial pm v t [] = Some []"
| "retain_partial pm v t (i # is) =
     (case pm i of
        None \<Rightarrow> map_option ((#) i) (retain_partial pm v t is)
      | Some m \<Rightarrow>
          (case type_aware_compare v m t of
             None \<Rightarrow> None
           | Some r \<Rightarrow>
               if r = Inr Greater then retain_partial pm v t is
               else map_option ((#) i) (retain_partial pm v t is)))"

definition prune_files ::
  "'db slatedb \<Rightarrow> codecs \<Rightarrow> (DuckLakeType \<Rightarrow> string) \<Rightarrow> 'db \<Rightarrow> SnapshotId \<Rightarrow> u64 \<Rightarrow> u64 \<Rightarrow> string
     \<Rightarrow> DuckLakeType \<Rightarrow> (CatalogError + u64 list) option" where
  "prune_files S C debug db s table_id column_id predicate_value col_type =
     (case map_err classify_slatedb_error
             (sdb_scan_prefix S db (prefix_file_column_stats table_id column_id)) of
        Inl e \<Rightarrow> Some (Inl e)
      | Inr (kvs, err) \<Rightarrow>
          (case prune_rows C debug predicate_value col_type kvs err of
             None \<Rightarrow> None
           | Some (Inl e) \<Rightarrow> Some (Inl e)
           | Some (Inr kept_file_ids) \<Rightarrow>
               if kept_file_ids = [] then Some (Inr [])
               else (case list_data_files S C db s table_id of
                       Inl e \<Rightarrow> Some (Inl e)
                     | Inr data_files \<Rightarrow>
                         map_option Inr (retain_partial (partial_map data_files) predicate_value
                           col_type kept_file_ids))))"

section \<open>No file that can match is pruned\<close>

lemma prune_rows_keep:
  assumes "prune_rows C debug v t kvs err = Some (Inr ids)" and "kv \<in> set kvs"
    and "row_decoder (pb_FileColumnStatsRow C) kv = Inr row"
    and "prune_file debug v (fcs_min_value row) (fcs_max_value row) (fcs_contains_nan row) t =
      Some (Inr Keep)"
  shows "fcs_data_file_id row \<in> set ids"
  using assms(1,2)
proof (induction kvs arbitrary: ids)
  case (Cons kv' kvs)
  from Cons.prems(1) obtain row' result ids' where s: "row_decoder (pb_FileColumnStatsRow C) kv' = Inr row'"
    "prune_file debug v (fcs_min_value row') (fcs_max_value row') (fcs_contains_nan row') t = Some (Inr result)"
    "prune_rows C debug v t kvs err = Some (Inr ids')"
    "ids = (if result = Keep then fcs_data_file_id row' # ids' else ids')"
    by (auto simp: rbind_eq_Inr_iff split: sum.splits option.splits)
  show ?case
  proof (cases "kv = kv'")
    case True
    then have "row' = row" using s(1) assms(3) by simp
    then show ?thesis using s assms(4) by simp
  next
    case False
    then show ?thesis using s Cons by auto
  qed
qed simp

lemma prune_rows_no_error: "prune_rows C debug v t kvs err = Some (Inr ids) \<Longrightarrow> err = None"
  by (induction kvs arbitrary: ids)
    (auto simp: rbind_eq_Inr_iff split: sum.splits option.splits)

lemma prune_files_Inr:
  assumes "prune_files S C debug db s t c v ty = Some (Inr ids)"
  obtains kvs err kept where
    "sdb_scan_prefix S db (prefix_file_column_stats t c) = Inr (kvs, err)"
    "prune_rows C debug v ty kvs err = Some (Inr kept)"
    "kept \<noteq> [] \<longrightarrow> (\<exists>files. list_data_files S C db s t = Inr files \<and>
        retain_partial (partial_map files) v ty kept = Some ids)"
proof -
  obtain kvs err where sc: "sdb_scan_prefix S db (prefix_file_column_stats t c) = Inr (kvs, err)"
    using assms by (cases "sdb_scan_prefix S db (prefix_file_column_stats t c)") (auto simp: prune_files_def)
  then obtain kept where kept: "prune_rows C debug v ty kvs err = Some (Inr kept)"
    using assms by (auto simp: prune_files_def split: option.splits sum.splits)
  show thesis
  proof (rule that [OF sc kept], rule impI)
    assume "kept \<noteq> []"
    then show "\<exists>files. list_data_files S C db s t = Inr files \<and>
        retain_partial (partial_map files) v ty kept = Some ids"
      using assms sc kept by (auto simp: prune_files_def split: sum.splits)
  qed
qed

lemma retain_partial_keep:
  assumes "retain_partial pm v t ids = Some ids'" and "i \<in> set ids"
    and "\<And>m. pm i = Some m \<Longrightarrow> type_aware_compare v m t \<noteq> Some (Inr Greater)"
  shows "i \<in> set ids'"
  using assms(1,2)
proof (induction ids arbitrary: ids')
  case (Cons j ids)
  show ?case
  proof (cases "i = j")
    case True
    then show ?thesis
      using Cons.prems(1) assms(3) by (auto split: option.splits if_splits)
  next
    case False
    then show ?thesis
      using Cons by (auto split: option.splits if_splits)
  qed
qed simp

lemma partial_map_Some:
  "partial_map files i = Some m \<Longrightarrow> \<exists>f\<in>set files. df_data_file_id f = i \<and> df_partial_max f = Some m"
  by (force simp: partial_map_def List.map_filter_def split: if_splits dest!: map_of_SomeD)

text \<open>An upper bound of a value that matches does not prune.\<close>

definition upper_bound :: "DuckLakeType \<Rightarrow> string \<Rightarrow> string \<Rightarrow> bool" where
  "upper_bound t x m \<longleftrightarrow> value_le t x m \<or> is_Float t \<and> parse_float x = Some F64_NaN"

lemma upper_bound_keeps:
  assumes "value_matches t v x" and "upper_bound t x m"
  shows "type_aware_compare v m t \<noteq> Some (Inr Greater)"
proof (cases "is_Float t \<and> parse_float x = Some F64_NaN")
  case True
  then obtain w where t: "t = Float w" by (cases t) auto
  have "parse_float v = Some F64_NaN"
    using assms(1) True by (auto simp: value_matches_def t type_aware_compare_def compare_parsed_Inr
        compare_floats_def dest: partial_cmp_not_NaN)
  then show ?thesis
    by (auto simp: t type_aware_compare_def compare_parsed_Inr compare_floats_def dest: partial_cmp_not_NaN)
next
  case False
  then have "value_le t x m" "type_aware_compare v x t = Some (Inr Equal)"
    using assms by (auto simp: upper_bound_def value_matches_def)
  then show ?thesis using value_ge_match by fastforce
qed

text \<open>C17. \<open>prune_files\<close> never drops a file that holds a matching value: when a stored statistics row
  describes a value of its file that equals the predicate, and the \<open>partial_max\<close> of every visible
  data file with that id, where present, bounds the value, the file is in the result.\<close>

theorem prune_files_sound:
  assumes "slatedb_ok S" and "prune_files S C debug db s t c v ty = Some (Inr ids)"
    and "data_file_index_ok C (sdb_view S db) t"
    and "prefix (prefix_file_column_stats t c) k" and "sdb_view S db k = Some d"
    and "decode_value (pb_FileColumnStatsRow C) d = Inr row"
    and "value_matches ty v x"
    and "stats_cover ty (fcs_min_value row) (fcs_max_value row) (fcs_contains_nan row) x"
    and "\<forall>f\<in>visible_data_files C (sdb_view S db) t s. \<forall>m.
      df_data_file_id f = fcs_data_file_id row \<longrightarrow> df_partial_max f = Some m \<longrightarrow> upper_bound ty x m"
  shows "fcs_data_file_id row \<in> set ids"
proof -
  obtain kvs err kept where sc: "sdb_scan_prefix S db (prefix_file_column_stats t c) = Inr (kvs, err)"
    and kept: "prune_rows C debug v ty kvs err = Some (Inr kept)"
    and p: "kept \<noteq> [] \<longrightarrow> (\<exists>files. list_data_files S C db s t = Inr files \<and>
        retain_partial (partial_map files) v ty kept = Some ids)"
    using prune_files_Inr [OF assms(2)] .
  have "err = None" by (rule prune_rows_no_error [OF kept])
  then have "(k, d) \<in> set kvs"
    using sc sdb_scan_prefix_ok [OF assms(1)] assms(4,5) by (auto simp: prefix_listing_def)
  then have id: "fcs_data_file_id row \<in> set kept"
    using prune_rows_keep [OF kept, of "(k, d)" row] prune_file_keeps [OF assms(7,8)] assms(6)
    by (simp add: row_decoder_def)
  then obtain files where files: "list_data_files S C db s t = Inr files"
    "retain_partial (partial_map files) v ty kept = Some ids"
    using p by (cases kept) auto
  have "type_aware_compare v m ty \<noteq> Some (Inr Greater)"
    if "partial_map files (fcs_data_file_id row) = Some m" for m
    using partial_map_Some [OF that] list_data_files_set [OF assms(1) files(1) assms(3)] assms(9)
      upper_bound_keeps [OF assms(7)] by blast
  from retain_partial_keep [OF files(2) id this] show ?thesis by simp
qed

end
