(* ===== verification/Writer_Stats.thy ===== *)
theory Writer_Stats
  imports Catalog_Writer
begin

text \<open>
  \<open>crates/rocklake-catalog/src/writer/stats.rs\<close>: the statistics operations of \<open>CatalogWriter\<close>. They
  write to the database at once and do not go through the staged writes of the session. The
  theory also has the comparison of statistic values by their look that merging uses: numbers by
  value, everything else as strings.
\<close>

section \<open>Comparing values\<close>

definition apply_i64_delta :: "u64 \<Rightarrow> i64 \<Rightarrow> u64" where
  "apply_i64_delta value delta =
     (if sint delta < 0 then saturating_sub value (- delta) else saturating_add value delta)"

definition strip_minus :: "string \<Rightarrow> string option" where
  "strip_minus s = (case s of c # cs \<Rightarrow> if c = CHR ''-'' then Some cs else None | [] \<Rightarrow> None)"

definition is_decimal :: "string \<Rightarrow> bool" where
  "is_decimal s0 =
     (if s0 = [] then False
      else let s = (case strip_minus s0 of Some t \<Rightarrow> t | None \<Rightarrow> s0)
           in if s = [] then False
              else (case find_char CHR ''.'' s of
                      None \<Rightarrow> False
                    | Some dot_pos \<Rightarrow>
                        take dot_pos s \<noteq> [] \<and> list_all is_digit (take dot_pos s) \<and>
                        drop (dot_pos + 1) s \<noteq> [] \<and> list_all is_digit (drop (dot_pos + 1) s)))"

definition split_once_dot :: "string \<Rightarrow> (string \<times> string) option" where
  "split_once_dot s = map_option (\<lambda>i. (take i s, drop (i + 1) s)) (find_char CHR ''.'' s)"

definition compare_decimal_abs :: "string \<Rightarrow> string \<Rightarrow> Ordering" where
  "compare_decimal_abs left right =
     (case split_once_dot left of
        None \<Rightarrow> Equal
      | Some (l_int, l_frac) \<Rightarrow>
          (case split_once_dot right of
             None \<Rightarrow> Equal
           | Some (r_int, r_frac) \<Rightarrow>
               if cmp (length l_int) (length r_int) \<noteq> Equal then cmp (length l_int) (length r_int)
               else if cmp l_int r_int \<noteq> Equal then cmp l_int r_int
               else let max_len = max (length l_frac) (length r_frac)
                    in cmp (pad_zeros max_len l_frac) (pad_zeros max_len r_frac)))"

definition compare_decimal_strings :: "string \<Rightarrow> string \<Rightarrow> Ordering option" where
  "compare_decimal_strings left right =
     (if \<not> is_decimal left \<or> \<not> is_decimal right then None
      else let (l_neg, l_abs) = (case strip_minus left of Some s \<Rightarrow> (True, s) | None \<Rightarrow> (False, left));
               (r_neg, r_abs) = (case strip_minus right of Some s \<Rightarrow> (True, s) | None \<Rightarrow> (False, right));
               abs_cmp = compare_decimal_abs l_abs r_abs
           in Some (if \<not> l_neg \<and> \<not> r_neg then abs_cmp
                    else if l_neg \<and> r_neg then rev_ord abs_cmp
                    else if l_neg then Less else Greater))"

definition f64_le :: "f64 \<Rightarrow> f64 \<Rightarrow> bool" where
  "f64_le a b \<longleftrightarrow> partial_cmp a b = Some Less \<or> partial_cmp a b = Some Equal"

definition is_finite :: "f64 \<Rightarrow> bool" where
  "is_finite x \<longleftrightarrow> (case x of F64_Finite _ \<Rightarrow> True | _ \<Rightarrow> False)"

definition stats_value_less_or_equal :: "string \<Rightarrow> string \<Rightarrow> bool" where
  "stats_value_less_or_equal left right =
     (if left \<in> {''false'', ''true''} \<and> right \<in> {''false'', ''true''}
      then \<not> (left = ''true'' \<and> right = ''false'')
      else case (parse_i128 left, parse_i128 right) of
        (Some l, Some r) \<Rightarrow> l \<le> r
      | _ \<Rightarrow>
          (case compare_decimal_strings left right of
             Some ord \<Rightarrow> ord \<noteq> Greater
           | None \<Rightarrow>
               (case (parse_f64 left, parse_f64 right) of
                  (Some l, Some r) \<Rightarrow> if is_finite l \<and> is_finite r then f64_le l r else left \<le> right
                | _ \<Rightarrow> left \<le> right)))"

definition stats_min :: "string \<Rightarrow> string \<Rightarrow> string" where
  "stats_min left right = (if stats_value_less_or_equal left right then left else right)"

definition stats_max :: "string \<Rightarrow> string \<Rightarrow> string" where
  "stats_max left right = (if stats_value_less_or_equal left right then right else left)"

definition merge_min :: "string option \<Rightarrow> string option \<Rightarrow> string option" where
  "merge_min existing incoming =
     (case (existing, incoming) of
        (Some l, Some r) \<Rightarrow> Some (stats_min l r)
      | (Some v, None) \<Rightarrow> Some v
      | (None, Some v) \<Rightarrow> Some v
      | (None, None) \<Rightarrow> None)"

definition merge_max :: "string option \<Rightarrow> string option \<Rightarrow> string option" where
  "merge_max existing incoming =
     (case (existing, incoming) of
        (Some l, Some r) \<Rightarrow> Some (stats_max l r)
      | (Some v, None) \<Rightarrow> Some v
      | (None, Some v) \<Rightarrow> Some v
      | (None, None) \<Rightarrow> None)"

definition merge_optional_bool_or :: "bool option \<Rightarrow> bool option \<Rightarrow> bool option" where
  "merge_optional_bool_or existing incoming =
     (case (existing, incoming) of
        (Some l, Some r) \<Rightarrow> Some (l \<or> r)
      | (Some v, None) \<Rightarrow> Some v
      | (None, Some v) \<Rightarrow> Some v
      | (None, None) \<Rightarrow> None)"

section \<open>Operations\<close>

record FileColumnStatsInput =
  fci_table_id :: u64
  fci_column_id :: u64
  fci_data_file_id :: u64
  fci_contains_null :: bool
  fci_min_value :: "string option"
  fci_max_value :: "string option"
  fci_contains_nan :: bool
  fci_column_size_bytes :: "u64 option"
  fci_value_count :: "u64 option"
  fci_null_count :: "u64 option"
  fci_extra_stats :: "string option"

record FileVariantStatsInput =
  fvi_table_id :: u64
  fvi_column_id :: u64
  fvi_variant_key :: string
  fvi_data_file_id :: u64
  fvi_min_value :: "string option"
  fvi_max_value :: "string option"
  fvi_shredded_type :: "string option"
  fvi_column_size_bytes :: "u64 option"
  fvi_value_count :: "u64 option"
  fvi_null_count :: "u64 option"
  fvi_contains_nan :: "bool option"
  fvi_extra_stats :: "string option"

text \<open>A row of another version that does not decode counts as absent.\<close>

definition zero_table_stats :: "u64 \<Rightarrow> TableStatsRow" where
  "zero_table_stats table_id = \<lparr>ts_table_id = table_id, ts_record_count = 0,
     ts_internal_file_count = 0, ts_file_size_bytes = 0, ts_next_row_id = None\<rparr>"

definition read_table_stats_or_default ::
  "'db slatedb \<Rightarrow> codecs \<Rightarrow> u64 \<Rightarrow> ('db, TableStatsRow) cmd" where
  "read_table_stats_or_default S C table_id db =
     (rbind (db_get S db (key_table_stats table_id)) (\<lambda>d.
        Inr (case d of
               Some data \<Rightarrow> (case decode_value (pb_TableStatsRow C) data of
                   Inl _ \<Rightarrow> zero_table_stats table_id | Inr r \<Rightarrow> r)
             | None \<Rightarrow> zero_table_stats table_id)), db)"

definition update_table_stats ::
  "'db slatedb \<Rightarrow> codecs \<Rightarrow> u64 \<Rightarrow> u64 \<Rightarrow> u64 \<Rightarrow> u64 \<Rightarrow> ('db, unit) cmd" where
  "update_table_stats S C table_id record_count next_row_id file_size_bytes =
     bind (read_table_stats_or_default S C table_id) (\<lambda>existing.
     let merged_next_row_id = max (saturating_add
           (case ts_next_row_id existing of Some n \<Rightarrow> n | None \<Rightarrow> 0) record_count) next_row_id
     in db_put S (key_table_stats table_id) (encode_value (pb_TableStatsRow C)
          \<lparr>ts_table_id = table_id,
           ts_record_count = saturating_add (ts_record_count existing) record_count,
           ts_internal_file_count = ts_internal_file_count existing,
           ts_file_size_bytes = saturating_add (ts_file_size_bytes existing) file_size_bytes,
           ts_next_row_id = Some merged_next_row_id\<rparr>))"

definition adjust_table_record_count ::
  "'db slatedb \<Rightarrow> codecs \<Rightarrow> u64 \<Rightarrow> i64 \<Rightarrow> ('db, unit) cmd" where
  "adjust_table_record_count S C table_id delta =
     bind (read_table_stats_or_default S C table_id) (\<lambda>row.
       db_put S (key_table_stats table_id) (encode_value (pb_TableStatsRow C)
         (row\<lparr>ts_record_count := apply_i64_delta (ts_record_count row) delta\<rparr>)))"

definition set_table_stats ::
  "'db slatedb \<Rightarrow> codecs \<Rightarrow> u64 \<Rightarrow> u64 \<Rightarrow> u64 \<Rightarrow> u64 \<Rightarrow> ('db, unit) cmd" where
  "set_table_stats S C table_id record_count file_size_bytes next_row_id =
     bind (read_table_stats_or_default S C table_id) (\<lambda>existing.
       db_put S (key_table_stats table_id) (encode_value (pb_TableStatsRow C)
         \<lparr>ts_table_id = table_id, ts_record_count = record_count,
          ts_internal_file_count = ts_internal_file_count existing,
          ts_file_size_bytes = file_size_bytes, ts_next_row_id = Some next_row_id\<rparr>))"

definition merge_column_stats ::
  "TableColumnStatsRow option \<Rightarrow> u64 \<Rightarrow> u64 \<Rightarrow> bool \<Rightarrow> string option \<Rightarrow> string option \<Rightarrow> bool option
     \<Rightarrow> string option \<Rightarrow> TableColumnStatsRow" where
  "merge_column_stats existing table_id column_id contains_null min_value max_value contains_nan extra_stats =
     \<lparr>tcs_table_id = table_id, tcs_column_id = column_id,
      tcs_contains_null = (case existing of Some row \<Rightarrow> tcs_contains_null row \<or> contains_null
                           | None \<Rightarrow> contains_null),
      tcs_min_value = merge_min (Option.bind existing tcs_min_value) min_value,
      tcs_max_value = merge_max (Option.bind existing tcs_max_value) max_value,
      tcs_contains_nan = merge_optional_bool_or (Option.bind existing tcs_contains_nan) contains_nan,
      tcs_extra_stats = (case extra_stats of Some s \<Rightarrow> Some s | None \<Rightarrow> Option.bind existing tcs_extra_stats)\<rparr>"

definition upsert_table_column_stats ::
  "'db slatedb \<Rightarrow> codecs \<Rightarrow> u64 \<Rightarrow> u64 \<Rightarrow> bool \<Rightarrow> string option \<Rightarrow> string option \<Rightarrow> bool option
     \<Rightarrow> string option \<Rightarrow> ('db, unit) cmd" where
  "upsert_table_column_stats S C table_id column_id contains_null min_value max_value contains_nan extra_stats =
     (let key = key_table_column_stats table_id column_id in
      bind (\<lambda>db. (db_get S db key, db)) (\<lambda>d.
      let existing = (case d of
            Some data \<Rightarrow> (case decode_value (pb_TableColumnStatsRow C) data of Inr r \<Rightarrow> Some r | Inl _ \<Rightarrow> None)
          | None \<Rightarrow> None)
      in db_put S key (encode_value (pb_TableColumnStatsRow C)
           (merge_column_stats existing table_id column_id contains_null min_value max_value
              contains_nan extra_stats))))"

definition upsert_file_column_stats ::
  "'db slatedb \<Rightarrow> codecs \<Rightarrow> FileColumnStatsInput \<Rightarrow> ('db, unit) cmd" where
  "upsert_file_column_stats S C input =
     db_put S (key_file_column_stats (fci_table_id input) (fci_column_id input) (fci_data_file_id input))
       (encode_value (pb_FileColumnStatsRow C)
         \<lparr>fcs_table_id = fci_table_id input, fcs_column_id = fci_column_id input,
          fcs_data_file_id = fci_data_file_id input, fcs_contains_null = fci_contains_null input,
          fcs_min_value = fci_min_value input, fcs_max_value = fci_max_value input,
          fcs_contains_nan = fci_contains_nan input,
          fcs_column_size_bytes = fci_column_size_bytes input,
          fcs_value_count = fci_value_count input, fcs_null_count = fci_null_count input,
          fcs_extra_stats = fci_extra_stats input\<rparr>)"

definition upsert_file_variant_stats ::
  "'db slatedb \<Rightarrow> codecs \<Rightarrow> (string \<Rightarrow> u64) \<Rightarrow> FileVariantStatsInput \<Rightarrow> ('db, unit) cmd" where
  "upsert_file_variant_stats S C hash_tag_key input =
     db_put S (key_file_variant_stats (fvi_table_id input) (fvi_column_id input)
         (hash_tag_key (fvi_variant_key input)) (fvi_data_file_id input))
       (encode_value (pb_FileVariantStatsRow C)
         \<lparr>fvs_table_id = fvi_table_id input, fvs_column_id = fvi_column_id input,
          fvs_deprecated_variant_path_hash = None, fvs_data_file_id = fvi_data_file_id input,
          fvs_variant_key = fvi_variant_key input, fvs_min_value = fvi_min_value input,
          fvs_max_value = fvi_max_value input, fvs_shredded_type = fvi_shredded_type input,
          fvs_column_size_bytes = fvi_column_size_bytes input,
          fvs_value_count = fvi_value_count input, fvs_null_count = fvi_null_count input,
          fvs_contains_nan = fvi_contains_nan input, fvs_extra_stats = fvi_extra_stats input\<rparr>)"

section \<open>Decimal strings compare by value\<close>

lemma digits_val_Cons: "digits_val (c # s) = digit_val c * 10 ^ length s + digits_val s"
proof (induction s rule: rev_induct)
  case Nil
  then show ?case by (simp add: digits_val_def)
next
  case (snoc d s)
  have "digits_val (c # s @ [d]) = 10 * digits_val (c # s) + digit_val d"
    using digits_val_snoc [of "c # s" d] by simp
  then show ?case using snoc by simp
qed

lemma digits_val_append: "digits_val (s @ t) = digits_val s * 10 ^ length t + digits_val t"
  by (induction s) (simp_all add: digits_val_Cons digits_val_def [of "[]"] power_add algebra_simps)

lemma digit_val_less: "is_digit c \<Longrightarrow> digit_val c < 10"
  by (auto simp: is_digit_def digit_val_def less_eq_char_def)

lemma digits_val_less: "list_all is_digit s \<Longrightarrow> digits_val s < 10 ^ length s"
proof (induction s)
  case (Cons c s)
  then have "digit_val c * 10 ^ length s + digits_val s < (digit_val c + 1) * 10 ^ length s" by simp
  also have "\<dots> \<le> 10 * 10 ^ length s"
    using Cons.prems digit_val_less [of c] by (intro mult_right_mono) auto
  finally show ?case by (simp add: digits_val_Cons)
qed (simp add: digits_val_def)

lemma digit_less_iff: "is_digit c \<Longrightarrow> is_digit d \<Longrightarrow> c < d \<longleftrightarrow> digit_val c < digit_val d"
  by (auto simp: is_digit_def digit_val_def less_eq_char_def less_char_def)

lemma lex_eq_numeric:
  assumes "length s = length t" and "list_all is_digit s" and "list_all is_digit t"
  shows "(s < t) = (digits_val s < digits_val t) \<and> (s = t) = (digits_val s = digits_val t)"
  using assms
proof (induction s t rule: list_induct2)
  case (Cons c s d t)
  have v: "digits_val s < 10 ^ length s" "digits_val t < 10 ^ length s"
    using Cons digits_val_less [of s] digits_val_less [of t] by auto
  have lt: "x * n + a < y * n + b" if "x < y" "a < n" for x y a b n :: nat
  proof -
    have "x * n + a < (x + 1) * n" using that by simp
    also have "\<dots> \<le> y * n" using that by (intro mult_right_mono) auto
    finally show ?thesis by simp
  qed
  have h: "c < d \<longleftrightarrow> digit_val c < digit_val d" "d < c \<longleftrightarrow> digit_val d < digit_val c"
    using Cons.prems by (simp_all add: digit_less_iff)
  consider "digit_val c < digit_val d" | "digit_val d < digit_val c" | "digit_val c = digit_val d" by linarith
  then show ?case
  proof cases
    case 1
    then show ?thesis using h lt [OF 1 v(1), of "digits_val t"] Cons.hyps by (auto simp: digits_val_Cons)
  next
    case 2
    then show ?thesis using h lt [OF 2 v(2), of "digits_val s"] Cons.hyps by (auto simp: digits_val_Cons)
  next
    case 3
    then have "c = d" using h by (metis linorder_neqE order_less_irrefl)
    then show ?thesis using Cons by (simp add: digits_val_Cons)
  qed
qed (simp add: digits_val_def)

lemma cmp_digits:
  "length s = length t \<Longrightarrow> list_all is_digit s \<Longrightarrow> list_all is_digit t \<Longrightarrow>
     cmp s t = cmp (digits_val s) (digits_val t)"
  using lex_eq_numeric [of s t] by (simp add: cmp_def)

text \<open>A decimal literal and its value. The integer part has no superfluous zero in front.\<close>

definition dec_string :: "bool \<Rightarrow> string \<Rightarrow> string \<Rightarrow> string" where
  "dec_string neg i f = (if neg then ''-'' else []) @ i @ ''.'' @ f"

definition dec_abs :: "string \<Rightarrow> string \<Rightarrow> rat" where
  "dec_abs i f = of_nat (digits_val (i @ f)) / 10 ^ length f"

definition dec_value :: "bool \<Rightarrow> string \<Rightarrow> string \<Rightarrow> rat" where
  "dec_value neg i f = (if neg then - dec_abs i f else dec_abs i f)"

definition canonical_int :: "string \<Rightarrow> bool" where
  "canonical_int i \<longleftrightarrow> digits i \<and> (hd i \<noteq> CHR ''0'' \<or> length i = 1)"

lemma digit_not_special: "is_digit c \<Longrightarrow> c \<noteq> CHR ''.'' \<and> c \<noteq> CHR ''-'' \<and> \<not> is_continuation c"
  by (auto simp: is_digit_def is_continuation_def less_eq_char_def)

lemma pad_zeros_digits:
  "list_all is_digit f \<Longrightarrow> pad_zeros n f = f @ replicate (n - length f) CHR ''0''"
  using digit_not_special by (simp add: pad_zeros_def char_count_def filter_id_conv list_all_iff)

lemma digits_val_zeros: "digits_val (replicate n CHR ''0'') = 0"
  by (induction n) (simp_all add: digits_val_Cons digit_val_def digits_val_def)

lemma dec_abs_padded:
  assumes "list_all is_digit f" and "length f \<le> n"
  shows "dec_abs i f = of_nat (digits_val (i @ pad_zeros n f)) / 10 ^ n"
proof -
  have "digits_val (i @ pad_zeros n f) = digits_val (i @ f) * 10 ^ (n - length f)"
    using digits_val_append [of "i @ f" "replicate (n - length f) CHR ''0''"]
    by (simp add: pad_zeros_digits [OF assms(1)] digits_val_zeros)
  moreover have "(10 :: rat) ^ n = 10 ^ length f * 10 ^ (n - length f)"
    using assms(2) by (simp flip: power_add)
  ultimately show ?thesis by (simp add: dec_abs_def)
qed

lemma canonical_longer:
  assumes "canonical_int i" and "canonical_int j" and "length i < length j"
  shows "digits_val i < digits_val j"
proof -
  obtain c s where j: "j = c # s"
    using assms(3) by (cases j) auto
  have "s \<noteq> []"
    using assms(1,3) j by (cases i) (auto simp: canonical_int_def digits_def)
  with j have "is_digit c" "c \<noteq> CHR ''0''"
    using assms(2) by (auto simp: canonical_int_def digits_def)
  then have "0 < digit_val c"
    using digit_less_iff [of "CHR ''0''" c] by (auto simp: is_digit_def digit_val_def)
  then have "1 * 10 ^ length s \<le> digit_val c * 10 ^ length s" by (intro mult_right_mono) auto
  then have "10 ^ length s \<le> digits_val j" unfolding j digits_val_Cons by linarith
  moreover have "digits_val i < 10 ^ length i"
    using assms(1) by (intro digits_val_less) (simp add: canonical_int_def digits_def)
  moreover have "(10 :: nat) ^ length i \<le> 10 ^ length s"
    using assms(3) j by (intro power_increasing) auto
  ultimately show ?thesis by linarith
qed

lemma find_dot: "list_all is_digit i \<Longrightarrow> find_char CHR ''.'' (i @ CHR ''.'' # f) = Some (length i)"
  by (induction i) (auto dest: digit_not_special)

lemma compare_decimal_abs_numeric:
  assumes "canonical_int i" and "canonical_int j" and "digits f" and "digits g"
  shows "compare_decimal_abs (dec_string False i f) (dec_string False j g) = cmp (dec_abs i f) (dec_abs j g)"
proof -
  let ?n = "max (length f) (length g)"
  let ?p = "pad_zeros ?n f" and ?q = "pad_zeros ?n g"
  have d: "list_all is_digit i" "list_all is_digit j" "list_all is_digit f" "list_all is_digit g"
    using assms by (auto simp: canonical_int_def digits_def)
  have pq: "list_all is_digit ?p" "list_all is_digit ?q" "length ?p = ?n" "length ?q = ?n"
    using d by (auto simp: pad_zeros_digits list_all_iff is_digit_def)
  have split: "split_once_dot (dec_string False i f) = Some (i, f)"
    "split_once_dot (dec_string False j g) = Some (j, g)"
    using d by (simp_all add: split_once_dot_def dec_string_def find_dot)
  have "cmp (dec_abs i f) (dec_abs j g) = cmp (digits_val (i @ ?p)) (digits_val (j @ ?q))"
    using d dec_abs_padded [of f ?n i] dec_abs_padded [of g ?n j]
    by (simp add: cmp_def divide_less_cancel)
  also have "\<dots> = (if length i \<noteq> length j then cmp (length i) (length j)
      else if i \<noteq> j then cmp i j else cmp ?p ?q)"
  proof (cases "length i = length j")
    case True
    then have "cmp (digits_val (i @ ?p)) (digits_val (j @ ?q)) = cmp (i @ ?p) (j @ ?q)"
      using d pq by (subst cmp_digits) auto
    then show ?thesis
      using True lex_less_append_same_length [of i j ?p ?q] by (auto simp: cmp_def)
  next
    case False
    have less: "digits_val (a @ u) < digits_val (b @ v)"
      if "canonical_int a" "canonical_int b" "length a < length b" "list_all is_digit u" "length u = ?n"
        "length v = ?n" for a b u v
    proof -
      have "digits_val a * 10 ^ ?n + digits_val u < (digits_val a + 1) * 10 ^ ?n"
        using digits_val_less [OF that(4)] that(5) by simp
      also have "\<dots> \<le> digits_val b * 10 ^ ?n"
        using canonical_longer [OF that(1-3)] by (intro mult_right_mono) auto
      finally show ?thesis using that(5,6) by (simp add: digits_val_append)
    qed
    show ?thesis
      using False less [OF assms(1,2) _ pq(1,3,4)] less [OF assms(2,1) _ pq(2,4,3)]
      by (cases "length i < length j") (auto simp: cmp_def)
  qed
  finally show ?thesis
    unfolding compare_decimal_abs_def split by (simp add: Let_def)
qed

lemma strip_dec_string:
  assumes "canonical_int i"
  shows "strip_minus (dec_string b i f) = (if b then Some (dec_string False i f) else None)"
proof -
  obtain c cs where "i = c # cs" "c \<noteq> CHR ''-''"
    using assms digit_not_special by (cases i) (auto simp: canonical_int_def digits_def)
  then show ?thesis by (simp add: strip_minus_def dec_string_def)
qed

lemma is_decimal_dec_string:
  assumes "canonical_int i" and "digits f"
  shows "is_decimal (dec_string b i f)"
proof -
  have i: "i \<noteq> []" "list_all is_digit i" using assms(1) by (auto simp: canonical_int_def digits_def)
  have "(case strip_minus (dec_string b i f) of Some t \<Rightarrow> t | None \<Rightarrow> dec_string b i f) = dec_string False i f"
    using strip_dec_string [OF assms(1)] by simp
  moreover have "dec_string b i f \<noteq> []" by (simp add: dec_string_def)
  moreover have "dec_string False i f = i @ CHR ''.'' # f" by (simp add: dec_string_def)
  ultimately show ?thesis
    using i assms(2) find_dot [OF i(2), of f]
    by (simp add: is_decimal_def digits_def Let_def)
qed

lemma dec_abs_nonneg: "0 \<le> dec_abs i f"
  by (simp add: dec_abs_def)

text \<open>C20. The string comparison of decimal statistics is exact: on literals without superfluous leading
  zeros it orders them by their rational value, at any length, without a detour through floating
  point. Negative zero is the one literal excluded.\<close>

theorem compare_decimal_strings_exact:
  assumes "canonical_int i" and "digits f" and "canonical_int j" and "digits g"
    and "m \<longrightarrow> dec_abs i f \<noteq> 0" and "n \<longrightarrow> dec_abs j g \<noteq> 0"
  shows "compare_decimal_strings (dec_string m i f) (dec_string n j g) =
    Some (cmp (dec_value m i f) (dec_value n j g))"
proof -
  have "compare_decimal_strings (dec_string m i f) (dec_string n j g) =
      Some (if \<not> m \<and> \<not> n then cmp (dec_abs i f) (dec_abs j g)
            else if m \<and> n then rev_ord (cmp (dec_abs i f) (dec_abs j g))
            else if m then Less else Greater)"
    using assms(1-4) by (simp add: compare_decimal_strings_def is_decimal_dec_string strip_dec_string
        dec_string_def [of False] flip: compare_decimal_abs_numeric)
  moreover have "- x < y" if "x \<noteq> 0" "0 \<le> x" "0 \<le> y" for x y :: rat using that by linarith
  ultimately show ?thesis
    using assms(5,6) dec_abs_nonneg [of i f] dec_abs_nonneg [of j g]
    by (auto simp: dec_value_def cmp_def rev_ord_def)
qed

lemma compare_decimal_strings_exact_witness:
  "compare_decimal_strings ''-999999999999999999.999'' ''1000000000000000000.0'' = Some Less"
proof -
  have "dec_abs ''999999999999999999'' ''999'' \<noteq> 0" "canonical_int ''999999999999999999''"
    "canonical_int ''1000000000000000000''" "digits ''999''" "digits ''0''"
    "dec_value True ''999999999999999999'' ''999'' < dec_value False ''1000000000000000000'' ''0''"
    "dec_string True ''999999999999999999'' ''999'' = ''-999999999999999999.999''"
    "dec_string False ''1000000000000000000'' ''0'' = ''1000000000000000000.0''"
    by (simp_all add: dec_abs_def dec_value_def digits_val_def digit_val_def canonical_int_def
        digits_def is_digit_def dec_string_def less_eq_char_def)
  with compare_decimal_strings_exact [of "''999999999999999999''" "''999''" "''1000000000000000000''" "''0''" True False]
  show ?thesis by (simp add: cmp_def)
qed

section \<open>Merging keeps the range\<close>

lemma compare_decimal_abs_rev: "compare_decimal_abs b a = rev_ord (compare_decimal_abs a b)"
  unfolding compare_decimal_abs_def
  by (auto simp: rev_ord_cmp rev_ord_def Let_def max.commute cmp_def split: option.splits)

lemma compare_decimal_strings_rev: "compare_decimal_strings b a = map_option rev_ord (compare_decimal_strings a b)"
proof -
  obtain m x where x: "(case strip_minus a of Some s \<Rightarrow> (True, s) | None \<Rightarrow> (False, a)) = (m, x)"
    by (cases "case strip_minus a of Some s \<Rightarrow> (True, s) | None \<Rightarrow> (False, a)")
  obtain n y where y: "(case strip_minus b of Some s \<Rightarrow> (True, s) | None \<Rightarrow> (False, b)) = (n, y)"
    by (cases "case strip_minus b of Some s \<Rightarrow> (True, s) | None \<Rightarrow> (False, b)")
  show ?thesis
    unfolding compare_decimal_strings_def x y
    by (cases m; cases n) (simp_all add: compare_decimal_abs_rev [of y x] rev_ord_def split: Ordering.split)
qed

lemma cmp_le_iff: "cmp a b \<noteq> Greater \<longleftrightarrow> a \<le> b" for a b :: "'a :: linorder"
  by (auto simp: cmp_def)

lemma f64_le_total: "is_finite a \<Longrightarrow> is_finite b \<Longrightarrow> f64_le a b \<or> f64_le b a"
  by (cases a; cases b) (auto simp: is_finite_def f64_le_def cmp_def)

text \<open>The look of the two values decides how they are compared, in either order: the comparison
  is total although it mixes four of them.\<close>

lemma stats_value_total: "stats_value_less_or_equal a b \<or> stats_value_less_or_equal b a"
proof (cases "parse_i128 a = None \<or> parse_i128 b = None")
  case False
  then show ?thesis by (auto simp: stats_value_less_or_equal_def)
next
  case no_int: True
  show ?thesis
  proof (cases "compare_decimal_strings a b")
    case (Some r)
    then show ?thesis
      using no_int compare_decimal_strings_rev [of b a]
      by (cases r) (auto simp: stats_value_less_or_equal_def rev_ord_def split: option.splits)
  next
    case None
    then have "compare_decimal_strings b a = None" using compare_decimal_strings_rev [of b a] by simp
    then show ?thesis
      using no_int None f64_le_total linear [of a b]
      by (auto simp: stats_value_less_or_equal_def split: option.splits)
  qed
qed

lemma stats_value_refl [simp]: "stats_value_less_or_equal a a"
  using stats_value_total [of a a] by simp

lemma stats_min_le: "stats_value_less_or_equal (stats_min a b) a \<and> stats_value_less_or_equal (stats_min a b) b"
  using stats_value_total [of a b]
  by (auto simp: stats_min_def)

lemma stats_max_ge: "stats_value_less_or_equal a (stats_max a b) \<and> stats_value_less_or_equal b (stats_max a b)"
  using stats_value_total [of a b]
  by (auto simp: stats_max_def)

definition stored_column_stats ::
  "'db slatedb \<Rightarrow> codecs \<Rightarrow> 'db \<Rightarrow> u64 \<Rightarrow> u64 \<Rightarrow> TableColumnStatsRow option" where
  "stored_column_stats S C db table_id column_id =
     Option.bind (sdb_view S db (key_table_column_stats table_id column_id))
       (\<lambda>data. case decode_value (pb_TableColumnStatsRow C) data of Inr r \<Rightarrow> Some r | Inl _ \<Rightarrow> None)"

definition covers :: "TableColumnStatsRow \<Rightarrow> string option \<Rightarrow> string option \<Rightarrow> bool" where
  "covers row mn mx \<longleftrightarrow>
     (case mn of None \<Rightarrow> True
      | Some v \<Rightarrow> (case tcs_min_value row of None \<Rightarrow> False | Some m \<Rightarrow> stats_value_less_or_equal m v)) \<and>
     (case mx of None \<Rightarrow> True
      | Some v \<Rightarrow> (case tcs_max_value row of None \<Rightarrow> False | Some m \<Rightarrow> stats_value_less_or_equal v m))"

lemma covers_merge:
  assumes "tcs_min_value row = merge_min a b" and "tcs_max_value row = merge_max c d"
  shows "covers row a c \<and> covers row b d"
  using assms stats_min_le stats_max_ge
  by (auto simp: covers_def merge_min_def merge_max_def split: option.splits)

lemma case_option_bind: "(case d of None \<Rightarrow> None | Some x \<Rightarrow> f x) = Option.bind d f"
  by (cases d) simp_all

lemma upsert_table_column_stats_Inr:
  assumes "slatedb_ok S" and "codecs_ok C"
    and "upsert_table_column_stats S C t c nl mn mx nan ex db = (Inr (), db')"
  shows "stored_column_stats S C db' t c =
      Some (merge_column_stats (stored_column_stats S C db t c) t c nl mn mx nan ex)"
    and "k \<noteq> key_table_column_stats t c \<Longrightarrow> sdb_view S db' k = sdb_view S db k"
proof -
  obtain d where d: "db_get S db (key_table_column_stats t c) = Inr d"
    and p: "db_put S (key_table_column_stats t c) (encode_value (pb_TableColumnStatsRow C)
        (merge_column_stats (Option.bind d (\<lambda>data. case decode_value (pb_TableColumnStatsRow C) data of
            Inr r \<Rightarrow> Some r | Inl _ \<Rightarrow> None)) t c nl mn mx nan ex)) db = (Inr (), db')"
    using assms(3) by (auto simp: upsert_table_column_stats_def bind_Inr Let_def case_option_bind)
  have "d = sdb_view S db (key_table_column_stats t c)"
    using db_get_Inr [OF assms(1) d] by simp
  with db_put_Inr [OF assms(1) p] assms(2)
  show "stored_column_stats S C db' t c =
      Some (merge_column_stats (stored_column_stats S C db t c) t c nl mn mx nan ex)"
    and "k \<noteq> key_table_column_stats t c \<Longrightarrow> sdb_view S db' k = sdb_view S db k"
    by (simp_all add: stored_column_stats_def)
qed

text \<open>Merging column statistics never loses a value: after an upsert the stored row admits the
  range it had before and the incoming one, in the order the merge itself uses, a null seen once stays
  recorded, and nothing else in the database has changed.\<close>

theorem column_stats_widen:
  assumes "slatedb_ok S" and "codecs_ok C"
    and "upsert_table_column_stats S C t c nl mn mx nan ex db = (Inr (), db')"
  shows "\<exists>row. stored_column_stats S C db' t c = Some row \<and> covers row mn mx \<and> (nl \<longrightarrow> tcs_contains_null row) \<and>
      (\<forall>old. stored_column_stats S C db t c = Some old \<longrightarrow>
         covers row (tcs_min_value old) (tcs_max_value old) \<and>
         (tcs_contains_null old \<longrightarrow> tcs_contains_null row)) \<and>
      (\<forall>k. k \<noteq> key_table_column_stats t c \<longrightarrow> sdb_view S db' k = sdb_view S db k)"
proof -
  let ?old = "stored_column_stats S C db t c"
  let ?row = "merge_column_stats ?old t c nl mn mx nan ex"
  have "covers ?row (Option.bind ?old tcs_min_value) (Option.bind ?old tcs_max_value) \<and> covers ?row mn mx"
    by (rule covers_merge) (simp_all add: merge_column_stats_def)
  then show ?thesis
    using upsert_table_column_stats_Inr [OF assms]
    by (intro exI [of _ ?row]) (auto simp: merge_column_stats_def split: option.splits)
qed

text \<open>Values that look like numbers are compared as numbers even in a text column: the merged minimum
  of \<open>10\<close> and \<open>9\<close> is \<open>9\<close>, above the string \<open>10\<close>.\<close>

lemma merge_min_text_column: "merge_min (Some ''10'') (Some ''9'') = Some ''9'' \<and> ''10'' < ''9''"
  by code_simp

end
