(* ===== verification/Concrete_Tools.thy ===== *)
theory Concrete_Tools
  imports Concrete_Sessions Excise Checkpoint Copy_Parser File_Pruning Writer_Stats
begin

text \<open>
  Concrete runs of the maintenance tools, of file pruning and of the COPY parser. Each witness
  applies a property of the development to one of them.
\<close>

section \<open>Column statistics\<close>

theorem column_stats_widen_witness:
  "\<exists>row db'. upsert_table_column_stats mem_slatedb mem_codecs 7 1 True (Some ''2'') (Some ''5'') None None
       [(key_table_column_stats 7 1, encode_value (pb_TableColumnStatsRow mem_codecs)
          \<lparr>tcs_table_id = 7, tcs_column_id = 1, tcs_contains_null = False, tcs_min_value = Some ''10'',
           tcs_max_value = Some ''10'', tcs_contains_nan = None, tcs_extra_stats = None\<rparr>)] = (Inr (), db') \<and>
     stored_column_stats mem_slatedb mem_codecs db' 7 1 = Some row \<and>
     covers row (Some ''2'') (Some ''10'') \<and> tcs_contains_null row"
proof -
  let ?old = "\<lparr>tcs_table_id = 7, tcs_column_id = 1, tcs_contains_null = False, tcs_min_value = Some ''10'',
      tcs_max_value = Some ''10'', tcs_contains_nan = None, tcs_extra_stats = None\<rparr>"
  let ?db = "[(key_table_column_stats 7 1, encode_value (pb_TableColumnStatsRow mem_codecs) ?old)]"
  have o: "stored_column_stats mem_slatedb mem_codecs ?db 7 1 = Some ?old"
    using mem_codecs_ok by (simp add: stored_column_stats_def)
  obtain db' where u: "upsert_table_column_stats mem_slatedb mem_codecs 7 1 True (Some ''2'') (Some ''5'') None None ?db
      = (Inr (), db')"
    by (simp add: upsert_table_column_stats_def Let_def db_get_def db_put_def)
  from column_stats_widen [OF mem_slatedb_ok mem_codecs_ok u] obtain row where
    r: "stored_column_stats mem_slatedb mem_codecs db' 7 1 = Some row" "covers row (Some ''2'') (Some ''5'')"
      "tcs_contains_null row"
      "\<forall>old. stored_column_stats mem_slatedb mem_codecs ?db 7 1 = Some old \<longrightarrow>
         covers row (tcs_min_value old) (tcs_max_value old)"
    by iprover
  from r(4) o have "covers row (Some ''10'') (Some ''10'')" by simp
  with r(2) have "covers row (Some ''2'') (Some ''10'')"
    by (simp add: covers_def split: option.splits)
  with u r show ?thesis by iprover
qed

section \<open>Pruning\<close>

definition file_stats :: FileColumnStatsRow where
  "file_stats = \<lparr>fcs_table_id = 7, fcs_column_id = 1, fcs_data_file_id = 9, fcs_contains_null = False,
     fcs_min_value = Some ''a'', fcs_max_value = Some ''m'', fcs_contains_nan = False,
     fcs_column_size_bytes = None, fcs_value_count = None, fcs_null_count = None, fcs_extra_stats = None\<rparr>"

definition stats_db :: mem_db where
  "stats_db = [(key_file_column_stats 7 1 9, encode_value (pb_FileColumnStatsRow mem_codecs) file_stats)]"

theorem prune_files_sound_witness:
  "\<exists>ids. prune_files mem_slatedb mem_codecs (\<lambda>_. []) stats_db (SnapshotId 3) 7 1 ''c'' Varchar = Some (Inr ids) \<and>
     9 \<in> set ids"
proof -
  let ?v = "encode_value (pb_FileColumnStatsRow mem_codecs) file_stats"
  have sc: "mem_scan stats_db (prefix_file_column_stats 7 1) = stats_db"
    "mem_scan stats_db (prefix_data_files_by_snapshot_for_table 7) = []"
    by (simp_all add: mem_scan_def stats_db_def key_simps prefix_file_column_stats_def tag_defs)
  have dec: "decode_value (pb_FileColumnStatsRow mem_codecs) ?v = Inr file_stats"
    using mem_codecs_ok by simp
  have l: "list_data_files mem_slatedb mem_codecs stats_db (SnapshotId 3) 7 = Inr []"
    using sc(2) by (simp add: list_data_files_def cut_at_def split: option.splits)
  have p: "prune_file (\<lambda>_. []) ''c'' (Some ''a'') (Some ''m'') False Varchar = Some (Inr Keep)"
    by code_simp
  have "\<exists>ids. prune_files mem_slatedb mem_codecs (\<lambda>_. []) stats_db (SnapshotId 3) 7 1 ''c'' Varchar = Some (Inr ids)"
    using sc(1) l dec p by (simp add: prune_files_def)
      (simp add: stats_db_def row_decoder_def file_stats_def partial_map_def)
  then obtain ids where r: "prune_files mem_slatedb mem_codecs (\<lambda>_. []) stats_db (SnapshotId 3) 7 1 ''c'' Varchar
      = Some (Inr ids)" ..
  have i: "data_file_index_ok mem_codecs (sdb_view mem_slatedb stats_db) 7"
    by (auto simp: data_file_index_ok_def stats_db_def key_simps tag_defs split: if_splits)
  have k: "prefix (prefix_file_column_stats 7 1) (key_file_column_stats 7 1 9)"
    by (simp add: key_simps prefix_file_column_stats_def)
  have v: "sdb_view mem_slatedb stats_db (key_file_column_stats 7 1 9) = Some ?v"
    by (simp add: stats_db_def)
  have m: "value_matches Varchar ''c'' ''c''" by (simp add: value_matches_def, code_simp)
  have c: "stats_cover Varchar (fcs_min_value file_stats) (fcs_max_value file_stats) (fcs_contains_nan file_stats) ''c''"
    by (simp add: stats_cover_def file_stats_def value_le_def comparable_def type_aware_compare_def cmp_def)
  have "visible_data_files mem_codecs (sdb_view mem_slatedb stats_db) 7 (SnapshotId 3) = {}"
    by (auto simp: visible_data_files_def stats_db_def key_simps tag_defs split: if_splits)
  then show ?thesis
    using prune_files_sound [OF mem_slatedb_ok r i k v dec m c] r by (auto simp: file_stats_def)
qed

section \<open>COPY streams\<close>

theorem copy_round_trip_witness:
  "parse_binary_copy_rows (copy_stream [0, 0, 0, 0] [] [[Some [1, 2], None], []] @ [9]) =
     Inr [[Some [1, 2], None], []]"
  by (rule copy_round_trip) (simp_all add: copy_row_ok_def)

theorem copy_truncation_rejected_witness:
  "\<exists>e. parse_binary_copy_rows (take 20 (copy_stream [0, 0, 0, 0] [] [[Some [1, 2], None]])) = Inl e"
  by (rule copy_truncation_rejected)
    (simp_all add: copy_row_ok_def copy_stream_def PGCOPY_SIGNATURE_def rows_bytes_def row_bytes_def)

section \<open>Checkpoints\<close>

definition cod_CheckpointMetadata :: "CheckpointMetadata codec" where
  "cod_CheckpointMetadata = cod_iso
     (\<lambda>r. (cm_id r, cm_created_at r, cm_snapshot_id r, cm_label r))
     (\<lambda>(x0, x1, x2, x3). \<lparr>cm_id = x0, cm_created_at = x1, cm_snapshot_id = x2, cm_label = x3\<rparr>)
     (cod_pair cod_u64 (cod_pair cod_string (cod_pair cod_u64 (cod_option cod_string))))"

definition mem_checkpoints :: "CheckpointMetadata prost" where
  "mem_checkpoints = prost_of cod_CheckpointMetadata"

lemma prost_ok_checkpoints [simp]: "prost_ok mem_checkpoints"
  unfolding mem_checkpoints_def cod_CheckpointMetadata_def by (intro prost_ok_of codec_ok_iso) simp_all

theorem checkpoint_ids_increase_witness:
  "\<exists>c1 c2 db1 db2. create_checkpoint mem_slatedb mem_checkpoints 500 ''noon'' None [] = (Inr c1, db1) \<and>
     create_checkpoint mem_slatedb mem_checkpoints 400 ''earlier'' None db1 = (Inr c2, db2) \<and>
     ci_id c1 < ci_id c2"
proof -
  let ?run = "\<lambda>t now. create_checkpoint mem_slatedb mem_checkpoints t now None"
  obtain c1 db1 where c1: "?run 500 ''noon'' [] = (Inr c1, db1)" and i: "ci_id c1 = 500"
    and n1: "map_of db1 (key_counter COUNTER_NEXT_SNAPSHOT_ID) = None"
      "map_of db1 (key_counter COUNTER_NEXT_CHECKPOINT_ID) = Some (encode_counter 501)"
    by (simp add: create_checkpoint_def read_db_def db_get_def db_put_def ret_def Let_def info_of_def
        checkpoint_key_def key_simps tag_defs str_bytes_def)
  obtain c2 db2 where c2: "?run 400 ''earlier'' db1 = (Inr c2, db2)"
    using n1 by (simp add: create_checkpoint_def read_db_def db_get_def db_put_def ret_def Let_def)
  have "ci_id c1 < u64_max" using i by (simp add: u64_max_def)
  from checkpoint_ids_increase [OF mem_slatedb_ok c1 c2 this] c1 c2 show ?thesis by blast
qed

definition schema_from :: "u64 \<Rightarrow> u64 \<Rightarrow> u64 option \<Rightarrow> SchemaRow" where
  "schema_from i b e = \<lparr>sr_schema_id = i, sr_schema_name = ''main'', sr_begin_snapshot = b, sr_end_snapshot = e,
     sr_schema_uuid = None, sr_path = None, sr_path_is_relative = None\<rparr>"

lemma schema_from_simps [simp]:
  "sr_begin_snapshot (schema_from i b e) = b" "sr_end_snapshot (schema_from i b e) = e"
  "schema_from i b e\<lparr>sr_end_snapshot := e'\<rparr> = schema_from i b e'"
  by (simp_all add: schema_from_def)

definition checkpoint_db :: mem_db where
  "checkpoint_db =
     [(checkpoint_key 5, encode_value mem_checkpoints
        \<lparr>cm_id = 5, cm_created_at = ''noon'', cm_snapshot_id = 1, cm_label = None\<rparr>),
      (key_counter COUNTER_NEXT_SNAPSHOT_ID, encode_counter 4),
      (key_schema 1, encode_value (pb_SchemaRow mem_codecs) (schema_from 1 1 None)),
      (key_schema 2, encode_value (pb_SchemaRow mem_codecs) (schema_from 2 2 None))]"

lemma encode_u64_1_2: "encode_u64 1 \<le> encode_u64 2"
  by (simp add: order_le_less)

definition restored_db :: mem_db where
  "restored_db = (key_schema 2, encode_value (pb_SchemaRow mem_codecs) (schema_from 2 2 (Some 4))) # checkpoint_db"

lemma checkpoint_scans:
  "mem_scan checkpoint_db (prefix_for_tag TAG_SCHEMA) =
     [(key_schema 1, encode_value (pb_SchemaRow mem_codecs) (schema_from 1 1 None)),
      (key_schema 2, encode_value (pb_SchemaRow mem_codecs) (schema_from 2 2 None))]"
  "mem_scan restored_db (prefix_for_tag TAG_TABLE) = []" "mem_scan restored_db (prefix_for_tag TAG_COLUMN) = []"
  "mem_scan restored_db (prefix_for_tag TAG_VIEW) = []" "mem_scan restored_db (prefix_for_tag TAG_MACRO) = []"
  "mem_scan restored_db [TAG_INLINED_ROWS, INLINED_SUBTYPE_INSERT] = []"
  "mem_scan ((key_counter COUNTER_NEXT_SNAPSHOT_ID, v) # restored_db) (prefix_for_tag TAG_SCHEMA) =
     [(key_schema 1, encode_value (pb_SchemaRow mem_codecs) (schema_from 1 1 None)),
      (key_schema 2, encode_value (pb_SchemaRow mem_codecs) (schema_from 2 2 (Some 4)))]"
  by (simp_all add: mem_scan_def checkpoint_db_def restored_db_def key_simps tag_defs checkpoint_key_def
      str_bytes_def encode_u64_1_2)

lemma mem_restore:
  "\<exists>info. restore_checkpoint mem_slatedb mem_codecs mem_checkpoints 5 checkpoint_db =
     (Inr info, (key_counter COUNTER_NEXT_SNAPSHOT_ID, encode_counter 5) # restored_db) \<and> ci_snapshot_id info = 1"
proof -
  have c: "map_of checkpoint_db (checkpoint_key 5) = Some (encode_value mem_checkpoints
        \<lparr>cm_id = 5, cm_created_at = ''noon'', cm_snapshot_id = 1, cm_label = None\<rparr>)"
    "map_of checkpoint_db (key_counter COUNTER_NEXT_SNAPSHOT_ID) = Some (encode_counter 4)"
    by (simp_all add: checkpoint_db_def checkpoint_key_def key_simps tag_defs str_bytes_def)
  have "hide_post_checkpoint_facts mem_slatedb mem_codecs 1 4 checkpoint_db = (Inr (), restored_db)"
    using mem_codecs_ok checkpoint_scans
    by (simp add: hide_post_checkpoint_facts_def hide_under_def row_decoder_def db_put_def ret_def
        flip: restored_db_def)
  with c show ?thesis
    by (simp add: restore_checkpoint_def read_db_def db_get_def db_put_def ret_def Let_def info_of_def)
qed


section \<open>Excision\<close>

definition cod_ExciseAuditEntry :: "ExciseAuditEntry codec" where
  "cod_ExciseAuditEntry = cod_iso
     (\<lambda>r. (ea_timestamp_millis r, ea_before_snapshot r, ea_keys_deleted r, ea_keys_failed r, ea_operator r))
     (\<lambda>(x0, x1, x2, x3, x4). \<lparr>ea_timestamp_millis = x0, ea_before_snapshot = x1, ea_keys_deleted = x2,
        ea_keys_failed = x3, ea_operator = x4\<rparr>)
     (cod_pair cod_u64 (cod_pair cod_u64 (cod_pair cod_u64 (cod_pair cod_u64 cod_string))))"

definition excise_db :: mem_db where
  "excise_db =
     [(key_system SYSTEM_RETAIN_FROM, encode_counter 3),
      (key_schema 1, encode_value (pb_SchemaRow mem_codecs) (schema_from 1 1 (Some 3))),
      (key_schema 2, encode_value (pb_SchemaRow mem_codecs) (schema_from 2 2 None))]"

definition excised_db :: mem_db where
  "excised_db = filter (\<lambda>kv. fst kv \<noteq> key_schema 1) excise_db"

lemma excise_scans:
  "mem_scan excise_db (prefix_for_tag TAG_SCHEMA) =
     [(key_schema 1, encode_value (pb_SchemaRow mem_codecs) (schema_from 1 1 (Some 3))),
      (key_schema 2, encode_value (pb_SchemaRow mem_codecs) (schema_from 2 2 None))]"
  "mem_scan excised_db (prefix_for_tag TAG_TABLE) = []" "mem_scan excised_db (prefix_for_tag TAG_COLUMN) = []"
  "mem_scan excised_db [TAG_INLINED_ROWS, INLINED_SUBTYPE_INSERT] = []"
  "mem_scan excised_db [TAG_INLINED_ROWS, INLINED_SUBTYPE_DELETE] = []"
  "mem_scan excised_db (prefix_for_tag TAG_SNAPSHOT) = []"
  by (simp_all add: mem_scan_def excise_db_def excised_db_def key_simps tag_defs encode_u64_1_2)


end
