(* ===== verification/Verify.thy ===== *)
theory Verify
  imports Catalog_Reader Catalog_Init
begin

text \<open>
  \<open>crates/rocklake-catalog/src/verify.rs\<close>: the offline integrity check. Every check reads the
  database and appends to a \<open>VerifyResult\<close>; the result of a check that fails is dropped with the
  error. The theorem says what a clean report means for the content of the database.
\<close>

section \<open>The checks\<close>

record VerifyResult =
  vf_errors :: "string list"
  vf_warnings :: "string list"
  vf_tables_checked :: u32
  vf_rows_checked :: u64

definition VerifyResult_default :: VerifyResult where
  "VerifyResult_default = \<lparr>vf_errors = [], vf_warnings = [], vf_tables_checked = 0, vf_rows_checked = 0\<rparr>"

definition VerifyResult_is_ok :: "VerifyResult \<Rightarrow> bool" where
  "VerifyResult_is_ok result \<longleftrightarrow> vf_errors result = []"

text \<open>\<open>result.errors.push\<close>, \<open>result.warnings.push\<close> and the two counters.\<close>

definition push_error :: "string \<Rightarrow> VerifyResult \<Rightarrow> VerifyResult" where
  "push_error msg result = result\<lparr>vf_errors := vf_errors result @ [msg]\<rparr>"

definition push_warning :: "string \<Rightarrow> VerifyResult \<Rightarrow> VerifyResult" where
  "push_warning msg result = result\<lparr>vf_warnings := vf_warnings result @ [msg]\<rparr>"

definition row_checked :: "VerifyResult \<Rightarrow> VerifyResult" where
  "row_checked result = result\<lparr>vf_rows_checked := vf_rows_checked result + 1\<rparr>"

definition table_checked :: "VerifyResult \<Rightarrow> VerifyResult" where
  "table_checked result = result\<lparr>vf_tables_checked := vf_tables_checked result + 1\<rparr>"

definition show_u32 :: "u32 \<Rightarrow> string" where
  "show_u32 n = show_nat (unat n)"

definition verify_format_version_key ::
  "'db slatedb \<Rightarrow> 'db \<Rightarrow> VerifyResult \<Rightarrow> CatalogError + VerifyResult" where
  "verify_format_version_key S db result =
     rbind (db_get S db (key_system SYSTEM_CATALOG_FORMAT_VERSION)) (\<lambda>d.
     rbind (case d of
         None \<Rightarrow> Inr (push_error ''missing catalog-format-version'' result)
       | Some data \<Rightarrow>
           rbind (map_err ValueErr (decode_format_version data)) (\<lambda>version.
             Inr (if version \<noteq> CATALOG_FORMAT_VERSION
                  then push_error (''format version mismatch: expected '' @ show_u32 CATALOG_FORMAT_VERSION @
                         '', got '' @ show_u32 version) result
                  else result))) (\<lambda>result. Inr (table_checked result)))"

definition verify_counter ::
  "'db slatedb \<Rightarrow> 'db \<Rightarrow> string \<times> u8 \<Rightarrow> VerifyResult \<Rightarrow> CatalogError + VerifyResult" where
  "verify_counter S db c result =
     rbind (db_get S db (key_counter (snd c))) (\<lambda>d.
       case d of
         None \<Rightarrow> Inr (push_error (''missing counter: '' @ fst c) result)
       | Some data \<Rightarrow>
           rbind (map_err ValueErr (decode_counter data)) (\<lambda>val.
             Inr (row_checked (if val = 0
                    then push_warning (''counter '' @ fst c @ '' is 0 (unusual)'') result else result))))"

definition verify_counters :: "'db slatedb \<Rightarrow> 'db \<Rightarrow> VerifyResult \<Rightarrow> CatalogError + VerifyResult" where
  "verify_counters S db result =
     rbind (verify_counter S db (''next_snapshot_id'', COUNTER_NEXT_SNAPSHOT_ID) result) (\<lambda>result.
     rbind (verify_counter S db (''next_catalog_id'', COUNTER_NEXT_CATALOG_ID) result) (\<lambda>result.
     rbind (verify_counter S db (''next_file_id'', COUNTER_NEXT_FILE_ID) result) (\<lambda>result.
       Inr (table_checked result))))"

text \<open>The test \<open>end <= begin\<close> the three row checks share, and its message.\<close>

definition bad_interval :: "u64 \<Rightarrow> u64 option \<Rightarrow> bool" where
  "bad_interval b e \<longleftrightarrow> (case e of None \<Rightarrow> False | Some x \<Rightarrow> x \<le> b)"

definition check_interval :: "string \<Rightarrow> u64 \<Rightarrow> u64 option \<Rightarrow> VerifyResult \<Rightarrow> VerifyResult" where
  "check_interval what b e result =
     (case e of
        None \<Rightarrow> result
      | Some x \<Rightarrow> if x \<le> b then push_error (what @ '': end_snapshot ('' @ show_u64 x @
            '') <= begin_snapshot ('' @ show_u64 b @ '')'') result else result)"

fun check_schemas :: "u64 list \<Rightarrow> SchemaRow list \<Rightarrow> VerifyResult \<Rightarrow> VerifyResult" where
  "check_schemas seen_ids [] result = result"
| "check_schemas seen_ids (row # rows) result =
     check_schemas (sr_schema_id row # seen_ids) rows
       (row_checked (check_interval (''schema '' @ show_u64 (sr_schema_id row))
          (sr_begin_snapshot row) (sr_end_snapshot row)
          (if sr_schema_id row \<in> set seen_ids
           then push_error (''duplicate schema_id: '' @ show_u64 (sr_schema_id row) @ '' (name: '' @
                  sr_schema_name row @ '')'') result
           else result)))"

definition verify_schemas :: "'db slatedb \<Rightarrow> codecs \<Rightarrow> 'db \<Rightarrow> VerifyResult \<Rightarrow> CatalogError + VerifyResult" where
  "verify_schemas S C db result =
     rbind (read_rows S (pb_SchemaRow C) db (prefix_for_tag TAG_SCHEMA) (\<lambda>_. True)) (\<lambda>rows.
       Inr (table_checked (check_schemas [] rows result)))"

definition verify_tables :: "'db slatedb \<Rightarrow> codecs \<Rightarrow> 'db \<Rightarrow> VerifyResult \<Rightarrow> CatalogError + VerifyResult" where
  "verify_tables S C db result =
     rbind (read_rows S (pb_TableRow C) db (prefix_for_tag TAG_TABLE) (\<lambda>_. True)) (\<lambda>rows.
       Inr (table_checked (fold (\<lambda>row result.
         row_checked (check_interval (''table '' @ show_u64 (tr_table_id row))
           (tr_begin_snapshot row) (tr_end_snapshot row) result)) rows result)))"

definition verify_columns :: "'db slatedb \<Rightarrow> codecs \<Rightarrow> 'db \<Rightarrow> VerifyResult \<Rightarrow> CatalogError + VerifyResult" where
  "verify_columns S C db result =
     rbind (read_rows S (pb_ColumnRow C) db (prefix_for_tag TAG_COLUMN) (\<lambda>_. True)) (\<lambda>rows.
       Inr (table_checked (fold (\<lambda>row result.
         row_checked (check_interval (''column '' @ show_u64 (cr_column_id row) @ '' (table '' @
             show_u64 (cr_table_id row) @ '')'')
           (cr_begin_snapshot row) (cr_end_snapshot row) result)) rows result)))"

fun check_snapshots :: "u64 option \<Rightarrow> SnapshotRow list \<Rightarrow> VerifyResult \<Rightarrow> VerifyResult" where
  "check_snapshots prev_id [] result = result"
| "check_snapshots prev_id (row # rows) result =
     check_snapshots (Some (sn_snapshot_id row)) rows
       (row_checked
         (case prev_id of
            None \<Rightarrow> result
          | Some prev \<Rightarrow>
              if sn_snapshot_id row \<le> prev
              then push_error (''snapshot ordering violation: '' @ show_u64 (sn_snapshot_id row) @ '' follows '' @
                     show_u64 prev) result
              else result))"

definition verify_snapshots :: "'db slatedb \<Rightarrow> codecs \<Rightarrow> 'db \<Rightarrow> VerifyResult \<Rightarrow> CatalogError + VerifyResult" where
  "verify_snapshots S C db result =
     rbind (read_rows S (pb_SnapshotRow C) db (prefix_for_tag TAG_SNAPSHOT) (\<lambda>_. True)) (\<lambda>rows.
       Inr (table_checked (check_snapshots None rows result)))"

definition verify_catalog :: "'db slatedb \<Rightarrow> codecs \<Rightarrow> 'db \<Rightarrow> CatalogError + VerifyResult" where
  "verify_catalog S C db =
     rbind (verify_format_version_key S db VerifyResult_default) (\<lambda>result.
     rbind (verify_counters S db result) (\<lambda>result.
     rbind (verify_schemas S C db result) (\<lambda>result.
     rbind (verify_tables S C db result) (\<lambda>result.
     rbind (verify_columns S C db result) (\<lambda>result.
     rbind (verify_snapshots S C db result) (\<lambda>result.
       Inr result))))))"

section \<open>What a clean report means\<close>

lemma errors_simps [simp]:
  "vf_errors (push_error msg r) = vf_errors r @ [msg]" "vf_errors (push_warning msg r) = vf_errors r"
  "vf_errors (row_checked r) = vf_errors r" "vf_errors (table_checked r) = vf_errors r"
  "vf_errors VerifyResult_default = []"
  by (simp_all add: push_error_def push_warning_def row_checked_def table_checked_def VerifyResult_default_def)

lemma check_interval_clean [simp]:
  "vf_errors (check_interval what b e r) = [] \<longleftrightarrow> vf_errors r = [] \<and> \<not> bad_interval b e"
  by (auto simp: check_interval_def bad_interval_def split: option.splits)

lemma fold_clean:
  assumes "\<And>x r. vf_errors (f x r) = [] \<longleftrightarrow> vf_errors r = [] \<and> P x"
  shows "vf_errors (fold f xs r) = [] \<longleftrightarrow> vf_errors r = [] \<and> (\<forall>x\<in>set xs. P x)"
  by (induction xs arbitrary: r) (auto simp: assms)

lemma check_schemas_clean:
  "vf_errors (check_schemas seen rows r) = [] \<longleftrightarrow>
     vf_errors r = [] \<and> distinct (map sr_schema_id rows) \<and> set (map sr_schema_id rows) \<inter> set seen = {} \<and>
     (\<forall>x\<in>set rows. \<not> bad_interval (sr_begin_snapshot x) (sr_end_snapshot x))"
  by (induction rows arbitrary: seen r) auto

lemma check_snapshots_clean:
  "vf_errors (check_snapshots prev rows r) = [] \<longleftrightarrow>
     vf_errors r = [] \<and> sorted_wrt (<) (map sn_snapshot_id rows) \<and>
     (\<forall>p. prev = Some p \<longrightarrow> (\<forall>x\<in>set rows. p < sn_snapshot_id x))"
proof (induction rows arbitrary: prev r)
  case (Cons row rows)
  then show ?case
    by (cases prev) (auto dest: order_less_trans)
qed simp

lemma verify_counter_clean:
  assumes "slatedb_ok S" and "verify_counter S db c r = Inr r'"
  shows "vf_errors r' = [] \<longleftrightarrow> vf_errors r = [] \<and> sdb_view S db (key_counter (snd c)) \<noteq> None"
proof -
  obtain d where g: "db_get S db (key_counter (snd c)) = Inr d"
    using assms(2) by (auto simp: verify_counter_def rbind_eq_Inr_iff)
  then have "sdb_view S db (key_counter (snd c)) = d" using db_get_Inr [OF assms(1)] by simp
  then show ?thesis
    using assms(2) g by (cases d) (auto simp: verify_counter_def rbind_eq_Inr_iff simp del: append_Cons split: if_splits)
qed

lemma verify_format_clean:
  assumes "slatedb_ok S" and "verify_format_version_key S db r = Inr r'"
  shows "vf_errors r' = [] \<longleftrightarrow> vf_errors r = [] \<and>
    (\<exists>d. sdb_view S db (key_system SYSTEM_CATALOG_FORMAT_VERSION) = Some d \<and>
       decode_format_version d = Inr CATALOG_FORMAT_VERSION)"
proof -
  obtain d where g: "db_get S db (key_system SYSTEM_CATALOG_FORMAT_VERSION) = Inr d"
    using assms(2) by (auto simp: verify_format_version_key_def rbind_eq_Inr_iff)
  then have "sdb_view S db (key_system SYSTEM_CATALOG_FORMAT_VERSION) = d" using db_get_Inr [OF assms(1)] by simp
  then show ?thesis
    using assms(2) g by (cases d)
      (auto simp: verify_format_version_key_def rbind_eq_Inr_iff simp del: append_Cons split: if_splits)
qed

text \<open>A row stored under a tag.\<close>

definition stored_row :: "'m prost \<Rightarrow> (bytes \<Rightarrow> bytes option) \<Rightarrow> u8 \<Rightarrow> bytes \<Rightarrow> 'm \<Rightarrow> bool" where
  "stored_row P m tag k row \<longleftrightarrow>
     prefix (prefix_for_tag tag) k \<and> (\<exists>v. m k = Some v \<and> decode_value P v = Inr row)"

lemma sorted_wrt_by_key:
  fixes xs :: "('k :: order \<times> 'b) list"
  assumes "sorted_wrt (<) (map fst xs)"
  shows "sorted_wrt R (map g xs) \<longleftrightarrow> (\<forall>x\<in>set xs. \<forall>y\<in>set xs. fst x < fst y \<longrightarrow> R (g x) (g y))"
  using assms
proof (induction xs)
  case (Cons x xs)
  have n: "fst x < fst y" "\<not> fst y < fst x" if "y \<in> set xs" for y
    using Cons.prems that by (auto dest: order_less_asym)
  have "sorted_wrt R (map g (x # xs)) \<longleftrightarrow> (\<forall>y\<in>set xs. R (g x) (g y)) \<and> sorted_wrt R (map g xs)"
    by auto
  then show ?case using Cons n by (simp only: list.set ball_simps) (simp; blast)
qed simp

lemma distinct_iff_sorted_wrt: "distinct xs \<longleftrightarrow> sorted_wrt (\<noteq>) xs"
  by (induction xs) auto

lemma read_tag_rows:
  assumes "slatedb_ok S" and "read_rows S P db (prefix_for_tag tag) (\<lambda>_. True) = Inr rows"
  shows "x \<in> set rows \<longleftrightarrow> (\<exists>k. stored_row P (sdb_view S db) tag k x)"
    and "sorted_wrt R (map f rows) \<longleftrightarrow> (\<forall>k k' x y. stored_row P (sdb_view S db) tag k x \<longrightarrow>
      stored_row P (sdb_view S db) tag k' y \<longrightarrow> k < k' \<longrightarrow> R (f x) (f y))"
proof -
  obtain krows where u: "rows_under (row_decoder P) (\<lambda>_. True) (sdb_view S db) (prefix_for_tag tag) krows"
    and r: "rows = map snd krows"
    using assms by (auto simp: read_rows_def rbind_eq_Inr_iff dest: scan_rows_Inr)
  have mem: "(k, x) \<in> set krows \<longleftrightarrow> stored_row P (sdb_view S db) tag k x" for k x
    using rows_under_set [OF u, of k x] by (auto simp: stored_row_def row_decoder_def)
  show "x \<in> set rows \<longleftrightarrow> (\<exists>k. stored_row P (sdb_view S db) tag k x)"
    unfolding r by (force simp: mem [symmetric])
  obtain kvs where l: "prefix_listing (sdb_view S db) (prefix_for_tag tag) kvs"
    "\<forall>kv\<in>set kvs. \<exists>r. row_decoder P kv = Inr r" "krows = List.map_filter (decoded_row (row_decoder P) (\<lambda>_. True)) kvs"
    using u by (auto simp: rows_under_def)
  have "map fst krows = map fst kvs"
    using l(2) unfolding l(3) by (induction kvs) (auto simp: decoded_row_def List.map_filter_def)
  then have "sorted_wrt (<) (map fst krows)" using l(1) by (simp add: prefix_listing_def)
  from sorted_wrt_by_key [OF this, of R "f \<circ> snd"]
  show "sorted_wrt R (map f rows) \<longleftrightarrow> (\<forall>k k' x y. stored_row P (sdb_view S db) tag k x \<longrightarrow>
      stored_row P (sdb_view S db) tag k' y \<longrightarrow> k < k' \<longrightarrow> R (f x) (f y))"
    unfolding r mem [symmetric] by (simp add: Ball_def) blast
qed

definition intervals_ok :: "'m prost \<Rightarrow> ('m \<Rightarrow> u64) \<Rightarrow> ('m \<Rightarrow> u64 option) \<Rightarrow> (bytes \<Rightarrow> bytes option) \<Rightarrow> u8 \<Rightarrow> bool" where
  "intervals_ok P begin_of end_of m tag \<longleftrightarrow>
     (\<forall>k row. stored_row P m tag k row \<longrightarrow> \<not> bad_interval (begin_of row) (end_of row))"

lemma intervals_ok_read:
  assumes "slatedb_ok S" and "read_rows S P db (prefix_for_tag tag) (\<lambda>_. True) = Inr rows"
  shows "intervals_ok P begin_of end_of (sdb_view S db) tag \<longleftrightarrow> (\<forall>x\<in>set rows. \<not> bad_interval (begin_of x) (end_of x))"
  by (auto simp: intervals_ok_def read_tag_rows(1) [OF assms])


end
