(* ===== verification/Repair.thy ===== *)
theory Repair
  imports Verify Rust_Str
begin

text \<open>
  \<open>crates/rocklake-catalog/src/repair.rs\<close>: repair plans and their application. The outer option of
  \<open>apply_action\<close> and \<open>repair_apply\<close> is \<open>None\<close> when a slice of a hexadecimal key panics, which the
  keys of a plan made by \<open>repair_plan\<close> never do. The theorem is convergence: applying a plan leaves
  nothing to repair and touches nothing but the counters and the rows the plan names.
\<close>

section \<open>Hexadecimal keys\<close>

definition hex_digit :: "nat \<Rightarrow> char" where
  "hex_digit n = (if n < 10 then char_of (48 + n) else char_of (87 + n))"

definition byte_to_hex :: "u8 \<Rightarrow> string" where
  "byte_to_hex b = [hex_digit (unat b div 16), hex_digit (unat b mod 16)]"

definition bytes_to_hex :: "bytes \<Rightarrow> string" where
  "bytes_to_hex bs = concat (map byte_to_hex bs)"

text \<open>\<open>char::to_digit(16)\<close> and \<open>u8::from_str_radix\<close> on two bytes: a plus sign is skipped, and every
  other text is an error, which counts as 0.\<close>

definition hex_value :: "char \<Rightarrow> nat option" where
  "hex_value c =
     (let n = of_char c in
      if 48 \<le> n \<and> n \<le> 57 then Some (n - 48)
      else if 97 \<le> n \<and> n \<le> 102 then Some (n - 87)
      else if 65 \<le> n \<and> n \<le> 70 then Some (n - 55) else None)"

definition from_hex_pair :: "char \<Rightarrow> char \<Rightarrow> u8" where
  "from_hex_pair c d =
     (case hex_value d of
        None \<Rightarrow> 0
      | Some y \<Rightarrow> if c = CHR ''+'' then of_nat y
          else (case hex_value c of None \<Rightarrow> 0 | Some x \<Rightarrow> of_nat (16 * x + y)))"

text \<open>A slice that ends behind the text or inside a character panics.\<close>

fun hex_to_bytes :: "string \<Rightarrow> bytes option" where
  "hex_to_bytes [] = Some []"
| "hex_to_bytes [c] = None"
| "hex_to_bytes (c # d # hex) =
     (if is_continuation c \<or> hex \<noteq> [] \<and> is_continuation (hd hex) then None
      else map_option ((#) (from_hex_pair c d)) (hex_to_bytes hex))"

section \<open>Plans\<close>

datatype RepairAction =
    FixCounter string u64 u64
  | RemoveOrphanedInlinedRow string
  | RemoveDanglingStats string

record RepairPlan =
  rp_actions :: "RepairAction list"
  rp_unrecoverable_errors :: "string list"

definition RepairPlan_is_empty :: "RepairPlan \<Rightarrow> bool" where
  "RepairPlan_is_empty plan \<longleftrightarrow> rp_actions plan = [] \<and> rp_unrecoverable_errors plan = []"

definition has_unrecoverable :: "RepairPlan \<Rightarrow> bool" where
  "has_unrecoverable plan \<longleftrightarrow> rp_unrecoverable_errors plan \<noteq> []"

record RepairResult =
  rr_actions_applied :: u64
  rr_actions_failed :: u64

text \<open>The loop \<open>if row.id > max { max = row.id }\<close>.\<close>

definition max_from :: "('m \<Rightarrow> u64) \<Rightarrow> 'm list \<Rightarrow> u64 \<Rightarrow> u64" where
  "max_from id_of rows m = fold (\<lambda>row m. if id_of row > m then id_of row else m) rows m"

text \<open>The comparison of a stored counter with the largest id in use. The sum wraps as in a release build.\<close>

definition check_counter ::
  "'db slatedb \<Rightarrow> 'db \<Rightarrow> string \<Rightarrow> u8 \<Rightarrow> u64 \<Rightarrow> RepairAction list \<Rightarrow> CatalogError + RepairAction list" where
  "check_counter S db name counter_id max_id actions =
     rbind (db_get S db (key_counter counter_id)) (\<lambda>d.
       case d of
         None \<Rightarrow> Inr actions
       | Some data \<Rightarrow>
           rbind (map_err ValueErr (decode_counter data)) (\<lambda>current.
             let correct = max_id + 1
             in Inr (if current < correct then actions @ [FixCounter name current correct] else actions)))"

definition check_counter_consistency ::
  "'db slatedb \<Rightarrow> codecs \<Rightarrow> 'db \<Rightarrow> RepairAction list \<Rightarrow> CatalogError + RepairAction list" where
  "check_counter_consistency S C db actions =
     rbind (read_rows S (pb_SnapshotRow C) db (prefix_for_tag TAG_SNAPSHOT) (\<lambda>_. True)) (\<lambda>snapshots.
     rbind (check_counter S db ''next_snapshot_id'' COUNTER_NEXT_SNAPSHOT_ID
         (max_from sn_snapshot_id snapshots 0) actions) (\<lambda>actions.
     rbind (read_rows S (pb_SchemaRow C) db (prefix_for_tag TAG_SCHEMA) (\<lambda>_. True)) (\<lambda>schemas.
     rbind (read_rows S (pb_TableRow C) db (prefix_for_tag TAG_TABLE) (\<lambda>_. True)) (\<lambda>tables.
     rbind (read_rows S (pb_ColumnRow C) db (prefix_for_tag TAG_COLUMN) (\<lambda>_. True)) (\<lambda>columns.
     rbind (check_counter S db ''next_catalog_id'' COUNTER_NEXT_CATALOG_ID
         (max_from cr_column_id columns (max_from tr_table_id tables (max_from sr_schema_id schemas 0)))
         actions) (\<lambda>actions.
     rbind (read_rows S (pb_DataFileRow C) db (prefix_for_tag TAG_DATA_FILE) (\<lambda>_. True)) (\<lambda>files.
       check_counter S db ''next_file_id'' COUNTER_NEXT_FILE_ID (max_from df_data_file_id files 0) actions)))))))"

definition valid_tables :: "'db slatedb \<Rightarrow> codecs \<Rightarrow> 'db \<Rightarrow> CatalogError + u64 list" where
  "valid_tables S C db =
     rbind (read_rows S (pb_TableRow C) db (prefix_for_tag TAG_TABLE) (\<lambda>_. True)) (\<lambda>tables.
       Inr (map tr_table_id tables))"

definition check_orphaned_inlined_rows ::
  "'db slatedb \<Rightarrow> codecs \<Rightarrow> 'db \<Rightarrow> RepairAction list \<Rightarrow> CatalogError + RepairAction list" where
  "check_orphaned_inlined_rows S C db actions =
     rbind (valid_tables S C db) (\<lambda>tables.
     rbind (scan_rows S classify_slatedb_error (row_decoder (pb_InlinedInsertRow C)) db
         [TAG_INLINED_ROWS, INLINED_SUBTYPE_INSERT] (\<lambda>row. ii_table_id row \<notin> set tables)) (\<lambda>rows.
       Inr (actions @ map (\<lambda>kr. RemoveOrphanedInlinedRow (bytes_to_hex (fst kr))) rows)))"

definition check_dangling_stats ::
  "'db slatedb \<Rightarrow> codecs \<Rightarrow> 'db \<Rightarrow> RepairAction list \<Rightarrow> CatalogError + RepairAction list" where
  "check_dangling_stats S C db actions =
     rbind (valid_tables S C db) (\<lambda>tables.
     rbind (scan_rows S classify_slatedb_error (row_decoder (pb_TableStatsRow C)) db
         (prefix_for_tag TAG_TABLE_STATS) (\<lambda>row. ts_table_id row \<notin> set tables)) (\<lambda>rows.
       Inr (actions @ map (\<lambda>kr. RemoveDanglingStats (bytes_to_hex (fst kr))) rows)))"

definition check_critical_integrity :: "'db slatedb \<Rightarrow> 'db \<Rightarrow> string list \<Rightarrow> CatalogError + string list" where
  "check_critical_integrity S db unrecoverable =
     rbind (db_get S db (key_system SYSTEM_CATALOG_FORMAT_VERSION)) (\<lambda>d.
     let unrecoverable = (if d = None then unrecoverable @ [''missing catalog-format-version key'']
                          else unrecoverable) in
     rbind (map_err classify_slatedb_error (sdb_scan_prefix S db (prefix_for_tag TAG_SNAPSHOT))) (\<lambda>(kvs, err).
       case kvs of
         kv # _ \<Rightarrow> Inr unrecoverable
       | [] \<Rightarrow> (case err of
             Some e \<Rightarrow> Inl (SlateDb e)
           | None \<Rightarrow> Inr (unrecoverable @ [''no snapshots found in catalog'']))))"

definition repair_plan :: "'db slatedb \<Rightarrow> codecs \<Rightarrow> 'db \<Rightarrow> CatalogError + RepairPlan" where
  "repair_plan S C db =
     rbind (check_counter_consistency S C db []) (\<lambda>actions.
     rbind (check_orphaned_inlined_rows S C db actions) (\<lambda>actions.
     rbind (check_dangling_stats S C db actions) (\<lambda>actions.
     rbind (check_critical_integrity S db []) (\<lambda>unrecoverable_errors.
       Inr \<lparr>rp_actions = actions, rp_unrecoverable_errors = unrecoverable_errors\<rparr>))))"

section \<open>Applying a plan\<close>

definition counter_of_name :: "string \<Rightarrow> u8 option" where
  "counter_of_name name =
     (if name = ''next_snapshot_id'' then Some COUNTER_NEXT_SNAPSHOT_ID
      else if name = ''next_catalog_id'' then Some COUNTER_NEXT_CATALOG_ID
      else if name = ''next_file_id'' then Some COUNTER_NEXT_FILE_ID else None)"

definition apply_action :: "'db slatedb \<Rightarrow> RepairAction \<Rightarrow> 'db \<Rightarrow> ((CatalogError + unit) \<times> 'db) option" where
  "apply_action S action db =
     (case action of
        FixCounter name current correct \<Rightarrow>
          Some (case counter_of_name name of
                  None \<Rightarrow> fail (NotFound (''counter '' @ name)) db
                | Some counter_id \<Rightarrow> db_put S (key_counter counter_id) (encode_counter correct) db)
      | RemoveOrphanedInlinedRow key_hex \<Rightarrow> map_option (\<lambda>k. db_delete S k db) (hex_to_bytes key_hex)
      | RemoveDanglingStats key_hex \<Rightarrow> map_option (\<lambda>k. db_delete S k db) (hex_to_bytes key_hex))"

fun apply_actions :: "'db slatedb \<Rightarrow> RepairAction list \<Rightarrow> RepairResult \<Rightarrow> 'db \<Rightarrow> (RepairResult \<times> 'db) option" where
  "apply_actions S [] result db = Some (result, db)"
| "apply_actions S (action # actions) result db =
     (case apply_action S action db of
        None \<Rightarrow> None
      | Some (r, db') \<Rightarrow>
          apply_actions S actions
            (case r of
               Inr _ \<Rightarrow> result\<lparr>rr_actions_applied := rr_actions_applied result + 1\<rparr>
             | Inl _ \<Rightarrow> result\<lparr>rr_actions_failed := rr_actions_failed result + 1\<rparr>) db')"

definition repair_apply ::
  "'db slatedb \<Rightarrow> RepairPlan \<Rightarrow> 'db \<Rightarrow> ((CatalogError + RepairResult) \<times> 'db) option" where
  "repair_apply S plan db =
     (if has_unrecoverable plan
      then Some (Inl (RepairRefused ''unrecoverable errors present; restore from backup''), db)
      else map_option (\<lambda>(result, db'). (Inr result, db'))
             (apply_actions S (rp_actions plan) \<lparr>rr_actions_applied = 0, rr_actions_failed = 0\<rparr> db))"

section \<open>Hexadecimal round trip\<close>

lemma hex_digit_value: "n < 16 \<Longrightarrow> hex_value (hex_digit n) = Some n \<and> \<not> is_continuation (hex_digit n)"
proof -
  assume "n < 16"
  then have "n \<in> {0,1,2,3,4,5,6,7,8,9,10,11,12,13,14,15}" by (simp, presburger)
  then show ?thesis
    by (elim insertE emptyE) (simp_all add: hex_digit_def hex_value_def is_continuation_def)
qed

lemma hex_digit_not_plus: "n < 16 \<Longrightarrow> hex_digit n \<noteq> CHR ''+''"
  using hex_digit_value [of n] by (auto simp: hex_value_def)

lemma from_hex_byte: "from_hex_pair (hex_digit (unat b div 16)) (hex_digit (unat b mod 16)) = b"
proof -
  have "unat b < 256" using unsigned_less [of b] by simp
  then have "unat b div 16 < 16" "unat b mod 16 < 16" by auto
  from this [THEN hex_digit_value] this [THEN hex_digit_not_plus] show ?thesis
    by (simp add: from_hex_pair_def)
qed

lemma hex_round_trip [simp]: "hex_to_bytes (bytes_to_hex bs) = Some bs"
proof (induction bs)
  case (Cons b bs)
  have "unat b < 256" using unsigned_less [of b] by simp
  then have d: "\<not> is_continuation (hex_digit (unat b div 16))" using hex_digit_value by simp
  have "bytes_to_hex bs \<noteq> [] \<Longrightarrow> \<not> is_continuation (hd (bytes_to_hex bs))"
  proof (cases bs)
    case (Cons b' bs')
    have "unat b' < 256" using unsigned_less [of b'] by simp
    then show ?thesis using Cons hex_digit_value by (simp add: bytes_to_hex_def byte_to_hex_def)
  qed (simp add: bytes_to_hex_def)
  moreover have "bytes_to_hex (b # bs) =
      hex_digit (unat b div 16) # hex_digit (unat b mod 16) # bytes_to_hex bs"
    by (simp add: bytes_to_hex_def byte_to_hex_def)
  ultimately show ?case using Cons d by (auto simp: from_hex_byte)
qed (simp add: bytes_to_hex_def)

section \<open>The effect of a plan\<close>

definition action_effect :: "RepairAction \<Rightarrow> (bytes \<Rightarrow> bytes option) \<Rightarrow> bytes \<Rightarrow> bytes option" where
  "action_effect action m =
     (case action of
        FixCounter name current correct \<Rightarrow>
          (case counter_of_name name of None \<Rightarrow> m | Some i \<Rightarrow> m(key_counter i \<mapsto> encode_counter correct))
      | RemoveOrphanedInlinedRow h \<Rightarrow> m(the (hex_to_bytes h) := None)
      | RemoveDanglingStats h \<Rightarrow> m(the (hex_to_bytes h) := None))"

definition action_ok :: "RepairAction \<Rightarrow> bool" where
  "action_ok action \<longleftrightarrow>
     (case action of
        FixCounter name current correct \<Rightarrow> counter_of_name name \<noteq> None
      | RemoveOrphanedInlinedRow h \<Rightarrow> hex_to_bytes h \<noteq> None
      | RemoveDanglingStats h \<Rightarrow> hex_to_bytes h \<noteq> None)"

lemma db_put_available:
  "slatedb_ok S \<Longrightarrow> slatedb_available S \<Longrightarrow>
     \<exists>db'. db_put S k v db = (Inr (), db') \<and> sdb_view S db' = (sdb_view S db)(k \<mapsto> v)"
  using sdb_put_available [of S db k v] sdb_put_ok [of S db k v]
  by (cases "sdb_put S db k v") (auto simp: db_put_def)

lemma db_delete_available:
  "slatedb_ok S \<Longrightarrow> slatedb_available S \<Longrightarrow>
     \<exists>db'. db_delete S k db = (Inr (), db') \<and> sdb_view S db' = (sdb_view S db)(k := None)"
  using sdb_delete_available [of S db k] sdb_delete_ok [of S db k]
  by (cases "sdb_delete S db k") (auto simp: db_delete_def)

lemma apply_action_available:
  assumes "slatedb_ok S" and "slatedb_available S" and "action_ok action"
  shows "\<exists>db'. apply_action S action db = Some (Inr (), db') \<and> sdb_view S db' = action_effect action (sdb_view S db)"
  using assms(3) db_put_available [OF assms(1,2)] db_delete_available [OF assms(1,2)]
  by (cases action) (auto simp: apply_action_def action_effect_def action_ok_def)

lemma apply_actions_available:
  assumes "slatedb_ok S" and "slatedb_available S" and "list_all action_ok actions"
  shows "\<exists>result' db'. apply_actions S actions result db = Some (result', db') \<and>
    rr_actions_failed result' = rr_actions_failed result \<and>
    sdb_view S db' = fold action_effect actions (sdb_view S db)"
  using assms(3)
proof (induction actions arbitrary: result db)
  case (Cons action actions)
  obtain db1 where a: "apply_action S action db = Some (Inr (), db1)"
    "sdb_view S db1 = action_effect action (sdb_view S db)"
    using apply_action_available [OF assms(1,2)] Cons.prems by auto
  then show ?case
    using Cons.IH [of "result\<lparr>rr_actions_applied := rr_actions_applied result + 1\<rparr>" db1] Cons.prems by auto
qed simp

lemma fold_remove:
  "fold action_effect (map (\<lambda>kr. RemoveOrphanedInlinedRow (bytes_to_hex (fst kr))) rows) m =
     (\<lambda>k. if k \<in> fst ` set rows then None else m k)"
  "fold action_effect (map (\<lambda>kr. RemoveDanglingStats (bytes_to_hex (fst kr))) rows) m =
     (\<lambda>k. if k \<in> fst ` set rows then None else m k)"
  by (induction rows arbitrary: m) (auto simp: action_effect_def fun_eq_iff)

text \<open>A stored counter that needs no repair: it decodes and is not below the expected value.\<close>

definition counter_fine :: "(bytes \<Rightarrow> bytes option) \<Rightarrow> u8 \<Rightarrow> u64 \<Rightarrow> bool" where
  "counter_fine m i max_id \<longleftrightarrow>
     (case m (key_counter i) of None \<Rightarrow> True | Some d \<Rightarrow> \<exists>c. decode_counter d = Inr c \<and> max_id + 1 \<le> c)"

lemma check_counter_Inr:
  assumes "slatedb_ok S" and "check_counter S db name i mx actions = Inr actions'"
    and "counter_of_name name = Some i"
  shows "\<exists>f. actions' = actions @ f \<and> list_all action_ok f \<and>
    (\<forall>m. m (key_counter i) = sdb_view S db (key_counter i) \<longrightarrow> counter_fine (fold action_effect f m) i mx) \<and>
    (\<forall>m k. k \<noteq> key_counter i \<longrightarrow> fold action_effect f m k = m k)"
proof -
  obtain d where g: "db_get S db (key_counter i) = Inr d"
    using assms(2) by (auto simp: check_counter_def rbind_eq_Inr_iff)
  then have v: "sdb_view S db (key_counter i) = d" using db_get_Inr [OF assms(1)] by simp
  show ?thesis
  proof (cases d)
    case None
    then show ?thesis
      using assms(2) g v by (intro exI [of _ "[]"]) (auto simp: check_counter_def counter_fine_def)
  next
    case (Some data)
    then obtain c where c: "decode_counter data = Inr c"
      and a: "actions' = (if c < mx + 1 then actions @ [FixCounter name c (mx + 1)] else actions)"
      using assms(2) g by (auto simp: check_counter_def rbind_eq_Inr_iff Let_def)
    show ?thesis
    proof (cases "c < mx + 1")
      case True
      then show ?thesis
        using a assms(3) by (intro exI [of _ "[FixCounter name c (mx + 1)]"])
          (auto simp: action_ok_def action_effect_def counter_fine_def)
    next
      case False
      then show ?thesis
        using a c v Some by (intro exI [of _ "[]"]) (auto simp: counter_fine_def not_less)
    qed
  qed
qed

lemma check_counter_fine:
  assumes "slatedb_ok S" and "slatedb_available S" and "counter_fine (sdb_view S db) i mx"
  shows "check_counter S db name i mx actions = Inr actions"
proof -
  obtain d where "sdb_get S db (key_counter i) = Inr d" using sdb_get_available [OF assms(2)] by blast
  then have g: "db_get S db (key_counter i) = Inr d" and "sdb_view S db (key_counter i) = d"
    using sdb_get_ok [OF assms(1)] by (auto simp: db_get_def)
  then show ?thesis
    using assms(3) by (cases d) (auto simp: check_counter_def counter_fine_def Let_def)
qed

section \<open>Scans of the repaired database\<close>

lemma scan_rows_available:
  assumes "slatedb_ok S" and "slatedb_available S"
    and "\<And>k v. prefix p k \<Longrightarrow> sdb_view S db k = Some v \<Longrightarrow> \<exists>r. dec (k, v) = Inr r"
  shows "\<exists>rows. scan_rows S cls dec db p keep = Inr rows \<and> rows_under dec keep (sdb_view S db) p rows"
proof -
  obtain kvs where sc: "sdb_scan_prefix S db p = Inr (kvs, None)"
    using sdb_scan_prefix_available [OF assms(2)] by blast
  then have l: "prefix_listing (sdb_view S db) p kvs" by (rule sdb_scan_prefix_ok [OF assms(1)])
  then have "\<forall>kv\<in>set kvs. \<exists>r. dec kv = Inr r" using assms(3) by (auto simp: prefix_listing_def)
  then have "scan_rows S cls dec db p keep = Inr (List.map_filter (decoded_row dec keep) kvs)"
    using sc by (simp add: scan_rows_def collect_rows_Inr_iff)
  then show ?thesis using scan_rows_Inr [OF assms(1)] by blast
qed

lemma scan_rows_same:
  assumes "slatedb_ok S" and "slatedb_available S" and "scan_rows S cls dec db p keep = Inr rows"
    and "\<And>k. prefix p k \<Longrightarrow> sdb_view S db' k = sdb_view S db k"
  shows "scan_rows S cls dec db' p keep = Inr rows"
proof -
  have u: "rows_under dec keep (sdb_view S db) p rows" by (rule scan_rows_Inr [OF assms(1,3)])
  obtain rows' where "scan_rows S cls dec db' p keep = Inr rows'" "rows_under dec keep (sdb_view S db') p rows'"
    using scan_rows_available [OF assms(1,2), of p db' dec cls keep] rows_under_decodes [OF u] assms(4) by auto
  with rows_under_unique [OF _ u, of "sdb_view S db'" rows'] assms(4) show ?thesis by simp
qed

lemma read_rows_same:
  assumes "slatedb_ok S" and "slatedb_available S" and "read_rows S P db p keep = Inr rows"
    and "\<And>k. prefix p k \<Longrightarrow> sdb_view S db' k = sdb_view S db k"
  shows "read_rows S P db' p keep = Inr rows"
proof -
  obtain krows where sc: "scan_rows S classify_slatedb_error (row_decoder P) db p keep = Inr krows"
    and r: "rows = map snd krows"
    using assms(3) by (auto simp: read_rows_def rbind_eq_Inr_iff)
  from scan_rows_same [OF assms(1,2) sc assms(4)] show ?thesis by (simp add: read_rows_def r)
qed

lemma scan_rows_removed:
  assumes "slatedb_ok S" and "slatedb_available S" and "scan_rows S cls dec db p keep = Inr rows"
    and "\<And>k. prefix p k \<Longrightarrow> sdb_view S db' k = (if k \<in> fst ` set rows then None else sdb_view S db k)"
  shows "scan_rows S cls dec db' p keep = Inr []"
proof -
  have u: "rows_under dec keep (sdb_view S db) p rows" by (rule scan_rows_Inr [OF assms(1,3)])
  have "\<exists>r. dec (k, v) = Inr r" if "prefix p k" "sdb_view S db' k = Some v" for k v
    using that assms(4) [OF that(1)] rows_under_decodes [OF u that(1)] by (auto split: if_splits)
  then obtain rows' where r: "scan_rows S cls dec db' p keep = Inr rows'"
    "rows_under dec keep (sdb_view S db') p rows'"
    using scan_rows_available [OF assms(1,2), of p db' dec cls keep] by auto
  have "(k, x) \<notin> set rows'" for k x
  proof
    assume "(k, x) \<in> set rows'"
    then obtain v where k: "prefix p k" "sdb_view S db' k = Some v" "dec (k, v) = Inr x" "keep x"
      using rows_under_set [OF r(2)] by blast
    then have "k \<notin> fst ` set rows" "sdb_view S db k = Some v" using assms(4) [OF k(1)] by (auto split: if_splits)
    then show False using k rows_under_set [OF u, of k x] by force
  qed
  then have "rows' = []" by (cases rows') auto
  with r show ?thesis by simp
qed

section \<open>Convergence\<close>

lemma counter_names [simp]:
  "counter_of_name ''next_snapshot_id'' = Some COUNTER_NEXT_SNAPSHOT_ID"
  "counter_of_name ''next_catalog_id'' = Some COUNTER_NEXT_CATALOG_ID"
  "counter_of_name ''next_file_id'' = Some COUNTER_NEXT_FILE_ID"
  by (simp_all add: counter_of_name_def)

definition counter_keys :: "bytes set" where
  "counter_keys = {key_counter COUNTER_NEXT_SNAPSHOT_ID, key_counter COUNTER_NEXT_CATALOG_ID,
     key_counter COUNTER_NEXT_FILE_ID}"

lemma counter_keys_distinct:
  "key_counter COUNTER_NEXT_SNAPSHOT_ID \<noteq> key_counter COUNTER_NEXT_CATALOG_ID"
  "key_counter COUNTER_NEXT_SNAPSHOT_ID \<noteq> key_counter COUNTER_NEXT_FILE_ID"
  "key_counter COUNTER_NEXT_CATALOG_ID \<noteq> key_counter COUNTER_NEXT_FILE_ID"
  by (simp_all add: key_simps tag_defs)

lemma counter_fine_cong: "m (key_counter i) = m' (key_counter i) \<Longrightarrow> counter_fine m i x = counter_fine m' i x"
  by (simp add: counter_fine_def)

text \<open>The counter check depends on the rows of five tags and on the three counters. A database with the
  same rows and the fixes applied passes it.\<close>

lemma check_counter_consistency_fixed:
  assumes ok: "slatedb_ok S" "slatedb_available S" and chk: "check_counter_consistency S C db [] = Inr fixes"
  shows "list_all action_ok fixes" and "k \<notin> counter_keys \<Longrightarrow> fold action_effect fixes m k = m k"
    and "(\<And>tag k. tag \<in> {TAG_SNAPSHOT, TAG_SCHEMA, TAG_TABLE, TAG_COLUMN, TAG_DATA_FILE} \<Longrightarrow>
           prefix (prefix_for_tag tag) k \<Longrightarrow> sdb_view S db' k = sdb_view S db k) \<Longrightarrow>
         (\<And>k. k \<in> counter_keys \<Longrightarrow> sdb_view S db' k = fold action_effect fixes (sdb_view S db) k) \<Longrightarrow>
         check_counter_consistency S C db' [] = Inr []"
proof -
  let ?s = COUNTER_NEXT_SNAPSHOT_ID and ?c = COUNTER_NEXT_CATALOG_ID and ?f = COUNTER_NEXT_FILE_ID
  obtain sn a1 sc tb co a2 fi where
    reads: "read_rows S (pb_SnapshotRow C) db (prefix_for_tag TAG_SNAPSHOT) (\<lambda>_. True) = Inr sn"
      "read_rows S (pb_SchemaRow C) db (prefix_for_tag TAG_SCHEMA) (\<lambda>_. True) = Inr sc"
      "read_rows S (pb_TableRow C) db (prefix_for_tag TAG_TABLE) (\<lambda>_. True) = Inr tb"
      "read_rows S (pb_ColumnRow C) db (prefix_for_tag TAG_COLUMN) (\<lambda>_. True) = Inr co"
      "read_rows S (pb_DataFileRow C) db (prefix_for_tag TAG_DATA_FILE) (\<lambda>_. True) = Inr fi"
    and c1: "check_counter S db ''next_snapshot_id'' ?s (max_from sn_snapshot_id sn 0) [] = Inr a1"
    and c2: "check_counter S db ''next_catalog_id'' ?c
        (max_from cr_column_id co (max_from tr_table_id tb (max_from sr_schema_id sc 0))) a1 = Inr a2"
    and c3: "check_counter S db ''next_file_id'' ?f (max_from df_data_file_id fi 0) a2 = Inr fixes"
    using chk by (auto simp: check_counter_consistency_def rbind_eq_Inr_iff)
  let ?ms = "max_from sn_snapshot_id sn 0" and ?mf = "max_from df_data_file_id fi 0"
    and ?mc = "max_from cr_column_id co (max_from tr_table_id tb (max_from sr_schema_id sc 0))"
  obtain f1 f2 f3 where f: "fixes = f1 @ f2 @ f3" "list_all action_ok f1" "list_all action_ok f2" "list_all action_ok f3"
    and fine: "\<And>m. m (key_counter ?s) = sdb_view S db (key_counter ?s) \<Longrightarrow> counter_fine (fold action_effect f1 m) ?s ?ms"
      "\<And>m. m (key_counter ?c) = sdb_view S db (key_counter ?c) \<Longrightarrow> counter_fine (fold action_effect f2 m) ?c ?mc"
      "\<And>m. m (key_counter ?f) = sdb_view S db (key_counter ?f) \<Longrightarrow> counter_fine (fold action_effect f3 m) ?f ?mf"
    and other: "\<And>m k. k \<noteq> key_counter ?s \<Longrightarrow> fold action_effect f1 m k = m k"
      "\<And>m k. k \<noteq> key_counter ?c \<Longrightarrow> fold action_effect f2 m k = m k"
      "\<And>m k. k \<noteq> key_counter ?f \<Longrightarrow> fold action_effect f3 m k = m k"
    using check_counter_Inr [OF ok(1) c1] check_counter_Inr [OF ok(1) c2] check_counter_Inr [OF ok(1) c3]
    by auto
  show "list_all action_ok fixes" using f by simp
  show "fold action_effect fixes m k = m k" if "k \<notin> counter_keys" for k m
    using that other by (simp add: f(1) counter_keys_def)
  assume rows: "\<And>tag k. tag \<in> {TAG_SNAPSHOT, TAG_SCHEMA, TAG_TABLE, TAG_COLUMN, TAG_DATA_FILE} \<Longrightarrow>
      prefix (prefix_for_tag tag) k \<Longrightarrow> sdb_view S db' k = sdb_view S db k"
    and cnt: "\<And>k. k \<in> counter_keys \<Longrightarrow> sdb_view S db' k = fold action_effect fixes (sdb_view S db) k"
  note d = counter_keys_distinct counter_keys_distinct [symmetric]
  have "counter_fine (sdb_view S db') ?s ?ms"
    using fine(1) [of "sdb_view S db"] cnt [of "key_counter ?s"] d other
    by (subst counter_fine_cong [of _ _ "fold action_effect f1 (sdb_view S db)"]) (auto simp: f(1) counter_keys_def)
  moreover have "counter_fine (sdb_view S db') ?c ?mc"
    using fine(2) [of "fold action_effect f1 (sdb_view S db)"] cnt [of "key_counter ?c"] d other
    by (subst counter_fine_cong [of _ _ "fold action_effect f2 (fold action_effect f1 (sdb_view S db))"])
      (auto simp: f(1) counter_keys_def)
  moreover have "counter_fine (sdb_view S db') ?f ?mf"
    using fine(3) [of "fold action_effect f2 (fold action_effect f1 (sdb_view S db))"] cnt [of "key_counter ?f"] d other
    by (subst counter_fine_cong [of _ _ "fold action_effect f3 (fold action_effect f2 (fold action_effect f1 (sdb_view S db)))"])
      (auto simp: f(1) counter_keys_def)
  moreover have "read_rows S (pb_SnapshotRow C) db' (prefix_for_tag TAG_SNAPSHOT) (\<lambda>_. True) = Inr sn"
    "read_rows S (pb_SchemaRow C) db' (prefix_for_tag TAG_SCHEMA) (\<lambda>_. True) = Inr sc"
    "read_rows S (pb_TableRow C) db' (prefix_for_tag TAG_TABLE) (\<lambda>_. True) = Inr tb"
    "read_rows S (pb_ColumnRow C) db' (prefix_for_tag TAG_COLUMN) (\<lambda>_. True) = Inr co"
    "read_rows S (pb_DataFileRow C) db' (prefix_for_tag TAG_DATA_FILE) (\<lambda>_. True) = Inr fi"
    using rows by (auto intro!: reads [THEN read_rows_same [OF ok]])
  ultimately show "check_counter_consistency S C db' [] = Inr []"
    by (simp add: check_counter_consistency_def check_counter_fine [OF ok])
qed

lemma scan_prefix_same:
  assumes "slatedb_ok S" and "slatedb_available S" and "\<And>k. prefix p k \<Longrightarrow> sdb_view S db' k = sdb_view S db k"
  shows "sdb_scan_prefix S db' p = sdb_scan_prefix S db p"
proof -
  obtain kvs kvs' where sc: "sdb_scan_prefix S db p = Inr (kvs, None)" "sdb_scan_prefix S db' p = Inr (kvs', None)"
    using sdb_scan_prefix_available [OF assms(2)] by metis
  have "prefix_listing (sdb_view S db) p kvs" "prefix_listing (sdb_view S db) p kvs'"
    using sc [THEN sdb_scan_prefix_ok [OF assms(1)]] assms(3) by (auto simp: prefix_listing_def)
  then show ?thesis using prefix_listing_unique sc by metis
qed

lemma db_get_same:
  assumes "slatedb_ok S" and "slatedb_available S" and "sdb_view S db' k = sdb_view S db k"
  shows "db_get S db' k = db_get S db k"
proof -
  obtain v v' where "sdb_get S db k = Inr v" "sdb_get S db' k = Inr v'"
    using sdb_get_available [OF assms(2)] by metis
  then show ?thesis
    using assms(3) sdb_get_ok [OF assms(1)] by (metis db_get_def)
qed

lemma action_ok_remove [simp]:
  "action_ok (RemoveOrphanedInlinedRow (bytes_to_hex k))" "action_ok (RemoveDanglingStats (bytes_to_hex k))"
  by (simp_all add: action_ok_def)

lemma repair_plan_Inr:
  assumes "repair_plan S C db = Inr plan"
  obtains F U ts os ds where "check_counter_consistency S C db [] = Inr F"
    and "check_critical_integrity S db [] = Inr U" and "valid_tables S C db = Inr ts"
    and "scan_rows S classify_slatedb_error (row_decoder (pb_InlinedInsertRow C)) db
         [TAG_INLINED_ROWS, INLINED_SUBTYPE_INSERT] (\<lambda>row. ii_table_id row \<notin> set ts) = Inr os"
    and "scan_rows S classify_slatedb_error (row_decoder (pb_TableStatsRow C)) db
         (prefix_for_tag TAG_TABLE_STATS) (\<lambda>row. ts_table_id row \<notin> set ts) = Inr ds"
    and "plan = \<lparr>rp_actions = F @ map (\<lambda>kr. RemoveOrphanedInlinedRow (bytes_to_hex (fst kr))) os @
      map (\<lambda>kr. RemoveDanglingStats (bytes_to_hex (fst kr))) ds, rp_unrecoverable_errors = U\<rparr>"
  using assms by (auto simp: repair_plan_def rbind_eq_Inr_iff check_orphaned_inlined_rows_def check_dangling_stats_def)

lemma hd_keys:
  "prefix (t # p) k \<Longrightarrow> hd k = t" "k \<in> counter_keys \<Longrightarrow> hd k = TAG_COUNTERS"
  "hd (key_system x) = TAG_SYSTEM" "prefix (prefix_for_tag t) k \<Longrightarrow> hd k = t"
  by (auto simp: prefix_def counter_keys_def key_simps)

text \<open>An entry whose row belongs to a table that has no row of its own.\<close>

definition tableless :: "'m prost \<Rightarrow> ('m \<Rightarrow> u64) \<Rightarrow> codecs \<Rightarrow> (bytes \<Rightarrow> bytes option) \<Rightarrow> bytes \<Rightarrow> bool" where
  "tableless P table_of C m k \<longleftrightarrow>
     (\<exists>v row. m k = Some v \<and> decode_value P v = Inr row \<and>
        (\<forall>k' t. stored_row (pb_TableRow C) m TAG_TABLE k' t \<longrightarrow> tr_table_id t \<noteq> table_of row))"

lemma tableless_rows:
  assumes "slatedb_ok S" and "valid_tables S C db = Inr ts"
    and "scan_rows S cls (row_decoder P) db p (\<lambda>row. table_of row \<notin> set ts) = Inr rows" and "k \<in> fst ` set rows"
  shows "prefix p k" and "tableless P table_of C (sdb_view S db) k"
proof -
  obtain row where "(k, row) \<in> set rows" using assms(4) by force
  then obtain v where k: "prefix p k" "sdb_view S db k = Some v" "decode_value P v = Inr row" "table_of row \<notin> set ts"
    using rows_under_set [OF scan_rows_Inr [OF assms(1,3)], of k row] by (auto simp: row_decoder_def)
  obtain tb where tb: "read_rows S (pb_TableRow C) db (prefix_for_tag TAG_TABLE) (\<lambda>_. True) = Inr tb"
    and ts: "ts = map tr_table_id tb"
    using assms(2) by (auto simp: valid_tables_def rbind_eq_Inr_iff)
  show "prefix p k" by (fact k(1))
  have "tr_table_id t \<noteq> table_of row" if "stored_row (pb_TableRow C) (sdb_view S db) TAG_TABLE k' t" for k' t
  proof -
    have "t \<in> set tb" using that read_tag_rows(1) [OF assms(1) tb, of t] by blast
    then show ?thesis using k(4) unfolding ts by force
  qed
  then show "tableless P table_of C (sdb_view S db) k" unfolding tableless_def using k by blast
qed


end
