(* ===== verification/Extension.thy ===== *)
theory Extension
  imports Transactions Codecs Rust_Str
begin

text \<open>
  \<open>crates/rocklake-catalog/src/extension.rs\<close>: the tables of registered extensions. Rows are bare
  protobuf messages without the value envelope. The row with id 0 is a marker whose JSON text holds
  the next row id. The theorem: as long as all processes keep to these operations, an insertion
  never reuses the id of a stored row.
\<close>

section \<open>Registered extensions\<close>

definition EXTENSION_PGTRICKLE :: u8 where
  "EXTENSION_PGTRICKLE = 1"

text \<open>\<open>str::to_lowercase\<close> as far as equality with an ASCII text goes: besides the ASCII capitals only
  the Kelvin sign (bytes E2 84 AA) becomes an ASCII letter.\<close>

fun fold_kelvin :: "string \<Rightarrow> string" where
  "fold_kelvin [] = []"
| "fold_kelvin (c # s) =
     (if c = CHR 0xE2 \<and> take 2 s = [CHR 0x84, CHR 0xAA] then CHR ''k'' # fold_kelvin (drop 2 s)
      else c # fold_kelvin s)"

definition resolve_extension_id :: "string \<Rightarrow> u8 option" where
  "resolve_extension_id schema_name =
     (if to_ascii_lowercase (fold_kelvin schema_name) = ''pgtrickle'' then Some EXTENSION_PGTRICKLE else None)"

definition is_registered_extension :: "string \<Rightarrow> string list \<Rightarrow> bool" where
  "is_registered_extension schema_name allowed =
     list_ex (\<lambda>s. to_ascii_lowercase s = to_ascii_lowercase schema_name) allowed"

section \<open>Operations\<close>

definition create_extension_table ::
  "'db slatedb \<Rightarrow> ExtensionSchemaRow prost \<Rightarrow> u8 \<Rightarrow> string \<Rightarrow> ('db, bool) cmd" where
  "create_extension_table S P extension_id table_name =
     bind (lift (map_err KeyErr (key_extension_schema extension_id table_name 0))) (\<lambda>marker_key.
     bind (\<lambda>db. (db_get S db marker_key, db)) (\<lambda>d.
     if d \<noteq> None then ret False
     else bind (db_put S marker_key (encode_to_vec P
            \<lparr>es_extension_id = ucast extension_id, es_table_name = table_name, es_row_id = 0,
             es_data_json = ''{}''\<rparr>)) (\<lambda>_. ret True)))"

definition next_id_prefix :: string where
  "next_id_prefix = [CHR ''{'', CHR 0x22] @ ''next_id'' @ [CHR 0x22, CHR '':'']"

text \<open>The next id of a marker: \<open>strip_prefix\<close>, \<open>strip_suffix\<close>, \<open>parse\<close>, and 1 when any of them fails.\<close>

definition marker_next_id :: "string \<Rightarrow> u64" where
  "marker_next_id data_json =
     (if starts_with data_json next_id_prefix
      then let s = drop (length next_id_prefix) data_json
           in if ends_with s ''}''
              then (case parse_u64 (butlast s) of Some n \<Rightarrow> n | None \<Rightarrow> 1) else 1
      else 1)"

definition read_next_id :: "ExtensionSchemaRow prost \<Rightarrow> bytes option \<Rightarrow> u64" where
  "read_next_id P d =
     (case d of
        Some data \<Rightarrow> (case pb_decode P data of Inr marker \<Rightarrow> marker_next_id (es_data_json marker) | Inl _ \<Rightarrow> 1)
      | None \<Rightarrow> 1)"

definition insert_extension_body ::
  "'db slatedb \<Rightarrow> ExtensionSchemaRow prost \<Rightarrow> u8 \<Rightarrow> string \<Rightarrow> string \<Rightarrow> bytes \<Rightarrow> ('db transaction, u64 tx_end) cmd" where
  "insert_extension_body S P extension_id table_name data_json counter_key =
     bind (tx_get S counter_key) (\<lambda>d.
     let next_id = read_next_id P d in
     bind (lift (map_err KeyErr (key_extension_schema extension_id table_name next_id))) (\<lambda>key.
     bind (tx_put S key (encode_to_vec P
         \<lparr>es_extension_id = ucast extension_id, es_table_name = table_name, es_row_id = next_id,
          es_data_json = data_json\<rparr>)) (\<lambda>_.
     bind (lift (ok_or (InvalidInput ''extension row ID overflow'') (checked_add next_id 1))) (\<lambda>new_next.
     bind (tx_put S counter_key (encode_to_vec P
         \<lparr>es_extension_id = ucast extension_id, es_table_name = table_name, es_row_id = 0,
          es_data_json = next_id_prefix @ show_u64 new_next @ ''}''\<rparr>)) (\<lambda>_.
       ret (Commit next_id))))))"

definition insert_extension_row ::
  "'db slatedb \<Rightarrow> ExtensionSchemaRow prost \<Rightarrow> u8 \<Rightarrow> string \<Rightarrow> string \<Rightarrow> ('db \<Rightarrow> 'db) list \<Rightarrow> 'db
     \<Rightarrow> (CatalogError + u64) option \<times> 'db" where
  "insert_extension_row S P extension_id table_name data_json envs db =
     (case map_err KeyErr (key_extension_schema extension_id table_name 0) of
        Inl e \<Rightarrow> (Some (Inl e), db)
      | Inr counter_key \<Rightarrow>
          retry_tx S (insert_extension_body S P extension_id table_name data_json counter_key) envs db)"

text \<open>The scan that skips what does not decode and keeps the rows with a positive id.\<close>

definition extension_rows ::
  "'db slatedb \<Rightarrow> ExtensionSchemaRow prost \<Rightarrow> bytes \<Rightarrow> 'db \<Rightarrow> CatalogError + (bytes \<times> ExtensionSchemaRow option) list" where
  "extension_rows S P p db =
     scan_rows S classify_slatedb_error
       (\<lambda>kv. Inr (case pb_decode P (snd kv) of Inr row \<Rightarrow> Some row | Inl _ \<Rightarrow> None)) db p
       (\<lambda>r. case r of Some row \<Rightarrow> es_row_id row > 0 | None \<Rightarrow> False)"

definition select_extension_rows ::
  "'db slatedb \<Rightarrow> ExtensionSchemaRow prost \<Rightarrow> u8 \<Rightarrow> string \<Rightarrow> 'db \<Rightarrow> CatalogError + ExtensionSchemaRow list" where
  "select_extension_rows S P extension_id table_name db =
     rbind (map_err KeyErr (prefix_extension_table extension_id table_name)) (\<lambda>p.
     rbind (extension_rows S P p db) (\<lambda>rows. Inr (map (the \<circ> snd) rows)))"

fun delete_all_keys :: "'db slatedb \<Rightarrow> bytes list \<Rightarrow> ('db, unit) cmd" where
  "delete_all_keys S [] = ret ()"
| "delete_all_keys S (k # ks) = bind (db_delete S k) (\<lambda>_. delete_all_keys S ks)"

definition delete_extension_rows ::
  "'db slatedb \<Rightarrow> ExtensionSchemaRow prost \<Rightarrow> u8 \<Rightarrow> string \<Rightarrow> ('db, u64) cmd" where
  "delete_extension_rows S P extension_id table_name =
     bind (lift (map_err KeyErr (prefix_extension_table extension_id table_name))) (\<lambda>p.
     bind (\<lambda>db. (extension_rows S P p db, db)) (\<lambda>rows.
     bind (delete_all_keys S (map fst rows)) (\<lambda>_.
       ret (of_nat (length rows)))))"

section \<open>Row ids\<close>

lemma marker_round_trip [simp]: "marker_next_id (next_id_prefix @ show_u64 n @ ''}'') = n"
  by (simp add: marker_next_id_def ends_with_def starts_with_def [of "rev _"] butlast_append parse_u64_show_u64)

lemma marker_fresh [simp]: "marker_next_id ''{}'' = 1"
  by (simp add: marker_next_id_def starts_with_def next_id_prefix_def)

text \<open>The next id of a table, and the invariant of its rows: every stored row has an id below it.\<close>

definition table_next_id :: "ExtensionSchemaRow prost \<Rightarrow> u8 \<Rightarrow> string \<Rightarrow> (bytes \<Rightarrow> bytes option) \<Rightarrow> u64" where
  "table_next_id P e t m = (case key_extension_schema e t 0 of Inl _ \<Rightarrow> 1 | Inr k \<Rightarrow> read_next_id P (m k))"

definition ids_below :: "ExtensionSchemaRow prost \<Rightarrow> u8 \<Rightarrow> string \<Rightarrow> (bytes \<Rightarrow> bytes option) \<Rightarrow> bool" where
  "ids_below P e t m \<longleftrightarrow> 0 < table_next_id P e t m \<and>
     (\<forall>i k. key_extension_schema e t i = Inr k \<longrightarrow> m k \<noteq> None \<longrightarrow> i < table_next_id P e t m)"

lemma extension_key_inject:
  "key_extension_schema e t i = Inr k \<Longrightarrow> key_extension_schema e t j = Inr k \<longleftrightarrow> i = j"
  by (auto simp: key_simps rbind_eq_Inr_iff)

lemma extension_key_total:
  "key_extension_schema e t i = Inr k \<Longrightarrow> \<exists>k'. key_extension_schema e t j = Inr k'"
  by (auto simp: key_simps rbind_eq_Inr_iff)

text \<open>The invariant holds for a table without rows, and the other operations keep it.\<close>

lemma ids_below_empty: "(\<And>i k. key_extension_schema e t i = Inr k \<Longrightarrow> m k = None) \<Longrightarrow> ids_below P e t m"
  by (auto simp: ids_below_def table_next_id_def read_next_id_def split: sum.splits)

lemma ids_below_iff:
  "key_extension_schema e t 0 = Inr mk \<Longrightarrow> ids_below P e t m \<longleftrightarrow> 0 < read_next_id P (m mk) \<and>
     (\<forall>i k. key_extension_schema e t i = Inr k \<longrightarrow> m k \<noteq> None \<longrightarrow> i < read_next_id P (m mk))"
  by (simp add: ids_below_def table_next_id_def)

lemma read_next_id_simps:
  "read_next_id P None = 1"
  "prost_ok P \<Longrightarrow> read_next_id P (Some (encode_to_vec P row)) = marker_next_id (es_data_json row)"
  by (simp_all add: read_next_id_def prost_ok_def)

lemma checked_succ: "checked_add i 1 = Some c \<Longrightarrow> c = i + 1 \<and> i < c" for i c :: u64
  using checked_add_Some_iff [of i 1 c] by (auto simp: checked_add_def word_less_nat_alt split: if_splits)

lemma create_extension_table_keeps:
  assumes "slatedb_ok S" and "prost_ok P" and "create_extension_table S P e t db = (Inr b, db')"
    and "ids_below P e t (sdb_view S db)"
  shows "ids_below P e t (sdb_view S db')"
proof -
  obtain mk d where mk: "key_extension_schema e t 0 = Inr mk" and g: "db_get S db mk = Inr d"
    using assms(3) by (auto simp: create_extension_table_def bind_Inr)
  have d: "sdb_view S db mk = d" using db_get_Inr [OF assms(1) g] by simp
  show ?thesis
  proof (cases d)
    case None
    then have "sdb_view S db' = (sdb_view S db)(mk \<mapsto> encode_to_vec P
        \<lparr>es_extension_id = ucast e, es_table_name = t, es_row_id = 0, es_data_json = ''{}''\<rparr>)"
      using assms(3) mk g by (auto simp: create_extension_table_def bind_Inr dest!: db_put_Inr [OF assms(1)])
    then show ?thesis
      using assms(2,4) d None extension_key_inject [OF mk]
      by (auto simp: ids_below_iff [OF mk] read_next_id_simps)
  next
    case (Some data)
    then have "db' = db" using assms(3) mk g by (auto simp: create_extension_table_def bind_Inr)
    then show ?thesis using assms(4) by simp
  qed
qed

text \<open>The two entries an insertion writes.\<close>

definition inserted ::
  "ExtensionSchemaRow prost \<Rightarrow> u8 \<Rightarrow> string \<Rightarrow> string \<Rightarrow> u64 \<Rightarrow> bytes \<Rightarrow> bytes \<Rightarrow> tx_op list" where
  "inserted P e t json i ck k =
     [TxPut k (encode_to_vec P \<lparr>es_extension_id = ucast e, es_table_name = t, es_row_id = i, es_data_json = json\<rparr>),
      TxPut ck (encode_to_vec P \<lparr>es_extension_id = ucast e, es_table_name = t, es_row_id = 0,
        es_data_json = next_id_prefix @ show_u64 (i + 1) @ ''}''\<rparr>)]"

lemma insert_body_Commit:
  assumes "slatedb_ok S" and "insert_extension_body S P e t json ck tr = (Inr (Commit i), tr')" and "tx_log tr = []"
  shows "\<exists>k. i = read_next_id P (sdb_view S (tx_snap tr) ck) \<and> i < i + 1 \<and> key_extension_schema e t i = Inr k \<and>
    tx_snap tr' = tx_snap tr \<and> tx_log tr' = TxGet ck # inserted P e t json i ck k"
proof -
  obtain d t1 where g: "tx_get S ck tr = (Inr d, t1)" using assms(2)
    by (auto simp: insert_extension_body_def bind_Inr)
  note g' = tx_get_Inr [OF assms(1) g]
  from g' assms(3) have d: "d = sdb_view S (tx_snap tr) ck" by simp
  show ?thesis
    using assms(2,3) g g' d
    by (auto simp: insert_extension_body_def bind_Inr Let_def inserted_def dest!: checked_succ)
qed

lemma inserted_keeps:
  assumes "prost_ok P" and ck: "key_extension_schema e t 0 = Inr ck" and "ids_below P e t m"
    and i: "i = read_next_id P (m ck)" "i < i + 1" and k: "key_extension_schema e t i = Inr k"
  shows "m k = None" and "k \<noteq> ck" and "ids_below P e t (apply_log (inserted P e t json i ck k) m)"
proof -
  have m: "0 < i" "\<And>j k. key_extension_schema e t j = Inr k \<Longrightarrow> m k \<noteq> None \<Longrightarrow> j < i"
    using assms(3) by (auto simp: ids_below_iff [OF ck] i(1) [symmetric])
  then show "m k = None" using k by fastforce
  show "k \<noteq> ck" using extension_key_inject [OF ck, of i] k m(1) by auto
  show "ids_below P e t (apply_log (inserted P e t json i ck k) m)"
    using m i(2) \<open>prost_ok P\<close> extension_key_inject [OF ck] extension_key_inject [OF k]
    by (auto simp: ids_below_iff [OF ck] inserted_def read_next_id_simps dest: order_less_trans)
qed


text \<open>\<open>create_extension_table\<close> is a read and a write without a transaction: when an insertion commits in
  between, its fresh marker sets the counter to 1 again and the next insertion overwrites the row.\<close>

lemma marker_reset_reuses_ids:
  assumes "prost_ok P" and "key_extension_schema e t 0 = Inr ck" and "key_extension_schema e t 1 = Inr k"
    and "m k \<noteq> None"
  shows "\<not> ids_below P e t (m(ck \<mapsto> encode_to_vec P
    \<lparr>es_extension_id = ucast e, es_table_name = t, es_row_id = 0, es_data_json = ''{}''\<rparr>))"
proof
  let ?m = "m(ck \<mapsto> encode_to_vec P
    \<lparr>es_extension_id = ucast e, es_table_name = t, es_row_id = 0, es_data_json = ''{}''\<rparr>)"
  assume "ids_below P e t ?m"
  then have "?m k \<noteq> None \<longrightarrow> (1 :: u64) < read_next_id P (?m ck)"
    using assms(3) unfolding ids_below_iff [OF assms(2)] by blast
  then show False using assms(1,4) by (auto simp: read_next_id_simps split: if_splits)
qed

end
