(* ===== verification/Streaming.thy ===== *)
theory Streaming
  imports Catalog_Store Catalog_Reader Rust_Str
begin

text \<open>
  \<open>crates/rocklake-catalog/src/streaming.rs\<close>: the streaming sink. A batch and the consumer offset are
  committed in one snapshot; the offset read before staging makes a resubmitted batch a no-op. The
  values of the records are JSON documents of a library, whose serialisation is the argument
  \<open>to_vec\<close>.
\<close>

section \<open>The sink\<close>

record 'v IngestRecord =
  ir_key :: string
  ir_value :: 'v

record IngestResult =
  ig_snapshot_id :: SnapshotId
  ig_records_committed :: nat
  ig_new_offset :: "string option"

record RockLakeSink =
  offset_key :: string

definition RockLakeSink_new :: "string \<Rightarrow> CatalogError + RockLakeSink" where
  "RockLakeSink_new key = rbind (validate_app_metadata_key key) (\<lambda>_. Inr \<lparr>offset_key = key\<rparr>)"

definition saturating_mul :: "u64 \<Rightarrow> u64 \<Rightarrow> u64" where
  "saturating_mul a b = (if unat a * unat b < 2 ^ 64 then a * b else u64_max)"

definition offset_base :: "string \<Rightarrow> nat \<Rightarrow> u64" where
  "offset_base next_offset n =
     saturating_mul (case parse_u64 next_offset of Some x \<Rightarrow> x | None \<Rightarrow> 0) (of_nat n)"

text \<open>The loop over the records; \<open>idx\<close> counts them.\<close>

fun stage_records ::
  "codecs \<Rightarrow> ('v \<Rightarrow> bytes) \<Rightarrow> u64 \<Rightarrow> u64 \<Rightarrow> u64 \<Rightarrow> u64 \<Rightarrow> 'v IngestRecord list \<Rightarrow> (CatalogWriter, unit) cmd" where
  "stage_records C to_vec table_id schema_version base idx [] = ret ()"
| "stage_records C to_vec table_id schema_version base idx (record # records) =
     bind (register_inlined_insert C table_id schema_version (base + idx) (to_vec (ir_value record))) (\<lambda>_.
       stage_records C to_vec table_id schema_version base (idx + 1) records)"

definition debug_opt :: "string option \<Rightarrow> string" where
  "debug_opt x = (case x of None \<Rightarrow> ''None'' | Some s \<Rightarrow> ''Some('' @ debug_str s @ '')'')"

definition commit_batch ::
  "'db slatedb \<Rightarrow> codecs \<Rightarrow> ('v \<Rightarrow> bytes) \<Rightarrow> string \<Rightarrow> ('db \<Rightarrow> 'db) \<Rightarrow> RockLakeSink \<Rightarrow> 'v IngestRecord list \<Rightarrow> u64
     \<Rightarrow> string option \<Rightarrow> string \<Rightarrow> string option \<Rightarrow> (CatalogStore \<times> 'db, IngestResult) cmd" where
  "commit_batch S C to_vec now env sink records table_id expected_current_offset next_offset author =
     (\<lambda>(store, db).
       case get_metadata S C db Global 0 (offset_key sink) of
         Inl e \<Rightarrow> (Inl e, (store, db))
       | Inr current \<Rightarrow>
           let current_val = map_option md_value current in
           if current_val = Some next_offset then
             (Inr \<lparr>ig_snapshot_id = rd_dl_snapshot_id (read_latest store), ig_records_committed = 0,
                   ig_new_offset = Some next_offset\<rparr>, (store, db))
           else if expected_current_offset \<noteq> None \<and> current_val \<noteq> expected_current_offset then
             (Inl (InvalidInput (''exactly-once fencing: expected offset '' @
                debug_str (the expected_current_offset) @ '', found '' @ debug_opt current_val)), (store, db))
           else
             (let writer = begin_write store;
                  base = offset_base next_offset (length records)
              in case bind (stage_records C to_vec table_id (CatalogWriter_schema_version writer) base 0 records)
                        (\<lambda>_. set_metadata C Global 0 (offset_key sink) next_offset) writer of
                   (Inl e, _) \<Rightarrow> (Inl e, (store, db))
                 | (Inr _, writer') \<Rightarrow>
                     (case create_snapshot S C now env author
                             (Some (''streaming ingest batch: '' @ show_nat (length records) @ '' records''))
                             (writer', db) of
                        (Inl e, (_, db')) \<Rightarrow> (Inl e, (store, db'))
                      | (Inr commit, (_, db')) \<Rightarrow>
                          (Inr \<lparr>ig_snapshot_id = cmr_snapshot_id commit,
                                ig_records_committed = length records,
                                ig_new_offset = Some next_offset\<rparr>,
                           (commit_writer commit store, db')))))"

section \<open>Exactly once\<close>

text \<open>The offset stored in a database content.\<close>

definition stored_offset :: "codecs \<Rightarrow> (bytes \<Rightarrow> bytes option) \<Rightarrow> string \<Rightarrow> string option" where
  "stored_offset C m key =
     Option.bind (m (key_metadata Global 0 key))
       (\<lambda>d. case decode_value (pb_MetadataRow C) d of Inr row \<Rightarrow> Some (md_value row) | Inl _ \<Rightarrow> None)"

lemma get_metadata_offset:
  assumes "slatedb_ok S" and "get_metadata S C db Global 0 key = Inr row"
  shows "stored_offset C (sdb_view S db) key = map_option md_value row"
proof -
  obtain d where g: "db_get S db (key_metadata Global 0 key) = Inr d"
    using assms(2) by (auto simp: get_metadata_def read_row_def rbind_eq_Inr_iff)
  have "sdb_view S db (key_metadata Global 0 key) = d" using db_get_Inr [OF assms(1) g] by simp
  then show ?thesis
    using assms(2) g by (cases d) (auto simp: get_metadata_def read_row_def rbind_eq_Inr_iff stored_offset_def)
qed

lemma get_metadata_available:
  assumes "slatedb_ok S" and "slatedb_available S" and "stored_offset C (sdb_view S db) key = Some x"
  shows "\<exists>row. get_metadata S C db Global 0 key = Inr (Some row) \<and> md_value row = x"
proof -
  obtain d where g: "sdb_get S db (key_metadata Global 0 key) = Inr d"
    using sdb_get_available [OF assms(2)] by blast
  then have "sdb_view S db (key_metadata Global 0 key) = d" using sdb_get_ok [OF assms(1)] by simp
  then show ?thesis
    using assms(3) g by (cases d) (auto simp: get_metadata_def read_row_def db_get_def stored_offset_def
        split: sum.splits)
qed

text \<open>What a batch stages: its rows, in order, and then the offset.\<close>

fun batch_rows ::
  "codecs \<Rightarrow> ('v \<Rightarrow> bytes) \<Rightarrow> u64 \<Rightarrow> u64 \<Rightarrow> u64 \<Rightarrow> u64 \<Rightarrow> u64 \<Rightarrow> 'v IngestRecord list \<Rightarrow> kv list" where
  "batch_rows C to_vec t ver snap base idx [] = []"
| "batch_rows C to_vec t ver snap base idx (record # records) =
     (key_inlined_insert t ver (base + idx), encode_value (pb_InlinedInsertRow C)
        \<lparr>ii_table_id = t, ii_schema_version = ver, ii_row_id = base + idx, ii_payload = to_vec (ir_value record),
         ii_begin_snapshot = snap, ii_end_snapshot = None\<rparr>) #
     batch_rows C to_vec t ver snap base (idx + 1) records"

definition offset_row :: "codecs \<Rightarrow> string \<Rightarrow> string \<Rightarrow> kv" where
  "offset_row C key next_offset =
     (key_metadata Global 0 key, encode_value (pb_MetadataRow C)
        \<lparr>md_key = key, md_value = next_offset, md_scope = Some ''global'', md_scope_id = Some 0\<rparr>)"

lemma stage_records_Inr:
  "stage_records C to_vec t ver base idx records w = (Inr u, w') \<Longrightarrow>
     w' = w\<lparr>w_staged := w_staged w @ batch_rows C to_vec t ver (w_snapshot w) base idx records\<rparr>"
proof (induction records arbitrary: idx w)
  case (Cons x records)
  obtain w1 where w1: "register_inlined_insert C t ver (base + idx) (to_vec (ir_value x)) w = (Inr (), w1)"
    and r: "stage_records C to_vec t ver base (idx + 1) records w1 = (Inr u, w')"
    using Cons.prems by (auto simp: bind_Inr)
  from w1 show ?case
    unfolding Cons.IH [OF r]
    by (auto simp: register_inlined_insert_def Let_def stage_def w_snapshot_def split: if_splits)
qed simp

lemma stage_batch_Inr:
  assumes "bind (stage_records C to_vec t ver base 0 records) (\<lambda>_. set_metadata C Global 0 key next_offset) w = (Inr u, w')"
  shows "w_staged w' = w_staged w @ batch_rows C to_vec t ver (w_snapshot w) base 0 records @ [offset_row C key next_offset]"
  using assms by (cases "validate_app_metadata_key key")
    (auto simp: bind_Inr set_metadata_def stage_def offset_row_def dest!: stage_records_Inr)

lemma snapshot_writes_no_metadata:
  "key_metadata scope i key \<notin> fst ` set (snapshot_writes C now author message w)"
  by (auto simp: snapshot_writes_def Let_def key_simps tag_defs split: option.splits)

lemma offset_after_batch:
  assumes "codecs_ok C" and "w_staged w = xs @ [offset_row C key next_offset]"
  shows "stored_offset C (put_all (w_staged w @ snapshot_writes C now author message w) m) key = Some next_offset"
  using assms put_all_other [OF snapshot_writes_no_metadata [of Global 0 key]]
  by (simp add: stored_offset_def offset_row_def)

lemma resubmission_is_noop:
  assumes "slatedb_ok S" and "slatedb_available S"
    and "stored_offset C (sdb_view S db) (offset_key sink) = Some next_offset"
  shows "\<exists>r. commit_batch S C to_vec now env sink records t expected next_offset author (store, db) =
    (Inr r, (store, db)) \<and> ig_records_committed r = 0"
  using get_metadata_available [OF assms] by (auto simp: commit_batch_def Let_def)

lemma commit_batch_cases:
  assumes "slatedb_ok S"
    and run: "commit_batch S C to_vec now env sink records t expected next_offset author (store, db) = (r, (store', db'))"
  obtains (failed) e where "r = Inl e" and "db' = db"
  | (known) "stored_offset C (sdb_view S db') (offset_key sink) = Some next_offset" and "db' = db"
  | (commit) w message c w' where "w_staged w = batch_rows C to_vec t (cs_schema_version store)
        (peek_snapshot_id (cs_counters store)) (offset_base next_offset (length records)) 0 records @
        [offset_row C (offset_key sink) next_offset]"
      and "create_snapshot S C now env author message (w, db) = (c, (w', db'))" and "\<And>e. c = Inl e \<Longrightarrow> r = Inl e"
proof (cases "get_metadata S C db Global 0 (offset_key sink)")
  case (Inl e)
  then show thesis using run failed [of e] by (simp add: commit_batch_def)
next
  case (Inr cur)
  have o: "stored_offset C (sdb_view S db) (offset_key sink) = map_option md_value cur"
    by (rule get_metadata_offset [OF assms(1) Inr])
  let ?w = "begin_write store" and ?base = "offset_base next_offset (length records)"
  let ?stage = "bind (stage_records C to_vec t (CatalogWriter_schema_version ?w) ?base 0 records)
      (\<lambda>_. set_metadata C Global 0 (offset_key sink) next_offset) ?w"
  consider "map_option md_value cur = Some next_offset"
    | "map_option md_value cur \<noteq> Some next_offset" "expected \<noteq> None \<and> map_option md_value cur \<noteq> expected"
    | "map_option md_value cur \<noteq> Some next_offset" "\<not> (expected \<noteq> None \<and> map_option md_value cur \<noteq> expected)"
    by blast
  then show thesis
  proof cases
    case 1
    then have "commit_batch S C to_vec now env sink records t expected next_offset author (store, db) =
        (Inr \<lparr>ig_snapshot_id = rd_dl_snapshot_id (read_latest store), ig_records_committed = 0,
           ig_new_offset = Some next_offset\<rparr>, (store, db))"
      unfolding commit_batch_def prod.case Inr sum.case Let_def by (simp only: if_True simp_thms)
    then have "db' = db" using run by simp
    then show thesis using known o 1 by metis
  next
    case 2
    then have "\<exists>e. commit_batch S C to_vec now env sink records t expected next_offset author (store, db) = (Inl e, (store, db))"
      unfolding commit_batch_def prod.case Inr sum.case Let_def by (simp only: if_True if_False simp_thms) blast
    then show thesis using run failed by fastforce
  next
    case 3
    note run3 = run [unfolded commit_batch_def prod.case Inr sum.case Let_def if_not_P [OF 3(1)] if_not_P [OF 3(2)]]
    obtain sr w where st: "?stage = (sr, w)" by (cases ?stage)
    show thesis
    proof (cases sr)
      case (Inl e)
      then show thesis using run3 failed [of e] unfolding st by simp
    next
      case sr: (Inr u)
      let ?msg = "Some (''streaming ingest batch: '' @ show_nat (length records) @ '' records'')"
      obtain c w' db1 where cs: "create_snapshot S C now env author ?msg (w, db) = (c, (w', db1))"
        by (metis prod.exhaust)
      have staged: "w_staged w = batch_rows C to_vec t (cs_schema_version store)
          (peek_snapshot_id (cs_counters store)) ?base 0 records @ [offset_row C (offset_key sink) next_offset]"
        using stage_batch_Inr [OF st [unfolded sr]]
        by (simp add: begin_write_def CatalogWriter_new_def CatalogWriter_schema_version_def w_snapshot_def counter_defs)
      have d: "db1 = db'" and i: "\<And>e. c = Inl e \<Longrightarrow> r = Inl e"
        using run3 unfolding st sr prod.case sum.case cs by (cases c; simp)+
      show thesis using commit [OF staged cs [unfolded d]] i by blast
    qed
  qed
qed

text \<open>C33. The sink delivers exactly once. Whatever a call of \<open>commit_batch\<close> reports, one of two things holds
  afterwards: the offset of the batch is stored, and then it is there because it was before or because all
  rows of the batch and the offset took effect together, and every resubmission changes nothing and
  commits no record; or the call failed and wrote nothing.\<close>

theorem streaming_exactly_once:
  assumes "slatedb_ok S" and "slatedb_available S" and "codecs_ok C"
    and "commit_batch S C to_vec now env sink records t expected next_offset author (store, db) = (r, (store', db'))"
  shows "(stored_offset C (sdb_view S db') (offset_key sink) = Some next_offset \<and>
      (db' = db \<or> (\<exists>message w. sdb_view S db' = put_all (batch_rows C to_vec t (cs_schema_version store)
           (peek_snapshot_id (cs_counters store)) (offset_base next_offset (length records)) 0 records @
         [offset_row C (offset_key sink) next_offset] @ snapshot_writes C now author message w) (sdb_view S (env db)))) \<and>
      (\<forall>now2 env2 records2 t2 expected2 author2. \<exists>r2.
         commit_batch S C to_vec now2 env2 sink records2 t2 expected2 next_offset author2 (store', db') =
           (Inr r2, (store', db')) \<and> ig_records_committed r2 = 0)) \<or>
    (\<exists>e. r = Inl e) \<and> (sdb_view S db' = sdb_view S db \<or> sdb_view S db' = sdb_view S (env db))"
proof -
  let ?rows = "batch_rows C to_vec t (cs_schema_version store) (peek_snapshot_id (cs_counters store))
      (offset_base next_offset (length records)) 0 records"
  let ?off = "offset_row C (offset_key sink) next_offset"
  have applied: ?thesis
    if w: "w_staged w = ?rows @ [?off]" and v: "sdb_view S db' = put_all (w_staged w @
      snapshot_writes C now author message w) (sdb_view S (env db))" for message w
  proof -
    have "stored_offset C (sdb_view S db') (offset_key sink) = Some next_offset"
      unfolding v by (rule offset_after_batch [OF assms(3) w])
    moreover have "\<exists>message w. sdb_view S db' =
        put_all (?rows @ [?off] @ snapshot_writes C now author message w) (sdb_view S (env db))"
      using v unfolding w append_assoc by blast
    ultimately show ?thesis using resubmission_is_noop [OF assms(1,2)] by blast
  qed
  from assms(1,4) show ?thesis
  proof (cases rule: commit_batch_cases)
    case (failed e)
    then show ?thesis by simp
  next
    case known
    then show ?thesis using resubmission_is_noop [OF assms(1,2)] by blast
  next
    case (commit w message c w')
    show ?thesis
    proof (cases c)
      case (Inl e)
      from create_snapshot_Inl [OF assms(1) commit(2) [unfolded Inl]] show ?thesis
        using commit(3) [OF Inl] applied [OF commit(1)] by blast
    next
      case (Inr x)
      from create_snapshot_Inr [OF assms(1) commit(2) [unfolded Inr]] show ?thesis
        using applied [OF commit(1)] by blast
    qed
  qed
qed

text \<open>Row ids are computed from the offset and the size of the batch: batches of different sizes can get the
  same ids, and with offsets that are not numbers all batches do, so a later batch overwrites rows of an
  earlier one under the same key.\<close>

lemma batch_row_ids_collide:
  "offset_base ''2'' 3 = offset_base ''3'' 2" "offset_base ''abc'' n = 0"
proof -
  have "parse_u64 ''2'' = Some 2" "parse_u64 ''3'' = Some 3"
  proof -
    have "(char_of (50 :: nat)) = CHR ''2''" "(char_of (51 :: nat)) = CHR ''3''" by code_simp+
    then show "parse_u64 ''2'' = Some 2" "parse_u64 ''3'' = Some 3"
      using parse_u64_show_u64 [of 2] parse_u64_show_u64 [of 3] by (simp_all add: show_u64_def show_nat.simps)
  qed
  then show "offset_base ''2'' 3 = offset_base ''3'' 2"
    by (simp add: offset_base_def saturating_mul_def)
  have "parse_u64 ''abc'' = None" by code_simp
  then show "offset_base ''abc'' n = 0" by (simp add: offset_base_def saturating_mul_def)
qed

end
