(* ===== verification/Cleanup.thy ===== *)
theory Cleanup
  imports Catalog_Reader Rust_Str
begin

text \<open>
  \<open>crates/rocklake-catalog/src/cleanup.rs\<close> and \<open>sweep.rs\<close>: deletion of data files that the catalog no
  longer refers to. The object store is a parameter: a record of its operations, with the laws the
  theorem uses. \<open>ObjectPath::from\<close>, which normalises a path, is part of it. A \<open>HashSet\<close> of paths is
  modelled by the list of its elements in scan order; the order in which it is iterated is not
  specified.
\<close>

section \<open>Object stores\<close>

datatype ObjectError = ObjNotFound | ObjFailed string

record ObjectMeta =
  om_location :: string
  om_last_modified :: i64

record 'os object_store =
  os_path_from :: "string \<Rightarrow> string"
  os_list :: "'os \<Rightarrow> string \<Rightarrow> string + ObjectMeta list"
  os_head :: "'os \<Rightarrow> string \<Rightarrow> ObjectError + unit"
  os_delete :: "'os \<Rightarrow> string \<Rightarrow> (ObjectError + unit) \<times> 'os"
  os_objects :: "'os \<Rightarrow> string set"

text \<open>The laws: a deletion that succeeds removes the object, and a deletion changes no other object.\<close>

definition object_store_ok :: "'os object_store \<Rightarrow> bool" where
  "object_store_ok X \<longleftrightarrow>
     (\<forall>os p r os'. os_delete X os p = (r, os') \<longrightarrow>
        (r = Inr () \<longrightarrow> p \<notin> os_objects X os') \<and>
        (\<forall>q. q \<noteq> p \<longrightarrow> (q \<in> os_objects X os' \<longleftrightarrow> q \<in> os_objects X os)))"

section \<open>Sweeping orphans\<close>

record OrphanedFileSweepResult =
  ofs_orphaned_files :: "string list"
  ofs_deleted_files :: "string list"
  ofs_total_files_scanned :: u64

record VerifyDataFilesResult =
  vdf_files_ok :: u64
  vdf_files_missing :: "string list"
  vdf_files_error :: "(string \<times> string) list"
  vdf_total_checked :: u64

definition collect_referenced_paths :: "'db slatedb \<Rightarrow> codecs \<Rightarrow> 'db \<Rightarrow> CatalogError + string list" where
  "collect_referenced_paths S C db =
     rbind (read_rows S (pb_DataFileRow C) db (prefix_for_tag TAG_DATA_FILE) (\<lambda>_. True)) (\<lambda>files.
     rbind (read_rows S (pb_DeleteFileRow C) db (prefix_for_tag TAG_DELETE_FILE) (\<lambda>_. True)) (\<lambda>deletes.
       Inr (remdups (map df_path files @ map del_path deletes))))"

definition is_data_file :: "string \<Rightarrow> bool" where
  "is_data_file path \<longleftrightarrow> ends_with path ''.parquet'' \<or> ends_with path ''.arrow'' \<or> ends_with path ''.avro''"

definition file_age_secs :: "u64 \<Rightarrow> ObjectMeta \<Rightarrow> u64" where
  "file_age_secs now obj = saturating_sub now (om_last_modified obj)"

text \<open>The loop over the listed objects.\<close>

fun sweep_objects ::
  "'os object_store \<Rightarrow> string list \<Rightarrow> u64 \<Rightarrow> u64 \<Rightarrow> bool \<Rightarrow> ObjectMeta list \<Rightarrow> OrphanedFileSweepResult \<Rightarrow> 'os
     \<Rightarrow> OrphanedFileSweepResult \<times> 'os" where
  "sweep_objects X referenced now grace_period_secs apply [] result os = (result, os)"
| "sweep_objects X referenced now grace_period_secs apply (obj # objects) result os =
     (let path_str = om_location obj in
      if \<not> is_data_file path_str
      then sweep_objects X referenced now grace_period_secs apply objects result os
      else
        (let result = result\<lparr>ofs_total_files_scanned := ofs_total_files_scanned result + 1\<rparr> in
         if path_str \<in> set referenced \<or> file_age_secs now obj < grace_period_secs
         then sweep_objects X referenced now grace_period_secs apply objects result os
         else
           (let result = result\<lparr>ofs_orphaned_files := ofs_orphaned_files result @ [path_str]\<rparr> in
            if apply
            then (case os_delete X os path_str of
                    (Inr _, os') \<Rightarrow> sweep_objects X referenced now grace_period_secs apply objects
                       (result\<lparr>ofs_deleted_files := ofs_deleted_files result @ [path_str]\<rparr>) os'
                  | (Inl _, os') \<Rightarrow> sweep_objects X referenced now grace_period_secs apply objects result os')
            else sweep_objects X referenced now grace_period_secs apply objects result os)))"

definition empty_sweep :: OrphanedFileSweepResult where
  "empty_sweep = \<lparr>ofs_orphaned_files = [], ofs_deleted_files = [], ofs_total_files_scanned = 0\<rparr>"

text \<open>A failed listing is logged and gives an empty result.\<close>

definition orphaned_file_sweep ::
  "'db slatedb \<Rightarrow> codecs \<Rightarrow> 'os object_store \<Rightarrow> 'db \<Rightarrow> string \<Rightarrow> u64 \<Rightarrow> bool \<Rightarrow> u64 \<Rightarrow> ('os, OrphanedFileSweepResult) cmd" where
  "orphaned_file_sweep S C X db data_prefix grace_period_secs apply now os =
     (case collect_referenced_paths S C db of
        Inl e \<Rightarrow> (Inl e, os)
      | Inr referenced \<Rightarrow>
          (case os_list X os data_prefix of
             Inl _ \<Rightarrow> (Inr empty_sweep, os)
           | Inr objects \<Rightarrow>
               (case sweep_objects X referenced now grace_period_secs apply objects empty_sweep os of
                  (result, os') \<Rightarrow> (Inr result, os'))))"

section \<open>Verification of data files\<close>

fun verify_paths :: "'os object_store \<Rightarrow> 'os \<Rightarrow> string list \<Rightarrow> VerifyDataFilesResult \<Rightarrow> VerifyDataFilesResult" where
  "verify_paths X os [] result = result"
| "verify_paths X os (path_str # paths) result =
     verify_paths X os paths
       (case os_head X os (os_path_from X path_str) of
          Inr _ \<Rightarrow> result\<lparr>vdf_files_ok := vdf_files_ok result + 1\<rparr>
        | Inl ObjNotFound \<Rightarrow> result\<lparr>vdf_files_missing := vdf_files_missing result @ [path_str]\<rparr>
        | Inl (ObjFailed e) \<Rightarrow> result\<lparr>vdf_files_error := vdf_files_error result @ [(path_str, e)]\<rparr>)"

definition verify_data_files ::
  "'db slatedb \<Rightarrow> codecs \<Rightarrow> 'os object_store \<Rightarrow> 'db \<Rightarrow> 'os \<Rightarrow> CatalogError + VerifyDataFilesResult" where
  "verify_data_files S C X db os =
     rbind (collect_referenced_paths S C db) (\<lambda>referenced.
       Inr (verify_paths X os referenced
         \<lparr>vdf_files_ok = 0, vdf_files_missing = [], vdf_files_error = [],
          vdf_total_checked = of_nat (length referenced)\<rparr>))"

section \<open>Scheduled deletions\<close>

text \<open>The loop over the schedule: the deleted objects are counted, and the entries of objects that are
  gone are collected. An error of the scan ends the operation; the objects deleted before stay
  deleted.\<close>

fun delete_scheduled ::
  "'os object_store \<Rightarrow> codecs \<Rightarrow> u64 \<Rightarrow> kv list \<Rightarrow> string option \<Rightarrow> ('os, u64 \<times> bytes list) cmd" where
  "delete_scheduled X C retain_from [] err =
     (case err of None \<Rightarrow> ret (0, []) | Some e \<Rightarrow> fail (SlateDb e))"
| "delete_scheduled X C retain_from (kv # kvs) err =
     bind (lift (row_decoder (pb_FilesScheduledForDeletionRow C) kv)) (\<lambda>row.
     if retain_from > 0 \<and> fsd_schedule_start row < retain_from then
       (\<lambda>os. case os_delete X os (os_path_from X (fsd_path row)) of
          (r, os') \<Rightarrow>
            bind (delete_scheduled X C retain_from kvs err) (\<lambda>(count, gone).
              ret (case r of
                     Inr _ \<Rightarrow> (count + 1, fst kv # gone)
                   | Inl ObjNotFound \<Rightarrow> (count, fst kv # gone)
                   | Inl (ObjFailed _) \<Rightarrow> (count, gone))) os')
     else delete_scheduled X C retain_from kvs err)"

text \<open>\<open>let _ = db.delete(&key).await\<close>: errors are ignored.\<close>

fun delete_ignoring :: "'db slatedb \<Rightarrow> bytes list \<Rightarrow> 'db \<Rightarrow> 'db" where
  "delete_ignoring S [] db = db"
| "delete_ignoring S (k # ks) db = delete_ignoring S ks (snd (sdb_delete S db k))"

definition process_scheduled_deletions ::
  "'db slatedb \<Rightarrow> codecs \<Rightarrow> 'os object_store \<Rightarrow> u64 \<Rightarrow> ('db \<times> 'os, u64) cmd" where
  "process_scheduled_deletions S C X retain_from = (\<lambda>(db, os).
     case map_err classify_slatedb_error
            (sdb_scan_prefix S db (prefix_for_tag TAG_FILES_SCHEDULED_FOR_DELETION)) of
       Inl e \<Rightarrow> (Inl e, (db, os))
     | Inr (kvs, err) \<Rightarrow>
         (case delete_scheduled X C retain_from kvs err os of
            (Inl e, os') \<Rightarrow> (Inl e, (db, os'))
          | (Inr (deleted_count, gone), os') \<Rightarrow> (Inr deleted_count, (delete_ignoring S gone db, os'))))"

section \<open>The command\<close>

record SweepOrphansConfig =
  so_grace_period_hours :: u64
  so_apply :: bool
  so_data_root :: string

definition SweepOrphansConfig_default :: SweepOrphansConfig where
  "SweepOrphansConfig_default = \<lparr>so_grace_period_hours = 24, so_apply = False, so_data_root = []\<rparr>"

record SweepResult =
  sw_orphan_files :: "string list"
  sw_deleted :: nat
  sw_total_scanned :: u64

definition SweepResult_summary :: "SweepResult \<Rightarrow> string" where
  "SweepResult_summary r =
     ''scanned='' @ show_u64 (sw_total_scanned r) @ '' orphans='' @ show_nat (length (sw_orphan_files r)) @
     '' deleted='' @ show_nat (sw_deleted r)"

definition sweep_orphans ::
  "'db slatedb \<Rightarrow> codecs \<Rightarrow> 'os object_store \<Rightarrow> SweepOrphansConfig \<Rightarrow> u64 \<Rightarrow> 'db \<Rightarrow> ('os, SweepResult) cmd" where
  "sweep_orphans S C X config now db =
     bind (orphaned_file_sweep S C X db (os_path_from X (so_data_root config))
             (so_grace_period_hours config * 3600) (so_apply config) now) (\<lambda>inner.
       ret \<lparr>sw_orphan_files = ofs_orphaned_files inner, sw_deleted = length (ofs_deleted_files inner),
            sw_total_scanned = ofs_total_files_scanned inner\<rparr>)"

section \<open>What a sweep removes\<close>

definition sweepable :: "string list \<Rightarrow> u64 \<Rightarrow> u64 \<Rightarrow> ObjectMeta \<Rightarrow> bool" where
  "sweepable referenced now grace obj \<longleftrightarrow>
     is_data_file (om_location obj) \<and> om_location obj \<notin> set referenced \<and> grace \<le> file_age_secs now obj"

definition sweep_effect ::
  "'os object_store \<Rightarrow> bool \<Rightarrow> string list \<Rightarrow> OrphanedFileSweepResult \<Rightarrow> 'os \<Rightarrow> OrphanedFileSweepResult \<Rightarrow> 'os \<Rightarrow> bool" where
  "sweep_effect X apply paths result os result' os' \<longleftrightarrow>
     ofs_orphaned_files result' = ofs_orphaned_files result @ paths \<and>
     set (ofs_deleted_files result') \<subseteq> set (ofs_deleted_files result) \<union> set paths \<and>
     (\<forall>q. q \<notin> set paths \<longrightarrow> (q \<in> os_objects X os' \<longleftrightarrow> q \<in> os_objects X os)) \<and>
     (\<not> apply \<longrightarrow> os' = os \<and> ofs_deleted_files result' = ofs_deleted_files result)"

lemma sweep_effect_trans:
  "sweep_effect X apply ps r os r1 os1 \<Longrightarrow> sweep_effect X apply qs r1 os1 r2 os2 \<Longrightarrow>
     sweep_effect X apply (ps @ qs) r os r2 os2"
  by (auto simp: sweep_effect_def)

lemma sweep_step:
  assumes "object_store_ok X"
  shows "\<exists>r1 os1. sweep_objects X referenced now grace apply (obj # objects) r os =
      sweep_objects X referenced now grace apply objects r1 os1 \<and>
    sweep_effect X apply (if sweepable referenced now grace obj then [om_location obj] else []) r os r1 os1"
proof (cases "sweepable referenced now grace obj")
  case False
  have "sweep_effect X apply [] r os (r\<lparr>ofs_total_files_scanned := ofs_total_files_scanned r + 1\<rparr>) os"
    "sweep_effect X apply [] r os r os"
    by (simp_all add: sweep_effect_def)
  then show ?thesis
    using False by (cases "is_data_file (om_location obj)") (auto simp: sweepable_def Let_def not_le simp del: ex_simps)
next
  case True
  then have f: "is_data_file (om_location obj)" "\<not> (om_location obj \<in> set referenced \<or> file_age_secs now obj < grace)"
    by (auto simp: sweepable_def)
  let ?r = "r\<lparr>ofs_total_files_scanned := ofs_total_files_scanned r + 1,
      ofs_orphaned_files := ofs_orphaned_files r @ [om_location obj]\<rparr>"
  obtain dr os1 where d: "os_delete X os (om_location obj) = (dr, os1)" by (cases "os_delete X os (om_location obj)")
  then have o: "\<forall>q. q \<noteq> om_location obj \<longrightarrow> (q \<in> os_objects X os1) = (q \<in> os_objects X os)"
    using assms by (auto simp: object_store_ok_def)
  have "sweep_effect X False [om_location obj] r os ?r os"
    "sweep_effect X True [om_location obj] r os ?r os1"
    "sweep_effect X True [om_location obj] r os (?r\<lparr>ofs_deleted_files := ofs_deleted_files r @ [om_location obj]\<rparr>) os1"
    using o by (auto simp: sweep_effect_def)
  then show ?thesis
    using f d True by (cases "apply"; cases dr) (auto simp: Let_def)
qed

lemma sweep_objects_effect:
  assumes "object_store_ok X" and "sweep_objects X referenced now grace apply objects r os = (r', os')"
  shows "sweep_effect X apply (map om_location (filter (sweepable referenced now grace) objects)) r os r' os'"
  using assms(2)
proof (induction objects arbitrary: r os)
  case Nil
  then show ?case by (simp add: sweep_effect_def)
next
  case (Cons obj objects)
  obtain r1 os1 where "sweep_objects X referenced now grace apply objects r1 os1 = (r', os')"
    and e: "sweep_effect X apply (if sweepable referenced now grace obj then [om_location obj] else []) r os r1 os1"
    using sweep_step [OF assms(1), of referenced now grace "apply" obj objects r os] Cons.prems by auto
  from sweep_effect_trans [OF e Cons.IH [OF this(1)]] show ?case by (simp split: if_splits)
qed

text \<open>C36. The orphan sweep is safe: a file it lists is a data file older than the grace period whose path no
  data file row and no delete file row of the catalog has, it deletes listed files only, every other object
  of the store stays, and without the apply flag nothing is deleted at all.\<close>

theorem orphan_sweep_safe:
  assumes "object_store_ok X" and "slatedb_ok S"
    and "orphaned_file_sweep S C X db data_prefix grace apply now os = (Inr result, os')"
  shows "(\<forall>p\<in>set (ofs_orphaned_files result). is_data_file p \<and>
      (\<forall>k v row. prefix (prefix_for_tag TAG_DATA_FILE) k \<longrightarrow> sdb_view S db k = Some v \<longrightarrow>
         decode_value (pb_DataFileRow C) v = Inr row \<longrightarrow> df_path row \<noteq> p) \<and>
      (\<forall>k v row. prefix (prefix_for_tag TAG_DELETE_FILE) k \<longrightarrow> sdb_view S db k = Some v \<longrightarrow>
         decode_value (pb_DeleteFileRow C) v = Inr row \<longrightarrow> del_path row \<noteq> p) \<and>
      (\<exists>objects obj. os_list X os data_prefix = Inr objects \<and> obj \<in> set objects \<and> om_location obj = p \<and>
         grace \<le> file_age_secs now obj)) \<and>
    set (ofs_deleted_files result) \<subseteq> set (ofs_orphaned_files result) \<and>
    (\<forall>q. q \<notin> set (ofs_orphaned_files result) \<longrightarrow> (q \<in> os_objects X os' \<longleftrightarrow> q \<in> os_objects X os)) \<and>
    (\<not> apply \<longrightarrow> os' = os)"
proof -
  obtain refs where c: "collect_referenced_paths S C db = Inr refs"
    using assms(3) by (auto simp: orphaned_file_sweep_def split: sum.splits)
  obtain fs ds where fs: "read_rows S (pb_DataFileRow C) db (prefix_for_tag TAG_DATA_FILE) (\<lambda>_. True) = Inr fs"
    and ds: "read_rows S (pb_DeleteFileRow C) db (prefix_for_tag TAG_DELETE_FILE) (\<lambda>_. True) = Inr ds"
    and refs: "set refs = df_path ` set fs \<union> del_path ` set ds"
    using c by (auto simp: collect_referenced_paths_def rbind_eq_Inr_iff)
  show ?thesis
  proof (cases "os_list X os data_prefix")
    case (Inl e)
    then show ?thesis using assms(3) c by (auto simp: orphaned_file_sweep_def empty_sweep_def)
  next
    case (Inr objects)
    then have "sweep_objects X refs now grace apply objects empty_sweep os = (result, os')"
      using assms(3) c by (auto simp: orphaned_file_sweep_def split: prod.splits)
    note e = sweep_objects_effect [OF assms(1) this]
    have data: "df_path row \<in> set refs" if "prefix (prefix_for_tag TAG_DATA_FILE) k" "sdb_view S db k = Some v"
        "decode_value (pb_DataFileRow C) v = Inr row" for k v row
      using that read_rows_set [OF assms(2) fs, of row] refs by blast
    have dels: "del_path row \<in> set refs" if "prefix (prefix_for_tag TAG_DELETE_FILE) k" "sdb_view S db k = Some v"
        "decode_value (pb_DeleteFileRow C) v = Inr row" for k v row
      using that read_rows_set [OF assms(2) ds, of row] refs by blast
    have orphan: "\<exists>obj\<in>set objects. om_location obj = p \<and> sweepable refs now grace obj"
      if "p \<in> set (ofs_orphaned_files result)" for p
      using that e by (auto simp: sweep_effect_def empty_sweep_def)
    show ?thesis
    proof (intro conjI ballI)
      fix p
      assume "p \<in> set (ofs_orphaned_files result)"
      then obtain obj where obj: "obj \<in> set objects" "om_location obj = p" "sweepable refs now grace obj"
        using orphan by blast
      then have p: "is_data_file p" "p \<notin> set refs" "grace \<le> file_age_secs now obj" by (auto simp: sweepable_def)
      show "is_data_file p" by (fact p(1))
      show "\<forall>k v row. prefix (prefix_for_tag TAG_DATA_FILE) k \<longrightarrow> sdb_view S db k = Some v \<longrightarrow>
         decode_value (pb_DataFileRow C) v = Inr row \<longrightarrow> df_path row \<noteq> p" using data p(2) by blast
      show "\<forall>k v row. prefix (prefix_for_tag TAG_DELETE_FILE) k \<longrightarrow> sdb_view S db k = Some v \<longrightarrow>
         decode_value (pb_DeleteFileRow C) v = Inr row \<longrightarrow> del_path row \<noteq> p" using dels p(2) by blast
      show "\<exists>objects obj. os_list X os data_prefix = Inr objects \<and> obj \<in> set objects \<and> om_location obj = p \<and>
         grace \<le> file_age_secs now obj" using Inr obj p(3) by blast
    qed (use e in \<open>auto simp: sweep_effect_def empty_sweep_def\<close>)
  qed
qed

end
