(* ===== verification/Json_Values.thy ===== *)
theory Json_Values
  imports Rust_Float
begin

text \<open>
  JSON documents, \<open>serde_json::Value\<close>: an integer is kept as an unsigned number when it is not
  negative, and inserting into an object replaces the member of that name. Printing and parsing a
  text is left to the library: the definitions that do so take it as an argument.
\<close>

datatype Json = JNull | JBool bool | JU64 u64 | JI64 i64 | JF64 f64 | JStr string | JArr "Json list"
  | JObj "(string \<times> Json) list"

definition json_opt_u64 :: "u64 option \<Rightarrow> Json" where
  "json_opt_u64 x = (case x of None \<Rightarrow> JNull | Some n \<Rightarrow> JU64 n)"

definition json_i64 :: "i64 \<Rightarrow> Json" where
  "json_i64 n = (if 0 \<le> sint n then JU64 n else JI64 n)"

definition json_f64 :: "f64 \<Rightarrow> Json" where
  "json_f64 x = (case x of F64_Finite _ \<Rightarrow> JF64 x | _ \<Rightarrow> JNull)"

fun json_insert :: "string \<Rightarrow> Json \<Rightarrow> (string \<times> Json) list \<Rightarrow> (string \<times> Json) list" where
  "json_insert k v [] = [(k, v)]"
| "json_insert k v ((k', v') # members) = (if k = k' then (k, v) # members else (k', v') # json_insert k v members)"

lemma json_insert_map_of [simp]: "map_of (json_insert k v members) = (map_of members)(k \<mapsto> v)"
  by (induction members) auto

lemma json_insert_keys: "fst ` set (json_insert k v members) = insert k (fst ` set members)"
proof -
  have "dom (map_of (json_insert k v members)) = insert k (dom (map_of members))" by simp
  then show ?thesis by (simp add: dom_map_of_conv_image_fst del: json_insert_map_of)
qed

lemma json_insert_distinct: "distinct (map fst members) \<Longrightarrow> distinct (map fst (json_insert k v members))"
  using json_insert_keys [of k v] by (induction members) auto

end
