(* ===== verification/Cdc.thy ===== *)
theory Cdc
  imports Catalog_Store Catalog_Reader Rust_Str Json_Values
begin

text \<open>
  \<open>crates/rocklake-catalog/src/cdc.rs\<close>: change events made from snapshot diffs, and the tailer that
  exports each new diff. JSON documents are a datatype; printing one is a call of a library and an
  argument here. The theorem is exactly-once delivery over any sequence of polls.
\<close>

section \<open>Events\<close>

datatype CdcChangeKind = Add | Retire

record CdcEvent =
  ce_snapshot_id :: u64
  ce_table :: string
  ce_kind :: CdcChangeKind
  ce_row :: Json

record CdcSnapshot =
  cs_from_snapshot :: u64
  cs_to_snapshot :: u64
  cs_events :: "CdcEvent list"

definition added_schema_event :: "u64 \<Rightarrow> SchemaRow \<Rightarrow> CdcEvent" where
  "added_schema_event to row = \<lparr>ce_snapshot_id = to, ce_table = ''ducklake_schema'', ce_kind = Add,
     ce_row = JObj [(''schema_id'', JU64 (sr_schema_id row)), (''schema_name'', JStr (sr_schema_name row)),
       (''begin_snapshot'', JU64 (sr_begin_snapshot row))]\<rparr>"

definition retired_schema_event :: "u64 \<Rightarrow> SchemaRow \<Rightarrow> CdcEvent" where
  "retired_schema_event to row = \<lparr>ce_snapshot_id = to, ce_table = ''ducklake_schema'', ce_kind = Retire,
     ce_row = JObj [(''schema_id'', JU64 (sr_schema_id row)), (''schema_name'', JStr (sr_schema_name row)),
       (''end_snapshot'', json_opt_u64 (sr_end_snapshot row))]\<rparr>"

definition added_table_event :: "u64 \<Rightarrow> TableRow \<Rightarrow> CdcEvent" where
  "added_table_event to row = \<lparr>ce_snapshot_id = to, ce_table = ''ducklake_table'', ce_kind = Add,
     ce_row = JObj [(''table_id'', JU64 (tr_table_id row)), (''schema_id'', JU64 (tr_schema_id row)),
       (''table_name'', JStr (tr_table_name row)), (''begin_snapshot'', JU64 (tr_begin_snapshot row))]\<rparr>"

definition retired_table_event :: "u64 \<Rightarrow> TableRow \<Rightarrow> CdcEvent" where
  "retired_table_event to row = \<lparr>ce_snapshot_id = to, ce_table = ''ducklake_table'', ce_kind = Retire,
     ce_row = JObj [(''table_id'', JU64 (tr_table_id row)), (''schema_id'', JU64 (tr_schema_id row)),
       (''table_name'', JStr (tr_table_name row)), (''end_snapshot'', json_opt_u64 (tr_end_snapshot row))]\<rparr>"

definition added_column_event :: "u64 \<Rightarrow> ColumnRow \<Rightarrow> CdcEvent" where
  "added_column_event to row = \<lparr>ce_snapshot_id = to, ce_table = ''ducklake_column'', ce_kind = Add,
     ce_row = JObj [(''column_id'', JU64 (cr_column_id row)), (''table_id'', JU64 (cr_table_id row)),
       (''column_name'', JStr (cr_column_name row)), (''column_type'', JStr (cr_data_type row)),
       (''begin_snapshot'', JU64 (cr_begin_snapshot row))]\<rparr>"

definition retired_column_event :: "u64 \<Rightarrow> ColumnRow \<Rightarrow> CdcEvent" where
  "retired_column_event to row = \<lparr>ce_snapshot_id = to, ce_table = ''ducklake_column'', ce_kind = Retire,
     ce_row = JObj [(''column_id'', JU64 (cr_column_id row)), (''table_id'', JU64 (cr_table_id row)),
       (''column_name'', JStr (cr_column_name row)), (''column_type'', JStr (cr_data_type row)),
       (''end_snapshot'', json_opt_u64 (cr_end_snapshot row))]\<rparr>"

definition added_data_file_event :: "u64 \<Rightarrow> DataFileRow \<Rightarrow> CdcEvent" where
  "added_data_file_event to row = \<lparr>ce_snapshot_id = to, ce_table = ''ducklake_data_file'', ce_kind = Add,
     ce_row = JObj [(''data_file_id'', JU64 (df_data_file_id row)), (''table_id'', JU64 (df_table_id row)),
       (''path'', JStr (df_path row)), (''file_format'', JStr (df_file_format row)),
       (''record_count'', JU64 (df_record_count row)), (''file_size_bytes'', JU64 (df_file_size_bytes row)),
       (''begin_snapshot'', json_opt_u64 (df_begin_snapshot row))]\<rparr>"

definition retired_data_file_event :: "u64 \<Rightarrow> DataFileRow \<Rightarrow> CdcEvent" where
  "retired_data_file_event to row = \<lparr>ce_snapshot_id = to, ce_table = ''ducklake_data_file'', ce_kind = Retire,
     ce_row = JObj [(''data_file_id'', JU64 (df_data_file_id row)), (''table_id'', JU64 (df_table_id row)),
       (''path'', JStr (df_path row)), (''end_snapshot'', json_opt_u64 (df_end_snapshot row))]\<rparr>"

definition from_diff :: "SnapshotDiff \<Rightarrow> CdcSnapshot" where
  "from_diff diff =
     (let to = as_u64 (sd_to_snapshot diff) in
      \<lparr>cs_from_snapshot = as_u64 (sd_from_snapshot diff), cs_to_snapshot = to,
       cs_events =
         map (added_schema_event to) (sd_added_schemas diff) @
         map (retired_schema_event to) (sd_retired_schemas diff) @
         map (added_table_event to) (sd_added_tables diff) @
         map (retired_table_event to) (sd_retired_tables diff) @
         map (added_column_event to) (sd_added_columns diff) @
         map (retired_column_event to) (sd_retired_columns diff) @
         map (added_data_file_event to) (sd_added_data_files diff) @
         map (retired_data_file_event to) (sd_retired_data_files diff)\<rparr>)"

section \<open>Output\<close>

text \<open>The derived serialisation of an event, and the lines of an export.\<close>

definition kind_name :: "CdcChangeKind \<Rightarrow> string" where
  "kind_name k = (case k of Add \<Rightarrow> ''add'' | Retire \<Rightarrow> ''retire'')"

definition event_json :: "CdcEvent \<Rightarrow> Json" where
  "event_json e = JObj [(''snapshot_id'', JU64 (ce_snapshot_id e)), (''table'', JStr (ce_table e)),
     (''kind'', JStr (kind_name (ce_kind e))), (''row'', ce_row e)]"

definition to_jsonl :: "(Json \<Rightarrow> string) \<Rightarrow> CdcSnapshot \<Rightarrow> string" where
  "to_jsonl to_string cdc =
     to_string (JObj [(''_type'', JStr ''cdc_snapshot_header''), (''from_snapshot'', JU64 (cs_from_snapshot cdc)),
       (''to_snapshot'', JU64 (cs_to_snapshot cdc)), (''event_count'', JU64 (of_nat (length (cs_events cdc))))]) @
     [CHR 0x0A] @ concat (map (\<lambda>e. to_string (event_json e) @ [CHR 0x0A]) (cs_events cdc))"

text \<open>\<open>{:020}\<close> pads with zeros on the left to twenty digits.\<close>

definition pad20 :: "u64 \<Rightarrow> string" where
  "pad20 n = replicate (20 - length (show_u64 n)) (CHR ''0'') @ show_u64 n"

definition cdc_s3_path :: "string \<Rightarrow> u64 \<Rightarrow> string" where
  "cdc_s3_path warehouse_prefix to_snapshot =
     trim_end_matches (CHR ''/'') warehouse_prefix @ ''/cdc/snapshot-'' @ pad20 to_snapshot @ ''.jsonl''"

text \<open>\<open>write_all\<close> of the writer is an argument; its error becomes an internal error.\<close>

definition write_cdc_jsonl ::
  "(Json \<Rightarrow> string) \<Rightarrow> ('w \<Rightarrow> bytes \<Rightarrow> (string + unit) \<times> 'w) \<Rightarrow> CdcSnapshot \<Rightarrow> ('w, nat) cmd" where
  "write_cdc_jsonl to_string write_all cdc w =
     (let jsonl = to_jsonl to_string cdc in
      case write_all w (str_bytes jsonl) of
        (Inl e, w') \<Rightarrow> (Inl (Internal e), w')
      | (Inr _, w') \<Rightarrow> (Inr (length jsonl), w'))"

section \<open>The tailer\<close>

record CdcTailer =
  ct_last_exported :: SnapshotId
  ct_warehouse_prefix :: string

definition CdcTailer_new :: "SnapshotId \<Rightarrow> string \<Rightarrow> CdcTailer" where
  "CdcTailer_new start_snapshot warehouse_prefix =
     \<lparr>ct_last_exported = start_snapshot, ct_warehouse_prefix = warehouse_prefix\<rparr>"

definition poll_once ::
  "'db slatedb \<Rightarrow> codecs \<Rightarrow> CatalogStore \<Rightarrow> 'db \<Rightarrow> (CdcTailer, CdcSnapshot option) cmd" where
  "poll_once S C store db tailer =
     (let current = rd_dl_snapshot_id (read_latest store) in
      if as_u64 current \<le> as_u64 (ct_last_exported tailer) then (Inr None, tailer)
      else case snapshot_diff S C db (ct_last_exported tailer) current of
          Inl e \<Rightarrow> (Inl e, tailer)
        | Inr diff \<Rightarrow>
            if SnapshotDiff_is_empty diff then (Inr None, tailer\<lparr>ct_last_exported := current\<rparr>)
            else (Inr (Some (from_diff diff)), tailer\<lparr>ct_last_exported := current\<rparr>))"

record WebhookPayload =
  wp_snapshot_id :: u64
  wp_from_snapshot :: u64
  wp_affected_tables :: "u64 set"
  wp_diff_url :: string
  wp_event_count :: nat

definition json_table_id :: "Json \<Rightarrow> u64 option" where
  "json_table_id j =
     (case j of
        JObj members \<Rightarrow> (case map_of members ''table_id'' of Some (JU64 n) \<Rightarrow> Some n | _ \<Rightarrow> None)
      | _ \<Rightarrow> None)"

text \<open>The affected tables are collected in a hash set, whose iteration order is not specified.\<close>

definition from_cdc :: "CdcSnapshot \<Rightarrow> string \<Rightarrow> WebhookPayload" where
  "from_cdc cdc diff_url =
     \<lparr>wp_snapshot_id = cs_to_snapshot cdc, wp_from_snapshot = cs_from_snapshot cdc,
      wp_affected_tables = set (List.map_filter (\<lambda>e. json_table_id (ce_row e)) (cs_events cdc)),
      wp_diff_url = diff_url, wp_event_count = length (cs_events cdc)\<rparr>"

section \<open>Exactly-once delivery\<close>

text \<open>A run of the sidecar: polls against successive states of the store, and all events exported.\<close>

fun poll_run ::
  "'db slatedb \<Rightarrow> codecs \<Rightarrow> (CatalogStore \<times> 'db) list \<Rightarrow> (CdcTailer, CdcEvent list) cmd" where
  "poll_run S C [] = ret []"
| "poll_run S C ((store, db) # polls) =
     bind (poll_once S C store db) (\<lambda>out.
     bind (poll_run S C polls) (\<lambda>events.
       ret ((case out of None \<Rightarrow> [] | Some cdc \<Rightarrow> cs_events cdc) @ events)))"

definition is_schema_add :: "u64 \<Rightarrow> string \<Rightarrow> u64 \<Rightarrow> CdcEvent \<Rightarrow> bool" where
  "is_schema_add i n b e \<longleftrightarrow> ce_table e = ''ducklake_schema'' \<and> ce_kind e = Add \<and>
     ce_row e = JObj [(''schema_id'', JU64 i), (''schema_name'', JStr n), (''begin_snapshot'', JU64 b)]"

definition is_version :: "u64 \<Rightarrow> string \<Rightarrow> u64 \<Rightarrow> SchemaRow \<Rightarrow> bool" where
  "is_version i n b row \<longleftrightarrow> sr_schema_id row = i \<and> sr_schema_name row = n \<and> sr_begin_snapshot row = b"

lemmas event_defs = added_schema_event_def retired_schema_event_def added_table_event_def retired_table_event_def
  added_column_event_def retired_column_event_def added_data_file_event_def retired_data_file_event_def

lemma schema_adds_from_diff:
  "length (filter (is_schema_add i n b) (cs_events (from_diff diff))) =
     length (filter (is_version i n b) (sd_added_schemas diff))"
  by (simp add: from_diff_def Let_def filter_map comp_def is_schema_add_def [abs_def] is_version_def [abs_def] event_defs)

lemma poll_once_Inr:
  assumes "poll_once S C store db t = (Inr out, t')"
  shows "(out = None \<and> t' = t \<and> as_u64 (rd_dl_snapshot_id (read_latest store)) \<le> as_u64 (ct_last_exported t)) \<or>
    as_u64 (ct_last_exported t) < as_u64 (rd_dl_snapshot_id (read_latest store)) \<and>
    ct_last_exported t' = rd_dl_snapshot_id (read_latest store) \<and>
    (\<exists>diff. snapshot_diff S C db (ct_last_exported t) (rd_dl_snapshot_id (read_latest store)) = Inr diff \<and>
       out = (if SnapshotDiff_is_empty diff then None else Some (from_diff diff)))"
  using assms by (auto simp: poll_once_def Let_def split: if_splits sum.splits)

lemma poll_once_adds:
  assumes "poll_once S C store db t = (Inr out, t')"
    and "\<And>rows. read_rows S (pb_SchemaRow C) db (prefix_for_tag TAG_SCHEMA) (\<lambda>_. True) = Inr rows \<Longrightarrow>
      b \<le> as_u64 (rd_dl_snapshot_id (read_latest store)) \<Longrightarrow> length (filter (is_version i n b) rows) = 1"
  shows "length (filter (is_schema_add i n b) (case out of None \<Rightarrow> [] | Some cdc \<Rightarrow> cs_events cdc)) =
      (if as_u64 (ct_last_exported t) < b \<and> b \<le> as_u64 (ct_last_exported t') then 1 else 0)"
    and "as_u64 (ct_last_exported t) \<le> as_u64 (ct_last_exported t')"
proof -
  let ?s = "rd_dl_snapshot_id (read_latest store)"
  from poll_once_Inr [OF assms(1)] show "as_u64 (ct_last_exported t) \<le> as_u64 (ct_last_exported t')" by auto
  from poll_once_Inr [OF assms(1)]
  show "length (filter (is_schema_add i n b) (case out of None \<Rightarrow> [] | Some cdc \<Rightarrow> cs_events cdc)) =
      (if as_u64 (ct_last_exported t) < b \<and> b \<le> as_u64 (ct_last_exported t') then 1 else 0)"
  proof (elim disjE conjE exE)
    fix diff
    assume d: "snapshot_diff S C db (ct_last_exported t) ?s = Inr diff"
      and o: "out = (if SnapshotDiff_is_empty diff then None else Some (from_diff diff))"
      and t': "ct_last_exported t' = ?s"
    obtain rows where r: "read_rows S (pb_SchemaRow C) db (prefix_for_tag TAG_SCHEMA) (\<lambda>_. True) = Inr rows"
      and a: "sd_added_schemas diff = filter (\<lambda>r. in_window (as_u64 (ct_last_exported t)) (as_u64 ?s) (sr_begin_snapshot r)) rows"
      using d by (auto simp: snapshot_diff_def Let_def rbind_eq_Inr_iff)
    have "filter (is_version i n b) (sd_added_schemas diff) =
        (if in_window (as_u64 (ct_last_exported t)) (as_u64 ?s) b then filter (is_version i n b) rows else [])"
      unfolding a is_version_def [abs_def] by (induction rows) auto
    then have n: "length (filter (is_version i n b) (sd_added_schemas diff)) =
        (if as_u64 (ct_last_exported t) < b \<and> b \<le> as_u64 ?s then 1 else 0)"
      using assms(2) [OF r] by (auto simp: in_window_def)
    show ?thesis
    proof (cases "SnapshotDiff_is_empty diff")
      case True
      then show ?thesis using n o t' by (simp add: SnapshotDiff_is_empty_def split: if_splits)
    next
      case False
      then show ?thesis using n o t' by (simp add: schema_adds_from_diff)
    qed
  qed auto
qed

lemma cdc_run_adds:
  assumes "poll_run S C polls t = (Inr events, t')"
    and "\<forall>(store, db)\<in>set polls. \<forall>rows. read_rows S (pb_SchemaRow C) db (prefix_for_tag TAG_SCHEMA) (\<lambda>_. True) = Inr rows \<longrightarrow>
      b \<le> as_u64 (rd_dl_snapshot_id (read_latest store)) \<longrightarrow> length (filter (is_version i n b) rows) = 1"
  shows "as_u64 (ct_last_exported t) \<le> as_u64 (ct_last_exported t') \<and>
    length (filter (is_schema_add i n b) events) =
      (if as_u64 (ct_last_exported t) < b \<and> b \<le> as_u64 (ct_last_exported t') then 1 else 0)"
  using assms
proof (induction polls arbitrary: t events)
  case (Cons p polls)
  obtain store db where p: "p = (store, db)" by (cases p)
  obtain out t1 es where o: "poll_once S C store db t = (Inr out, t1)"
    and r: "poll_run S C polls t1 = (Inr es, t')"
    and e: "events = (case out of None \<Rightarrow> [] | Some cdc \<Rightarrow> cs_events cdc) @ es"
    using Cons.prems(1) by (auto simp: p bind_Inr)
  have h: "\<And>rows. read_rows S (pb_SchemaRow C) db (prefix_for_tag TAG_SCHEMA) (\<lambda>_. True) = Inr rows \<Longrightarrow>
      b \<le> as_u64 (rd_dl_snapshot_id (read_latest store)) \<Longrightarrow> length (filter (is_version i n b) rows) = 1"
    using Cons.prems(2) by (simp add: p)
  note one = poll_once_adds [OF o h]
  have "as_u64 (ct_last_exported t1) \<le> as_u64 (ct_last_exported t') \<and>
      length (filter (is_schema_add i n b) es) =
        (if as_u64 (ct_last_exported t1) < b \<and> b \<le> as_u64 (ct_last_exported t') then 1 else 0)"
    by (rule Cons.IH [OF r]) (use Cons.prems(2) in simp)
  then show ?case
    unfolding e filter_append length_append using one by auto
qed auto

text \<open>C34. Change capture delivers exactly once: over any sequence of polls that all succeed, a version of a
  schema that is stored once in every polled state that has reached its begin snapshot is exported in exactly
  one event if that snapshot lies in the range the tailer advanced over, and in none otherwise.\<close>

theorem cdc_exactly_once:
  assumes "poll_run S C polls t = (Inr events, t')"
    and "\<forall>(store, db)\<in>set polls. \<forall>rows. read_rows S (pb_SchemaRow C) db (prefix_for_tag TAG_SCHEMA) (\<lambda>_. True) = Inr rows \<longrightarrow>
      b \<le> as_u64 (rd_dl_snapshot_id (read_latest store)) \<longrightarrow> length (filter (is_version i n b) rows) = 1"
  shows "length (filter (is_schema_add i n b) events) =
    (if as_u64 (ct_last_exported t) < b \<and> b \<le> as_u64 (ct_last_exported t') then 1 else 0)"
  using cdc_run_adds [OF assms] by simp

end
