(* ===== verification/Registry.thy ===== *)
theory Registry
  imports Catalog_Store Catalog_Reader Rust_Str
begin

text \<open>
  \<open>crates/rocklake-catalog/src/partition.rs\<close>, the registry of datasets, and
  \<open>crates/rocklake-catalog/src/audit.rs\<close>, the audit log. Both store JSON texts; the JSON library is a
  parameter, a pair of a printer and a parser. \<open>json_ok\<close> is what is assumed of it.
\<close>

section \<open>JSON\<close>

record 'a json_codec =
  js_print :: "'a \<Rightarrow> string + string"
  js_parse :: "string \<Rightarrow> string + 'a"

definition json_ok :: "'a json_codec \<Rightarrow> bool" where
  "json_ok J \<longleftrightarrow> (\<forall>a s. js_print J a = Inr s \<longrightarrow> s \<noteq> [] \<and> js_parse J s = Inr a)"

section \<open>The registry of datasets\<close>

record DatasetEntry =
  de_name :: string
  de_catalog_path :: string
  de_description :: "string option"
  de_created_at :: string

definition dataset_key :: "string \<Rightarrow> bytes" where
  "dataset_key name = key_metadata Global 0 (''dataset:'' @ name)"

definition dataset_row :: "string \<Rightarrow> string \<Rightarrow> MetadataRow" where
  "dataset_row name value =
     \<lparr>md_key = ''dataset:'' @ name, md_value = value, md_scope = Some ''global'', md_scope_id = Some 0\<rparr>"

definition commit_registry ::
  "'db slatedb \<Rightarrow> codecs \<Rightarrow> string \<Rightarrow> ('db \<Rightarrow> 'db) \<Rightarrow> string \<Rightarrow> CatalogWriter \<Rightarrow> (CatalogStore \<times> 'db, unit) cmd" where
  "commit_registry S C now env message writer = (\<lambda>(store, db).
     case create_snapshot S C now env (Some ''registry'') (Some message) (writer, db) of
       (Inl e, (_, db')) \<Rightarrow> (Inl e, (store, db'))
     | (Inr commit, (_, db')) \<Rightarrow> (Inr (), (commit_writer commit store, db')))"

text \<open>\<open>self.store.db().put(..)\<close> on the pair of the store and the database.\<close>

definition store_put :: "'db slatedb \<Rightarrow> bytes \<Rightarrow> bytes \<Rightarrow> (CatalogStore \<times> 'db, unit) cmd" where
  "store_put S k v = (\<lambda>(store, db). case db_put S k v db of (r, db') \<Rightarrow> (r, (store, db')))"

definition register_dataset ::
  "'db slatedb \<Rightarrow> codecs \<Rightarrow> DatasetEntry json_codec \<Rightarrow> string \<Rightarrow> ('db \<Rightarrow> 'db) \<Rightarrow> DatasetEntry
     \<Rightarrow> (CatalogStore \<times> 'db, unit) cmd" where
  "register_dataset S C J now env entry = (\<lambda>(store, db).
     let writer = begin_write store in
     bind (lift (map_err SlateDb (js_print J entry))) (\<lambda>value.
     bind (store_put S (dataset_key (de_name entry))
         (encode_value (pb_MetadataRow C) (dataset_row (de_name entry) value))) (\<lambda>_.
       commit_registry S C now env (''register dataset: '' @ de_name entry) writer)) (store, db))"

definition unregister_dataset ::
  "'db slatedb \<Rightarrow> codecs \<Rightarrow> string \<Rightarrow> ('db \<Rightarrow> 'db) \<Rightarrow> string \<Rightarrow> (CatalogStore \<times> 'db, unit) cmd" where
  "unregister_dataset S C now env name =
     bind (store_put S (dataset_key name) (encode_value (pb_MetadataRow C) (dataset_row name []))) (\<lambda>_.
       (\<lambda>(store, db). commit_registry S C now env (''unregister dataset: '' @ name) (begin_write store) (store, db)))"

text \<open>Entries that do not decode or parse are skipped.\<close>

definition dataset_of_row :: "DatasetEntry json_codec \<Rightarrow> MetadataRow \<Rightarrow> DatasetEntry option" where
  "dataset_of_row J row =
     (if starts_with (md_key row) ''dataset:'' \<and> md_value row \<noteq> []
      then (case js_parse J (md_value row) of Inr entry \<Rightarrow> Some entry | Inl _ \<Rightarrow> None) else None)"

definition list_datasets ::
  "'db slatedb \<Rightarrow> codecs \<Rightarrow> DatasetEntry json_codec \<Rightarrow> 'db \<Rightarrow> CatalogError + DatasetEntry list" where
  "list_datasets S C J db =
     rbind (scan_rows S classify_slatedb_error
         (\<lambda>kv. Inr (case decode_value (pb_MetadataRow C) (snd kv) of Inr row \<Rightarrow> dataset_of_row J row | Inl _ \<Rightarrow> None))
         db ([TAG_METADATA] @ [scope_byte Global] @ encode_u64 0) (\<lambda>e. e \<noteq> None)) (\<lambda>rows.
       Inr (map (the \<circ> snd) rows))"

definition get_dataset ::
  "'db slatedb \<Rightarrow> codecs \<Rightarrow> DatasetEntry json_codec \<Rightarrow> 'db \<Rightarrow> string \<Rightarrow> CatalogError + DatasetEntry option" where
  "get_dataset S C J db name =
     rbind (db_get S db (dataset_key name)) (\<lambda>d.
       case d of
         None \<Rightarrow> Inr None
       | Some data \<Rightarrow>
           rbind (map_err ValueErr (decode_value (pb_MetadataRow C) data)) (\<lambda>row.
             if md_value row = [] then Inr None
             else rbind (map_err SlateDb (js_parse J (md_value row))) (\<lambda>entry. Inr (Some entry))))"

section \<open>The audit log\<close>

record AuditChange =
  ac_change_type :: string
  ac_detail :: "string option"

record AuditEntry =
  ae_snapshot_id :: u64
  ae_committed_at :: string
  ae_committed_by :: string
  ae_changes :: "AuditChange list"

definition write_audit_entry :: "'db slatedb \<Rightarrow> AuditEntry json_codec \<Rightarrow> AuditEntry \<Rightarrow> ('db, unit) cmd" where
  "write_audit_entry S J entry =
     bind (lift (map_err (\<lambda>e. Internal (''audit entry serialize: '' @ e)) (js_print J entry))) (\<lambda>value.
       db_put S (key_audit (ae_snapshot_id entry)) (encode_raw_value (str_bytes value)))"

definition list_audit_entries :: "'db slatedb \<Rightarrow> AuditEntry json_codec \<Rightarrow> 'db \<Rightarrow> CatalogError + AuditEntry list" where
  "list_audit_entries S J db =
     rbind (scan_rows S classify_slatedb_error
         (\<lambda>kv. rbind (map_err ValueErr (decode_raw_value (snd kv))) (\<lambda>raw.
            Inr (case js_parse J (bytes_str raw) of Inr entry \<Rightarrow> Some entry | Inl _ \<Rightarrow> None)))
         db audit_prefix (\<lambda>e. e \<noteq> None)) (\<lambda>rows.
       Inr (map (the \<circ> snd) rows))"

definition get_audit_entry ::
  "'db slatedb \<Rightarrow> AuditEntry json_codec \<Rightarrow> 'db \<Rightarrow> u64 \<Rightarrow> CatalogError + AuditEntry option" where
  "get_audit_entry S J db snapshot_id =
     rbind (db_get S db (key_audit snapshot_id)) (\<lambda>d.
       case d of
         None \<Rightarrow> Inr None
       | Some value \<Rightarrow>
           rbind (map_err ValueErr (decode_raw_value value)) (\<lambda>raw.
           rbind (map_err (\<lambda>e. Internal (''audit entry deserialize: '' @ e)) (js_parse J (bytes_str raw))) (\<lambda>entry.
             Inr (Some entry))))"

section \<open>Correctness\<close>

text \<open>The dataset registered under a name, as the key-value map holds it.\<close>

definition dataset_at :: "codecs \<Rightarrow> DatasetEntry json_codec \<Rightarrow> (bytes \<Rightarrow> bytes option) \<Rightarrow> string \<Rightarrow> DatasetEntry option" where
  "dataset_at C J m name =
     (case m (dataset_key name) of
        None \<Rightarrow> None
      | Some data \<Rightarrow> (case decode_value (pb_MetadataRow C) data of
           Inl _ \<Rightarrow> None
         | Inr row \<Rightarrow> if md_value row = [] then None
             else (case js_parse J (md_value row) of Inl _ \<Rightarrow> None | Inr entry \<Rightarrow> Some entry)))"

lemma get_dataset_at:
  assumes "slatedb_ok S" and "get_dataset S C J db name = Inr d"
  shows "dataset_at C J (sdb_view S db) name = d"
proof -
  obtain v where g: "db_get S db (dataset_key name) = Inr v"
    using assms(2) by (auto simp: get_dataset_def rbind_eq_Inr_iff)
  have "sdb_view S db (dataset_key name) = v" using db_get_Inr [OF assms(1) g] by simp
  then show ?thesis using assms(2) g
    by (cases v) (auto simp: get_dataset_def dataset_at_def rbind_eq_Inr_iff split: if_splits)
qed

lemma dataset_key_inject [simp]: "dataset_key a = dataset_key b \<longleftrightarrow> a = b"
  by (auto simp: dataset_key_def key_simps)

lemma dataset_at_put_all:
  "dataset_at C J (put_all (snapshot_writes C now author message w) m) = dataset_at C J m"
proof
  fix name
  have "dataset_key name \<notin> fst ` set (snapshot_writes C now author message w)"
    by (auto simp: dataset_key_def snapshot_writes_def Let_def key_simps tag_defs split: option.splits)
  from put_all_other [OF this]
  show "dataset_at C J (put_all (snapshot_writes C now author message w) m) name = dataset_at C J m name"
    by (simp add: dataset_at_def)
qed

lemma begin_write_empty [simp]: "w_staged (begin_write store) = []"
  by (simp add: begin_write_def CatalogWriter_new_def)

text \<open>A commit of the registry writes no dataset row: what it does to the datasets is what another process did.\<close>

lemma commit_registry_datasets:
  assumes "slatedb_ok S"
    and "commit_registry S C now env message (begin_write store) (store, db) = (r, (store', db'))"
    and "\<And>db. dataset_at C J (sdb_view S (env db)) = dataset_at C J (sdb_view S db)"
  shows "dataset_at C J (sdb_view S db') = dataset_at C J (sdb_view S db)"
proof -
  obtain c w' db1 where cs: "create_snapshot S C now env (Some ''registry'') (Some message) (begin_write store, db) = (c, (w', db1))"
    by (metis prod.exhaust)
  have d: "db1 = db'" using assms(2) cs by (cases c) (auto simp: commit_registry_def)
  show ?thesis
  proof (cases c)
    case (Inl e)
    from create_snapshot_Inl [OF assms(1) cs [unfolded Inl d]] show ?thesis
      using assms(3) [of db] by (auto simp: dataset_at_put_all)
  next
    case (Inr x)
    from create_snapshot_Inr [OF assms(1) cs [unfolded Inr d]] show ?thesis
      using assms(3) [of db] by (auto simp: dataset_at_put_all)
  qed
qed

lemma store_put_Inr:
  assumes "slatedb_ok S" and "store_put S k v (store, db) = (Inr u, (store', db'))"
  shows "store' = store \<and> sdb_view S db' = (sdb_view S db)(k \<mapsto> v)"
proof -
  have p: "sdb_put S db k v = (Inr (), db')" and "store' = store"
    using assms(2) by (auto simp: store_put_def db_put_def split: prod.splits sum.splits)
  with sdb_put_ok [OF assms(1) p] show ?thesis by simp
qed

lemma dataset_at_upd:
  assumes "codecs_ok C"
  shows "dataset_at C J (m(dataset_key name \<mapsto> encode_value (pb_MetadataRow C) (dataset_row name value))) =
    (dataset_at C J m)(name := if value = [] then None
       else (case js_parse J value of Inl _ \<Rightarrow> None | Inr entry \<Rightarrow> Some entry))"
  using assms by (auto simp: dataset_at_def dataset_row_def fun_eq_iff)

lemma register_dataset_Inr:
  assumes "slatedb_ok S" and "codecs_ok C" and "json_ok J"
    and "\<And>db. dataset_at C J (sdb_view S (env db)) = dataset_at C J (sdb_view S db)"
    and "register_dataset S C J now env entry (store, db) = (Inr (), (store', db'))"
  shows "dataset_at C J (sdb_view S db') = (dataset_at C J (sdb_view S db))(de_name entry \<mapsto> entry)"
proof -
  from assms(5) obtain v st1 db1 where p: "js_print J entry = Inr v"
    and s: "store_put S (dataset_key (de_name entry))
         (encode_value (pb_MetadataRow C) (dataset_row (de_name entry) v)) (store, db) = (Inr (), (st1, db1))"
    and c: "commit_registry S C now env (''register dataset: '' @ de_name entry) (begin_write store) (st1, db1) =
         (Inr (), (store', db'))"
    by (auto simp: register_dataset_def bind_Inr)
  note s1 = store_put_Inr [OF assms(1) s]
  have v: "v \<noteq> []" "js_parse J v = Inr entry" using assms(3) p by (auto simp: json_ok_def)
  have "dataset_at C J (sdb_view S db') = dataset_at C J (sdb_view S db1)"
    using commit_registry_datasets [OF assms(1) _ assms(4)] c s1 by metis
  then show ?thesis by (simp add: s1 dataset_at_upd [OF assms(2)] v)
qed

lemma unregister_dataset_Inr:
  assumes "slatedb_ok S" and "codecs_ok C"
    and "\<And>db. dataset_at C J (sdb_view S (env db)) = dataset_at C J (sdb_view S db)"
    and "unregister_dataset S C now env name (store, db) = (Inr (), (store', db'))"
  shows "dataset_at C J (sdb_view S db') = (dataset_at C J (sdb_view S db))(name := None)"
proof -
  from assms(4) obtain st1 db1 where s: "store_put S (dataset_key name)
         (encode_value (pb_MetadataRow C) (dataset_row name [])) (store, db) = (Inr (), (st1, db1))"
    and c: "commit_registry S C now env (''unregister dataset: '' @ name) (begin_write st1) (st1, db1) = (Inr (), (store', db'))"
    by (auto simp: unregister_dataset_def bind_Inr)
  note s1 = store_put_Inr [OF assms(1) s]
  have "dataset_at C J (sdb_view S db') = dataset_at C J (sdb_view S db1)"
    by (rule commit_registry_datasets [OF assms(1) c assms(3)])
  then show ?thesis by (simp add: s1 dataset_at_upd [OF assms(2)])
qed

text \<open>C40. The registry of datasets is a map from names to entries. A registration that succeeds maps the name to
  the entry, a removal that succeeds deletes the name, both keep every other name; and what
  \<open>get_dataset\<close> returns is the map's value.\<close>

theorem registry_refines_map:
  assumes "slatedb_ok S" and "codecs_ok C" and "json_ok J"
    and "\<And>db. dataset_at C J (sdb_view S (env db)) = dataset_at C J (sdb_view S db)"
  shows "(register_dataset S C J now env entry (store, db) = (Inr (), (store', db')) \<longrightarrow>
      dataset_at C J (sdb_view S db') = (dataset_at C J (sdb_view S db))(de_name entry \<mapsto> entry)) \<and>
    (unregister_dataset S C now env name (store, db) = (Inr (), (store', db')) \<longrightarrow>
      dataset_at C J (sdb_view S db') = (dataset_at C J (sdb_view S db))(name := None)) \<and>
    (get_dataset S C J db name = Inr d \<longrightarrow> d = dataset_at C J (sdb_view S db) name)"
  using register_dataset_Inr [OF assms] unregister_dataset_Inr [OF assms(1,2,4)] get_dataset_at [OF assms(1)]
  by blast

text \<open>The row of the dataset is put before the commit that checks the epoch, so a fenced writer's registration
  takes effect although it reports the error.\<close>

lemma fenced_register_takes_effect:
  assumes "slatedb_ok S" and "slatedb_available S" and "codecs_ok C" and "json_ok J"
    and p: "js_print J entry = Inr v"
    and f: "\<not> epoch_of (sdb_view S db) (cs_writer_epoch store) (cs_writer_nonce store)"
  shows "\<exists>e db'. register_dataset S C J now id entry (store, db) = (Inl e, (store, db')) \<and>
    dataset_at C J (sdb_view S db') (de_name entry) = Some entry"
proof -
  let ?k = "dataset_key (de_name entry)" and ?d = "encode_value (pb_MetadataRow C) (dataset_row (de_name entry) v)"
  obtain db1 where put: "sdb_put S db ?k ?d = (Inr (), db1)"
    using sdb_put_available [OF assms(2)] by (metis prod.collapse)
  have v1: "sdb_view S db1 = (sdb_view S db)(?k \<mapsto> ?d)" by (rule sdb_put_ok [OF assms(1) put])
  then have f1: "\<not> epoch_of (sdb_view S db1) (cs_writer_epoch store) (cs_writer_nonce store)"
    using f epoch_of_cong [of "sdb_view S db1" "sdb_view S db"] by (simp add: dataset_key_def key_simps tag_defs)
  let ?msg = "''register dataset: '' @ de_name entry"
  obtain c w' db' where cs: "create_snapshot S C now id (Some ''registry'') (Some ?msg) (begin_write store, db1) = (c, (w', db'))"
    by (metis prod.exhaust)
  have "\<exists>e. c = Inl e"
  proof (cases c)
    case (Inr x)
    from create_snapshot_Inr [OF assms(1) cs [unfolded Inr]] have False
      using f1 by (simp add: begin_write_def CatalogWriter_new_def)
    then show ?thesis ..
  qed simp
  then obtain e where c: "c = Inl e" ..
  have v: "v \<noteq> []" "js_parse J v = Inr entry" using assms(4) p by (auto simp: json_ok_def)
  have reg: "commit_registry S C now id ?msg (begin_write store) (store, db1) = (Inl e, (store, db'))"
    using cs c by (simp add: commit_registry_def)
  have "dataset_at C J (sdb_view S db') = dataset_at C J (sdb_view S db1)"
    by (rule commit_registry_datasets [OF assms(1) reg]) simp
  then have "dataset_at C J (sdb_view S db') (de_name entry) = Some entry"
    by (simp add: v1 dataset_at_upd [OF assms(3)] v)
  moreover have "register_dataset S C J now id entry (store, db) = (Inl e, (store, db'))"
    using reg by (simp add: register_dataset_def bind_def lift_def p store_put_def db_put_def put)
  ultimately show ?thesis by blast
qed

text \<open>An audit entry written is the entry read back.\<close>

lemma audit_entry_round_trip:
  assumes "slatedb_ok S" and "slatedb_available S" and "json_ok J"
    and "write_audit_entry S J entry db = (Inr (), db')"
  shows "get_audit_entry S J db' (ae_snapshot_id entry) = Inr (Some entry)"
proof -
  let ?k = "key_audit (ae_snapshot_id entry)"
  obtain v where p: "js_print J entry = Inr v" and put: "db_put S ?k (encode_raw_value (str_bytes v)) db = (Inr (), db')"
    using assms(4) by (auto simp: write_audit_entry_def bind_Inr)
  have "js_parse J v = Inr entry" using assms(3) p by (simp add: json_ok_def)
  moreover have "db_get S db' ?k = Inr (Some (encode_raw_value (str_bytes v)))"
    using sdb_put_ok [OF assms(1), of db ?k _ db'] put sdb_get_available [OF assms(2), of db' ?k] sdb_get_ok [OF assms(1), of db' ?k]
    by (auto simp: db_put_def db_get_def split: prod.splits sum.splits)
  ultimately show ?thesis by (simp add: get_audit_entry_def)
qed

end
