(* ===== verification/Concrete_Services.thy ===== *)
theory Concrete_Services
  imports Concrete_Tools Repair Extension Streaming Cleanup Cdc Registry
begin

text \<open>
  Concrete runs of verification, repair, extension tables, streaming ingestion, the orphan sweep, change
  capture and the dataset registry. Each witness applies a property of the development to one of them.
\<close>

section \<open>Scans of small databases\<close>

lemma mem_scan_one:
  assumes "prefix p k" and "list_all (\<lambda>kv. \<not> prefix p (fst kv)) db"
  shows "mem_scan ((k, v) # db) p = [(k, v)]"
proof -
  have "map_of db k' = None" if "prefix p k'" for k'
    using assms(2) that by (auto simp: map_of_eq_None_iff list_all_iff)
  then have "prefix_listing (map_of ((k, v) # db)) p [(k, v)]"
    using assms(1) by (auto simp: prefix_listing_def)
  then show ?thesis by (rule prefix_listing_unique [OF mem_scan_listing])
qed

lemma mem_read_rows:
  "mem_scan db p = kvs \<Longrightarrow> read_rows mem_slatedb P db p keep =
     rbind (collect_rows (row_decoder P) keep kvs None) (\<lambda>rows. Inr (map snd rows))"
  by (simp add: read_rows_def scan_rows_def)

section \<open>Verification and repair\<close>

text \<open>A catalog whose snapshot counter is \<open>n\<close> although snapshot 7 exists.\<close>

definition snapshot7 :: SnapshotRow where
  "snapshot7 = \<lparr>sn_snapshot_id = 7, sn_schema_version = 0, sn_snapshot_time = [], sn_author = None,
     sn_message = None, sn_next_catalog_id = None, sn_next_file_id = None\<rparr>"

definition counters_db :: "u64 \<Rightarrow> mem_db" where
  "counters_db n =
     [(key_system SYSTEM_CATALOG_FORMAT_VERSION, encode_format_version CATALOG_FORMAT_VERSION),
      (key_counter COUNTER_NEXT_SNAPSHOT_ID, encode_counter n),
      (key_counter COUNTER_NEXT_CATALOG_ID, encode_counter 1),
      (key_counter COUNTER_NEXT_FILE_ID, encode_counter 1)]"

definition lagging_db :: "u64 \<Rightarrow> mem_db" where
  "lagging_db n = (key_snapshot 7, encode_value (pb_SnapshotRow mem_codecs) snapshot7) # counters_db n"

lemma counters_db_keys: "k \<in> fst ` set (counters_db n) \<Longrightarrow> \<exists>tag r. k = tag # r \<and> (tag = TAG_SYSTEM \<or> tag = TAG_COUNTERS)"
  by (auto simp: counters_db_def key_simps)

lemma lagging_db_get [simp]:
  "map_of (lagging_db n) (key_system SYSTEM_CATALOG_FORMAT_VERSION) = Some (encode_format_version CATALOG_FORMAT_VERSION)"
  "map_of (lagging_db n) (key_counter COUNTER_NEXT_SNAPSHOT_ID) = Some (encode_counter n)"
  "map_of (lagging_db n) (key_counter COUNTER_NEXT_CATALOG_ID) = Some (encode_counter 1)"
  "map_of (lagging_db n) (key_counter COUNTER_NEXT_FILE_ID) = Some (encode_counter 1)"
  by (simp_all add: lagging_db_def counters_db_def key_simps tag_defs str_bytes_def)

lemma lagging_db_scan_snapshot [simp]:
  "mem_scan (lagging_db n) (prefix_for_tag TAG_SNAPSHOT) =
     [(key_snapshot 7, encode_value (pb_SnapshotRow mem_codecs) snapshot7)]"
  unfolding lagging_db_def
  by (rule mem_scan_one) (auto simp: key_simps list_all_iff counters_db_def tag_defs)

lemma lagging_db_scan_none:
  assumes "tag \<notin> {TAG_SNAPSHOT, TAG_SYSTEM, TAG_COUNTERS}"
  shows "mem_scan (lagging_db n) (tag # r) = []"
  by (rule mem_scan_none) (use assms in \<open>auto simp: list_all_iff lagging_db_def counters_db_def key_simps\<close>)

lemma lagging_db_scans [simp]:
  "mem_scan (lagging_db n) (prefix_for_tag TAG_SCHEMA) = []"
  "mem_scan (lagging_db n) (prefix_for_tag TAG_TABLE) = []"
  "mem_scan (lagging_db n) (prefix_for_tag TAG_COLUMN) = []"
  "mem_scan (lagging_db n) (prefix_for_tag TAG_DATA_FILE) = []"
  "mem_scan (lagging_db n) (prefix_for_tag TAG_TABLE_STATS) = []"
  "mem_scan (lagging_db n) [TAG_INLINED_ROWS, INLINED_SUBTYPE_INSERT] = []"
  unfolding prefix_for_tag_def by (rule lagging_db_scan_none; simp add: tag_defs)+

lemma lagging_plan:
  "repair_plan mem_slatedb mem_codecs (lagging_db 5) =
     Inr \<lparr>rp_actions = [FixCounter ''next_snapshot_id'' 5 8], rp_unrecoverable_errors = []\<rparr>"
proof -
  have "decode_value (pb_SnapshotRow mem_codecs) (encode_value (pb_SnapshotRow mem_codecs) snapshot7) = Inr snapshot7"
    using mem_codecs_ok by simp
  then show ?thesis
    by (simp add: repair_plan_def check_counter_consistency_def mem_read_rows row_decoder_def check_counter_def
        check_orphaned_inlined_rows_def check_dangling_stats_def check_critical_integrity_def valid_tables_def
        scan_rows_def max_from_def snapshot7_def Let_def db_get_def)
qed


lemma lagging_stored_row: "stored_row P (map_of (lagging_db n)) tag k x \<Longrightarrow>
    tag \<notin> {TAG_SNAPSHOT, TAG_SYSTEM, TAG_COUNTERS} \<Longrightarrow> False"
  by (auto simp: stored_row_def lagging_db_def counters_db_def key_simps split: if_splits)


section \<open>Extension tables\<close>


section \<open>Streaming\<close>

lemma mem_commit_batch:
  "\<exists>r store' db'. commit_batch mem_slatedb mem_codecs id ''now'' id \<lparr>offset_key = ''offset''\<rparr>
     [\<lparr>ir_key = ''k'', ir_value = [1, 2]\<rparr>] 5 None ''7'' None (opened_store ''n1'', opened_db ''n1'') =
     (Inr r, (store', db')) \<and> ig_records_committed r = 1"
proof -
  let ?store = "opened_store ''n1''" and ?db = "opened_db ''n1''"
  let ?recs = "[\<lparr>ir_key = ''k'', ir_value = [1, 2 :: u8]\<rparr>]"
  have g: "get_metadata mem_slatedb mem_codecs ?db Global 0 ''offset'' = Inr None"
    by (simp add: get_metadata_def read_row_def db_get_def opened_db_def key_simps tag_defs)
  obtain w where w: "bind (stage_records mem_codecs id 5 (CatalogWriter_schema_version (begin_write ?store))
        (offset_base ''7'' (length ?recs)) 0 ?recs) (\<lambda>_. set_metadata mem_codecs Global 0 ''offset'' ''7'') (begin_write ?store) = (Inr (), w)"
    and e: "w_writer_epoch w = 1" "w_writer_nonce w = ''n1''"
    by (simp add: register_inlined_insert_def MAX_INLINED_VALUE_SIZE_def Let_def ret_def set_metadata_def
        validate_app_metadata_key_def stage_def begin_write_def CatalogWriter_new_def opened_store_def)
  have m: "map_of ?db (key_system SYSTEM_WRITER_EPOCH) = Some (encode_counter 1)"
    "map_of ?db (key_system SYSTEM_WRITER_NONCE) = Some (str_bytes ''n1'')"
    by (simp_all add: opened_db_def key_simps tag_defs str_bytes_def)
  obtain c db' where c: "create_snapshot mem_slatedb mem_codecs ''now'' id None
      (Some (''streaming ingest batch: '' @ show_nat (length ?recs) @ '' records'')) (w, ?db) = (Inr c, (drained w, db'))"
    using mem_create_snapshot [of ?db w] m e by metis
  show ?thesis
    unfolding commit_batch_def prod.case Let_def RockLakeSink.select_convs g sum.case option.map w c by simp
qed

theorem streaming_exactly_once_witness:
  "\<exists>r store' db'. commit_batch mem_slatedb mem_codecs id ''now'' id \<lparr>offset_key = ''offset''\<rparr>
     [\<lparr>ir_key = ''k'', ir_value = [1, 2]\<rparr>] 5 None ''7'' None (opened_store ''n1'', opened_db ''n1'') =
     (Inr r, (store', db')) \<and> ig_records_committed r = 1 \<and>
     stored_offset mem_codecs (map_of db') ''offset'' = Some ''7''"
proof -
  obtain r store' db' where c: "commit_batch mem_slatedb mem_codecs id ''now'' id \<lparr>offset_key = ''offset''\<rparr>
     [\<lparr>ir_key = ''k'', ir_value = [1, 2]\<rparr>] 5 None ''7'' None (opened_store ''n1'', opened_db ''n1'') =
     (Inr r, (store', db'))" "ig_records_committed r = 1"
    using mem_commit_batch by blast
  from streaming_exactly_once [OF mem_slatedb_ok mem_slatedb_available mem_codecs_ok c(1)]
  have "stored_offset mem_codecs (map_of db') ''offset'' = Some ''7''" by simp
  with c show ?thesis by blast
qed

section \<open>The orphan sweep\<close>

text \<open>An object store that is the list of its object names, all last modified at time 0.\<close>

definition list_store :: "string list object_store" where
  "list_store =
     \<lparr>os_path_from = id,
      os_list = (\<lambda>os p. Inr (map (\<lambda>q. \<lparr>om_location = q, om_last_modified = 0\<rparr>) (filter (prefix p) os))),
      os_head = (\<lambda>os p. if p \<in> set os then Inr () else Inl ObjNotFound),
      os_delete = (\<lambda>os p. (Inr (), removeAll p os)),
      os_objects = set\<rparr>"

lemma list_store_ok: "object_store_ok list_store"
  by (auto simp: object_store_ok_def list_store_def)

lemma sweep_deletes_orphan:
  "orphaned_file_sweep mem_slatedb mem_codecs list_store [] [] 60 True 100 [''x.parquet'', ''notes.txt''] =
     (Inr \<lparr>ofs_orphaned_files = [''x.parquet''], ofs_deleted_files = [''x.parquet''], ofs_total_files_scanned = 1\<rparr>,
      [''notes.txt''])"
  by (simp add: orphaned_file_sweep_def collect_referenced_paths_def mem_read_rows mem_scan_def list_store_def
      is_data_file_def ends_with_def starts_with_def file_age_secs_def saturating_sub_def empty_sweep_def Let_def)

theorem orphan_sweep_safe_witness:
  "\<exists>r os'. orphaned_file_sweep mem_slatedb mem_codecs list_store [] [] 60 True 100 [''x.parquet'', ''notes.txt''] = (Inr r, os') \<and>
     ofs_orphaned_files r = [''x.parquet''] \<and> is_data_file ''x.parquet'' \<and> ''notes.txt'' \<in> set os'"
proof -
  note r = sweep_deletes_orphan
  from orphan_sweep_safe [OF list_store_ok mem_slatedb_ok r] have "is_data_file ''x.parquet''"
    "''notes.txt'' \<in> os_objects list_store [''notes.txt''] \<longleftrightarrow> ''notes.txt'' \<in> os_objects list_store [''x.parquet'', ''notes.txt'']"
    by auto
  then show ?thesis using r by (auto simp: list_store_def)
qed

text \<open>The paths of the catalog are compared with the names of the objects as they are stored: a file registered
  with a path relative to the data directory counts as an orphan and is deleted.\<close>

definition relative_file :: DataFileRow where
  "relative_file = \<lparr>df_data_file_id = 1, df_table_id = 1, df_path = ''x.parquet'', df_file_format = ''parquet'',
     df_record_count = 1, df_file_size_bytes = 1, df_footer_size = None, df_encryption_key = None,
     df_begin_snapshot = Some 1, df_end_snapshot = None, df_file_order = None, df_path_is_relative = Some True,
     df_row_id_start = None, df_partition_id = None, df_mapping_id = None, df_partial_max = None\<rparr>"

lemma sweep_deletes_relative_file:
  "\<exists>r. orphaned_file_sweep mem_slatedb mem_codecs list_store
     [(key_data_file 1 1, encode_value (pb_DataFileRow mem_codecs) relative_file)] ''data/'' 60 True 100 [''data/x.parquet''] = (Inr r, [])"
proof -
  have "decode_value (pb_DataFileRow mem_codecs) (encode_value (pb_DataFileRow mem_codecs) relative_file) = Inr relative_file"
    using mem_codecs_ok by simp
  moreover have "mem_scan [(key_data_file 1 1, v)] (prefix_for_tag TAG_DATA_FILE) = [(key_data_file 1 1, v)]" for v
    by (rule mem_scan_one) (auto simp: key_simps)
  moreover have "mem_scan [(key_data_file 1 1, v)] (prefix_for_tag TAG_DELETE_FILE) = []" for v
    by (rule mem_scan_none) (auto simp: key_simps tag_defs)
  ultimately show ?thesis
    by (simp add: orphaned_file_sweep_def collect_referenced_paths_def mem_read_rows list_store_def row_decoder_def
        relative_file_def is_data_file_def ends_with_def starts_with_def file_age_secs_def saturating_sub_def
        empty_sweep_def Let_def)
qed

section \<open>Change capture\<close>

definition schema1 :: SchemaRow where
  "schema1 = \<lparr>sr_schema_id = 1, sr_schema_name = ''s'', sr_begin_snapshot = 1, sr_end_snapshot = None,
     sr_schema_uuid = None, sr_path = None, sr_path_is_relative = None\<rparr>"

definition schema1_db :: mem_db where
  "schema1_db = [(key_schema 1, encode_value (pb_SchemaRow mem_codecs) schema1)]"

definition store_at1 :: CatalogStore where
  "store_at1 = \<lparr>cs_counters = CounterCache_new 2 2 1, cs_writer_epoch = 1, cs_writer_nonce = ''n1'',
      cs_schema_version = 0, cs_retain_from_cache = 0\<rparr>"

lemma schema1_scans [simp]:
  "mem_scan schema1_db (prefix_for_tag TAG_SCHEMA) = [(key_schema 1, encode_value (pb_SchemaRow mem_codecs) schema1)]"
  "mem_scan schema1_db (prefix_for_tag TAG_TABLE) = []" "mem_scan schema1_db (prefix_for_tag TAG_COLUMN) = []"
  "mem_scan schema1_db (prefix_for_tag TAG_DATA_FILE) = []"
  unfolding schema1_db_def
  by (rule mem_scan_one; simp add: key_simps) (rule mem_scan_none; simp add: key_simps tag_defs)+

theorem cdc_exactly_once_witness:
  "\<exists>events t'. poll_run mem_slatedb mem_codecs [(store_at1, schema1_db), (store_at1, schema1_db)]
       (CdcTailer_new (SnapshotId 0) ''w'') = (Inr events, t') \<and>
     ct_last_exported t' = SnapshotId 1 \<and> length (filter (is_schema_add 1 ''s'' 1) events) = 1"
proof -
  have d: "decode_value (pb_SchemaRow mem_codecs) (encode_value (pb_SchemaRow mem_codecs) schema1) = Inr schema1"
    using mem_codecs_ok by simp
  have latest: "rd_dl_snapshot_id (read_latest store_at1) = SnapshotId 1"
    by (simp add: read_latest_def store_at1_def counter_defs SnapshotId_new_def)
  have rows: "read_rows mem_slatedb (pb_SchemaRow mem_codecs) schema1_db (prefix_for_tag TAG_SCHEMA) (\<lambda>_. True) = Inr [schema1]"
    by (simp add: mem_read_rows row_decoder_def d)
  obtain events t' where r: "poll_run mem_slatedb mem_codecs [(store_at1, schema1_db), (store_at1, schema1_db)]
       (CdcTailer_new (SnapshotId 0) ''w'') = (Inr events, t')" and t': "ct_last_exported t' = SnapshotId 1"
  proof -
    let ?t = "\<lparr>ct_last_exported = SnapshotId 1, ct_warehouse_prefix = ''w''\<rparr>"
    have "\<exists>out. poll_once mem_slatedb mem_codecs store_at1 schema1_db (CdcTailer_new (SnapshotId 0) ''w'') = (Inr out, ?t)"
      by (simp add: poll_once_def CdcTailer_new_def latest snapshot_diff_def mem_read_rows row_decoder_def d Let_def as_u64_def)
    moreover have "poll_once mem_slatedb mem_codecs store_at1 schema1_db ?t = (Inr None, ?t)"
      by (simp add: poll_once_def latest Let_def)
    ultimately show thesis using that by (auto simp: bind_def ret_def)
  qed
  have "length (filter (is_schema_add 1 ''s'' 1) events) = 1"
    using cdc_exactly_once [OF r, of 1 1 "''s''"] rows t'
    by (simp add: CdcTailer_new_def as_u64_def is_version_def schema1_def)
  with r t' show ?thesis by blast
qed

section \<open>The dataset registry\<close>

definition sales :: DatasetEntry where
  "sales = \<lparr>de_name = ''sales'', de_catalog_path = ''s3://b/sales'', de_description = None, de_created_at = ''now''\<rparr>"

text \<open>A JSON library that knows one document.\<close>

definition sales_json :: "DatasetEntry json_codec" where
  "sales_json = \<lparr>js_print = (\<lambda>e. if e = sales then Inr ''{sales}'' else Inl ''unknown''),
     js_parse = (\<lambda>s. if s = ''{sales}'' then Inr sales else Inl ''unknown'')\<rparr>"

theorem registry_refines_map_witness:
  "\<exists>store' db'. register_dataset mem_slatedb mem_codecs sales_json ''now'' id sales
       (opened_store ''n1'', opened_db ''n1'') = (Inr (), (store', db')) \<and>
     dataset_at mem_codecs sales_json (map_of db') ''sales'' = Some sales"
proof -
  let ?v = "encode_value (pb_MetadataRow mem_codecs) (dataset_row ''sales'' ''{sales}'')"
  let ?db = "(dataset_key ''sales'', ?v) # opened_db ''n1''"
  let ?w = "begin_write (opened_store ''n1'')"
  have J: "json_ok sales_json" by (simp add: json_ok_def sales_json_def)
  have m: "map_of ?db (key_system SYSTEM_WRITER_EPOCH) = Some (encode_counter (w_writer_epoch ?w))"
    "map_of ?db (key_system SYSTEM_WRITER_NONCE) = Some (str_bytes (w_writer_nonce ?w))"
    by (simp_all add: opened_db_def key_simps tag_defs str_bytes_def dataset_key_def begin_write_def
        CatalogWriter_new_def opened_store_def)
  obtain c db' where "create_snapshot mem_slatedb mem_codecs ''now'' id (Some ''registry'')
      (Some (''register dataset: '' @ ''sales'')) (?w, ?db) = (Inr c, (drained ?w, db'))"
    using mem_create_snapshot [OF m] by blast
  moreover have "de_name sales = ''sales''" "js_print sales_json sales = Inr ''{sales}''"
    by (simp_all add: sales_def sales_json_def)
  ultimately obtain store' where r: "register_dataset mem_slatedb mem_codecs sales_json ''now'' id sales
       (opened_store ''n1'', opened_db ''n1'') = (Inr (), (store', db'))"
    by (simp add: register_dataset_def store_put_def db_put_def commit_registry_def lift_def bind_def)
  then have "dataset_at mem_codecs sales_json (map_of db') ''sales'' = Some sales"
    using registry_refines_map [OF mem_slatedb_ok mem_codecs_ok J, of id "''now''" sales] by (auto simp: sales_def)
  with r show ?thesis by blast
qed

end
