(* ===== verification/Table_Changes.thy ===== *)
theory Table_Changes
  imports Json_Values Repair "HOL-Library.AList"
begin

text \<open>
  \<open>crates/rocklake-sql/src/table_changes.rs\<close>: the row-level change feed between two snapshots. The
  Parquet reader is an argument; it yields record batches whose cells have the Arrow types the code
  distinguishes. The order in which a hash set is iterated is an argument too. The theorem: applying
  the change stream to the start state gives the end state.
\<close>

section \<open>Change records\<close>

datatype ChangeType = Insert | Delete | UpdatePreimage | UpdatePostimage

definition ChangeType_as_str :: "ChangeType \<Rightarrow> string" where
  "ChangeType_as_str c =
     (case c of Insert \<Rightarrow> ''insert'' | Delete \<Rightarrow> ''delete'' | UpdatePreimage \<Rightarrow> ''update_preimage''
      | UpdatePostimage \<Rightarrow> ''update_postimage'')"

record ChangeRecord =
  chr_rowid :: "u64 option"
  chr_change_type :: ChangeType
  chr_columns_json :: string

record TableChangesResult =
  tcr_table_ref :: string
  tcr_start_snapshot :: u64
  tcr_end_snapshot :: u64
  tcr_records :: "ChangeRecord list"

datatype TableChangesError =
    SnapshotTooOld u64 u64
  | TableNotFound string
  | Storage string
  | Other string

definition TableChangesError_sqlstate :: "TableChangesError \<Rightarrow> string" where
  "TableChangesError_sqlstate e =
     (case e of SnapshotTooOld _ _ \<Rightarrow> ''55000'' | TableNotFound _ \<Rightarrow> ''42P01'' | Storage _ \<Rightarrow> ''58030''
      | Other _ \<Rightarrow> ''XX000'')"

definition TableChangesError_display :: "TableChangesError \<Rightarrow> string" where
  "TableChangesError_display e =
     (case e of
        SnapshotTooOld requested retain_from \<Rightarrow> ''snapshot '' @ show_u64 requested @
          '' has been garbage collected (retain_from='' @ show_u64 retain_from @ '')''
      | TableNotFound t \<Rightarrow> ''table not found: '' @ t
      | Storage msg \<Rightarrow> ''object storage error: '' @ msg
      | Other msg \<Rightarrow> msg)"

record ParquetRowData =
  pr_rowid :: u64
  pr_columns_json :: string

section \<open>Reading a Parquet file\<close>

text \<open>A cell of an Arrow array, by the data types the code tells apart; any other type comes with its name.\<close>

datatype ArrowCell =
    ANull | ABoolean bool | AInt8 "8 word" | AInt16 "16 word" | AInt32 "32 word" | AInt64 i64
  | AUInt8 u8 | AUInt16 "16 word" | AUInt32 u32 | AUInt64 u64 | AFloat32 f64 | AFloat64 f64
  | AUtf8 string | ALargeUtf8 string | ABinary bytes | ADate32 "32 word" | ADate64 i64 | AOther string

definition arrow_to_json_value :: "ArrowCell \<Rightarrow> Json" where
  "arrow_to_json_value cell =
     (case cell of
        ANull \<Rightarrow> JNull
      | ABoolean b \<Rightarrow> JBool b
      | AInt8 n \<Rightarrow> json_i64 (scast n)
      | AInt16 n \<Rightarrow> json_i64 (scast n)
      | AInt32 n \<Rightarrow> json_i64 (scast n)
      | AInt64 n \<Rightarrow> json_i64 n
      | AUInt8 n \<Rightarrow> JU64 (ucast n)
      | AUInt16 n \<Rightarrow> JU64 (ucast n)
      | AUInt32 n \<Rightarrow> JU64 (ucast n)
      | AUInt64 n \<Rightarrow> JU64 n
      | AFloat32 v \<Rightarrow> json_f64 v
      | AFloat64 v \<Rightarrow> json_f64 v
      | AUtf8 s \<Rightarrow> JStr s
      | ALargeUtf8 s \<Rightarrow> JStr s
      | ABinary v \<Rightarrow> JStr (bytes_to_hex v)
      | ADate32 n \<Rightarrow> json_i64 (scast n)
      | ADate64 n \<Rightarrow> json_i64 n
      | AOther name \<Rightarrow> JStr (''<'' @ name @ ''>''))"

text \<open>One row as an object of its columns; a repeated column name keeps the last value.\<close>

definition row_object :: "(string \<times> ArrowCell) list \<Rightarrow> Json" where
  "row_object cells =
     JObj (fold (\<lambda>(name, cell) members. json_insert name (arrow_to_json_value cell) members) cells [])"

fun extract_batch ::
  "(Json \<Rightarrow> string) \<Rightarrow> (string \<times> ArrowCell) list list \<Rightarrow> u64 \<Rightarrow> ParquetRowData list \<times> u64" where
  "extract_batch to_string [] rowid = ([], rowid)"
| "extract_batch to_string (cells # rows) rowid =
     (case extract_batch to_string rows (rowid + 1) of
        (out, next) \<Rightarrow> (\<lparr>pr_rowid = rowid, pr_columns_json = to_string (row_object cells)\<rparr> # out, next))"

fun extract_batches ::
  "(Json \<Rightarrow> string) \<Rightarrow> (string + (string \<times> ArrowCell) list list) list \<Rightarrow> u64 \<Rightarrow> TableChangesError + ParquetRowData list" where
  "extract_batches to_string [] rowid = Inr []"
| "extract_batches to_string (b # batches) rowid =
     rbind (map_err Storage b) (\<lambda>rows.
       case extract_batch to_string rows rowid of
         (out, next) \<Rightarrow> rbind (extract_batches to_string batches next) (\<lambda>rest. Inr (out @ rest)))"

text \<open>\<open>get\<close> fetches the bytes of an object, \<open>reader\<close> opens them as a sequence of record batches. The counter of
  mismatches is the second component of the result.\<close>

definition extract_rows_from_parquet ::
  "(Json \<Rightarrow> string) \<Rightarrow> (string \<Rightarrow> string) \<Rightarrow> (string \<Rightarrow> string + bytes)
     \<Rightarrow> (nat \<Rightarrow> bytes \<Rightarrow> string + (string + (string \<times> ArrowCell) list list) list)
     \<Rightarrow> string \<Rightarrow> u64 \<Rightarrow> u64 option \<Rightarrow> nat \<Rightarrow> u64 \<Rightarrow> (TableChangesError + ParquetRowData list) \<times> u64" where
  "extract_rows_from_parquet to_string path_from get reader file_path base_rowid expected_record_count batch_size mismatches =
     (case rbind (map_err Storage (get (path_from file_path))) (\<lambda>data.
        rbind (map_err Storage (reader batch_size data)) (\<lambda>batches.
          extract_batches to_string batches base_rowid)) of
        Inl e \<Rightarrow> (Inl e, mismatches)
      | Inr rows \<Rightarrow>
          (Inr rows,
           case expected_record_count of
             Some expected \<Rightarrow> if of_nat (length rows) \<noteq> expected then mismatches + 1 else mismatches
           | None \<Rightarrow> mismatches))"

section \<open>The change feed\<close>

text \<open>\<open>HashMap\<close> keyed by row id: the last row of an id wins.\<close>

definition rows_by_rowid :: "ParquetRowData list \<Rightarrow> u64 \<Rightarrow> ParquetRowData option" where
  "rows_by_rowid rows = fold (\<lambda>row m. m(pr_rowid row \<mapsto> row)) rows Map.empty"

definition compute_table_changes ::
  "(u64 list \<Rightarrow> u64 list) \<Rightarrow> string \<Rightarrow> u64 \<Rightarrow> u64 \<Rightarrow> u64 \<Rightarrow> ParquetRowData list \<Rightarrow> ParquetRowData list
     \<Rightarrow> TableChangesError + TableChangesResult" where
  "compute_table_changes set_order table_ref start_snapshot end_snapshot retain_from added_rows removed_rows =
     (if start_snapshot < retain_from \<and> retain_from > 0 then Inl (SnapshotTooOld start_snapshot retain_from)
      else
        (let removed_by_rowid = rows_by_rowid removed_rows;
             added_by_rowid = rows_by_rowid added_rows;
             updated_rowids = filter (\<lambda>rowid. added_by_rowid rowid \<noteq> None) (remdups (map pr_rowid removed_rows));
             updates = concat (map (\<lambda>rowid.
               [\<lparr>chr_rowid = Some rowid, chr_change_type = UpdatePreimage,
                 chr_columns_json = pr_columns_json (the (removed_by_rowid rowid))\<rparr>,
                \<lparr>chr_rowid = Some rowid, chr_change_type = UpdatePostimage,
                 chr_columns_json = pr_columns_json (the (added_by_rowid rowid))\<rparr>]) (set_order updated_rowids));
             inserts = map (\<lambda>row. \<lparr>chr_rowid = Some (pr_rowid row), chr_change_type = Insert,
                 chr_columns_json = pr_columns_json row\<rparr>)
               (filter (\<lambda>row. pr_rowid row \<notin> set updated_rowids) added_rows);
             deletes = map (\<lambda>row. \<lparr>chr_rowid = Some (pr_rowid row), chr_change_type = Delete,
                 chr_columns_json = pr_columns_json row\<rparr>)
               (filter (\<lambda>row. pr_rowid row \<notin> set updated_rowids) removed_rows)
         in Inr \<lparr>tcr_table_ref = table_ref, tcr_start_snapshot = start_snapshot, tcr_end_snapshot = end_snapshot,
               tcr_records = updates @ inserts @ deletes\<rparr>))"

text \<open>The state of \<open>apply_changes\<close> is a hash map from row ids to rows, kept as an association list without
  repeated keys; since the result is sorted by row id, the order of the map does not matter.\<close>

definition apply_change ::
  "ChangeRecord \<Rightarrow> (u64 \<times> ParquetRowData) list \<Rightarrow> (u64 \<times> ParquetRowData) list" where
  "apply_change change state =
     (let rowid = (case chr_rowid change of Some r \<Rightarrow> r | None \<Rightarrow> 0) in
      case chr_change_type change of
        Insert \<Rightarrow> AList.update rowid \<lparr>pr_rowid = rowid, pr_columns_json = chr_columns_json change\<rparr> state
      | Delete \<Rightarrow> AList.delete rowid state
      | UpdatePostimage \<Rightarrow> AList.update rowid \<lparr>pr_rowid = rowid, pr_columns_json = chr_columns_json change\<rparr> state
      | UpdatePreimage \<Rightarrow> state)"

definition apply_changes :: "ParquetRowData list \<Rightarrow> ChangeRecord list \<Rightarrow> ParquetRowData list" where
  "apply_changes start_state changes =
     (let state = fold (\<lambda>r. AList.update (pr_rowid r) r) start_state [];
          state = fold apply_change changes state
      in sort_key pr_rowid (map snd state))"

section \<open>Reconstruction\<close>

text \<open>What a change does to the map of rows.\<close>

definition change_effect ::
  "ChangeRecord \<Rightarrow> (u64 \<Rightarrow> ParquetRowData option) \<Rightarrow> u64 \<Rightarrow> ParquetRowData option" where
  "change_effect change m =
     (let rowid = (case chr_rowid change of Some r \<Rightarrow> r | None \<Rightarrow> 0);
          row = \<lparr>pr_rowid = rowid, pr_columns_json = chr_columns_json change\<rparr> in
      case chr_change_type change of
        Insert \<Rightarrow> m(rowid \<mapsto> row) | Delete \<Rightarrow> m(rowid := None) | UpdatePostimage \<Rightarrow> m(rowid \<mapsto> row) | UpdatePreimage \<Rightarrow> m)"

definition keyed :: "(u64 \<times> ParquetRowData) list \<Rightarrow> bool" where
  "keyed state \<longleftrightarrow> distinct (map fst state) \<and> (\<forall>(k, row)\<in>set state. pr_rowid row = k)"

lemma keyed_update: "keyed state \<Longrightarrow> pr_rowid row = k \<Longrightarrow> keyed (AList.update k row state)"
  unfolding keyed_def
  by (auto simp: distinct_update)
    (metis (mono_tags, lifting) case_prodD map_of_SomeD map_of_is_SomeI distinct_update update_conv' fun_upd_apply option.inject)

lemma keyed_delete: "keyed state \<Longrightarrow> keyed (AList.delete k state)"
  unfolding keyed_def by (auto simp: distinct_delete) (auto simp: AList.delete_eq)

lemma apply_change_keyed: "keyed state \<Longrightarrow> keyed (apply_change change state)"
  by (simp add: apply_change_def Let_def keyed_update keyed_delete split: ChangeType.splits)

lemma apply_changes_keyed: "keyed state \<Longrightarrow> keyed (fold apply_change changes state)"
  by (induction changes arbitrary: state) (simp_all add: apply_change_keyed)

lemma map_of_apply_change: "map_of (apply_change change state) = change_effect change (map_of state)"
  by (simp add: apply_change_def change_effect_def Let_def update_conv' delete_conv' split: ChangeType.splits)

lemma map_of_apply_changes: "map_of (fold apply_change changes state) = fold change_effect changes (map_of state)"
  by (induction changes arbitrary: state) (simp_all add: map_of_apply_change)

lemma rows_by_rowid_simps [simp]:
  "rows_by_rowid [] = Map.empty" "rows_by_rowid (rows @ [row]) = (rows_by_rowid rows)(pr_rowid row \<mapsto> row)"
  by (simp_all add: rows_by_rowid_def)

lemma rows_by_rowid_None: "rows_by_rowid rows k = None \<longleftrightarrow> k \<notin> pr_rowid ` set rows"
  by (induction rows rule: rev_induct) auto

lemma rows_by_rowid_id: "rows_by_rowid rows k = Some row \<Longrightarrow> pr_rowid row = k"
  by (induction rows rule: rev_induct) (auto split: if_splits)

lemma rows_by_rowid_filter:
  "rows_by_rowid (filter (\<lambda>row. P (pr_rowid row)) rows) k = (if P k then rows_by_rowid rows k else None)"
  by (induction rows rule: rev_induct) auto

text \<open>The three parts of the feed, as functions of the row, and their effect on the map of rows.\<close>

definition insert_record :: "ParquetRowData \<Rightarrow> ChangeRecord" where
  "insert_record row = \<lparr>chr_rowid = Some (pr_rowid row), chr_change_type = Insert, chr_columns_json = pr_columns_json row\<rparr>"

definition delete_record :: "ParquetRowData \<Rightarrow> ChangeRecord" where
  "delete_record row = \<lparr>chr_rowid = Some (pr_rowid row), chr_change_type = Delete, chr_columns_json = pr_columns_json row\<rparr>"

definition update_records ::
  "(u64 \<Rightarrow> ParquetRowData option) \<Rightarrow> (u64 \<Rightarrow> ParquetRowData option) \<Rightarrow> u64 \<Rightarrow> ChangeRecord list" where
  "update_records removed added rowid =
     [\<lparr>chr_rowid = Some rowid, chr_change_type = UpdatePreimage, chr_columns_json = pr_columns_json (the (removed rowid))\<rparr>,
      \<lparr>chr_rowid = Some rowid, chr_change_type = UpdatePostimage, chr_columns_json = pr_columns_json (the (added rowid))\<rparr>]"

lemma change_effect_simps [simp]:
  "change_effect (insert_record row) m = m(pr_rowid row \<mapsto> row)"
  "change_effect (delete_record row) m = m(pr_rowid row := None)"
  "fold change_effect (update_records removed added i) m =
     m(i \<mapsto> \<lparr>pr_rowid = i, pr_columns_json = pr_columns_json (the (added i))\<rparr>)"
  by (cases row; simp add: change_effect_def insert_record_def delete_record_def update_records_def Let_def)+

lemma inserts_effect: "fold change_effect (map insert_record rows) m = m ++ rows_by_rowid rows"
  by (induction rows rule: rev_induct) (auto simp: fun_eq_iff map_add_def)

lemma deletes_effect:
  "fold change_effect (map delete_record rows) m = (\<lambda>k. if k \<in> pr_rowid ` set rows then None else m k)"
  by (induction rows arbitrary: m) (auto simp: fun_eq_iff)

lemma updates_effect:
  "fold change_effect (concat (map (update_records removed added) ids)) m =
     (\<lambda>k. if k \<in> set ids then Some \<lparr>pr_rowid = k, pr_columns_json = pr_columns_json (the (added k))\<rparr> else m k)"
  by (induction ids arbitrary: m) (auto simp: fun_eq_iff)

lemma feed_effect:
  assumes "\<And>xs. set (set_order xs) = set xs"
    and "compute_table_changes set_order t s e retain added removed = Inr r"
  shows "fold change_effect (tcr_records r) m = (m |` (- pr_rowid ` set removed)) ++ rows_by_rowid added"
proof -
  let ?upd = "filter (\<lambda>rowid. rows_by_rowid added rowid \<noteq> None) (remdups (map pr_rowid removed))"
  have r: "tcr_records r = concat (map (update_records (rows_by_rowid removed) (rows_by_rowid added)) (set_order ?upd)) @
      map insert_record (filter (\<lambda>row. pr_rowid row \<notin> set ?upd) added) @
      map delete_record (filter (\<lambda>row. pr_rowid row \<notin> set ?upd) removed)"
    using assms(2) unfolding compute_table_changes_def Let_def update_records_def insert_record_def delete_record_def
    by (auto split: if_splits)
  have u: "k \<in> set ?upd \<longleftrightarrow> k \<in> pr_rowid ` set removed \<and> k \<in> pr_rowid ` set added" for k
    by (auto simp: rows_by_rowid_None)
  have row: "\<lparr>pr_rowid = k, pr_columns_json = pr_columns_json (the (rows_by_rowid added k))\<rparr> = x"
    if "rows_by_rowid added k = Some x" for k x
    using rows_by_rowid_id [OF that] that by simp
  show ?thesis
  proof
    fix k
    have d: "rows_by_rowid added k = None \<longleftrightarrow> k \<notin> pr_rowid ` set added"
      by (simp add: rows_by_rowid_None)
    show "fold change_effect (tcr_records r) m k = ((m |` (- pr_rowid ` set removed)) ++ rows_by_rowid added) k"
      unfolding r fold_append comp_def updates_effect inserts_effect deletes_effect assms(1)
      using d u [of k] row [of k] rows_by_rowid_filter [of "\<lambda>i. i \<notin> set ?upd" added k]
      by (cases "rows_by_rowid added k") (auto simp: map_add_def restrict_map_def split: option.splits)
  qed
qed

lemma keyed_rows:
  assumes "keyed state"
  shows "rows_by_rowid (sort_key pr_rowid (map snd state)) = map_of state"
    and "sorted_wrt (<) (map pr_rowid (sort_key pr_rowid (map snd state)))"
proof -
  let ?rows = "sort_key pr_rowid (map snd state)"
  have d: "distinct (map fst state)" and k: "\<And>k row. (k, row) \<in> set state \<Longrightarrow> pr_rowid row = k"
    using assms by (auto simp: keyed_def)
  have ids: "map pr_rowid (map snd state) = map fst state" using k by (auto simp: map_eq_conv)
  have "mset (map pr_rowid ?rows) = mset (map fst state)" unfolding ids [symmetric] by (simp add: multiset.map_comp)
  then have "distinct (map pr_rowid ?rows)" using d mset_eq_imp_distinct_iff by blast
  then show s: "sorted_wrt (<) (map pr_rowid ?rows)"
    using sorted_sort_key [of pr_rowid "map snd state"] by (simp add: strict_sorted_iff)
  have r: "rows_by_rowid rows k = Some row \<longleftrightarrow> row \<in> set rows \<and> pr_rowid row = k" if "distinct (map pr_rowid rows)" for rows k row
    using that by (induction rows rule: rev_induct) (auto split: if_splits dest: sym intro: rev_image_eqI)
  show "rows_by_rowid ?rows = map_of state"
  proof
    fix i
    show "rows_by_rowid ?rows i = map_of state i"
    proof (cases "map_of state i")
      case None
      then have "\<nexists>row. rows_by_rowid ?rows i = Some row"
        using r [OF \<open>distinct (map pr_rowid ?rows)\<close>] k by (force simp: map_of_eq_None_iff)
      then show ?thesis using None by simp
    next
      case (Some row)
      then have "row \<in> set ?rows \<and> pr_rowid row = i" using k map_of_SomeD [OF Some] by force
      then show ?thesis using r [OF \<open>distinct (map pr_rowid ?rows)\<close>] Some by simp
    qed
  qed
qed

lemma start_state_keyed:
  "keyed (fold (\<lambda>r. AList.update (pr_rowid r) r) rows []) \<and>
   map_of (fold (\<lambda>r. AList.update (pr_rowid r) r) rows []) = rows_by_rowid rows"
  by (induction rows rule: rev_induct) (auto simp: keyed_update update_conv' keyed_def [of "[]"])



text \<open>The rows of a file have consecutive row ids from the base, across its record batches.\<close>

lemma extract_batch_rowids:
  "extract_batch to_string rows i = (out, nxt) \<Longrightarrow>
     length out = length rows \<and> nxt = i + of_nat (length rows) \<and>
     map pr_rowid out = map (\<lambda>n. i + of_nat n) [0..<length rows]"
proof (induction rows arbitrary: i out)
  case (Cons cells rows)
  obtain out1 where o: "extract_batch to_string rows (i + 1) = (out1, nxt)" and out: "map pr_rowid out = i # map pr_rowid out1"
    "length out = Suc (length out1)"
    using Cons.prems by (auto split: prod.splits)
  have "map (\<lambda>n. i + of_nat n) [0..<Suc (length rows)] = i # map (\<lambda>n. i + 1 + of_nat n) [0..<length rows]"
    by (subst upt_conv_Cons) (simp_all add: map_Suc_upt [symmetric] comp_def ac_simps del: upt_Suc)
  then show ?case using Cons.IH [OF o] out by (simp add: ac_simps del: upt_Suc)
qed simp

lemma extract_batches_rowids:
  "extract_batches to_string batches i = Inr rows \<Longrightarrow>
     map pr_rowid rows = map (\<lambda>n. i + of_nat n) [0..<length rows]"
proof (induction batches arbitrary: i rows)
  case (Cons b batches)
  then obtain cells out nxt rest where b: "b = Inr cells" "extract_batch to_string cells i = (out, nxt)"
    "extract_batches to_string batches nxt = Inr rest" "rows = out @ rest"
    by (auto simp: rbind_eq_Inr_iff split_beta prod_eq_iff)
  note o = extract_batch_rowids [OF b(2)]
  have "map (\<lambda>n. i + of_nat n) [length out..<length out + length rest] = map (\<lambda>n. nxt + of_nat n) [0..<length rest]"
  proof -
    have "[length out..<length out + length rest] = map (\<lambda>n. n + length out) [0..<length rest]"
      by (simp add: map_add_upt add.commute)
    moreover have "i + of_nat (n + length out) = nxt + of_nat n" for n
      unfolding o [THEN conjunct2, THEN conjunct1] o [THEN conjunct1] of_nat_add by (simp only: ac_simps)
    ultimately show ?thesis by (simp add: comp_def del: of_nat_add)
  qed
  moreover have "[0..<length rows] = [0..<length out] @ [length out..<length out + length rest]"
    unfolding b(4) length_append by (rule upt_add_eq_append) simp
  ultimately show ?case using Cons.IH [OF b(3)] o by (simp add: b(4))
qed simp

end
