(* ===== verification/Type_Names.thy ===== *)
theory Type_Names
  imports Ducklake_Types
begin

text \<open>
  The type parser of \<open>crates/rocklake-core/src/types.rs\<close> against the grammar of type names:
  \<open>type_name\<close> writes a type in the canonical spelling of the DuckLake specification, and
  \<open>parse\<close> reads it again, for every nesting of lists, structs and maps. The one exception is
  part of the statement: a decimal with arguments inside a struct or a map, whose comma the
  splitter takes for a separator.
\<close>

section \<open>Canonical names\<close>

definition primitive_name :: "DuckLakeType \<Rightarrow> string option" where
  "primitive_name t = map_option (\<lambda>(names, _). hd names) (find (\<lambda>(_, u). u = t) primitive_types)"

fun join :: "char \<Rightarrow> string list \<Rightarrow> string" where
  "join c [] = []"
| "join c [s] = s"
| "join c (s # t # ss) = s @ c # join c (t # ss)"

fun type_name :: "DuckLakeType \<Rightarrow> string" where
  "type_name (List t) = ''list<'' @ type_name t @ ''>''"
| "type_name (Struct fs) = ''struct<'' @ join CHR '','' (map (\<lambda>(n, t). n @ '':'' @ type_name t) fs) @ ''>''"
| "type_name (Map k v) = ''map<'' @ type_name k @ '','' @ type_name v @ ''>''"
| "type_name (Decimal p s) = ''decimal('' @ show_nat (unat p) @ '','' @ show_nat (unat s) @ '')''"
| "type_name t = (case primitive_name t of Some n \<Rightarrow> n | None \<Rightarrow> [])"

definition field_name :: "string \<Rightarrow> bool" where
  "field_name n \<longleftrightarrow> n \<noteq> [] \<and> solid (hd n) \<and> solid (last n) \<and>
     list_all (\<lambda>c. c \<notin> {CHR '','', CHR '':'', CHR ''<'', CHR ''>''}) n"

text \<open>\<open>named inner t\<close>: the type has a canonical name, and no decimal with arguments where
  \<open>inner\<close> says that the name is part of a struct or map.\<close>

fun named :: "bool \<Rightarrow> DuckLakeType \<Rightarrow> bool" where
  "named inner (List t) = named inner t"
| "named inner (Struct fs) = (\<forall>(n, t) \<in> set fs. field_name n \<and> named True t)"
| "named inner (Map k v) = (named True k \<and> named True v)"
| "named inner (Decimal p s) = (\<not> inner)"
| "named inner t = (primitive_name t \<noteq> None)"

section \<open>Primitive names\<close>

definition primitive_ok :: "string \<Rightarrow> DuckLakeType \<Rightarrow> bool" where
  "primitive_ok n t \<longleftrightarrow>
     n \<noteq> [] \<and> list_all (\<lambda>c. ascii_lower_char c = c) n \<and> solid (hd n) \<and> solid (last n) \<and>
     list_all (\<lambda>c. c \<notin> {CHR '','', CHR ''<'', CHR ''>'', CHR ''(''}) n \<and> parse_primitive n = t"

lemma primitive_types_ok: "list_all (\<lambda>(names, t). case find (\<lambda>(_, u). u = t) primitive_types of
    Some (ns, _) \<Rightarrow> primitive_ok (hd ns) t | None \<Rightarrow> True) primitive_types"
  by code_simp

lemma primitive_name_ok: "primitive_name t = Some n \<Longrightarrow> primitive_ok n t"
proof -
  assume "primitive_name t = Some n"
  then obtain ns u where f: "find (\<lambda>(_, u). u = t) primitive_types = Some (ns, u)" and n: "n = hd ns"
    by (auto simp: primitive_name_def)
  then have "(ns, u) \<in> set primitive_types" "u = t"
    by (auto simp: find_Some_iff) (metis nth_mem)
  then show "primitive_ok n t"
    using primitive_types_ok f n by (fastforce simp: list_all_iff)
qed

definition compound :: "DuckLakeType \<Rightarrow> bool" where
  "compound t \<longleftrightarrow>
     (case t of List _ \<Rightarrow> True | Struct _ \<Rightarrow> True | Map _ _ \<Rightarrow> True | Decimal _ _ \<Rightarrow> True | _ \<Rightarrow> False)"

lemma type_name_primitive:
  assumes "named inner t" and "\<not> compound t"
  shows "primitive_ok (type_name t) t"
proof -
  have "primitive_name t \<noteq> None"
    using assms by (cases t) (auto simp: compound_def)
  then obtain n where n: "primitive_name t = Some n" by blast
  moreover have "type_name t = n"
    using assms n by (cases t) (auto simp: compound_def)
  ultimately show ?thesis by (simp add: primitive_name_ok)
qed

lemma primitive_whole: "named inner t \<Longrightarrow> \<not> compound t \<Longrightarrow>
    list_all (\<lambda>c. c \<notin> {CHR '','', CHR ''<'', CHR ''>''}) (type_name t)"
  using type_name_primitive [of inner t] by (auto simp: primitive_ok_def list_all_iff)

section \<open>Splitting at the top level\<close>

text \<open>Texts the splitter passes over, at every depth or at every depth but the top.\<close>

definition whole :: "string \<Rightarrow> bool" where
  "whole s \<longleftrightarrow> (\<forall>d cur rest. split_top_level_loop CHR '','' d cur (s @ rest) =
     split_top_level_loop CHR '','' d (cur @ s) rest)"

definition nested_whole :: "string \<Rightarrow> bool" where
  "nested_whole s \<longleftrightarrow> (\<forall>d cur rest. split_top_level_loop CHR '','' (Suc d) cur (s @ rest) =
     split_top_level_loop CHR '','' (Suc d) (cur @ s) rest)"

lemma whole_append: "whole s \<Longrightarrow> whole t \<Longrightarrow> whole (s @ t)"
  by (simp add: whole_def)

lemma nested_whole_append: "nested_whole s \<Longrightarrow> nested_whole t \<Longrightarrow> nested_whole (s @ t)"
  by (simp add: nested_whole_def)

lemma whole_nested: "whole s \<Longrightarrow> nested_whole s"
  by (simp add: whole_def nested_whole_def)

lemma whole_plain: "list_all (\<lambda>c. c \<notin> {CHR '','', CHR ''<'', CHR ''>''}) s \<Longrightarrow> whole s"
  by (induction s) (auto simp: whole_def)

lemma whole_brackets: "nested_whole s \<Longrightarrow> whole (''<'' @ s @ ''>'')"
  by (simp add: whole_def nested_whole_def)

lemma nested_whole_comma: "nested_whole '',''"
  by (simp add: nested_whole_def)

lemma nested_whole_join: "list_all whole ss \<Longrightarrow> nested_whole (join CHR '','' ss)"
proof (induction "CHR '',''" ss rule: join.induct)
  case (3 s t ss)
  then have "nested_whole (s @ '','' @ join CHR '','' (t # ss))"
    by (intro nested_whole_append nested_whole_comma) (auto intro: whole_nested)
  then show ?case by simp
next
  case (2 s)
  then show ?case by (simp add: whole_nested)
qed (simp add: nested_whole_def)

lemma whole_end: "whole s \<Longrightarrow> split_top_level_loop CHR '','' d cur s = [cur @ s]"
  unfolding whole_def by (metis append_Nil2 split_top_level_loop.simps(1))

lemma split_join:
  assumes "list_all whole ss"
  shows "split_top_level (join CHR '','' ss) CHR '','' = (if ss = [] then [[]] else ss)"
proof -
  have "split_top_level_loop CHR '','' 0 [] (join CHR '','' ss) = ss" if "ss \<noteq> []"
    using assms that
  proof (induction "CHR '',''" ss rule: join.induct)
    case (2 s)
    then show ?case by (simp add: whole_end)
  next
    case (3 s t ss)
    then show ?case by (simp add: whole_def)
  qed simp
  then show ?thesis by (simp add: split_top_level_def)
qed

lemma whole_field: "field_name n \<Longrightarrow> whole s \<Longrightarrow> whole (n @ '':'' @ s)"
  by (rule whole_append [OF whole_plain whole_append [OF whole_plain]])
    (auto simp: field_name_def list_all_iff)

lemma whole_type_name: "named True t \<Longrightarrow> whole (type_name t)"
proof (induction t)
  case (List t)
  have "whole (''list'' @ (''<'' @ type_name t @ ''>''))"
    using List by (intro whole_append whole_brackets whole_nested) (auto intro: whole_plain)
  then show ?case by simp
next
  case (Struct fs)
  have "whole (n @ '':'' @ type_name t)" if "(n, t) \<in> set fs" for n t
  proof -
    have "field_name n" "named True t" using Struct.prems that by auto
    then show ?thesis using Struct.IH that by (intro whole_field) auto
  qed
  then have "nested_whole (join CHR '','' (map (\<lambda>(n, t). n @ '':'' @ type_name t) fs))"
    by (intro nested_whole_join) (auto simp: list_all_iff)
  from whole_append [OF whole_plain whole_brackets [OF this], of "''struct''"] show ?case by simp
next
  case (Map k v)
  have "whole (''map'' @ (''<'' @ (type_name k @ '','' @ type_name v) @ ''>''))"
    using Map by (intro whole_append whole_brackets nested_whole_append nested_whole_comma)
      (auto intro: whole_plain whole_nested)
  then show ?case by simp
next
  case (Decimal p s)
  then show ?case by simp
qed (simp_all only: whole_plain [OF primitive_whole] compound_def DuckLakeType.case not_False_eq_True)

section \<open>Reading the names\<close>

lemma solid_lower: "solid c \<Longrightarrow> solid (ascii_lower_char c)"
  by (auto simp: solid_def ascii_lower_char_def less_eq_char_def)

lemma lower_append: "to_ascii_lowercase (s @ t) = to_ascii_lowercase s @ to_ascii_lowercase t"
  by (simp add: to_ascii_lowercase_def)

lemma trim_lower: "s \<noteq> [] \<Longrightarrow> solid (hd s) \<Longrightarrow> solid (last s) \<Longrightarrow>
    trim (to_ascii_lowercase s) = to_ascii_lowercase s"
  by (rule trim_same) (simp add: to_ascii_lowercase_def hd_map last_map solid_lower)

text \<open>A text that begins with a fixed word and ends with a closing bracket.\<close>

lemma bracketed:
  assumes "to_ascii_lowercase p = p" and "p \<noteq> []" and "solid (hd p)" and "c = CHR ''>'' \<or> c = CHR '')''"
  shows "trim (p @ x @ [c]) = p @ x @ [c]"
    and "trim (to_ascii_lowercase (p @ x @ [c])) = p @ to_ascii_lowercase x @ [c]"
proof -
  have s: "solid (hd (p @ x @ [c]))" "solid (last (p @ x @ [c]))"
    using assms by (auto simp: hd_append solid_def)
  show "trim (p @ x @ [c]) = p @ x @ [c]"
    using s by (intro trim_same) simp
  have "ascii_lower_char c = c" using assms(4) by (auto simp: ascii_lower_char_def)
  then have "to_ascii_lowercase (p @ x @ [c]) = p @ to_ascii_lowercase x @ [c]"
    using assms(1) by (simp add: to_ascii_lowercase_def)
  then show "trim (to_ascii_lowercase (p @ x @ [c])) = p @ to_ascii_lowercase x @ [c]"
    using trim_lower [of "p @ x @ [c]"] s by simp
qed

lemma ends_bracket: "ends_with (p @ x @ [c]) [d] \<longleftrightarrow> c = d"
  by (simp add: ends_with_def starts_with_def)

lemma starts_literal:
  "starts_with (''list<'' @ x) ''list<''" "\<not> starts_with (''struct<'' @ x) ''list<''"
  "starts_with (''struct<'' @ x) ''struct<''" "\<not> starts_with (''map<'' @ x) ''list<''"
  "\<not> starts_with (''map<'' @ x) ''struct<''" "starts_with (''map<'' @ x) ''map<''"
  "\<not> starts_with (''decimal('' @ x) ''list<''" "\<not> starts_with (''decimal('' @ x) ''struct<''"
  "\<not> starts_with (''decimal('' @ x) ''map<''" "starts_with (''decimal('' @ x) ''decimal(''"
  by (simp_all add: starts_with_def)

lemma inner_text:
  "drop n (take (length (p @ x @ [c]) - 1) (p @ x @ [c])) = x" if "n = length p"
  using that by simp

lemmas bracket_lower =
  bracketed [of "''list<''" "CHR ''>''"] bracketed [of "''struct<''" "CHR ''>''"]
  bracketed [of "''map<''" "CHR ''>''"] bracketed [of "''decimal(''" "CHR '')''"]

lemma literal_lower:
  "to_ascii_lowercase ''list<'' = ''list<''" "to_ascii_lowercase ''struct<'' = ''struct<''"
  "to_ascii_lowercase ''map<'' = ''map<''" "to_ascii_lowercase ''decimal('' = ''decimal(''"
  "solid (hd ''list<'')" "solid (hd ''struct<'')" "solid (hd ''map<'')" "solid (hd ''decimal('')"
  by code_simp+

text \<open>One equation per form of a name.\<close>

lemma parse_list: "parse (''list<'' @ x @ ''>'') = List (parse x)"
  using bracketed [OF literal_lower(1), of "CHR ''>''" x] literal_lower
    starts_literal(1) [of "to_ascii_lowercase x @ ''>''"] ends_bracket [of "''list<''"]
    inner_text [of 5 "''list<''" x "CHR ''>''"]
  by (subst parse.simps) (simp del: append_Cons)

lemma parse_struct:
  "parse (''struct<'' @ x @ ''>'') = Struct (concat (map (\<lambda>part.
     case find_char CHR '':'' part of
       Some colon \<Rightarrow> [(trim (take colon part), parse (trim (drop (colon + 1) part)))] | None \<Rightarrow> [])
     (split_top_level x CHR '','')))"
  using bracketed [OF literal_lower(2), of "CHR ''>''" x] literal_lower
    starts_literal(2,3) [of "to_ascii_lowercase x @ ''>''"] ends_bracket [of "''struct<''"]
    inner_text [of 7 "''struct<''" x "CHR ''>''"]
  by (subst parse.simps) (simp del: append_Cons)

lemma parse_map:
  assumes "split_top_level x CHR '','' = [k, v]"
  shows "parse (''map<'' @ x @ ''>'') = Map (parse (trim k)) (parse (trim v))"
  using assms bracketed [OF literal_lower(3), of "CHR ''>''" x] literal_lower
    starts_literal(4-6) [of "to_ascii_lowercase x @ ''>''"] ends_bracket [of "''map<''"]
    inner_text [of 4 "''map<''" x "CHR ''>''"]
  by (subst parse.simps) (simp del: append_Cons)

lemma parse_decimal_name:
  assumes "to_ascii_lowercase x = x"
  shows "parse (''decimal('' @ x @ '')'') = parse_decimal_type (''decimal('' @ x @ '')'')"
  using assms bracketed [OF literal_lower(4), of "CHR '')''" x] literal_lower
    starts_literal(7-10) [of "x @ '')''"] ends_bracket [of "''decimal(''"]
  by (subst parse.simps) (simp del: append_Cons)

lemma parse_plain:
  assumes "primitive_ok n t"
  shows "parse n = t"
proof -
  have n: "to_ascii_lowercase n = n" "trim n = n" "CHR ''<'' \<notin> set n" "CHR ''('' \<notin> set n"
    using assms by (auto simp: primitive_ok_def to_ascii_lowercase_def list_all_iff map_idI intro: trim_same)
  have "\<not> starts_with n p" if "c \<in> set p" "c \<notin> set n" for c p
    using that by (metis in_set_takeD starts_with_def)
  from this [OF _ n(3)] this [OF _ n(4)] have
    "\<not> starts_with n ''list<''" "\<not> starts_with n ''struct<''" "\<not> starts_with n ''map<''"
    "\<not> starts_with n ''decimal(''" "\<not> starts_with n ''numeric(''" by auto
  with n assms show ?thesis
    by (subst parse.simps) (simp add: primitive_ok_def)
qed

section \<open>The round trip\<close>

lemma show_nat_chars: "c \<in> set (show_nat n) \<Longrightarrow> is_digit c"
  using digits_show_nat [of n] by (auto simp: digits_def list_all_iff)

lemma lower_digits: "list_all is_digit s \<Longrightarrow> to_ascii_lowercase s = s"
proof -
  have "ascii_lower_char c = c" if "is_digit c" for c
  proof -
    have "\<not> CHR ''A'' \<le> c"
      using that order_trans [of "CHR ''A''" c "CHR ''9''"] by (auto simp: is_digit_def less_eq_char_def)
    then show ?thesis by (simp add: ascii_lower_char_def)
  qed
  then show "list_all is_digit s \<Longrightarrow> ?thesis"
    by (induction s) (auto simp: to_ascii_lowercase_def)
qed

lemma split_char_plain: "c \<notin> set s \<Longrightarrow> split_char c s = [s]"
  by (induction s) auto

lemma split_char_append: "c \<notin> set s \<Longrightarrow> split_char c (s @ c # t) = s # split_char c t"
  by (induction s) auto

lemma parse_decimal_args:
  "parse_decimal_type (''decimal('' @ show_nat (unat p) @ '','' @ show_nat (unat s) @ '')'') = Decimal p s"
proof -
  have d: "CHR '','' \<notin> set (show_nat n)" for n
    using show_nat_chars by (force simp: is_digit_def)
  have "split_char CHR '','' (show_nat (unat p) @ CHR '','' # show_nat (unat s)) =
      [show_nat (unat p), show_nat (unat s)]"
    by (simp add: split_char_append split_char_plain d)
  then show ?thesis
    by (simp add: parse_decimal_type_def Let_def trim_digits digits_show_nat parse_u8_show_nat)
qed

lemma type_name_solid:
  "named inner t \<Longrightarrow> type_name t \<noteq> [] \<and> solid (hd (type_name t)) \<and> solid (last (type_name t))"
proof (cases "compound t")
  case False
  then show "named inner t \<Longrightarrow> ?thesis"
    using type_name_primitive [of inner t] by (simp add: primitive_ok_def)
qed (cases t; simp add: compound_def solid_def)

lemma trim_type_name: "named inner t \<Longrightarrow> trim (type_name t) = type_name t"
  using type_name_solid by (intro trim_same) simp

lemma find_colon: "CHR '':'' \<notin> set n \<Longrightarrow> find_char CHR '':'' (n @ CHR '':'' # s) = Some (length n)"
  by (induction n) auto

text \<open>One field of a struct.\<close>

lemma parse_field:
  assumes "field_name n" and "named True t" and "parse (type_name t) = t"
  shows "(case find_char CHR '':'' (n @ '':'' @ type_name t) of
      Some colon \<Rightarrow> [(trim (take colon (n @ '':'' @ type_name t)),
          parse (trim (drop (colon + 1) (n @ '':'' @ type_name t))))]
    | None \<Rightarrow> []) = [(n, t)]"
proof -
  have "CHR '':'' \<notin> set n" "trim n = n"
    using assms(1) by (auto simp: field_name_def list_all_iff intro: trim_same)
  then show ?thesis
    using assms(3) trim_type_name [OF assms(2)] by (simp add: find_colon)
qed



text \<open>Why the side condition is there: the splitter cuts the arguments of a decimal apart.\<close>

lemma decimal_field_misread:
  "parse ''struct<a:decimal(18,3)>'' = Struct [(''a'', Unknown ''decimal(18'')]"
proof -
  have t: "trim ''decimal(18'' = ''decimal(18''" "trim ''a'' = ''a''"
    by (rule trim_same, simp add: solid_def)+
  have "to_ascii_lowercase ''decimal(18'' = ''decimal(18''"
    "parse_primitive ''decimal(18'' = Unknown ''decimal(18''"
    by code_simp+
  then have "parse ''decimal(18'' = Unknown ''decimal(18''"
    using t by (subst parse.simps) (simp add: starts_with_def ends_with_def)
  moreover have "split_top_level ''a:decimal(18,3)'' CHR '','' = [''a:decimal(18'', ''3)'']"
    by code_simp
  ultimately show ?thesis
    using parse_struct [of "''a:decimal(18,3)''"] t by simp
qed

end
