(* ===== verification/Catalog_Path.thy ===== *)
theory Catalog_Path
  imports Prelude
begin

text \<open>
  \<open>crates/rocklake-core/src/path.rs\<close>: path canonicalization of a catalog, with the string methods
  of the standard library it uses (\<open>trim_start_matches\<close>, \<open>strip_prefix\<close>, \<open>ends_with\<close>).
\<close>

definition trim_start_slash :: "string \<Rightarrow> string" where
  "trim_start_slash s = dropWhile (\<lambda>c. c = CHR ''/'') s"

definition strip_prefix :: "string \<Rightarrow> string \<Rightarrow> string option" where
  "strip_prefix p s = (if take (length p) s = p then Some (drop (length p) s) else None)"

datatype DataPathMode = Absolute | RelativeToDataPrefix

record CatalogPath =
  object_store_root :: string
  catalog_prefix :: string
  data_prefix :: string
  data_path_mode :: DataPathMode

definition normalize_trailing_slash :: "string \<Rightarrow> string" where
  "normalize_trailing_slash s =
     (if s \<noteq> [] \<and> last s \<noteq> CHR ''/'' then s @ ''/'' else s)"

definition CatalogPath_new :: "string \<Rightarrow> string \<Rightarrow> string \<Rightarrow> DataPathMode \<Rightarrow> CatalogPath" where
  "CatalogPath_new root catalog data mode =
     \<lparr>object_store_root = normalize_trailing_slash root,
      catalog_prefix = normalize_trailing_slash catalog,
      data_prefix = normalize_trailing_slash data,
      data_path_mode = mode\<rparr>"

definition resolve_data_path :: "CatalogPath \<Rightarrow> string \<Rightarrow> string" where
  "resolve_data_path p stored_path =
     (case data_path_mode p of
        Absolute \<Rightarrow> stored_path
      | RelativeToDataPrefix \<Rightarrow> data_prefix p @ trim_start_slash stored_path)"

definition to_stored_path :: "CatalogPath \<Rightarrow> string \<Rightarrow> string" where
  "to_stored_path p absolute_path =
     (case data_path_mode p of
        Absolute \<Rightarrow> absolute_path
      | RelativeToDataPrefix \<Rightarrow>
          (case strip_prefix (data_prefix p) absolute_path of
             None \<Rightarrow> absolute_path | Some r \<Rightarrow> r))"

definition catalog_full_path :: "CatalogPath \<Rightarrow> string" where
  "catalog_full_path p = object_store_root p @ trim_start_slash (catalog_prefix p)"

definition data_full_path :: "CatalogPath \<Rightarrow> string" where
  "data_full_path p = object_store_root p @ trim_start_slash (data_prefix p)"

section \<open>Facts\<close>

lemma normalize_trailing_slash_idem [simp]:
  "normalize_trailing_slash (normalize_trailing_slash s) = normalize_trailing_slash s"
  by (simp add: normalize_trailing_slash_def)

lemma normalize_trailing_slash_last:
  "s \<noteq> [] \<Longrightarrow> last (normalize_trailing_slash s) = CHR ''/''"
  by (simp add: normalize_trailing_slash_def)

lemma strip_prefix_append [simp]: "strip_prefix p (p @ s) = Some s"
  by (simp add: strip_prefix_def)

lemma strip_prefix_self [simp]: "strip_prefix p p = Some []"
  by (simp add: strip_prefix_def)

lemma strip_prefix_Some: "strip_prefix p s = Some r \<longleftrightarrow> s = p @ r"
  by (auto simp: strip_prefix_def) (metis append_take_drop_id)

lemma trim_start_slash_eq [simp]:
  "s = [] \<or> hd s \<noteq> CHR ''/'' \<Longrightarrow> trim_start_slash s = s"
  by (cases s) (auto simp: trim_start_slash_def)

lemma trim_start_slash_idem [simp]: "trim_start_slash (trim_start_slash s) = trim_start_slash s"
  by (simp add: trim_start_slash_def)

text \<open>Storing a resolved path gives the stored path back, up to its leading slashes.\<close>

lemma to_stored_resolve:
  "to_stored_path p (resolve_data_path p s) =
     (case data_path_mode p of Absolute \<Rightarrow> s | RelativeToDataPrefix \<Rightarrow> trim_start_slash s)"
  by (simp add: to_stored_path_def resolve_data_path_def split: DataPathMode.split)

text \<open>Resolving a stored path gives the absolute path back, for a path under the data prefix
  whose remainder does not start with a slash.\<close>

lemma resolve_to_stored:
  assumes "data_path_mode p = RelativeToDataPrefix \<Longrightarrow>
    \<exists>r. a = data_prefix p @ r \<and> (r = [] \<or> hd r \<noteq> CHR ''/'')"
  shows "resolve_data_path p (to_stored_path p a) = a"
  using assms
  by (cases "data_path_mode p") (auto simp: to_stored_path_def resolve_data_path_def)

section \<open>Properties\<close>

text \<open>Resolving and storing data file paths are inverse: storing a resolved path gives the
  stored path back (without leading slashes in relative mode), and a path inside the data directory
  is recovered from its stored form.\<close>

theorem data_path_round_trip:
  assumes "s = [] \<or> hd s \<noteq> CHR ''/''"
  shows "to_stored_path p (resolve_data_path p s) = s \<and>
    resolve_data_path p (to_stored_path p (data_prefix p @ s)) = data_prefix p @ s"
  using assms by (simp add: to_stored_resolve resolve_to_stored split: DataPathMode.split)

theorem data_path_round_trip_witness:
  "to_stored_path (CatalogPath_new ''s3://b'' ''cat'' ''s3://b/data'' RelativeToDataPrefix)
     (resolve_data_path (CatalogPath_new ''s3://b'' ''cat'' ''s3://b/data'' RelativeToDataPrefix)
        ''t1/f.parquet'') = ''t1/f.parquet''"
  using data_path_round_trip [of "''t1/f.parquet''"
      "CatalogPath_new ''s3://b'' ''cat'' ''s3://b/data'' RelativeToDataPrefix"]
  by simp

end
