(* ===== verification/Pg_Session.thy ===== *)
theory Pg_Session
  imports Json_Values Catalog_Error "HOL-Library.AList"
begin

text \<open>
  The session of a connection to the server: its errors with their SQLSTATE codes
  (\<open>crates/rocklake-pgwire/src/error.rs\<close>, \<open>crates/rocklake-sql/src/error.rs\<close>), the parameter values of a
  statement (\<open>crates/rocklake-sql/src/params.rs\<close>), the buffered transaction and the settings
  (\<open>crates/rocklake-pgwire/src/session.rs\<close>, \<open>executor/helpers.rs\<close>) and the subscriptions
  (\<open>notify.rs\<close>). The broadcast channels behind a subscription belong to the runtime library: a channel
  is known by its name and a notification is a value that is sent. Unicode lower-casing is an argument.
\<close>

section \<open>Errors\<close>

datatype SqlDispatchError =
    Sql_Unsupported string
  | Sql_ParseError string
  | Sql_MissingParam nat
  | Sql_TypeMismatch nat string string
  | Sql_InvalidChannelName string string

definition SqlDispatchError_display :: "SqlDispatchError \<Rightarrow> string" where
  "SqlDispatchError_display e = (case e of
     Sql_Unsupported s \<Rightarrow> ''unsupported SQL statement (SQLSTATE 0A000): '' @ s
   | Sql_ParseError s \<Rightarrow> ''SQL parse error: '' @ s
   | Sql_MissingParam i \<Rightarrow> ''missing parameter $'' @ show_nat i
   | Sql_TypeMismatch i expected actual \<Rightarrow> ''type mismatch for parameter $'' @ show_nat i @
       '': expected '' @ expected @ '', got '' @ actual
   | Sql_InvalidChannelName channel reason \<Rightarrow> ''invalid channel name '' @ [CHR 0x27] @ channel @ [CHR 0x27] @
       '' (SQLSTATE 42602): '' @ reason)"

datatype RockLakeError =
    RL_Catalog CatalogError
  | RL_SqlDispatch SqlDispatchError
  | RL_WriterFenced
  | RL_SnapshotOutOfRetention
  | RL_ObjectStore string
  | RL_NotFound string
  | RL_ValueDecode string
  | RL_Corruption string
  | RL_CounterConflict
  | RL_Duplicate string
  | RL_ReadOnlyReplica
  | RL_Unsupported string
  | RL_PermissionDenied string
  | RL_CatalogNotInitialized
  | RL_Internal string
  | RL_BatchTooLarge
  | RL_PgWire string
  | RL_MissingParam string
  | RL_SqlState string string

definition catalog_error_sqlstate :: "CatalogError \<Rightarrow> string" where
  "catalog_error_sqlstate e = (case e of
     FormatVersionMismatch _ _ \<Rightarrow> ''0A000''
   | NotInitialized \<Rightarrow> ''3D000''
   | WriterEpochMismatch \<Rightarrow> ''57P04''
   | NotFound _ \<Rightarrow> ''02000''
   | Duplicate _ \<Rightarrow> ''23505''
   | ValueTooLarge _ \<Rightarrow> ''54001''
   | TransactionConflict _ \<Rightarrow> ''40001''
   | ValueErr _ \<Rightarrow> ''22P02''
   | SnapshotOutOfRetention _ _ \<Rightarrow> ''22023''
   | _ \<Rightarrow> ''XX000'')"

definition RockLakeError_sqlstate :: "RockLakeError \<Rightarrow> string" where
  "RockLakeError_sqlstate e = (case e of
     RL_WriterFenced \<Rightarrow> ''57P04''
   | RL_SnapshotOutOfRetention \<Rightarrow> ''22023''
   | RL_MissingParam _ \<Rightarrow> ''22023''
   | RL_ObjectStore _ \<Rightarrow> ''08006''
   | RL_NotFound _ \<Rightarrow> ''02000''
   | RL_ValueDecode _ \<Rightarrow> ''22P02''
   | RL_Corruption _ \<Rightarrow> ''XX001''
   | RL_CounterConflict \<Rightarrow> ''40001''
   | RL_Duplicate _ \<Rightarrow> ''23505''
   | RL_ReadOnlyReplica \<Rightarrow> ''25006''
   | RL_Unsupported _ \<Rightarrow> ''0A000''
   | RL_PermissionDenied _ \<Rightarrow> ''42501''
   | RL_CatalogNotInitialized \<Rightarrow> ''3D000''
   | RL_Internal _ \<Rightarrow> ''XX000''
   | RL_BatchTooLarge \<Rightarrow> ''54001''
   | RL_PgWire _ \<Rightarrow> ''XX000''
   | RL_Catalog c \<Rightarrow> catalog_error_sqlstate c
   | RL_SqlDispatch _ \<Rightarrow> ''0A000''
   | RL_SqlState code _ \<Rightarrow> code)"

definition RockLakeError_severity :: "RockLakeError \<Rightarrow> string" where
  "RockLakeError_severity e = (case e of
     RL_WriterFenced \<Rightarrow> ''FATAL'' | RL_CatalogNotInitialized \<Rightarrow> ''FATAL'' | _ \<Rightarrow> ''ERROR'')"

text \<open>\<open>map_err(RockLakeError::from)?\<close> on a catalog command.\<close>

type_synonym ('s, 'a) rl_cmd = "'s \<Rightarrow> (RockLakeError + 'a) \<times> 's"

section \<open>Parameter values\<close>

type_synonym ParamValues = "string option list"

definition pv_get :: "ParamValues \<Rightarrow> nat \<Rightarrow> string option" where
  "pv_get params idx = (if idx < length params then params ! idx else None)"

definition len_mismatch :: "nat \<Rightarrow> string \<Rightarrow> string \<Rightarrow> SqlDispatchError" where
  "len_mismatch idx expected val =
     Sql_TypeMismatch (idx + 1) expected (''<string len='' @ show_nat (length val) @ ''>'')"

definition get_u64 :: "ParamValues \<Rightarrow> nat \<Rightarrow> SqlDispatchError + u64" where
  "get_u64 params idx =
     (case pv_get params idx of
        None \<Rightarrow> Inl (Sql_MissingParam (idx + 1))
      | Some val \<Rightarrow> (case parse_u64 val of Some n \<Rightarrow> Inr n | None \<Rightarrow> Inl (len_mismatch idx ''u64'' val)))"

definition get_i64 :: "ParamValues \<Rightarrow> nat \<Rightarrow> SqlDispatchError + i64" where
  "get_i64 params idx =
     (case pv_get params idx of
        None \<Rightarrow> Inl (Sql_MissingParam (idx + 1))
      | Some val \<Rightarrow> (case parse_i64 val of Some n \<Rightarrow> Inr n | None \<Rightarrow> Inl (len_mismatch idx ''i64'' val)))"

definition get_string :: "ParamValues \<Rightarrow> nat \<Rightarrow> SqlDispatchError + string" where
  "get_string params idx =
     (case pv_get params idx of None \<Rightarrow> Inl (Sql_MissingParam (idx + 1)) | Some s \<Rightarrow> Inr s)"

definition get_optional_string :: "ParamValues \<Rightarrow> nat \<Rightarrow> string option" where
  "get_optional_string params idx = pv_get params idx"

definition get_bool :: "ParamValues \<Rightarrow> nat \<Rightarrow> SqlDispatchError + bool" where
  "get_bool params idx =
     (case pv_get params idx of
        None \<Rightarrow> Inl (Sql_MissingParam (idx + 1))
      | Some val \<Rightarrow>
          (if val \<in> {''t'', ''true'', ''1'', ''TRUE''} then Inr True
           else if val \<in> {''f'', ''false'', ''0'', ''FALSE''} then Inr False
           else Inl (len_mismatch idx ''bool'' val)))"

text \<open>The JSON objects of the parameter values: one member for each value that is present.\<close>

fun params_object :: "(nat \<Rightarrow> string) \<Rightarrow> nat \<Rightarrow> ParamValues \<Rightarrow> (string \<times> Json) list \<Rightarrow> (string \<times> Json) list" where
  "params_object key i [] members = members"
| "params_object key i (None # vs) members = params_object key (Suc i) vs members"
| "params_object key i (Some v # vs) members =
     params_object key (Suc i) vs (json_insert (key i) (JStr v) members)"

definition to_json_string :: "(Json \<Rightarrow> string) \<Rightarrow> ParamValues \<Rightarrow> string" where
  "to_json_string print params = print (JObj (params_object (\<lambda>i. ''p'' @ show_nat i) 0 params []))"

definition column_key :: "string list \<Rightarrow> nat \<Rightarrow> string" where
  "column_key columns i =
     (if i < length columns \<and> columns ! i \<noteq> [] then columns ! i else ''p'' @ show_nat i)"

definition to_json_string_with_columns :: "(Json \<Rightarrow> string) \<Rightarrow> string list \<Rightarrow> ParamValues \<Rightarrow> string" where
  "to_json_string_with_columns print columns params =
     print (JObj (params_object (column_key columns) 0 params []))"

definition require_param_u64 :: "ParamValues \<Rightarrow> nat \<Rightarrow> string \<Rightarrow> RockLakeError + u64" where
  "require_param_u64 params idx name = map_err (\<lambda>_. RL_MissingParam name) (get_u64 params idx)"

text \<open>\<open>.ok()\<close> and \<open>.unwrap_or(d)\<close> on a result.\<close>

definition result_ok :: "'e + 'a \<Rightarrow> 'a option" where
  "result_ok r = (case r of Inl _ \<Rightarrow> None | Inr a \<Rightarrow> Some a)"

definition unwrap_or :: "'a \<Rightarrow> 'e + 'a \<Rightarrow> 'a" where
  "unwrap_or d r = (case r of Inl _ \<Rightarrow> d | Inr a \<Rightarrow> a)"

definition get_snapshot_param :: "ParamValues \<Rightarrow> u64" where
  "get_snapshot_param params = unwrap_or u64_max (get_u64 params 0)"

section \<open>Buffered operations\<close>

datatype BufferedOp =
    Op_InsertSchema string
  | Op_InsertTable u64 string "string option"
  | Op_InsertColumn u64 string string u64 bool "string option" "string option" "string option" "string option" "u64 option"
  | Op_InsertDataFile u64 string string u64 u64
  | Op_InsertDeleteFile u64 string u64 u64
  | Op_InsertSnapshot "string option" "string option"
  | Op_InsertSnapshotChanges string "string option" "u64 option" "u64 option"
  | Op_UpdateEndSnapshot string u64 u64 u64
  | Op_UpdateTableStats u64 i64
  | Op_SetTableStats u64 u64 u64 u64
  | Op_InsertFileColumnStats u64 u64 u64 bool "string option" "string option" bool
  | Op_InsertTableColumnStats u64 u64 bool "bool option" "string option" "string option" "string option"
  | Op_InsertMetadata string string "string option" "u64 option"
  | Op_InsertInlinedDataTables u64 string u64
  | Op_InsertSchemaVersions u64 u64 u64
  | Op_InsertInlinedRow string "string option list list"
  | Op_DeleteInlinedRows string "u64 list"
  | Op_InsertView u64 string string "string option" "string option" "string option"
  | Op_InsertMacro u64 string string "string option"
  | Op_InsertMacroImpl u64 string "string option" "string option"
  | Op_InsertMacroParams u64 u64 u64 string string "string option" "string option"
  | Op_InsertTableStats u64 u64 u64 u64

definition MAX_BATCH_SIZE :: nat where
  "MAX_BATCH_SIZE = 64 * 1024 * 1024"

record PendingCatalogTxn =
  pt_ops :: "BufferedOp list"
  pt_estimated_size :: nat

definition PendingCatalogTxn_new :: PendingCatalogTxn where
  "PendingCatalogTxn_new = \<lparr>pt_ops = [], pt_estimated_size = 0\<rparr>"

text \<open>\<open>std::mem::size_of_val(&op)\<close> is the size of the enum, the same for every operation: \<open>op_bytes\<close>.\<close>

definition txn_push :: "nat \<Rightarrow> BufferedOp \<Rightarrow> (PendingCatalogTxn, unit) rl_cmd" where
  "txn_push op_bytes op t =
     (let op_size = op_bytes + 128 in
      if pt_estimated_size t + op_size > MAX_BATCH_SIZE then (Inl RL_BatchTooLarge, t)
      else (Inr (), t\<lparr>pt_estimated_size := pt_estimated_size t + op_size, pt_ops := pt_ops t @ [op]\<rparr>))"

definition txn_take :: "PendingCatalogTxn \<Rightarrow> BufferedOp list \<times> PendingCatalogTxn" where
  "txn_take t = (pt_ops t, t\<lparr>pt_estimated_size := 0, pt_ops := []\<rparr>)"

definition txn_clear :: "PendingCatalogTxn \<Rightarrow> PendingCatalogTxn" where
  "txn_clear t = t\<lparr>pt_ops := [], pt_estimated_size := 0\<rparr>"

section \<open>Session state\<close>

record CopyAccumulator =
  ca_table :: string
  ca_data :: bytes

record BootstrapState =
  bs_has_snapshot :: bool
  bs_schemas :: "string list"

definition BootstrapState_default :: BootstrapState where
  "BootstrapState_default = \<lparr>bs_has_snapshot = False, bs_schemas = []\<rparr>"

record SessionSettings =
  ss_timezone :: string
  ss_client_encoding :: string
  ss_date_style :: string
  ss_application_name :: string
  ss_extra :: "(string \<times> string) list"

definition SessionSettings_default :: SessionSettings where
  "SessionSettings_default =
     \<lparr>ss_timezone = ''UTC'', ss_client_encoding = ''UTF8'', ss_date_style = ''ISO, MDY'',
      ss_application_name = [], ss_extra = []\<rparr>"

record SessionState =
  se_in_transaction :: bool
  se_pending_txn :: PendingCatalogTxn
  se_settings :: SessionSettings
  se_subscriptions :: "string list"
  se_pending_copy :: "CopyAccumulator option"
  se_bootstrap :: BootstrapState

definition SessionState_new :: SessionState where
  "SessionState_new =
     \<lparr>se_in_transaction = False, se_pending_txn = PendingCatalogTxn_new,
      se_settings = SessionSettings_default, se_subscriptions = [], se_pending_copy = None,
      se_bootstrap = BootstrapState_default\<rparr>"

text \<open>\<open>SHOW\<close> and \<open>SET\<close>. \<open>lower\<close> is \<open>str::to_lowercase\<close>.\<close>

definition get_show_value :: "(string \<Rightarrow> string) \<Rightarrow> string \<Rightarrow> SessionState \<Rightarrow> string" where
  "get_show_value lower var session =
     (let s = se_settings session; v = lower var in
      if v = ''server_version'' then ''15.0''
      else if v \<in> {''datestyle'', ''date_style''} then ss_date_style s
      else if v \<in> {''timezone'', ''time zone''} then ss_timezone s
      else if v = ''client_encoding'' then ss_client_encoding s
      else if v = ''transaction_isolation'' then ''read committed''
      else if v = ''standard_conforming_strings'' then ''on''
      else (case map_of (ss_extra s) v of Some x \<Rightarrow> x | None \<Rightarrow> []))"

definition trim_matches :: "char \<Rightarrow> string \<Rightarrow> string" where
  "trim_matches c s = trim_end_matches c (trim_start_matches c s)"

definition apply_set :: "(string \<Rightarrow> string) \<Rightarrow> string \<Rightarrow> string \<Rightarrow> SessionState \<Rightarrow> SessionState" where
  "apply_set lower var val session =
     (let clean_val = trim_matches (CHR 0x27) val; v = lower var; s = se_settings session;
          s' = (if v \<in> {''timezone'', ''time zone''} then s\<lparr>ss_timezone := clean_val\<rparr>
                else if v = ''client_encoding'' then s\<lparr>ss_client_encoding := clean_val\<rparr>
                else if v \<in> {''datestyle'', ''date_style''} then s\<lparr>ss_date_style := clean_val\<rparr>
                else if v = ''application_name'' then s\<lparr>ss_application_name := clean_val\<rparr>
                else s\<lparr>ss_extra := AList.update v clean_val (ss_extra s)\<rparr>)
      in session\<lparr>se_settings := s'\<rparr>)"

section \<open>Subscriptions\<close>

record Notification =
  no_channel :: string
  no_payload :: string

text \<open>\<open>NotifyManager\<close> as the names of the channels somebody ever listened to; a notification to another
  channel is dropped. The order of a hash set does not matter here, so it is a list without repetition.\<close>

type_synonym NotifyManager = "string list"

definition manager_listen :: "string \<Rightarrow> NotifyManager \<Rightarrow> NotifyManager" where
  "manager_listen channel m = (if channel \<in> set m then m else channel # m)"

definition notify :: "NotifyManager \<Rightarrow> string \<Rightarrow> string \<Rightarrow> Notification list" where
  "notify m channel payload =
     (if channel \<in> set m then [\<lparr>no_channel = channel, no_payload = payload\<rparr>] else [])"

definition notify_snapshot_advance :: "NotifyManager \<Rightarrow> u64 list \<Rightarrow> Notification list" where
  "notify_snapshot_advance m table_ids =
     concat (map (\<lambda>table_id. notify m (''pgt_source_changed_'' @ show_u64 table_id) []) table_ids)"

definition subscriptions_listen ::
  "string \<Rightarrow> string list \<times> NotifyManager \<Rightarrow> bool \<times> string list \<times> NotifyManager" where
  "subscriptions_listen channel = (\<lambda>(channels, m).
     if channel \<in> set channels then (False, channels, m)
     else (True, channel # channels, manager_listen channel m))"

definition subscriptions_unlisten :: "string \<Rightarrow> string list \<Rightarrow> bool \<times> string list" where
  "subscriptions_unlisten channel channels =
     (channel \<in> set channels, removeAll channel channels)"

section \<open>Facts\<close>

text \<open>The estimate is exact, so the buffer is bounded.\<close>

definition txn_inv :: "nat \<Rightarrow> PendingCatalogTxn \<Rightarrow> bool" where
  "txn_inv op_bytes t \<longleftrightarrow> pt_estimated_size t = length (pt_ops t) * (op_bytes + 128) \<and>
     pt_estimated_size t \<le> MAX_BATCH_SIZE"

lemma txn_inv_new: "txn_inv n PendingCatalogTxn_new"
  by (simp add: txn_inv_def PendingCatalogTxn_new_def)

lemma txn_inv_push: "txn_inv n t \<Longrightarrow> txn_inv n (snd (txn_push n op t))"
  by (simp add: txn_inv_def txn_push_def Let_def)

lemma txn_inv_take: "txn_inv n (snd (txn_take t))" and txn_inv_clear: "txn_inv n (txn_clear t)"
  by (simp_all add: txn_inv_def txn_take_def txn_clear_def)

lemma txn_inv_length: "txn_inv n t \<Longrightarrow> length (pt_ops t) \<le> 524288"
proof -
  assume t: "txn_inv n t"
  have "length (pt_ops t) * 128 \<le> length (pt_ops t) * (n + 128)" by simp
  also have "\<dots> \<le> MAX_BATCH_SIZE" using t by (simp add: txn_inv_def)
  finally show ?thesis by (simp add: MAX_BATCH_SIZE_def)
qed

lemma txn_push_cases:
  assumes "txn_push n op t = (r, t')"
  obtains (full) "r = Inl RL_BatchTooLarge" "t' = t" "pt_estimated_size t + (n + 128) > MAX_BATCH_SIZE"
    | (room) "r = Inr ()" "pt_ops t' = pt_ops t @ [op]"
  using assms by (auto simp: txn_push_def Let_def split: if_splits)

text \<open>\<open>SHOW\<close> after \<open>SET\<close>: the value without its quotes, except for the variables that are fixed; the
  application name is stored but never shown.\<close>

lemma show_after_set:
  assumes "lower var \<notin> {''server_version'', ''transaction_isolation'', ''standard_conforming_strings'',
     ''application_name''}"
  shows "get_show_value lower var (apply_set lower var val s) = trim_matches (CHR 0x27) val"
  using assms by (auto simp: get_show_value_def apply_set_def Let_def update_conv')

lemma set_keeps_other_settings:
  assumes "lower var \<noteq> lower var'" and "{lower var, lower var'} \<noteq> {''datestyle'', ''date_style''}"
    and "{lower var, lower var'} \<noteq> {''timezone'', ''time zone''}"
  shows "get_show_value lower var' (apply_set lower var val s) = get_show_value lower var' s"
  using assms by (auto simp: get_show_value_def apply_set_def Let_def update_conv')

lemma application_name_not_shown:
  "get_show_value id ''application_name'' (apply_set id ''application_name'' ''psql'' SessionState_new) = []"
  by (simp add: get_show_value_def apply_set_def SessionState_new_def SessionSettings_default_def Let_def)

text \<open>A conversion error tells of the value only its length.\<close>

lemma conversion_error_hides_value:
  assumes "length v = length v'" and "i < length params"
  shows "get_u64 (params[i := Some v]) i = Inl e \<Longrightarrow> get_u64 (params[i := Some v']) i = Inl e' \<Longrightarrow> e = e'"
    and "get_i64 (params[i := Some v]) i = Inl e \<Longrightarrow> get_i64 (params[i := Some v']) i = Inl e' \<Longrightarrow> e = e'"
    and "get_bool (params[i := Some v]) i = Inl e \<Longrightarrow> get_bool (params[i := Some v']) i = Inl e' \<Longrightarrow> e = e'"
  using assms
  by (auto simp: get_u64_def get_i64_def get_bool_def pv_get_def len_mismatch_def split: option.splits if_splits)

text \<open>The codes are SQLSTATE codes: five characters.\<close>

lemma sqlstate_five: "length (RockLakeError_sqlstate e) = 5 \<or> (\<exists>code message. e = RL_SqlState code message)"
  by (cases e) (simp_all add: RockLakeError_sqlstate_def catalog_error_sqlstate_def split: CatalogError.split)

text \<open>The JSON object holds the value of each column under its name when the names differ.\<close>

lemma params_object_other:
  "k \<notin> key ` {i..<i + length vs} \<Longrightarrow> map_of (params_object key i vs members) k = map_of members k"
proof (induction key i vs members rule: params_object.induct)
  case (2 key i vs members)
  then have "k \<notin> key ` {Suc i..<Suc i + length vs}" by force
  with 2(1) show ?case by simp
next
  case (3 key i v vs members)
  then have "k \<notin> key ` {Suc i..<Suc i + length vs}" "k \<noteq> key i" by force+
  with 3(1) show ?case by simp
qed simp

lemma params_object_lookup:
  "inj_on key {i..<i + length vs} \<Longrightarrow> j < length vs \<Longrightarrow> vs ! j = Some v \<Longrightarrow>
     map_of (params_object key i vs members) (key (i + j)) = Some (JStr v)"
proof (induction key i vs members arbitrary: j rule: params_object.induct)
  case (2 key i vs members)
  from 2(2) have "inj_on key {Suc i..<Suc i + length vs}" by (rule inj_on_subset) auto
  with 2 show ?case by (cases j) (auto dest: 2(1))
next
  case (3 key i w vs members)
  from 3(2) have inj: "inj_on key {Suc i..<Suc i + length vs}" by (rule inj_on_subset) auto
  show ?case
  proof (cases j)
    case 0
    have "key i \<notin> key ` {Suc i..<Suc i + length vs}"
    proof
      assume "key i \<in> key ` {Suc i..<Suc i + length vs}"
      then obtain x where "x \<in> {Suc i..<Suc i + length vs}" "key i = key x" by blast
      then show False using inj_onD [OF 3(2), of i x] by auto
    qed
    with 0 3(4) show ?thesis by (simp add: params_object_other)
  next
    case (Suc j')
    then show ?thesis using 3(3,4) 3(1) [OF inj, of j'] by simp
  qed
qed simp

lemma subscriptions_listen_idem:
  "subscriptions_listen c (snd (subscriptions_listen c s)) = (False, snd (subscriptions_listen c s))"
  by (auto simp: subscriptions_listen_def split: prod.splits)

lemma notify_snapshot_advance_exact:
  "set (notify_snapshot_advance m ids) =
     {\<lparr>no_channel = ''pgt_source_changed_'' @ show_u64 t, no_payload = []\<rparr> | t.
        t \<in> set ids \<and> ''pgt_source_changed_'' @ show_u64 t \<in> set m}"
  by (auto simp: notify_snapshot_advance_def notify_def split: if_splits simp del: append_Cons)

end
