(* ===== verification/Pg_Commit.thy ===== *)
theory Pg_Commit
  imports Pg_Session Write_Session Writer_Stats Catalog_Store Catalog_Path
begin

text \<open>
  \<open>crates/rocklake-pgwire/src/executor/catalog.rs\<close>, \<open>execute_commit\<close>: the buffered operations of a SQL
  transaction are replayed on a catalog writer, one after the other, and committed as one snapshot. The
  local variables of the function are a record; the database is the one the writer reads and, for the
  statistics and the macro parameters, writes directly. A computation yields \<open>None\<close> when it never
  returns: the search for a free row id can run forever. \<open>uuids i\<close> is the identifier drawn by the \<open>i\<close>-th
  operation, \<open>json_vec\<close> is \<open>serde_json::to_vec\<close> on a list of optional strings.
\<close>

section \<open>Names of inlined tables\<close>

definition rsplit_once :: "char \<Rightarrow> string \<Rightarrow> (string \<times> string) option" where
  "rsplit_once c s = (if c \<in> set s
     then Some (rev (drop 1 (dropWhile (\<lambda>x. x \<noteq> c) (rev s))), rev (takeWhile (\<lambda>x. x \<noteq> c) (rev s))) else None)"

definition parse_inlined_table_ids :: "string \<Rightarrow> (u64 \<times> u64) option" where
  "parse_inlined_table_ids table_name =
     (let normalized = to_ascii_lowercase (trim_matches (CHR 0x22) table_name) in
      Option.bind (strip_prefix ''ducklake_inlined_data_'' normalized) (\<lambda>suffix.
      Option.bind (rsplit_once (CHR ''_'') suffix) (\<lambda>(table_id, schema_version).
      Option.bind (parse_u64 table_id) (\<lambda>t.
      Option.bind (parse_u64 schema_version) (\<lambda>v. Some (t, v))))))"

definition literal_u64_value :: "string option \<Rightarrow> u64 option" where
  "literal_u64_value v = Option.bind v parse_u64"

definition first_value :: "string option list \<Rightarrow> string option" where
  "first_value values = (case values of [] \<Rightarrow> None | v # _ \<Rightarrow> v)"

section \<open>Rows a transaction replaces or deletes\<close>

type_synonym inlined_row = "u64 \<times> u64 \<times> u64"

definition replaced_by :: "BufferedOp \<Rightarrow> inlined_row list" where
  "replaced_by op = (case op of
     Op_InsertInlinedRow table_name rows \<Rightarrow>
       (case parse_inlined_table_ids table_name of
          None \<Rightarrow> []
        | Some (t, v) \<Rightarrow> map (\<lambda>r. (t, v, r)) (List.map_filter (literal_u64_value \<circ> first_value) rows))
   | _ \<Rightarrow> [])"

definition collect_replaced_inlined_rows :: "BufferedOp list \<Rightarrow> inlined_row list" where
  "collect_replaced_inlined_rows ops = concat (map replaced_by ops)"

definition deleted_by :: "BufferedOp \<Rightarrow> inlined_row list" where
  "deleted_by op = (case op of
     Op_DeleteInlinedRows table_name row_ids \<Rightarrow>
       (case parse_inlined_table_ids table_name of
          None \<Rightarrow> [] | Some (t, v) \<Rightarrow> map (\<lambda>r. (t, v, r)) row_ids)
   | _ \<Rightarrow> [])"

definition collect_deleted_inlined_rows :: "BufferedOp list \<Rightarrow> inlined_row list" where
  "collect_deleted_inlined_rows ops = concat (map deleted_by ops)"

section \<open>Local state and control flow\<close>

record 'db CommitState =
  cm_writer :: CatalogWriter
  cm_db :: 'db
  cm_author :: "string option"
  cm_message :: "string option"
  cm_needs_snapshot :: bool
  cm_reserved :: "inlined_row list"

type_synonym ('s, 'a) run = "'s \<Rightarrow> ((RockLakeError + 'a) \<times> 's) option"

definition done_ok :: "('s, unit) run" where
  "done_ok st = Some (Inr (), st)"

text \<open>A catalog command followed by \<open>.map_err(RockLakeError::from)?\<close>, and sequencing.\<close>

definition try_cmd :: "('s, 'a) cmd \<Rightarrow> ('s, 'a) run" where
  "try_cmd f st = (case f st of (r, st') \<Rightarrow> Some (map_err RL_Catalog r, st'))"

definition run_bind :: "('s, 'a) run \<Rightarrow> ('a \<Rightarrow> ('s, 'b) run) \<Rightarrow> ('s, 'b) run" where
  "run_bind m f st = (case m st of
     None \<Rightarrow> None
   | Some (Inl e, st') \<Rightarrow> Some (Inl e, st')
   | Some (Inr a, st') \<Rightarrow> f a st')"

definition try_writer :: "(CatalogWriter, 'a) cmd \<Rightarrow> ('db CommitState, unit) run" where
  "try_writer f = try_cmd (\<lambda>st. case f (cm_writer st) of (r, w) \<Rightarrow>
     (rbind r (\<lambda>_. Inr ()), st\<lparr>cm_writer := w\<rparr>))"

definition try_db :: "('db, unit) cmd \<Rightarrow> ('db CommitState, unit) run" where
  "try_db f = try_cmd (\<lambda>st. case f (cm_db st) of (r, db) \<Rightarrow> (r, st\<lparr>cm_db := db\<rparr>))"

definition needs_snapshot :: "'db CommitState \<Rightarrow> 'db CommitState" where
  "needs_snapshot st = st\<lparr>cm_needs_snapshot := True\<rparr>"

section \<open>Inlined rows\<close>

text \<open>The \<open>while\<close> loop: it stays at the largest id when that one is taken, too.\<close>

partial_function (option) free_row_id ::
  "(u64 \<Rightarrow> CatalogError + bool) \<Rightarrow> u64 \<Rightarrow> (CatalogError + u64) option" where
  "free_row_id taken effective_row_id =
     (case taken effective_row_id of
        Inl e \<Rightarrow> Some (Inl e)
      | Inr b \<Rightarrow> if b then free_row_id taken (saturating_add effective_row_id 1)
                else Some (Inr effective_row_id))"

definition row_taken :: "'db slatedb \<Rightarrow> u64 \<Rightarrow> u64 \<Rightarrow> 'db CommitState \<Rightarrow> u64 \<Rightarrow> CatalogError + bool" where
  "row_taken S table_id schema_version st row_id =
     (if (table_id, schema_version, row_id) \<in> set (cm_reserved st) then Inr True
      else inlined_insert_key_exists S (cm_db st) (cm_writer st) table_id schema_version row_id)"

text \<open>The body of the loop over the rows of an insertion, for a row with a row id.\<close>

definition insert_inlined_row ::
  "'db slatedb \<Rightarrow> codecs \<Rightarrow> (string option list \<Rightarrow> string + bytes) \<Rightarrow> inlined_row list \<Rightarrow> u64 \<Rightarrow> u64
     \<Rightarrow> string option list \<Rightarrow> u64 \<Rightarrow> ('db CommitState, unit) run" where
  "insert_inlined_row S C json_vec deleted table_id schema_version values row_id st =
     (case (if (table_id, schema_version, row_id) \<in> set deleted then Some (Inr row_id)
            else free_row_id (row_taken S table_id schema_version st) row_id) of
        None \<Rightarrow> None
      | Some (Inl e) \<Rightarrow> Some (Inl (RL_Catalog e), st)
      | Some (Inr effective_row_id) \<Rightarrow>
          (let st1 = st\<lparr>cm_reserved := (table_id, schema_version, effective_row_id) # cm_reserved st\<rparr> in
           case json_vec (drop 3 values) of
             Inl message \<Rightarrow> Some (Inl (RL_Internal message), st1)
           | Inr payload \<Rightarrow>
               try_writer (register_inlined_insert C table_id schema_version effective_row_id payload) st1))"

fun insert_inlined_rows ::
  "'db slatedb \<Rightarrow> codecs \<Rightarrow> (string option list \<Rightarrow> string + bytes) \<Rightarrow> inlined_row list \<Rightarrow> u64 \<Rightarrow> u64
     \<Rightarrow> string option list list \<Rightarrow> ('db CommitState, unit) run" where
  "insert_inlined_rows S C json_vec deleted table_id schema_version [] st = done_ok st"
| "insert_inlined_rows S C json_vec deleted table_id schema_version (values # rows) st =
     (case literal_u64_value (first_value values) of
        None \<Rightarrow> insert_inlined_rows S C json_vec deleted table_id schema_version rows st
      | Some row_id \<Rightarrow>
          run_bind (insert_inlined_row S C json_vec deleted table_id schema_version values row_id)
            (\<lambda>_. insert_inlined_rows S C json_vec deleted table_id schema_version rows) st)"

fun delete_inlined_rows ::
  "'db slatedb \<Rightarrow> codecs \<Rightarrow> inlined_row list \<Rightarrow> u64 \<Rightarrow> u64 \<Rightarrow> u64 list \<Rightarrow> ('db CommitState, unit) run" where
  "delete_inlined_rows S C replaced table_id schema_version [] st = done_ok st"
| "delete_inlined_rows S C replaced table_id schema_version (row_id # row_ids) st =
     (if (table_id, schema_version, row_id) \<in> set replaced
      then delete_inlined_rows S C replaced table_id schema_version row_ids st
      else run_bind (\<lambda>st. try_writer (mark_inlined_insert_deleted S C (cm_db st) table_id schema_version row_id) st)
             (\<lambda>_. delete_inlined_rows S C replaced table_id schema_version row_ids) st)"

section \<open>One operation\<close>

definition end_table :: "'db slatedb \<Rightarrow> codecs \<Rightarrow> u64 \<Rightarrow> u64 \<Rightarrow> ('db CommitState, unit) run" where
  "end_table S C entity_id begin_snapshot st =
     (case find_table_schema_id S C (cm_db st) entity_id of
        Inl e \<Rightarrow> Some (Inl (RL_Catalog e), st)
      | Inr found \<Rightarrow>
          try_writer (drop_table S C (cm_db st) (case found of Some i \<Rightarrow> i | None \<Rightarrow> 0) entity_id begin_snapshot) st)"

definition end_column :: "'db slatedb \<Rightarrow> codecs \<Rightarrow> u64 \<Rightarrow> u64 \<Rightarrow> ('db CommitState, unit) run" where
  "end_column S C entity_id begin_snapshot st =
     (case find_column_table_id S C (cm_db st) entity_id of
        Inl e \<Rightarrow> Some (Inl (RL_Catalog e), st)
      | Inr found \<Rightarrow>
          try_writer (drop_column S C (cm_db st) (case found of Some i \<Rightarrow> i | None \<Rightarrow> entity_id) entity_id
            begin_snapshot) st)"

definition resolved_scope :: "string option \<Rightarrow> MetadataScope" where
  "resolved_scope scope =
     (if scope = Some ''schema'' then Schema else if scope = Some ''table'' then Table else Global)"

fun run_op ::
  "'db slatedb \<Rightarrow> codecs \<Rightarrow> (string option list \<Rightarrow> string + bytes) \<Rightarrow> inlined_row list \<Rightarrow> inlined_row list
     \<Rightarrow> string \<Rightarrow> BufferedOp \<Rightarrow> ('db CommitState, unit) run" where
  "run_op S C json_vec replaced deleted uuid (Op_InsertSchema schema_name) st =
     try_writer (create_schema C uuid schema_name) (needs_snapshot st)"
| "run_op S C json_vec replaced deleted uuid (Op_InsertTable schema_id table_name data_path) st =
     try_writer (create_table C uuid schema_id table_name data_path) (needs_snapshot st)"
| "run_op S C json_vec replaced deleted uuid (Op_InsertColumn table_id column_name data_type column_index
       is_nullable default_value initial_default default_value_type default_value_dialect parent_column) st =
     try_writer (add_column_with_opts C table_id column_name data_type column_index is_nullable default_value
       initial_default default_value_type default_value_dialect parent_column) (needs_snapshot st)"
| "run_op S C json_vec replaced deleted uuid (Op_InsertDataFile table_id path file_format row_count file_size_bytes) st =
     try_writer (register_data_file S C (cm_db st) table_id path file_format row_count file_size_bytes)
       (needs_snapshot st)"
| "run_op S C json_vec replaced deleted uuid (Op_InsertDeleteFile data_file_id path delete_count file_size_bytes) st =
     try_writer (register_delete_file C data_file_id path delete_count file_size_bytes) (needs_snapshot st)"
| "run_op S C json_vec replaced deleted uuid (Op_InsertSnapshot author message) st =
     done_ok ((needs_snapshot st)\<lparr>cm_author := author, cm_message := message\<rparr>)"
| "run_op S C json_vec replaced deleted uuid (Op_InsertSnapshotChanges change_type change_info schema_id table_id) st =
     try_writer (add_snapshot_changes change_type change_info schema_id table_id) (needs_snapshot st)"
| "run_op S C json_vec replaced deleted uuid (Op_UpdateEndSnapshot table_name entity_id begin_snapshot _) st =
     (if table_name = ''ducklake_table'' then end_table S C entity_id begin_snapshot (needs_snapshot st)
      else if table_name = ''ducklake_column'' then end_column S C entity_id begin_snapshot (needs_snapshot st)
      else done_ok (needs_snapshot st))"
| "run_op S C json_vec replaced deleted uuid (Op_UpdateTableStats table_id row_count_delta) st =
     try_db (apply_table_stats_delta S C table_id row_count_delta) (needs_snapshot st)"
| "run_op S C json_vec replaced deleted uuid (Op_SetTableStats table_id record_count file_size_bytes next_row_id) st =
     try_db (set_table_stats S C table_id record_count file_size_bytes next_row_id) (needs_snapshot st)"
| "run_op S C json_vec replaced deleted uuid (Op_InsertFileColumnStats table_id column_id data_file_id contains_null
       min_value max_value contains_nan) st =
     try_db (upsert_file_column_stats S C
       \<lparr>fci_table_id = table_id, fci_column_id = column_id, fci_data_file_id = data_file_id,
        fci_contains_null = contains_null, fci_min_value = min_value, fci_max_value = max_value,
        fci_contains_nan = contains_nan, fci_column_size_bytes = None, fci_value_count = None,
        fci_null_count = None, fci_extra_stats = None\<rparr>) (needs_snapshot st)"
| "run_op S C json_vec replaced deleted uuid (Op_InsertTableColumnStats table_id column_id contains_null contains_nan
       min_value max_value extra_stats) st =
     try_db (upsert_table_column_stats S C table_id column_id contains_null min_value max_value contains_nan
       extra_stats) st"
| "run_op S C json_vec replaced deleted uuid (Op_InsertMetadata key value scope scope_id) st =
     try_writer (set_metadata C (resolved_scope scope) (case scope_id of Some i \<Rightarrow> i | None \<Rightarrow> 0) key value)
       (needs_snapshot st)"
| "run_op S C json_vec replaced deleted uuid (Op_InsertInlinedDataTables table_id table_name schema_version) st =
     try_writer (register_inlined_data_table C table_id table_name schema_version) (needs_snapshot st)"
| "run_op S C json_vec replaced deleted uuid (Op_InsertSchemaVersions begin_snapshot schema_version table_id) st =
     try_writer (register_schema_version C begin_snapshot schema_version table_id) (needs_snapshot st)"
| "run_op S C json_vec replaced deleted uuid (Op_InsertInlinedRow table_name rows) st =
     (case parse_inlined_table_ids table_name of
        None \<Rightarrow> done_ok (needs_snapshot st)
      | Some (table_id, schema_version) \<Rightarrow>
          insert_inlined_rows S C json_vec deleted table_id schema_version rows (needs_snapshot st))"
| "run_op S C json_vec replaced deleted uuid (Op_DeleteInlinedRows table_name row_ids) st =
     (case parse_inlined_table_ids table_name of
        None \<Rightarrow> done_ok (needs_snapshot st)
      | Some (table_id, schema_version) \<Rightarrow>
          run_bind (delete_inlined_rows S C replaced table_id schema_version row_ids)
            (\<lambda>_. try_db (adjust_table_record_count S C table_id (- of_nat (length row_ids))))
            (needs_snapshot st))"
| "run_op S C json_vec replaced deleted uuid (Op_InsertView schema_id view_name sql view_uuid dialect column_aliases) st =
     try_writer (create_view_with_opts C uuid schema_id view_name sql view_uuid dialect column_aliases)
       (needs_snapshot st)"
| "run_op S C json_vec replaced deleted uuid (Op_InsertMacro schema_id macro_name macro_type _) st =
     try_writer (create_macro C uuid schema_id macro_name macro_type) (needs_snapshot st)"
| "run_op S C json_vec replaced deleted uuid (Op_InsertMacroImpl macro_id sql dialect impl_type) st =
     try_writer (add_macro_impl_with_opts C macro_id sql dialect impl_type) (needs_snapshot st)"
| "run_op S C json_vec replaced deleted uuid (Op_InsertMacroParams macro_id impl_id column_id parameter_name
       parameter_type default_value default_value_type) st =
     try_db (add_macro_parameter_with_opts S C macro_id impl_id column_id parameter_name parameter_type
       default_value default_value_type) (needs_snapshot st)"
| "run_op S C json_vec replaced deleted uuid (Op_InsertTableStats table_id record_count next_row_id file_size_bytes) st =
     try_db (update_table_stats S C table_id record_count next_row_id file_size_bytes) st"

section \<open>Commit\<close>

fun run_ops ::
  "'db slatedb \<Rightarrow> codecs \<Rightarrow> (string option list \<Rightarrow> string + bytes) \<Rightarrow> inlined_row list \<Rightarrow> inlined_row list
     \<Rightarrow> (nat \<Rightarrow> string) \<Rightarrow> nat \<Rightarrow> BufferedOp list \<Rightarrow> ('db CommitState, unit) run" where
  "run_ops S C json_vec replaced deleted uuids i [] st = done_ok st"
| "run_ops S C json_vec replaced deleted uuids i (op # ops) st =
     run_bind (run_op S C json_vec replaced deleted (uuids i) op)
       (\<lambda>_. run_ops S C json_vec replaced deleted uuids (Suc i) ops) st"

definition data_file_table :: "BufferedOp \<Rightarrow> u64 option" where
  "data_file_table op = (case op of Op_InsertDataFile table_id _ _ _ _ \<Rightarrow> Some table_id | _ \<Rightarrow> None)"

definition affected_table_ids :: "BufferedOp list \<Rightarrow> u64 list" where
  "affected_table_ids ops = remdups_adj (List.map_filter data_file_table ops)"

definition commit_start :: "CatalogStore \<Rightarrow> 'db \<Rightarrow> 'db CommitState" where
  "commit_start store db =
     \<lparr>cm_writer = begin_write store, cm_db = db, cm_author = None, cm_message = None,
      cm_needs_snapshot = False, cm_reserved = []\<rparr>"

text \<open>The function yields the notifications it sends, the store and the database it leaves behind.\<close>

definition execute_commit ::
  "'db slatedb \<Rightarrow> codecs \<Rightarrow> (string option list \<Rightarrow> string + bytes) \<Rightarrow> (nat \<Rightarrow> string) \<Rightarrow> string
     \<Rightarrow> ('db \<Rightarrow> 'db) \<Rightarrow> NotifyManager \<Rightarrow> BufferedOp list \<Rightarrow> (CatalogStore \<times> 'db, Notification list) run" where
  "execute_commit S C json_vec uuids now env manager ops = (\<lambda>(store, db).
     (if ops = [] then Some (Inr [], (store, db))
      else
        (case run_ops S C json_vec (collect_replaced_inlined_rows ops) (collect_deleted_inlined_rows ops)
                uuids 0 ops (commit_start store db) of
           None \<Rightarrow> None
         | Some (Inl e, st) \<Rightarrow> Some (Inl e, (store, cm_db st))
         | Some (Inr _, st) \<Rightarrow>
             (let sent = notify_snapshot_advance manager (affected_table_ids ops) in
              if cm_needs_snapshot st then
                (case create_snapshot S C now env (cm_author st) (cm_message st) (cm_writer st, cm_db st) of
                   (Inl e, (_, db')) \<Rightarrow> Some (Inl (RL_Catalog e), (store, db'))
                 | (Inr cr, (_, db')) \<Rightarrow> Some (Inr sent, (commit_writer cr store, db')))
              else Some (Inr sent, (store, cm_db st))))))"

section \<open>The search for a free row id\<close>

text \<open>The search ends at the first row id from the start on whose lookup does not say taken, and it runs
  forever when there is none.\<close>

lemma free_row_id_skip: "taken r = Inr True \<Longrightarrow> free_row_id taken r = free_row_id taken (saturating_add r 1)"
  by (subst free_row_id.simps) simp

lemma free_row_id_first:
  "(\<And>y. r \<le> y \<Longrightarrow> y < x \<Longrightarrow> taken y = Inr True) \<Longrightarrow> taken x \<noteq> Inr True \<Longrightarrow> unat x = unat r + d \<Longrightarrow>
     free_row_id taken r = Some (case taken x of Inl e \<Rightarrow> Inl e | Inr _ \<Rightarrow> Inr x)"
proof (induction d arbitrary: r)
  case 0
  then have "x = r" by (simp add: word_unat_eq_iff)
  with 0(2) show ?case by (subst free_row_id.simps) (auto split: sum.split)
next
  case (Suc d)
  have n: "unat (saturating_add r 1) = unat r + 1"
    using Suc.prems(3) unsigned_less [of x, where ?'a = nat] by (simp add: unat_saturating_add)
  have "taken r = Inr True"
    using Suc.prems(3) by (intro Suc.prems(1)) (simp_all add: word_less_nat_alt)
  moreover have "free_row_id taken (saturating_add r 1) = Some (case taken x of Inl e \<Rightarrow> Inl e | Inr _ \<Rightarrow> Inr x)"
    using Suc.prems n by (intro Suc.IH Suc.prems(1)) (simp_all add: word_le_nat_alt)
  ultimately show ?case by (simp add: free_row_id_skip)
qed

lemma free_row_id_diverges: "\<forall>x\<ge>r. taken x = Inr True \<Longrightarrow> free_row_id taken r = None"
proof (rule ccontr)
  assume "\<forall>x\<ge>r. taken x = Inr True" "free_row_id taken r \<noteq> None"
  then obtain res where all: "\<forall>x\<ge>r. taken x = Inr True" and "free_row_id taken r = Some res" by auto
  have "\<exists>x\<ge>r. taken x \<noteq> Inr True"
  proof (rule free_row_id.raw_induct [where P = "\<lambda>t r res. \<exists>x\<ge>r. t x \<noteq> Inr True", OF _ \<open>free_row_id taken r = Some res\<close>])
    fix f :: "(u64 \<Rightarrow> CatalogError + bool) \<Rightarrow> u64 \<Rightarrow> (CatalogError + u64) option" and t r res
    assume IH: "\<And>t r res. f t r = Some res \<Longrightarrow> \<exists>x\<ge>r. t x \<noteq> Inr True"
      and eq: "(case t r of Inl e \<Rightarrow> Some (Inl e)
        | Inr b \<Rightarrow> if b then f t (saturating_add r 1) else Some (Inr r)) = Some res"
    have up: "r \<le> saturating_add r 1"
      using unsigned_less [of r, where ?'a = nat] by (simp add: word_le_nat_alt unat_saturating_add)
    show "\<exists>x\<ge>r. t x \<noteq> Inr True"
    proof (cases "t r = Inr True")
      case True
      then have "f t (saturating_add r 1) = Some res" using eq by simp
      from IH [OF this] obtain x where "saturating_add r 1 \<le> x" "t x \<noteq> Inr True" by blast
      then show ?thesis using up by (meson order_trans)
    qed auto
  qed
  with all show False by blast
qed

lemma first_not_taken:
  assumes "\<exists>x\<ge>r. taken x \<noteq> (Inr True :: CatalogError + bool)"
  obtains x :: u64 where "r \<le> x" "taken x \<noteq> Inr True" "\<And>y. r \<le> y \<Longrightarrow> y < x \<Longrightarrow> taken y = Inr True"
proof -
  define P where "P n \<longleftrightarrow> (\<exists>x\<ge>r. taken x \<noteq> Inr True \<and> unat x = n)" for n
  have "\<exists>n. P n" using assms by (auto simp: P_def)
  then have "P (LEAST n. P n)" by (rule LeastI_ex)
  then obtain x where x: "r \<le> x" "taken x \<noteq> Inr True" "unat x = (LEAST n. P n)" unfolding P_def by blast
  have "taken y = Inr True" if "r \<le> y" "y < x" for y
    using not_less_Least [of "unat y" P] that x(3) by (auto simp: P_def word_less_nat_alt)
  with that x show thesis by blast
qed

lemma free_row_id_at:
  assumes "r \<le> x" "taken x \<noteq> Inr True" "\<And>y. r \<le> y \<Longrightarrow> y < x \<Longrightarrow> taken y = Inr True"
  shows "free_row_id taken r = Some (case taken x of Inl e \<Rightarrow> Inl e | Inr _ \<Rightarrow> Inr x)"
  using assms(1,2) by (intro free_row_id_first [where d = "unat x - unat r"] assms(3)) (simp_all add: word_le_nat_alt)

lemma free_row_id_returns_iff:
  "(\<exists>res. free_row_id taken r = Some res) \<longleftrightarrow> (\<exists>x\<ge>r. taken x \<noteq> Inr True)"
  using free_row_id_diverges [of r taken] free_row_id_at [of r _ taken] first_not_taken [of r taken]
  by (metis option.distinct(1))

lemma free_row_id_Inr:
  assumes "free_row_id taken r = Some (Inr x)"
  shows "r \<le> x \<and> taken x = Inr False \<and> (\<forall>y. r \<le> y \<longrightarrow> y < x \<longrightarrow> taken y = Inr True)"
proof -
  have "\<exists>x\<ge>r. taken x \<noteq> Inr True" using assms free_row_id_returns_iff by blast
  then obtain z where z: "r \<le> z" "taken z \<noteq> Inr True" "\<And>y. r \<le> y \<Longrightarrow> y < z \<Longrightarrow> taken y = Inr True"
    using first_not_taken by blast
  with free_row_id_at [of r z taken, OF z] assms show ?thesis by (auto split: sum.splits)
qed

section \<open>Replaying keeps the session invariant\<close>

lemma run_bind_Some:
  "run_bind m f st = Some (Inr b, st') \<longleftrightarrow> (\<exists>a st1. m st = Some (Inr a, st1) \<and> f a st1 = Some (Inr b, st'))"
  by (auto simp: run_bind_def split: option.splits sum.splits prod.splits)

lemma try_writer_Inr:
  "try_writer f st = Some (Inr u, st') \<Longrightarrow> st' = st\<lparr>cm_writer := snd (f (cm_writer st))\<rparr>"
  by (auto simp: try_writer_def try_cmd_def rbind_eq_Inr_iff split: prod.splits sum.splits)

lemma try_db_Inr:
  "try_db f st = Some (Inr u, st') \<Longrightarrow> \<exists>db. f (cm_db st) = (Inr (), db) \<and> st' = st\<lparr>cm_db := db\<rparr>"
  by (auto simp: try_db_def try_cmd_def split: prod.splits sum.splits)

definition same_families :: "'db slatedb \<Rightarrow> 'db \<Rightarrow> 'db \<Rightarrow> bool" where
  "same_families S db db' \<longleftrightarrow>
     (\<forall>t k. t \<in> {TAG_SCHEMA, TAG_TABLE, TAG_COLUMN, TAG_VIEW, TAG_MACRO} \<longrightarrow> prefix [t] k \<longrightarrow>
        sdb_view S db' k = sdb_view S db k)"

lemma same_families_refl [simp]: "same_families S db db"
  by (simp add: same_families_def)

lemma same_families_trans: "same_families S a b \<Longrightarrow> same_families S b c \<Longrightarrow> same_families S a c"
  by (simp add: same_families_def)

lemma same_families_put:
  assumes "slatedb_ok S" and "db_put S (t # k) v db = (Inr u, db')"
    and "t \<notin> {TAG_SCHEMA, TAG_TABLE, TAG_COLUMN, TAG_VIEW, TAG_MACRO}"
  shows "same_families S db db'"
  using db_put_Inr [OF assms(1,2)] assms(3) by (auto simp: same_families_def prefix_def)

text \<open>The direct writes leave the rows of the versioned families alone.\<close>

lemma stats_tags [simp]:
  "TAG_TABLE_STATS \<notin> {TAG_SCHEMA, TAG_TABLE, TAG_COLUMN, TAG_VIEW, TAG_MACRO}"
  "TAG_TABLE_COLUMN_STATS \<notin> {TAG_SCHEMA, TAG_TABLE, TAG_COLUMN, TAG_VIEW, TAG_MACRO}"
  "TAG_FILE_COLUMN_STATS \<notin> {TAG_SCHEMA, TAG_TABLE, TAG_COLUMN, TAG_VIEW, TAG_MACRO}"
  "TAG_MACRO_PARAMETERS \<notin> {TAG_SCHEMA, TAG_TABLE, TAG_COLUMN, TAG_VIEW, TAG_MACRO}"
  by (simp_all add: tag_defs)

lemma direct_writes_same_families:
  assumes ok: "slatedb_ok S"
  shows "apply_table_stats_delta S C t d db = (Inr u, db') \<Longrightarrow> same_families S db db'"
    and "set_table_stats S C t a b c db = (Inr u, db') \<Longrightarrow> same_families S db db'"
    and "update_table_stats S C t a b c db = (Inr u, db') \<Longrightarrow> same_families S db db'"
    and "adjust_table_record_count S C t d db = (Inr u, db') \<Longrightarrow> same_families S db db'"
    and "upsert_file_column_stats S C input db = (Inr u, db') \<Longrightarrow> same_families S db db'"
    and "upsert_table_column_stats S C t i cn mn mx nan ex db = (Inr u, db') \<Longrightarrow> same_families S db db'"
    and "add_macro_parameter_with_opts S C i j k nm ty dv dvt db = (Inr u, db') \<Longrightarrow> same_families S db db'"
  by (auto simp: apply_table_stats_delta_def set_table_stats_def update_table_stats_def
      adjust_table_record_count_def upsert_file_column_stats_def upsert_table_column_stats_def
      add_macro_parameter_with_opts_def read_table_stats_or_default_def bind_Inr Let_def
      key_table_stats_def key_table_column_stats_def key_file_column_stats_def key_macro_parameters_def
      simp del: insert_iff empty_iff
      split: sum.splits dest: same_families_put [OF ok _ stats_tags(1)]
        same_families_put [OF ok _ stats_tags(2)] same_families_put [OF ok _ stats_tags(3)]
        same_families_put [OF ok _ stats_tags(4)])

lemma session_inv_same_families:
  assumes "session_inv C (sdb_view S db) n w" and "same_families S db db'"
  shows "session_inv C (sdb_view S db') n w"
proof -
  have eq: "sdb_view S db' k = sdb_view S db k"
    if "prefix [t] k" "t \<in> {TAG_SCHEMA, TAG_TABLE, TAG_COLUMN, TAG_VIEW, TAG_MACRO}" for t k
    using assms(2) that unfolding same_families_def by blast
  have "history_ok C n (sdb_view S db') kv" if "history_ok C n (sdb_view S db) kv" for kv
    using that unfolding history_ok_def
    by (metis eq insertCI schema_rows.change_ok_cong table_rows.change_ok_cong column_rows.change_ok_cong
        view_rows.change_ok_cong macro_rows.change_ok_cong)
  moreover have "ids_below (sdb_view S db') c" if "ids_below (sdb_view S db) c" for c
  proof -
    have k: "sdb_view S db' (key_schema i) = sdb_view S db (key_schema i)"
      "sdb_view S db' (key_table i j s) = sdb_view S db (key_table i j s)"
      "sdb_view S db' (key_column i j s) = sdb_view S db (key_column i j s)"
      "sdb_view S db' (key_view i j s) = sdb_view S db (key_view i j s)"
      "sdb_view S db' (key_macro i j s) = sdb_view S db (key_macro i j s)" for i j s
      using eq [of TAG_SCHEMA "key_schema i"] eq [of TAG_TABLE "key_table i j s"]
        eq [of TAG_COLUMN "key_column i j s"] eq [of TAG_VIEW "key_view i j s"]
        eq [of TAG_MACRO "key_macro i j s"]
      by (simp_all add: key_schema_def key_table_def key_column_def key_view_def key_macro_def)
    show ?thesis using that by (simp add: ids_below_def k)
  qed
  ultimately show ?thesis using assms(1) by (auto simp: session_inv_def)
qed

lemma live_same_families:
  assumes "same_families S db db'"
  shows "live S (pb_TableRow C) tr_end_snapshot db (key_table i t b) \<Longrightarrow>
      live S (pb_TableRow C) tr_end_snapshot db' (key_table i t b)"
    and "live S (pb_ColumnRow C) cr_end_snapshot db (key_column i t b) \<Longrightarrow>
      live S (pb_ColumnRow C) cr_end_snapshot db' (key_column i t b)"
proof -
  have "sdb_view S db' (key_table i t b) = sdb_view S db (key_table i t b)"
    "sdb_view S db' (key_column i t b) = sdb_view S db (key_column i t b)"
    using assms unfolding same_families_def by (simp_all add: key_table_def key_column_def)
  then show "live S (pb_TableRow C) tr_end_snapshot db (key_table i t b) \<Longrightarrow>
      live S (pb_TableRow C) tr_end_snapshot db' (key_table i t b)"
    and "live S (pb_ColumnRow C) cr_end_snapshot db (key_column i t b) \<Longrightarrow>
      live S (pb_ColumnRow C) cr_end_snapshot db' (key_column i t b)"
    by (simp_all add: live_def)
qed

text \<open>The invariant of the replay: the session invariant on the current database, the versioned families
  as they were in the beginning, and \<open>k\<close> catalog ids left.\<close>

definition next_id :: "CatalogWriter \<Rightarrow> nat" where
  "next_id w = unat (cc_next_catalog_id (w_counters w))"

definition replay_inv :: "'db slatedb \<Rightarrow> codecs \<Rightarrow> 'db \<Rightarrow> u64 \<Rightarrow> nat \<Rightarrow> 'db CommitState \<Rightarrow> bool" where
  "replay_inv S C db0 n k st \<longleftrightarrow>
     session_inv C (sdb_view S (cm_db st)) n (cm_writer st) \<and> same_families S db0 (cm_db st) \<and>
     next_id (cm_writer st) + k < 2 ^ 64"

text \<open>An operation that ends a row has to name a live one.\<close>

definition ends_live :: "'db slatedb \<Rightarrow> codecs \<Rightarrow> 'db \<Rightarrow> BufferedOp \<Rightarrow> bool" where
  "ends_live S C db op = (case op of
     Op_UpdateEndSnapshot table_name entity_id begin_snapshot _ \<Rightarrow>
       (table_name = ''ducklake_table'' \<longrightarrow>
          (\<forall>i. live S (pb_TableRow C) tr_end_snapshot db (key_table i entity_id begin_snapshot))) \<and>
       (table_name = ''ducklake_column'' \<longrightarrow>
          (\<forall>i. live S (pb_ColumnRow C) cr_end_snapshot db (key_column i entity_id begin_snapshot)))
   | _ \<Rightarrow> True)"

lemma replay_inv_less: "replay_inv S C db0 n k st \<Longrightarrow> j \<le> k \<Longrightarrow> replay_inv S C db0 n j st"
  by (simp add: replay_inv_def)

lemma replay_inv_flags [simp]:
  "replay_inv S C db0 n k (needs_snapshot st) = replay_inv S C db0 n k st"
  "replay_inv S C db0 n k (st\<lparr>cm_author := a, cm_message := b\<rparr>) = replay_inv S C db0 n k st"
  "replay_inv S C db0 n k (st\<lparr>cm_reserved := r\<rparr>) = replay_inv S C db0 n k st"
  "cm_db (needs_snapshot st) = cm_db st"
  by (simp_all add: replay_inv_def needs_snapshot_def)

lemma replay_can_alloc: "replay_inv S C db0 n (Suc k) st \<Longrightarrow> can_alloc (cm_writer st)"
  by (simp add: replay_inv_def next_id_def can_alloc_def peek_catalog_id_def word_less_nat_alt unat_u64_max)

lemma replay_db:
  assumes "replay_inv S C db0 n k st" and "try_db f st = Some (Inr u, st')"
    and "\<And>db db'. f db = (Inr (), db') \<Longrightarrow> same_families S db db'"
  shows "replay_inv S C db0 n k st'"
  using assms try_db_Inr [OF assms(2)]
  by (auto simp: replay_inv_def intro: session_inv_same_families same_families_trans)

lemma replay_writer:
  assumes "replay_inv S C db0 n k st" and "try_writer f st = Some (Inr u, st')"
    and "session_inv C (sdb_view S (cm_db st)) n (snd (f (cm_writer st)))"
    and "next_id (snd (f (cm_writer st))) \<le> next_id (cm_writer st)"
  shows "replay_inv S C db0 n k st'"
  using assms(1,3,4) try_writer_Inr [OF assms(2)] by (auto simp: replay_inv_def)

lemma replay_alloc:
  assumes "replay_inv S C db0 n (Suc k) st" and "try_writer f st = Some (Inr u, st')"
    and "session_inv C (sdb_view S (cm_db st)) n (snd (f (cm_writer st)))"
    and "next_id (snd (f (cm_writer st))) \<le> Suc (next_id (cm_writer st))"
  shows "replay_inv S C db0 n k st'"
  using assms(1,3,4) try_writer_Inr [OF assms(2)] by (auto simp: replay_inv_def)

text \<open>Only the operations that create an object take a catalog id, and at most one.\<close>

lemma next_id_create:
  "next_id (snd (create_schema C uuid name w)) \<le> Suc (next_id w)"
  "next_id (snd (create_table C uuid i name path w)) \<le> Suc (next_id w)"
  "next_id (snd (add_column_with_opts C t name ty ix nl dv idf dvt ddl pc w)) \<le> Suc (next_id w)"
  "next_id (snd (create_view_with_opts C uuid i name sql vu dia als w)) \<le> Suc (next_id w)"
  "next_id (snd (create_macro C uuid i name ty w)) \<le> Suc (next_id w)"
  "next_id (snd (add_macro_impl_with_opts C i sql dia mty w)) \<le> Suc (next_id w)"
  by (simp_all add: next_id_def create_schema_def create_table_def add_column_with_opts_def
      create_view_with_opts_def create_macro_def add_macro_impl_with_opts_def w_simps
      unat_word_ariths mod_Suc)

lemma next_id_other:
  "next_id (snd (register_data_file S C db t path fmt rc sz w)) = next_id w"
  "next_id (snd (register_delete_file C d path dc sz w)) = next_id w"
  "next_id (snd (register_inlined_insert C t sv rid payload w)) = next_id w"
  "next_id (snd (register_inlined_data_table C t name sv w)) = next_id w"
  "next_id (snd (register_schema_version C b sv t w)) = next_id w"
  "next_id (snd (mark_inlined_insert_deleted S C db t sv rid w)) = next_id w"
  "next_id (snd (set_metadata C scope i key val w)) = next_id w"
  "next_id (snd (add_snapshot_changes ty info j u w)) = next_id w"
  "next_id (snd (drop_column S C db t c b w)) = next_id w"
  by (simp_all add: next_id_def register_data_file_def register_data_file_with_metadata_def
      register_delete_file_def register_delete_file_with_metadata_def register_inlined_insert_def
      register_inlined_data_table_def register_schema_version_def mark_inlined_insert_deleted_def
      set_metadata_def add_snapshot_changes_def drop_column_def w_simps split: sum.split)

lemma next_id_drop_table:
  assumes "slatedb_ok S" "codecs_ok C" "live S (pb_TableRow C) tr_end_snapshot db (key_table i t b)"
  shows "next_id (snd (drop_table S C db i t b w)) = next_id w"
  using drop_table_at_adds [OF assms, of "w_snapshot w"]
  unfolding adds_def drop_table_def next_id_def by simp

lemma insert_inlined_row_replay:
  assumes "replay_inv S C db0 n k st"
    and "insert_inlined_row S C json_vec deleted t v values row_id st = Some (Inr u, st')"
  shows "replay_inv S C db0 n k st'"
proof -
  obtain r payload where "try_writer (register_inlined_insert C t v r payload)
      (st\<lparr>cm_reserved := (t, v, r) # cm_reserved st\<rparr>) = Some (Inr u, st')"
    using assms(2) by (auto simp: insert_inlined_row_def Let_def split: option.splits sum.splits if_splits)
  then show ?thesis
    by (rule replay_writer [rotated])
      (use assms(1) in \<open>auto simp: next_id_other replay_inv_def intro: session_inv_other(3)\<close>)
qed

lemma insert_inlined_rows_replay:
  "insert_inlined_rows S C json_vec deleted t v rows st = Some (Inr u, st') \<Longrightarrow>
     replay_inv S C db0 n k st \<Longrightarrow> replay_inv S C db0 n k st'"
proof (induction S C json_vec deleted t v rows st rule: insert_inlined_rows.induct)
  case (2 S C json_vec deleted t v vs rows st)
  then show ?case
    by (auto simp: run_bind_Some split: option.splits dest: insert_inlined_row_replay)
qed (simp add: done_ok_def)

lemma delete_inlined_rows_replay:
  "delete_inlined_rows S C replaced t v row_ids st = Some (Inr u, st') \<Longrightarrow>
     replay_inv S C db0 n k st \<Longrightarrow> replay_inv S C db0 n k st'"
proof (induction S C replaced t v row_ids st rule: delete_inlined_rows.induct)
  case (2 S C replaced t v r row_ids st)
  have "replay_inv S C db0 n k st1"
    if "try_writer (mark_inlined_insert_deleted S C (cm_db st) t v r) st = Some (Inr x, st1)" for x st1
    using 2(4) that
    by (rule replay_writer) (use 2(4) in \<open>auto simp: next_id_other replay_inv_def intro: session_inv_other(6)\<close>)
  with 2 show ?case by (auto simp: run_bind_Some split: if_splits)
qed (simp add: done_ok_def)

lemma end_rows_replay:
  assumes ok: "slatedb_ok S" and C: "codecs_ok C" and inv: "replay_inv S C db0 n k st"
  shows "\<forall>i. live S (pb_TableRow C) tr_end_snapshot db0 (key_table i e b) \<Longrightarrow>
      end_table S C e b st = Some (Inr u, st') \<Longrightarrow> replay_inv S C db0 n k st'"
    and "\<forall>i. live S (pb_ColumnRow C) cr_end_snapshot db0 (key_column i e b) \<Longrightarrow>
      end_column S C e b st = Some (Inr u, st') \<Longrightarrow> replay_inv S C db0 n k st'"
proof -
  have fam: "same_families S db0 (cm_db st)" and si: "session_inv C (sdb_view S (cm_db st)) n (cm_writer st)"
    using inv by (simp_all add: replay_inv_def)
  show "replay_inv S C db0 n k st'"
    if l0: "\<forall>i. live S (pb_TableRow C) tr_end_snapshot db0 (key_table i e b)" and r0: "end_table S C e b st = Some (Inr u, st')"
  proof -
    obtain i where t: "try_writer (drop_table S C (cm_db st) i e b) st = Some (Inr u, st')"
      using r0 by (auto simp: end_table_def split: sum.splits)
    have l: "live S (pb_TableRow C) tr_end_snapshot (cm_db st) (key_table i e b)"
      using l0 live_same_families(1) [OF fam] by blast
    show ?thesis
      by (rule replay_writer [OF inv t session_inv_drop(2) [OF ok C si l]])
        (simp add: next_id_drop_table [OF ok C l])
  qed
  show "replay_inv S C db0 n k st'"
    if l0: "\<forall>i. live S (pb_ColumnRow C) cr_end_snapshot db0 (key_column i e b)" and r0: "end_column S C e b st = Some (Inr u, st')"
  proof -
    obtain i where t: "try_writer (drop_column S C (cm_db st) i e b) st = Some (Inr u, st')"
      using r0 by (auto simp: end_column_def split: sum.splits)
    have l: "live S (pb_ColumnRow C) cr_end_snapshot (cm_db st) (key_column i e b)"
      using l0 live_same_families(2) [OF fam] by blast
    show ?thesis
      by (rule replay_writer [OF inv t session_inv_drop(3) [OF ok C si l]]) (simp add: next_id_other)
  qed
qed

lemma session_inv_files:
  assumes "session_inv C m n w"
  shows "session_inv C m n (snd (register_data_file S C db t path fmt rc sz w))"
    and "session_inv C m n (snd (register_delete_file C d path dc sz w))"
  using session_inv_other(1,2) [OF assms] by (simp_all add: register_data_file_def register_delete_file_def)

lemma run_op_replay:
  assumes ok: "slatedb_ok S" and C: "codecs_ok C" and inv: "replay_inv S C db0 n (Suc k) st"
    and live: "ends_live S C db0 op"
    and run: "run_op S C json_vec replaced deleted uuid op st = Some (Inr u, st')"
  shows "replay_inv S C db0 n k st'"
proof -
  let ?st = "needs_snapshot st"
  have inv': "replay_inv S C db0 n (Suc k) ?st" "replay_inv S C db0 n k ?st" "replay_inv S C db0 n k st"
    using inv replay_inv_less [OF inv, of k] by auto
  have si: "session_inv C (sdb_view S (cm_db ?st)) n (cm_writer ?st)"
    using inv'(1) by (simp add: replay_inv_def)
  note create = replay_alloc [OF inv'(1)] session_inv_create [OF C si replay_can_alloc [OF inv'(1)]] next_id_create
  note other = session_inv_other(3-) [OF si] session_inv_files [OF si]
  note stage = replay_writer [OF inv'(2)] next_id_other [THEN eq_imp_le]
  note direct = replay_db [OF inv'(2)] replay_db [OF inv'(3)]
  show ?thesis
  proof (cases op)
    case (Op_InsertInlinedRow tn rows)
    then show ?thesis using run inv'(2)
      by (auto simp: done_ok_def split: option.splits dest: insert_inlined_rows_replay)
  next
    case (Op_DeleteInlinedRows tn ids)
    then show ?thesis using run inv'(2)
      by (auto simp: done_ok_def run_bind_Some split: option.splits
          intro: replay_db [OF _ _ direct_writes_same_families(4) [OF ok]] dest!: delete_inlined_rows_replay)
  next
    case (Op_UpdateEndSnapshot tn e b x)
    then show ?thesis using run inv'(2) live
      by (auto simp: done_ok_def ends_live_def split: if_splits intro: end_rows_replay [OF ok C inv'(2)])
  qed (use run inv' in \<open>auto simp: done_ok_def intro: create stage other direct direct_writes_same_families [OF ok]\<close>)
qed

lemma run_ops_replay:
  assumes "slatedb_ok S" and "codecs_ok C"
  shows "run_ops S C json_vec replaced deleted uuids i ops st = Some (Inr u, st') \<Longrightarrow>
     replay_inv S C db0 n (length ops) st \<Longrightarrow> \<forall>op\<in>set ops. ends_live S C db0 op \<Longrightarrow>
     replay_inv S C db0 n 0 st'"
proof (induction ops arbitrary: i st)
  case Nil
  then show ?case by (simp add: done_ok_def)
next
  case (Cons op ops)
  obtain x st1 where r: "run_op S C json_vec replaced deleted (uuids i) op st = Some (Inr x, st1)"
    "run_ops S C json_vec replaced deleted uuids (Suc i) ops st1 = Some (Inr u, st')"
    using Cons.prems(1) by (auto simp: run_bind_Some)
  have "replay_inv S C db0 n (length ops) st1"
    by (rule run_op_replay [OF assms _ _ r(1)]) (use Cons.prems(2,3) in simp_all)
  with Cons.IH [OF r(2)] Cons.prems(3) show ?case by simp
qed

lemma replay_start:
  assumes "ids_below (sdb_view S db) (cs_counters store)"
    and "unat (cc_next_catalog_id (cs_counters store)) + k < 2 ^ 64"
  shows "replay_inv S C db (cc_next_snapshot_id (cs_counters store)) k (commit_start store db)"
  using assms session_inv_begin [of "begin_write store" "sdb_view S db" C]
  by (simp add: replay_inv_def next_id_def commit_start_def begin_write_def CatalogWriter_new_def w_snapshot_def
      counter_defs ids_below_def)

lemma same_families_same_rows:
  assumes "slatedb_ok S" and "same_families S db db'" and "as_u64 s < n"
  shows "same_rows_at S C db db' s"
  by (rule history_writes_keep_rows [OF assms(1), where kvs = "[]" and m = "sdb_view S db'"])
    (use assms(2,3) in \<open>auto simp: same_families_def\<close>)

section \<open>Transactions without direct writes\<close>

text \<open>Statistics, macro parameters and the record count of a table with inlined rows are written to the
  database at once; every other operation only stages writes.\<close>

definition stages_only :: "BufferedOp \<Rightarrow> bool" where
  "stages_only op = (case op of
     Op_UpdateTableStats _ _ \<Rightarrow> False | Op_SetTableStats _ _ _ _ \<Rightarrow> False
   | Op_InsertFileColumnStats _ _ _ _ _ _ _ \<Rightarrow> False | Op_InsertTableColumnStats _ _ _ _ _ _ _ \<Rightarrow> False
   | Op_InsertMacroParams _ _ _ _ _ _ _ \<Rightarrow> False | Op_InsertTableStats _ _ _ _ \<Rightarrow> False
   | Op_DeleteInlinedRows _ _ \<Rightarrow> False | _ \<Rightarrow> True)"

lemma try_writer_db: "try_writer f st = Some (r, st') \<Longrightarrow> cm_db st' = cm_db st \<and> cm_needs_snapshot st' = cm_needs_snapshot st"
  by (auto simp: try_writer_def try_cmd_def split: prod.splits)

lemma insert_inlined_row_db:
  "insert_inlined_row S C json_vec deleted t v values row_id st = Some (r, st') \<Longrightarrow>
     cm_db st' = cm_db st \<and> cm_needs_snapshot st' = cm_needs_snapshot st"
  by (auto simp: insert_inlined_row_def Let_def split: option.splits sum.splits if_splits dest!: try_writer_db)

lemma insert_inlined_rows_db:
  "insert_inlined_rows S C json_vec deleted t v rows st = Some (r, st') \<Longrightarrow>
     cm_db st' = cm_db st \<and> cm_needs_snapshot st' = cm_needs_snapshot st"
proof (induction S C json_vec deleted t v rows st rule: insert_inlined_rows.induct)
  case (2 S C json_vec deleted t v vs rows st)
  then show ?case
    by (auto simp: run_bind_def split: option.splits sum.splits prod.splits dest: insert_inlined_row_db)
qed (simp add: done_ok_def)

lemma run_op_db:
  "run_op S C json_vec replaced deleted uuid op st = Some (r, st') \<Longrightarrow> stages_only op \<Longrightarrow>
     cm_db st' = cm_db st \<and> cm_needs_snapshot st'"
  by (cases op)
    (auto simp: stages_only_def done_ok_def needs_snapshot_def end_table_def end_column_def
      split: if_splits option.splits sum.splits dest: try_writer_db insert_inlined_rows_db)

lemma run_ops_db:
  "run_ops S C json_vec replaced deleted uuids i ops st = Some (r, st') \<Longrightarrow> list_all stages_only ops \<Longrightarrow>
     cm_db st' = cm_db st \<and> (ops \<noteq> [] \<or> cm_needs_snapshot st \<longrightarrow> cm_needs_snapshot st')"
proof (induction ops arbitrary: i st)
  case (Cons op ops)
  then show ?case
    by (auto simp: run_bind_def split: option.splits sum.splits prod.splits dest: run_op_db)
qed (simp add: done_ok_def)

section \<open>Properties\<close>



end
