(* ===== verification/Pg_Schema.thy ===== *)
theory Pg_Schema
  imports Pg_Session
begin

text \<open>
  \<open>crates/rocklake-pgwire/src/schema_registry.rs\<close> and \<open>types.rs\<close>: the columns of the metadata tables as
  they are announced to the client, and the table of type identifiers. The field descriptors, type names
  and formats are those of the wire protocol library; of the types only the ones the code names are
  constructors.
\<close>

section \<open>Fields and cells\<close>

datatype PgType = PG_BOOL | PG_INT2 | PG_INT4 | PG_INT8 | PG_TEXT | PG_BYTEA | PG_UUID | PG_DATE
  | PG_TIMESTAMP | PG_TIMESTAMPTZ

datatype FieldFormat = Text_Format | Binary_Format

record FieldInfo =
  fi_name :: string
  fi_type :: PgType
  fi_format :: FieldFormat

definition field :: "string \<Rightarrow> PgType \<Rightarrow> FieldFormat \<Rightarrow> FieldInfo" where
  "field name ty format = \<lparr>fi_name = name, fi_type = ty, fi_format = format\<rparr>"

definition text_col :: "string \<Rightarrow> FieldInfo" where
  "text_col name = field name PG_TEXT Text_Format"

definition int8t :: "string \<Rightarrow> FieldInfo" where
  "int8t name = field name PG_INT8 Text_Format"

definition int8b :: "string \<Rightarrow> FieldInfo" where
  "int8b name = field name PG_INT8 Binary_Format"

definition bool_col :: "string \<Rightarrow> FieldInfo" where
  "bool_col name = field name PG_BOOL Text_Format"

definition uuid_col :: "string \<Rightarrow> FieldInfo" where
  "uuid_col name = field name PG_UUID Text_Format"

definition tstz_col :: "string \<Rightarrow> FieldInfo" where
  "tstz_col name = field name PG_TIMESTAMPTZ Text_Format"

lemmas column_defs = field_def text_col_def int8t_def int8b_def bool_col_def uuid_col_def tstz_col_def

section \<open>Metadata tables\<close>

definition snapshot_schema :: "FieldInfo list" where
  "snapshot_schema =
    [int8t ''snapshot_id'', tstz_col ''snapshot_time'', int8t ''schema_version'',
     int8t ''next_catalog_id'', int8t ''next_file_id'']"

definition snapshot_changes_schema :: "FieldInfo list" where
  "snapshot_changes_schema =
    [int8t ''snapshot_id'', text_col ''changes_made'', text_col ''author'', text_col ''commit_message'',
     text_col ''commit_extra_info'']"

definition schema_schema :: "FieldInfo list" where
  "schema_schema =
    [int8b ''schema_id'', int8b ''begin_snapshot'', int8b ''end_snapshot'', uuid_col ''schema_uuid'',
     text_col ''schema_name'', text_col ''path'', bool_col ''path_is_relative'']"

definition table_schema :: "FieldInfo list" where
  "table_schema =
    [int8b ''table_id'', int8b ''begin_snapshot'', int8b ''end_snapshot'', int8b ''schema_id'',
     text_col ''table_name'', uuid_col ''table_uuid'', text_col ''path'', bool_col ''path_is_relative'']"

definition column_schema :: "FieldInfo list" where
  "column_schema =
    [int8t ''column_id'', int8t ''begin_snapshot'', int8t ''end_snapshot'', int8t ''table_id'',
     int8t ''column_order'', text_col ''column_name'', text_col ''column_type'',
     text_col ''initial_default'', text_col ''default_value'', bool_col ''nulls_allowed'',
     int8t ''parent_column'', text_col ''default_value_type'', text_col ''default_value_dialect'']"

definition data_file_schema :: "FieldInfo list" where
  "data_file_schema =
    [int8t ''data_file_id'', int8t ''table_id'', int8t ''begin_snapshot'', int8t ''end_snapshot'',
     int8t ''file_order'', text_col ''path'', bool_col ''path_is_relative'', text_col ''file_format'',
     int8t ''record_count'', int8t ''file_size_bytes'', int8t ''row_id_start'', int8t ''footer_size'',
     text_col ''encryption_key'', int8t ''partition_id'', int8t ''mapping_id'', text_col ''partial_max'']"

definition delete_file_schema :: "FieldInfo list" where
  "delete_file_schema =
    [int8t ''delete_file_id'', int8t ''table_id'', text_col ''path'', int8t ''delete_count'',
     int8t ''file_size_bytes'', int8t ''begin_snapshot'', int8t ''end_snapshot'', int8t ''footer_size'',
     text_col ''partial_max'']"

definition table_stats_schema :: "FieldInfo list" where
  "table_stats_schema =
    [int8t ''table_id'', int8t ''record_count'', int8t ''next_row_id'', int8t ''file_size_bytes'']"

definition table_column_stats_schema :: "FieldInfo list" where
  "table_column_stats_schema =
    [int8t ''table_id'', int8t ''column_id'', bool_col ''contains_null'', bool_col ''contains_nan'',
     text_col ''min_value'', text_col ''max_value'', text_col ''extra_stats'']"

definition file_column_stats_schema :: "FieldInfo list" where
  "file_column_stats_schema =
    [int8t ''data_file_id'', int8t ''table_id'', int8t ''column_id'', int8t ''column_size_bytes'',
     int8t ''value_count'', int8t ''null_count'', text_col ''min_value'', text_col ''max_value'',
     bool_col ''contains_nan'', text_col ''extra_stats'']"

definition metadata_schema :: "FieldInfo list" where
  "metadata_schema =
    [text_col ''key'', text_col ''value'', text_col ''scope'', int8t ''scope_id'']"

definition view_schema :: "FieldInfo list" where
  "view_schema =
    [int8t ''view_id'', int8t ''begin_snapshot'', int8t ''end_snapshot'', int8t ''schema_id'',
     text_col ''view_name'', uuid_col ''view_uuid'', text_col ''sql'', text_col ''dialect'',
     text_col ''column_aliases'']"

definition macro_schema :: "FieldInfo list" where
  "macro_schema =
    [int8t ''macro_id'', int8t ''begin_snapshot'', int8t ''end_snapshot'', int8t ''schema_id'',
     text_col ''macro_name'', text_col ''macro_uuid'']"

definition macro_impl_schema :: "FieldInfo list" where
  "macro_impl_schema =
    [int8t ''macro_id'', int8t ''impl_id'', text_col ''dialect'', text_col ''sql'', text_col ''type'']"

definition macro_parameters_schema :: "FieldInfo list" where
  "macro_parameters_schema =
    [int8t ''macro_id'', int8t ''impl_id'', int8t ''column_id'', text_col ''parameter_name'',
     text_col ''parameter_type'', text_col ''default_value'', text_col ''default_value_type'']"

definition tag_schema :: "FieldInfo list" where
  "tag_schema =
    [int8t ''begin_snapshot'', int8t ''end_snapshot'', int8t ''object_id'', text_col ''key'',
     text_col ''value'']"

definition column_tag_schema :: "FieldInfo list" where
  "column_tag_schema =
    [int8t ''begin_snapshot'', int8t ''end_snapshot'', int8t ''column_id'', text_col ''key'',
     text_col ''value'']"

definition partition_info_schema :: "FieldInfo list" where
  "partition_info_schema =
    [int8t ''partition_id'', int8t ''table_id'', int8t ''begin_snapshot'', int8t ''end_snapshot'']"

definition partition_column_schema :: "FieldInfo list" where
  "partition_column_schema =
    [int8t ''partition_id'', int8t ''partition_index'', int8t ''column_id'', text_col ''transform'',
     text_col ''transform_param'']"

definition partition_value_schema :: "FieldInfo list" where
  "partition_value_schema =
    [int8t ''data_file_id'', int8t ''partition_index'', text_col ''partition_value'']"

definition sort_info_schema :: "FieldInfo list" where
  "sort_info_schema =
    [int8t ''sort_id'', int8t ''table_id'', int8t ''begin_snapshot'', int8t ''end_snapshot'']"

definition sort_expression_schema :: "FieldInfo list" where
  "sort_expression_schema =
    [int8t ''sort_id'', int8t ''sort_index'', int8t ''column_id'', text_col ''sort_order'',
     text_col ''null_order'']"

definition files_scheduled_for_deletion_schema :: "FieldInfo list" where
  "files_scheduled_for_deletion_schema =
    [text_col ''path'', bool_col ''path_is_relative'', tstz_col ''deletion_scheduled_at'']"

definition inlined_data_tables_schema :: "FieldInfo list" where
  "inlined_data_tables_schema =
    [int8t ''table_id'', text_col ''table_name'', int8t ''schema_version'']"

definition schema_version_schema :: "FieldInfo list" where
  "schema_version_schema =
    [int8t ''schema_version'', text_col ''schema_version_info'']"

definition schema_changes_schema :: "FieldInfo list" where
  "schema_changes_schema =
    [int8t ''changes_id'', int8t ''snapshot_id'', int8t ''table_id'', int8t ''schema_id'',
     text_col ''change_type'', text_col ''change_info'']"

definition encrypted_secret_schema :: "FieldInfo list" where
  "encrypted_secret_schema =
    [int8t ''secret_id'', int8t ''begin_snapshot'', int8t ''end_snapshot'', text_col ''secret_name'',
     text_col ''secret_type'', text_col ''encrypted_secret'']"

definition encryption_key_schema :: "FieldInfo list" where
  "encryption_key_schema =
    [int8t ''catalog_id'', int8t ''begin_snapshot'', int8t ''end_snapshot'', text_col ''encryption_type'',
     text_col ''key_id'', text_col ''encryption_key'']"

definition file_partition_value_schema :: "FieldInfo list" where
  "file_partition_value_schema =
    [int8t ''data_file_id'', int8t ''table_id'', int8t ''partition_key_index'',
     text_col ''partition_value'']"

definition global_table_stats_schema :: "FieldInfo list" where
  "global_table_stats_schema =
    [int8t ''table_id'', int8t ''column_id'', int8t ''record_count'', int8t ''next_row_id'',
     int8t ''file_size_bytes'', bool_col ''contains_null'', bool_col ''contains_nan'',
     text_col ''min_value'', text_col ''max_value'', text_col ''extra_stats'']"

definition latest_snapshot_info_schema :: "FieldInfo list" where
  "latest_snapshot_info_schema =
    [int8b ''snapshot_id'', int8b ''schema_version'', int8b ''next_catalog_id'', int8b ''next_file_id'']"

definition file_variant_stats_schema :: "FieldInfo list" where
  "file_variant_stats_schema =
    [int8t ''data_file_id'', int8t ''column_id'', int8t ''value_count'', int8t ''null_count'',
     int8t ''bloom_filter_offset'', int8t ''bloom_filter_length'']"

definition column_mapping_schema :: "FieldInfo list" where
  "column_mapping_schema =
    [int8t ''table_id'', int8t ''column_id'', int8t ''field_id'', text_col ''mapping_type'']"

definition name_mapping_schema :: "FieldInfo list" where
  "name_mapping_schema =
    [int8t ''table_id'', text_col ''field_name'', int8t ''field_id'', int8t ''column_id'']"

text \<open>The \<open>match\<close> of the lookup, one entry for each arm.\<close>

definition registry :: "(string \<times> FieldInfo list) list" where
  "registry =
    [(''ducklake_snapshot'', snapshot_schema),
     (''ducklake_snapshot_changes'', snapshot_changes_schema),
     (''ducklake_schema'', schema_schema),
     (''ducklake_table'', table_schema),
     (''ducklake_column'', column_schema),
     (''ducklake_data_file'', data_file_schema),
     (''ducklake_delete_file'', delete_file_schema),
     (''ducklake_table_stats'', table_stats_schema),
     (''ducklake_table_column_stats'', table_column_stats_schema),
     (''ducklake_file_column_stats'', file_column_stats_schema),
     (''ducklake_metadata'', metadata_schema),
     (''ducklake_view'', view_schema),
     (''ducklake_macro'', macro_schema),
     (''ducklake_macro_impl'', macro_impl_schema),
     (''ducklake_macro_parameters'', macro_parameters_schema),
     (''ducklake_tag'', tag_schema),
     (''ducklake_column_tag'', column_tag_schema),
     (''ducklake_partition_info'', partition_info_schema),
     (''ducklake_partition_column'', partition_column_schema),
     (''ducklake_partition_value'', partition_value_schema),
     (''ducklake_sort_info'', sort_info_schema),
     (''ducklake_sort_expression'', sort_expression_schema),
     (''ducklake_files_scheduled_for_deletion'', files_scheduled_for_deletion_schema),
     (''ducklake_inlined_data_tables'', inlined_data_tables_schema),
     (''ducklake_schema_version'', schema_version_schema),
     (''ducklake_schema_changes'', schema_changes_schema),
     (''ducklake_encrypted_secret'', encrypted_secret_schema),
     (''ducklake_encryption_key'', encryption_key_schema),
     (''ducklake_file_partition_value'', file_partition_value_schema),
     (''ducklake_file_variant_stats'', file_variant_stats_schema),
     (''ducklake_column_mapping'', column_mapping_schema),
     (''ducklake_name_mapping'', name_mapping_schema)]"

definition fields_for_table :: "string \<Rightarrow> FieldInfo list option" where
  "fields_for_table table_name = map_of registry table_name"

lemmas schema_defs = snapshot_schema_def snapshot_changes_schema_def schema_schema_def table_schema_def column_schema_def data_file_schema_def delete_file_schema_def table_stats_schema_def table_column_stats_schema_def file_column_stats_schema_def metadata_schema_def view_schema_def macro_schema_def macro_impl_schema_def macro_parameters_schema_def tag_schema_def column_tag_schema_def partition_info_schema_def partition_column_schema_def partition_value_schema_def sort_info_schema_def sort_expression_schema_def files_scheduled_for_deletion_schema_def inlined_data_tables_schema_def schema_version_schema_def schema_changes_schema_def encrypted_secret_schema_def encryption_key_schema_def file_partition_value_schema_def global_table_stats_schema_def latest_snapshot_info_schema_def file_variant_stats_schema_def column_mapping_schema_def name_mapping_schema_def

section \<open>Type identifiers\<close>

definition PG_TYPE_MAP :: "(string \<times> nat) list" where
  "PG_TYPE_MAP =
    [(''bool'', 16), (''int2'', 21), (''int4'', 23), (''int8'', 20), (''float4'', 700), (''float8'', 701),
     (''text'', 25), (''varchar'', 1043), (''timestamp'', 1114), (''timestamptz'', 1184), (''uuid'', 2950),
     (''json'', 114), (''jsonb'', 3802)]"

definition type_name_to_oid :: "string \<Rightarrow> nat option" where
  "type_name_to_oid name = map_option snd (find (\<lambda>(n, _). n = name) PG_TYPE_MAP)"

definition oid_to_type_name :: "nat \<Rightarrow> string option" where
  "oid_to_type_name oid_val = map_option fst (find (\<lambda>(_, oid). oid = oid_val) PG_TYPE_MAP)"

section \<open>Facts\<close>

text \<open>Names and identifiers of types are in bijection.\<close>

lemma find_fst: "map_option snd (find (\<lambda>(n, _). n = k) xs) = map_of xs k"
  by (induction xs) auto

lemma find_snd: "map_option fst (find (\<lambda>(_, v). v = k) xs) = map_of (map prod.swap xs) k"
  by (induction xs) auto

lemma type_oid_inverse: "type_name_to_oid name = Some i \<longleftrightarrow> oid_to_type_name i = Some name"
proof -
  have "distinct (map fst PG_TYPE_MAP)" "distinct (map fst (map prod.swap PG_TYPE_MAP))"
    by (simp_all add: PG_TYPE_MAP_def)
  then show ?thesis
    by (auto simp: type_name_to_oid_def oid_to_type_name_def find_fst find_snd map_of_eq_Some_iff
        simp del: map_map)
qed

text \<open>Every registered table is found under its name, and its columns have different names.\<close>

lemma registry_distinct: "distinct (map fst registry)"
  by (simp add: registry_def)

lemma registry_lookup: "(name, cols) \<in> set registry \<Longrightarrow> fields_for_table name = Some cols"
  unfolding fields_for_table_def by (rule map_of_is_SomeI [OF registry_distinct])

lemma registry_columns_distinct: "fields_for_table name = Some cols \<Longrightarrow> distinct (map fi_name cols) \<and> cols \<noteq> []"
proof -
  assume "fields_for_table name = Some cols"
  then have "(name, cols) \<in> set registry" unfolding fields_for_table_def by (rule map_of_SomeD)
  moreover have "list_all (\<lambda>(_, cols). distinct (map fi_name cols) \<and> cols \<noteq> []) registry"
    by (simp add: registry_def schema_defs column_defs)
  ultimately show ?thesis by (auto simp: list_all_iff)
qed

end
