(* ===== verification/Pg_Literals.thy ===== *)
theory Pg_Literals
  imports Pg_Session Catalog_Path
begin

text \<open>
  The literal parser of \<open>crates/rocklake-pgwire/src/executor/mod.rs\<close>: the values of an \<open>INSERT\<close> statement
  are read from its text, row by row. Strings are their UTF-8 bytes; the delimiters are ASCII, so the
  loops over characters are loops over bytes. Slicing the text at a position found in its lower-case copy
  can panic, which is \<open>None\<close> of the outer option. \<open>depth\<close> cannot leave the range of \<open>i32\<close> on a text below
  2 GiB and is an integer.
\<close>

section \<open>Text functions\<close>

text \<open>\<open>str::find\<close> for a string pattern.\<close>

fun find_str :: "string \<Rightarrow> string \<Rightarrow> nat option" where
  "find_str p [] = (if p = [] then Some 0 else None)"
| "find_str p (c # s) = (if starts_with (c # s) p then Some 0 else map_option Suc (find_str p s))"

abbreviation quote :: char where
  "quote \<equiv> CHR 0x27"

text \<open>The \<open>replace\<close> of two quotes by one.\<close>

fun unescape_quotes :: "string \<Rightarrow> string" where
  "unescape_quotes [] = []"
| "unescape_quotes [c] = [c]"
| "unescape_quotes (c # d # s) =
     (if c = quote \<and> d = quote then quote # unescape_quotes s else c # unescape_quotes (d # s))"

definition substr :: "string \<Rightarrow> nat \<Rightarrow> nat \<Rightarrow> string" where
  "substr s i j = take (j - i) (drop i s)"

definition next_is_quote :: "string \<Rightarrow> bool" where
  "next_is_quote cs = (case cs of c # _ \<Rightarrow> c = quote | [] \<Rightarrow> False)"

section \<open>One literal\<close>

text \<open>The position of the closing quote, from position \<open>i\<close> on.\<close>

function closing_quote :: "nat \<Rightarrow> string \<Rightarrow> nat option" where
  "closing_quote i [] = None"
| "closing_quote i (c # cs) =
     (if c = quote then (if next_is_quote cs then closing_quote (i + 2) (tl cs) else Some i)
      else closing_quote (i + 1) cs)"
  by pat_completeness auto
termination by (relation "measure (\<lambda>(i, cs). length cs)") auto

definition cast_inner_literal :: "string \<Rightarrow> string option" where
  "cast_inner_literal s =
     (if starts_with (to_ascii_lowercase s) ''cast('' then
        (let inner = trim_start (drop 5 s); inner_start = length s - length inner in
         if inner_start < length s \<and> s ! inner_start = quote then
           map_option (\<lambda>i. substr s inner_start (i + 1)) (closing_quote (inner_start + 1) (drop (inner_start + 1) s))
         else None)
      else None)"

text \<open>A text in quotes; the recursion through a cast goes to a shorter text.\<close>

definition quoted :: "string \<Rightarrow> bool" where
  "quoted s \<longleftrightarrow> length s \<ge> 2 \<and> hd s = quote \<and> last s = quote"

lemma strip_words_length: "length (strip_words ws s) \<le> length s"
proof (induction ws s rule: strip_words.induct)
  case (1 ws s)
  show ?case
  proof (cases "find (\<lambda>w. w \<noteq> [] \<and> starts_with s w) ws")
    case None
    then show ?thesis by (subst strip_words.simps) simp
  next
    case (Some w)
    have "length (strip_words ws (drop (length w) s)) \<le> length (drop (length w) s)" by (rule 1 [OF Some])
    also have "\<dots> \<le> length s" by simp
    finally show ?thesis using Some by (subst strip_words.simps) simp
  qed
qed

lemma trim_length: "length (trim s) \<le> length s"
  unfolding trim_def trim_end_def trim_start_def length_rev
  by (rule order_trans [OF strip_words_length]) (simp add: strip_words_length)

lemma cast_inner_shorter: "cast_inner_literal s = Some inner \<Longrightarrow> length inner < length s"
proof -
  assume c: "cast_inner_literal s = Some inner"
  define k where "k = length s - length (trim_start (drop 5 s))"
  have pre: "starts_with (to_ascii_lowercase s) ''cast(''" and "k < length s"
    and "\<exists>i. inner = substr s k (i + 1)"
    using c by (auto simp: cast_inner_literal_def Let_def k_def split: if_splits)
  then have l: "length inner \<le> length s - k" by (auto simp: substr_def)
  have "length s \<ge> 5"
    using arg_cong [OF pre [unfolded starts_with_def], of length] by (simp add: to_ascii_lowercase_def)
  moreover have "length (trim_start (drop 5 s)) \<le> length (drop 5 s)"
    unfolding trim_start_def by (rule strip_words_length)
  ultimately have "k \<ge> 5" by (simp add: k_def)
  with l \<open>k < length s\<close> show ?thesis by linarith
qed

function normalize_literal :: "string \<Rightarrow> string option" where
  "normalize_literal value_text =
     (let trimmed = trim value_text in
      if to_ascii_lowercase trimmed = ''null'' then None
      else if quoted trimmed then Some (unescape_quotes (substr trimmed 1 (length trimmed - 1)))
      else case cast_inner_literal trimmed of
             Some inner \<Rightarrow> normalize_literal inner
           | None \<Rightarrow> Some trimmed)"
  by pat_completeness auto
termination
  by (relation "measure length") (auto dest!: cast_inner_shorter intro: less_le_trans [OF _ trim_length])

declare normalize_literal.simps [simp del]

section \<open>Rows of literals\<close>

function split_loop :: "string \<Rightarrow> nat \<Rightarrow> string \<Rightarrow> nat \<Rightarrow> bool \<Rightarrow> int \<Rightarrow> string option list" where
  "split_loop values_text idx [] start in_quote depth = [normalize_literal (drop start values_text)]"
| "split_loop values_text idx (ch # chars) start in_quote depth =
     (if ch = quote then
        (if in_quote \<and> next_is_quote chars
         then split_loop values_text (idx + 2) (tl chars) start in_quote depth
         else split_loop values_text (idx + 1) chars start (\<not> in_quote) depth)
      else if in_quote then split_loop values_text (idx + 1) chars start in_quote depth
      else if ch = CHR ''('' then split_loop values_text (idx + 1) chars start in_quote (depth + 1)
      else if ch = CHR '')'' then split_loop values_text (idx + 1) chars start in_quote (depth - 1)
      else if ch = CHR '','' \<and> depth = 0 then
        normalize_literal (substr values_text start idx) #
          split_loop values_text (idx + 1) chars (idx + 1) in_quote depth
      else split_loop values_text (idx + 1) chars start in_quote depth)"
  by pat_completeness auto
termination by (relation "measure (\<lambda>(v, i, cs, s, q, d). length cs)") auto

definition split_literal_values :: "string \<Rightarrow> string option list" where
  "split_literal_values values_text = split_loop values_text 0 values_text 0 False 0"

function rows_loop :: "string \<Rightarrow> nat \<Rightarrow> string \<Rightarrow> int \<Rightarrow> bool \<Rightarrow> nat option \<Rightarrow> string option list list" where
  "rows_loop after_values idx [] depth in_quote row_start = []"
| "rows_loop after_values idx (ch # chars) depth in_quote row_start =
     (if ch = quote then
        (if in_quote \<and> next_is_quote chars
         then rows_loop after_values (idx + 2) (tl chars) depth in_quote row_start
         else rows_loop after_values (idx + 1) chars depth (\<not> in_quote) row_start)
      else if in_quote then rows_loop after_values (idx + 1) chars depth in_quote row_start
      else if ch = CHR ''('' then
        rows_loop after_values (idx + 1) chars (depth + 1) in_quote
          (if depth = 0 then Some (idx + 1) else row_start)
      else if ch = CHR '')'' then
        (if depth - 1 = 0 then
           (case row_start of
              Some start \<Rightarrow> split_literal_values (substr after_values start idx) #
                rows_loop after_values (idx + 1) chars (depth - 1) in_quote None
            | None \<Rightarrow> rows_loop after_values (idx + 1) chars (depth - 1) in_quote None)
         else rows_loop after_values (idx + 1) chars (depth - 1) in_quote row_start)
      else rows_loop after_values (idx + 1) chars depth in_quote row_start)"
  by pat_completeness auto
termination by (relation "measure (\<lambda>(v, i, cs, s, q, d). length cs)") auto

text \<open>\<open>lower\<close> is \<open>str::to_lowercase\<close>; \<open>None\<close> is a panic of the slice.\<close>

definition literal_insert_rows :: "(string \<Rightarrow> string) \<Rightarrow> string \<Rightarrow> string option list list option" where
  "literal_insert_rows lower sql =
     (case find_str ''values'' (lower sql) of
        None \<Rightarrow> Some []
      | Some values_idx \<Rightarrow>
          map_option (\<lambda>rest. let after_values = trim_start rest in rows_loop after_values 0 after_values 0 False None)
            (slice_from sql (values_idx + 6)))"

definition first_row :: "string option list list \<Rightarrow> string option list" where
  "first_row rows = (case rows of [] \<Rightarrow> [] | r # _ \<Rightarrow> r)"

definition literal_insert_values :: "(string \<Rightarrow> string) \<Rightarrow> string \<Rightarrow> string option list option" where
  "literal_insert_values lower sql = map_option first_row (literal_insert_rows lower sql)"

section \<open>Access to literals\<close>

definition literal_string :: "string option list \<Rightarrow> nat \<Rightarrow> string option" where
  "literal_string values_list index = (if index < length values_list then values_list ! index else None)"

definition literal_u64 :: "string option list \<Rightarrow> nat \<Rightarrow> u64 option" where
  "literal_u64 values_list index = Option.bind (literal_string values_list index) parse_u64"

definition literal_bool :: "string option list \<Rightarrow> nat \<Rightarrow> bool option" where
  "literal_bool values_list index =
     Option.bind (literal_string values_list index) (\<lambda>v.
       let l = to_ascii_lowercase v in
       if l \<in> {''true'', ''t'', ''1''} then Some True
       else if l \<in> {''false'', ''f'', ''0''} then Some False else None)"

definition parse_leading_u64 :: "string \<Rightarrow> u64 option" where
  "parse_leading_u64 input =
     parse_u64 (takeWhile is_digit (dropWhile (\<lambda>ch. ch = quote) (trim_start input)))"

definition literal_assignment_u64 :: "string \<Rightarrow> string \<Rightarrow> u64 option" where
  "literal_assignment_u64 sql column =
     Option.bind (find_str (to_ascii_lowercase column) (to_ascii_lowercase sql)) (\<lambda>idx.
     let after_column = drop (idx + length column) sql in
     Option.bind (find_char (CHR ''='') after_column) (\<lambda>equals_idx.
       parse_leading_u64 (drop (equals_idx + 1) after_column)))"

section \<open>Table names\<close>

definition normalize_table_ref :: "string \<Rightarrow> string" where
  "normalize_table_ref table_ref = trim_matches (CHR 0x22) (trim (last (split_char (CHR ''.'') table_ref)))"

definition ducklake_insert_table_name :: "string \<Rightarrow> string option" where
  "ducklake_insert_table_name sql =
     Option.bind (find_str ''insert into'' (to_ascii_lowercase sql)) (\<lambda>insert_idx.
     let after_insert = trim_start (drop (insert_idx + 11) sql) in
     Option.bind (find_str '' values'' (to_ascii_lowercase after_insert)) (\<lambda>values_idx.
       Some (normalize_table_ref (trim (take values_idx after_insert)))))"

definition is_name_char :: "char \<Rightarrow> bool" where
  "is_name_char ch \<longleftrightarrow> is_digit ch \<or> ch = CHR ''_'' \<or>
     CHR ''a'' \<le> ch \<and> ch \<le> CHR ''z'' \<or> CHR ''A'' \<le> ch \<and> ch \<le> CHR ''Z''"

definition inlined_table_name_from_sql :: "string \<Rightarrow> string option" where
  "inlined_table_name_from_sql sql =
     map_option (\<lambda>start. trim_matches (CHR 0x22) (takeWhile is_name_char (drop start sql)))
       (find_str ''ducklake_inlined_data_'' (to_ascii_lowercase sql))"

section \<open>Printing literals\<close>

definition escape_quotes :: "string \<Rightarrow> string" where
  "escape_quotes v = concat (map (\<lambda>c. if c = quote then [quote, quote] else [c]) v)"

definition show_literal :: "string option \<Rightarrow> string" where
  "show_literal l = (case l of None \<Rightarrow> ''NULL'' | Some v \<Rightarrow> quote # escape_quotes v @ [quote])"

fun show_fields :: "string option list \<Rightarrow> string" where
  "show_fields [] = []"
| "show_fields [l] = show_literal l"
| "show_fields (l # k # ls) = show_literal l @ '','' @ show_fields (k # ls)"

fun show_rows :: "string option list list \<Rightarrow> string" where
  "show_rows [] = []"
| "show_rows (r # rs) = ''('' @ show_fields r @ '')'' @ (if rs = [] then [] else '', '' @ show_rows rs)"

lemma escape_simps [simp]:
  "escape_quotes [] = []" "escape_quotes (c # v) = (if c = quote then [quote, quote] else [c]) @ escape_quotes v"
  by (simp_all add: escape_quotes_def)

lemma unescape_other: "c \<noteq> quote \<Longrightarrow> unescape_quotes (c # s) = c # unescape_quotes s"
  by (cases s) simp_all

lemma unescape_escape: "unescape_quotes (escape_quotes v) = v"
  by (induction v) (simp_all add: unescape_other)

lemma split_loop_quoted:
  "\<not> next_is_quote cs \<Longrightarrow>
     split_loop s i (escape_quotes v @ quote # cs) st True d = split_loop s (i + length (escape_quotes v) + 1) cs st False d"
  by (induction v arbitrary: i) (auto simp: next_is_quote_def)

lemma rows_loop_quoted:
  "\<not> next_is_quote cs \<Longrightarrow>
     rows_loop s i (escape_quotes v @ quote # cs) d True st = rows_loop s (i + length (escape_quotes v) + 1) cs d False st"
  by (induction v arbitrary: i) (auto simp: next_is_quote_def)

lemma split_loop_literal:
  "\<not> next_is_quote cs \<Longrightarrow>
     split_loop s i (show_literal l @ cs) st False d = split_loop s (i + length (show_literal l)) cs st False d"
  by (cases l) (simp_all add: show_literal_def split_loop_quoted)

lemma rows_loop_literal:
  "\<not> next_is_quote cs \<Longrightarrow>
     rows_loop s i (show_literal l @ cs) d False st = rows_loop s (i + length (show_literal l)) cs d False st"
  by (cases l) (simp_all add: show_literal_def rows_loop_quoted)

lemma rows_loop_fields:
  "r \<noteq> [] \<Longrightarrow> \<not> next_is_quote cs \<Longrightarrow>
     rows_loop s i (show_fields r @ cs) d False st = rows_loop s (i + length (show_fields r)) cs d False st"
proof (induction r arbitrary: i rule: show_fields.induct)
  case (3 l k ls)
  then show ?case by (simp add: rows_loop_literal next_is_quote_def add.assoc)
qed (simp_all add: rows_loop_literal)

lemma normalize_show_literal: "normalize_literal (show_literal l) = l"
proof (cases l)
  case None
  have "trim ''NULL'' = ''NULL''" by (rule trim_same) (simp_all add: solid_def)
  moreover have "to_ascii_lowercase ''NULL'' = ''null''" by code_simp
  ultimately show ?thesis
    using None by (simp add: normalize_literal.simps show_literal_def)
next
  case (Some v)
  let ?t = "quote # escape_quotes v @ [quote]"
  have "trim ?t = ?t" by (rule trim_same) (simp_all add: solid_def)
  moreover have "to_ascii_lowercase ?t \<noteq> ''null''"
    by (simp add: to_ascii_lowercase_def ascii_lower_char_def)
  ultimately show ?thesis
    using Some by (simp add: normalize_literal.simps show_literal_def quoted_def substr_def unescape_escape)
qed

lemma split_loop_fields:
  "r \<noteq> [] \<Longrightarrow> split_loop (pre @ show_fields r) (length pre) (show_fields r) (length pre) False 0 = r"
proof (induction r arbitrary: pre rule: show_fields.induct)
  case (2 l)
  have "split_loop s i (show_literal l @ []) st False d = split_loop s (i + length (show_literal l)) [] st False d"
    for s i st d by (rule split_loop_literal) (simp add: next_is_quote_def)
  then show ?case by (simp add: normalize_show_literal)
next
  case (3 l k ls)
  let ?rest = "show_fields (k # ls)"
  have "split_loop (pre @ show_literal l @ '','' @ ?rest) (length pre) (show_literal l @ '','' @ ?rest) (length pre) False 0 =
      split_loop (pre @ show_literal l @ '','' @ ?rest) (length pre + length (show_literal l)) ('','' @ ?rest) (length pre) False 0"
    by (rule split_loop_literal) (simp add: next_is_quote_def)
  also have "\<dots> = l # split_loop ((pre @ show_literal l @ '','') @ ?rest) (length (pre @ show_literal l @ '','')) ?rest
      (length (pre @ show_literal l @ '','')) False 0"
    by (simp add: substr_def normalize_show_literal)
  also have "\<dots> = l # k # ls" by (simp only: 3(1) [OF list.discI [OF refl]])
  finally show ?case by simp
qed simp

lemma split_show_fields: "r \<noteq> [] \<Longrightarrow> split_literal_values (show_fields r) = r"
  using split_loop_fields [of r "[]"] by (simp add: split_literal_values_def)

lemma rows_loop_rows:
  "[] \<notin> set rs \<Longrightarrow> rows_loop (pre @ show_rows rs) (length pre) (show_rows rs) 0 False None = rs"
proof (induction rs arbitrary: pre)
  case (Cons r rs)
  let ?tail = "if rs = [] then [] else '', '' @ show_rows rs"
  let ?s = "pre @ ''('' @ show_fields r @ '')'' @ ?tail"
  have "rows_loop ?s (length pre) (''('' @ show_fields r @ '')'' @ ?tail) 0 False None =
      rows_loop ?s (length pre + 1) (show_fields r @ '')'' @ ?tail) 1 False (Some (length pre + 1))"
    by simp
  also have "\<dots> = rows_loop ?s (length pre + 1 + length (show_fields r)) ('')'' @ ?tail) 1 False (Some (length pre + 1))"
    by (rule rows_loop_fields) (use Cons.prems in \<open>auto simp: next_is_quote_def\<close>)
  also have "\<dots> = split_literal_values (show_fields r) # rows_loop ?s (length pre + length (show_fields r) + 2) ?tail 0 False None"
    by (simp add: substr_def)
  also have "rows_loop ?s (length pre + length (show_fields r) + 2) ?tail 0 False None = rs"
  proof (cases "rs = []")
    case False
    let ?pre = "pre @ ''('' @ show_fields r @ '')'' @ '', ''"
    have "rows_loop ?s (length pre + length (show_fields r) + 2) ?tail 0 False None =
        rows_loop (?pre @ show_rows rs) (length ?pre) (show_rows rs) 0 False None"
      using False by simp
    then show ?thesis using Cons.IH [of ?pre] Cons.prems by simp
  qed simp
  finally show ?case using Cons.prems split_show_fields [of r] by auto
qed simp

lemma trim_start_space:
  assumes "s \<noteq> []" and "solid (hd s)"
  shows "trim_start (CHR '' '' # s) = s"
proof -
  have "find (\<lambda>w. w \<noteq> [] \<and> starts_with (CHR '' '' # s) w) white_space = Some '' ''"
  proof -
    have only: "\<forall>w\<in>set white_space. w \<noteq> [] \<and> (hd w = CHR '' '' \<longrightarrow> w = '' '')"
      unfolding list_all_iff [symmetric] by code_simp
    have mem: "'' '' \<in> set white_space" by code_simp
    show ?thesis
    proof (cases "find (\<lambda>w. w \<noteq> [] \<and> starts_with (CHR '' '' # s) w) white_space")
      case None
      then show ?thesis using mem by (auto simp: find_None_iff starts_with_def)
    next
      case (Some w)
      then have "w \<in> set white_space" "w \<noteq> []" "starts_with (CHR '' '' # s) w"
        by (auto simp: find_Some_iff)
      with only Some show ?thesis by (cases w) (auto simp: starts_with_def)
    qed
  qed
  moreover have "strip_words white_space s = s"
    using assms white_space_ends by (intro strip_words_same) (auto simp: list_all_iff)
  ultimately show ?thesis unfolding trim_start_def by (subst strip_words.simps) simp
qed

text \<open>C24. Literals survive the statement text. When \<open>VALUES\<close> first occurs where the rows of an insertion begin,
  reading the rows from the text gives exactly the rows that were printed, \<open>NULL\<close> and texts with quotes,
  commas and parentheses included.\<close>

theorem literal_rows_round_trip:
  assumes "find_str ''values'' (lower (head @ ''VALUES '' @ show_rows rs)) = Some (length head)"
    and "rs \<noteq> []" and "[] \<notin> set rs"
  shows "literal_insert_rows lower (head @ ''VALUES '' @ show_rows rs) = Some rs"
proof -
  let ?sql = "head @ ''VALUES '' @ show_rows rs"
  have "is_char_boundary ?sql (length head + 6)"
    by (simp add: is_char_boundary_def nth_append is_continuation_def)
  then have "slice_from ?sql (length head + 6) = Some ('' '' @ show_rows rs)"
    by (simp add: slice_from_def)
  moreover have "trim_start ('' '' @ show_rows rs) = show_rows rs"
    using assms(2) trim_start_space [of "show_rows rs"] by (cases rs) (simp_all add: solid_def)
  moreover have "rows_loop (show_rows rs) 0 (show_rows rs) 0 False None = rs"
    using rows_loop_rows [of rs "[]"] assms(3) by simp
  ultimately show ?thesis
    using assms(1) by (simp add: literal_insert_rows_def Let_def del: append_Cons append.simps)
qed

end
