(* ===== verification/Pg_Responses.thy ===== *)
theory Pg_Responses
  imports Pg_Schema Pg_Literals Repair
begin

text \<open>
  The response builders of \<open>crates/rocklake-pgwire/src/executor/helpers.rs\<close> and \<open>executor/catalog.rs\<close>. A
  response is the list of the announced fields, the rows as the cells handed to the encoder of the wire
  protocol library, and the command tag. A cell is a value with the type and the format it is encoded
  with. What the SQL parser, the calendar and the JSON library compute is an argument.
\<close>

section \<open>Cells and responses\<close>

datatype PgValue = V_Text "string option" | V_Bool "bool option" | V_I16 "int option" | V_I32 "int option"
  | V_I64 "i64 option" | V_Bytes "bytes option"

record Cell =
  cell_value :: PgValue
  cell_type :: PgType
  cell_format :: FieldFormat

datatype Response = R_Query "FieldInfo list" "Cell list list" "string option"
  | R_Execution string | R_TransactionStart string | R_TransactionEnd string | R_CopyIn nat nat "nat list"

definition text_cell :: "string option \<Rightarrow> Cell" where
  "text_cell v = \<lparr>cell_value = V_Text v, cell_type = PG_TEXT, cell_format = Text_Format\<rparr>"

definition int8_cell :: "i64 option \<Rightarrow> Cell" where
  "int8_cell v = \<lparr>cell_value = V_I64 v, cell_type = PG_INT8, cell_format = Binary_Format\<rparr>"

text \<open>A text handed to the encoder with the type \<open>INT8\<close> in text format.\<close>

definition int8_text_cell :: "string option \<Rightarrow> Cell" where
  "int8_text_cell v = \<lparr>cell_value = V_Text v, cell_type = PG_INT8, cell_format = Text_Format\<rparr>"

definition select_response :: "FieldInfo list \<Rightarrow> Cell list list \<Rightarrow> Response" where
  "select_response schema data_rows = R_Query schema data_rows (Some (''SELECT '' @ show_nat (length data_rows)))"

text \<open>\<open>to_string\<close> of the types of the row structs.\<close>

abbreviation show_opt :: "u64 option \<Rightarrow> string option" where
  "show_opt v \<equiv> map_option show_u64 v"

definition show_bool :: "bool \<Rightarrow> string" where
  "show_bool b = (if b then ''true'' else ''false'')"

definition show_i64 :: "i64 \<Rightarrow> string" where
  "show_i64 n = (if sint n < 0 then ''-'' @ show_nat (nat (- sint n)) else show_nat (nat (sint n)))"

section \<open>Single values\<close>

definition make_single_text_response :: "string \<Rightarrow> string \<Rightarrow> Response" where
  "make_single_text_response col_name value_text = R_Query [text_col col_name] [[text_cell (Some value_text)]] (Some ''SELECT 1'')"

definition make_single_int_response :: "string \<Rightarrow> i64 \<Rightarrow> Response" where
  "make_single_int_response col_name n = R_Query [int8b col_name] [[int8_cell (Some n)]] (Some ''SELECT 1'')"

definition make_null_int_response :: "string \<Rightarrow> Response" where
  "make_null_int_response col_name = R_Query [int8b col_name] [[int8_cell None]] (Some ''SELECT 1'')"

definition make_pg_type_response :: Response where
  "make_pg_type_response =
     select_response [field ''oid'' PG_INT4 Text_Format, text_col ''typname'']
       (map (\<lambda>(name, oid). [text_cell (Some (show_nat oid)), text_cell (Some name)]) PG_TYPE_MAP)"

definition make_empty_response :: Response where
  "make_empty_response = R_Query [] [] None"

definition make_version_with_rds_check_response :: Response where
  "make_version_with_rds_check_response =
     R_Query [text_col ''version'', int8t ''count'']
       [[text_cell (Some ''PostgreSQL 15.0 on x86_64-pc-linux-gnu''), int8_text_cell (Some ''0'')]] (Some ''SELECT 1'')"

definition make_null_text_response :: "string \<Rightarrow> Response" where
  "make_null_text_response col_name = R_Query [text_col col_name] [[text_cell None]] (Some ''SELECT 1'')"

definition make_false_bool_response :: "string \<Rightarrow> Response" where
  "make_false_bool_response col_name = R_Query [bool_col col_name] [[text_cell (Some ''f'')]] (Some ''SELECT 1'')"

section \<open>System catalog\<close>

definition make_pg_namespace_schema :: "FieldInfo list" where
  "make_pg_namespace_schema = [int8t ''oid'', text_col ''nspname'']"

definition make_pg_namespace_rows :: "(nat \<times> string) list \<Rightarrow> Cell list list" where
  "make_pg_namespace_rows namespaces =
     map (\<lambda>(oid, name). [text_cell (Some (show_nat oid)), text_cell (Some name)]) namespaces"

definition make_pg_class_schema :: "FieldInfo list" where
  "make_pg_class_schema =
    [int8t ''namespace_id'', text_col ''relname'', int8t ''relpages'', text_col ''attname'', text_col ''type_name'',
     int8t ''type_modifier'', int8t ''ndim'', int8t ''attnum'', bool_col ''notnull'', int8t ''constraint_id'',
     text_col ''constraint_type'', text_col ''constraint_key'']"

definition make_pg_class_attribute_row :: "string \<Rightarrow> string \<Rightarrow> string \<Rightarrow> nat \<Rightarrow> Cell list" where
  "make_pg_class_attribute_row table_name attname type_name attnum =
     map text_cell
       [Some ''1'', Some table_name, None, Some attname, Some type_name, None, Some ''0'', Some (show_nat attnum),
        Some ''false'', None, None, None]"

definition pg_type_name_for_inlined_column :: "string \<Rightarrow> string" where
  "pg_type_name_for_inlined_column logical_type =
     (let t = to_ascii_lowercase logical_type in
      if t \<in> {''boolean'', ''bool''} then ''bool''
      else if t \<in> {''tinyint'', ''int8''} then ''int2''
      else if t \<in> {''smallint'', ''int16''} then ''int2''
      else if t \<in> {''integer'', ''int'', ''int4'', ''int32''} then ''int4''
      else if t \<in> {''bigint'', ''int64''} then ''int8''
      else if t \<in> {''varchar'', ''text'', ''string'', ''blob'', ''bytea''} then ''bytea''
      else if t \<in> {''timestamp'', ''timestamp without time zone''} then ''timestamp''
      else if t \<in> {''timestamp with time zone'', ''timestamptz''} then ''timestamptz''
      else if t = ''date'' then ''date''
      else ''text'')"

definition make_pg_catalog_inlined_table_response :: "string \<Rightarrow> ColumnRow list \<Rightarrow> Response" where
  "make_pg_catalog_inlined_table_response table_name columns =
     (let attributes = [(''row_id'', ''int8''), (''begin_snapshot'', ''int8''), (''end_snapshot'', ''int8'')] @
            map (\<lambda>c. (cr_column_name c, pg_type_name_for_inlined_column (cr_data_type c))) columns
      in select_response make_pg_class_schema
           (map (\<lambda>(attnum, (name, type_name)). make_pg_class_attribute_row table_name name type_name attnum)
              (enumerate 1 attributes)))"

definition make_pg_enum_schema :: "FieldInfo list" where
  "make_pg_enum_schema = [int8t ''oid'', int8t ''enumtypid'', text_col ''typname'', text_col ''enumlabel'']"

definition make_pg_type_composites_schema :: "FieldInfo list" where
  "make_pg_type_composites_schema =
    [int8t ''oid'', int8t ''id'', text_col ''type'', text_col ''attname'', text_col ''typname'']"

definition make_pg_indexes_schema :: "FieldInfo list" where
  "make_pg_indexes_schema = [int8t ''oid'', text_col ''tablename'', text_col ''indexname'']"

definition make_pg_catalog_scan_responses :: "Response list" where
  "make_pg_catalog_scan_responses =
    [R_Query make_pg_namespace_schema (make_pg_namespace_rows [(1, ''public''), (2, ''main'')]) (Some ''SELECT 2''),
     R_Query make_pg_class_schema [] (Some ''SELECT 0''),
     R_Query make_pg_enum_schema [] (Some ''SELECT 0''),
     R_Query make_pg_type_composites_schema [] (Some ''SELECT 0''),
     R_Query make_pg_indexes_schema [] (Some ''SELECT 0''),
     R_TransactionEnd ''ROLLBACK'']"

section \<open>Rows of the metadata tables\<close>

definition make_snapshot_row_response :: "SnapshotRow \<Rightarrow> Response" where
  "make_snapshot_row_response snap =
     R_Query snapshot_schema
       [map text_cell
          [Some (show_u64 (sn_snapshot_id snap)), Some (sn_snapshot_time snap), Some (show_u64 (sn_schema_version snap)),
           show_opt (sn_next_catalog_id snap), show_opt (sn_next_file_id snap)]] (Some ''SELECT 1'')"

text \<open>The changes of a snapshot, aggregated in the order of the snapshots.\<close>

record Aggregated =
  ag_changes :: "string list"
  ag_author :: "string option"
  ag_commit_message :: "string option"
  ag_commit_extra_info :: "string option"

definition or_else :: "'a option \<Rightarrow> 'a option \<Rightarrow> 'a option" where
  "or_else a b = (case a of None \<Rightarrow> b | Some _ \<Rightarrow> a)"

definition change_token :: "SnapshotChangesRow \<Rightarrow> string" where
  "change_token r = (case sc_change_info r of
     Some info \<Rightarrow> if info \<noteq> [] then sc_change_type r @ '':'' @ info else sc_change_type r
   | None \<Rightarrow> sc_change_type r)"

definition aggregate_change :: "SnapshotChangesRow \<Rightarrow> Aggregated \<Rightarrow> Aggregated" where
  "aggregate_change r entry =
     (case sc_changes_made r of
        Some (c # cs) \<Rightarrow> entry\<lparr>ag_changes := ag_changes entry @ [c # cs]\<rparr>
      | _ \<Rightarrow>
          (let token = change_token r in
           entry\<lparr>ag_changes := (if token \<noteq> [] then ag_changes entry @ [token] else ag_changes entry),
                 ag_author := or_else (ag_author entry) (sc_author r),
                 ag_commit_message := or_else (ag_commit_message entry) (sc_commit_message r),
                 ag_commit_extra_info := or_else (ag_commit_extra_info entry) (sc_commit_extra_info r)\<rparr>))"

definition aggregate_row :: "SnapshotChangesRow \<Rightarrow> (u64 \<times> Aggregated) list \<Rightarrow> (u64 \<times> Aggregated) list" where
  "aggregate_row r entries =
     (let entry = (case map_of entries (sc_snapshot_id r) of
            Some e \<Rightarrow> e
          | None \<Rightarrow> \<lparr>ag_changes = [], ag_author = sc_author r, ag_commit_message = sc_commit_message r,
                     ag_commit_extra_info = sc_commit_extra_info r\<rparr>)
      in AList.update (sc_snapshot_id r) (aggregate_change r entry) entries)"

fun join_strs :: "string \<Rightarrow> string list \<Rightarrow> string" where
  "join_strs sep [] = []"
| "join_strs sep [s] = s"
| "join_strs sep (s # t # ss) = s @ sep @ join_strs sep (t # ss)"

definition make_snapshot_changes_response :: "SnapshotChangesRow list \<Rightarrow> Response" where
  "make_snapshot_changes_response rows =
     select_response snapshot_changes_schema
       (map (\<lambda>(snapshot_id, agg). map text_cell
           [Some (show_u64 snapshot_id),
            (if ag_changes agg = [] then None else Some (join_strs '','' (ag_changes agg))),
            ag_author agg, ag_commit_message agg, ag_commit_extra_info agg])
         (sort_key fst (fold aggregate_row rows [])))"

definition make_latest_snapshot_info_response :: "SnapshotRow option \<Rightarrow> Response" where
  "make_latest_snapshot_info_response snap =
     (case snap of
        None \<Rightarrow> R_Query latest_snapshot_info_schema [] (Some ''SELECT 0'')
      | Some s \<Rightarrow> R_Query latest_snapshot_info_schema
          [map (int8_cell \<circ> Some)
             [sn_snapshot_id s, sn_schema_version s, (case sn_next_catalog_id s of Some v \<Rightarrow> v | None \<Rightarrow> 1),
              (case sn_next_file_id s of Some v \<Rightarrow> v | None \<Rightarrow> 1)]] (Some ''SELECT 1''))"

definition make_schemas_response :: "SchemaRow list \<Rightarrow> Response" where
  "make_schemas_response schemas =
     select_response schema_schema
       (map (\<lambda>s. [int8_cell (Some (sr_schema_id s)), int8_cell (Some (sr_begin_snapshot s)), int8_cell (sr_end_snapshot s),
           text_cell (sr_schema_uuid s), text_cell (Some (sr_schema_name s)), text_cell (sr_path s),
           text_cell (map_option show_bool (sr_path_is_relative s))]) schemas)"

definition make_tables_response :: "TableRow list \<Rightarrow> Response" where
  "make_tables_response tables =
     select_response table_schema
       (map (\<lambda>t. [int8_cell (Some (tr_table_id t)), int8_cell (Some (tr_begin_snapshot t)), int8_cell (tr_end_snapshot t),
           int8_cell (Some (tr_schema_id t)), text_cell (Some (tr_table_name t)), text_cell (tr_table_uuid t),
           text_cell (tr_path t), text_cell (map_option show_bool (tr_path_is_relative t))]) tables)"

definition make_columns_response :: "ColumnRow list \<Rightarrow> Response" where
  "make_columns_response columns =
     select_response column_schema
       (map (\<lambda>c. map text_cell
          [Some (show_u64 (cr_column_id c)), Some (show_u64 (cr_begin_snapshot c)), show_opt (cr_end_snapshot c),
           Some (show_u64 (cr_table_id c)), Some (show_u64 (cr_column_index c)), Some (cr_column_name c),
           Some (cr_data_type c), cr_initial_default c, cr_default_value c, Some (show_bool (cr_is_nullable c)),
           show_opt (cr_parent_column c), cr_default_value_type c, cr_default_value_dialect c]) columns)"

definition make_data_files_response :: "DataFileRow list \<Rightarrow> Response" where
  "make_data_files_response files =
     select_response data_file_schema
       (map (\<lambda>f. map text_cell
          [Some (show_u64 (df_data_file_id f)), Some (show_u64 (df_table_id f)), show_opt (df_begin_snapshot f),
           show_opt (df_end_snapshot f), show_opt (df_file_order f), Some (df_path f),
           map_option show_bool (df_path_is_relative f), Some (df_file_format f), Some (show_u64 (df_record_count f)),
           Some (show_u64 (df_file_size_bytes f)), show_opt (df_row_id_start f), map_option show_i64 (df_footer_size f),
           df_encryption_key f, show_opt (df_partition_id f), show_opt (df_mapping_id f), df_partial_max f]) files)"

definition make_file_ids_response :: "u64 list \<Rightarrow> Response" where
  "make_file_ids_response file_ids =
     select_response [int8t ''data_file_id''] (map (\<lambda>i. [text_cell (Some (show_u64 i))]) file_ids)"

definition make_table_column_stats_response :: "TableColumnStatsRow list \<Rightarrow> Response" where
  "make_table_column_stats_response rows =
     select_response table_column_stats_schema
       (map (\<lambda>r. map text_cell
          [Some (show_u64 (tcs_table_id r)), Some (show_u64 (tcs_column_id r)), Some (show_bool (tcs_contains_null r)),
           map_option show_bool (tcs_contains_nan r), tcs_min_value r, tcs_max_value r, tcs_extra_stats r]) rows)"

definition make_delete_files_response :: "DeleteFileRow list \<Rightarrow> Response" where
  "make_delete_files_response files =
     select_response delete_file_schema
       (map (\<lambda>f. map text_cell
          [Some (show_u64 (del_delete_file_id f)), show_opt (del_table_id f), Some (del_path f),
           Some (show_u64 (del_delete_count f)), Some (show_u64 (del_file_size_bytes f)), show_opt (del_begin_snapshot f),
           show_opt (del_end_snapshot f), map_option show_i64 (del_footer_size f), del_partial_max f]) files)"

definition make_metadata_response :: "MetadataRow list \<Rightarrow> Response" where
  "make_metadata_response rows =
     select_response metadata_schema
       (map (\<lambda>r. map text_cell
          [Some (md_key r), Some (md_value r), or_else (md_scope r) (Some ''global''), show_opt (md_scope_id r)]) rows)"

definition make_views_response :: "ViewRow list \<Rightarrow> Response" where
  "make_views_response views =
     select_response view_schema
       (map (\<lambda>v. map text_cell
          [Some (show_u64 (vr_view_id v)), Some (show_u64 (vr_begin_snapshot v)), show_opt (vr_end_snapshot v),
           Some (show_u64 (vr_schema_id v)), Some (vr_view_name v), vr_view_uuid v, Some (vr_sql v), vr_dialect v,
           vr_column_aliases v]) views)"

definition make_macros_response :: "MacroRow list \<Rightarrow> Response" where
  "make_macros_response macros =
     select_response macro_schema
       (map (\<lambda>m. map text_cell
          [Some (show_u64 (mr_macro_id m)), Some (show_u64 (mr_begin_snapshot m)), show_opt (mr_end_snapshot m),
           Some (show_u64 (mr_schema_id m)), Some (mr_macro_name m), mr_macro_uuid m]) macros)"

definition make_macro_impls_response :: "MacroImplRow list \<Rightarrow> Response" where
  "make_macro_impls_response rows =
     select_response macro_impl_schema
       (map (\<lambda>r. map text_cell
          [Some (show_u64 (mi_macro_id r)), Some (show_u64 (mi_impl_id r)), mi_dialect r, Some (mi_sql r),
           mi_impl_type r]) rows)"

definition make_macro_parameters_response :: "MacroParametersRow list \<Rightarrow> Response" where
  "make_macro_parameters_response rows =
     select_response macro_parameters_schema
       (map (\<lambda>r. map text_cell
          [Some (show_u64 (mp_macro_id r)), Some (show_u64 (mp_impl_id r)), Some (show_u64 (mp_column_id r)),
           Some (mp_parameter_name r), Some (mp_parameter_type r), mp_default_value r, mp_default_value_type r]) rows)"

definition make_inlined_data_tables_response :: "InlinedDataTablesRow list \<Rightarrow> Response" where
  "make_inlined_data_tables_response rows =
     select_response inlined_data_tables_schema
       (map (\<lambda>r. map text_cell
          [Some (show_u64 (idt_table_id r)), Some (idt_sql r), Some (show_u64 (idt_schema_version r))]) rows)"

definition make_schema_versions_response :: "SchemaVersionsRow list \<Rightarrow> Response" where
  "make_schema_versions_response rows =
     select_response [int8t ''begin_snapshot'', int8t ''schema_version'', int8t ''table_id'']
       (map (\<lambda>r. map text_cell
          [Some (show_u64 (sv_begin_snapshot r)), Some (show_u64 (sv_schema_version r)), Some (show_u64 (sv_table_id r))]) rows)"

definition make_tags_response :: "TagRow list \<Rightarrow> Response" where
  "make_tags_response rows =
     select_response tag_schema
       (map (\<lambda>r. map text_cell
          [Some (show_u64 (tg_begin_snapshot r)), show_opt (tg_end_snapshot r), Some (show_u64 (tg_object_id r)),
           Some (tg_tag_key r), Some (tg_tag_value r)]) rows)"

definition make_column_tags_response :: "ColumnTagRow list \<Rightarrow> Response" where
  "make_column_tags_response rows =
     select_response column_tag_schema
       (map (\<lambda>r. map text_cell
          [Some (show_u64 (ctg_begin_snapshot r)), show_opt (ctg_end_snapshot r), Some (show_u64 (ctg_column_id r)),
           Some (ctg_tag_key r), Some (ctg_tag_value r)]) rows)"

definition make_sort_info_response :: "SortInfoRow list \<Rightarrow> Response" where
  "make_sort_info_response rows =
     select_response sort_info_schema
       (map (\<lambda>r. map text_cell
          [Some (show_u64 (si_sort_id r)), Some (show_u64 (si_begin_snapshot r)), show_opt (si_end_snapshot r),
           Some (show_u64 (si_table_id r)), Some ''0'', Some ''0'']) rows)"

definition make_schema_version_response :: "u64 \<Rightarrow> Response" where
  "make_schema_version_response catalog_schema_version =
     R_Query schema_version_schema
       [[text_cell (Some (show_u64 catalog_schema_version)),
         text_cell (Some (''DuckLake catalog schema v'' @ show_u64 catalog_schema_version))]] (Some ''SELECT 1'')"

text \<open>The fallback for tables outside the registry; three of its arms can no longer be reached.\<close>

definition fallback_schema :: "string \<Rightarrow> FieldInfo list" where
  "fallback_schema table_name =
     (if table_name = ''ducklake_file_variant_stats'' then
        [int8t ''data_file_id'', int8t ''table_id'', int8t ''column_id'', text_col ''variant_path'',
         text_col ''shredded_type'', int8t ''column_size_bytes'', int8t ''value_count'', int8t ''null_count'',
         text_col ''min_value'', text_col ''max_value'', bool_col ''contains_nan'', text_col ''extra_stats'']
      else if table_name = ''ducklake_column_mapping'' then [int8t ''mapping_id'', int8t ''table_id'', text_col ''type'']
      else if table_name = ''ducklake_name_mapping'' then
        [int8t ''mapping_id'', int8t ''column_id'', text_col ''source_name'', int8t ''target_field_id'',
         int8t ''parent_column'', bool_col ''is_partition'']
      else if table_name = ''ducklake_schema_versions'' then
        [int8t ''begin_snapshot'', int8t ''schema_version'', int8t ''table_id'']
      else [])"

definition make_metadata_table_empty_response :: "string \<Rightarrow> Response" where
  "make_metadata_table_empty_response table_name =
     (case fields_for_table table_name of
        Some schema \<Rightarrow> R_Query schema [] (Some ''SELECT 0'')
      | None \<Rightarrow> R_Query (fallback_schema table_name) [] (Some ''SELECT 0''))"

section \<open>Projections\<close>

text \<open>The part of the syntax tree of a \<open>SELECT\<close> the code looks at; another expression is known by its text.
  \<open>items\<close> is the list of the projection items, \<open>None\<close> when the text is not a single \<open>SELECT\<close>.\<close>

datatype Expr = Expr_Identifier string | Expr_CompoundIdentifier "string list" | Expr_Cast Expr | Expr_Nested Expr
  | Expr_Other string

datatype SelectItem = Item_Wildcard | Item_QualifiedWildcard | Item_UnnamedExpr Expr | Item_ExprWithAlias Expr string

fun expr_last_identifier :: "Expr \<Rightarrow> string" where
  "expr_last_identifier (Expr_Identifier i) = to_ascii_lowercase i"
| "expr_last_identifier (Expr_CompoundIdentifier parts) = (if parts = [] then [] else to_ascii_lowercase (last parts))"
| "expr_last_identifier (Expr_Cast e) = expr_last_identifier e"
| "expr_last_identifier (Expr_Nested e) = expr_last_identifier e"
| "expr_last_identifier (Expr_Other s) = to_ascii_lowercase s"

text \<open>The loop the three projection functions share.\<close>

definition project_item :: "'p list \<Rightarrow> (string \<Rightarrow> string \<Rightarrow> 'p option) \<Rightarrow> SelectItem \<Rightarrow> 'p list" where
  "project_item defaults for_name item =
     (let push = (\<lambda>p. case p of Some x \<Rightarrow> [x] | None \<Rightarrow> []) in
      case item of
        Item_Wildcard \<Rightarrow> defaults
      | Item_QualifiedWildcard \<Rightarrow> defaults
      | Item_UnnamedExpr expr \<Rightarrow> push (for_name (expr_last_identifier expr) (expr_last_identifier expr))
      | Item_ExprWithAlias expr alias \<Rightarrow> push (for_name (expr_last_identifier expr) alias))"

definition project_items ::
  "SelectItem list option \<Rightarrow> 'p list \<Rightarrow> (string \<Rightarrow> string \<Rightarrow> 'p option) \<Rightarrow> 'p list" where
  "project_items items defaults for_name =
     (let projections = concat (map (project_item defaults for_name) (case items of None \<Rightarrow> [] | Some is \<Rightarrow> is))
      in if projections = [] then defaults else projections)"

subsection \<open>File column statistics\<close>

datatype FileColumnStatsProjectionSource = FS_DataFileId | FS_TableId | FS_ColumnId | FS_ColumnSizeBytes
  | FS_ValueCount | FS_NullCount | FS_MinValue | FS_MaxValue | FS_ContainsNan | FS_ExtraStats

record FileColumnStatsProjection =
  fp_name :: string
  fp_datatype :: PgType
  fp_source :: FileColumnStatsProjectionSource

definition file_column_stats_projection :: "string \<Rightarrow> PgType \<Rightarrow> FileColumnStatsProjectionSource \<Rightarrow> FileColumnStatsProjection" where
  "file_column_stats_projection name datatype source = \<lparr>fp_name = name, fp_datatype = datatype, fp_source = source\<rparr>"

definition default_file_column_stats_projections :: "FileColumnStatsProjection list" where
  "default_file_column_stats_projections =
    [file_column_stats_projection ''data_file_id'' PG_INT8 FS_DataFileId,
     file_column_stats_projection ''table_id'' PG_INT8 FS_TableId,
     file_column_stats_projection ''column_id'' PG_INT8 FS_ColumnId,
     file_column_stats_projection ''column_size_bytes'' PG_INT8 FS_ColumnSizeBytes,
     file_column_stats_projection ''value_count'' PG_INT8 FS_ValueCount,
     file_column_stats_projection ''null_count'' PG_INT8 FS_NullCount,
     file_column_stats_projection ''min_value'' PG_TEXT FS_MinValue,
     file_column_stats_projection ''max_value'' PG_TEXT FS_MaxValue,
     file_column_stats_projection ''contains_nan'' PG_BOOL FS_ContainsNan,
     file_column_stats_projection ''extra_stats'' PG_TEXT FS_ExtraStats]"

definition file_column_stats_projection_for_name :: "string \<Rightarrow> string \<Rightarrow> FileColumnStatsProjection option" where
  "file_column_stats_projection_for_name source_name output_name =
     (let source_name = to_ascii_lowercase (trim_matches (CHR 0x22) source_name);
          output_name = trim_matches (CHR 0x22) output_name;
          projection = file_column_stats_projection output_name in
      if source_name = ''data_file_id'' then Some (projection PG_INT8 FS_DataFileId)
      else if source_name = ''table_id'' then Some (projection PG_INT8 FS_TableId)
      else if source_name = ''column_id'' then Some (projection PG_INT8 FS_ColumnId)
      else if source_name = ''column_size_bytes'' then Some (projection PG_INT8 FS_ColumnSizeBytes)
      else if source_name = ''value_count'' then Some (projection PG_INT8 FS_ValueCount)
      else if source_name = ''null_count'' then Some (projection PG_INT8 FS_NullCount)
      else if source_name = ''min_value'' then Some (projection PG_TEXT FS_MinValue)
      else if source_name = ''max_value'' then Some (projection PG_TEXT FS_MaxValue)
      else if source_name = ''contains_nan'' then Some (projection PG_BOOL FS_ContainsNan)
      else if source_name = ''extra_stats'' then Some (projection PG_TEXT FS_ExtraStats)
      else None)"

definition file_column_stats_projections :: "SelectItem list option \<Rightarrow> FileColumnStatsProjection list" where
  "file_column_stats_projections items =
     project_items items default_file_column_stats_projections file_column_stats_projection_for_name"

definition file_column_stats_cell :: "FileColumnStatsRow \<Rightarrow> FileColumnStatsProjectionSource \<Rightarrow> Cell" where
  "file_column_stats_cell row source = text_cell (case source of
     FS_DataFileId \<Rightarrow> Some (show_u64 (fcs_data_file_id row))
   | FS_TableId \<Rightarrow> Some (show_u64 (fcs_table_id row))
   | FS_ColumnId \<Rightarrow> Some (show_u64 (fcs_column_id row))
   | FS_ColumnSizeBytes \<Rightarrow> show_opt (fcs_column_size_bytes row)
   | FS_ValueCount \<Rightarrow> show_opt (fcs_value_count row)
   | FS_NullCount \<Rightarrow> show_opt (fcs_null_count row)
   | FS_MinValue \<Rightarrow> fcs_min_value row
   | FS_MaxValue \<Rightarrow> fcs_max_value row
   | FS_ContainsNan \<Rightarrow> Some (show_bool (fcs_contains_nan row))
   | FS_ExtraStats \<Rightarrow> fcs_extra_stats row)"

definition make_file_column_stats_response :: "SelectItem list option \<Rightarrow> FileColumnStatsRow list \<Rightarrow> Response" where
  "make_file_column_stats_response items rows =
     (let projections = file_column_stats_projections items in
      select_response (map (\<lambda>p. field (fp_name p) (fp_datatype p) Text_Format) projections)
        (map (\<lambda>row. map (\<lambda>p. file_column_stats_cell row (fp_source p)) projections) rows))"

subsection \<open>Table statistics\<close>

datatype TableStatsProjectionSource = TS_TableId | TS_RecordCount | TS_NextRowId | TS_FileSizeBytes

record TableStatsProjection =
  tp_name :: string
  tp_datatype :: PgType
  tp_source :: TableStatsProjectionSource

definition table_stats_projection :: "string \<Rightarrow> TableStatsProjectionSource \<Rightarrow> TableStatsProjection" where
  "table_stats_projection name source = \<lparr>tp_name = name, tp_datatype = PG_INT8, tp_source = source\<rparr>"

definition default_table_stats_projections :: "TableStatsProjection list" where
  "default_table_stats_projections =
    [table_stats_projection ''table_id'' TS_TableId, table_stats_projection ''record_count'' TS_RecordCount,
     table_stats_projection ''next_row_id'' TS_NextRowId, table_stats_projection ''file_size_bytes'' TS_FileSizeBytes]"

definition table_stats_projection_for_name :: "string \<Rightarrow> string \<Rightarrow> TableStatsProjection option" where
  "table_stats_projection_for_name source_name output_name =
     (let source_name = to_ascii_lowercase (trim_matches (CHR 0x22) source_name);
          output_name = trim_matches (CHR 0x22) output_name in
      if source_name = ''table_id'' then Some (table_stats_projection output_name TS_TableId)
      else if source_name = ''record_count'' then Some (table_stats_projection output_name TS_RecordCount)
      else if source_name = ''next_row_id'' then Some (table_stats_projection output_name TS_NextRowId)
      else if source_name = ''file_size_bytes'' then Some (table_stats_projection output_name TS_FileSizeBytes)
      else None)"

definition table_stats_projections :: "SelectItem list option \<Rightarrow> TableStatsProjection list" where
  "table_stats_projections items = project_items items default_table_stats_projections table_stats_projection_for_name"

definition table_stats_cell :: "TableStatsRow \<Rightarrow> TableStatsProjectionSource \<Rightarrow> Cell" where
  "table_stats_cell row source = text_cell (case source of
     TS_TableId \<Rightarrow> Some (show_u64 (ts_table_id row))
   | TS_RecordCount \<Rightarrow> Some (show_u64 (ts_record_count row))
   | TS_NextRowId \<Rightarrow> show_opt (ts_next_row_id row)
   | TS_FileSizeBytes \<Rightarrow> Some (show_u64 (ts_file_size_bytes row)))"

definition make_table_stats_rows_response_for_sql :: "SelectItem list option \<Rightarrow> TableStatsRow list \<Rightarrow> Response" where
  "make_table_stats_rows_response_for_sql items rows =
     (let projections = table_stats_projections items in
      select_response (map (\<lambda>p. field (tp_name p) (tp_datatype p) Text_Format) projections)
        (map (\<lambda>row. map (\<lambda>p. table_stats_cell row (tp_source p)) projections) rows))"

definition encode_global_table_stats_row :: "TableStatsRow \<Rightarrow> TableColumnStatsRow option \<Rightarrow> Cell list" where
  "encode_global_table_stats_row stats column_stats =
     map text_cell
       [Some (show_u64 (ts_table_id stats)), map_option (show_u64 \<circ> tcs_column_id) column_stats,
        Some (show_u64 (ts_record_count stats)), show_opt (ts_next_row_id stats), Some (show_u64 (ts_file_size_bytes stats)),
        map_option (show_bool \<circ> tcs_contains_null) column_stats,
        Option.bind column_stats (map_option show_bool \<circ> tcs_contains_nan),
        Option.bind column_stats tcs_min_value, Option.bind column_stats tcs_max_value,
        Option.bind column_stats tcs_extra_stats]"

definition make_global_table_stats_response :: "TableStatsRow list \<Rightarrow> TableColumnStatsRow list \<Rightarrow> Response" where
  "make_global_table_stats_response stats_rows column_stats_rows =
     select_response global_table_stats_schema
       (concat (map (\<lambda>stats.
          let matching = filter (\<lambda>row. tcs_table_id row = ts_table_id stats) column_stats_rows in
          if matching = [] then [encode_global_table_stats_row stats None]
          else map (\<lambda>c. encode_global_table_stats_row stats (Some c)) matching) stats_rows))"

definition snapshot_stats_row :: "SnapshotRow \<Rightarrow> string option list" where
  "snapshot_stats_row s =
     [Some (show_u64 (sn_snapshot_id s)), Some (show_u64 (sn_schema_version s)),
      Some (show_u64 (case sn_next_catalog_id s of Some v \<Rightarrow> v | None \<Rightarrow> 1)),
      Some (show_u64 (case sn_next_file_id s of Some v \<Rightarrow> v | None \<Rightarrow> 1)), Some []] @ replicate 10 None"

definition table_stats_changes_rows :: "TableColumnStatsRow list \<Rightarrow> TableStatsRow \<Rightarrow> string option list list" where
  "table_stats_changes_rows columns stats =
     (let head = replicate 5 None @ [Some (show_u64 (ts_table_id stats))];
          counts = [Some (show_u64 (ts_record_count stats)), show_opt (ts_next_row_id stats),
                    Some (show_u64 (ts_file_size_bytes stats))];
          column_rows = filter (\<lambda>c. tcs_table_id c = ts_table_id stats) columns in
      if column_rows \<noteq> [] then
        map (\<lambda>c. head @ [Some (show_u64 (tcs_column_id c))] @ counts @
          [Some (show_bool (tcs_contains_null c)), map_option show_bool (tcs_contains_nan c), tcs_min_value c,
           tcs_max_value c, tcs_extra_stats c]) column_rows
      else [head @ [Some ''0''] @ counts @ replicate 5 None])"

definition snapshot_stats_changes_schema :: "FieldInfo list" where
  "snapshot_stats_changes_schema = map text_col
     [''snapshot_id'', ''schema_version'', ''next_catalog_id'', ''next_file_id'', ''changes'', ''table_id'', ''column_id'',
      ''record_count'', ''next_row_id'', ''file_size_bytes'', ''contains_null'', ''contains_nan'', ''min_value'',
      ''max_value'', ''extra_stats'']"

text \<open>Collecting the statistics into an ordered map keeps the last row of a table.\<close>

definition make_snapshot_stats_changes_response ::
  "SnapshotRow option \<Rightarrow> TableStatsRow list \<Rightarrow> TableColumnStatsRow list \<Rightarrow> Response" where
  "make_snapshot_stats_changes_response snapshot stats_rows column_stats_rows =
     (let snapshot = (case snapshot of Some s \<Rightarrow> s | None \<Rightarrow>
            \<lparr>sn_snapshot_id = 0, sn_schema_version = 0, sn_snapshot_time = [], sn_author = None, sn_message = None,
             sn_next_catalog_id = Some 1, sn_next_file_id = Some 1\<rparr>);
          stats_by_table = map snd (sort_key fst (fold (\<lambda>stats. AList.update (ts_table_id stats) stats) stats_rows []))
      in select_response snapshot_stats_changes_schema
           (map (map text_cell)
              (snapshot_stats_row snapshot # concat (map (table_stats_changes_rows column_stats_rows) stats_by_table))))"

subsection \<open>Inlined rows\<close>

datatype InlinedProjectionSource = IP_RowId | IP_BeginSnapshot | IP_EndSnapshot | IP_Column nat

record InlinedProjection =
  ip_name :: string
  ip_datatype :: PgType
  ip_source :: InlinedProjectionSource

definition ascii_upper_char :: "char \<Rightarrow> char" where
  "ascii_upper_char c = (if CHR ''a'' \<le> c \<and> c \<le> CHR ''z'' then char_of ((of_char c :: nat) - 32) else c)"

definition inlined_storage_type :: "string \<Rightarrow> PgType" where
  "inlined_storage_type logical_type =
     (let t = map ascii_upper_char logical_type in
      if t \<in> {''BOOLEAN'', ''BOOL''} then PG_BOOL
      else if t \<in> {''TINYINT'', ''SMALLINT'', ''INT2'', ''INT16''} then PG_INT2
      else if t \<in> {''INTEGER'', ''INT'', ''INT4'', ''INT32''} then PG_INT4
      else if t \<in> {''BIGINT'', ''INT8'', ''INT64''} then PG_INT8
      else if t \<in> {''VARCHAR'', ''TEXT'', ''STRING'', ''BLOB'', ''BYTEA''} then PG_BYTEA
      else if t \<in> {''TIMESTAMP'', ''TIMESTAMP WITHOUT TIME ZONE''} then PG_TIMESTAMP
      else if t \<in> {''TIMESTAMP WITH TIME ZONE'', ''TIMESTAMPTZ''} then PG_TIMESTAMPTZ
      else if t = ''DATE'' then PG_DATE
      else PG_TEXT)"

definition inlined_projection :: "string \<Rightarrow> PgType \<Rightarrow> InlinedProjectionSource \<Rightarrow> InlinedProjection" where
  "inlined_projection name datatype source = \<lparr>ip_name = name, ip_datatype = datatype, ip_source = source\<rparr>"

definition default_inlined_column_projections :: "ColumnRow list \<Rightarrow> InlinedProjection list" where
  "default_inlined_column_projections columns =
     map (\<lambda>(index, column). inlined_projection (cr_column_name column) (inlined_storage_type (cr_data_type column))
       (IP_Column index)) (enumerate 0 columns)"

definition column_position :: "string \<Rightarrow> ColumnRow list \<Rightarrow> nat option" where
  "column_position name columns =
     map_option fst (find (\<lambda>(_, c). to_ascii_lowercase (cr_column_name c) = to_ascii_lowercase name) (enumerate 0 columns))"

definition inlined_projection_for_name :: "ColumnRow list \<Rightarrow> string \<Rightarrow> string \<Rightarrow> InlinedProjection option" where
  "inlined_projection_for_name columns source_name output_name =
     (let source_name = to_ascii_lowercase (trim_matches (CHR 0x22) source_name);
          output_name = trim_matches (CHR 0x22) output_name in
      if source_name = ''row_id'' then Some (inlined_projection output_name PG_INT8 IP_RowId)
      else if source_name = ''begin_snapshot'' then Some (inlined_projection output_name PG_INT8 IP_BeginSnapshot)
      else if source_name = ''end_snapshot'' then Some (inlined_projection output_name PG_INT8 IP_EndSnapshot)
      else map_option (\<lambda>index. inlined_projection output_name (inlined_storage_type (cr_data_type (columns ! index)))
             (IP_Column index)) (column_position source_name columns))"

definition inlined_projections :: "SelectItem list option \<Rightarrow> ColumnRow list \<Rightarrow> InlinedProjection list" where
  "inlined_projections items columns =
     project_items items (default_inlined_column_projections columns) (inlined_projection_for_name columns)"

definition parse_bool :: "string \<Rightarrow> bool option" where
  "parse_bool s =
     (let l = to_ascii_lowercase s in
      if l \<in> {''true'', ''t'', ''1''} then Some True
      else if l \<in> {''false'', ''f'', ''0''} then Some False else None)"

text \<open>\<open>parse_micros format s\<close> is the calendar library: the microseconds since 1970 of a text in that format.\<close>

definition timestamp_str_to_pg_micros :: "(string \<Rightarrow> string \<Rightarrow> i64 option) \<Rightarrow> string \<Rightarrow> i64 option" where
  "timestamp_str_to_pg_micros parse_micros s =
     (let s = trim s in
      map_option (\<lambda>micros. micros - 946684800 * 1000000)
        (or_else (parse_micros ''%Y-%m-%d %H:%M:%S%.f'' s)
        (or_else (parse_micros ''%Y-%m-%d %H:%M:%S'' s)
        (or_else (parse_micros ''%Y-%m-%dT%H:%M:%S%.f'' s)
                 (parse_micros ''%Y-%m-%dT%H:%M:%S'' s)))))"

text \<open>\<open>parse_days s\<close> is the number of days between 2000-01-01 and a text of the form \<open>%Y-%m-%d\<close>.\<close>

definition date_str_to_pg_days :: "(string \<Rightarrow> int option) \<Rightarrow> string \<Rightarrow> int option" where
  "date_str_to_pg_days parse_days s = map_option (\<lambda>d. (d + 2 ^ 31) mod 2 ^ 32 - 2 ^ 31) (parse_days (trim s))"

fun hex_pairs :: "string \<Rightarrow> bytes" where
  "hex_pairs (c # d # s) = from_hex_pair c d # hex_pairs s"
| "hex_pairs _ = []"

definition decode_bytea_literal :: "string \<Rightarrow> bytes" where
  "decode_bytea_literal s =
     (let s = (case strip_prefix [CHR 0x5C, CHR ''x''] s of Some rest \<Rightarrow> rest | None \<Rightarrow> s) in
      if even (length s) \<and> list_all (\<lambda>c. hex_value c \<noteq> None) s then hex_pairs s else str_bytes s)"

definition encode_inlined_column_value ::
  "(string \<Rightarrow> string \<Rightarrow> i64 option) \<Rightarrow> (string \<Rightarrow> int option) \<Rightarrow> string option \<Rightarrow> PgType \<Rightarrow> Cell" where
  "encode_inlined_column_value parse_micros parse_days v datatype =
     (case datatype of
        PG_BOOL \<Rightarrow> \<lparr>cell_value = V_Bool (Option.bind v parse_bool), cell_type = PG_BOOL, cell_format = Binary_Format\<rparr>
      | PG_INT2 \<Rightarrow> \<lparr>cell_value = V_I16 (Option.bind v (parse_int (- (2 ^ 15)) (2 ^ 15 - 1))), cell_type = PG_INT2,
                   cell_format = Binary_Format\<rparr>
      | PG_INT4 \<Rightarrow> \<lparr>cell_value = V_I32 (Option.bind v (parse_int (- (2 ^ 31)) (2 ^ 31 - 1))), cell_type = PG_INT4,
                   cell_format = Binary_Format\<rparr>
      | PG_INT8 \<Rightarrow> int8_cell (Option.bind v parse_i64)
      | PG_BYTEA \<Rightarrow> \<lparr>cell_value = V_Bytes (map_option decode_bytea_literal v), cell_type = PG_BYTEA,
                    cell_format = Binary_Format\<rparr>
      | PG_TIMESTAMP \<Rightarrow> int8_cell (Option.bind v (timestamp_str_to_pg_micros parse_micros))
      | PG_TIMESTAMPTZ \<Rightarrow> int8_cell (Option.bind v (timestamp_str_to_pg_micros parse_micros))
      | PG_DATE \<Rightarrow> \<lparr>cell_value = V_I32 (Option.bind v (date_str_to_pg_days parse_days)), cell_type = PG_INT4,
                   cell_format = Binary_Format\<rparr>
      | _ \<Rightarrow> text_cell v)"

text \<open>\<open>json_values\<close> is \<open>serde_json::from_slice\<close> at a list of optional texts; an error counts as the empty list.\<close>

definition inlined_cell ::
  "(string \<Rightarrow> string \<Rightarrow> i64 option) \<Rightarrow> (string \<Rightarrow> int option) \<Rightarrow> (bytes \<Rightarrow> string option list option)
     \<Rightarrow> InlinedInsertRow \<Rightarrow> InlinedProjection \<Rightarrow> Cell" where
  "inlined_cell parse_micros parse_days json_values row projection =
     (let vs = (case json_values (ii_payload row) of Some vs \<Rightarrow> vs | None \<Rightarrow> []) in
      case ip_source projection of
        IP_RowId \<Rightarrow> int8_cell (Some (ii_row_id row))
      | IP_BeginSnapshot \<Rightarrow> int8_cell (Some (ii_begin_snapshot row))
      | IP_EndSnapshot \<Rightarrow> int8_cell (ii_end_snapshot row)
      | IP_Column index \<Rightarrow>
          encode_inlined_column_value parse_micros parse_days (literal_string vs index) (ip_datatype projection))"

definition make_inlined_rows_response ::
  "(string \<Rightarrow> string \<Rightarrow> i64 option) \<Rightarrow> (string \<Rightarrow> int option) \<Rightarrow> (bytes \<Rightarrow> string option list option)
     \<Rightarrow> SelectItem list option \<Rightarrow> ColumnRow list \<Rightarrow> InlinedInsertRow list \<Rightarrow> Response" where
  "make_inlined_rows_response parse_micros parse_days json_values items columns rows =
     (let projections = inlined_projections items columns in
      select_response (map (\<lambda>p. field (ip_name p) (ip_datatype p) Binary_Format) projections)
        (map (\<lambda>row. map (inlined_cell parse_micros parse_days json_values row) projections) rows))"

section \<open>Rows match the announced fields\<close>

text \<open>A cell in text format fits a field announced in text format, and also one of type \<open>TEXT\<close> in binary
  format, where both formats are the same bytes. A cell in binary format fits a field in binary format
  whose type has the same binary representation.\<close>

definition same_binary :: "PgType \<Rightarrow> PgType \<Rightarrow> bool" where
  "same_binary announced encoded \<longleftrightarrow> announced = encoded \<or>
     announced \<in> {PG_TIMESTAMP, PG_TIMESTAMPTZ} \<and> encoded = PG_INT8 \<or> announced = PG_DATE \<and> encoded = PG_INT4"

definition cell_fits :: "FieldInfo \<Rightarrow> Cell \<Rightarrow> bool" where
  "cell_fits f c \<longleftrightarrow> (case cell_format c of
     Text_Format \<Rightarrow> fi_format f = Text_Format \<or> fi_type f = PG_TEXT
   | Binary_Format \<Rightarrow> fi_format f = Binary_Format \<and> same_binary (fi_type f) (cell_type c))"

definition response_ok :: "Response \<Rightarrow> bool" where
  "response_ok r = (case r of
     R_Query schema rows tag \<Rightarrow> list_all (list_all2 cell_fits schema) rows \<and>
       (case tag of None \<Rightarrow> rows = [] | Some t \<Rightarrow> t = ''SELECT '' @ show_nat (length rows))
   | _ \<Rightarrow> True)"

lemma cell_fits_text [simp]:
  "cell_fits f (text_cell v) \<longleftrightarrow> fi_format f = Text_Format \<or> fi_type f = PG_TEXT"
  "cell_fits f (int8_text_cell v) \<longleftrightarrow> fi_format f = Text_Format \<or> fi_type f = PG_TEXT"
  by (simp_all add: cell_fits_def text_cell_def int8_text_cell_def)

lemma cell_fits_int8 [simp]:
  "cell_fits f (int8_cell v) \<longleftrightarrow> fi_format f = Binary_Format \<and> same_binary (fi_type f) PG_INT8"
  by (simp add: cell_fits_def int8_cell_def)

lemma column_format [simp]:
  "fi_format (field n t fm) = fm" "fi_type (field n t fm) = t"
  "fi_format (text_col n) = Text_Format" "fi_type (text_col n) = PG_TEXT"
  "fi_format (int8t n) = Text_Format" "fi_format (bool_col n) = Text_Format"
  "fi_format (uuid_col n) = Text_Format" "fi_format (tstz_col n) = Text_Format"
  "fi_format (int8b n) = Binary_Format" "fi_type (int8b n) = PG_INT8"
  by (simp_all add: column_defs)

lemma same_binary_int8 [simp]:
  "same_binary PG_INT8 PG_INT8" "same_binary PG_TIMESTAMP PG_INT8" "same_binary PG_TIMESTAMPTZ PG_INT8"
  by (simp_all add: same_binary_def)

lemma response_ok_select:
  "response_ok (select_response schema rows) \<longleftrightarrow> list_all (list_all2 cell_fits schema) rows"
  by (simp add: response_ok_def select_response_def)


text \<open>The builders whose rows are all text only need as many cells as there are fields.\<close>

lemma list_all2_text_cells [simp]:
  "list_all2 cell_fits [] (map text_cell vs) \<longleftrightarrow> vs = []"
  "list_all2 cell_fits (f # fs) (map text_cell (v # vs)) \<longleftrightarrow>
     (fi_format f = Text_Format \<or> fi_type f = PG_TEXT) \<and> list_all2 cell_fits fs (map text_cell vs)"
  by simp_all

lemma project_items_all:
  assumes "\<And>p. p \<in> set defaults \<Longrightarrow> P p" and "\<And>s t p. for_name s t = Some p \<Longrightarrow> P p"
    and "p \<in> set (project_items items defaults for_name)"
  shows "P p"
  using assms
  by (fastforce simp: project_items_def project_item_def Let_def split: if_splits SelectItem.splits option.splits)

lemma file_column_stats_cell_fits [simp]:
  "cell_fits (field n t Text_Format) (file_column_stats_cell row src)"
  by (simp add: file_column_stats_cell_def)

lemma table_stats_cell_fits [simp]:
  "cell_fits (field n t Text_Format) (table_stats_cell row src)"
  by (simp add: table_stats_cell_def)

text \<open>A projection of an inlined table: the system columns are \<open>INT8\<close>, and no column is announced with a
  type the encoder has no binary form for.\<close>

definition projection_typed :: "InlinedProjection \<Rightarrow> bool" where
  "projection_typed p \<longleftrightarrow> (case ip_source p of IP_Column _ \<Rightarrow> ip_datatype p \<noteq> PG_UUID | _ \<Rightarrow> ip_datatype p = PG_INT8)"

lemma inlined_storage_type_no_uuid [simp]: "inlined_storage_type t \<noteq> PG_UUID"
  by (simp add: inlined_storage_type_def Let_def)

lemma inlined_projections_typed:
  "p \<in> set (inlined_projections items columns) \<Longrightarrow> projection_typed p"
  unfolding inlined_projections_def
  by (erule project_items_all [rotated 2])
    (auto simp: projection_typed_def default_inlined_column_projections_def inlined_projection_for_name_def
       inlined_projection_def Let_def split: if_splits)

lemma encode_inlined_column_value_fits:
  "t \<noteq> PG_UUID \<Longrightarrow> cell_fits (field n t Binary_Format) (encode_inlined_column_value parse_micros parse_days v t)"
  by (cases t) (simp_all add: encode_inlined_column_value_def cell_fits_def int8_cell_def text_cell_def same_binary_def)

lemma inlined_cell_fits:
  "projection_typed p \<Longrightarrow>
     cell_fits (field (ip_name p) (ip_datatype p) Binary_Format) (inlined_cell parse_micros parse_days json_values row p)"
  by (cases "ip_source p") (simp_all add: projection_typed_def inlined_cell_def encode_inlined_column_value_fits)

lemma list_all2_projected:
  "(\<And>p. p \<in> set ps \<Longrightarrow> cell_fits (f p) (c p)) \<Longrightarrow> list_all2 cell_fits (map f ps) (map c ps)"
  by (simp add: list_all2_map1 list_all2_map2 list_all2_same)

lemma show_small: "show_nat 0 = ''0''" "show_nat (Suc 0) = ''1''" "show_nat (Suc (Suc 0)) = ''2''"
  by code_simp+

lemmas response_simps = response_ok_select response_ok_def list_all_iff schema_defs Let_def show_small

lemma single_value_responses_ok:
  "response_ok (make_single_text_response n v)" "response_ok (make_single_int_response n i)"
  "response_ok (make_null_int_response n)" "response_ok (make_null_text_response n)"
  "response_ok (make_false_bool_response n)" "response_ok make_version_with_rds_check_response"
  "response_ok make_empty_response" "response_ok make_pg_type_response"
  by (simp_all add: response_ok_def show_small make_single_text_response_def make_single_int_response_def
      make_null_int_response_def make_null_text_response_def make_false_bool_response_def make_empty_response_def
      make_version_with_rds_check_response_def)
    (auto simp: make_pg_type_response_def response_simps select_response_def)

lemma catalog_scan_responses_ok:
  "response_ok (make_pg_catalog_inlined_table_response t columns)"
  "r \<in> set make_pg_catalog_scan_responses \<Longrightarrow> response_ok r"
  by (auto simp: make_pg_catalog_inlined_table_response_def make_pg_catalog_scan_responses_def response_simps
      make_pg_class_schema_def make_pg_class_attribute_row_def make_pg_namespace_schema_def
      make_pg_namespace_rows_def select_response_def)

lemma object_responses_ok:
  "response_ok (make_snapshot_row_response snap)" "response_ok (make_latest_snapshot_info_response latest)"
  "response_ok (make_schemas_response schemas)" "response_ok (make_tables_response tables)"
  "response_ok (make_columns_response columns)" "response_ok (make_views_response views)"
  "response_ok (make_data_files_response files)" "response_ok (make_delete_files_response deletes)"
  by (simp_all add: make_snapshot_row_response_def make_latest_snapshot_info_response_def make_schemas_response_def
      make_tables_response_def make_columns_response_def make_views_response_def make_data_files_response_def
      make_delete_files_response_def response_simps select_response_def split: option.split)

lemma attribute_responses_ok:
  "response_ok (make_metadata_response metadata)" "response_ok (make_macros_response macros)"
  "response_ok (make_macro_impls_response impls)" "response_ok (make_macro_parameters_response parameters)"
  "response_ok (make_tags_response tags)" "response_ok (make_column_tags_response column_tags)"
  "response_ok (make_schema_versions_response versions)" "response_ok (make_inlined_data_tables_response inlined)"
  "response_ok (make_schema_version_response n)" "response_ok (make_file_ids_response ids)"
  "response_ok (make_table_column_stats_response column_stats)" "response_ok (make_metadata_table_empty_response name)"
  by (simp_all add: make_metadata_response_def make_macros_response_def make_macro_impls_response_def
      make_macro_parameters_response_def make_tags_response_def make_column_tags_response_def
      make_schema_versions_response_def make_inlined_data_tables_response_def make_schema_version_response_def
      make_file_ids_response_def make_table_column_stats_response_def make_metadata_table_empty_response_def
      response_simps select_response_def split: option.split)

lemma statistics_responses_ok:
  "response_ok (make_file_column_stats_response items file_stats)"
  "response_ok (make_table_stats_rows_response_for_sql items stats)"
  "response_ok (make_global_table_stats_response stats column_stats)"
  by (auto simp: make_file_column_stats_response_def make_table_stats_rows_response_for_sql_def
      make_global_table_stats_response_def encode_global_table_stats_row_def response_ok_select list_all_iff Let_def
      global_table_stats_schema_def
      intro!: list_all2_projected split: if_splits)

lemma snapshot_changes_response_ok: "response_ok (make_snapshot_changes_response changes)"
  by (auto simp: make_snapshot_changes_response_def response_ok_select list_all_iff snapshot_changes_schema_def)

lemma snapshot_stats_rows_width:
  "length (snapshot_stats_row s) = 15"
  "r \<in> set (table_stats_changes_rows columns stats) \<Longrightarrow> length r = 15"
  by (auto simp: snapshot_stats_row_def table_stats_changes_rows_def Let_def split: if_splits)

lemma text_rows_fit:
  "length r = length ns \<Longrightarrow> list_all2 cell_fits (map text_col ns) (map text_cell r)"
  by (simp add: list_all2_conv_all_nth)

lemma snapshot_stats_changes_response_ok:
  "response_ok (make_snapshot_stats_changes_response snapshot stats column_stats)"
  by (auto simp: make_snapshot_stats_changes_response_def response_ok_select list_all_iff Let_def
      snapshot_stats_changes_schema_def snapshot_stats_rows_width simp del: list.map intro!: text_rows_fit)

lemma inlined_rows_response_ok:
  "response_ok (make_inlined_rows_response parse_micros parse_days json_values items columns rows)"
  by (auto simp: make_inlined_rows_response_def response_ok_select list_all_iff Let_def
      intro!: list_all2_projected inlined_cell_fits dest: inlined_projections_typed)

text \<open>Every row a response carries has one cell per announced field, encoded in the announced format with a
  type of the same representation, and the command tag counts the rows: for all builders of the metadata
  tables, the system catalog, the statistics with any projection, and the inlined rows with any projection,
  whatever the calendar and JSON libraries return. The builder of the sort orders is the exception.\<close>

theorem responses_match_fields:
  "response_ok (make_snapshot_row_response snap) \<and> response_ok (make_latest_snapshot_info_response latest)
   \<and> response_ok (make_schemas_response schemas) \<and> response_ok (make_tables_response tables)
   \<and> response_ok (make_columns_response columns) \<and> response_ok (make_views_response views)
   \<and> response_ok (make_data_files_response files) \<and> response_ok (make_delete_files_response deletes)
   \<and> response_ok (make_metadata_response metadata) \<and> response_ok (make_macros_response macros)
   \<and> response_ok (make_macro_impls_response impls) \<and> response_ok (make_macro_parameters_response parameters)
   \<and> response_ok (make_tags_response tags) \<and> response_ok (make_column_tags_response column_tags)
   \<and> response_ok (make_schema_versions_response versions) \<and> response_ok (make_inlined_data_tables_response inlined)
   \<and> response_ok (make_table_column_stats_response column_stats) \<and> response_ok (make_metadata_table_empty_response name)
   \<and> response_ok (make_file_column_stats_response items file_stats)
   \<and> response_ok (make_table_stats_rows_response_for_sql items stats)
   \<and> response_ok (make_global_table_stats_response stats column_stats)
   \<and> response_ok (make_snapshot_changes_response changes)
   \<and> response_ok (make_snapshot_stats_changes_response latest stats column_stats)
   \<and> response_ok (make_pg_catalog_inlined_table_response name columns) \<and> list_all response_ok make_pg_catalog_scan_responses
   \<and> response_ok (make_inlined_rows_response parse_micros parse_days json_values items columns rows)"
  by (simp add: object_responses_ok attribute_responses_ok statistics_responses_ok snapshot_changes_response_ok
      snapshot_stats_changes_response_ok catalog_scan_responses_ok inlined_rows_response_ok list_all_iff)

text \<open>The rows of the sort orders have six cells for four fields, in another order.\<close>

lemma sort_info_rows_do_not_match:
  "response_ok (make_sort_info_response rows) \<longleftrightarrow> rows = []"
  by (auto simp: make_sort_info_response_def response_ok_select sort_info_schema_def list_all_iff)

text \<open>The type \<open>int8\<close> of a column is announced as a two-byte integer in the system catalog and sent as an
  eight-byte integer.\<close>

lemma int8_column_announced_as_int2:
  "pg_type_name_for_inlined_column ''int8'' = ''int2'' \<and> inlined_storage_type ''int8'' = PG_INT8"
  by code_simp

end
