(* ===== verification/Concrete_Sql.thy ===== *)
theory Concrete_Sql
  imports Concrete_Sessions Pg_Commit Pg_Responses
begin

text \<open>
  SQL transactions and statements on concrete inputs: the witnesses of the properties of the SQL layer, on
  the in-memory storage engine, and the runs behind the observations about its error paths.
\<close>

section \<open>A transaction\<close>

text \<open>A transaction that creates a schema and writes statistics directly, on a catalog just opened.\<close>

definition sql_ops :: "BufferedOp list" where
  "sql_ops = [Op_InsertSchema ''main'', Op_InsertTableStats 7 1 1 10]"

definition after_schema :: CatalogWriter where
  "after_schema = snd (create_schema mem_codecs ''uuid'' ''main'' (begin_write (opened_store ''n1'')))"

lemma after_schema_owner:
  "w_writer_epoch after_schema = 1" "w_writer_nonce after_schema = ''n1''" "w_snapshot after_schema = 1"
  by (simp_all add: after_schema_def create_schema_def w_simps begin_write_def CatalogWriter_new_def opened_store_def
      counter_defs w_snapshot_def)

lemma create_schema_Inr: "\<exists>i. create_schema C uuid name w = (Inr i, snd (create_schema C uuid name w))"
  by (simp add: create_schema_def Let_def split: prod.split)

lemma sql_schema_op:
  "run_op mem_slatedb mem_codecs j [] [] ''uuid'' (Op_InsertSchema ''main'') (commit_start (opened_store ''n1'') db) =
     Some (Inr (), (commit_start (opened_store ''n1'') db)\<lparr>cm_writer := after_schema, cm_needs_snapshot := True\<rparr>)"
  using create_schema_Inr [of mem_codecs "''uuid''" "''main''" "begin_write (opened_store ''n1'')"]
  by (auto simp: try_writer_def try_cmd_def needs_snapshot_def commit_start_def after_schema_def split: prod.splits)

definition with_stats :: "mem_db \<Rightarrow> mem_db" where
  "with_stats db = snd (update_table_stats mem_slatedb mem_codecs 7 1 1 10 db)"

lemma opened_no_stats: "map_of (opened_db n) (key_table_stats 7) = None"
  by (simp add: opened_db_def key_simps tag_defs)

lemma opened_stats:
  "\<exists>v. update_table_stats mem_slatedb mem_codecs 7 1 1 10 (opened_db n) = (Inr (), (key_table_stats 7, v) # opened_db n)"
  using opened_no_stats [of n]
  by (simp add: update_table_stats_def read_table_stats_or_default_def db_get_def db_put_def Let_def)

lemma with_stats_view:
  "k \<noteq> key_table_stats 7 \<Longrightarrow> map_of (with_stats (opened_db n)) k = map_of (opened_db n) k"
  "map_of (with_stats (opened_db n)) (key_table_stats 7) \<noteq> None"
  using opened_stats [of n] by (auto simp: with_stats_def)

lemma system_not_stats: "key_system name \<noteq> key_table_stats t"
  by (simp add: key_simps tag_defs)

lemma sql_stats_op:
  "cm_db st = opened_db n \<Longrightarrow>
     run_op mem_slatedb mem_codecs j [] [] uuid (Op_InsertTableStats 7 1 1 10) st =
       Some (Inr (), st\<lparr>cm_db := with_stats (opened_db n)\<rparr>)"
  using opened_stats [of n] by (auto simp: try_db_def try_cmd_def with_stats_def)

lemma sql_ops_rows: "collect_replaced_inlined_rows sql_ops = []" "collect_deleted_inlined_rows sql_ops = []"
  by (simp_all add: sql_ops_def collect_replaced_inlined_rows_def collect_deleted_inlined_rows_def replaced_by_def deleted_by_def)

lemma sql_ops_run:
  "run_ops mem_slatedb mem_codecs j [] [] (\<lambda>_. ''uuid'') 0 sql_ops (commit_start (opened_store ''n1'') (opened_db ''n1'')) =
     Some (Inr (), (commit_start (opened_store ''n1'') (opened_db ''n1''))\<lparr>cm_writer := after_schema,
       cm_needs_snapshot := True, cm_db := with_stats (opened_db ''n1'')\<rparr>)"
  unfolding sql_ops_def run_ops.simps run_bind_def sql_schema_op
  by (simp add: run_bind_def sql_stats_op done_ok_def commit_start_def del: run_op.simps)

lemma sql_commit_runs:
  "\<exists>store' db'. execute_commit mem_slatedb mem_codecs (\<lambda>_. Inr []) (\<lambda>_. ''uuid'') ''now'' id [] sql_ops
     (opened_store ''n1'', opened_db ''n1'') = Some (Inr [], (store', db'))"
proof -
  obtain r db' where c: "create_snapshot mem_slatedb mem_codecs ''now'' id None None
      (after_schema, with_stats (opened_db ''n1'')) = (Inr r, (drained after_schema, db'))"
    using mem_create_snapshot [of "with_stats (opened_db ''n1'')" after_schema mem_codecs "''now''" None None]
    by (auto simp: with_stats_view(1) [OF system_not_stats] after_schema_owner)
  have "affected_table_ids sql_ops = []"
    by (simp add: sql_ops_def affected_table_ids_def data_file_table_def map_filter_simps)
  moreover have "sql_ops \<noteq> []" by (simp add: sql_ops_def)
  ultimately show ?thesis
    unfolding execute_commit_def sql_ops_rows sql_ops_run prod.case
    using c by (simp add: notify_snapshot_advance_def commit_start_def)
qed

lemma opened_ids_below: "ids_below (map_of (opened_db n)) (cs_counters (opened_store n))"
  by (simp add: ids_below_def opened_db_def key_simps tag_defs)


section \<open>A transaction that fails\<close>

text \<open>A transaction that ends a column which does not exist.\<close>

definition bad_column :: BufferedOp where
  "bad_column = Op_UpdateEndSnapshot ''ducklake_column'' 5 1 1"

lemma no_columns: "prefix [TAG_COLUMN] k \<Longrightarrow> map_of (opened_db n) k = None" "prefix [TAG_COLUMN] k \<Longrightarrow> map_of (with_stats (opened_db n)) k = None"
proof -
  show "prefix [TAG_COLUMN] k \<Longrightarrow> map_of (opened_db n) k = None"
    by (auto simp: opened_db_def key_simps tag_defs prefix_def)
  moreover have "prefix [TAG_COLUMN] k \<Longrightarrow> k \<noteq> key_table_stats 7"
    by (auto simp: key_simps tag_defs)
  ultimately show "prefix [TAG_COLUMN] k \<Longrightarrow> map_of (with_stats (opened_db n)) k = None"
    by (simp add: with_stats_view)
qed

lemma bad_column_fails:
  assumes "\<And>k. prefix [TAG_COLUMN] k \<Longrightarrow> map_of (cm_db st) k = None"
  shows "\<exists>e st'. run_op mem_slatedb mem_codecs j [] [] uuid bad_column st = Some (Inl e, st') \<and> cm_db st' = cm_db st"
proof (cases "find_column_table_id mem_slatedb mem_codecs (cm_db st) 5")
  case (Inr found)
  have "map_of (cm_db st) (key_column t 5 1) = None" for t
    by (rule assms) (simp add: key_simps)
  then show ?thesis
    using Inr
    by (simp add: bad_column_def end_column_def try_writer_def try_cmd_def drop_column_def fetch_row_def db_get_def
        needs_snapshot_def ok_or_def)
qed (simp add: bad_column_def end_column_def needs_snapshot_def)

text \<open>A transaction of staged operations that fails leaves nothing behind.\<close>

lemma failing_ops_rows:
  "collect_replaced_inlined_rows [op, bad_column] = replaced_by op"
  "collect_deleted_inlined_rows [op, bad_column] = deleted_by op"
  by (simp_all add: collect_replaced_inlined_rows_def collect_deleted_inlined_rows_def bad_column_def replaced_by_def deleted_by_def)

lemma failing_schema_run:
  "\<exists>e st. run_ops mem_slatedb mem_codecs j [] [] (\<lambda>_. ''uuid'') 0 [Op_InsertSchema ''main'', bad_column]
     (commit_start (opened_store ''n1'') (opened_db ''n1'')) = Some (Inl e, st) \<and> cm_db st = opened_db ''n1''"
proof -
  let ?st = "(commit_start (opened_store ''n1'') (opened_db ''n1''))\<lparr>cm_writer := after_schema, cm_needs_snapshot := True\<rparr>"
  obtain e st where "run_op mem_slatedb mem_codecs j [] [] ''uuid'' bad_column ?st = Some (Inl e, st)"
    "cm_db st = opened_db ''n1''"
    using bad_column_fails [of ?st j "''uuid''"] no_columns(1) by (auto simp: commit_start_def)
  then show ?thesis
    unfolding run_ops.simps run_bind_def sql_schema_op by (simp del: run_op.simps)
qed


text \<open>With an operation that writes statistics before the one that fails, the statistics stay: \<open>COMMIT\<close> reports an
  error and the transaction has partly happened.\<close>

lemma failed_commit_keeps_statistics:
  "\<exists>e db'. execute_commit mem_slatedb mem_codecs (\<lambda>_. Inr []) (\<lambda>_. ''uuid'') ''now'' id []
       [Op_InsertTableStats 7 1 1 10, bad_column] (opened_store ''n1'', opened_db ''n1'') =
       Some (Inl e, (opened_store ''n1'', db')) \<and>
     map_of (opened_db ''n1'') (key_table_stats 7) = None \<and> map_of db' (key_table_stats 7) \<noteq> None"
proof -
  let ?db = "with_stats (opened_db ''n1'')"
  let ?st = "(commit_start (opened_store ''n1'') (opened_db ''n1''))\<lparr>cm_db := ?db\<rparr>"
  have s: "run_op mem_slatedb mem_codecs (\<lambda>_. Inr []) [] [] ''uuid'' (Op_InsertTableStats 7 1 1 10)
      (commit_start (opened_store ''n1'') (opened_db ''n1'')) = Some (Inr (), ?st)"
    by (rule sql_stats_op) (simp add: commit_start_def)
  obtain e st where b: "run_op mem_slatedb mem_codecs (\<lambda>_. Inr []) [] [] ''uuid'' bad_column ?st = Some (Inl e, st)"
    "cm_db st = ?db"
    using bad_column_fails [of ?st "\<lambda>_. Inr []" "''uuid''"] no_columns(2) by (auto simp: commit_start_def)
  have "run_ops mem_slatedb mem_codecs (\<lambda>_. Inr []) [] [] (\<lambda>_. ''uuid'') 0
      [Op_InsertTableStats 7 1 1 10, bad_column] (commit_start (opened_store ''n1'') (opened_db ''n1'')) = Some (Inl e, st)"
    unfolding run_ops.simps run_bind_def s using b(1) by (simp del: run_op.simps)
  moreover have "replaced_by (Op_InsertTableStats 7 1 1 10) = []" "deleted_by (Op_InsertTableStats 7 1 1 10) = []"
    by (simp_all add: replaced_by_def deleted_by_def)
  ultimately show ?thesis
    using b(2) with_stats_view(2) [of "''n1''"] opened_no_stats
    by (simp add: execute_commit_def failing_ops_rows del: run_ops.simps)
qed

section \<open>Row ids\<close>

text \<open>A row with the largest row id that is inserted twice in one transaction: the search for a free id never
  ends, since the id after the largest is the largest again.\<close>

lemma largest_row_id_search_diverges:
  assumes "(t, v, u64_max) \<in> set (cm_reserved st)" and "(t, v, u64_max) \<notin> set deleted"
  shows "insert_inlined_row S C json_vec deleted t v values u64_max st = None"
proof -
  have "\<forall>x\<ge>u64_max. row_taken S t v st x = Inr True"
    using assms(1) by (auto simp: row_taken_def u64_max_def word_order.extremum_unique)
  then show ?thesis using assms(2) by (simp add: insert_inlined_row_def free_row_id_diverges)
qed

section \<open>Literals\<close>

definition literal_rows :: "string option list list" where
  "literal_rows = [[Some ''it's (a), b'', None], [Some [], Some ''NULL'']]"

theorem literal_rows_round_trip_witness:
  "literal_insert_rows to_ascii_lowercase (''INSERT INTO t '' @ ''VALUES '' @ show_rows literal_rows) = Some literal_rows"
proof -
  have "find_str ''values'' (to_ascii_lowercase (''INSERT INTO t '' @ ''VALUES '' @ show_rows literal_rows)) =
      Some (length ''INSERT INTO t '')"
    by code_simp
  from literal_rows_round_trip [where lower = to_ascii_lowercase and head = "''INSERT INTO t ''" and rs = literal_rows, OF this] show ?thesis by (simp add: literal_rows_def)
qed

text \<open>The position of \<open>VALUES\<close> is taken in the lower-case text and used in the original one. The letter with
  the code point 130 hex has two bytes, its lower case three: the row that follows is lost, or, when the position falls into
  the middle of a character, the slice panics.\<close>

definition dotted_i :: string where
  "dotted_i = [CHR 0xC4, CHR 0xB0]"

definition lower_dotted :: "string \<Rightarrow> string" where
  "lower_dotted s = (if take 2 s = dotted_i then [CHR 0x69, CHR 0xCC, CHR 0x87] @ to_ascii_lowercase (drop 2 s)
     else to_ascii_lowercase s)"

lemma lower_case_position_loses_row:
  "literal_insert_rows lower_dotted (dotted_i @ '' VALUES('' @ [CHR 0x27] @ ''x'' @ [CHR 0x27] @ '')'') = Some []"
  by code_simp

end
