(* ===== verification/Pg_Reads.thy ===== *)
theory Pg_Reads
  imports Pg_Responses Pg_Commit Extension Table_Changes File_Pruning
begin

text \<open>
  The statements that read the catalog, as the branches of \<open>execute_classified\<close> in
  \<open>crates/rocklake-pgwire/src/executor/mod.rs\<close>, with \<open>executor/meta.rs\<close>, \<open>executor/session.rs\<close>,
  \<open>executor/extension.rs\<close> and the two functions of the standard interface in \<open>executor/catalog.rs\<close>. What the
  server gets from libraries is a record of functions.
\<close>

section \<open>The server and its libraries\<close>

text \<open>\<open>sv_items\<close> is the SQL parser at a projection, \<open>sv_set_order\<close> and \<open>sv_map_order\<close> the iteration orders of
  hash sets and maps, \<open>sv_hash\<close> the hash of a text, \<open>sv_object\<close> and \<open>sv_parquet\<close> the object store and the
  Parquet reader, \<open>sv_op_bytes\<close> the size of a buffered operation.\<close>

record 'db Server =
  sv_db :: "'db slatedb"
  sv_codecs :: codecs
  sv_lower :: "string \<Rightarrow> string"
  sv_items :: "string \<Rightarrow> SelectItem list option"
  sv_parse_micros :: "string \<Rightarrow> string \<Rightarrow> i64 option"
  sv_parse_days :: "string \<Rightarrow> int option"
  sv_json_values :: "bytes \<Rightarrow> string option list option"
  sv_json_vec :: "string option list \<Rightarrow> string + bytes"
  sv_json_print :: "Json \<Rightarrow> string"
  sv_debug_type :: "DuckLakeType \<Rightarrow> string"
  sv_map_order :: "(u64 \<times> ColumnRow list) list \<Rightarrow> (u64 \<times> ColumnRow list) list"
  sv_set_order :: "u64 list \<Rightarrow> u64 list"
  sv_hash :: "string \<Rightarrow> u64"
  sv_path :: "string \<Rightarrow> string"
  sv_object :: "string \<Rightarrow> string + bytes"
  sv_parquet :: "nat \<Rightarrow> bytes \<Rightarrow> string + (string + (string \<times> ArrowCell) list list) list"
  sv_op_bytes :: nat
  sv_extension_schemas :: "string list"

type_synonym responses = "RockLakeError + Response list"

text \<open>\<open>.map_err(RockLakeError::from)?\<close> around a call of the catalog, and a loop that extends a vector.\<close>

definition catalog_call :: "CatalogError + 'a \<Rightarrow> RockLakeError + 'a" where
  "catalog_call r = map_err RL_Catalog r"

fun collect_each :: "('a \<Rightarrow> 'e + 'b list) \<Rightarrow> 'a list \<Rightarrow> 'e + 'b list" where
  "collect_each f [] = Inr []"
| "collect_each f (x # xs) = rbind (f x) (\<lambda>bs. rbind (collect_each f xs) (\<lambda>rest. Inr (bs @ rest)))"

definition answer :: "CatalogError + 'a \<Rightarrow> ('a \<Rightarrow> Response) \<Rightarrow> responses" where
  "answer r f = rbind (catalog_call r) (\<lambda>a. Inr [f a])"

text \<open>The snapshots of the two readers of a store.\<close>

abbreviation latest :: "CatalogStore \<Rightarrow> SnapshotId" where
  "latest store \<equiv> rd_dl_snapshot_id (read_latest store)"

definition with_reader_at :: "CatalogStore \<Rightarrow> u64 \<Rightarrow> (SnapshotId \<Rightarrow> responses) \<Rightarrow> responses" where
  "with_reader_at store snap_id f =
     rbind (catalog_call (read_at store (SnapshotId_new snap_id))) (\<lambda>r. f (rd_dl_snapshot_id r))"

text \<open>The loops over all schemas and all tables of a snapshot.\<close>

definition every_table :: "'db Server \<Rightarrow> 'db \<Rightarrow> SnapshotId \<Rightarrow> CatalogError + TableRow list" where
  "every_table E db s =
     rbind (list_schemas (sv_db E) (sv_codecs E) db s) (collect_each (\<lambda>schema.
       list_tables (sv_db E) (sv_codecs E) db s (sr_schema_id schema)))"

definition for_every_table ::
  "'db Server \<Rightarrow> 'db \<Rightarrow> SnapshotId \<Rightarrow> (u64 \<Rightarrow> CatalogError + 'b list) \<Rightarrow> CatalogError + 'b list" where
  "for_every_table E db s f =
     rbind (list_schemas (sv_db E) (sv_codecs E) db s) (collect_each (\<lambda>schema.
       rbind (list_tables (sv_db E) (sv_codecs E) db s (sr_schema_id schema)) (collect_each (\<lambda>table.
         f (tr_table_id table)))))"

section \<open>Snapshots\<close>

definition snapshot_at :: "'db Server \<Rightarrow> 'db \<Rightarrow> SnapshotId \<Rightarrow> CatalogError + SnapshotRow option" where
  "snapshot_at E db s = get_snapshot (sv_db E) (sv_codecs E) db s"

definition snapshot_or_zero :: "SnapshotRow option \<Rightarrow> u64" where
  "snapshot_or_zero snap = (case snap of Some s \<Rightarrow> sn_snapshot_id s | None \<Rightarrow> 0)"

definition select_max_snapshot :: "'db Server \<Rightarrow> CatalogStore \<Rightarrow> 'db \<Rightarrow> responses" where
  "select_max_snapshot E store db =
     answer (snapshot_at E db (latest store)) (\<lambda>snap. make_single_int_response ''max'' (snapshot_or_zero snap))"

definition select_latest_snapshot_id :: "'db Server \<Rightarrow> CatalogStore \<Rightarrow> 'db \<Rightarrow> responses" where
  "select_latest_snapshot_id E store db =
     answer (snapshot_at E db (latest store)) (\<lambda>snap. case snap of
       Some s \<Rightarrow> make_single_int_response ''ducklake_latest_snapshot_id'' (sn_snapshot_id s)
     | None \<Rightarrow> make_null_int_response ''ducklake_latest_snapshot_id'')"

definition select_latest_snapshot_info :: "'db Server \<Rightarrow> CatalogStore \<Rightarrow> 'db \<Rightarrow> responses" where
  "select_latest_snapshot_info E store db =
     answer (snapshot_at E db (latest store)) make_latest_snapshot_info_response"

definition select_snapshot_stats_and_changes :: "'db Server \<Rightarrow> CatalogStore \<Rightarrow> 'db \<Rightarrow> responses" where
  "select_snapshot_stats_and_changes E store db =
     (let S = sv_db E; C = sv_codecs E; s = latest store in
      answer (rbind (snapshot_at E db s) (\<lambda>snap.
        rbind (list_all_table_stats S C db s) (\<lambda>stats_rows.
        rbind (list_all_table_column_stats S C db s) (\<lambda>column_stats. Inr (snap, stats_rows, column_stats)))))
        (\<lambda>(snap, stats_rows, column_stats). make_snapshot_stats_changes_response snap stats_rows column_stats))"

definition snapshot_or_empty :: "SnapshotRow option \<Rightarrow> Response" where
  "snapshot_or_empty snap = (case snap of Some s \<Rightarrow> make_snapshot_row_response s | None \<Rightarrow> make_empty_response)"

definition select_snapshot :: "'db Server \<Rightarrow> ParamValues \<Rightarrow> CatalogStore \<Rightarrow> 'db \<Rightarrow> responses" where
  "select_snapshot E params store db =
     (case result_ok (get_u64 params 0) of
        Some i \<Rightarrow> with_reader_at store i (\<lambda>s. answer (snapshot_at E db s) snapshot_or_empty)
      | None \<Rightarrow> answer (snapshot_at E db (latest store)) snapshot_or_empty)"

definition select_first_snapshot :: "'db Server \<Rightarrow> CatalogStore \<Rightarrow> 'db \<Rightarrow> responses" where
  "select_first_snapshot E store db =
     with_reader_at store 1 (\<lambda>s. answer (snapshot_at E db s) snapshot_or_empty)"

definition select_max_snapshot_after :: "'db Server \<Rightarrow> ParamValues \<Rightarrow> CatalogStore \<Rightarrow> 'db \<Rightarrow> responses" where
  "select_max_snapshot_after E params store db =
     (let after_id = unwrap_or 0 (get_u64 params 0) in
      answer (snapshot_at E db (latest store)) (\<lambda>snap.
        if snapshot_or_zero snap > after_id then make_single_int_response ''max'' (snapshot_or_zero snap)
        else make_null_int_response ''max''))"

definition select_snapshot_changes :: "'db Server \<Rightarrow> ParamValues \<Rightarrow> CatalogStore \<Rightarrow> 'db \<Rightarrow> responses" where
  "select_snapshot_changes E params store db =
     with_reader_at store (unwrap_or u64_max (get_u64 params 0)) (\<lambda>s.
       answer (list_all_snapshot_changes (sv_db E) (sv_codecs E) db s) make_snapshot_changes_response)"

section \<open>Schemas, tables, columns and files\<close>

definition select_schemas :: "'db Server \<Rightarrow> ParamValues \<Rightarrow> CatalogStore \<Rightarrow> 'db \<Rightarrow> responses" where
  "select_schemas E params store db =
     with_reader_at store (get_snapshot_param params) (\<lambda>s.
       answer (list_schemas (sv_db E) (sv_codecs E) db s) make_schemas_response)"

definition select_tables :: "'db Server \<Rightarrow> ParamValues \<Rightarrow> CatalogStore \<Rightarrow> 'db \<Rightarrow> responses" where
  "select_tables E params store db =
     with_reader_at store (unwrap_or u64_max (get_u64 params 1)) (\<lambda>s.
       answer (case result_ok (get_u64 params 0) of
           Some schema_id \<Rightarrow> list_tables (sv_db E) (sv_codecs E) db s schema_id
         | None \<Rightarrow> every_table E db s) make_tables_response)"

definition columns_of :: "'db Server \<Rightarrow> 'db \<Rightarrow> SnapshotId \<Rightarrow> u64 \<Rightarrow> CatalogError + ColumnRow list" where
  "columns_of E db s table_id =
     rbind (describe_table (sv_db E) (sv_codecs E) (sv_map_order E) db s table_id) (\<lambda>found.
       Inr (case found of Some (_, cols) \<Rightarrow> cols | None \<Rightarrow> []))"

definition select_columns :: "'db Server \<Rightarrow> ParamValues \<Rightarrow> CatalogStore \<Rightarrow> 'db \<Rightarrow> responses" where
  "select_columns E params store db =
     with_reader_at store (unwrap_or u64_max (get_u64 params 1)) (\<lambda>s.
       answer (case result_ok (get_u64 params 0) of
           Some table_id \<Rightarrow> columns_of E db s table_id
         | None \<Rightarrow> for_every_table E db s (columns_of E db s)) make_columns_response)"

definition select_data_files :: "'db Server \<Rightarrow> ParamValues \<Rightarrow> CatalogStore \<Rightarrow> 'db \<Rightarrow> responses" where
  "select_data_files E params store db =
     with_reader_at store (unwrap_or u64_max (get_u64 params 1)) (\<lambda>s.
       let files_of = list_data_files (sv_db E) (sv_codecs E) db s in
       answer (case result_ok (get_u64 params 0) of
           Some table_id \<Rightarrow> files_of table_id
         | None \<Rightarrow> for_every_table E db s files_of) make_data_files_response)"

definition select_data_files_with_limit :: "'db Server \<Rightarrow> ParamValues \<Rightarrow> CatalogStore \<Rightarrow> 'db \<Rightarrow> responses" where
  "select_data_files_with_limit E params store db =
     rbind (require_param_u64 params 0 ''table_id'') (\<lambda>table_id.
       with_reader_at store (unwrap_or u64_max (get_u64 params 2)) (\<lambda>s.
         answer (list_data_files (sv_db E) (sv_codecs E) db s table_id) (\<lambda>files.
           make_data_files_response (take (unat (unwrap_or u64_max (get_u64 params 1))) files))))"

definition select_delete_files :: "'db Server \<Rightarrow> ParamValues \<Rightarrow> CatalogStore \<Rightarrow> 'db \<Rightarrow> responses" where
  "select_delete_files E params store db =
     with_reader_at store (unwrap_or u64_max (get_u64 params 1)) (\<lambda>s.
       let files_of = list_delete_files (sv_db E) (sv_codecs E) db s in
       answer (case result_ok (get_u64 params 0) of
           Some table_id \<Rightarrow> files_of table_id
         | None \<Rightarrow> for_every_table E db s files_of) make_delete_files_response)"

section \<open>Statistics\<close>

text \<open>\<open>None\<close> when the comparison of a value with a statistic panics.\<close>

definition select_file_column_stats ::
  "'db Server \<Rightarrow> string \<Rightarrow> ParamValues \<Rightarrow> CatalogStore \<Rightarrow> 'db \<Rightarrow> responses option" where
  "select_file_column_stats E sql params store db =
     (let S = sv_db E; C = sv_codecs E;
          param = (\<lambda>i column. or_else (result_ok (get_u64 params i)) (literal_assignment_u64 sql column)) in
      case (param 0 ''table_id'', param 1 ''column_id'') of
        (Some table_id, Some column_id) \<Rightarrow>
          (case catalog_call (read_at store (SnapshotId_new (unwrap_or u64_max (get_u64 params 2)))) of
             Inl e \<Rightarrow> Some (Inl e)
           | Inr reader \<Rightarrow>
               (let s = rd_dl_snapshot_id reader;
                    predicate = (case pv_get params 3 of Some p \<Rightarrow> p | None \<Rightarrow> []) in
                if predicate = [] then
                  Some (answer (list_file_column_stats S C db s table_id column_id)
                    (make_file_column_stats_response (sv_items E sql)))
                else
                  (case catalog_call (get_column_type S C db s table_id column_id) of
                     Inl e \<Rightarrow> Some (Inl e)
                   | Inr ty \<Rightarrow>
                       (let col_type = (case ty of Some t \<Rightarrow> parse t | None \<Rightarrow> Varchar) in
                        map_option (\<lambda>r. answer r make_file_ids_response)
                          (prune_files S C (sv_debug_type E) db s table_id column_id predicate col_type)))))
      | _ \<Rightarrow> Some (Inr [make_metadata_table_empty_response ''ducklake_file_column_stats'']))"

definition stats_of_table :: "'db Server \<Rightarrow> 'db \<Rightarrow> SnapshotId \<Rightarrow> u64 option \<Rightarrow> CatalogError + TableStatsRow list" where
  "stats_of_table E db s table_id =
     (case table_id of
        Some i \<Rightarrow> rbind (get_table_stats (sv_db E) (sv_codecs E) db i) (\<lambda>stats.
          Inr (case stats of Some r \<Rightarrow> [r] | None \<Rightarrow> []))
      | None \<Rightarrow> list_all_table_stats (sv_db E) (sv_codecs E) db s)"

definition select_table_stats ::
  "'db Server \<Rightarrow> string \<Rightarrow> ParamValues \<Rightarrow> CatalogStore \<Rightarrow> 'db \<Rightarrow> responses" where
  "select_table_stats E sql params store db =
     (let table_id = result_ok (get_u64 params 0) in
      with_reader_at store (unwrap_or u64_max (get_u64 params 1)) (\<lambda>s.
        if str_contains (to_ascii_lowercase sql) ''ducklake_table_column_stats'' then
          (let table_id = or_else table_id (literal_assignment_u64 sql ''table_id'') in
           answer (rbind (stats_of_table E db s table_id) (\<lambda>stats_rows.
             rbind (list_all_table_column_stats (sv_db E) (sv_codecs E) db s) (\<lambda>column_stats.
               Inr (stats_rows, case table_id of
                   Some i \<Rightarrow> filter (\<lambda>row. tcs_table_id row = i) column_stats
                 | None \<Rightarrow> column_stats))))
             (\<lambda>(stats_rows, column_stats). make_global_table_stats_response stats_rows column_stats))
        else answer (stats_of_table E db s table_id) (make_table_stats_rows_response_for_sql (sv_items E sql))))"

definition select_table_column_stats :: "'db Server \<Rightarrow> CatalogStore \<Rightarrow> 'db \<Rightarrow> responses" where
  "select_table_column_stats E store db =
     answer (list_all_table_column_stats (sv_db E) (sv_codecs E) db (latest store)) make_table_column_stats_response"

section \<open>Other metadata\<close>

text \<open>The branches that read all rows of one kind at the snapshot of the first parameter.\<close>

definition select_all ::
  "ParamValues \<Rightarrow> CatalogStore \<Rightarrow> (SnapshotId \<Rightarrow> CatalogError + 'r list) \<Rightarrow> ('r list \<Rightarrow> Response) \<Rightarrow> responses" where
  "select_all params store rows_at make_response =
     with_reader_at store (unwrap_or u64_max (get_u64 params 0)) (\<lambda>s. answer (rows_at s) make_response)"

definition select_metadata :: "'db Server \<Rightarrow> ParamValues \<Rightarrow> CatalogStore \<Rightarrow> 'db \<Rightarrow> responses" where
  "select_metadata E params store db =
     select_all params store (list_all_metadata (sv_db E) (sv_codecs E) db) make_metadata_response"

definition select_views :: "'db Server \<Rightarrow> ParamValues \<Rightarrow> CatalogStore \<Rightarrow> 'db \<Rightarrow> responses" where
  "select_views E params store db =
     select_all params store (list_all_views (sv_db E) (sv_codecs E) db) make_views_response"

definition select_macros :: "'db Server \<Rightarrow> ParamValues \<Rightarrow> CatalogStore \<Rightarrow> 'db \<Rightarrow> responses" where
  "select_macros E params store db =
     select_all params store (list_all_macros (sv_db E) (sv_codecs E) db) make_macros_response"

definition macro_impls_at :: "'db Server \<Rightarrow> 'db \<Rightarrow> SnapshotId \<Rightarrow> CatalogError + MacroImplRow list" where
  "macro_impls_at E db s =
     rbind (list_all_macros (sv_db E) (sv_codecs E) db s) (collect_each (\<lambda>m.
       list_macro_impls (sv_db E) (sv_codecs E) db s (mr_macro_id m)))"

definition select_macro_impls :: "'db Server \<Rightarrow> ParamValues \<Rightarrow> CatalogStore \<Rightarrow> 'db \<Rightarrow> responses" where
  "select_macro_impls E params store db =
     select_all params store (macro_impls_at E db) make_macro_impls_response"

definition macro_parameters_at :: "'db Server \<Rightarrow> 'db \<Rightarrow> SnapshotId \<Rightarrow> CatalogError + MacroParametersRow list" where
  "macro_parameters_at E db s =
     rbind (list_all_macros (sv_db E) (sv_codecs E) db s) (collect_each (\<lambda>m.
       rbind (list_macro_impls (sv_db E) (sv_codecs E) db s (mr_macro_id m)) (collect_each (\<lambda>i.
         list_macro_parameters (sv_db E) (sv_codecs E) db s (mi_macro_id i) (mi_impl_id i)))))"

definition select_macro_parameters :: "'db Server \<Rightarrow> ParamValues \<Rightarrow> CatalogStore \<Rightarrow> 'db \<Rightarrow> responses" where
  "select_macro_parameters E params store db =
     select_all params store (macro_parameters_at E db) make_macro_parameters_response"

definition select_tags :: "'db Server \<Rightarrow> ParamValues \<Rightarrow> CatalogStore \<Rightarrow> 'db \<Rightarrow> responses" where
  "select_tags E params store db =
     select_all params store (list_all_tags (sv_db E) (sv_codecs E) db) make_tags_response"

definition select_column_tags :: "'db Server \<Rightarrow> ParamValues \<Rightarrow> CatalogStore \<Rightarrow> 'db \<Rightarrow> responses" where
  "select_column_tags E params store db =
     select_all params store (list_all_column_tags (sv_db E) (sv_codecs E) db) make_column_tags_response"

definition select_sort_info :: "'db Server \<Rightarrow> ParamValues \<Rightarrow> CatalogStore \<Rightarrow> 'db \<Rightarrow> responses" where
  "select_sort_info E params store db =
     select_all params store (list_all_sort_info (sv_db E) (sv_codecs E) db) make_sort_info_response"

definition select_metadata_table :: "'db Server \<Rightarrow> string \<Rightarrow> CatalogStore \<Rightarrow> 'db \<Rightarrow> responses" where
  "select_metadata_table E table_name store db =
     (if table_name = ''ducklake_schema_versions''
      then answer (list_all_schema_versions (sv_db E) (sv_codecs E) db (latest store)) make_schema_versions_response
      else Inr [make_metadata_table_empty_response table_name])"

section \<open>Inlined data\<close>

definition select_inlined_data :: "'db Server \<Rightarrow> ParamValues \<Rightarrow> CatalogStore \<Rightarrow> 'db \<Rightarrow> responses" where
  "select_inlined_data E params store db =
     answer (list_inlined_data_tables (sv_db E) (sv_codecs E) db (result_ok (get_u64 params 0)))
       make_inlined_data_tables_response"

definition select_inlined_rows :: "'db Server \<Rightarrow> string \<Rightarrow> CatalogStore \<Rightarrow> 'db \<Rightarrow> responses" where
  "select_inlined_rows E sql store db =
     (case Option.bind (inlined_table_name_from_sql sql) parse_inlined_table_ids of
        None \<Rightarrow> Inr [make_empty_response]
      | Some (table_id, schema_version) \<Rightarrow>
          rbind (catalog_call (describe_table (sv_db E) (sv_codecs E) (sv_map_order E) db (latest store) table_id))
            (\<lambda>found. case found of
               None \<Rightarrow> Inr [make_empty_response]
             | Some (_, columns) \<Rightarrow>
                 answer (list_inlined_inserts (sv_db E) (sv_codecs E) db (latest store) table_id) (\<lambda>rows.
                   make_inlined_rows_response (sv_parse_micros E) (sv_parse_days E) (sv_json_values E)
                     (sv_items E sql) columns (filter (\<lambda>row. ii_schema_version row = schema_version) rows))))"

definition pg_catalog_scan :: "'db Server \<Rightarrow> string \<Rightarrow> CatalogStore \<Rightarrow> 'db \<Rightarrow> responses" where
  "pg_catalog_scan E sql store db =
     (case inlined_table_name_from_sql sql of
        None \<Rightarrow> Inr make_pg_catalog_scan_responses
      | Some table_name \<Rightarrow>
          (case parse_inlined_table_ids table_name of
             None \<Rightarrow> Inr make_pg_catalog_scan_responses
           | Some (table_id, _) \<Rightarrow>
               rbind (catalog_call (describe_table (sv_db E) (sv_codecs E) (sv_map_order E) db (latest store) table_id))
                 (\<lambda>found. Inr (case found of
                    Some (_, columns) \<Rightarrow> [make_pg_catalog_inlined_table_response table_name columns]
                  | None \<Rightarrow> make_pg_catalog_scan_responses))))"

section \<open>Virtual catalog tables\<close>

definition execute_virtual_catalog_scan :: "'db Server \<Rightarrow> string \<Rightarrow> CatalogStore \<Rightarrow> 'db \<Rightarrow> responses" where
  "execute_virtual_catalog_scan E table_name store db =
     (let s = latest store in
      if table_name = ''ducklake_snapshot'' then
        answer (snapshot_at E db s) (\<lambda>snap. make_single_int_response ''snapshot_id'' (snapshot_or_zero snap))
      else if table_name = ''ducklake_schema'' then
        answer (list_schemas (sv_db E) (sv_codecs E) db s) make_schemas_response
      else if table_name = ''ducklake_table'' then answer (every_table E db s) make_tables_response
      else Inr [make_empty_response])"

section \<open>Change feed\<close>

definition DEFAULT_CDC_BATCH_SIZE :: nat where
  "DEFAULT_CDC_BATCH_SIZE = 50000"

definition feed_error :: "TableChangesError \<Rightarrow> RockLakeError" where
  "feed_error e = RL_SqlState (TableChangesError_sqlstate e) (TableChangesError_display e)"

text \<open>The loop over the data files: \<open>base_rowid\<close> counts the rows so far. The counter of mismatches is a metric of
  the process and is not part of the answer.\<close>

fun scan_files :: "'db Server \<Rightarrow> DataFileRow list \<Rightarrow> u64 \<Rightarrow> RockLakeError + ParquetRowData list" where
  "scan_files E [] base_rowid = Inr []"
| "scan_files E (file # files) base_rowid =
     rbind (map_err feed_error (fst (extract_rows_from_parquet (sv_json_print E) (sv_path E) (sv_object E)
         (sv_parquet E) (df_path file) base_rowid (Some (df_record_count file)) DEFAULT_CDC_BATCH_SIZE 0))) (\<lambda>rows.
     rbind (scan_files E files (base_rowid + of_nat (length rows))) (\<lambda>rest.
       Inr (rows @ rest)))"

definition table_changes_schema :: "FieldInfo list" where
  "table_changes_schema = [int8t ''rowid'', text_col ''change_type'', text_col ''columns_json'']"

definition change_row :: "ChangeRecord \<Rightarrow> Cell list" where
  "change_row record_value =
     [int8_text_cell (map_option show_u64 (chr_rowid record_value)),
      text_cell (Some (ChangeType_as_str (chr_change_type record_value))),
      text_cell (Some (chr_columns_json record_value))]"

definition execute_table_changes ::
  "'db Server \<Rightarrow> string \<Rightarrow> u64 \<Rightarrow> u64 \<Rightarrow> CatalogStore \<Rightarrow> 'db \<Rightarrow> responses" where
  "execute_table_changes E table_ref start_snapshot end_snapshot store db =
     rbind (catalog_call (read_retain_from (sv_db E) db)) (\<lambda>retain_from.
     if start_snapshot < retain_from \<and> retain_from > 0 then
       Inl (RL_SqlState ''55000'' (''snapshot '' @ show_u64 start_snapshot @ '' has been garbage collected (retain_from='' @
         show_u64 retain_from @ '')''))
     else
       with_reader_at store start_snapshot (\<lambda>_.
       rbind (catalog_call (snapshot_diff (sv_db E) (sv_codecs E) db (SnapshotId_new start_snapshot)
           (SnapshotId_new end_snapshot))) (\<lambda>diff.
       rbind (scan_files E (sd_added_data_files diff) 0) (\<lambda>added_rows.
       rbind (scan_files E (sd_retired_data_files diff) 0) (\<lambda>removed_rows.
       rbind (map_err feed_error (compute_table_changes (sv_set_order E) table_ref start_snapshot end_snapshot retain_from added_rows
             removed_rows)) (\<lambda>result.
         Inr [select_response table_changes_schema (map change_row (tcr_records result))]))))))"

section \<open>Leases, row ids and extension tables\<close>

text \<open>These change the database: the state is left behind also on an error.\<close>

definition execute_hold_snapshot ::
  "'db Server \<Rightarrow> u64 option \<Rightarrow> u64 \<Rightarrow> string \<Rightarrow> u64 \<Rightarrow> 'db \<Rightarrow> responses \<times> 'db" where
  "execute_hold_snapshot E now min_snapshot_id consumer_id ttl_seconds db =
     (case hold_snapshot (sv_db E) (sv_codecs E) now consumer_id min_snapshot_id ttl_seconds db of (r, db') \<Rightarrow>
        (answer r (\<lambda>_. make_single_text_response ''hold_snapshot'' ''OK''), db'))"

definition execute_release_snapshot :: "'db Server \<Rightarrow> string \<Rightarrow> 'db \<Rightarrow> responses \<times> 'db" where
  "execute_release_snapshot E consumer_id db =
     (case release_snapshot (sv_db E) consumer_id db of (r, db') \<Rightarrow>
        (answer r (\<lambda>released. make_single_text_response ''release_snapshot''
           (if released then ''OK'' else ''NOT_FOUND'')), db'))"

definition hash_table_ref :: "'db Server \<Rightarrow> string \<Rightarrow> u64" where
  "hash_table_ref E table_ref = sv_hash E table_ref"

definition rowid_range_response :: "u64 \<times> u64 \<Rightarrow> Response" where
  "rowid_range_response = (\<lambda>(start_id, end_id).
     R_Query [int8t ''start_rowid'', int8t ''end_rowid'']
       [[int8_text_cell (Some (show_u64 start_id)), int8_text_cell (Some (show_u64 end_id))]] (Some ''SELECT 1''))"

definition execute_next_rowid_range ::
  "'db Server \<Rightarrow> string \<Rightarrow> u64 \<Rightarrow> ('db \<Rightarrow> 'db) list \<Rightarrow> 'db \<Rightarrow> responses option \<times> 'db" where
  "execute_next_rowid_range E table_ref row_count envs db =
     (case next_rowid_range (sv_db E) (hash_table_ref E table_ref) row_count envs db of (r, db') \<Rightarrow>
        (map_option (\<lambda>r. answer r rowid_range_response) r, db'))"

text \<open>The guard the four extension statements begin with.\<close>

definition extension_id_of :: "'db Server \<Rightarrow> string \<Rightarrow> RockLakeError + u8" where
  "extension_id_of E schema_name =
     (if \<not> is_registered_extension schema_name (sv_extension_schemas E) then
        Inl (RL_PermissionDenied (''extension schema '' @ [CHR 0x27] @ schema_name @ [CHR 0x27] @
          '' is not in the allowed list''))
      else ok_or (RL_Unsupported (''extension schema '' @ [CHR 0x27] @ schema_name @ [CHR 0x27] @
          '' is not registered'')) (resolve_extension_id schema_name))"

definition execute_create_extension_table :: "'db Server \<Rightarrow> string \<Rightarrow> string \<Rightarrow> 'db \<Rightarrow> responses \<times> 'db" where
  "execute_create_extension_table E schema_name table_name db =
     (case extension_id_of E schema_name of
        Inl e \<Rightarrow> (Inl e, db)
      | Inr i \<Rightarrow> (case create_extension_table (sv_db E) (pb_ExtensionSchemaRow (sv_codecs E)) i table_name db of
          (r, db') \<Rightarrow> (answer r (\<lambda>_. R_Execution ''CREATE TABLE''), db')))"

definition execute_insert_extension_row ::
  "'db Server \<Rightarrow> string \<Rightarrow> string \<Rightarrow> string list \<Rightarrow> ParamValues \<Rightarrow> ('db \<Rightarrow> 'db) list \<Rightarrow> 'db \<Rightarrow> responses option \<times> 'db" where
  "execute_insert_extension_row E schema_name table_name columns params envs db =
     (case extension_id_of E schema_name of
        Inl e \<Rightarrow> (Some (Inl e), db)
      | Inr i \<Rightarrow> (case insert_extension_row (sv_db E) (pb_ExtensionSchemaRow (sv_codecs E)) i table_name
            (to_json_string_with_columns (sv_json_print E) columns params) envs db of
          (r, db') \<Rightarrow> (map_option (\<lambda>r. answer r (\<lambda>_. R_Execution ''INSERT 0 1'')) r, db')))"

definition execute_select_extension_table :: "'db Server \<Rightarrow> string \<Rightarrow> string \<Rightarrow> 'db \<Rightarrow> responses" where
  "execute_select_extension_table E schema_name table_name db =
     rbind (extension_id_of E schema_name) (\<lambda>i.
       answer (select_extension_rows (sv_db E) (pb_ExtensionSchemaRow (sv_codecs E)) i table_name db) (\<lambda>rows.
         select_response [int8t ''row_id'', text_col ''data'']
           (map (\<lambda>row. [int8_text_cell (Some (show_u64 (es_row_id row))), text_cell (Some (es_data_json row))]) rows)))"

definition execute_delete_extension_rows :: "'db Server \<Rightarrow> string \<Rightarrow> string \<Rightarrow> 'db \<Rightarrow> responses \<times> 'db" where
  "execute_delete_extension_rows E schema_name table_name db =
     (case extension_id_of E schema_name of
        Inl e \<Rightarrow> (Inl e, db)
      | Inr i \<Rightarrow> (case delete_extension_rows (sv_db E) (pb_ExtensionSchemaRow (sv_codecs E)) i table_name db of
          (r, db') \<Rightarrow> (answer r (\<lambda>deleted. R_Execution (''DELETE '' @ show_u64 deleted)), db')))"

end
