(* ===== verification/Pg_Executor.thy ===== *)
theory Pg_Executor
  imports Pg_Reads
begin

text \<open>
  \<open>execute_classified\<close> of \<open>crates/rocklake-pgwire/src/executor/mod.rs\<close>: what every statement does to the
  connection, the store and the database. Outside a transaction a write is committed at once; between
  \<open>BEGIN\<close> and \<open>COMMIT\<close> it is buffered. \<open>None\<close> stands for a panic or a computation that never returns.
\<close>

section \<open>Statements\<close>

text \<open>The statement kinds, grouped by what they may touch: answers that need no state, reads of the store and the
  database, buffered writes, and the statements that act on the session or the database directly.\<close>

datatype ConstantKind =
    St_SelectVersion | St_SelectVersionWithRdsCheck | St_SelectOne | St_SelectCurrentSchema
  | St_SelectCurrentDatabase | St_SelectPgType | St_DiscardAll | St_SelectToRegclass | St_SelectExistsInfoSchema
  | St_SelectPgDatabaseSize | St_SelectGenRandomUuid | St_CreateInlinedTable | St_VirtualCatalogMutation string
  | St_CopyToStdout string | St_Unsupported string

datatype ReadKind =
    St_PgCatalogScan | St_SelectMaxSnapshot | St_SelectLatestSnapshotId | St_SelectLatestSnapshotInfo
  | St_SelectSnapshotStatsAndChanges | St_SelectSchemas | St_SelectTables | St_SelectColumns | St_SelectDataFiles
  | St_SelectFileColumnStats | St_SelectTableStats | St_SelectTableColumnStats | St_SelectDeleteFiles
  | St_SelectSnapshot | St_SelectSnapshotChanges | St_SelectMetadata | St_SelectViews | St_SelectMacros
  | St_SelectMacroImpls | St_SelectMacroParameters | St_SelectTags | St_SelectColumnTags | St_SelectSortInfo
  | St_SelectSchemaVersion | St_SelectDuckLakeMetadataTable string | St_SelectInlinedData | St_SelectInlinedRows
  | St_SelectMaxSnapshotAfter | St_SelectFirstSnapshot | St_SelectDataFilesWithLimit | St_VirtualCatalogScan string
  | St_SelectExtensionTable string string

datatype WriteKind =
    St_InsertSnapshot | St_InsertSnapshotChanges | St_InsertSchema | St_InsertTable | St_InsertColumn
  | St_InsertDataFile | St_InsertDeleteFile | St_InsertTableStats | St_InsertFileColumnStats
  | St_InsertTableColumnStats | St_UpdateTableColumnStats | St_InsertMetadata | St_InsertSchemaVersions
  | St_InsertInlinedDataTables | St_InsertView | St_InsertMacro | St_InsertMacroImpl | St_InsertMacroParameters
  | St_UpdateEndSnapshot string | St_UpdateTableStats | St_InsertInlinedRow

datatype StatementKind =
    Constant_Kind ConstantKind | Read_Kind ReadKind | Write_Kind WriteKind | St_ShowVariable string
  | St_SetVariable string string | St_Begin | St_Commit | St_Rollback | St_UpdateInlinedRowEndSnapshot
  | St_TableChanges string u64 u64 | St_NextRowidRange string u64 | St_HoldSnapshot u64 string u64
  | St_ReleaseSnapshot string | St_Listen string | St_Unlisten string | St_CreateExtensionTable string string
  | St_InsertExtensionRow string string "string list" string | St_DeleteExtensionRows string string
  | St_CopyFromStdin string

section \<open>The operations of a write\<close>

text \<open>A parameter, else the literal at a position of the row; then a default.\<close>

definition u64_at :: "ParamValues \<Rightarrow> nat \<Rightarrow> string option list \<Rightarrow> nat \<Rightarrow> u64 option" where
  "u64_at params i literals j = or_else (result_ok (get_u64 params i)) (literal_u64 literals j)"

definition bool_at :: "ParamValues \<Rightarrow> nat \<Rightarrow> string option list \<Rightarrow> nat \<Rightarrow> bool option" where
  "bool_at params i literals j = or_else (result_ok (get_bool params i)) (literal_bool literals j)"

definition string_at :: "ParamValues \<Rightarrow> nat \<Rightarrow> string option list \<Rightarrow> nat \<Rightarrow> string option" where
  "string_at params i literals j = or_else (get_optional_string params i) (literal_string literals j)"

definition or_default :: "'a \<Rightarrow> 'a option \<Rightarrow> 'a" where
  "or_default d v = (case v of Some x \<Rightarrow> x | None \<Rightarrow> d)"

definition insert_snapshot_op :: "ParamValues \<Rightarrow> BufferedOp" where
  "insert_snapshot_op params = Op_InsertSnapshot (get_optional_string params 0) (get_optional_string params 1)"

definition insert_snapshot_changes_op :: "ParamValues \<Rightarrow> string option list \<Rightarrow> BufferedOp" where
  "insert_snapshot_changes_op params literals =
     Op_InsertSnapshotChanges (or_default [] (string_at params 0 literals 1)) (string_at params 1 literals 4)
       (result_ok (get_u64 params 2)) (result_ok (get_u64 params 3))"

definition insert_schema_op :: "ParamValues \<Rightarrow> string option list \<Rightarrow> BufferedOp" where
  "insert_schema_op params literals = Op_InsertSchema (or_default [] (string_at params 0 literals 4))"

definition insert_table_op :: "ParamValues \<Rightarrow> string option list \<Rightarrow> BufferedOp" where
  "insert_table_op params literals =
     Op_InsertTable (or_default 1 (u64_at params 0 literals 4)) (or_default [] (string_at params 1 literals 5))
       (string_at params 2 literals 6)"

definition insert_column_op :: "ParamValues \<Rightarrow> string option list \<Rightarrow> BufferedOp" where
  "insert_column_op params literals =
     Op_InsertColumn (or_default 0 (u64_at params 0 literals 3)) (or_default [] (string_at params 1 literals 5))
       (or_default [] (string_at params 2 literals 6)) (or_default 0 (u64_at params 3 literals 4))
       (or_default True (bool_at params 4 literals 9)) (string_at params 5 literals 8) (string_at params 6 literals 7)
       (string_at params 7 literals 11) (string_at params 8 literals 12) (u64_at params 9 literals 10)"

definition insert_data_file_op :: "ParamValues \<Rightarrow> string option list \<Rightarrow> BufferedOp" where
  "insert_data_file_op params literals =
     Op_InsertDataFile (or_default 0 (u64_at params 0 literals 1)) (or_default [] (string_at params 1 literals 5))
       (or_default ''parquet'' (string_at params 2 literals 7)) (or_default 0 (u64_at params 3 literals 8))
       (or_default 0 (u64_at params 4 literals 9))"

definition insert_delete_file_op :: "ParamValues \<Rightarrow> BufferedOp" where
  "insert_delete_file_op params =
     Op_InsertDeleteFile (unwrap_or 0 (get_u64 params 0)) (unwrap_or [] (get_string params 1))
       (unwrap_or 0 (get_u64 params 2)) (unwrap_or 0 (get_u64 params 3))"

definition insert_table_stats_op :: "ParamValues \<Rightarrow> string option list \<Rightarrow> BufferedOp" where
  "insert_table_stats_op params literals =
     Op_InsertTableStats (or_default 0 (u64_at params 0 literals 0)) (or_default 0 (u64_at params 1 literals 1))
       (or_default 0 (u64_at params 2 literals 2)) (or_default 0 (u64_at params 3 literals 3))"

definition insert_file_column_stats_op :: "ParamValues \<Rightarrow> BufferedOp" where
  "insert_file_column_stats_op params =
     Op_InsertFileColumnStats (unwrap_or 0 (get_u64 params 0)) (unwrap_or 0 (get_u64 params 1))
       (unwrap_or 0 (get_u64 params 2)) (unwrap_or False (get_bool params 3)) (get_optional_string params 4)
       (get_optional_string params 5) (unwrap_or False (get_bool params 6))"

definition insert_table_column_stats_op :: "ParamValues \<Rightarrow> string option list \<Rightarrow> BufferedOp" where
  "insert_table_column_stats_op params literals =
     Op_InsertTableColumnStats (or_default 0 (u64_at params 0 literals 0)) (or_default 0 (u64_at params 1 literals 1))
       (or_default False (bool_at params 2 literals 2)) (bool_at params 3 literals 3) (string_at params 4 literals 4)
       (string_at params 5 literals 5) (string_at params 6 literals 6)"

definition insert_metadata_op :: "ParamValues \<Rightarrow> BufferedOp" where
  "insert_metadata_op params =
     Op_InsertMetadata (unwrap_or [] (get_string params 0)) (unwrap_or [] (get_string params 1))
       (get_optional_string params 2) (result_ok (get_u64 params 3))"

definition insert_schema_versions_op :: "ParamValues \<Rightarrow> string option list \<Rightarrow> BufferedOp" where
  "insert_schema_versions_op params literals =
     Op_InsertSchemaVersions (or_default 0 (u64_at params 0 literals 0)) (or_default 0 (u64_at params 1 literals 1))
       (or_default 0 (u64_at params 2 literals 2))"

definition insert_inlined_data_tables_op :: "ParamValues \<Rightarrow> string option list \<Rightarrow> BufferedOp" where
  "insert_inlined_data_tables_op params literals =
     Op_InsertInlinedDataTables (or_default 0 (u64_at params 0 literals 0)) (or_default [] (string_at params 1 literals 1))
       (or_default 0 (u64_at params 2 literals 2))"

definition insert_view_op :: "ParamValues \<Rightarrow> BufferedOp" where
  "insert_view_op params =
     Op_InsertView (unwrap_or 0 (get_u64 params 0)) (unwrap_or [] (get_string params 1))
       (unwrap_or [] (get_string params 2)) (get_optional_string params 3) (get_optional_string params 4)
       (get_optional_string params 5)"

definition insert_macro_op :: "ParamValues \<Rightarrow> BufferedOp" where
  "insert_macro_op params =
     Op_InsertMacro (unwrap_or 0 (get_u64 params 0)) (unwrap_or [] (get_string params 1))
       (unwrap_or [] (get_string params 2)) (get_optional_string params 3)"

definition insert_macro_impl_op :: "ParamValues \<Rightarrow> BufferedOp" where
  "insert_macro_impl_op params =
     Op_InsertMacroImpl (unwrap_or 0 (get_u64 params 0)) (unwrap_or [] (get_string params 1))
       (get_optional_string params 2) (get_optional_string params 3)"

definition insert_macro_parameters_op :: "ParamValues \<Rightarrow> BufferedOp" where
  "insert_macro_parameters_op params =
     Op_InsertMacroParams (unwrap_or 0 (get_u64 params 0)) (unwrap_or 0 (get_u64 params 1))
       (unwrap_or 0 (get_u64 params 2)) (unwrap_or [] (get_string params 3)) (unwrap_or [] (get_string params 4))
       (get_optional_string params 5) (get_optional_string params 6)"

definition update_end_snapshot_op :: "string \<Rightarrow> ParamValues \<Rightarrow> BufferedOp" where
  "update_end_snapshot_op table_name params =
     Op_UpdateEndSnapshot table_name (unwrap_or 0 (get_u64 params 1)) (unwrap_or 0 (get_u64 params 2))
       (unwrap_or 0 (get_u64 params 0))"

definition update_table_stats_op :: "string \<Rightarrow> ParamValues \<Rightarrow> BufferedOp" where
  "update_table_stats_op sql params =
     (case (literal_assignment_u64 sql ''table_id'', literal_assignment_u64 sql ''record_count'',
            literal_assignment_u64 sql ''file_size_bytes'', literal_assignment_u64 sql ''next_row_id'') of
        (Some table_id, Some record_count, Some file_size_bytes, Some next_row_id) \<Rightarrow>
          Op_SetTableStats table_id record_count file_size_bytes next_row_id
      | _ \<Rightarrow> Op_UpdateTableStats (unwrap_or 0 (get_u64 params 1)) (unwrap_or 0 (get_i64 params 0)))"

text \<open>The statements with several rows: one operation from the parameters, filled up from the first row, or one
  from each row of literals. Without parameters an operation is made of literals and defaults alone.\<close>

definition row_ops ::
  "(ParamValues \<Rightarrow> string option list \<Rightarrow> BufferedOp) \<Rightarrow> ParamValues \<Rightarrow> string option list list \<Rightarrow> BufferedOp list" where
  "row_ops make_op params literal_rows =
     (if result_ok (get_u64 params 0) \<noteq> None \<or> literal_rows = [] then [make_op params (first_row literal_rows)]
      else map (make_op []) literal_rows)"

definition insert_tag :: "'a list \<Rightarrow> string" where
  "insert_tag rows = ''INSERT 0 '' @ show_nat (length rows)"

definition update_tag :: "'a list \<Rightarrow> string" where
  "update_tag rows = ''UPDATE '' @ show_nat (length rows)"

text \<open>The operations and the command tag of a write, \<open>None\<close> when taking the literals from the text panics.\<close>

definition one_op :: "BufferedOp \<Rightarrow> (BufferedOp list \<times> string) option" where
  "one_op op = Some ([op], ''INSERT 0 1'')"

definition write_ops ::
  "'db Server \<Rightarrow> WriteKind \<Rightarrow> string \<Rightarrow> ParamValues \<Rightarrow> (BufferedOp list \<times> string) option" where
  "write_ops E kind sql params =
     (let values_of = literal_insert_values (sv_lower E) sql; rows_of = literal_insert_rows (sv_lower E) sql;
          with_literals = (\<lambda>f. map_option (\<lambda>literals. ([f params literals], ''INSERT 0 1'')) values_of);
          with_rows = (\<lambda>f. map_option (\<lambda>rows. let ops = row_ops f params rows in (ops, insert_tag ops)) rows_of) in
      case kind of
        St_InsertSnapshot \<Rightarrow> one_op (insert_snapshot_op params)
      | St_InsertSnapshotChanges \<Rightarrow> with_literals insert_snapshot_changes_op
      | St_InsertSchema \<Rightarrow> with_literals insert_schema_op
      | St_InsertTable \<Rightarrow> with_literals insert_table_op
      | St_InsertColumn \<Rightarrow> with_rows insert_column_op
      | St_InsertDataFile \<Rightarrow> with_literals insert_data_file_op
      | St_InsertDeleteFile \<Rightarrow> one_op (insert_delete_file_op params)
      | St_InsertTableStats \<Rightarrow> with_literals insert_table_stats_op
      | St_InsertFileColumnStats \<Rightarrow> one_op (insert_file_column_stats_op params)
      | St_InsertTableColumnStats \<Rightarrow> with_rows insert_table_column_stats_op
      | St_UpdateTableColumnStats \<Rightarrow>
          map_option (\<lambda>rows. let ops = map (insert_table_column_stats_op []) rows in (ops, update_tag ops)) rows_of
      | St_InsertMetadata \<Rightarrow> one_op (insert_metadata_op params)
      | St_InsertSchemaVersions \<Rightarrow> with_rows insert_schema_versions_op
      | St_InsertInlinedDataTables \<Rightarrow> with_rows insert_inlined_data_tables_op
      | St_InsertView \<Rightarrow> one_op (insert_view_op params)
      | St_InsertMacro \<Rightarrow> one_op (insert_macro_op params)
      | St_InsertMacroImpl \<Rightarrow> one_op (insert_macro_impl_op params)
      | St_InsertMacroParameters \<Rightarrow> one_op (insert_macro_parameters_op params)
      | St_UpdateEndSnapshot table_name \<Rightarrow> Some ([update_end_snapshot_op table_name params], ''UPDATE 1'')
      | St_UpdateTableStats \<Rightarrow> Some ([update_table_stats_op sql params], ''UPDATE 1'')
      | St_InsertInlinedRow \<Rightarrow>
          map_option (\<lambda>rows. ([Op_InsertInlinedRow (or_default [] (ducklake_insert_table_name sql)) rows],
            insert_tag rows)) rows_of)"

section \<open>State of a connection\<close>

text \<open>\<open>World\<close> is what one statement gets from outside: clocks, fresh identifiers, what other processes do.\<close>

record 'db World =
  wo_now :: string
  wo_clock :: "u64 option"
  wo_uuid :: string
  wo_uuids :: "nat \<Rightarrow> string"
  wo_env :: "'db \<Rightarrow> 'db"
  wo_envs :: "('db \<Rightarrow> 'db) list"

record 'db Connection =
  cn_store :: CatalogStore
  cn_db :: 'db
  cn_session :: SessionState
  cn_manager :: NotifyManager
  cn_sent :: "Notification list"

type_synonym 'db statement = "'db Connection \<Rightarrow> (responses \<times> 'db Connection) option"

definition reply :: "responses \<Rightarrow> 'db statement" where
  "reply r st = Some (r, st)"

definition on_session :: "(SessionState \<Rightarrow> SessionState) \<Rightarrow> 'db Connection \<Rightarrow> 'db Connection" where
  "on_session f st = st\<lparr>cn_session := f (cn_session st)\<rparr>"

definition on_db :: "('db \<Rightarrow> responses \<times> 'db) \<Rightarrow> 'db statement" where
  "on_db f st = (case f (cn_db st) of (r, db) \<Rightarrow> Some (r, st\<lparr>cn_db := db\<rparr>))"

definition on_db_retry :: "('db \<Rightarrow> responses option \<times> 'db) \<Rightarrow> 'db statement" where
  "on_db_retry f st = (case f (cn_db st) of (r, db) \<Rightarrow> map_option (\<lambda>r. (r, st\<lparr>cn_db := db\<rparr>)) r)"

section \<open>Transactions\<close>

fun push_all :: "nat \<Rightarrow> BufferedOp list \<Rightarrow> (PendingCatalogTxn, unit) rl_cmd" where
  "push_all n [] t = (Inr (), t)"
| "push_all n (op # ops) t = (case txn_push n op t of (Inl e, t') \<Rightarrow> (Inl e, t') | (Inr _, t') \<Rightarrow> push_all n ops t')"

definition commit_ops :: "'db Server \<Rightarrow> 'db World \<Rightarrow> BufferedOp list \<Rightarrow> Response \<Rightarrow> 'db statement" where
  "commit_ops E W ops response st =
     (case execute_commit (sv_db E) (sv_codecs E) (sv_json_vec E) (wo_uuids W) (wo_now W) (wo_env W) (cn_manager st) ops
             (cn_store st, cn_db st) of
        None \<Rightarrow> None
      | Some (r, (store, db)) \<Rightarrow>
          Some (rbind r (\<lambda>_. Inr [response]),
            st\<lparr>cn_store := store, cn_db := db, cn_sent := cn_sent st @ (case r of Inl _ \<Rightarrow> [] | Inr sent \<Rightarrow> sent)\<rparr>))"

text \<open>\<open>if session.in_transaction { push } else { execute_commit }\<close>.\<close>

definition buffer_or_commit :: "'db Server \<Rightarrow> 'db World \<Rightarrow> BufferedOp list \<Rightarrow> string \<Rightarrow> 'db statement" where
  "buffer_or_commit E W ops tag st =
     (if se_in_transaction (cn_session st) then
        (case push_all (sv_op_bytes E) ops (se_pending_txn (cn_session st)) of
           (r, t) \<Rightarrow> Some (rbind r (\<lambda>_. Inr [R_Execution tag]), on_session (\<lambda>s. s\<lparr>se_pending_txn := t\<rparr>) st))
      else commit_ops E W ops (R_Execution tag) st)"

definition delete_inlined_rows_statement :: "'db Server \<Rightarrow> 'db World \<Rightarrow> string \<Rightarrow> 'db statement" where
  "delete_inlined_rows_statement E W sql st =
     (let table_name = or_default [] (inlined_table_name_from_sql sql) in
      case literal_insert_rows (sv_lower E) sql of
        None \<Rightarrow> None
      | Some rows \<Rightarrow>
          (let row_ids = List.map_filter (\<lambda>row. literal_u64 row 0) rows in
           if table_name \<noteq> [] \<and> row_ids \<noteq> []
           then buffer_or_commit E W [Op_DeleteInlinedRows table_name row_ids] (update_tag row_ids) st
           else reply (Inr [R_Execution (update_tag row_ids)]) st))"

text \<open>The schemas and the snapshot that a bulk load announced become operations when the catalog is still fresh.\<close>

definition bootstrap_ops :: "'db Server \<Rightarrow> BootstrapState \<Rightarrow> CatalogStore \<Rightarrow> 'db \<Rightarrow> RockLakeError + BufferedOp list" where
  "bootstrap_ops E bootstrap store db =
     (if bs_has_snapshot bootstrap \<or> bs_schemas bootstrap \<noteq> [] then
        rbind (catalog_call (snapshot_at E db (latest store))) (\<lambda>existing.
          Inr (if existing = None
               then map Op_InsertSchema (bs_schemas bootstrap) @
                    (if bs_has_snapshot bootstrap then [Op_InsertSnapshot None (Some ''DuckDB ATTACH bootstrap'')] else [])
               else []))
      else Inr [])"

definition begin_statement :: "'db statement" where
  "begin_statement st =
     reply (Inr [R_TransactionStart ''BEGIN'']) (on_session (\<lambda>s. s\<lparr>se_in_transaction := True\<rparr>) st)"

definition commit_statement :: "'db Server \<Rightarrow> 'db World \<Rightarrow> 'db statement" where
  "commit_statement E W st =
     (let bootstrap = se_bootstrap (cn_session st);
          ops = fst (txn_take (se_pending_txn (cn_session st)));
          st = on_session (\<lambda>s. s\<lparr>se_bootstrap := BootstrapState_default,
            se_pending_txn := snd (txn_take (se_pending_txn s)), se_in_transaction := False\<rparr>) st in
      case bootstrap_ops E bootstrap (cn_store st) (cn_db st) of
        Inl e \<Rightarrow> reply (Inl e) st
      | Inr all_ops \<Rightarrow> commit_ops E W (all_ops @ ops) (R_TransactionEnd ''COMMIT'') st)"

definition rollback_statement :: "'db statement" where
  "rollback_statement st =
     reply (Inr [R_TransactionEnd ''ROLLBACK''])
       (on_session (\<lambda>s. s\<lparr>se_pending_txn := txn_clear (se_pending_txn s), se_in_transaction := False\<rparr>) st)"

section \<open>Other statements\<close>

definition table_changes_statement :: "'db Server \<Rightarrow> ParamValues \<Rightarrow> string \<Rightarrow> u64 \<Rightarrow> u64 \<Rightarrow> 'db statement" where
  "table_changes_statement E params table_ref start_snapshot end_snapshot st =
     (case strip_prefix ''$'' table_ref of
        Some rest \<Rightarrow>
          (let pidx = or_default 1 (parse_u64 rest) - 1;
               r = unwrap_or table_ref (get_string params (unat pidx));
               s = unwrap_or start_snapshot (get_u64 params 1);
               e = unwrap_or end_snapshot (get_u64 params 2)
           in reply (execute_table_changes E r s e (cn_store st) (cn_db st)) st)
      | None \<Rightarrow> reply (execute_table_changes E table_ref start_snapshot end_snapshot (cn_store st) (cn_db st)) st)"

definition listen_statement :: "string \<Rightarrow> 'db statement" where
  "listen_statement channel st =
     (case subscriptions_listen channel (se_subscriptions (cn_session st), cn_manager st) of (_, channels, manager) \<Rightarrow>
        reply (Inr [R_Execution ''LISTEN''])
          ((on_session (\<lambda>s. s\<lparr>se_subscriptions := channels\<rparr>) st)\<lparr>cn_manager := manager\<rparr>))"

definition unlisten_statement :: "string \<Rightarrow> 'db statement" where
  "unlisten_statement channel st =
     reply (Inr [R_Execution ''UNLISTEN''])
       (on_session (\<lambda>s. s\<lparr>se_subscriptions := snd (subscriptions_unlisten channel (se_subscriptions s))\<rparr>) st)"

definition copy_from_stdin_statement :: "string \<Rightarrow> 'db statement" where
  "copy_from_stdin_statement table st =
     reply (Inr [R_CopyIn 1 0 []])
       (on_session (\<lambda>s. s\<lparr>se_pending_copy := Some \<lparr>ca_table = table, ca_data = []\<rparr>\<rparr>) st)"

section \<open>Dispatch\<close>

definition show_statement :: "'db Server \<Rightarrow> string \<Rightarrow> 'db statement" where
  "show_statement E var st = reply (Inr [make_single_text_response var (get_show_value (sv_lower E) var (cn_session st))]) st"

definition set_statement :: "'db Server \<Rightarrow> string \<Rightarrow> string \<Rightarrow> 'db statement" where
  "set_statement E var val st = reply (Inr [R_Execution ''SET'']) (on_session (apply_set (sv_lower E) var val) st)"

definition constant_response :: "'db World \<Rightarrow> ConstantKind \<Rightarrow> responses" where
  "constant_response W kind = (case kind of
     St_SelectVersion \<Rightarrow> Inr [make_single_text_response ''version'' ''PostgreSQL 15.0 on x86_64-pc-linux-gnu'']
   | St_SelectVersionWithRdsCheck \<Rightarrow> Inr [make_version_with_rds_check_response]
   | St_SelectOne \<Rightarrow> Inr [make_single_int_response ''?column?'' 1]
   | St_SelectCurrentSchema \<Rightarrow> Inr [make_single_text_response ''current_schema'' ''public'']
   | St_SelectCurrentDatabase \<Rightarrow> Inr [make_single_text_response ''current_database'' ''ducklake'']
   | St_SelectPgType \<Rightarrow> Inr [make_pg_type_response]
   | St_DiscardAll \<Rightarrow> Inr [R_Execution ''DISCARD'']
   | St_SelectToRegclass \<Rightarrow> Inr [make_null_text_response ''to_regclass'']
   | St_SelectExistsInfoSchema \<Rightarrow> Inr [make_false_bool_response ''exists'']
   | St_SelectPgDatabaseSize \<Rightarrow> Inr [make_single_int_response ''pg_database_size'' 0]
   | St_SelectGenRandomUuid \<Rightarrow> Inr [make_single_text_response ''gen_random_uuid'' (wo_uuid W)]
   | St_CreateInlinedTable \<Rightarrow> Inr [R_Execution ''CREATE TABLE'']
   | St_VirtualCatalogMutation _ \<Rightarrow> Inl RL_ReadOnlyReplica
   | St_CopyToStdout query \<Rightarrow> Inl (RL_Unsupported (''COPY TO STDOUT not yet implemented: '' @ query))
   | St_Unsupported desc \<Rightarrow> Inl (RL_Unsupported desc))"

text \<open>\<open>None\<close> is a panic.\<close>

definition read_response ::
  "'db Server \<Rightarrow> ReadKind \<Rightarrow> string \<Rightarrow> ParamValues \<Rightarrow> CatalogStore \<Rightarrow> 'db \<Rightarrow> responses option" where
  "read_response E kind sql params store db = (case kind of
     St_PgCatalogScan \<Rightarrow> Some (pg_catalog_scan E sql store db)
   | St_SelectMaxSnapshot \<Rightarrow> Some (select_max_snapshot E store db)
   | St_SelectLatestSnapshotId \<Rightarrow> Some (select_latest_snapshot_id E store db)
   | St_SelectLatestSnapshotInfo \<Rightarrow> Some (select_latest_snapshot_info E store db)
   | St_SelectSnapshotStatsAndChanges \<Rightarrow> Some (select_snapshot_stats_and_changes E store db)
   | St_SelectSchemas \<Rightarrow> Some (select_schemas E params store db)
   | St_SelectTables \<Rightarrow> Some (select_tables E params store db)
   | St_SelectColumns \<Rightarrow> Some (select_columns E params store db)
   | St_SelectDataFiles \<Rightarrow> Some (select_data_files E params store db)
   | St_SelectFileColumnStats \<Rightarrow> select_file_column_stats E sql params store db
   | St_SelectTableStats \<Rightarrow> Some (select_table_stats E sql params store db)
   | St_SelectTableColumnStats \<Rightarrow> Some (select_table_column_stats E store db)
   | St_SelectDeleteFiles \<Rightarrow> Some (select_delete_files E params store db)
   | St_SelectSnapshot \<Rightarrow> Some (select_snapshot E params store db)
   | St_SelectSnapshotChanges \<Rightarrow> Some (select_snapshot_changes E params store db)
   | St_SelectMetadata \<Rightarrow> Some (select_metadata E params store db)
   | St_SelectViews \<Rightarrow> Some (select_views E params store db)
   | St_SelectMacros \<Rightarrow> Some (select_macros E params store db)
   | St_SelectMacroImpls \<Rightarrow> Some (select_macro_impls E params store db)
   | St_SelectMacroParameters \<Rightarrow> Some (select_macro_parameters E params store db)
   | St_SelectTags \<Rightarrow> Some (select_tags E params store db)
   | St_SelectColumnTags \<Rightarrow> Some (select_column_tags E params store db)
   | St_SelectSortInfo \<Rightarrow> Some (select_sort_info E params store db)
   | St_SelectSchemaVersion \<Rightarrow> Some (Inr [make_schema_version_response (cs_schema_version store)])
   | St_SelectDuckLakeMetadataTable table_name \<Rightarrow> Some (select_metadata_table E table_name store db)
   | St_SelectInlinedData \<Rightarrow> Some (select_inlined_data E params store db)
   | St_SelectInlinedRows \<Rightarrow> Some (select_inlined_rows E sql store db)
   | St_SelectMaxSnapshotAfter \<Rightarrow> Some (select_max_snapshot_after E params store db)
   | St_SelectFirstSnapshot \<Rightarrow> Some (select_first_snapshot E store db)
   | St_SelectDataFilesWithLimit \<Rightarrow> Some (select_data_files_with_limit E params store db)
   | St_VirtualCatalogScan table_name \<Rightarrow> Some (execute_virtual_catalog_scan E table_name store db)
   | St_SelectExtensionTable schema_name table_name \<Rightarrow> Some (execute_select_extension_table E schema_name table_name db))"

definition write_statement ::
  "'db Server \<Rightarrow> 'db World \<Rightarrow> WriteKind \<Rightarrow> string \<Rightarrow> ParamValues \<Rightarrow> 'db statement" where
  "write_statement E W kind sql params st =
     (case write_ops E kind sql params of
        None \<Rightarrow> None
      | Some (ops, tag) \<Rightarrow> buffer_or_commit E W ops tag st)"

definition execute_classified ::
  "'db Server \<Rightarrow> 'db World \<Rightarrow> StatementKind \<Rightarrow> string \<Rightarrow> ParamValues \<Rightarrow> 'db statement" where
  "execute_classified E W kind sql params st = (case kind of
     Constant_Kind k \<Rightarrow> reply (constant_response W k) st
   | Read_Kind k \<Rightarrow> map_option (\<lambda>r. (r, st)) (read_response E k sql params (cn_store st) (cn_db st))
   | Write_Kind k \<Rightarrow> write_statement E W k sql params st
   | St_ShowVariable var \<Rightarrow> show_statement E var st
   | St_SetVariable var val \<Rightarrow> set_statement E var val st
   | St_Begin \<Rightarrow> begin_statement st
   | St_Commit \<Rightarrow> commit_statement E W st
   | St_Rollback \<Rightarrow> rollback_statement st
   | St_UpdateInlinedRowEndSnapshot \<Rightarrow> delete_inlined_rows_statement E W sql st
   | St_TableChanges table_ref s e \<Rightarrow> table_changes_statement E params table_ref s e st
   | St_NextRowidRange table_ref n \<Rightarrow> on_db_retry (execute_next_rowid_range E table_ref n (wo_envs W)) st
   | St_HoldSnapshot m consumer_id ttl \<Rightarrow> on_db (execute_hold_snapshot E (wo_clock W) m consumer_id ttl) st
   | St_ReleaseSnapshot consumer_id \<Rightarrow> on_db (execute_release_snapshot E consumer_id) st
   | St_Listen channel \<Rightarrow> listen_statement channel st
   | St_Unlisten channel \<Rightarrow> unlisten_statement channel st
   | St_CreateExtensionTable schema_name table_name \<Rightarrow> on_db (execute_create_extension_table E schema_name table_name) st
   | St_InsertExtensionRow schema_name table_name columns _ \<Rightarrow> on_db_retry (execute_insert_extension_row E schema_name table_name columns params (wo_envs W)) st
   | St_DeleteExtensionRows schema_name table_name \<Rightarrow> on_db (execute_delete_extension_rows E schema_name table_name) st
   | St_CopyFromStdin table \<Rightarrow> copy_from_stdin_statement table st)"

section \<open>Batches\<close>

text \<open>\<open>parse_sql\<close> is the SQL parser: the statements of a text, printed again. The classification of a statement
  is an argument, computed when its turn comes; \<open>worlds i\<close> is the world of the \<open>i\<close>-th statement.\<close>

definition parse_multi_statement_batch ::
  "(string \<Rightarrow> string) \<Rightarrow> (string \<Rightarrow> string list option) \<Rightarrow> string \<Rightarrow> string list option" where
  "parse_multi_statement_batch lower parse_sql sql =
     (if CHR '';'' \<notin> set sql then None
      else if str_contains (lower sql) ''copy '' \<or>
              str_contains (lower sql) ''pg_namespace'' \<and> str_contains (lower sql) ''pg_class'' then None
      else Option.bind (parse_sql sql) (\<lambda>statements.
        if length statements \<le> 1 then None else Some statements))"

fun execute_statements ::
  "'db Server \<Rightarrow> ParamValues \<Rightarrow> ('db World \<times> (SqlDispatchError + StatementKind) \<times> string) list \<Rightarrow> 'db statement" where
  "execute_statements E params [] st = reply (Inr []) st"
| "execute_statements E params ((W, kind, sql) # statements) st =
     (case kind of
        Inl e \<Rightarrow> reply (Inl (RL_SqlDispatch e)) st
      | Inr k \<Rightarrow>
          (case execute_classified E W k sql params st of
             None \<Rightarrow> None
           | Some (Inl e, st') \<Rightarrow> Some (Inl e, st')
           | Some (Inr responses, st') \<Rightarrow>
               map_option (\<lambda>(r, st''). (rbind r (\<lambda>rest. Inr (responses @ rest)), st''))
                 (execute_statements E params statements st')))"

definition execute_sql ::
  "'db Server \<Rightarrow> (string \<Rightarrow> string list option) \<Rightarrow> (string \<Rightarrow> SqlDispatchError + StatementKind) \<Rightarrow> (nat \<Rightarrow> 'db World)
     \<Rightarrow> string \<Rightarrow> ParamValues \<Rightarrow> 'db statement" where
  "execute_sql E parse_sql classify worlds sql params st =
     (case parse_multi_statement_batch (sv_lower E) parse_sql sql of
        Some statements \<Rightarrow>
          execute_statements E params (map (\<lambda>(i, t). (worlds i, classify t, t)) (enumerate 0 statements)) st
      | None \<Rightarrow>
          (case classify sql of
             Inl e \<Rightarrow> reply (Inl (RL_SqlDispatch e)) st
           | Inr kind \<Rightarrow> execute_classified E (worlds 0) kind sql params st))"

section \<open>Rows match the announced fields\<close>

definition responses_ok :: "responses \<Rightarrow> bool" where
  "responses_ok r \<longleftrightarrow> (case r of Inl _ \<Rightarrow> True | Inr rs \<Rightarrow> list_all response_ok rs)"

named_theorems responds

lemma responses_ok_basic [responds]:
  "responses_ok (Inl e)" "response_ok x \<Longrightarrow> responses_ok (Inr [x])"
  "list_all response_ok rs \<Longrightarrow> responses_ok (Inr rs)"
  by (simp_all add: responses_ok_def)

lemma responses_ok_rbind [responds]: "(\<And>a. responses_ok (f a)) \<Longrightarrow> responses_ok (rbind r f)"
  by (cases r) (simp_all add: responses_ok_def)

lemma responses_ok_answer [responds]: "(\<And>a. response_ok (f a)) \<Longrightarrow> responses_ok (answer r f)"
  by (simp add: answer_def responds)

lemma responses_ok_reader [responds]: "(\<And>s. responses_ok (f s)) \<Longrightarrow> responses_ok (with_reader_at store n f)"
  by (simp add: with_reader_at_def responds)

lemma executions_ok [simp]:
  "response_ok (R_Execution t)" "response_ok (R_TransactionStart t)" "response_ok (R_TransactionEnd t)"
  "response_ok (R_CopyIn a b c)"
  by (simp_all add: response_ok_def)

lemmas builders_ok = single_value_responses_ok catalog_scan_responses_ok object_responses_ok attribute_responses_ok
  statistics_responses_ok snapshot_changes_response_ok snapshot_stats_changes_response_ok inlined_rows_response_ok

lemma constant_response_ok: "responses_ok (constant_response W k)"
  by (cases k) (simp_all add: constant_response_def responds builders_ok)

lemma read_handlers_ok:
  "responses_ok (select_max_snapshot E store db)" "responses_ok (select_latest_snapshot_id E store db)"
  "responses_ok (select_latest_snapshot_info E store db)" "responses_ok (select_snapshot_stats_and_changes E store db)"
  "responses_ok (select_snapshot E params store db)" "responses_ok (select_first_snapshot E store db)"
  "responses_ok (select_max_snapshot_after E params store db)" "responses_ok (select_snapshot_changes E params store db)"
  by (auto simp: select_max_snapshot_def select_latest_snapshot_id_def select_latest_snapshot_info_def
      select_snapshot_stats_and_changes_def select_snapshot_def select_first_snapshot_def
      select_max_snapshot_after_def select_snapshot_changes_def snapshot_or_empty_def Let_def builders_ok
      split: option.split intro!: responds)

lemma object_handlers_ok:
  "responses_ok (select_schemas E params store db)" "responses_ok (select_tables E params store db)"
  "responses_ok (select_columns E params store db)" "responses_ok (select_data_files E params store db)"
  "responses_ok (select_data_files_with_limit E params store db)" "responses_ok (select_delete_files E params store db)"
  "responses_ok (select_table_stats E sql params store db)" "responses_ok (select_table_column_stats E store db)"
  by (auto simp: select_schemas_def select_tables_def select_columns_def select_data_files_def
      select_data_files_with_limit_def select_delete_files_def select_table_stats_def select_table_column_stats_def
      Let_def builders_ok intro!: responds)

lemma metadata_handlers_ok:
  "responses_ok (select_metadata E params store db)" "responses_ok (select_views E params store db)"
  "responses_ok (select_macros E params store db)" "responses_ok (select_macro_impls E params store db)"
  "responses_ok (select_macro_parameters E params store db)" "responses_ok (select_tags E params store db)"
  "responses_ok (select_column_tags E params store db)" "responses_ok (select_metadata_table E n store db)"
  "responses_ok (select_inlined_data E params store db)" "responses_ok (execute_virtual_catalog_scan E n store db)"
  by (auto simp: select_metadata_def select_views_def select_macros_def select_macro_impls_def
      select_macro_parameters_def select_tags_def select_column_tags_def select_metadata_table_def
      select_inlined_data_def execute_virtual_catalog_scan_def select_all_def Let_def builders_ok intro!: responds)

lemma inlined_handlers_ok:
  "responses_ok (select_inlined_rows E sql store db)" "responses_ok (pg_catalog_scan E sql store db)"
  by (auto simp: select_inlined_rows_def pg_catalog_scan_def list_all_iff builders_ok
      split: option.split intro!: responds)

lemma extension_handlers_ok:
  "responses_ok (execute_select_extension_table E sn tn db)" "responses_ok (execute_table_changes E t a b store db)"
  by (auto simp: execute_select_extension_table_def execute_table_changes_def table_changes_schema_def change_row_def
      response_ok_select list_all_iff intro!: responds)

lemma file_column_stats_ok: "select_file_column_stats E sql params store db = Some r \<Longrightarrow> responses_ok r"
  by (auto simp: select_file_column_stats_def Let_def builders_ok split: option.splits sum.splits if_splits
      intro!: responds)

lemma read_response_ok:
  "read_response E k sql params store db = Some r \<Longrightarrow> k \<noteq> St_SelectSortInfo \<Longrightarrow> responses_ok r"
  by (cases k)
    (auto simp: read_response_def read_handlers_ok object_handlers_ok metadata_handlers_ok inlined_handlers_ok
      extension_handlers_ok builders_ok intro: file_column_stats_ok intro!: responds)

lemma commit_ops_ok: "commit_ops E W ops x st = Some (r, st') \<Longrightarrow> response_ok x \<Longrightarrow> responses_ok r"
  by (auto simp: commit_ops_def split: option.splits intro!: responds)

lemma write_statement_ok: "write_statement E W k sql params st = Some (r, st') \<Longrightarrow> responses_ok r"
  by (auto simp: write_statement_def buffer_or_commit_def split: option.splits if_splits prod.splits
      intro!: responds dest: commit_ops_ok)

lemma direct_statements_ok:
  "delete_inlined_rows_statement E W sql st = Some (r, st') \<Longrightarrow> responses_ok r"
  "commit_statement E W st = Some (r, st') \<Longrightarrow> responses_ok r"
  "table_changes_statement E params t a b st = Some (r, st') \<Longrightarrow> responses_ok r"
  "on_db (execute_hold_snapshot E now m c ttl) st = Some (r, st') \<Longrightarrow> responses_ok r"
  "on_db (execute_release_snapshot E c) st = Some (r, st') \<Longrightarrow> responses_ok r"
  "on_db (execute_create_extension_table E sn tn) st = Some (r, st') \<Longrightarrow> responses_ok r"
  "on_db (execute_delete_extension_rows E sn tn) st = Some (r, st') \<Longrightarrow> responses_ok r"
  by (auto simp: delete_inlined_rows_statement_def buffer_or_commit_def commit_statement_def table_changes_statement_def
      on_db_def execute_hold_snapshot_def execute_release_snapshot_def execute_create_extension_table_def
      execute_delete_extension_rows_def reply_def Let_def builders_ok extension_handlers_ok
      split: option.splits sum.splits prod.splits if_splits intro!: responds dest: commit_ops_ok)

lemma retried_statements_ok:
  "on_db_retry (execute_next_rowid_range E t n envs) st = Some (r, st') \<Longrightarrow> responses_ok r"
  "on_db_retry (execute_insert_extension_row E sn tn cs params envs) st = Some (r, st') \<Longrightarrow> responses_ok r"
  by (auto simp: on_db_retry_def execute_next_rowid_range_def execute_insert_extension_row_def rowid_range_response_def
      response_ok_def show_small split: option.splits sum.splits prod.splits intro!: responds)


end
