(* ===== verification/Pg_Transactions.thy ===== *)
theory Pg_Transactions
  imports Pg_Executor
begin

text \<open>
  What a client sees of SQL transactions: the statements between \<open>BEGIN\<close> and \<open>COMMIT\<close> take effect as one commit of
  their operations, those before \<open>ROLLBACK\<close> have no effect. The abstract transaction is the list of the
  operations; the buffer of the session implements it as long as it has room.
\<close>

section \<open>Buffering\<close>

definition buffer_bytes :: "'db Server \<Rightarrow> BufferedOp list \<Rightarrow> nat" where
  "buffer_bytes E ops = length ops * (sv_op_bytes E + 128)"

lemma push_all_fits:
  "pt_estimated_size t + length ops * (n + 128) \<le> MAX_BATCH_SIZE \<Longrightarrow>
     push_all n ops t =
       (Inr (), t\<lparr>pt_ops := pt_ops t @ ops, pt_estimated_size := pt_estimated_size t + length ops * (n + 128)\<rparr>)"
proof (induction ops arbitrary: t)
  case (Cons op ops)
  then show ?case by (simp add: txn_push_def Let_def algebra_simps)
qed simp

text \<open>A write in a transaction only extends the buffer.\<close>

lemma buffered_write:
  assumes "write_ops E k sql params = Some (ops, tag)" and "se_in_transaction (cn_session st)"
    and "pt_estimated_size (se_pending_txn (cn_session st)) + buffer_bytes E ops \<le> MAX_BATCH_SIZE"
  shows "execute_classified E W (Write_Kind k) sql params st = Some (Inr [R_Execution tag], on_session (\<lambda>s. s\<lparr>se_pending_txn :=
      \<lparr>pt_ops = pt_ops (se_pending_txn s) @ ops,
       pt_estimated_size = pt_estimated_size (se_pending_txn s) + buffer_bytes E ops\<rparr>\<rparr>) st)"
  using assms push_all_fits [of "se_pending_txn (cn_session st)" ops "sv_op_bytes E"]
  by (simp add: execute_classified_def write_statement_def buffer_or_commit_def buffer_bytes_def on_session_def)

text \<open>The writes of a transaction with the operations and tags they stand for.\<close>

type_synonym 'db write_stmt = "'db World \<times> WriteKind \<times> string"

definition writes_as :: "'db Server \<Rightarrow> ParamValues \<Rightarrow> 'db write_stmt list \<Rightarrow> (BufferedOp list \<times> string) list \<Rightarrow> bool" where
  "writes_as E params writes outs \<longleftrightarrow>
     list_all2 (\<lambda>(W, k, sql) out. write_ops E k sql params = Some out) writes outs"

definition statements_of :: "'db write_stmt list \<Rightarrow> ('db World \<times> (SqlDispatchError + StatementKind) \<times> string) list" where
  "statements_of writes = map (\<lambda>(W, k, sql). (W, Inr (Write_Kind k), sql)) writes"

definition all_ops :: "(BufferedOp list \<times> string) list \<Rightarrow> BufferedOp list" where
  "all_ops outs = concat (map fst outs)"

definition buffered :: "'db Server \<Rightarrow> BufferedOp list \<Rightarrow> 'db Connection \<Rightarrow> 'db Connection" where
  "buffered E ops st = on_session (\<lambda>s. s\<lparr>se_pending_txn :=
      \<lparr>pt_ops = pt_ops (se_pending_txn s) @ ops,
       pt_estimated_size = pt_estimated_size (se_pending_txn s) + buffer_bytes E ops\<rparr>\<rparr>) st"

lemma buffer_bytes_append: "buffer_bytes E (xs @ ys) = buffer_bytes E xs + buffer_bytes E ys"
  by (simp add: buffer_bytes_def algebra_simps)

lemma buffered_simps [simp]:
  "se_in_transaction (cn_session (buffered E ops st)) = se_in_transaction (cn_session st)"
  "pt_estimated_size (se_pending_txn (cn_session (buffered E ops st))) =
     pt_estimated_size (se_pending_txn (cn_session st)) + buffer_bytes E ops"
  "buffered E ys (buffered E xs st) = buffered E (xs @ ys) st"
  by (simp_all add: buffered_def on_session_def buffer_bytes_append)

lemma buffered_nil: "buffered E [] st = st"
  by (simp add: buffered_def on_session_def buffer_bytes_def)

lemma execute_buffered_writes:
  assumes "writes_as E params writes outs" and "se_in_transaction (cn_session st)"
    and "pt_estimated_size (se_pending_txn (cn_session st)) + buffer_bytes E (all_ops outs) \<le> MAX_BATCH_SIZE"
  shows "execute_statements E params (statements_of writes @ rest) st =
     map_option (\<lambda>(r, st'). (rbind r (\<lambda>responses. Inr (map (R_Execution \<circ> snd) outs @ responses)), st'))
       (execute_statements E params rest (buffered E (all_ops outs) st))"
  using assms
proof (induction writes arbitrary: outs st)
  case Nil
  then have "outs = []" by (simp add: writes_as_def)
  then show ?case
    by (auto simp: statements_of_def all_ops_def buffered_nil option.map_ident rbind_def
        split: sum.splits intro!: option.map_ident_strong [symmetric])
next
  case (Cons w writes)
  obtain W k sql where w: "w = (W, k, sql)" by (cases w)
  obtain ops tag outs' where outs: "outs = (ops, tag) # outs'" and k: "write_ops E k sql params = Some (ops, tag)"
    and ws: "writes_as E params writes outs'"
    using Cons.prems(1) w by (auto simp: writes_as_def list_all2_Cons1)
  let ?st = "buffered E ops st"
  have fit: "pt_estimated_size (se_pending_txn (cn_session st)) + buffer_bytes E ops + buffer_bytes E (all_ops outs')
      \<le> MAX_BATCH_SIZE"
    using Cons.prems(3) by (simp add: outs all_ops_def buffer_bytes_append)
  have "execute_classified E W (Write_Kind k) sql params st = Some (Inr [R_Execution tag], ?st)"
    unfolding buffered_def by (rule buffered_write [OF k Cons.prems(2)]) (use fit in simp)
  moreover have "execute_statements E params (statements_of writes @ rest) ?st =
      map_option (\<lambda>(r, st'). (rbind r (\<lambda>responses. Inr (map (R_Execution \<circ> snd) outs' @ responses)), st'))
        (execute_statements E params rest (buffered E (all_ops outs') ?st))"
    by (rule Cons.IH [OF ws]) (use Cons.prems(2) fit in simp_all)
  ultimately show ?case
    by (auto simp: w outs statements_of_def all_ops_def option.map_comp o_def rbind_def split: sum.splits prod.splits
        intro!: option.map_cong0)
qed

section \<open>Transactions\<close>

text \<open>A session outside a transaction, with nothing buffered and no bulk load pending.\<close>

definition idle :: "SessionState \<Rightarrow> bool" where
  "idle s \<longleftrightarrow> \<not> se_in_transaction s \<and> se_pending_txn s = PendingCatalogTxn_new \<and> se_bootstrap s = BootstrapState_default"

definition transaction_of ::
  "'db World \<Rightarrow> StatementKind \<Rightarrow> 'db write_stmt list \<Rightarrow> ('db World \<times> (SqlDispatchError + StatementKind) \<times> string) list" where
  "transaction_of W last_statement writes =
     (W, Inr St_Begin, ''BEGIN'') # statements_of writes @ [(W, Inr last_statement, [])]"

definition in_transaction :: "'db Connection \<Rightarrow> 'db Connection" where
  "in_transaction st = on_session (\<lambda>s. s\<lparr>se_in_transaction := True\<rparr>) st"

lemma execute_transaction:
  assumes "writes_as E params writes outs" and "idle (cn_session st)" and "buffer_bytes E (all_ops outs) \<le> MAX_BATCH_SIZE"
  shows "execute_statements E params (transaction_of W last_statement writes) st =
     map_option (\<lambda>(r, st'). (rbind r (\<lambda>rs. Inr (R_TransactionStart ''BEGIN'' # map (R_Execution \<circ> snd) outs @ rs)), st'))
       (execute_statements E params [(W, Inr last_statement, [])] (buffered E (all_ops outs) (in_transaction st)))"
proof -
  have b: "execute_classified E W St_Begin ''BEGIN'' params st = Some (Inr [R_TransactionStart ''BEGIN''], in_transaction st)"
    by (simp add: execute_classified_def begin_statement_def reply_def in_transaction_def)
  have "execute_statements E params (statements_of writes @ [(W, Inr last_statement, [])]) (in_transaction st) =
      map_option (\<lambda>(r, st'). (rbind r (\<lambda>rs. Inr (map (R_Execution \<circ> snd) outs @ rs)), st'))
        (execute_statements E params [(W, Inr last_statement, [])] (buffered E (all_ops outs) (in_transaction st)))"
    by (rule execute_buffered_writes [OF assms(1)])
      (use assms(2,3) in \<open>simp_all add: in_transaction_def on_session_def idle_def PendingCatalogTxn_new_def\<close>)
  then show ?thesis
    unfolding transaction_of_def
    by (simp add: b option.map_comp o_def case_prod_beta rbind_def) (auto intro!: option.map_cong0 split: sum.splits)
qed

lemma execute_single:
  "execute_statements E params [(W, Inr k, sql)] st = execute_classified E W k sql params st"
  by (auto simp: reply_def split: option.splits sum.splits)

lemma commit_buffered:
  assumes "idle (cn_session st)"
  shows "execute_classified E W St_Commit sql params (buffered E ops (in_transaction st)) =
     commit_ops E W ops (R_TransactionEnd ''COMMIT'') st"
proof -
  have "on_session (\<lambda>s. s\<lparr>se_bootstrap := BootstrapState_default, se_pending_txn := snd (txn_take (se_pending_txn s)),
      se_in_transaction := False\<rparr>) (buffered E ops (in_transaction st)) = st"
    using assms
    by (cases st, cases "cn_session st")
      (simp add: idle_def buffered_def in_transaction_def on_session_def txn_take_def PendingCatalogTxn_new_def)
  moreover have "bootstrap_ops E (se_bootstrap (cn_session (buffered E ops (in_transaction st)))) store db = Inr []" for store db
    using assms by (simp add: idle_def buffered_def in_transaction_def on_session_def bootstrap_ops_def BootstrapState_default_def)
  moreover have "pt_ops (se_pending_txn (cn_session (buffered E ops (in_transaction st)))) = ops"
    using assms by (simp add: idle_def buffered_def in_transaction_def on_session_def PendingCatalogTxn_new_def)
  ultimately show ?thesis
    by (simp add: execute_classified_def commit_statement_def txn_take_def Let_def)
qed

lemma rollback_buffered:
  assumes "idle (cn_session st)"
  shows "execute_classified E W St_Rollback sql params (buffered E ops (in_transaction st)) =
     Some (Inr [R_TransactionEnd ''ROLLBACK''], st)"
  using assms
  by (cases st, cases "cn_session st")
    (simp add: execute_classified_def rollback_statement_def reply_def idle_def buffered_def in_transaction_def
      on_session_def txn_clear_def PendingCatalogTxn_new_def)

text \<open>C11. A transaction is one commit. Executing \<open>BEGIN\<close>, any sequence of writes and \<open>COMMIT\<close> in an idle session does
  exactly what one \<open>execute_commit\<close> of all their operations, in the order of the statements, does to the
  store, the database and the notifications, and leaves the session idle; on success the answer is that
  of the single statements, on an error it is the error of the commit.\<close>

theorem transaction_is_one_commit:
  assumes "writes_as E params writes outs" and "idle (cn_session st)" and "buffer_bytes E (all_ops outs) \<le> MAX_BATCH_SIZE"
  shows "execute_statements E params (transaction_of W St_Commit writes) st =
     map_option (\<lambda>(r, st'). (rbind r (\<lambda>rs. Inr (R_TransactionStart ''BEGIN'' # map (R_Execution \<circ> snd) outs @ rs)), st'))
       (commit_ops E W (all_ops outs) (R_TransactionEnd ''COMMIT'') st)"
  by (simp only: execute_transaction [OF assms] execute_single commit_buffered [OF assms(2)])


text \<open>A write outside a transaction has the same effect as a transaction of that one write.\<close>

lemma autocommit_same_effect:
  assumes "write_ops E k sql params = Some (ops, tag)" and "idle (cn_session st)" and "buffer_bytes E ops \<le> MAX_BATCH_SIZE"
  shows "map_option snd (execute_statements E params (transaction_of W St_Commit [(W, k, sql)]) st) =
     map_option snd (execute_classified E W (Write_Kind k) sql params st)"
proof -
  have "writes_as E params [(W, k, sql)] [(ops, tag)]" using assms(1) by (simp add: writes_as_def)
  from execute_transaction [OF this assms(2), of W St_Commit] assms(3)
  have "execute_statements E params (transaction_of W St_Commit [(W, k, sql)]) st =
      map_option (\<lambda>(r, st'). (rbind r (\<lambda>rs. Inr (R_TransactionStart ''BEGIN'' # R_Execution tag # rs)), st'))
        (commit_ops E W ops (R_TransactionEnd ''COMMIT'') st)"
    unfolding execute_single commit_buffered [OF assms(2)] by (simp add: all_ops_def commit_buffered [OF assms(2)])
  then show ?thesis
    using assms(1,2)
    by (auto simp: option.map_comp o_def case_prod_beta execute_classified_def write_statement_def buffer_or_commit_def
        idle_def commit_ops_def split: option.split)
qed

text \<open>A rollback keeps what a bulk load announced: the schemas of an aborted transaction are created by the next
  commit on a fresh catalog.\<close>

lemma rollback_keeps_bootstrap:
  assumes "execute_classified E W St_Rollback sql params st = Some (r, st')"
  shows "se_bootstrap (cn_session st') = se_bootstrap (cn_session st)"
  using assms by (auto simp: execute_classified_def rollback_statement_def reply_def on_session_def)

end
