(* ===== verification/Concrete_Executor.thy ===== *)
theory Concrete_Executor
  imports Concrete_Sql Pg_Transactions
begin

text \<open>
  SQL statements executed on a server over the in-memory storage engine: the witnesses of the properties of the
  executor.
\<close>

section \<open>A server and a connection\<close>

definition mem_server :: "mem_db Server" where
  "mem_server =
     \<lparr>sv_db = mem_slatedb, sv_codecs = mem_codecs, sv_lower = to_ascii_lowercase, sv_items = (\<lambda>_. None),
      sv_parse_micros = (\<lambda>_ _. None), sv_parse_days = (\<lambda>_. None), sv_json_values = (\<lambda>_. None),
      sv_json_vec = (\<lambda>_. Inr []), sv_json_print = (\<lambda>_. []), sv_debug_type = (\<lambda>_. []), sv_map_order = id,
      sv_set_order = id, sv_hash = (\<lambda>_. 0), sv_path = id, sv_object = (\<lambda>_. Inl []), sv_parquet = (\<lambda>_ _. Inr []),
      sv_op_bytes = 128, sv_extension_schemas = []\<rparr>"

definition quiet_world :: "mem_db World" where
  "quiet_world =
     \<lparr>wo_now = ''now'', wo_clock = Some 0, wo_uuid = ''uuid'', wo_uuids = (\<lambda>_. ''uuid''), wo_env = id, wo_envs = [id]\<rparr>"

definition fresh_connection :: "mem_db Connection" where
  "fresh_connection =
     \<lparr>cn_store = opened_store ''n1'', cn_db = opened_db ''n1'', cn_session = SessionState_new, cn_manager = [],
      cn_sent = []\<rparr>"

lemma fresh_idle: "idle (cn_session fresh_connection)"
  by (simp add: fresh_connection_def SessionState_new_def idle_def)

section \<open>A transaction that creates a schema\<close>

lemma schema_write:
  "write_ops mem_server St_InsertSchema [] [Some ''main''] = Some ([Op_InsertSchema ''main''], ''INSERT 0 1'')"
proof -
  have "literal_insert_rows to_ascii_lowercase [] = Some []" by code_simp
  then show ?thesis
    by (simp add: write_ops_def mem_server_def literal_insert_values_def first_row_def insert_schema_op_def string_at_def
        get_optional_string_def pv_get_def or_else_def or_default_def)
qed

lemma schema_writes_as:
  "writes_as mem_server [Some ''main''] [(quiet_world, St_InsertSchema, [])] [([Op_InsertSchema ''main''], ''INSERT 0 1'')]"
  using schema_write by (simp add: writes_as_def)

lemma schema_fits: "buffer_bytes mem_server (all_ops [([Op_InsertSchema ''main''], ''INSERT 0 1'')]) \<le> MAX_BATCH_SIZE"
  by (simp add: buffer_bytes_def all_ops_def mem_server_def MAX_BATCH_SIZE_def)

lemma schema_commit:
  "\<exists>store' db'. commit_ops mem_server quiet_world [Op_InsertSchema ''main''] x fresh_connection =
     Some (Inr [x], fresh_connection\<lparr>cn_store := store', cn_db := db'\<rparr>) \<and> cc_next_snapshot_id (cs_counters store') = 2"
proof -
  obtain r db' where c: "create_snapshot mem_slatedb mem_codecs ''now'' id None None
      (after_schema, opened_db ''n1'') = (Inr r, (drained after_schema, db'))"
    using mem_create_snapshot [of "opened_db ''n1''" after_schema mem_codecs "''now''" None None]
    by (auto simp: after_schema_owner)
  have n: "cc_next_snapshot_id (cs_counters (commit_writer r (opened_store ''n1''))) = 2"
    using create_snapshot_Inr [OF mem_slatedb_ok c]
    by (simp add: commit_writer_def sync_from_def commit_result_def after_schema_owner)
  have rows: "collect_replaced_inlined_rows [Op_InsertSchema ''main''] = []"
    "collect_deleted_inlined_rows [Op_InsertSchema ''main''] = []"
    by (simp_all add: collect_replaced_inlined_rows_def collect_deleted_inlined_rows_def replaced_by_def deleted_by_def)
  have ids: "affected_table_ids [Op_InsertSchema ''main''] = []"
    by (simp add: affected_table_ids_def data_file_table_def map_filter_simps)
  have run: "run_ops mem_slatedb mem_codecs (\<lambda>_. Inr []) [] [] (\<lambda>_. ''uuid'') 0 [Op_InsertSchema ''main'']
      (commit_start (opened_store ''n1'') (opened_db ''n1'')) = Some (Inr (),
        (commit_start (opened_store ''n1'') (opened_db ''n1''))\<lparr>cm_writer := after_schema, cm_needs_snapshot := True\<rparr>)"
    unfolding run_ops.simps run_bind_def sql_schema_op by (simp add: done_ok_def)
  have "execute_commit mem_slatedb mem_codecs (\<lambda>_. Inr []) (\<lambda>_. ''uuid'') ''now'' id [] [Op_InsertSchema ''main'']
      (opened_store ''n1'', opened_db ''n1'') = Some (Inr [], (commit_writer r (opened_store ''n1''), db'))"
    unfolding execute_commit_def rows prod.case run
    using c by (simp add: commit_start_def ids notify_snapshot_advance_def)
  then show ?thesis
    using n by (simp add: commit_ops_def mem_server_def quiet_world_def fresh_connection_def)
qed

theorem transaction_is_one_commit_witness:
  "\<exists>store' db'. execute_statements mem_server [Some ''main'']
       (transaction_of quiet_world St_Commit [(quiet_world, St_InsertSchema, [])]) fresh_connection =
       Some (Inr [R_TransactionStart ''BEGIN'', R_Execution ''INSERT 0 1'', R_TransactionEnd ''COMMIT''],
         fresh_connection\<lparr>cn_store := store', cn_db := db'\<rparr>) \<and> cc_next_snapshot_id (cs_counters store') = 2"
proof -
  have "commit_ops mem_server quiet_world (all_ops [([Op_InsertSchema ''main''], ''INSERT 0 1'')]) x fresh_connection =
      commit_ops mem_server quiet_world [Op_InsertSchema ''main''] x fresh_connection" for x
    by (simp add: all_ops_def)
  moreover obtain store' db' where "commit_ops mem_server quiet_world [Op_InsertSchema ''main''] (R_TransactionEnd ''COMMIT'')
      fresh_connection = Some (Inr [R_TransactionEnd ''COMMIT''], fresh_connection\<lparr>cn_store := store', cn_db := db'\<rparr>)"
    and n: "cc_next_snapshot_id (cs_counters store') = 2"
    using schema_commit by blast
  ultimately have "execute_statements mem_server [Some ''main'']
       (transaction_of quiet_world St_Commit [(quiet_world, St_InsertSchema, [])]) fresh_connection =
       Some (Inr [R_TransactionStart ''BEGIN'', R_Execution ''INSERT 0 1'', R_TransactionEnd ''COMMIT''],
         fresh_connection\<lparr>cn_store := store', cn_db := db'\<rparr>)"
    using transaction_is_one_commit [OF schema_writes_as fresh_idle schema_fits, of quiet_world] by simp
  with n show ?thesis by blast
qed


section \<open>A read\<close>


end
