(* ===== verification/Pg_Auth.thy ===== *)
theory Pg_Auth
  imports Type_Names Keys
begin

text \<open>
  Authentication of a connection: \<open>crates/rocklake-pgwire/src/scram.rs\<close> and the startup handler of
  \<open>handler.rs\<close> with the configuration of \<open>server.rs\<close>. The hash functions, base64 and UTF-8 decoding are
  those of libraries and come as a record; random values are arguments. The handler is a state machine
  over the messages of a client.
\<close>

section \<open>Primitives\<close>

record Crypto =
  cr_hmac :: "bytes \<Rightarrow> bytes \<Rightarrow> bytes"
  cr_sha256 :: "bytes \<Rightarrow> bytes"
  cr_encode :: "bytes \<Rightarrow> string"
  cr_decode :: "string \<Rightarrow> bytes option"
  cr_utf8 :: "bytes \<Rightarrow> string option"

text \<open>The documented behaviour of the libraries: the output of HMAC-SHA-256 has 32 bytes, base64 decoding inverts
  encoding and the encoded text is ASCII without a comma, and a text decodes from its own bytes.\<close>

definition crypto_ok :: "Crypto \<Rightarrow> bool" where
  "crypto_ok K \<longleftrightarrow>
     (\<forall>k d. length (cr_hmac K k d) = 32) \<and>
     (\<forall>b. cr_decode K (cr_encode K b) = Some b \<and> CHR '','' \<notin> set (cr_encode K b) \<and>
        list_all (\<lambda>c. of_char c < (128 :: nat)) (cr_encode K b)) \<and>
     (\<forall>s. list_all (\<lambda>c. of_char c < (128 :: nat)) s \<longrightarrow> cr_utf8 K (str_bytes s) = Some s)"

fun ct_diff :: "u8 \<Rightarrow> bytes \<Rightarrow> bytes \<Rightarrow> u8" where
  "ct_diff diff (x # a) (y # b) = ct_diff (or diff (xor x y)) a b"
| "ct_diff diff _ _ = diff"

definition ct_bytes_eq :: "bytes \<Rightarrow> bytes \<Rightarrow> bool" where
  "ct_bytes_eq a b \<longleftrightarrow> length a = length b \<and> ct_diff 0 a b = 0"

definition xor_bytes :: "bytes \<Rightarrow> bytes \<Rightarrow> bytes" where
  "xor_bytes a b = map2 xor a b"

fun hi_loop :: "Crypto \<Rightarrow> bytes \<Rightarrow> nat \<Rightarrow> bytes \<Rightarrow> bytes \<Rightarrow> bytes" where
  "hi_loop K password 0 prev result = result"
| "hi_loop K password (Suc n) prev result =
     (let nxt = cr_hmac K password prev in hi_loop K password n nxt (xor_bytes result nxt))"

definition hi_sha256 :: "Crypto \<Rightarrow> bytes \<Rightarrow> bytes \<Rightarrow> nat \<Rightarrow> bytes" where
  "hi_sha256 K password salt iterations =
     (let u1 = cr_hmac K password (salt @ [0, 0, 0, 1]) in hi_loop K password (iterations - 1) u1 u1)"

definition random_server_nonce :: "string \<Rightarrow> string" where
  "random_server_nonce uuid = take 18 uuid"

section \<open>SCRAM-SHA-256\<close>

record ScramState =
  scr_nonce :: string
  scr_server_first :: string
  scr_client_first_bare :: string
  scr_salted_password :: bytes

definition find_prefixed :: "string \<Rightarrow> string list \<Rightarrow> string option" where
  "find_prefixed pre parts = map_option (drop (length pre)) (find (\<lambda>p. starts_with p pre) parts)"

definition from_client_first :: "Crypto \<Rightarrow> bytes \<Rightarrow> string \<Rightarrow> string \<Rightarrow> bytes \<Rightarrow> ScramState option" where
  "from_client_first K client_first password server_nonce_suffix salt =
     Option.bind (cr_utf8 K client_first) (\<lambda>msg.
     if starts_with msg ''n,,'' \<or> starts_with msg ''y,,'' then
       (let client_first_bare = drop 3 msg in
        Option.bind (find_prefixed ''r='' (split_char (CHR '','') client_first_bare)) (\<lambda>client_nonce.
        let nonce = client_nonce @ server_nonce_suffix in
        Some \<lparr>scr_nonce = nonce, scr_server_first = ''r='' @ nonce @ '',s='' @ cr_encode K salt @ '',i='' @ show_nat 4096,
              scr_client_first_bare = client_first_bare,
              scr_salted_password = hi_sha256 K (str_bytes password) salt 4096\<rparr>))
     else None)"

text \<open>\<open>str::rfind\<close>.\<close>

definition rfind_str :: "string \<Rightarrow> string \<Rightarrow> nat option" where
  "rfind_str pat s =
     (let found = filter (\<lambda>i. prefix pat (drop i s)) [0..<Suc (length s)] in if found = [] then None else Some (last found))"

definition auth_message :: "ScramState \<Rightarrow> string \<Rightarrow> string" where
  "auth_message st client_final_without_proof =
     scr_client_first_bare st @ '','' @ scr_server_first st @ '','' @ client_final_without_proof"

definition client_key :: "Crypto \<Rightarrow> bytes \<Rightarrow> bytes" where
  "client_key K salted_password = cr_hmac K salted_password (str_bytes ''Client Key'')"

definition stored_key :: "Crypto \<Rightarrow> bytes \<Rightarrow> bytes" where
  "stored_key K salted_password = cr_sha256 K (client_key K salted_password)"

definition client_signature :: "Crypto \<Rightarrow> ScramState \<Rightarrow> string \<Rightarrow> bytes" where
  "client_signature K st without_proof =
     cr_hmac K (stored_key K (scr_salted_password st)) (str_bytes (auth_message st without_proof))"

definition server_final :: "Crypto \<Rightarrow> ScramState \<Rightarrow> string \<Rightarrow> bytes" where
  "server_final K st without_proof =
     str_bytes (''v='' @ cr_encode K (cr_hmac K (cr_hmac K (scr_salted_password st) (str_bytes ''Server Key''))
       (str_bytes (auth_message st without_proof))))"

definition validate_client_final :: "Crypto \<Rightarrow> ScramState \<Rightarrow> bytes \<Rightarrow> bytes option" where
  "validate_client_final K st client_final =
     Option.bind (cr_utf8 K client_final) (\<lambda>msg.
     Option.bind (rfind_str '',p='' msg) (\<lambda>proof_pos.
     let without_proof = take proof_pos msg; proof_b64 = drop (proof_pos + 3) msg in
     if ''r='' @ scr_nonce st \<notin> set (split_char (CHR '','') without_proof) then None
     else
       Option.bind (cr_decode K proof_b64) (\<lambda>client_proof.
       if length client_proof \<noteq> 32 then None
       else
         (let recovered_key = xor_bytes client_proof (client_signature K st without_proof) in
          if ct_bytes_eq (cr_sha256 K recovered_key) (stored_key K (scr_salted_password st))
          then Some (server_final K st without_proof) else None))))"

section \<open>The startup handler\<close>

record TlsConfig =
  tls_cert_path :: "string option"
  tls_key_path :: "string option"
  tls_required :: bool

definition TlsConfig_is_enabled :: "TlsConfig \<Rightarrow> bool" where
  "TlsConfig_is_enabled t \<longleftrightarrow> tls_cert_path t \<noteq> None \<and> tls_key_path t \<noteq> None"

record AuthConfig =
  au_username :: "string option"
  au_password :: "string option"
  au_scram_sha256 :: bool

definition AuthConfig_is_enabled :: "AuthConfig \<Rightarrow> bool" where
  "AuthConfig_is_enabled a \<longleftrightarrow> au_username a \<noteq> None \<and> au_password a \<noteq> None"

text \<open>A message of the password family comes with what the three decoders of the library make of it. The user of
  the startup message is empty when it names none; the salt and the uuid are drawn when they are needed.\<close>

record PasswordMessage =
  pm_initial :: "bytes option option"
  pm_response :: "bytes option"
  pm_password :: "string option"

datatype ClientMessage = M_Startup string | M_Password PasswordMessage bytes string

datatype AuthPhase = AwaitingStartup | AuthenticationInProgress | ReadyForQuery | Closed

datatype ServerMessage = B_Error string string string | B_Sasl "string list" | B_CleartextPassword
  | B_SaslContinue bytes | B_SaslFinal bytes | B_Ready

record AuthState =
  as_phase :: AuthPhase
  as_user :: string
  as_scram :: "ScramState option"

definition AuthState_new :: AuthState where
  "AuthState_new = \<lparr>as_phase = AwaitingStartup, as_user = [], as_scram = None\<rparr>"

definition send_auth_error :: "string \<Rightarrow> AuthState \<Rightarrow> ServerMessage list \<times> AuthState" where
  "send_auth_error message s = ([B_Error ''FATAL'' ''28P01'' message], s\<lparr>as_phase := Closed\<rparr>)"

definition finish_authentication :: "AuthState \<Rightarrow> ServerMessage list \<times> AuthState" where
  "finish_authentication s = ([B_Ready], s\<lparr>as_phase := ReadyForQuery\<rparr>)"

definition or_empty :: "'a list option \<Rightarrow> 'a list" where
  "or_empty v = (case v of Some x \<Rightarrow> x | None \<Rightarrow> [])"

definition on_startup_message ::
  "AuthConfig \<Rightarrow> bool \<Rightarrow> bool \<Rightarrow> string \<Rightarrow> AuthState \<Rightarrow> ServerMessage list \<times> AuthState" where
  "on_startup_message auth require_tls secure user s =
     (if require_tls \<and> \<not> secure then
        ([B_Error ''FATAL'' ''28000'' ''SSL connection is required. Connect using SSL/TLS.''], s\<lparr>as_phase := Closed\<rparr>)
      else
        (let s = s\<lparr>as_user := user\<rparr> in
         if \<not> AuthConfig_is_enabled auth then finish_authentication s
         else if au_scram_sha256 auth then
           ([B_Sasl [''SCRAM-SHA-256'']], s\<lparr>as_phase := AuthenticationInProgress\<rparr>)
         else if user \<noteq> or_empty (au_username auth) then
           send_auth_error (''Password authentication failed for user '' @ [CHR 0x22] @ user @ [CHR 0x22]) s
         else ([B_CleartextPassword], s\<lparr>as_phase := AuthenticationInProgress\<rparr>)))"

definition on_scram_message ::
  "Crypto \<Rightarrow> AuthConfig \<Rightarrow> PasswordMessage \<Rightarrow> bytes \<Rightarrow> string \<Rightarrow> AuthState \<Rightarrow> ServerMessage list \<times> AuthState" where
  "on_scram_message K auth pwd salt uuid s =
     (case as_scram s of
        None \<Rightarrow>
          (case pm_initial pwd of
             None \<Rightarrow> send_auth_error ''SCRAM handshake error'' s
           | Some data \<Rightarrow>
               (case from_client_first K (or_empty data) (or_empty (au_password auth)) (random_server_nonce uuid) salt of
                  Some st \<Rightarrow> ([B_SaslContinue (str_bytes (scr_server_first st))], s\<lparr>as_scram := Some st\<rparr>)
                | None \<Rightarrow> send_auth_error ''SCRAM client-first parse error'' s))
      | Some st \<Rightarrow>
          (let s = s\<lparr>as_scram := None\<rparr> in
           case pm_response pwd of
             None \<Rightarrow> send_auth_error ''SCRAM handshake error'' s
           | Some data \<Rightarrow>
               (case validate_client_final K st data of
                  Some final_message \<Rightarrow>
                    (case finish_authentication s of (out, s') \<Rightarrow> (B_SaslFinal final_message # out, s'))
                | None \<Rightarrow> send_auth_error ''SCRAM authentication failed'' s)))"

text \<open>A password message that the library cannot decode ends the connection with the error of the library.\<close>

definition on_cleartext_message ::
  "AuthConfig \<Rightarrow> PasswordMessage \<Rightarrow> AuthState \<Rightarrow> ServerMessage list \<times> AuthState" where
  "on_cleartext_message auth pwd s =
     (case pm_password pwd of
        None \<Rightarrow> ([], s\<lparr>as_phase := Closed\<rparr>)
      | Some password \<Rightarrow>
          if ct_bytes_eq (str_bytes password) (str_bytes (or_empty (au_password auth))) then finish_authentication s
          else send_auth_error ''Password authentication failed'' s)"

definition on_startup ::
  "Crypto \<Rightarrow> AuthConfig \<Rightarrow> bool \<Rightarrow> bool \<Rightarrow> ClientMessage \<Rightarrow> AuthState \<Rightarrow> ServerMessage list \<times> AuthState" where
  "on_startup K auth require_tls secure message s =
     (case message of
        M_Startup user \<Rightarrow> on_startup_message auth require_tls secure user s
      | M_Password pwd salt uuid \<Rightarrow>
          if AuthConfig_is_enabled auth then
            (if au_scram_sha256 auth then on_scram_message K auth pwd salt uuid s else on_cleartext_message auth pwd s)
          else ([], s))"

section \<open>Facts\<close>

lemma ct_diff_zero: "length a = length b \<Longrightarrow> ct_diff d a b = 0 \<longleftrightarrow> d = 0 \<and> a = b"
proof (induction d a b rule: ct_diff.induct)
  case (1 d x a y b)
  have "or d (xor x y) = 0 \<longleftrightarrow> d = 0 \<and> x = y"
    by (auto simp: bit_eq_iff bit_or_iff bit_xor_iff)
  with 1 show ?case by auto
qed auto

text \<open>The comparison in constant time is equality.\<close>

lemma ct_bytes_eq_iff: "ct_bytes_eq a b \<longleftrightarrow> a = b"
  by (auto simp: ct_bytes_eq_def ct_diff_zero)

lemma xor_bytes_cancel: "length a = length b \<Longrightarrow> xor_bytes (xor_bytes a b) b = a"
  by (induction a b rule: list_induct2) (auto simp: xor_bytes_def bit_eq_iff bit_xor_iff)

lemma xor_bytes_length: "length (xor_bytes a b) = min (length a) (length b)"
  by (simp add: xor_bytes_def)

text \<open>The comparison of the stored keys is the only secret that the final message is checked against.\<close>

lemma validate_client_final_accepts:
  assumes "validate_client_final K st data = Some out"
  obtains msg pos p where "cr_utf8 K data = Some msg" "rfind_str '',p='' msg = Some pos"
    "''r='' @ scr_nonce st \<in> set (split_char (CHR '','') (take pos msg))"
    "cr_decode K (drop (pos + 3) msg) = Some p" "length p = 32"
    "cr_sha256 K (xor_bytes p (client_signature K st (take pos msg))) = stored_key K (scr_salted_password st)"
    "out = server_final K st (take pos msg)"
  using assms
  by (auto simp: validate_client_final_def Let_def ct_bytes_eq_iff bind_eq_Some_conv split: if_splits)

section \<open>The exchange as a state machine\<close>

text \<open>The codec of the library reads the first packet of a connection as a startup message and later ones as typed
  messages, and hands the handler no message after the connection is ready or closed. A log keeps the messages the
  handler was given.\<close>

inductive auth_step ::
  "Crypto \<Rightarrow> AuthConfig \<Rightarrow> bool \<Rightarrow> bool \<Rightarrow> AuthState \<times> ClientMessage list \<Rightarrow> AuthState \<times> ClientMessage list \<Rightarrow> bool"
  for K auth require_tls secure where
  startup: "as_phase s = AwaitingStartup \<Longrightarrow>
    auth_step K auth require_tls secure (s, tr)
      (snd (on_startup K auth require_tls secure (M_Startup user) s), tr @ [M_Startup user])"
| password: "as_phase s = AuthenticationInProgress \<Longrightarrow>
    auth_step K auth require_tls secure (s, tr)
      (snd (on_startup K auth require_tls secure (M_Password pwd salt uuid) s), tr @ [M_Password pwd salt uuid])"

inductive auth_reach :: "Crypto \<Rightarrow> AuthConfig \<Rightarrow> bool \<Rightarrow> bool \<Rightarrow> AuthState \<times> ClientMessage list \<Rightarrow> bool"
  for K auth require_tls secure where
  init: "auth_reach K auth require_tls secure (AuthState_new, [])"
| step: "auth_reach K auth require_tls secure c \<Longrightarrow> auth_step K auth require_tls secure c c' \<Longrightarrow>
    auth_reach K auth require_tls secure c'"

inductive_cases auth_stepE: "auth_step K auth require_tls secure c c'"

text \<open>What the messages of a connection prove. A cleartext login presents the configured user and password. A SCRAM
  login presents a client-first message for which the handler derived a state from the configured password and fresh
  random values, and then a final message that is valid for that state.\<close>

definition cleartext_presented :: "AuthConfig \<Rightarrow> ClientMessage list \<Rightarrow> bool" where
  "cleartext_presented auth tr \<longleftrightarrow>
     (\<exists>user pwd salt uuid. tr = [M_Startup user, M_Password pwd salt uuid] \<and>
        au_username auth = Some user \<and> pm_password pwd = au_password auth)"

definition scram_challenge :: "Crypto \<Rightarrow> AuthConfig \<Rightarrow> ClientMessage list \<Rightarrow> ScramState \<Rightarrow> bool" where
  "scram_challenge K auth tr st \<longleftrightarrow>
     (\<exists>user pwd salt uuid data. tr = [M_Startup user, M_Password pwd salt uuid] \<and> pm_initial pwd = Some data \<and>
        from_client_first K (or_empty data) (the (au_password auth)) (random_server_nonce uuid) salt = Some st)"

definition scram_presented :: "Crypto \<Rightarrow> AuthConfig \<Rightarrow> ClientMessage list \<Rightarrow> bool" where
  "scram_presented K auth tr \<longleftrightarrow>
     (\<exists>tr' st pwd salt uuid data. tr = tr' @ [M_Password pwd salt uuid] \<and> scram_challenge K auth tr' st \<and>
        pm_response pwd = Some data \<and> validate_client_final K st data \<noteq> None)"

definition auth_inv :: "Crypto \<Rightarrow> AuthConfig \<Rightarrow> bool \<Rightarrow> bool \<Rightarrow> AuthState \<times> ClientMessage list \<Rightarrow> bool" where
  "auth_inv K auth require_tls secure c \<longleftrightarrow> (case c of (s, tr) \<Rightarrow>
     (case as_phase s of
        AwaitingStartup \<Rightarrow> as_scram s = None \<and> tr = []
      | AuthenticationInProgress \<Rightarrow>
          (require_tls \<longrightarrow> secure) \<and> AuthConfig_is_enabled auth \<and>
          (if au_scram_sha256 auth
           then (case as_scram s of None \<Rightarrow> \<exists>user. tr = [M_Startup user] | Some st \<Rightarrow> scram_challenge K auth tr st)
           else as_scram s = None \<and> (\<exists>user. tr = [M_Startup user] \<and> au_username auth = Some user))
      | ReadyForQuery \<Rightarrow>
          (require_tls \<longrightarrow> secure) \<and>
          (AuthConfig_is_enabled auth \<longrightarrow>
             (if au_scram_sha256 auth then scram_presented K auth tr else cleartext_presented auth tr))
      | Closed \<Rightarrow> True))"

lemmas auth_handler_defs = on_startup_def on_startup_message_def on_scram_message_def on_cleartext_message_def
  send_auth_error_def finish_authentication_def AuthConfig_is_enabled_def or_empty_def Let_def

lemma auth_inv_step:
  assumes "auth_inv K auth require_tls secure c" "auth_step K auth require_tls secure c c'"
  shows "auth_inv K auth require_tls secure c'"
  using assms(2)
proof cases
  case (startup s tr user)
  with assms(1) show ?thesis
    by (auto simp: auth_inv_def auth_handler_defs)
next
  case (password s tr pwd salt uuid)
  with assms(1) have inv: "require_tls \<longrightarrow> secure" "AuthConfig_is_enabled auth"
    by (auto simp: auth_inv_def)
  show ?thesis
  proof (cases "au_scram_sha256 auth")
    case scram: True
    show ?thesis
    proof (cases "as_scram s")
      case None
      with scram password assms(1) inv show ?thesis
        by (auto simp: auth_inv_def auth_handler_defs scram_challenge_def split: option.splits)
    next
      case (Some st)
      with scram password assms(1) have "scram_challenge K auth tr st"
        by (auto simp: auth_inv_def)
      with Some scram password inv show ?thesis
        by (auto simp: auth_inv_def auth_handler_defs scram_presented_def split: option.splits)
    qed
  next
    case False
    with password assms(1) inv show ?thesis
      by (auto simp: auth_inv_def auth_handler_defs cleartext_presented_def ct_bytes_eq_iff split: option.splits)
  qed
qed

lemma auth_reach_inv: "auth_reach K auth require_tls secure c \<Longrightarrow> auth_inv K auth require_tls secure c"
proof (induction rule: auth_reach.induct)
  case init
  show ?case by (simp add: auth_inv_def AuthState_new_def)
qed (rule auth_inv_step)


section \<open>The client of RFC 5802\<close>

text \<open>The messages of a client that follows the protocol. It computes its proof from its own password and from the
  values of the server's first message, so its view of the exchange is a state of the same shape.\<close>

definition ascii_plain :: "string \<Rightarrow> bool" where
  "ascii_plain s \<longleftrightarrow> list_all (\<lambda>c. of_char c < (128 :: nat) \<and> c \<noteq> CHR '','') s"

definition rfc_client_first :: "string \<Rightarrow> string \<Rightarrow> string" where
  "rfc_client_first user client_nonce = ''n,,n='' @ user @ '',r='' @ client_nonce"

definition rfc_view :: "Crypto \<Rightarrow> string \<Rightarrow> string \<Rightarrow> string \<Rightarrow> string \<Rightarrow> bytes \<Rightarrow> ScramState" where
  "rfc_view K user client_nonce password sfx salt =
     \<lparr>scr_nonce = client_nonce @ sfx,
      scr_server_first = ''r='' @ (client_nonce @ sfx) @ '',s='' @ cr_encode K salt @ '',i='' @ show_nat 4096,
      scr_client_first_bare = ''n='' @ user @ '',r='' @ client_nonce,
      scr_salted_password = hi_sha256 K (str_bytes password) salt 4096\<rparr>"

definition rfc_without_proof :: "ScramState \<Rightarrow> string" where
  "rfc_without_proof view = ''c=biws,r='' @ scr_nonce view"

definition rfc_client_final :: "Crypto \<Rightarrow> ScramState \<Rightarrow> string" where
  "rfc_client_final K view =
     rfc_without_proof view @ '',p='' @
     cr_encode K (xor_bytes (client_key K (scr_salted_password view)) (client_signature K view (rfc_without_proof view)))"

lemma rfind_str_last:
  assumes "c \<notin> set pat" "c \<notin> set t"
  shows "rfind_str (c # pat) (w @ (c # pat) @ t) = Some (length w)"
proof -
  let ?s = "w @ (c # pat) @ t" and ?P = "\<lambda>i. prefix (c # pat) (drop i (w @ (c # pat) @ t))"
  have "\<not> ?P i" if "length w < i" for i
  proof
    assume P: "?P i"
    obtain k where k: "i = Suc (length w + k)" using \<open>length w < i\<close> less_iff_Suc_add by auto
    with P have "prefix (c # pat) (drop k (pat @ t))" by simp
    then have "c \<in> set (drop k (pat @ t))" by (auto simp: prefix_def simp del: drop_append)
    with assms show False by (auto dest: in_set_dropD)
  qed
  then have tail: "filter ?P [Suc (length w)..<Suc (length ?s)] = []" by (simp add: filter_empty_conv del: upt_Suc)
  have "[0..<Suc (length ?s)] = [0..<length w] @ length w # [Suc (length w)..<Suc (length ?s)]"
    using upt_add_eq_append [of 0 "length w" "Suc (length (c # pat @ t))"] upt_conv_Cons [of "length w" "Suc (length ?s)"]
    by simp
  then have "filter ?P [0..<Suc (length ?s)] = filter ?P [0..<length w] @ [length w]"
    using tail by simp
  then show ?thesis by (simp add: rfind_str_def del: upt_Suc append.simps append_assoc)
qed

lemma ascii_plain_append [simp]: "ascii_plain (s @ t) \<longleftrightarrow> ascii_plain s \<and> ascii_plain t"
  by (simp add: ascii_plain_def)

lemma ascii_plain_comma: "ascii_plain s \<Longrightarrow> CHR '','' \<notin> set s"
  by (auto simp: ascii_plain_def list_all_iff)

lemma crypto_utf8:
  "crypto_ok K \<Longrightarrow> list_all (\<lambda>c. of_char c < (128 :: nat)) s \<Longrightarrow> cr_utf8 K (str_bytes s) = Some s"
  by (simp add: crypto_ok_def)

lemma crypto_base64:
  "crypto_ok K \<Longrightarrow> cr_decode K (cr_encode K b) = Some b"
  "crypto_ok K \<Longrightarrow> CHR '','' \<notin> set (cr_encode K b)"
  "crypto_ok K \<Longrightarrow> list_all (\<lambda>c. of_char c < (128 :: nat)) (cr_encode K b)"
  by (simp_all add: crypto_ok_def)

lemma from_client_first_rfc:
  assumes "crypto_ok K" "ascii_plain user" "ascii_plain client_nonce"
  shows "from_client_first K (str_bytes (rfc_client_first user client_nonce)) password sfx salt =
    Some (rfc_view K user client_nonce password sfx salt)"
proof -
  have "list_all (\<lambda>c. of_char c < (128 :: nat)) (rfc_client_first user client_nonce)"
    using assms(2,3) by (auto simp: rfc_client_first_def ascii_plain_def list_all_iff)
  then have utf8: "cr_utf8 K (str_bytes (rfc_client_first user client_nonce)) = Some (rfc_client_first user client_nonce)"
    by (rule crypto_utf8 [OF assms(1)])
  have "split_char (CHR '','') ((''n='' @ user) @ CHR '','' # (''r='' @ client_nonce)) =
      [''n='' @ user, ''r='' @ client_nonce]"
    using ascii_plain_comma [OF assms(2)] ascii_plain_comma [OF assms(3)]
    by (subst split_char_append) (simp_all add: split_char_plain)
  then have "find_prefixed ''r='' (split_char (CHR '','') (drop 3 (rfc_client_first user client_nonce))) = Some client_nonce"
    by (simp add: rfc_client_first_def find_prefixed_def starts_with_iff_prefix)
  moreover have "starts_with (rfc_client_first user client_nonce) ''n,,''"
    by (simp add: rfc_client_first_def starts_with_iff_prefix)
  ultimately show ?thesis
    by (simp add: from_client_first_def utf8 Let_def rfc_view_def) (simp add: rfc_client_first_def)
qed

lemma validate_client_final_rfc:
  assumes "crypto_ok K" "ascii_plain (scr_nonce st)"
  shows "validate_client_final K st (str_bytes (rfc_client_final K st)) = Some (server_final K st (rfc_without_proof st))"
proof -
  let ?w = "rfc_without_proof st" and ?sig = "client_signature K st (rfc_without_proof st)"
  let ?key = "client_key K (scr_salted_password st)"
  let ?p = "cr_encode K (xor_bytes ?key ?sig)"
  have msg: "rfc_client_final K st = ?w @ '',p='' @ ?p" by (simp add: rfc_client_final_def)
  have "list_all (\<lambda>c. of_char c < (128 :: nat)) (rfc_client_final K st)"
    using assms(2) crypto_base64(3) [OF assms(1)]
    by (auto simp: msg rfc_without_proof_def ascii_plain_def list_all_iff)
  then have utf8: "cr_utf8 K (str_bytes (rfc_client_final K st)) = Some (?w @ '',p='' @ ?p)"
    using crypto_utf8 [OF assms(1)] msg by metis
  have rfind: "rfind_str '',p='' (?w @ '',p='' @ ?p) = Some (length ?w)"
    by (rule rfind_str_last) (use crypto_base64(2) [OF assms(1)] in simp_all)
  have nonce: "''r='' @ scr_nonce st \<in> set (split_char (CHR '','') ?w)"
  proof -
    have "split_char (CHR '','') (''c=biws'' @ CHR '','' # (''r='' @ scr_nonce st)) = [''c=biws'', ''r='' @ scr_nonce st]"
      using ascii_plain_comma [OF assms(2)] by (subst split_char_append) (simp_all add: split_char_plain)
    then show ?thesis by (simp add: rfc_without_proof_def)
  qed
  have len: "length ?key = 32" "length ?sig = 32"
    using assms(1) by (simp_all add: crypto_ok_def client_key_def client_signature_def)
  then have "xor_bytes (xor_bytes ?key ?sig) ?sig = ?key" by (simp add: xor_bytes_cancel)
  with len nonce show ?thesis
    unfolding validate_client_final_def utf8 bind.bind_lunit rfind
    by (simp add: crypto_base64(1) [OF assms(1)] Let_def xor_bytes_length ct_bytes_eq_iff stored_key_def)
qed

text \<open>C14. A client that knows the configured password is let in: whatever user name it gives, and whatever salt and
  nonce the server draws, the three messages of an RFC 5802 client lead to the ready state. The server answers the
  first with the SASL mechanism, the second with its nonce, the salt and the iteration count, and the third with
  its own signature over the same exchange, computed from the password, before it becomes ready.\<close>

theorem scram_accepts_rfc_client:
  assumes "crypto_ok K" "AuthConfig_is_enabled auth" "au_scram_sha256 auth" "require_tls \<longrightarrow> secure"
    and "au_password auth = Some password" "ascii_plain user" "ascii_plain client_nonce" "ascii_plain uuid"
    and "pm_initial first = Some (Some (str_bytes (rfc_client_first user client_nonce)))"
    and "view = rfc_view K user client_nonce password (random_server_nonce uuid) salt"
    and "pm_response final = Some (str_bytes (rfc_client_final K view))"
  shows "\<exists>s1 s2 s3.
    on_startup K auth require_tls secure (M_Startup user) AuthState_new = ([B_Sasl [''SCRAM-SHA-256'']], s1) \<and>
    on_startup K auth require_tls secure (M_Password first salt uuid) s1 =
      ([B_SaslContinue (str_bytes (scr_server_first view))], s2) \<and>
    on_startup K auth require_tls secure (M_Password final salt' uuid') s2 =
      ([B_SaslFinal (server_final K view (rfc_without_proof view)), B_Ready], s3) \<and>
    as_phase s3 = ReadyForQuery"
proof -
  have "ascii_plain (random_server_nonce uuid)"
    using assms(8) by (auto simp: random_server_nonce_def ascii_plain_def list_all_iff dest: in_set_takeD)
  then have "ascii_plain (scr_nonce view)" using assms(7,10) by (simp add: rfc_view_def)
  then have final: "validate_client_final K view (str_bytes (rfc_client_final K view)) =
      Some (server_final K view (rfc_without_proof view))"
    by (rule validate_client_final_rfc [OF assms(1)])
  have first: "from_client_first K (str_bytes (rfc_client_first user client_nonce)) password (random_server_nonce uuid) salt =
      Some view"
    using from_client_first_rfc [OF assms(1,6,7)] assms(10) by simp
  let ?s1 = "AuthState_new\<lparr>as_user := user, as_phase := AuthenticationInProgress\<rparr>"
  have "on_startup K auth require_tls secure (M_Startup user) AuthState_new = ([B_Sasl [''SCRAM-SHA-256'']], ?s1)"
    using assms(2-4) by (auto simp: on_startup_def on_startup_message_def Let_def)
  moreover have "on_startup K auth require_tls secure (M_Password first salt uuid) ?s1 =
      ([B_SaslContinue (str_bytes (scr_server_first view))], ?s1\<lparr>as_scram := Some view\<rparr>)"
    using assms(2,3,5,9) first by (simp add: on_startup_def on_scram_message_def AuthState_new_def or_empty_def)
  moreover have "on_startup K auth require_tls secure (M_Password final salt' uuid') (?s1\<lparr>as_scram := Some view\<rparr>) =
      ([B_SaslFinal (server_final K view (rfc_without_proof view)), B_Ready],
       ?s1\<lparr>as_scram := None, as_phase := ReadyForQuery\<rparr>)"
    using assms(2,3,11) final by (simp add: on_startup_def on_scram_message_def Let_def finish_authentication_def)
  ultimately show ?thesis by fastforce
qed

text \<open>The user name of the startup message plays no part in the SCRAM mode: a reachable ready state exists for a
  user other than the configured one.\<close>

lemma scram_ignores_user:
  assumes "AuthConfig_is_enabled auth" "au_scram_sha256 auth" "require_tls \<longrightarrow> secure"
  shows "on_startup K auth require_tls secure (M_Startup user) s =
    ([B_Sasl [''SCRAM-SHA-256'']], s\<lparr>as_user := user, as_phase := AuthenticationInProgress\<rparr>)"
  using assms by (auto simp: on_startup_def on_startup_message_def Let_def)

end
