(* ===== verification/Concrete_Auth.thy ===== *)
theory Concrete_Auth
  imports Pg_Auth
begin

text \<open>
  Concrete logins: toy primitives that have the documented behaviour of the libraries, a cleartext login and a
  SCRAM exchange of a client that follows the protocol.
\<close>

section \<open>Primitives\<close>

definition nibble_char :: "nat \<Rightarrow> char" where
  "nibble_char n = char_of (97 + n)"

definition nibble_value :: "char \<Rightarrow> nat" where
  "nibble_value c = of_char c - 97"

definition hex_text :: "bytes \<Rightarrow> string" where
  "hex_text b = concat (map (\<lambda>x. [nibble_char (unat x div 16), nibble_char (unat x mod 16)]) b)"

fun hex_bytes :: "string \<Rightarrow> bytes option" where
  "hex_bytes [] = Some []"
| "hex_bytes [c] = None"
| "hex_bytes (c # d # s) =
     map_option (\<lambda>b. word_of_nat (nibble_value c * 16 + nibble_value d) # b) (hex_bytes s)"

definition toy_crypto :: Crypto where
  "toy_crypto = \<lparr>cr_hmac = (\<lambda>k d. take 32 (k @ d @ replicate 32 0)), cr_sha256 = rev,
     cr_encode = hex_text, cr_decode = hex_bytes,
     cr_utf8 = (\<lambda>b. if list_all (\<lambda>x. x < 128) b then Some (bytes_str b) else None)\<rparr>"

lemma of_nibble_char: "n < 16 \<Longrightarrow> of_char (nibble_char n) = 97 + n"
  by (simp add: nibble_char_def of_char_of)

lemma unat_u8_less: "unat (x :: u8) < 256"
  using unsigned_less [of x, where ?'a = nat] by simp

lemma hex_bytes_text [simp]: "hex_bytes (hex_text b) = Some b"
proof (induction b)
  case (Cons x b)
  have "unat x div 16 < 16" using unat_u8_less [of x] by (simp add: div_less_iff_less_mult)
  moreover have "unat x div 16 * 16 + unat x mod 16 = unat x" by simp
  ultimately have "word_of_nat (nibble_value (nibble_char (unat x div 16)) * 16 + nibble_value (nibble_char (unat x mod 16))) = x"
    by (simp add: nibble_value_def of_nibble_char del: of_nat_add of_nat_mult)
  with Cons show ?case by (simp add: hex_text_def)
qed (simp add: hex_text_def)

lemma hex_text_chars: "c \<in> set (hex_text b) \<Longrightarrow> (97 :: nat) \<le> of_char c \<and> of_char c < (113 :: nat)"
proof -
  assume "c \<in> set (hex_text b)"
  then obtain n where "c = nibble_char n" "n < 16"
    using unat_u8_less by (auto simp: hex_text_def div_less_iff_less_mult)
  then show ?thesis by (simp add: of_nibble_char)
qed

lemma toy_crypto_ok: "crypto_ok toy_crypto"
proof -
  have "CHR '','' \<notin> set (hex_text b)" for b using hex_text_chars [of "CHR '',''" b] by auto
  moreover have "list_all (\<lambda>c. of_char c < (128 :: nat)) (hex_text b)" for b
    using hex_text_chars [of _ b] by (fastforce simp: list_all_iff)
  moreover have "list_all (\<lambda>x. x < 128) (str_bytes s)" if "list_all (\<lambda>c. of_char c < (128 :: nat)) s" for s
  proof -
    have "(of_char c :: u8) < 128" if "of_char c < (128 :: nat)" for c
      using that unat_of_nat_byte [of "of_char c"] by (simp add: word_less_nat_alt of_nat_of_char)
    with that show ?thesis by (auto simp: str_bytes_def list_all_iff)
  qed
  ultimately show ?thesis by (simp add: crypto_ok_def toy_crypto_def min_def)
qed

section \<open>Logins\<close>

definition login_config :: "bool \<Rightarrow> AuthConfig" where
  "login_config scram = \<lparr>au_username = Some ''admin'', au_password = Some ''secret'', au_scram_sha256 = scram\<rparr>"

definition password_message :: PasswordMessage where
  "password_message = \<lparr>pm_initial = None, pm_response = None, pm_password = Some ''secret''\<rparr>"

lemma cleartext_login_reached:
  "\<exists>s. auth_reach toy_crypto (login_config False) True True (s, [M_Startup ''admin'', M_Password password_message [] []]) \<and>
    as_phase s = ReadyForQuery"
proof -
  let ?s1 = "snd (on_startup toy_crypto (login_config False) True True (M_Startup ''admin'') AuthState_new)"
  let ?s2 = "snd (on_startup toy_crypto (login_config False) True True (M_Password password_message [] []) ?s1)"
  have phase: "as_phase ?s1 = AuthenticationInProgress" "as_phase ?s2 = ReadyForQuery"
    by (simp_all add: auth_handler_defs login_config_def password_message_def AuthState_new_def ct_bytes_eq_iff)
  have "auth_reach toy_crypto (login_config False) True True (?s1, [M_Startup ''admin''])"
    using auth_reach.step [OF auth_reach.init auth_step.startup] by (simp add: AuthState_new_def)
  from auth_reach.step [OF this auth_step.password [OF phase(1)]]
  have "auth_reach toy_crypto (login_config False) True True (?s2, [M_Startup ''admin'', M_Password password_message [] []])"
    by simp
  with phase(2) show ?thesis by blast
qed


definition scram_view :: ScramState where
  "scram_view = rfc_view toy_crypto ''other'' ''abc'' ''secret'' (random_server_nonce ''0123456789abcdef0123456789abcdef'') [1, 2]"

definition first_message :: PasswordMessage where
  "first_message = \<lparr>pm_initial = Some (Some (str_bytes (rfc_client_first ''other'' ''abc''))), pm_response = None,
     pm_password = None\<rparr>"

definition final_message :: PasswordMessage where
  "final_message = \<lparr>pm_initial = None, pm_response = Some (str_bytes (rfc_client_final toy_crypto scram_view)),
     pm_password = None\<rparr>"

text \<open>The exchange of a client that gives a user name other than the configured one.\<close>

theorem scram_accepts_rfc_client_witness:
  "\<exists>s1 s2 s3.
    on_startup toy_crypto (login_config True) True True (M_Startup ''other'') AuthState_new =
      ([B_Sasl [''SCRAM-SHA-256'']], s1) \<and>
    on_startup toy_crypto (login_config True) True True
        (M_Password first_message [1, 2] ''0123456789abcdef0123456789abcdef'') s1 =
      ([B_SaslContinue (str_bytes (scr_server_first scram_view))], s2) \<and>
    on_startup toy_crypto (login_config True) True True (M_Password final_message [] []) s2 =
      ([B_SaslFinal (server_final toy_crypto scram_view (rfc_without_proof scram_view)), B_Ready], s3) \<and>
    as_phase s3 = ReadyForQuery"
  by (rule scram_accepts_rfc_client
      [where password = "''secret''" and user = "''other''" and client_nonce = "''abc''" and view = scram_view])
    (simp_all add: toy_crypto_ok login_config_def AuthConfig_is_enabled_def ascii_plain_def first_message_def
      scram_view_def final_message_def)

end
