(* ===== verification/Export_Rows.thy ===== *)
theory Export_Rows
  imports Registry Json_Values
begin

text \<open>
  The rows of a catalog export, \<open>crates/rocklake-catalog/src/export.rs\<close>: for every kind of row the JSON
  object that the export writes and the write to the database that the import makes of such an object. The
  base64 functions of the library are a parameter. The last part says what a row is after a round trip: the
  fields that the export leaves out are lost.
\<close>

section \<open>JSON values\<close>

definition json_opt_str :: "string option \<Rightarrow> Json" where
  "json_opt_str x = (case x of None \<Rightarrow> JNull | Some s \<Rightarrow> JStr s)"

definition json_opt_bool :: "bool option \<Rightarrow> Json" where
  "json_opt_bool x = (case x of None \<Rightarrow> JNull | Some b \<Rightarrow> JBool b)"

definition json_opt_i64 :: "i64 option \<Rightarrow> Json" where
  "json_opt_i64 x = (case x of None \<Rightarrow> JNull | Some n \<Rightarrow> json_i64 n)"

text \<open>\<open>value[field]\<close>: the member of an object, null for anything else.\<close>

definition json_field :: "Json \<Rightarrow> string \<Rightarrow> Json" where
  "json_field d field =
     (case d of JObj members \<Rightarrow> (case map_of members field of Some v \<Rightarrow> v | None \<Rightarrow> JNull) | _ \<Rightarrow> JNull)"

fun as_u64_json :: "Json \<Rightarrow> u64 option" where
  "as_u64_json (JU64 n) = Some n"
| "as_u64_json _ = None"

fun as_i64 :: "Json \<Rightarrow> i64 option" where
  "as_i64 (JU64 n) = (if unat n < 2 ^ 63 then Some n else None)"
| "as_i64 (JI64 n) = Some n"
| "as_i64 _ = None"

fun as_str :: "Json \<Rightarrow> string option" where
  "as_str (JStr s) = Some s"
| "as_str _ = None"

fun as_bool :: "Json \<Rightarrow> bool option" where
  "as_bool (JBool b) = Some b"
| "as_bool _ = None"

definition or_zero :: "u64 option \<Rightarrow> u64" where
  "or_zero x = (case x of None \<Rightarrow> 0 | Some n \<Rightarrow> n)"

definition or_false :: "bool option \<Rightarrow> bool" where
  "or_false x = (case x of None \<Rightarrow> False | Some b \<Rightarrow> b)"

definition first_some :: "'a option \<Rightarrow> 'a option \<Rightarrow> 'a option" where
  "first_some x y = (case x of None \<Rightarrow> y | Some _ \<Rightarrow> x)"

section \<open>Rows as JSON and back\<close>

record base64 =
  b64_encode :: "bytes \<Rightarrow> string"
  b64_decode :: "string \<Rightarrow> string + bytes"

definition base64_ok :: "base64 \<Rightarrow> bool" where
  "base64_ok B \<longleftrightarrow> (\<forall>data. b64_decode B (b64_encode B data) = Inr data)"

record ExportedRow =
  er_table :: string
  er_data :: Json

text \<open>The write that the import makes for a row: one put, or a batch that is written as one.\<close>

datatype import_write = IW_Put bytes bytes | IW_Batch "kv list"

definition quoted :: "string \<Rightarrow> string" where
  "quoted field = [CHR 0x27] @ field @ [CHR 0x27]"

definition req_u64 :: "nat \<Rightarrow> string \<Rightarrow> Json \<Rightarrow> string \<Rightarrow> CatalogError + u64" where
  "req_u64 line tbl d field =
     ok_or (Import line tbl (''missing or invalid u64 field '' @ quoted field)) (as_u64_json (json_field d field))"

definition req_str :: "nat \<Rightarrow> string \<Rightarrow> Json \<Rightarrow> string \<Rightarrow> CatalogError + string" where
  "req_str line tbl d field =
     ok_or (Import line tbl (''missing or invalid string field '' @ quoted field)) (as_str (json_field d field))"

definition req_bool :: "nat \<Rightarrow> string \<Rightarrow> Json \<Rightarrow> string \<Rightarrow> CatalogError + bool" where
  "req_bool line tbl d field =
     ok_or (Import line tbl (''missing or invalid bool field '' @ quoted field)) (as_bool (json_field d field))"

definition decode_payload :: "base64 \<Rightarrow> nat \<Rightarrow> string \<Rightarrow> string \<Rightarrow> CatalogError + bytes" where
  "decode_payload B line tbl text =
     map_err (\<lambda>e. Import line tbl (''invalid base64 in '' @ quoted ''payload'' @ '': '' @ e)) (b64_decode B text)"

text \<open>\<open>begin_snapshot\<close> of a delete file, which falls back on the snapshot id, and the hash that is part of a key.\<close>

definition delete_begin :: "DeleteFileRow \<Rightarrow> u64" where
  "delete_begin row = (case del_begin_snapshot row of None \<Rightarrow> del_snapshot_id row | Some b \<Rightarrow> b)"

definition key_hash :: "nat \<Rightarrow> bytes \<Rightarrow> u64" where
  "key_hash offset k =
     (if length k \<ge> offset + 8 then (case decode_u64 (drop offset k) of Inr h \<Rightarrow> h | Inl _ \<Rightarrow> 0) else 0)"

definition snapshot_json :: "SnapshotRow \<Rightarrow> Json" where
  "snapshot_json row = JObj
      [(''snapshot_id'', JU64 (sn_snapshot_id row)),
       (''schema_version'', JU64 (sn_schema_version row)),
       (''snapshot_time'', JStr (sn_snapshot_time row)), (''author'', json_opt_str (sn_author row)),
       (''message'', json_opt_str (sn_message row))]"

definition import_snapshot :: "codecs \<Rightarrow> nat \<Rightarrow> string \<Rightarrow> Json \<Rightarrow> CatalogError + import_write" where
  "import_snapshot C line tbl d =
     rbind (req_u64 line tbl d ''snapshot_id'') (\<lambda>snapshot_id.
     rbind (req_u64 line tbl d ''schema_version'') (\<lambda>schema_version.
     rbind (req_str line tbl d ''snapshot_time'') (\<lambda>snapshot_time.
       Inr (IW_Put (key_snapshot snapshot_id) (encode_value (pb_SnapshotRow C)
         \<lparr>sn_snapshot_id = snapshot_id, sn_schema_version = schema_version,
          sn_snapshot_time = snapshot_time, sn_author = as_str (json_field d ''author''),
          sn_message = as_str (json_field d ''message''),
          sn_next_catalog_id = as_u64_json (json_field d ''next_catalog_id''),
          sn_next_file_id = as_u64_json (json_field d ''next_file_id'')\<rparr>)))))"

definition schema_json :: "SchemaRow \<Rightarrow> Json" where
  "schema_json row = JObj
      [(''schema_id'', JU64 (sr_schema_id row)), (''schema_name'', JStr (sr_schema_name row)),
       (''begin_snapshot'', JU64 (sr_begin_snapshot row)),
       (''end_snapshot'', json_opt_u64 (sr_end_snapshot row))]"

definition import_schema :: "codecs \<Rightarrow> nat \<Rightarrow> string \<Rightarrow> Json \<Rightarrow> CatalogError + import_write" where
  "import_schema C line tbl d =
     rbind (req_u64 line tbl d ''schema_id'') (\<lambda>schema_id.
     rbind (req_str line tbl d ''schema_name'') (\<lambda>schema_name.
     rbind (req_u64 line tbl d ''begin_snapshot'') (\<lambda>begin_snapshot.
       Inr (IW_Put (key_schema schema_id) (encode_value (pb_SchemaRow C)
         \<lparr>sr_schema_id = schema_id, sr_schema_name = schema_name, sr_begin_snapshot = begin_snapshot,
          sr_end_snapshot = as_u64_json (json_field d ''end_snapshot''),
          sr_schema_uuid = as_str (json_field d ''schema_uuid''),
          sr_path = as_str (json_field d ''path''),
          sr_path_is_relative = as_bool (json_field d ''path_is_relative'')\<rparr>)))))"

definition table_json :: "TableRow \<Rightarrow> Json" where
  "table_json row = JObj
      [(''table_id'', JU64 (tr_table_id row)), (''schema_id'', JU64 (tr_schema_id row)),
       (''table_name'', JStr (tr_table_name row)), (''begin_snapshot'', JU64 (tr_begin_snapshot row)),
       (''end_snapshot'', json_opt_u64 (tr_end_snapshot row)), (''path'', json_opt_str (tr_path row)),
       (''table_uuid'', json_opt_str (tr_table_uuid row))]"

definition import_table :: "codecs \<Rightarrow> nat \<Rightarrow> string \<Rightarrow> Json \<Rightarrow> CatalogError + import_write" where
  "import_table C line tbl d =
     rbind (req_u64 line tbl d ''table_id'') (\<lambda>table_id.
     rbind (req_u64 line tbl d ''schema_id'') (\<lambda>schema_id.
     rbind (req_u64 line tbl d ''begin_snapshot'') (\<lambda>begin_snapshot.
     rbind (req_str line tbl d ''table_name'') (\<lambda>table_name.
       Inr (IW_Put (key_table schema_id table_id begin_snapshot) (encode_value (pb_TableRow C)
         \<lparr>tr_table_id = table_id, tr_schema_id = schema_id, tr_table_name = table_name,
          tr_begin_snapshot = begin_snapshot,
          tr_end_snapshot = as_u64_json (json_field d ''end_snapshot''),
          tr_path = first_some (as_str (json_field d ''path'')) (as_str (json_field d ''data_path'')),
          tr_table_uuid = as_str (json_field d ''table_uuid''),
          tr_path_is_relative = as_bool (json_field d ''path_is_relative'')\<rparr>))))))"

definition column_json :: "ColumnRow \<Rightarrow> Json" where
  "column_json row = JObj
      [(''column_id'', JU64 (cr_column_id row)), (''table_id'', JU64 (cr_table_id row)),
       (''column_name'', JStr (cr_column_name row)), (''data_type'', JStr (cr_data_type row)),
       (''column_index'', JU64 (cr_column_index row)),
       (''begin_snapshot'', JU64 (cr_begin_snapshot row)),
       (''end_snapshot'', json_opt_u64 (cr_end_snapshot row)),
       (''default_value'', json_opt_str (cr_default_value row)),
       (''is_nullable'', JBool (cr_is_nullable row))]"

definition import_column :: "codecs \<Rightarrow> nat \<Rightarrow> string \<Rightarrow> Json \<Rightarrow> CatalogError + import_write" where
  "import_column C line tbl d =
     rbind (req_u64 line tbl d ''column_id'') (\<lambda>column_id.
     rbind (req_u64 line tbl d ''table_id'') (\<lambda>table_id.
     rbind (req_u64 line tbl d ''begin_snapshot'') (\<lambda>begin_snapshot.
     rbind (req_str line tbl d ''column_name'') (\<lambda>column_name.
     rbind (req_str line tbl d ''data_type'') (\<lambda>data_type.
     rbind (req_u64 line tbl d ''column_index'') (\<lambda>column_index.
     rbind (req_bool line tbl d ''is_nullable'') (\<lambda>is_nullable.
       Inr (IW_Put (key_column table_id column_id begin_snapshot) (encode_value (pb_ColumnRow C)
         \<lparr>cr_column_id = column_id, cr_table_id = table_id, cr_column_name = column_name,
          cr_data_type = data_type, cr_column_index = column_index, cr_begin_snapshot = begin_snapshot,
          cr_end_snapshot = as_u64_json (json_field d ''end_snapshot''),
          cr_default_value = as_str (json_field d ''default_value''), cr_is_nullable = is_nullable,
          cr_initial_default = as_str (json_field d ''initial_default''),
          cr_default_value_type = as_str (json_field d ''default_value_type''),
          cr_default_value_dialect = as_str (json_field d ''default_value_dialect''),
          cr_parent_column = as_u64_json (json_field d ''parent_column'')\<rparr>)))))))))"

definition data_file_json :: "DataFileRow \<Rightarrow> Json" where
  "data_file_json row = JObj
      [(''data_file_id'', JU64 (df_data_file_id row)), (''table_id'', JU64 (df_table_id row)),
       (''path'', JStr (df_path row)), (''file_format'', JStr (df_file_format row)),
       (''record_count'', JU64 (df_record_count row)),
       (''file_size_bytes'', JU64 (df_file_size_bytes row)),
       (''begin_snapshot'', JU64 (or_zero (df_begin_snapshot row))),
       (''end_snapshot'', json_opt_u64 (df_end_snapshot row)),
       (''footer_size'', json_opt_i64 (df_footer_size row))]"

definition import_data_file :: "codecs \<Rightarrow> nat \<Rightarrow> string \<Rightarrow> Json \<Rightarrow> CatalogError + import_write" where
  "import_data_file C line tbl d =
     rbind (req_u64 line tbl d ''data_file_id'') (\<lambda>data_file_id.
     rbind (req_u64 line tbl d ''table_id'') (\<lambda>table_id.
     rbind (req_str line tbl d ''path'') (\<lambda>path.
     rbind (req_str line tbl d ''file_format'') (\<lambda>file_format.
     rbind (req_u64 line tbl d ''file_size_bytes'') (\<lambda>file_size_bytes.
     let begin_snapshot = first_some (as_u64_json (json_field d ''begin_snapshot'')) (as_u64_json (json_field d ''snapshot_id'')) in
       let encoded = encode_value (pb_DataFileRow C)
         \<lparr>df_data_file_id = data_file_id, df_table_id = table_id, df_path = path,
          df_file_format = file_format,
          df_record_count = or_zero (first_some (as_u64_json (json_field d ''record_count'')) (as_u64_json (json_field d ''row_count''))),
          df_file_size_bytes = file_size_bytes, df_footer_size = as_i64 (json_field d ''footer_size''),
          df_encryption_key = as_str (json_field d ''encryption_key''),
          df_begin_snapshot = begin_snapshot,
          df_end_snapshot = as_u64_json (json_field d ''end_snapshot''),
          df_file_order = as_u64_json (json_field d ''file_order''),
          df_path_is_relative = as_bool (json_field d ''path_is_relative''),
          df_row_id_start = as_u64_json (json_field d ''row_id_start''),
          df_partition_id = as_u64_json (json_field d ''partition_id''),
          df_mapping_id = as_u64_json (json_field d ''mapping_id''),
          df_partial_max = as_str (json_field d ''partial_max'')\<rparr> in
       Inr (IW_Batch [(key_data_file table_id data_file_id, encoded),
         (key_data_file_by_snapshot table_id (or_zero begin_snapshot) data_file_id, encoded)]))))))"

definition delete_file_json :: "DeleteFileRow \<Rightarrow> Json" where
  "delete_file_json row = JObj
      [(''delete_file_id'', JU64 (del_delete_file_id row)),
       (''data_file_id'', JU64 (del_data_file_id row)), (''path'', JStr (del_path row)),
       (''delete_count'', JU64 (del_delete_count row)),
       (''file_size_bytes'', JU64 (del_file_size_bytes row)),
       (''snapshot_id'', JU64 (del_snapshot_id row)), (''begin_snapshot'', JU64 (delete_begin row)),
       (''end_snapshot'', json_opt_u64 (del_end_snapshot row))]"

definition import_delete_file :: "codecs \<Rightarrow> nat \<Rightarrow> string \<Rightarrow> Json \<Rightarrow> CatalogError + import_write" where
  "import_delete_file C line tbl d =
     rbind (req_u64 line tbl d ''delete_file_id'') (\<lambda>delete_file_id.
     rbind (req_u64 line tbl d ''data_file_id'') (\<lambda>data_file_id.
     rbind (req_str line tbl d ''path'') (\<lambda>path.
     rbind (req_u64 line tbl d ''file_size_bytes'') (\<lambda>file_size_bytes.
       Inr (IW_Put (key_delete_file data_file_id delete_file_id) (encode_value (pb_DeleteFileRow C)
         \<lparr>del_delete_file_id = delete_file_id, del_data_file_id = data_file_id, del_path = path,
          del_delete_count = or_zero (first_some (as_u64_json (json_field d ''delete_count'')) (as_u64_json (json_field d ''row_count''))),
          del_file_size_bytes = file_size_bytes,
          del_snapshot_id = or_zero (as_u64_json (json_field d ''snapshot_id'')),
          del_table_id = as_u64_json (json_field d ''table_id''),
          del_begin_snapshot = as_u64_json (json_field d ''begin_snapshot''),
          del_end_snapshot = as_u64_json (json_field d ''end_snapshot''),
          del_path_is_relative = as_bool (json_field d ''path_is_relative''),
          del_format = as_str (json_field d ''format''),
          del_footer_size = as_i64 (json_field d ''footer_size''),
          del_partial_max = as_str (json_field d ''partial_max'')\<rparr>))))))"

definition inlined_insert_json :: "base64 \<Rightarrow> InlinedInsertRow \<Rightarrow> Json" where
  "inlined_insert_json B row = JObj
      [(''table_id'', JU64 (ii_table_id row)), (''schema_version'', JU64 (ii_schema_version row)),
       (''row_id'', JU64 (ii_row_id row)), (''payload'', JStr (b64_encode B (ii_payload row))),
       (''begin_snapshot'', JU64 (ii_begin_snapshot row)),
       (''end_snapshot'', json_opt_u64 (ii_end_snapshot row))]"

definition import_inlined_insert :: "codecs \<Rightarrow> base64 \<Rightarrow> nat \<Rightarrow> string \<Rightarrow> Json \<Rightarrow> CatalogError + import_write" where
  "import_inlined_insert C B line tbl d =
     rbind (req_u64 line tbl d ''table_id'') (\<lambda>table_id.
     rbind (req_u64 line tbl d ''schema_version'') (\<lambda>schema_version.
     rbind (req_u64 line tbl d ''row_id'') (\<lambda>row_id.
     rbind (req_str line tbl d ''payload'') (\<lambda>payload.
     rbind (decode_payload B line tbl payload) (\<lambda>payload.
     rbind (req_u64 line tbl d ''begin_snapshot'') (\<lambda>begin_snapshot.
       Inr (IW_Put (key_inlined_insert table_id schema_version row_id) (encode_value (pb_InlinedInsertRow C)
         \<lparr>ii_table_id = table_id, ii_schema_version = schema_version, ii_row_id = row_id,
          ii_payload = payload, ii_begin_snapshot = begin_snapshot,
          ii_end_snapshot = as_u64_json (json_field d ''end_snapshot'')\<rparr>))))))))"

definition snapshot_changes_json :: "SnapshotChangesRow \<Rightarrow> Json" where
  "snapshot_changes_json row = JObj
      [(''snapshot_id'', JU64 (sc_snapshot_id row)), (''change_type'', JStr (sc_change_type row)),
       (''change_info'', json_opt_str (sc_change_info row)),
       (''schema_id'', json_opt_u64 (sc_schema_id row)),
       (''table_id'', json_opt_u64 (sc_table_id row)), (''author'', json_opt_str (sc_author row)),
       (''commit_message'', json_opt_str (sc_commit_message row)),
       (''commit_extra_info'', json_opt_str (sc_commit_extra_info row)),
       (''changes_made'', json_opt_str (sc_changes_made row))]"

definition import_snapshot_changes :: "codecs \<Rightarrow> nat \<Rightarrow> string \<Rightarrow> Json \<Rightarrow> CatalogError + import_write" where
  "import_snapshot_changes C line tbl d =
     rbind (req_u64 line tbl d ''snapshot_id'') (\<lambda>snapshot_id.
     rbind (req_str line tbl d ''change_type'') (\<lambda>change_type.
       Inr (IW_Put (key_snapshot_changes snapshot_id) (encode_value (pb_SnapshotChangesRow C)
         \<lparr>sc_snapshot_id = snapshot_id, sc_change_type = change_type,
          sc_change_info = as_str (json_field d ''change_info''),
          sc_schema_id = as_u64_json (json_field d ''schema_id''),
          sc_table_id = as_u64_json (json_field d ''table_id''),
          sc_author = as_str (json_field d ''author''),
          sc_commit_message = as_str (json_field d ''commit_message''),
          sc_commit_extra_info = as_str (json_field d ''commit_extra_info''),
          sc_changes_made = as_str (json_field d ''changes_made'')\<rparr>))))"

definition view_json :: "ViewRow \<Rightarrow> Json" where
  "view_json row = JObj
      [(''view_id'', JU64 (vr_view_id row)), (''schema_id'', JU64 (vr_schema_id row)),
       (''view_name'', JStr (vr_view_name row)), (''sql'', JStr (vr_sql row)),
       (''begin_snapshot'', JU64 (vr_begin_snapshot row)),
       (''end_snapshot'', json_opt_u64 (vr_end_snapshot row)),
       (''view_uuid'', json_opt_str (vr_view_uuid row)), (''dialect'', json_opt_str (vr_dialect row)),
       (''column_aliases'', json_opt_str (vr_column_aliases row))]"

definition import_view :: "codecs \<Rightarrow> nat \<Rightarrow> string \<Rightarrow> Json \<Rightarrow> CatalogError + import_write" where
  "import_view C line tbl d =
     rbind (req_u64 line tbl d ''view_id'') (\<lambda>view_id.
     rbind (req_u64 line tbl d ''schema_id'') (\<lambda>schema_id.
     rbind (req_u64 line tbl d ''begin_snapshot'') (\<lambda>begin_snapshot.
     rbind (req_str line tbl d ''view_name'') (\<lambda>view_name.
     rbind (req_str line tbl d ''sql'') (\<lambda>sql.
       Inr (IW_Put (key_view schema_id view_id begin_snapshot) (encode_value (pb_ViewRow C)
         \<lparr>vr_view_id = view_id, vr_schema_id = schema_id, vr_view_name = view_name, vr_sql = sql,
          vr_begin_snapshot = begin_snapshot,
          vr_end_snapshot = as_u64_json (json_field d ''end_snapshot''),
          vr_view_uuid = as_str (json_field d ''view_uuid''),
          vr_dialect = as_str (json_field d ''dialect''),
          vr_column_aliases = as_str (json_field d ''column_aliases'')\<rparr>)))))))"

definition macro_json :: "MacroRow \<Rightarrow> Json" where
  "macro_json row = JObj
      [(''macro_id'', JU64 (mr_macro_id row)), (''schema_id'', JU64 (mr_schema_id row)),
       (''macro_name'', JStr (mr_macro_name row)), (''macro_type'', JStr (mr_macro_type row)),
       (''begin_snapshot'', JU64 (mr_begin_snapshot row)),
       (''end_snapshot'', json_opt_u64 (mr_end_snapshot row)),
       (''macro_uuid'', json_opt_str (mr_macro_uuid row))]"

definition import_macro :: "codecs \<Rightarrow> nat \<Rightarrow> string \<Rightarrow> Json \<Rightarrow> CatalogError + import_write" where
  "import_macro C line tbl d =
     rbind (req_u64 line tbl d ''macro_id'') (\<lambda>macro_id.
     rbind (req_u64 line tbl d ''schema_id'') (\<lambda>schema_id.
     rbind (req_u64 line tbl d ''begin_snapshot'') (\<lambda>begin_snapshot.
     rbind (req_str line tbl d ''macro_name'') (\<lambda>macro_name.
     rbind (req_str line tbl d ''macro_type'') (\<lambda>macro_type.
       Inr (IW_Put (key_macro schema_id macro_id begin_snapshot) (encode_value (pb_MacroRow C)
         \<lparr>mr_macro_id = macro_id, mr_schema_id = schema_id, mr_macro_name = macro_name,
          mr_macro_type = macro_type, mr_begin_snapshot = begin_snapshot,
          mr_end_snapshot = as_u64_json (json_field d ''end_snapshot''),
          mr_macro_uuid = as_str (json_field d ''macro_uuid'')\<rparr>)))))))"

definition macro_impl_json :: "MacroImplRow \<Rightarrow> Json" where
  "macro_impl_json row = JObj
      [(''impl_id'', JU64 (mi_impl_id row)), (''macro_id'', JU64 (mi_macro_id row)),
       (''sql'', JStr (mi_sql row)), (''dialect'', json_opt_str (mi_dialect row)),
       (''impl_type'', json_opt_str (mi_impl_type row))]"

definition import_macro_impl :: "codecs \<Rightarrow> nat \<Rightarrow> string \<Rightarrow> Json \<Rightarrow> CatalogError + import_write" where
  "import_macro_impl C line tbl d =
     rbind (req_u64 line tbl d ''impl_id'') (\<lambda>impl_id.
     rbind (req_u64 line tbl d ''macro_id'') (\<lambda>macro_id.
     rbind (req_str line tbl d ''sql'') (\<lambda>sql.
       Inr (IW_Put (key_macro_impl macro_id impl_id) (encode_value (pb_MacroImplRow C)
         \<lparr>mi_impl_id = impl_id, mi_macro_id = macro_id, mi_sql = sql,
          mi_dialect = as_str (json_field d ''dialect''),
          mi_impl_type = as_str (json_field d ''impl_type'')\<rparr>)))))"

definition macro_parameters_json :: "MacroParametersRow \<Rightarrow> Json" where
  "macro_parameters_json row = JObj
      [(''macro_id'', JU64 (mp_macro_id row)), (''impl_id'', JU64 (mp_impl_id row)),
       (''column_id'', JU64 (mp_column_id row)), (''parameter_name'', JStr (mp_parameter_name row)),
       (''parameter_type'', JStr (mp_parameter_type row)),
       (''default_value'', json_opt_str (mp_default_value row)),
       (''default_value_type'', json_opt_str (mp_default_value_type row))]"

definition import_macro_parameters :: "codecs \<Rightarrow> nat \<Rightarrow> string \<Rightarrow> Json \<Rightarrow> CatalogError + import_write" where
  "import_macro_parameters C line tbl d =
     rbind (req_u64 line tbl d ''macro_id'') (\<lambda>macro_id.
     rbind (req_u64 line tbl d ''impl_id'') (\<lambda>impl_id.
     rbind (req_u64 line tbl d ''column_id'') (\<lambda>column_id.
     rbind (req_str line tbl d ''parameter_name'') (\<lambda>parameter_name.
     rbind (req_str line tbl d ''parameter_type'') (\<lambda>parameter_type.
       Inr (IW_Put (key_macro_parameters macro_id impl_id column_id) (encode_value (pb_MacroParametersRow C)
         \<lparr>mp_macro_id = macro_id, mp_impl_id = impl_id, mp_column_id = column_id,
          mp_parameter_name = parameter_name, mp_parameter_type = parameter_type,
          mp_default_value = as_str (json_field d ''default_value''),
          mp_default_value_type = as_str (json_field d ''default_value_type'')\<rparr>)))))))"

definition tag_json :: "bytes \<Rightarrow> TagRow \<Rightarrow> Json" where
  "tag_json k row = JObj
      [(''object_id'', JU64 (tg_object_id row)), (''tag_key'', JStr (tg_tag_key row)),
       (''tag_value'', JStr (tg_tag_value row)), (''begin_snapshot'', JU64 (tg_begin_snapshot row)),
       (''end_snapshot'', json_opt_u64 (tg_end_snapshot row)), (''tag_key_hash'', JU64 (key_hash 9 k))]"

definition import_tag :: "codecs \<Rightarrow> nat \<Rightarrow> string \<Rightarrow> Json \<Rightarrow> CatalogError + import_write" where
  "import_tag C line tbl d =
     rbind (req_u64 line tbl d ''object_id'') (\<lambda>object_id.
     rbind (req_u64 line tbl d ''begin_snapshot'') (\<lambda>begin_snapshot.
     rbind (req_str line tbl d ''tag_key'') (\<lambda>tag_key.
     rbind (req_str line tbl d ''tag_value'') (\<lambda>tag_value.
       Inr (IW_Put (key_tag object_id (or_zero (as_u64_json (json_field d ''tag_key_hash''))) begin_snapshot) (encode_value (pb_TagRow C)
         \<lparr>tg_object_id = object_id, tg_tag_key = tag_key, tg_tag_value = tag_value,
          tg_begin_snapshot = begin_snapshot,
          tg_end_snapshot = as_u64_json (json_field d ''end_snapshot'')\<rparr>))))))"

definition column_tag_json :: "bytes \<Rightarrow> ColumnTagRow \<Rightarrow> Json" where
  "column_tag_json k row = JObj
      [(''table_id'', JU64 (ctg_table_id row)), (''column_id'', JU64 (ctg_column_id row)),
       (''tag_key'', JStr (ctg_tag_key row)), (''tag_value'', JStr (ctg_tag_value row)),
       (''begin_snapshot'', JU64 (ctg_begin_snapshot row)),
       (''end_snapshot'', json_opt_u64 (ctg_end_snapshot row)),
       (''tag_key_hash'', JU64 (key_hash 17 k))]"

definition import_column_tag :: "codecs \<Rightarrow> nat \<Rightarrow> string \<Rightarrow> Json \<Rightarrow> CatalogError + import_write" where
  "import_column_tag C line tbl d =
     rbind (req_u64 line tbl d ''table_id'') (\<lambda>table_id.
     rbind (req_u64 line tbl d ''column_id'') (\<lambda>column_id.
     rbind (req_u64 line tbl d ''begin_snapshot'') (\<lambda>begin_snapshot.
     rbind (req_str line tbl d ''tag_key'') (\<lambda>tag_key.
     rbind (req_str line tbl d ''tag_value'') (\<lambda>tag_value.
       Inr (IW_Put (key_column_tag table_id column_id (or_zero (as_u64_json (json_field d ''tag_key_hash''))) begin_snapshot) (encode_value (pb_ColumnTagRow C)
         \<lparr>ctg_table_id = table_id, ctg_column_id = column_id, ctg_tag_key = tag_key,
          ctg_tag_value = tag_value, ctg_begin_snapshot = begin_snapshot,
          ctg_end_snapshot = as_u64_json (json_field d ''end_snapshot'')\<rparr>)))))))"

definition partition_info_json :: "PartitionInfoRow \<Rightarrow> Json" where
  "partition_info_json row = JObj
      [(''partition_id'', JU64 (pi_partition_id row)), (''table_id'', JU64 (pi_table_id row)),
       (''begin_snapshot'', JU64 (pi_begin_snapshot row)),
       (''end_snapshot'', json_opt_u64 (pi_end_snapshot row))]"

definition import_partition_info :: "codecs \<Rightarrow> nat \<Rightarrow> string \<Rightarrow> Json \<Rightarrow> CatalogError + import_write" where
  "import_partition_info C line tbl d =
     rbind (req_u64 line tbl d ''partition_id'') (\<lambda>partition_id.
     rbind (req_u64 line tbl d ''table_id'') (\<lambda>table_id.
     rbind (req_u64 line tbl d ''begin_snapshot'') (\<lambda>begin_snapshot.
       Inr (IW_Put (key_partition_info table_id partition_id begin_snapshot) (encode_value (pb_PartitionInfoRow C)
         \<lparr>pi_partition_id = partition_id, pi_table_id = table_id, pi_begin_snapshot = begin_snapshot,
          pi_end_snapshot = as_u64_json (json_field d ''end_snapshot'')\<rparr>)))))"

definition sort_info_json :: "SortInfoRow \<Rightarrow> Json" where
  "sort_info_json row = JObj
      [(''sort_id'', JU64 (si_sort_id row)), (''table_id'', JU64 (si_table_id row)),
       (''begin_snapshot'', JU64 (si_begin_snapshot row)),
       (''end_snapshot'', json_opt_u64 (si_end_snapshot row))]"

definition import_sort_info :: "codecs \<Rightarrow> nat \<Rightarrow> string \<Rightarrow> Json \<Rightarrow> CatalogError + import_write" where
  "import_sort_info C line tbl d =
     rbind (req_u64 line tbl d ''sort_id'') (\<lambda>sort_id.
     rbind (req_u64 line tbl d ''table_id'') (\<lambda>table_id.
     rbind (req_u64 line tbl d ''begin_snapshot'') (\<lambda>begin_snapshot.
       Inr (IW_Put (key_sort_info table_id sort_id begin_snapshot) (encode_value (pb_SortInfoRow C)
         \<lparr>si_sort_id = sort_id, si_table_id = table_id, si_begin_snapshot = begin_snapshot,
          si_end_snapshot = as_u64_json (json_field d ''end_snapshot'')\<rparr>)))))"

definition sort_expression_json :: "SortExpressionRow \<Rightarrow> Json" where
  "sort_expression_json row = JObj
      [(''sort_id'', JU64 (se_sort_id row)), (''sort_key_index'', JU64 (se_sort_key_index row)),
       (''column_id'', JU64 (se_column_id row)),
       (''sort_direction'', json_opt_str (se_sort_direction row)),
       (''null_order'', json_opt_str (se_null_order row)),
       (''table_id'', json_opt_u64 (se_table_id row)),
       (''expression'', json_opt_str (se_expression row)),
       (''dialect'', json_opt_str (se_dialect row))]"

definition import_sort_expression :: "codecs \<Rightarrow> nat \<Rightarrow> string \<Rightarrow> Json \<Rightarrow> CatalogError + import_write" where
  "import_sort_expression C line tbl d =
     rbind (req_u64 line tbl d ''sort_id'') (\<lambda>sort_id.
     rbind (req_u64 line tbl d ''sort_key_index'') (\<lambda>sort_key_index.
     rbind (req_u64 line tbl d ''column_id'') (\<lambda>column_id.
       Inr (IW_Put (key_sort_expression sort_id sort_key_index) (encode_value (pb_SortExpressionRow C)
         \<lparr>se_sort_id = sort_id, se_sort_key_index = sort_key_index, se_column_id = column_id,
          se_sort_direction = as_str (json_field d ''sort_direction''),
          se_null_order = as_str (json_field d ''null_order''),
          se_table_id = as_u64_json (json_field d ''table_id''),
          se_expression = as_str (json_field d ''expression''),
          se_dialect = as_str (json_field d ''dialect'')\<rparr>)))))"

definition schema_version_json :: "SchemaVersionsRow \<Rightarrow> Json" where
  "schema_version_json row = JObj
      [(''table_id'', JU64 (sv_table_id row)), (''begin_snapshot'', JU64 (sv_begin_snapshot row)),
       (''schema_version'', JU64 (sv_schema_version row))]"

definition import_schema_version :: "codecs \<Rightarrow> nat \<Rightarrow> string \<Rightarrow> Json \<Rightarrow> CatalogError + import_write" where
  "import_schema_version C line tbl d =
     rbind (req_u64 line tbl d ''table_id'') (\<lambda>table_id.
     rbind (req_u64 line tbl d ''begin_snapshot'') (\<lambda>begin_snapshot.
     rbind (req_u64 line tbl d ''schema_version'') (\<lambda>schema_version.
       Inr (IW_Put (key_schema_versions table_id begin_snapshot) (encode_value (pb_SchemaVersionsRow C)
         \<lparr>sv_table_id = table_id, sv_begin_snapshot = begin_snapshot, sv_schema_version = schema_version\<rparr>)))))"

definition table_stats_json :: "TableStatsRow \<Rightarrow> Json" where
  "table_stats_json row = JObj
      [(''table_id'', JU64 (ts_table_id row)), (''record_count'', JU64 (ts_record_count row)),
       (''file_size_bytes'', JU64 (ts_file_size_bytes row)),
       (''next_row_id'', json_opt_u64 (ts_next_row_id row))]"

definition import_table_stats :: "codecs \<Rightarrow> nat \<Rightarrow> string \<Rightarrow> Json \<Rightarrow> CatalogError + import_write" where
  "import_table_stats C line tbl d =
     rbind (req_u64 line tbl d ''table_id'') (\<lambda>table_id.
       Inr (IW_Put (key_table_stats table_id) (encode_value (pb_TableStatsRow C)
         \<lparr>ts_table_id = table_id, ts_record_count = or_zero (as_u64_json (json_field d ''record_count'')),
          ts_internal_file_count = 0,
          ts_file_size_bytes = or_zero (as_u64_json (json_field d ''file_size_bytes'')),
          ts_next_row_id = as_u64_json (json_field d ''next_row_id'')\<rparr>)))"

definition table_column_stats_json :: "TableColumnStatsRow \<Rightarrow> Json" where
  "table_column_stats_json row = JObj
      [(''table_id'', JU64 (tcs_table_id row)), (''column_id'', JU64 (tcs_column_id row)),
       (''contains_null'', JBool (tcs_contains_null row)),
       (''min_value'', json_opt_str (tcs_min_value row)),
       (''max_value'', json_opt_str (tcs_max_value row)),
       (''contains_nan'', json_opt_bool (tcs_contains_nan row)),
       (''extra_stats'', json_opt_str (tcs_extra_stats row))]"

definition import_table_column_stats :: "codecs \<Rightarrow> nat \<Rightarrow> string \<Rightarrow> Json \<Rightarrow> CatalogError + import_write" where
  "import_table_column_stats C line tbl d =
     rbind (req_u64 line tbl d ''table_id'') (\<lambda>table_id.
     rbind (req_u64 line tbl d ''column_id'') (\<lambda>column_id.
       Inr (IW_Put (key_table_column_stats table_id column_id) (encode_value (pb_TableColumnStatsRow C)
         \<lparr>tcs_table_id = table_id, tcs_column_id = column_id,
          tcs_contains_null = or_false (as_bool (json_field d ''contains_null'')),
          tcs_min_value = as_str (json_field d ''min_value''),
          tcs_max_value = as_str (json_field d ''max_value''),
          tcs_contains_nan = as_bool (json_field d ''contains_nan''),
          tcs_extra_stats = as_str (json_field d ''extra_stats'')\<rparr>))))"

definition file_column_stats_json :: "FileColumnStatsRow \<Rightarrow> Json" where
  "file_column_stats_json row = JObj
      [(''table_id'', JU64 (fcs_table_id row)), (''column_id'', JU64 (fcs_column_id row)),
       (''data_file_id'', JU64 (fcs_data_file_id row)),
       (''contains_null'', JBool (fcs_contains_null row)),
       (''min_value'', json_opt_str (fcs_min_value row)),
       (''max_value'', json_opt_str (fcs_max_value row)),
       (''contains_nan'', JBool (fcs_contains_nan row)),
       (''column_size_bytes'', json_opt_u64 (fcs_column_size_bytes row)),
       (''value_count'', json_opt_u64 (fcs_value_count row)),
       (''null_count'', json_opt_u64 (fcs_null_count row)),
       (''extra_stats'', json_opt_str (fcs_extra_stats row))]"

definition import_file_column_stats :: "codecs \<Rightarrow> nat \<Rightarrow> string \<Rightarrow> Json \<Rightarrow> CatalogError + import_write" where
  "import_file_column_stats C line tbl d =
     rbind (req_u64 line tbl d ''table_id'') (\<lambda>table_id.
     rbind (req_u64 line tbl d ''column_id'') (\<lambda>column_id.
     rbind (req_u64 line tbl d ''data_file_id'') (\<lambda>data_file_id.
       Inr (IW_Put (key_file_column_stats table_id column_id data_file_id) (encode_value (pb_FileColumnStatsRow C)
         \<lparr>fcs_table_id = table_id, fcs_column_id = column_id, fcs_data_file_id = data_file_id,
          fcs_contains_null = or_false (as_bool (json_field d ''contains_null'')),
          fcs_min_value = as_str (json_field d ''min_value''),
          fcs_max_value = as_str (json_field d ''max_value''),
          fcs_contains_nan = or_false (as_bool (json_field d ''contains_nan'')),
          fcs_column_size_bytes = as_u64_json (json_field d ''column_size_bytes''),
          fcs_value_count = as_u64_json (json_field d ''value_count''),
          fcs_null_count = as_u64_json (json_field d ''null_count''),
          fcs_extra_stats = as_str (json_field d ''extra_stats'')\<rparr>)))))"

definition column_mapping_json :: "ColumnMappingRow \<Rightarrow> Json" where
  "column_mapping_json row = JObj
      [(''mapping_id'', JU64 (cm_mapping_id row)), (''table_id'', JU64 (cm_table_id row)),
       (''file_column_name'', json_opt_str (cm_file_column_name row)),
       (''column_id'', json_opt_u64 (cm_column_id row)),
       (''mapping_type'', json_opt_str (cm_mapping_type row))]"

definition import_column_mapping :: "codecs \<Rightarrow> nat \<Rightarrow> string \<Rightarrow> Json \<Rightarrow> CatalogError + import_write" where
  "import_column_mapping C line tbl d =
     rbind (req_u64 line tbl d ''mapping_id'') (\<lambda>mapping_id.
     rbind (req_u64 line tbl d ''table_id'') (\<lambda>table_id.
       Inr (IW_Put (key_column_mapping table_id mapping_id) (encode_value (pb_ColumnMappingRow C)
         \<lparr>cm_mapping_id = mapping_id, cm_table_id = table_id,
          cm_file_column_name = as_str (json_field d ''file_column_name''),
          cm_column_id = as_u64_json (json_field d ''column_id''),
          cm_mapping_type = as_str (json_field d ''mapping_type'')\<rparr>))))"

definition name_mapping_json :: "NameMappingRow \<Rightarrow> Json" where
  "name_mapping_json row = JObj
      [(''mapping_id'', JU64 (nm_mapping_id row)), (''column_id'', JU64 (nm_column_id row)),
       (''name'', JStr (nm_name row)), (''source_name_hash'', json_opt_u64 (nm_source_name_hash row)),
       (''target_field_id'', json_opt_u64 (nm_target_field_id row)),
       (''parent_column'', json_opt_u64 (nm_parent_column row)),
       (''is_partition'', json_opt_bool (nm_is_partition row))]"

definition import_name_mapping :: "codecs \<Rightarrow> nat \<Rightarrow> string \<Rightarrow> Json \<Rightarrow> CatalogError + import_write" where
  "import_name_mapping C line tbl d =
     rbind (req_u64 line tbl d ''mapping_id'') (\<lambda>mapping_id.
     rbind (req_u64 line tbl d ''column_id'') (\<lambda>column_id.
     rbind (req_str line tbl d ''name'') (\<lambda>name.
       Inr (IW_Put (key_name_mapping mapping_id column_id (or_zero (as_u64_json (json_field d ''source_name_hash'')))) (encode_value (pb_NameMappingRow C)
         \<lparr>nm_mapping_id = mapping_id, nm_column_id = column_id, nm_name = name,
          nm_source_name_hash = as_u64_json (json_field d ''source_name_hash''),
          nm_target_field_id = as_u64_json (json_field d ''target_field_id''),
          nm_parent_column = as_u64_json (json_field d ''parent_column''),
          nm_is_partition = as_bool (json_field d ''is_partition'')\<rparr>)))))"

definition file_partition_value_json :: "FilePartitionValueRow \<Rightarrow> Json" where
  "file_partition_value_json row = JObj
      [(''table_id'', JU64 (fpv_table_id row)),
       (''partition_key_index'', JU64 (fpv_partition_key_index row)),
       (''data_file_id'', JU64 (fpv_data_file_id row)),
       (''partition_value'', json_opt_str (fpv_partition_value row))]"

definition import_file_partition_value :: "codecs \<Rightarrow> nat \<Rightarrow> string \<Rightarrow> Json \<Rightarrow> CatalogError + import_write" where
  "import_file_partition_value C line tbl d =
     rbind (req_u64 line tbl d ''table_id'') (\<lambda>table_id.
     rbind (req_u64 line tbl d ''partition_key_index'') (\<lambda>partition_key_index.
     rbind (req_u64 line tbl d ''data_file_id'') (\<lambda>data_file_id.
       Inr (IW_Put (key_file_partition_value table_id partition_key_index data_file_id) (encode_value (pb_FilePartitionValueRow C)
         \<lparr>fpv_table_id = table_id, fpv_partition_key_index = partition_key_index,
          fpv_data_file_id = data_file_id,
          fpv_partition_value = as_str (json_field d ''partition_value'')\<rparr>)))))"

definition file_variant_stats_json :: "bytes \<Rightarrow> FileVariantStatsRow \<Rightarrow> Json" where
  "file_variant_stats_json k row = JObj
      [(''table_id'', JU64 (fvs_table_id row)), (''column_id'', JU64 (fvs_column_id row)),
       (''data_file_id'', JU64 (fvs_data_file_id row)), (''variant_key'', JStr (fvs_variant_key row)),
       (''variant_path_hash'', JU64 (key_hash 17 k)),
       (''min_value'', json_opt_str (fvs_min_value row)),
       (''max_value'', json_opt_str (fvs_max_value row)),
       (''shredded_type'', json_opt_str (fvs_shredded_type row)),
       (''column_size_bytes'', json_opt_u64 (fvs_column_size_bytes row)),
       (''value_count'', json_opt_u64 (fvs_value_count row)),
       (''null_count'', json_opt_u64 (fvs_null_count row)),
       (''contains_nan'', json_opt_bool (fvs_contains_nan row)),
       (''extra_stats'', json_opt_str (fvs_extra_stats row))]"

definition import_file_variant_stats :: "codecs \<Rightarrow> nat \<Rightarrow> string \<Rightarrow> Json \<Rightarrow> CatalogError + import_write" where
  "import_file_variant_stats C line tbl d =
     rbind (req_u64 line tbl d ''table_id'') (\<lambda>table_id.
     rbind (req_u64 line tbl d ''column_id'') (\<lambda>column_id.
     rbind (req_u64 line tbl d ''data_file_id'') (\<lambda>data_file_id.
     rbind (req_str line tbl d ''variant_key'') (\<lambda>variant_key.
       Inr (IW_Put (key_file_variant_stats table_id column_id (or_zero (as_u64_json (json_field d ''variant_path_hash''))) data_file_id) (encode_value (pb_FileVariantStatsRow C)
         \<lparr>fvs_table_id = table_id, fvs_column_id = column_id, fvs_deprecated_variant_path_hash = None,
          fvs_data_file_id = data_file_id, fvs_variant_key = variant_key,
          fvs_min_value = as_str (json_field d ''min_value''),
          fvs_max_value = as_str (json_field d ''max_value''),
          fvs_shredded_type = as_str (json_field d ''shredded_type''),
          fvs_column_size_bytes = as_u64_json (json_field d ''column_size_bytes''),
          fvs_value_count = as_u64_json (json_field d ''value_count''),
          fvs_null_count = as_u64_json (json_field d ''null_count''),
          fvs_contains_nan = as_bool (json_field d ''contains_nan''),
          fvs_extra_stats = as_str (json_field d ''extra_stats'')\<rparr>))))))"

definition encrypted_secret_json :: "EncryptedSecretRow \<Rightarrow> Json" where
  "encrypted_secret_json row = JObj
      [(''secret_id'', JU64 (ecs_secret_id row)), (''secret_name'', JStr (ecs_secret_name row)),
       (''encrypted_secret'', JStr ''<redacted>'')]"

definition import_encrypted_secret :: "codecs \<Rightarrow> nat \<Rightarrow> string \<Rightarrow> Json \<Rightarrow> CatalogError + import_write" where
  "import_encrypted_secret C line tbl d =
     rbind (req_u64 line tbl d ''secret_id'') (\<lambda>secret_id.
     rbind (req_str line tbl d ''secret_name'') (\<lambda>secret_name.
       Inr (IW_Put (key_encrypted_secret secret_id) (encode_value (pb_EncryptedSecretRow C)
         \<lparr>ecs_secret_id = secret_id, ecs_secret_name = secret_name,
          ecs_encrypted_secret = (case as_str (json_field d ''encrypted_secret'') of Some s \<Rightarrow> s | None \<Rightarrow> ''<redacted>'')\<rparr>))))"

definition encryption_key_json :: "EncryptionKeyRow \<Rightarrow> Json" where
  "encryption_key_json row = JObj
      [(''catalog_id'', JU64 (ek_catalog_id row)), (''begin_snapshot'', JU64 (ek_begin_snapshot row)),
       (''end_snapshot'', json_opt_u64 (ek_end_snapshot row)),
       (''encryption_type'', JStr (ek_encryption_type row)),
       (''key_id'', json_opt_str (ek_key_id row)), (''encryption_key'', JStr ''<redacted>'')]"

definition import_encryption_key :: "codecs \<Rightarrow> nat \<Rightarrow> string \<Rightarrow> Json \<Rightarrow> CatalogError + import_write" where
  "import_encryption_key C line tbl d =
     rbind (req_u64 line tbl d ''catalog_id'') (\<lambda>catalog_id.
     rbind (req_u64 line tbl d ''begin_snapshot'') (\<lambda>begin_snapshot.
     rbind (req_str line tbl d ''encryption_type'') (\<lambda>encryption_type.
       Inr (IW_Put (key_encryption_key catalog_id begin_snapshot) (encode_value (pb_EncryptionKeyRow C)
         \<lparr>ek_catalog_id = catalog_id, ek_begin_snapshot = begin_snapshot,
          ek_end_snapshot = as_u64_json (json_field d ''end_snapshot''),
          ek_encryption_type = encryption_type, ek_key_id = as_str (json_field d ''key_id''),
          ek_encryption_key = as_str (json_field d ''encryption_key'')\<rparr>)))))"

section \<open>Rows after a round trip\<close>

text \<open>The row that an export and an import leave of a row: the optional fields that the export does not write are
  absent, the number of files in the table statistics is zero, secrets and keys are redacted.\<close>

definition snapshot_carried :: "SnapshotRow \<Rightarrow> SnapshotRow" where
  "snapshot_carried row = row\<lparr>sn_next_catalog_id := None, sn_next_file_id := None\<rparr>"

definition schema_carried :: "SchemaRow \<Rightarrow> SchemaRow" where
  "schema_carried row = row\<lparr>sr_schema_uuid := None, sr_path := None, sr_path_is_relative := None\<rparr>"

definition table_carried :: "TableRow \<Rightarrow> TableRow" where
  "table_carried row = row\<lparr>tr_path_is_relative := None\<rparr>"

definition column_carried :: "ColumnRow \<Rightarrow> ColumnRow" where
  "column_carried row = row\<lparr>cr_initial_default := None,
     cr_default_value_type := None,
     cr_default_value_dialect := None,
     cr_parent_column := None\<rparr>"

definition data_file_carried :: "DataFileRow \<Rightarrow> DataFileRow" where
  "data_file_carried row = row\<lparr>df_encryption_key := None,
     df_begin_snapshot := Some (or_zero (df_begin_snapshot row)),
     df_file_order := None,
     df_path_is_relative := None,
     df_row_id_start := None,
     df_partition_id := None,
     df_mapping_id := None,
     df_partial_max := None\<rparr>"

definition delete_file_carried :: "DeleteFileRow \<Rightarrow> DeleteFileRow" where
  "delete_file_carried row = row\<lparr>del_table_id := None,
     del_begin_snapshot := Some (delete_begin row),
     del_path_is_relative := None,
     del_format := None, del_footer_size := None, del_partial_max := None\<rparr>"

definition table_stats_carried :: "TableStatsRow \<Rightarrow> TableStatsRow" where
  "table_stats_carried row = row\<lparr>ts_internal_file_count := 0\<rparr>"

definition file_variant_stats_carried :: "FileVariantStatsRow \<Rightarrow> FileVariantStatsRow" where
  "file_variant_stats_carried row = row\<lparr>fvs_deprecated_variant_path_hash := None\<rparr>"

definition encrypted_secret_carried :: "EncryptedSecretRow \<Rightarrow> EncryptedSecretRow" where
  "encrypted_secret_carried row = row\<lparr>ecs_encrypted_secret := ''<redacted>''\<rparr>"

definition encryption_key_carried :: "EncryptionKeyRow \<Rightarrow> EncryptionKeyRow" where
  "encryption_key_carried row = row\<lparr>ek_encryption_key := Some ''<redacted>''\<rparr>"

section \<open>Facts\<close>

lemma as_u64_json_opt [simp]: "as_u64_json (json_opt_u64 x) = x"
  by (cases x) (simp_all add: json_opt_u64_def)

lemma as_str_opt [simp]: "as_str (json_opt_str x) = x"
  by (cases x) (simp_all add: json_opt_str_def)

lemma as_bool_opt [simp]: "as_bool (json_opt_bool x) = x"
  by (cases x) (simp_all add: json_opt_bool_def)

lemma as_i64_opt [simp]: "as_i64 (json_opt_i64 x) = x"
proof (cases x)
  case (Some n)
  have "unat n < 2 ^ 63" if "0 \<le> sint n"
    using that unsigned_less [of n, where ?'a = int] by (simp add: sint_u64 split: if_splits)
  with Some show ?thesis by (auto simp: json_opt_i64_def json_i64_def)
qed (simp add: json_opt_i64_def)

lemma json_opt_some [simp]:
  "json_opt_u64 (Some n) = JU64 n" "json_opt_u64 None = JNull"
  "json_opt_str (Some s) = JStr s" "json_opt_str None = JNull"
  by (simp_all add: json_opt_u64_def json_opt_str_def)

lemma first_some_simps [simp]: "first_some (Some a) y = Some a" "first_some None y = y" "first_some x None = x"
  by (simp_all add: first_some_def split: option.splits)

lemma or_zero_simps [simp]: "or_zero (Some n) = n" "or_zero None = 0"
  by (simp_all add: or_zero_def)

lemma or_false_simps [simp]: "or_false (Some b) = b" "or_false None = False"
  by (simp_all add: or_false_def)

lemmas export_json_simps = json_field_def req_u64_def req_str_def req_bool_def ok_or_def Let_def delete_begin_def

lemma import_snapshot_json:
  "import_snapshot C line tbl (snapshot_json row) =
     Inr (IW_Put (key_snapshot (sn_snapshot_id row)) (encode_value (pb_SnapshotRow C) (snapshot_carried row)))"
  by (cases row) (simp add: import_snapshot_def snapshot_json_def snapshot_carried_def export_json_simps)

lemma import_schema_json:
  "import_schema C line tbl (schema_json row) =
     Inr (IW_Put (key_schema (sr_schema_id row)) (encode_value (pb_SchemaRow C) (schema_carried row)))"
  by (cases row) (simp add: import_schema_def schema_json_def schema_carried_def export_json_simps)

lemma import_table_json:
  "import_table C line tbl (table_json row) =
     Inr (IW_Put (key_table (tr_schema_id row) (tr_table_id row) (tr_begin_snapshot row)) (encode_value (pb_TableRow C) (table_carried row)))"
  by (cases row) (simp add: import_table_def table_json_def table_carried_def export_json_simps)

lemma import_column_json:
  "import_column C line tbl (column_json row) =
     Inr (IW_Put (key_column (cr_table_id row) (cr_column_id row) (cr_begin_snapshot row)) (encode_value (pb_ColumnRow C) (column_carried row)))"
  by (cases row) (simp add: import_column_def column_json_def column_carried_def export_json_simps)

lemma import_data_file_json:
  "import_data_file C line tbl (data_file_json row) =
     Inr (IW_Batch [(key_data_file (df_table_id row) (df_data_file_id row), encode_value (pb_DataFileRow C) (data_file_carried row)),
       (key_data_file_by_snapshot (df_table_id row) (or_zero (df_begin_snapshot row)) (df_data_file_id row),
        encode_value (pb_DataFileRow C) (data_file_carried row))])"
  by (cases row) (simp add: import_data_file_def data_file_json_def data_file_carried_def export_json_simps)

lemma import_delete_file_json:
  "import_delete_file C line tbl (delete_file_json row) =
     Inr (IW_Put (key_delete_file (del_data_file_id row) (del_delete_file_id row)) (encode_value (pb_DeleteFileRow C) (delete_file_carried row)))"
  by (cases row) (simp add: import_delete_file_def delete_file_json_def delete_file_carried_def export_json_simps)

lemma import_inlined_insert_json:
  "base64_ok B \<Longrightarrow> import_inlined_insert C B line tbl (inlined_insert_json B row) =
     Inr (IW_Put (key_inlined_insert (ii_table_id row) (ii_schema_version row) (ii_row_id row)) (encode_value (pb_InlinedInsertRow C) row))"
  by (cases row) (simp add: import_inlined_insert_def inlined_insert_json_def decode_payload_def base64_ok_def export_json_simps)

lemma import_snapshot_changes_json:
  "import_snapshot_changes C line tbl (snapshot_changes_json row) =
     Inr (IW_Put (key_snapshot_changes (sc_snapshot_id row)) (encode_value (pb_SnapshotChangesRow C) row))"
  by (cases row) (simp add: import_snapshot_changes_def snapshot_changes_json_def export_json_simps)

lemma import_view_json:
  "import_view C line tbl (view_json row) =
     Inr (IW_Put (key_view (vr_schema_id row) (vr_view_id row) (vr_begin_snapshot row)) (encode_value (pb_ViewRow C) row))"
  by (cases row) (simp add: import_view_def view_json_def export_json_simps)

lemma import_macro_json:
  "import_macro C line tbl (macro_json row) =
     Inr (IW_Put (key_macro (mr_schema_id row) (mr_macro_id row) (mr_begin_snapshot row)) (encode_value (pb_MacroRow C) row))"
  by (cases row) (simp add: import_macro_def macro_json_def export_json_simps)

lemma import_macro_impl_json:
  "import_macro_impl C line tbl (macro_impl_json row) =
     Inr (IW_Put (key_macro_impl (mi_macro_id row) (mi_impl_id row)) (encode_value (pb_MacroImplRow C) row))"
  by (cases row) (simp add: import_macro_impl_def macro_impl_json_def export_json_simps)

lemma import_macro_parameters_json:
  "import_macro_parameters C line tbl (macro_parameters_json row) =
     Inr (IW_Put (key_macro_parameters (mp_macro_id row) (mp_impl_id row) (mp_column_id row)) (encode_value (pb_MacroParametersRow C) row))"
  by (cases row) (simp add: import_macro_parameters_def macro_parameters_json_def export_json_simps)

lemma import_tag_json:
  "import_tag C line tbl (tag_json k row) =
     Inr (IW_Put (key_tag (tg_object_id row) (key_hash 9 k) (tg_begin_snapshot row)) (encode_value (pb_TagRow C) row))"
  by (cases row) (simp add: import_tag_def tag_json_def export_json_simps)

lemma import_column_tag_json:
  "import_column_tag C line tbl (column_tag_json k row) =
     Inr (IW_Put (key_column_tag (ctg_table_id row) (ctg_column_id row) (key_hash 17 k) (ctg_begin_snapshot row)) (encode_value (pb_ColumnTagRow C) row))"
  by (cases row) (simp add: import_column_tag_def column_tag_json_def export_json_simps)

lemma import_partition_info_json:
  "import_partition_info C line tbl (partition_info_json row) =
     Inr (IW_Put (key_partition_info (pi_table_id row) (pi_partition_id row) (pi_begin_snapshot row)) (encode_value (pb_PartitionInfoRow C) row))"
  by (cases row) (simp add: import_partition_info_def partition_info_json_def export_json_simps)

lemma import_sort_info_json:
  "import_sort_info C line tbl (sort_info_json row) =
     Inr (IW_Put (key_sort_info (si_table_id row) (si_sort_id row) (si_begin_snapshot row)) (encode_value (pb_SortInfoRow C) row))"
  by (cases row) (simp add: import_sort_info_def sort_info_json_def export_json_simps)

lemma import_sort_expression_json:
  "import_sort_expression C line tbl (sort_expression_json row) =
     Inr (IW_Put (key_sort_expression (se_sort_id row) (se_sort_key_index row)) (encode_value (pb_SortExpressionRow C) row))"
  by (cases row) (simp add: import_sort_expression_def sort_expression_json_def export_json_simps)

lemma import_schema_version_json:
  "import_schema_version C line tbl (schema_version_json row) =
     Inr (IW_Put (key_schema_versions (sv_table_id row) (sv_begin_snapshot row)) (encode_value (pb_SchemaVersionsRow C) row))"
  by (cases row) (simp add: import_schema_version_def schema_version_json_def export_json_simps)

lemma import_table_stats_json:
  "import_table_stats C line tbl (table_stats_json row) =
     Inr (IW_Put (key_table_stats (ts_table_id row)) (encode_value (pb_TableStatsRow C) (table_stats_carried row)))"
  by (cases row) (simp add: import_table_stats_def table_stats_json_def table_stats_carried_def export_json_simps)

lemma import_table_column_stats_json:
  "import_table_column_stats C line tbl (table_column_stats_json row) =
     Inr (IW_Put (key_table_column_stats (tcs_table_id row) (tcs_column_id row)) (encode_value (pb_TableColumnStatsRow C) row))"
  by (cases row) (simp add: import_table_column_stats_def table_column_stats_json_def export_json_simps)

lemma import_file_column_stats_json:
  "import_file_column_stats C line tbl (file_column_stats_json row) =
     Inr (IW_Put (key_file_column_stats (fcs_table_id row) (fcs_column_id row) (fcs_data_file_id row)) (encode_value (pb_FileColumnStatsRow C) row))"
  by (cases row) (simp add: import_file_column_stats_def file_column_stats_json_def export_json_simps)

lemma import_column_mapping_json:
  "import_column_mapping C line tbl (column_mapping_json row) =
     Inr (IW_Put (key_column_mapping (cm_table_id row) (cm_mapping_id row)) (encode_value (pb_ColumnMappingRow C) row))"
  by (cases row) (simp add: import_column_mapping_def column_mapping_json_def export_json_simps)

lemma import_name_mapping_json:
  "import_name_mapping C line tbl (name_mapping_json row) =
     Inr (IW_Put (key_name_mapping (nm_mapping_id row) (nm_column_id row) (or_zero (nm_source_name_hash row))) (encode_value (pb_NameMappingRow C) row))"
  by (cases row) (simp add: import_name_mapping_def name_mapping_json_def export_json_simps)

lemma import_file_partition_value_json:
  "import_file_partition_value C line tbl (file_partition_value_json row) =
     Inr (IW_Put (key_file_partition_value (fpv_table_id row) (fpv_partition_key_index row) (fpv_data_file_id row)) (encode_value (pb_FilePartitionValueRow C) row))"
  by (cases row) (simp add: import_file_partition_value_def file_partition_value_json_def export_json_simps)

lemma import_file_variant_stats_json:
  "import_file_variant_stats C line tbl (file_variant_stats_json k row) =
     Inr (IW_Put (key_file_variant_stats (fvs_table_id row) (fvs_column_id row) (key_hash 17 k) (fvs_data_file_id row)) (encode_value (pb_FileVariantStatsRow C) (file_variant_stats_carried row)))"
  by (cases row) (simp add: import_file_variant_stats_def file_variant_stats_json_def file_variant_stats_carried_def export_json_simps)

lemma import_encrypted_secret_json:
  "import_encrypted_secret C line tbl (encrypted_secret_json row) =
     Inr (IW_Put (key_encrypted_secret (ecs_secret_id row)) (encode_value (pb_EncryptedSecretRow C) (encrypted_secret_carried row)))"
  by (cases row) (simp add: import_encrypted_secret_def encrypted_secret_json_def encrypted_secret_carried_def export_json_simps)

lemma import_encryption_key_json:
  "import_encryption_key C line tbl (encryption_key_json row) =
     Inr (IW_Put (key_encryption_key (ek_catalog_id row) (ek_begin_snapshot row)) (encode_value (pb_EncryptionKeyRow C) (encryption_key_carried row)))"
  by (cases row) (simp add: import_encryption_key_def encryption_key_json_def encryption_key_carried_def export_json_simps)

end
