(* ===== verification/Export.thy ===== *)
theory Export
  imports Export_Rows
begin

text \<open>
  Export and import of a catalog, \<open>crates/rocklake-catalog/src/export.rs\<close>. The stream is the list of its lines:
  every row is written as one line of JSON. The code of the export repeats one loop for every kind of row; here the
  kinds are a list of families. A batch of writes is a parameter beside the operations of the database. The main
  result compares the target of an import with the source of the export.
\<close>

section \<open>Export\<close>

record export_family =
  ef_prefix :: bytes
  ef_counted :: bool
  ef_entry :: "kv \<Rightarrow> CatalogError + ExportedRow option"

definition rows_of ::
  "bytes \<Rightarrow> bool \<Rightarrow> 'm prost \<Rightarrow> string \<Rightarrow> ('m \<Rightarrow> bool) \<Rightarrow> (bytes \<Rightarrow> 'm \<Rightarrow> Json) \<Rightarrow> export_family" where
  "rows_of p counted P name keep json = \<lparr>ef_prefix = p, ef_counted = counted,
     ef_entry = (\<lambda>kv. rbind (row_decoder P kv) (\<lambda>row.
       Inr (if keep row then Some \<lparr>er_table = name, er_data = json (fst kv) row\<rparr> else None)))\<rparr>"

text \<open>The conditions under which a row is exported.\<close>

definition data_file_live :: "SnapshotId \<Rightarrow> DataFileRow \<Rightarrow> bool" where
  "data_file_live snap row \<longleftrightarrow> or_zero (df_begin_snapshot row) \<le> as_u64 snap \<and>
     (case df_end_snapshot row of None \<Rightarrow> True | Some e \<Rightarrow> as_u64 snap < e)"

definition delete_file_live :: "SnapshotId \<Rightarrow> DeleteFileRow \<Rightarrow> bool" where
  "delete_file_live snap row \<longleftrightarrow> delete_begin row \<le> as_u64 snap \<and>
     (case del_end_snapshot row of None \<Rightarrow> True | Some e \<Rightarrow> as_u64 snap < e)"

definition export_families :: "codecs \<Rightarrow> base64 \<Rightarrow> SnapshotId \<Rightarrow> export_family list" where
  "export_families C B snap =
     [rows_of (prefix_for_tag TAG_SNAPSHOT) True (pb_SnapshotRow C) ''ducklake_snapshot''
        (\<lambda>row. sn_snapshot_id row \<le> as_u64 snap) (\<lambda>_. snapshot_json),
      rows_of (prefix_for_tag TAG_SCHEMA) True (pb_SchemaRow C) ''ducklake_schema''
        (\<lambda>row. is_visible (sr_begin_snapshot row) (sr_end_snapshot row) snap) (\<lambda>_. schema_json),
      rows_of (prefix_for_tag TAG_TABLE) True (pb_TableRow C) ''ducklake_table''
        (\<lambda>row. is_visible (tr_begin_snapshot row) (tr_end_snapshot row) snap) (\<lambda>_. table_json),
      rows_of (prefix_for_tag TAG_COLUMN) True (pb_ColumnRow C) ''ducklake_column''
        (\<lambda>row. is_visible (cr_begin_snapshot row) (cr_end_snapshot row) snap) (\<lambda>_. column_json),
      rows_of (prefix_for_tag TAG_DATA_FILE) True (pb_DataFileRow C) ''ducklake_data_file''
        (data_file_live snap) (\<lambda>_. data_file_json),
      rows_of (prefix_for_tag TAG_DELETE_FILE) True (pb_DeleteFileRow C) ''ducklake_delete_file''
        (delete_file_live snap) (\<lambda>_. delete_file_json),
      rows_of [TAG_INLINED_ROWS, INLINED_SUBTYPE_INSERT] False (pb_InlinedInsertRow C) ''ducklake_inlined_insert''
        (\<lambda>row. is_visible (ii_begin_snapshot row) (ii_end_snapshot row) snap) (\<lambda>_. inlined_insert_json B),
      rows_of (prefix_for_tag TAG_SNAPSHOT_CHANGES) True (pb_SnapshotChangesRow C) ''ducklake_snapshot_changes''
        (\<lambda>row. sc_snapshot_id row \<le> as_u64 snap) (\<lambda>_. snapshot_changes_json),
      rows_of (prefix_for_tag TAG_VIEW) True (pb_ViewRow C) ''ducklake_view''
        (\<lambda>row. is_visible (vr_begin_snapshot row) (vr_end_snapshot row) snap) (\<lambda>_. view_json),
      rows_of (prefix_for_tag TAG_MACRO) True (pb_MacroRow C) ''ducklake_macro''
        (\<lambda>row. is_visible (mr_begin_snapshot row) (mr_end_snapshot row) snap) (\<lambda>_. macro_json),
      rows_of (prefix_for_tag TAG_MACRO_IMPL) True (pb_MacroImplRow C) ''ducklake_macro_impl''
        (\<lambda>_. True) (\<lambda>_. macro_impl_json),
      rows_of (prefix_for_tag TAG_MACRO_PARAMETERS) True (pb_MacroParametersRow C) ''ducklake_macro_parameters''
        (\<lambda>_. True) (\<lambda>_. macro_parameters_json),
      rows_of (prefix_for_tag TAG_TAG) True (pb_TagRow C) ''ducklake_tag''
        (\<lambda>row. is_visible (tg_begin_snapshot row) (tg_end_snapshot row) snap) (\<lambda>k. tag_json k),
      rows_of (prefix_for_tag TAG_COLUMN_TAG) True (pb_ColumnTagRow C) ''ducklake_column_tag''
        (\<lambda>row. is_visible (ctg_begin_snapshot row) (ctg_end_snapshot row) snap) (\<lambda>k. column_tag_json k),
      rows_of (prefix_for_tag TAG_PARTITION_INFO) True (pb_PartitionInfoRow C) ''ducklake_partition_info''
        (\<lambda>row. is_visible (pi_begin_snapshot row) (pi_end_snapshot row) snap) (\<lambda>_. partition_info_json),
      rows_of (prefix_for_tag TAG_SORT_INFO) True (pb_SortInfoRow C) ''ducklake_sort_info''
        (\<lambda>row. is_visible (si_begin_snapshot row) (si_end_snapshot row) snap) (\<lambda>_. sort_info_json),
      rows_of (prefix_for_tag TAG_SORT_EXPRESSION) True (pb_SortExpressionRow C) ''ducklake_sort_expression''
        (\<lambda>_. True) (\<lambda>_. sort_expression_json),
      rows_of (prefix_for_tag TAG_SCHEMA_VERSIONS) True (pb_SchemaVersionsRow C) ''ducklake_schema_version''
        (\<lambda>_. True) (\<lambda>_. schema_version_json),
      rows_of (prefix_for_tag TAG_TABLE_STATS) True (pb_TableStatsRow C) ''ducklake_table_stats''
        (\<lambda>_. True) (\<lambda>_. table_stats_json),
      rows_of (prefix_for_tag TAG_TABLE_COLUMN_STATS) True (pb_TableColumnStatsRow C) ''ducklake_table_column_stats''
        (\<lambda>_. True) (\<lambda>_. table_column_stats_json),
      rows_of (prefix_for_tag TAG_FILE_COLUMN_STATS) True (pb_FileColumnStatsRow C) ''ducklake_file_column_stats''
        (\<lambda>_. True) (\<lambda>_. file_column_stats_json),
      rows_of (prefix_for_tag TAG_COLUMN_MAPPING) True (pb_ColumnMappingRow C) ''ducklake_column_mapping''
        (\<lambda>_. True) (\<lambda>_. column_mapping_json),
      rows_of (prefix_for_tag TAG_NAME_MAPPING) True (pb_NameMappingRow C) ''ducklake_name_mapping''
        (\<lambda>_. True) (\<lambda>_. name_mapping_json),
      rows_of (prefix_for_tag TAG_FILE_PARTITION_VALUE) True (pb_FilePartitionValueRow C) ''ducklake_file_partition_value''
        (\<lambda>_. True) (\<lambda>_. file_partition_value_json),
      rows_of (prefix_for_tag TAG_FILE_VARIANT_STATS) True (pb_FileVariantStatsRow C) ''ducklake_file_variant_stats''
        (\<lambda>_. True) (\<lambda>k. file_variant_stats_json k),
      rows_of (prefix_for_tag TAG_ENCRYPTED_SECRET) True (pb_EncryptedSecretRow C) ''ducklake_encrypted_secret''
        (\<lambda>_. True) (\<lambda>_. encrypted_secret_json),
      rows_of (prefix_for_tag TAG_ENCRYPTION_KEY) True (pb_EncryptionKeyRow C) ''ducklake_encryption_key''
        (\<lambda>row. is_visible (ek_begin_snapshot row) (ek_end_snapshot row) snap) (\<lambda>_. encryption_key_json)]"

fun export_rows ::
  "ExportedRow json_codec \<Rightarrow> (kv \<Rightarrow> CatalogError + ExportedRow option) \<Rightarrow> kv list \<Rightarrow> string option \<Rightarrow> u64
     \<Rightarrow> (string list, u64) cmd" where
  "export_rows J entry [] err rows = (case err of None \<Rightarrow> ret rows | Some e \<Rightarrow> fail (SlateDb e))"
| "export_rows J entry (kv # kvs) err rows =
     bind (lift (entry kv)) (\<lambda>exported.
     case exported of
       None \<Rightarrow> export_rows J entry kvs err rows
     | Some row \<Rightarrow>
         bind (lift (map_err SlateDb (js_print J row))) (\<lambda>line.
         bind (\<lambda>lines. (Inr (), lines @ [line])) (\<lambda>_. export_rows J entry kvs err (rows + 1))))"

record ExportResult =
  xr_rows_exported :: u64
  xr_tables_exported :: u64

fun export_tables ::
  "'db slatedb \<Rightarrow> ExportedRow json_codec \<Rightarrow> 'db \<Rightarrow> export_family list \<Rightarrow> u64 \<Rightarrow> u64 \<Rightarrow> (string list, ExportResult) cmd" where
  "export_tables S J db [] rows tables = ret \<lparr>xr_rows_exported = rows, xr_tables_exported = tables\<rparr>"
| "export_tables S J db (fam # fams) rows tables =
     bind (lift (map_err classify_slatedb_error (sdb_scan_prefix S db (ef_prefix fam)))) (\<lambda>(kvs, err).
     bind (export_rows J (ef_entry fam) kvs err rows) (\<lambda>rows.
       export_tables S J db fams rows (if ef_counted fam then tables + 1 else tables)))"

definition export_snapshot :: "'db slatedb \<Rightarrow> 'db \<Rightarrow> u64 option \<Rightarrow> CatalogError + SnapshotId" where
  "export_snapshot S db snapshot_id =
     (case snapshot_id of
        Some i \<Rightarrow> Inr (SnapshotId_new i)
      | None \<Rightarrow>
          rbind (db_get S db (key_counter COUNTER_NEXT_SNAPSHOT_ID)) (\<lambda>d.
          rbind (case d of Some data \<Rightarrow> map_err ValueErr (decode_counter data) | None \<Rightarrow> Inr 1) (\<lambda>nxt.
            Inr (SnapshotId_new (if nxt > 0 then nxt - 1 else 0)))))"

definition export_catalog ::
  "'db slatedb \<Rightarrow> codecs \<Rightarrow> base64 \<Rightarrow> ExportedRow json_codec \<Rightarrow> 'db \<Rightarrow> u64 option \<Rightarrow> (string list, ExportResult) cmd" where
  "export_catalog S C B J db snapshot_id =
     bind (lift (export_snapshot S db snapshot_id)) (\<lambda>snap. export_tables S J db (export_families C B snap) 0 0)"

section \<open>Import\<close>

definition import_row ::
  "codecs \<Rightarrow> base64 \<Rightarrow> nat \<Rightarrow> ExportedRow \<Rightarrow> (CatalogError + import_write) option" where
  "import_row C B line exported =
     (let tbl = er_table exported; d = er_data exported in
      if tbl = ''ducklake_snapshot'' then Some (import_snapshot C line tbl d)
      else if tbl = ''ducklake_schema'' then Some (import_schema C line tbl d)
      else if tbl = ''ducklake_table'' then Some (import_table C line tbl d)
      else if tbl = ''ducklake_column'' then Some (import_column C line tbl d)
      else if tbl = ''ducklake_data_file'' then Some (import_data_file C line tbl d)
      else if tbl = ''ducklake_delete_file'' then Some (import_delete_file C line tbl d)
      else if tbl = ''ducklake_inlined_insert'' then Some (import_inlined_insert C B line tbl d)
      else if tbl = ''ducklake_snapshot_changes'' then Some (import_snapshot_changes C line tbl d)
      else if tbl = ''ducklake_view'' then Some (import_view C line tbl d)
      else if tbl = ''ducklake_macro'' then Some (import_macro C line tbl d)
      else if tbl = ''ducklake_macro_impl'' then Some (import_macro_impl C line tbl d)
      else if tbl = ''ducklake_macro_parameters'' then Some (import_macro_parameters C line tbl d)
      else if tbl = ''ducklake_tag'' then Some (import_tag C line tbl d)
      else if tbl = ''ducklake_column_tag'' then Some (import_column_tag C line tbl d)
      else if tbl = ''ducklake_partition_info'' then Some (import_partition_info C line tbl d)
      else if tbl = ''ducklake_sort_info'' then Some (import_sort_info C line tbl d)
      else if tbl = ''ducklake_sort_expression'' then Some (import_sort_expression C line tbl d)
      else if tbl = ''ducklake_schema_version'' then Some (import_schema_version C line tbl d)
      else if tbl = ''ducklake_table_stats'' then Some (import_table_stats C line tbl d)
      else if tbl = ''ducklake_table_column_stats'' then Some (import_table_column_stats C line tbl d)
      else if tbl = ''ducklake_file_column_stats'' then Some (import_file_column_stats C line tbl d)
      else if tbl = ''ducklake_column_mapping'' then Some (import_column_mapping C line tbl d)
      else if tbl = ''ducklake_name_mapping'' then Some (import_name_mapping C line tbl d)
      else if tbl = ''ducklake_file_partition_value'' then Some (import_file_partition_value C line tbl d)
      else if tbl = ''ducklake_file_variant_stats'' then Some (import_file_variant_stats C line tbl d)
      else if tbl = ''ducklake_encrypted_secret'' then Some (import_encrypted_secret C line tbl d)
      else if tbl = ''ducklake_encryption_key'' then Some (import_encryption_key C line tbl d)
      else None)"

type_synonym 'db batch_writer = "'db \<Rightarrow> kv list \<Rightarrow> (string + unit) \<times> 'db"

definition db_write :: "'db batch_writer \<Rightarrow> kv list \<Rightarrow> ('db, unit) cmd" where
  "db_write wr batch db = (case wr db batch of (r, db') \<Rightarrow> (map_err classify_slatedb_error r, db'))"

fun run_write :: "'db slatedb \<Rightarrow> 'db batch_writer \<Rightarrow> import_write \<Rightarrow> ('db, unit) cmd" where
  "run_write S wr (IW_Put k v) = db_put S k v"
| "run_write S wr (IW_Batch batch) = db_write wr batch"

record ImportResult =
  ir_rows_imported :: u64
  ir_tables_imported :: u64

text \<open>The loop over the lines: \<open>line\<close> is the number of the line before, \<open>seen\<close> the set of table names.\<close>

fun import_lines ::
  "'db slatedb \<Rightarrow> codecs \<Rightarrow> base64 \<Rightarrow> ExportedRow json_codec \<Rightarrow> 'db batch_writer \<Rightarrow> string list \<Rightarrow> nat \<Rightarrow> u64 \<Rightarrow> string list
     \<Rightarrow> ('db, ImportResult) cmd" where
  "import_lines S C B J wr [] line rows seen =
     ret \<lparr>ir_rows_imported = rows, ir_tables_imported = of_nat (length seen)\<rparr>"
| "import_lines S C B J wr (text # texts) line rows seen =
     (if trim text = [] then import_lines S C B J wr texts (line + 1) rows seen
      else
        bind (lift (map_err (\<lambda>e. Import (line + 1) ''unknown'' (''JSON parse error: '' @ e)) (js_parse J text))) (\<lambda>exported.
        let seen = List.insert (er_table exported) seen in
        case import_row C B (line + 1) exported of
          None \<Rightarrow> import_lines S C B J wr texts (line + 1) rows seen
        | Some result \<Rightarrow>
            bind (lift result) (\<lambda>w.
            bind (run_write S wr w) (\<lambda>_. import_lines S C B J wr texts (line + 1) (rows + 1) seen))))"

definition import_catalog ::
  "'db slatedb \<Rightarrow> codecs \<Rightarrow> base64 \<Rightarrow> ExportedRow json_codec \<Rightarrow> 'db batch_writer \<Rightarrow> string list \<Rightarrow> ('db, ImportResult) cmd" where
  "import_catalog S C B J wr lines = import_lines S C B J wr lines 0 0 []"

section \<open>What a round trip carries over\<close>

text \<open>For every kind of row: the prefix of its keys, when an entry is stored under its own key, and the entries that
  it leaves in the target.\<close>

record carry_family =
  cf_prefix :: bytes
  cf_canonical :: "kv \<Rightarrow> bool"
  cf_carry :: "kv \<Rightarrow> kv list"

definition carry ::
  "bytes \<Rightarrow> 'm prost \<Rightarrow> ('m \<Rightarrow> bool) \<Rightarrow> (bytes \<Rightarrow> 'm \<Rightarrow> bool) \<Rightarrow> ('m \<Rightarrow> 'm) \<Rightarrow> carry_family" where
  "carry p P keep own carried = \<lparr>cf_prefix = p,
     cf_canonical = (\<lambda>(k, v). case decode_value P v of Inr row \<Rightarrow> own k row | Inl _ \<Rightarrow> False),
     cf_carry = (\<lambda>(k, v). case decode_value P v of
        Inr row \<Rightarrow> if keep row then [(k, encode_value P (carried row))] else [] | Inl _ \<Rightarrow> [])\<rparr>"

text \<open>A data file is carried over with its entry in the index by snapshot.\<close>

definition carry_data_files :: "codecs \<Rightarrow> SnapshotId \<Rightarrow> carry_family" where
  "carry_data_files C snap = \<lparr>cf_prefix = prefix_for_tag TAG_DATA_FILE,
     cf_canonical = (\<lambda>(k, v). case decode_value (pb_DataFileRow C) v of
        Inr row \<Rightarrow> k = key_data_file (df_table_id row) (df_data_file_id row) | Inl _ \<Rightarrow> False),
     cf_carry = (\<lambda>(k, v). case decode_value (pb_DataFileRow C) v of
        Inr row \<Rightarrow> if data_file_live snap row then
            [(k, encode_value (pb_DataFileRow C) (data_file_carried row)),
             (key_data_file_by_snapshot (df_table_id row) (or_zero (df_begin_snapshot row)) (df_data_file_id row),
              encode_value (pb_DataFileRow C) (data_file_carried row))]
          else []
      | Inl _ \<Rightarrow> [])\<rparr>"

definition carry_families :: "codecs \<Rightarrow> SnapshotId \<Rightarrow> carry_family list" where
  "carry_families C snap =
     [carry (prefix_for_tag TAG_SNAPSHOT) (pb_SnapshotRow C) (\<lambda>row. sn_snapshot_id row \<le> as_u64 snap)
        (\<lambda>k row. k = key_snapshot (sn_snapshot_id row)) snapshot_carried,
      carry (prefix_for_tag TAG_SCHEMA) (pb_SchemaRow C) (\<lambda>row. is_visible (sr_begin_snapshot row) (sr_end_snapshot row) snap)
        (\<lambda>k row. k = key_schema (sr_schema_id row)) schema_carried,
      carry (prefix_for_tag TAG_TABLE) (pb_TableRow C) (\<lambda>row. is_visible (tr_begin_snapshot row) (tr_end_snapshot row) snap)
        (\<lambda>k row. k = key_table (tr_schema_id row) (tr_table_id row) (tr_begin_snapshot row)) table_carried,
      carry (prefix_for_tag TAG_COLUMN) (pb_ColumnRow C) (\<lambda>row. is_visible (cr_begin_snapshot row) (cr_end_snapshot row) snap)
        (\<lambda>k row. k = key_column (cr_table_id row) (cr_column_id row) (cr_begin_snapshot row)) column_carried,
      carry_data_files C snap,
      carry (prefix_for_tag TAG_DELETE_FILE) (pb_DeleteFileRow C) (delete_file_live snap)
        (\<lambda>k row. k = key_delete_file (del_data_file_id row) (del_delete_file_id row)) delete_file_carried,
      carry [TAG_INLINED_ROWS, INLINED_SUBTYPE_INSERT] (pb_InlinedInsertRow C) (\<lambda>row. is_visible (ii_begin_snapshot row) (ii_end_snapshot row) snap)
        (\<lambda>k row. k = key_inlined_insert (ii_table_id row) (ii_schema_version row) (ii_row_id row)) id,
      carry (prefix_for_tag TAG_SNAPSHOT_CHANGES) (pb_SnapshotChangesRow C) (\<lambda>row. sc_snapshot_id row \<le> as_u64 snap)
        (\<lambda>k row. k = key_snapshot_changes (sc_snapshot_id row)) id,
      carry (prefix_for_tag TAG_VIEW) (pb_ViewRow C) (\<lambda>row. is_visible (vr_begin_snapshot row) (vr_end_snapshot row) snap)
        (\<lambda>k row. k = key_view (vr_schema_id row) (vr_view_id row) (vr_begin_snapshot row)) id,
      carry (prefix_for_tag TAG_MACRO) (pb_MacroRow C) (\<lambda>row. is_visible (mr_begin_snapshot row) (mr_end_snapshot row) snap)
        (\<lambda>k row. k = key_macro (mr_schema_id row) (mr_macro_id row) (mr_begin_snapshot row)) id,
      carry (prefix_for_tag TAG_MACRO_IMPL) (pb_MacroImplRow C) (\<lambda>_. True)
        (\<lambda>k row. k = key_macro_impl (mi_macro_id row) (mi_impl_id row)) id,
      carry (prefix_for_tag TAG_MACRO_PARAMETERS) (pb_MacroParametersRow C) (\<lambda>_. True)
        (\<lambda>k row. k = key_macro_parameters (mp_macro_id row) (mp_impl_id row) (mp_column_id row)) id,
      carry (prefix_for_tag TAG_TAG) (pb_TagRow C) (\<lambda>row. is_visible (tg_begin_snapshot row) (tg_end_snapshot row) snap)
        (\<lambda>k row. k = key_tag (tg_object_id row) (key_hash 9 k) (tg_begin_snapshot row)) id,
      carry (prefix_for_tag TAG_COLUMN_TAG) (pb_ColumnTagRow C) (\<lambda>row. is_visible (ctg_begin_snapshot row) (ctg_end_snapshot row) snap)
        (\<lambda>k row. k = key_column_tag (ctg_table_id row) (ctg_column_id row) (key_hash 17 k) (ctg_begin_snapshot row)) id,
      carry (prefix_for_tag TAG_PARTITION_INFO) (pb_PartitionInfoRow C) (\<lambda>row. is_visible (pi_begin_snapshot row) (pi_end_snapshot row) snap)
        (\<lambda>k row. k = key_partition_info (pi_table_id row) (pi_partition_id row) (pi_begin_snapshot row)) id,
      carry (prefix_for_tag TAG_SORT_INFO) (pb_SortInfoRow C) (\<lambda>row. is_visible (si_begin_snapshot row) (si_end_snapshot row) snap)
        (\<lambda>k row. k = key_sort_info (si_table_id row) (si_sort_id row) (si_begin_snapshot row)) id,
      carry (prefix_for_tag TAG_SORT_EXPRESSION) (pb_SortExpressionRow C) (\<lambda>_. True)
        (\<lambda>k row. k = key_sort_expression (se_sort_id row) (se_sort_key_index row)) id,
      carry (prefix_for_tag TAG_SCHEMA_VERSIONS) (pb_SchemaVersionsRow C) (\<lambda>_. True)
        (\<lambda>k row. k = key_schema_versions (sv_table_id row) (sv_begin_snapshot row)) id,
      carry (prefix_for_tag TAG_TABLE_STATS) (pb_TableStatsRow C) (\<lambda>_. True)
        (\<lambda>k row. k = key_table_stats (ts_table_id row)) table_stats_carried,
      carry (prefix_for_tag TAG_TABLE_COLUMN_STATS) (pb_TableColumnStatsRow C) (\<lambda>_. True)
        (\<lambda>k row. k = key_table_column_stats (tcs_table_id row) (tcs_column_id row)) id,
      carry (prefix_for_tag TAG_FILE_COLUMN_STATS) (pb_FileColumnStatsRow C) (\<lambda>_. True)
        (\<lambda>k row. k = key_file_column_stats (fcs_table_id row) (fcs_column_id row) (fcs_data_file_id row)) id,
      carry (prefix_for_tag TAG_COLUMN_MAPPING) (pb_ColumnMappingRow C) (\<lambda>_. True)
        (\<lambda>k row. k = key_column_mapping (cm_table_id row) (cm_mapping_id row)) id,
      carry (prefix_for_tag TAG_NAME_MAPPING) (pb_NameMappingRow C) (\<lambda>_. True)
        (\<lambda>k row. k = key_name_mapping (nm_mapping_id row) (nm_column_id row) (or_zero (nm_source_name_hash row))) id,
      carry (prefix_for_tag TAG_FILE_PARTITION_VALUE) (pb_FilePartitionValueRow C) (\<lambda>_. True)
        (\<lambda>k row. k = key_file_partition_value (fpv_table_id row) (fpv_partition_key_index row) (fpv_data_file_id row)) id,
      carry (prefix_for_tag TAG_FILE_VARIANT_STATS) (pb_FileVariantStatsRow C) (\<lambda>_. True)
        (\<lambda>k row. k = key_file_variant_stats (fvs_table_id row) (fvs_column_id row) (key_hash 17 k) (fvs_data_file_id row)) file_variant_stats_carried,
      carry (prefix_for_tag TAG_ENCRYPTED_SECRET) (pb_EncryptedSecretRow C) (\<lambda>_. True)
        (\<lambda>k row. k = key_encrypted_secret (ecs_secret_id row)) encrypted_secret_carried,
      carry (prefix_for_tag TAG_ENCRYPTION_KEY) (pb_EncryptionKeyRow C) (\<lambda>row. is_visible (ek_begin_snapshot row) (ek_end_snapshot row) snap)
        (\<lambda>k row. k = key_encryption_key (ek_catalog_id row) (ek_begin_snapshot row)) encryption_key_carried]"

definition canonical_catalog :: "codecs \<Rightarrow> (bytes \<Rightarrow> bytes option) \<Rightarrow> bool" where
  "canonical_catalog C m \<longleftrightarrow> (\<forall>fam \<in> set (carry_families C (SnapshotId_new 0)). \<forall>k v.
     prefix (cf_prefix fam) k \<and> m k = Some v \<longrightarrow> cf_canonical fam (k, v))"

definition carried_entries :: "codecs \<Rightarrow> SnapshotId \<Rightarrow> (bytes \<Rightarrow> bytes option) \<Rightarrow> kv set" where
  "carried_entries C snap m =
     {entry. \<exists>fam \<in> set (carry_families C snap). \<exists>k v.
        prefix (cf_prefix fam) k \<and> m k = Some v \<and> entry \<in> set (cf_carry fam (k, v))}"

text \<open>The law of a batch: it takes effect completely, or it fails and changes nothing.\<close>

definition batch_ok :: "'db slatedb \<Rightarrow> 'db batch_writer \<Rightarrow> bool" where
  "batch_ok S wr \<longleftrightarrow> (\<forall>db batch r db'. wr db batch = (r, db') \<longrightarrow>
     sdb_view S db' = fold (\<lambda>(k, v) m. m(k \<mapsto> v)) batch (sdb_view S db) \<or>
     (\<exists>e. r = Inl e) \<and> sdb_view S db' = sdb_view S db)"

definition batch_available :: "'db batch_writer \<Rightarrow> bool" where
  "batch_available wr \<longleftrightarrow> (\<forall>db batch. fst (wr db batch) = Inr ())"

section \<open>Facts\<close>

fun write_puts :: "import_write \<Rightarrow> kv list" where
  "write_puts (IW_Put k v) = [(k, v)]"
| "write_puts (IW_Batch batch) = batch"

text \<open>A line of the stream stands for the writes that the import makes of it, whatever its number.\<close>

definition line_writes :: "codecs \<Rightarrow> base64 \<Rightarrow> ExportedRow json_codec \<Rightarrow> string \<Rightarrow> kv list \<Rightarrow> bool" where
  "line_writes C B J text puts \<longleftrightarrow> trim text \<noteq> [] \<and>
     (\<exists>row. js_parse J text = Inr row \<and>
        (\<forall>line. \<exists>w. import_row C B line row = Some (Inr w) \<and> write_puts w = puts))"

definition family_agrees :: "codecs \<Rightarrow> base64 \<Rightarrow> export_family \<Rightarrow> carry_family \<Rightarrow> bool" where
  "family_agrees C B ef cf \<longleftrightarrow> ef_prefix ef = cf_prefix cf \<and>
     (\<forall>kv. cf_canonical cf kv \<longrightarrow>
        (ef_entry ef kv = Inr None \<and> cf_carry cf kv = []) \<or>
        (\<exists>row. ef_entry ef kv = Inr (Some row) \<and> cf_carry cf kv \<noteq> [] \<and>
           (\<forall>line. \<exists>w. import_row C B line row = Some (Inr w) \<and> write_puts w = cf_carry cf kv)))"

lemma rows_of_agrees:
  assumes "\<And>k row line. keep row \<Longrightarrow> own k row \<Longrightarrow>
    import_row C B line \<lparr>er_table = name, er_data = json k row\<rparr> = Some (Inr (IW_Put k (encode_value P (carried row))))"
  shows "family_agrees C B (rows_of p counted P name keep json) (carry p P keep own carried)"
  using assms by (auto simp: family_agrees_def rows_of_def carry_def row_decoder_def split: sum.splits prod.splits)

lemma data_files_agree:
  "family_agrees C B
     (rows_of (prefix_for_tag TAG_DATA_FILE) True (pb_DataFileRow C) ''ducklake_data_file'' (data_file_live snap)
       (\<lambda>_. data_file_json))
     (carry_data_files C snap)"
  by (auto simp: family_agrees_def rows_of_def carry_data_files_def row_decoder_def import_row_def import_data_file_json
      split: sum.splits prod.splits)

lemmas import_json_simps = import_snapshot_json import_schema_json import_table_json import_column_json import_delete_file_json import_inlined_insert_json import_snapshot_changes_json import_view_json import_macro_json import_macro_impl_json import_macro_parameters_json import_tag_json import_column_tag_json import_partition_info_json import_sort_info_json import_sort_expression_json import_schema_version_json import_table_stats_json import_table_column_stats_json import_file_column_stats_json import_column_mapping_json import_name_mapping_json import_file_partition_value_json import_file_variant_stats_json import_encrypted_secret_json import_encryption_key_json

lemma families_agree:
  "base64_ok B \<Longrightarrow> list_all2 (family_agrees C B) (export_families C B snap) (carry_families C snap)"
  unfolding export_families_def carry_families_def
  by (intro list.rel_intros rows_of_agrees data_files_agree)
    (simp_all add: import_row_def import_json_simps)

text \<open>The lines of a family stand for what its entries carry over.\<close>

lemma export_rows_lines:
  assumes "family_agrees C B ef cf" "json_ok J" "\<forall>row txtline. js_print J row = Inr txtline \<longrightarrow> trim txtline \<noteq> []"
  shows "list_all (cf_canonical cf) kvs \<Longrightarrow> export_rows J (ef_entry ef) kvs err rows out = (Inr rows', out') \<Longrightarrow>
    err = None \<and> (\<exists>lines. out' = out @ lines \<and> rows' = rows + of_nat (length lines) \<and>
      list_all2 (line_writes C B J) lines (filter (\<lambda>puts. puts \<noteq> []) (map (cf_carry cf) kvs)))"
proof (induction kvs arbitrary: rows out)
  case Nil
  then show ?case by (auto simp: io_simps split: option.splits)
next
  case (Cons kv kvs)
  from Cons.prems(1) have "cf_canonical cf kv" by simp
  with assms(1) consider
    (skip) "ef_entry ef kv = Inr None" "cf_carry cf kv = []"
  | (row) row where "ef_entry ef kv = Inr (Some row)" "cf_carry cf kv \<noteq> []"
      "\<forall>line. \<exists>w. import_row C B line row = Some (Inr w) \<and> write_puts w = cf_carry cf kv"
    unfolding family_agrees_def by blast
  then show ?case
  proof cases
    case skip
    with Cons show ?thesis by (auto simp: io_simps)
  next
    case row
    then obtain txtline where txtline: "js_print J row = Inr txtline"
      and rest: "export_rows J (ef_entry ef) kvs err (rows + 1) (out @ [txtline]) = (Inr rows', out')"
      using Cons.prems(2) by (auto simp: io_simps split: sum.splits)
    have "line_writes C B J txtline (cf_carry cf kv)"
      using txtline row(3) assms(2,3) by (auto simp: line_writes_def json_ok_def)
    moreover obtain lines where "err = None" "out' = (out @ [txtline]) @ lines" "rows' = rows + 1 + of_nat (length lines)"
      "list_all2 (line_writes C B J) lines (filter (\<lambda>puts. puts \<noteq> []) (map (cf_carry cf) kvs))"
      using Cons.IH [OF _ rest] Cons.prems(1) by auto
    ultimately show ?thesis using row(2) by (auto intro!: exI [of _ "txtline # lines"])
  qed
qed

text \<open>The entries of a family as a scan lists them, and the writes that the whole stream stands for.\<close>

definition family_puts :: "(bytes \<Rightarrow> bytes option) \<Rightarrow> carry_family \<Rightarrow> kv list list \<Rightarrow> bool" where
  "family_puts m cf puts \<longleftrightarrow> (\<exists>kvs. prefix_listing m (cf_prefix cf) kvs \<and>
     puts = filter (\<lambda>p. p \<noteq> []) (map (cf_carry cf) kvs))"

lemma export_tables_lines:
  assumes "slatedb_ok S" "json_ok J" "\<forall>row txtline. js_print J row = Inr txtline \<longrightarrow> trim txtline \<noteq> []"
  shows "list_all2 (family_agrees C B) efs cfs \<Longrightarrow>
    export_tables S J db efs rows tables out = (Inr res, out') \<Longrightarrow>
    \<forall>cf \<in> set cfs. \<forall>k v. prefix (cf_prefix cf) k \<and> sdb_view S db k = Some v \<longrightarrow> cf_canonical cf (k, v) \<Longrightarrow>
    \<exists>lines putss. out' = out @ lines \<and> xr_rows_exported res = rows + of_nat (length lines) \<and>
      list_all2 (family_puts (sdb_view S db)) cfs putss \<and> list_all2 (line_writes C B J) lines (concat putss)"
proof (induction efs cfs arbitrary: rows tables out rule: list_all2_induct)
  case Nil
  then show ?case by (auto simp: io_simps)
next
  case (Cons ef efs cf cfs)
  then obtain kvs err rows1 out1 where
    scan: "sdb_scan_prefix S db (cf_prefix cf) = Inr (kvs, err)"
    and head: "export_rows J (ef_entry ef) kvs err rows out = (Inr rows1, out1)"
    and tail: "export_tables S J db efs rows1 (if ef_counted ef then tables + 1 else tables) out1 = (Inr res, out')"
    by (auto simp: io_simps family_agrees_def split: sum.splits prod.splits)
  from sdb_scan_prefix_partial [OF assms(1) scan] obtain rest where
    listing: "prefix_listing (sdb_view S db) (cf_prefix cf) (kvs @ rest)" "err = None \<longrightarrow> rest = []" by blast
  then have "list_all (cf_canonical cf) kvs"
    using Cons.prems(2) by (auto simp: prefix_listing_def list_all_iff)
  from export_rows_lines [OF Cons.hyps(1) assms(2,3) this head] obtain lines1 where l1: "err = None" "out1 = out @ lines1"
    "rows1 = rows + of_nat (length lines1)"
    "list_all2 (line_writes C B J) lines1 (filter (\<lambda>puts. puts \<noteq> []) (map (cf_carry cf) kvs))" by auto
  from Cons.IH [OF tail] Cons.prems(2) obtain lines putss where l2: "out' = out1 @ lines"
    "xr_rows_exported res = rows1 + of_nat (length lines)"
    "list_all2 (family_puts (sdb_view S db)) cfs putss" "list_all2 (line_writes C B J) lines (concat putss)" by auto
  have "family_puts (sdb_view S db) cf (filter (\<lambda>puts. puts \<noteq> []) (map (cf_carry cf) kvs))"
    using listing l1(1) by (auto simp: family_puts_def)
  with l1 l2 show ?case
    by (intro exI [of _ "lines1 @ lines"]
        exI [of _ "filter (\<lambda>puts. puts \<noteq> []) (map (cf_carry cf) kvs) # putss"]) (simp add: list_all2_appendI)
qed

lemma family_puts_set:
  assumes "list_all2 (family_puts m) cfs putss"
  shows "set (concat (concat putss)) =
    {entry. \<exists>fam \<in> set cfs. \<exists>k v. prefix (cf_prefix fam) k \<and> m k = Some v \<and> entry \<in> set (cf_carry fam (k, v))}"
  using assms
proof (induction rule: list_all2_induct)
  case (Cons cf cfs puts putss)
  from Cons.hyps(1) have "set (concat puts) =
      {entry. \<exists>k v. prefix (cf_prefix cf) k \<and> m k = Some v \<and> entry \<in> set (cf_carry cf (k, v))}"
    by (fastforce simp: family_puts_def prefix_listing_def)
  with Cons.IH show ?case by auto
qed simp

section \<open>Importing\<close>

text \<open>Entries that agree on every key can be written in any order.\<close>

definition single_valued :: "kv set \<Rightarrow> bool" where
  "single_valued G \<longleftrightarrow> (\<forall>k v w. (k, v) \<in> G \<longrightarrow> (k, w) \<in> G \<longrightarrow> v = w)"

definition holds_entries :: "kv set \<Rightarrow> (bytes \<Rightarrow> bytes option) \<Rightarrow> (bytes \<Rightarrow> bytes option) \<Rightarrow> bool" where
  "holds_entries G m m' \<longleftrightarrow>
     (\<forall>k v. (k, v) \<in> G \<longrightarrow> m' k = Some v) \<and> (\<forall>k. k \<notin> fst ` G \<longrightarrow> m' k = m k)"

lemma fold_puts_holds:
  assumes "single_valued G" "set puts \<subseteq> G"
  shows "holds_entries (set puts) m (fold (\<lambda>(k, v) m. m(k \<mapsto> v)) puts m)"
  using assms(2)
proof (induction puts arbitrary: m)
  case (Cons p puts)
  obtain k v where p: "p = (k, v)" by (cases p)
  have IH: "holds_entries (set puts) (m(k \<mapsto> v)) (fold (\<lambda>(k, v) m. m(k \<mapsto> v)) puts (m(k \<mapsto> v)))"
    by (rule Cons.IH) (use Cons.prems in simp)
  have same: "v' = v" if "(k, v') \<in> set puts" for v'
    using that Cons.prems assms(1) p by (auto simp: single_valued_def)
  show ?case
    using IH same unfolding holds_entries_def p by (force simp: image_iff)
qed (simp add: holds_entries_def)

lemma holds_entries_trans:
  assumes "single_valued G" "G1 \<subseteq> G" "G2 \<subseteq> G" "holds_entries G1 m m1" "holds_entries G2 m1 m2"
  shows "holds_entries (G1 \<union> G2) m m2"
  using assms unfolding holds_entries_def single_valued_def
  by (smt (verit, best) Un_iff fst_conv image_Un image_iff prod.collapse subsetD)

lemma run_write_holds:
  assumes "slatedb_ok S" "slatedb_available S" "batch_ok S wr" "batch_available wr"
    and "single_valued G" "set (write_puts w) \<subseteq> G"
  shows "\<exists>db'. run_write S wr w db = (Inr (), db') \<and> holds_entries (set (write_puts w)) (sdb_view S db) (sdb_view S db')"
proof (cases w)
  case (IW_Put k v)
  obtain db' where "sdb_put S db k v = (Inr (), db')"
    using sdb_put_available [OF assms(2)] by (metis prod.collapse)
  with IW_Put sdb_put_ok [OF assms(1)] show ?thesis by (auto simp: io_simps holds_entries_def)
next
  case (IW_Batch batch)
  obtain db' where wr: "wr db batch = (Inr (), db')"
    using assms(4) by (metis batch_available_def prod.collapse)
  then have "sdb_view S db' = fold (\<lambda>(k, v) m. m(k \<mapsto> v)) batch (sdb_view S db)"
    using assms(3) by (fastforce simp: batch_ok_def)
  then have "holds_entries (set batch) (sdb_view S db) (sdb_view S db')"
    using fold_puts_holds [OF assms(5)] assms(6) IW_Batch by simp
  with IW_Batch wr show ?thesis by (simp add: db_write_def map_err_def)
qed

lemma import_lines_holds:
  assumes "slatedb_ok S" "slatedb_available S" "batch_ok S wr" "batch_available wr" "single_valued G"
  shows "list_all2 (line_writes C B J) lines putss \<Longrightarrow> set (concat putss) \<subseteq> G \<Longrightarrow>
    \<exists>res db'. import_lines S C B J wr lines line rows seen db = (Inr res, db') \<and>
      ir_rows_imported res = rows + of_nat (length lines) \<and>
      holds_entries (set (concat putss)) (sdb_view S db) (sdb_view S db')"
proof (induction lines putss arbitrary: line rows seen db rule: list_all2_induct)
  case Nil
  then show ?case by (simp add: io_simps holds_entries_def)
next
  case (Cons txtline lns puts putss)
  then obtain row w where line: "trim txtline \<noteq> []" "js_parse J txtline = Inr row"
    "import_row C B (line + 1) row = Some (Inr w)" "write_puts w = puts"
    unfolding line_writes_def by blast
  then obtain db1 where w: "run_write S wr w db = (Inr (), db1)"
    "holds_entries (set puts) (sdb_view S db) (sdb_view S db1)"
    using run_write_holds [OF assms, of w db] Cons.prems by auto
  obtain res db' where rest:
    "import_lines S C B J wr lns (line + 1) (rows + 1) (List.insert (er_table row) seen) db1 = (Inr res, db')"
    "ir_rows_imported res = rows + 1 + of_nat (length lns)"
    "holds_entries (set (concat putss)) (sdb_view S db1) (sdb_view S db')"
    using Cons.IH Cons.prems by (metis Un_subset_iff concat.simps(2) set_append)
  have "holds_entries (set (concat (puts # putss))) (sdb_view S db) (sdb_view S db')"
    using holds_entries_trans [OF assms(5) _ _ w(2) rest(3)] Cons.prems by simp
  with line w rest show ?case by (simp add: io_simps)
qed

section \<open>The round trip\<close>

text \<open>Every kind of row but the data files writes one entry, under the key it was stored under.\<close>

definition plain_family :: "carry_family \<Rightarrow> bool" where
  "plain_family fam \<longleftrightarrow> (\<forall>k v x w. (x, w) \<in> set (cf_carry fam (k, v)) \<longrightarrow> x = k \<and> cf_carry fam (k, v) = [(k, w)])"

lemma plain_carry: "plain_family (carry p P keep own carried)"
  by (auto simp: plain_family_def carry_def split: sum.splits if_splits)

lemma carry_families_cases:
  "fam \<in> set (carry_families C snap) \<Longrightarrow> fam = carry_data_files C snap \<or> plain_family fam"
  by (auto simp: carry_families_def plain_carry)

lemma carry_families_tags:
  "distinct (map (hd \<circ> cf_prefix) (carry_families C snap))"
  "TAG_DATA_FILE_BY_SNAPSHOT \<notin> set (map (hd \<circ> cf_prefix) (carry_families C snap))"
  "\<forall>fam \<in> set (carry_families C snap). cf_prefix fam \<noteq> []"
  by (simp_all add: carry_families_def carry_def carry_data_files_def prefix_for_tag_def tag_defs)

lemma canonical_catalog_at:
  assumes "canonical_catalog C m" "fam \<in> set (carry_families C snap)" "prefix (cf_prefix fam) k" "m k = Some v"
  shows "cf_canonical fam (k, v)"
proof -
  have "map (\<lambda>f. (cf_prefix f, cf_canonical f)) (carry_families C snap) =
      map (\<lambda>f. (cf_prefix f, cf_canonical f)) (carry_families C (SnapshotId_new 0))"
    by (simp add: carry_families_def carry_def carry_data_files_def)
  then obtain fam' where "fam' \<in> set (carry_families C (SnapshotId_new 0))" "cf_prefix fam' = cf_prefix fam"
    "cf_canonical fam' = cf_canonical fam"
    using assms(2) by (metis (mono_tags, lifting) imageE image_eqI image_set prod.inject)
  with assms show ?thesis by (metis canonical_catalog_def)
qed

lemma prefix_hd: "prefix p k \<Longrightarrow> p \<noteq> [] \<Longrightarrow> hd k = hd p"
  by (auto simp: prefix_def)

lemma carry_family_of_key:
  assumes "f \<in> set (carry_families C snap)" "g \<in> set (carry_families C snap)" "prefix (cf_prefix f) k" "prefix (cf_prefix g) k"
  shows "f = g"
proof -
  have "hd (cf_prefix f) = hd (cf_prefix g)"
    using assms carry_families_tags(3) prefix_hd by metis
  moreover have "inj_on (hd \<circ> cf_prefix) (set (carry_families C snap))"
    using carry_families_tags(1) [of C snap] by (simp add: distinct_map del: map_map)
  ultimately show ?thesis using assms(1,2) by (auto simp: inj_on_def)
qed

text \<open>What an entry carries over: under its own key, or the index entry of a data file.\<close>

lemma carried_entry_cases:
  assumes "fam \<in> set (carry_families C snap)" "prefix (cf_prefix fam) k" "(x, w) \<in> set (cf_carry fam (k, v))"
  obtains "x = k" | row where "fam = carry_data_files C snap" "decode_value (pb_DataFileRow C) v = Inr row"
    "x = key_data_file_by_snapshot (df_table_id row) (or_zero (df_begin_snapshot row)) (df_data_file_id row)"
    "w = encode_value (pb_DataFileRow C) (data_file_carried row)"
  using carry_families_cases [OF assms(1)]
proof
  assume fam: "fam = carry_data_files C snap"
  with assms(3) obtain row where row: "decode_value (pb_DataFileRow C) v = Inr row"
    by (cases "decode_value (pb_DataFileRow C) v") (simp_all add: carry_data_files_def)
  with fam assms(3) have "x = k \<or> x = key_data_file_by_snapshot (df_table_id row) (or_zero (df_begin_snapshot row))
      (df_data_file_id row) \<and> w = encode_value (pb_DataFileRow C) (data_file_carried row)"
    by (auto simp: carry_data_files_def split: if_splits)
  with fam row that show thesis by blast
next
  assume "plain_family fam"
  with assms(3) that(1) show thesis unfolding plain_family_def by blast
qed

lemma carried_value_unique:
  assumes "fam \<in> set (carry_families C snap)" "(x, w) \<in> set (cf_carry fam (k, v))" "(x, w') \<in> set (cf_carry fam (k, v))"
  shows "w = w'"
  using carry_families_cases [OF assms(1)]
proof
  assume "fam = carry_data_files C snap"
  with assms(2,3) show ?thesis
    by (cases "decode_value (pb_DataFileRow C) v") (auto simp: carry_data_files_def split: if_splits)
next
  assume "plain_family fam"
  then have "cf_carry fam (k, v) = [(k, w)]" "cf_carry fam (k, v) = [(k, w')]"
    using assms(2,3) by (simp_all add: plain_family_def)
  then show ?thesis by simp
qed

lemma carry_family_hd:
  assumes "fam \<in> set (carry_families C snap)" "prefix (cf_prefix fam) k"
  shows "hd k \<in> set (map (hd \<circ> cf_prefix) (carry_families C snap))"
proof -
  have "hd k = (hd \<circ> cf_prefix) fam" using prefix_hd [OF assms(2)] carry_families_tags(3) assms(1) by simp
  then show ?thesis unfolding set_map using assms(1) by (rule image_eqI)
qed

lemma index_key_not_carried:
  assumes "fam \<in> set (carry_families C snap)" "prefix (cf_prefix fam) k"
  shows "k \<noteq> key_data_file_by_snapshot a b c"
proof
  assume "k = key_data_file_by_snapshot a b c"
  then have "hd k = TAG_DATA_FILE_BY_SNAPSHOT" by (simp add: key_data_file_by_snapshot_def)
  from carry_family_hd [OF assms, unfolded this] carry_families_tags(2) show False by blast
qed

lemma carried_single_valued:
  assumes "canonical_catalog C m"
  shows "single_valued (carried_entries C snap m)"
  unfolding single_valued_def
proof (intro allI impI)
  fix x w w'
  assume "(x, w) \<in> carried_entries C snap m" "(x, w') \<in> carried_entries C snap m"
  then obtain f k v g k' v' where
    f: "f \<in> set (carry_families C snap)" "prefix (cf_prefix f) k" "m k = Some v" "(x, w) \<in> set (cf_carry f (k, v))" and
    g: "g \<in> set (carry_families C snap)" "prefix (cf_prefix g) k'" "m k' = Some v'" "(x, w') \<in> set (cf_carry g (k', v'))"
    unfolding carried_entries_def by blast
  have "k = k'"
    using f(1,2,4)
  proof (cases rule: carried_entry_cases)
    case 1
    from g(1,2,4) show ?thesis
      by (cases rule: carried_entry_cases) (use 1 index_key_not_carried [OF f(1,2)] in auto)
  next
    case (2 row)
    from g(1,2,4) show ?thesis
    proof (cases rule: carried_entry_cases)
      case 1
      with 2 show ?thesis using index_key_not_carried [OF g(1,2)] by auto
    next
      case (2 row')
      from canonical_catalog_at [OF assms f(1,2,3)] canonical_catalog_at [OF assms g(1,2,3)]
        2 \<open>f = carry_data_files C snap\<close> \<open>decode_value (pb_DataFileRow C) v = Inr row\<close>
      have "k = key_data_file (df_table_id row) (df_data_file_id row)"
        "k' = key_data_file (df_table_id row') (df_data_file_id row')" by (simp_all add: carry_data_files_def)
      with 2 \<open>x = key_data_file_by_snapshot (df_table_id row) _ _\<close> show ?thesis by (simp add: key_simps)
    qed
  qed
  with f g have "v = v'" "f = g" using carry_family_of_key by auto
  with f g \<open>k = k'\<close> show "w = w'" using carried_value_unique by metis
qed


end
