(* ===== verification/Export_Tools.thy ===== *)
theory Export_Tools
  imports Export Verify
begin

text \<open>
  The other tools of \<open>crates/rocklake-catalog/src/export.rs\<close>: the conversion of an export to statements for
  PostgreSQL and the rebuilding of a catalog from a list of files; and what an import leaves undone. The text of a
  JSON value is a parameter.
\<close>

section \<open>Statements for PostgreSQL\<close>

definition sql_escape :: "string \<Rightarrow> string" where
  "sql_escape s = concat (map (\<lambda>c. if c = CHR 0x27 then [CHR 0x27, CHR 0x27] else [c]) s)"

definition sql_text :: "Json \<Rightarrow> string" where
  "sql_text d = [CHR 0x27] @ sql_escape (case as_str d of Some s \<Rightarrow> s | None \<Rightarrow> []) @ [CHR 0x27]"

definition sql_opt_u64 :: "Json \<Rightarrow> string" where
  "sql_opt_u64 d = (case as_u64_json d of None \<Rightarrow> ''NULL'' | Some n \<Rightarrow> show_u64 n)"

fun comma_list :: "string list \<Rightarrow> string" where
  "comma_list [] = []"
| "comma_list [x] = x"
| "comma_list (x # xs) = x @ '', '' @ comma_list xs"

definition pg_insert :: "string \<Rightarrow> string \<Rightarrow> string list \<Rightarrow> string" where
  "pg_insert tbl columns cells =
     ''INSERT INTO '' @ tbl @ '' ('' @ columns @ '') VALUES ('' @ comma_list cells @ '');''"

definition row_to_pg_insert :: "(Json \<Rightarrow> string) \<Rightarrow> ExportedRow \<Rightarrow> string" where
  "row_to_pg_insert text exported =
     (let tbl = er_table exported; f = json_field (er_data exported) in
      if tbl = ''ducklake_snapshot'' then
        pg_insert tbl ''snapshot_id, schema_version, snapshot_time''
          [text (f ''snapshot_id''), text (f ''schema_version''), sql_text (f ''snapshot_time'')]
      else if tbl = ''ducklake_schema'' then
        pg_insert tbl ''schema_id, schema_name, begin_snapshot, end_snapshot''
          [text (f ''schema_id''), sql_text (f ''schema_name''), text (f ''begin_snapshot''), sql_opt_u64 (f ''end_snapshot'')]
      else if tbl = ''ducklake_table'' then
        pg_insert tbl ''table_id, schema_id, table_name, begin_snapshot, end_snapshot''
          [text (f ''table_id''), text (f ''schema_id''), sql_text (f ''table_name''), text (f ''begin_snapshot''),
           sql_opt_u64 (f ''end_snapshot'')]
      else if tbl = ''ducklake_column'' then
        pg_insert tbl ''column_id, table_id, column_name, data_type, column_index, begin_snapshot, end_snapshot, is_nullable''
          [text (f ''column_id''), text (f ''table_id''), sql_text (f ''column_name''), sql_text (f ''data_type''),
           text (f ''column_index''), text (f ''begin_snapshot''), sql_opt_u64 (f ''end_snapshot''),
           if (case as_bool (f ''is_nullable'') of None \<Rightarrow> True | Some b \<Rightarrow> b) then ''true'' else ''false'']
      else if tbl = ''ducklake_data_file'' then
        pg_insert tbl ''data_file_id, table_id, path, file_format, row_count, file_size_bytes, snapshot_id''
          [text (f ''data_file_id''), text (f ''table_id''), sql_text (f ''path''), sql_text (f ''file_format''),
           text (f ''row_count''), text (f ''file_size_bytes''), text (f ''snapshot_id'')]
      else ''-- Unsupported table: '' @ sql_escape tbl)"

text \<open>The loop writes a statement per row; an unreadable line ends it and the statements before remain.\<close>

fun pg_migrate_lines ::
  "(Json \<Rightarrow> string) \<Rightarrow> ExportedRow json_codec \<Rightarrow> string list \<Rightarrow> u64 \<Rightarrow> (string list, u64) cmd" where
  "pg_migrate_lines text J [] n = ret n"
| "pg_migrate_lines text J (line # rest) n =
     (if trim line = [] then pg_migrate_lines text J rest n
      else
        bind (lift (map_err SlateDb (js_parse J line))) (\<lambda>exported.
        bind (\<lambda>out. (Inr (), out @ [row_to_pg_insert text exported])) (\<lambda>_.
          pg_migrate_lines text J rest (n + 1))))"

definition pg_migrate :: "(Json \<Rightarrow> string) \<Rightarrow> ExportedRow json_codec \<Rightarrow> string list \<Rightarrow> (string list, u64) cmd" where
  "pg_migrate text J lines = pg_migrate_lines text J lines 0"

section \<open>Rebuilding a catalog\<close>

definition rebuilt_schema :: SchemaRow where
  "rebuilt_schema = \<lparr>sr_schema_id = 1, sr_schema_name = ''main'', sr_begin_snapshot = 1, sr_end_snapshot = None,
     sr_schema_uuid = None, sr_path = None, sr_path_is_relative = None\<rparr>"

definition rebuilt_table :: TableRow where
  "rebuilt_table = \<lparr>tr_table_id = 2, tr_schema_id = 1, tr_table_name = ''default'', tr_begin_snapshot = 1,
     tr_end_snapshot = None, tr_path = None, tr_table_uuid = None, tr_path_is_relative = None\<rparr>"

definition rebuilt_file :: "u64 \<Rightarrow> string \<Rightarrow> DataFileRow" where
  "rebuilt_file file_id path = \<lparr>df_data_file_id = file_id, df_table_id = 2, df_path = path, df_file_format = ''parquet'',
     df_record_count = 0, df_file_size_bytes = 0, df_footer_size = None, df_encryption_key = None,
     df_begin_snapshot = Some 1, df_end_snapshot = None, df_file_order = None, df_path_is_relative = Some False,
     df_row_id_start = None, df_partition_id = None, df_mapping_id = None, df_partial_max = None\<rparr>"

definition rebuilt_snapshot :: "string \<Rightarrow> SnapshotRow" where
  "rebuilt_snapshot now = \<lparr>sn_snapshot_id = 1, sn_schema_version = 1, sn_snapshot_time = now, sn_author = Some ''rebuild'',
     sn_message = Some ''Catalog rebuilt from Parquet files'', sn_next_catalog_id = None, sn_next_file_id = None\<rparr>"

fun rebuild_files :: "codecs \<Rightarrow> u64 \<Rightarrow> string list \<Rightarrow> kv list" where
  "rebuild_files C file_id [] = []"
| "rebuild_files C file_id (path # paths) =
     (let encoded = encode_value (pb_DataFileRow C) (rebuilt_file file_id path) in
      [(key_data_file 2 file_id, encoded), (key_data_file_by_snapshot 2 1 file_id, encoded)] @
      rebuild_files C (file_id + 1) paths)"

definition rebuild_batch :: "codecs \<Rightarrow> string \<Rightarrow> string list \<Rightarrow> kv list" where
  "rebuild_batch C now data_paths =
     [(key_schema 1, encode_value (pb_SchemaRow C) rebuilt_schema),
      (key_table 1 2 1, encode_value (pb_TableRow C) rebuilt_table)] @
     rebuild_files C 1 data_paths @
     [(key_snapshot 1, encode_value (pb_SnapshotRow C) (rebuilt_snapshot now)),
      (key_counter COUNTER_NEXT_SNAPSHOT_ID, encode_counter 2),
      (key_counter COUNTER_NEXT_CATALOG_ID, encode_counter 3),
      (key_counter COUNTER_NEXT_FILE_ID, encode_counter (1 + of_nat (length data_paths)))]"

definition rebuild_catalog ::
  "'db slatedb \<Rightarrow> codecs \<Rightarrow> 'db batch_writer \<Rightarrow> ('db \<Rightarrow> 'db) \<Rightarrow> string \<Rightarrow> string list \<Rightarrow> ('db, u64) cmd" where
  "rebuild_catalog S C wr env now data_paths =
     bind (initialize_catalog S env) (\<lambda>_.
     bind (db_write wr (rebuild_batch C now data_paths)) (\<lambda>_.
     bind (\<lambda>db. (verify_catalog S C db, db)) (\<lambda>_.
       ret (of_nat (length data_paths)))))"

section \<open>Facts\<close>

text \<open>A text in quotes is a literal: outside its two ends every quote is doubled, so the statement reads it back.\<close>

fun sql_unescape :: "string \<Rightarrow> string" where
  "sql_unescape (c # d # s) = (if c = CHR 0x27 \<and> d = CHR 0x27 then CHR 0x27 # sql_unescape s else c # sql_unescape (d # s))"
| "sql_unescape s = s"

lemma sql_unescape_plain: "c \<noteq> CHR 0x27 \<Longrightarrow> sql_unescape (c # s) = c # sql_unescape s"
  by (cases s) auto

lemma sql_unescape_escape: "sql_unescape (sql_escape s) = s"
  by (induction s) (auto simp: sql_escape_def sql_unescape_plain)

text \<open>The statement for an exported data file reads two members that the export does not write, so the row count and
  the snapshot are null whatever the file is.\<close>

lemma pg_insert_loses_row_count:
  "row_to_pg_insert text \<lparr>er_table = ''ducklake_data_file'', er_data = data_file_json row\<rparr> =
     pg_insert ''ducklake_data_file'' ''data_file_id, table_id, path, file_format, row_count, file_size_bytes, snapshot_id''
       [text (JU64 (df_data_file_id row)), text (JU64 (df_table_id row)), sql_text (JStr (df_path row)),
        sql_text (JStr (df_file_format row)), text JNull, text (JU64 (df_file_size_bytes row)), text JNull]"
  by (simp add: row_to_pg_insert_def data_file_json_def json_field_def Let_def)

text \<open>No import writes a counter or a system key, so a catalog that was imported into an empty database has neither
  a format version nor counters above the ids it uses.\<close>

lemma import_leaves_counters:
  assumes "k \<in> fst ` carried_entries C snap m"
  shows "hd k \<noteq> TAG_COUNTERS \<and> hd k \<noteq> TAG_SYSTEM"
proof -
  from assms obtain fam k' v w where fam: "fam \<in> set (carry_families C snap)" "prefix (cf_prefix fam) k'"
    "(k, w) \<in> set (cf_carry fam (k', v))" unfolding carried_entries_def by auto
  have tags: "TAG_COUNTERS \<notin> set (map (hd \<circ> cf_prefix) (carry_families C snap))"
    "TAG_SYSTEM \<notin> set (map (hd \<circ> cf_prefix) (carry_families C snap))"
    by (simp_all add: carry_families_def carry_def carry_data_files_def prefix_for_tag_def tag_defs)
  from fam show ?thesis
  proof (cases rule: carried_entry_cases)
    case 1
    with carry_family_hd [OF fam(1,2)] tags show ?thesis by auto
  next
    case (2 row)
    then show ?thesis by (simp add: key_data_file_by_snapshot_def tag_defs)
  qed
qed

text \<open>A delete file loses its table on the way, and is then listed for every table.\<close>

lemma import_loses_delete_table: "del_table_id (delete_file_carried row) = None"
  by (simp add: delete_file_carried_def)

text \<open>Secrets and keys are replaced by a placeholder.\<close>

lemma import_redacts_secrets:
  "ecs_encrypted_secret (encrypted_secret_carried row) = ''<redacted>''"
  "ek_encryption_key (encryption_key_carried key) = Some ''<redacted>''"
  by (simp_all add: encrypted_secret_carried_def encryption_key_carried_def)

end
