(* ===== verification/Diagnose.thy ===== *)
theory Diagnose
  imports Cleanup Gc
begin

text \<open>
  Inspection and diagnosis of a catalog: \<open>inspect.rs\<close> and \<open>diagnose.rs\<close> of \<open>crates/rocklake-catalog/src\<close>. The
  listing of the object store is a parameter, an error or the paths of the objects below a root.
\<close>

section \<open>Inspection\<close>

record InspectResult =
  in_latest_snapshot_id :: u64
  in_schema_version :: u64
  in_snapshot_time :: string
  in_next_snapshot_id :: u64
  in_next_catalog_id :: u64
  in_next_file_id :: u64
  in_schema_count :: u64
  in_table_count :: u64
  in_column_count :: u64
  in_data_file_count :: u64
  in_delete_file_count :: u64
  in_retain_from :: u64
  in_writer_epoch :: u64
  in_format_version :: u32

definition load_or_zero :: "'db slatedb \<Rightarrow> 'db \<Rightarrow> bytes \<Rightarrow> CatalogError + u64" where
  "load_or_zero S db k =
     rbind (db_get S db k) (\<lambda>d. case d of Some data \<Rightarrow> map_err ValueErr (decode_counter data) | None \<Rightarrow> Inr 0)"

definition load_format_version :: "'db slatedb \<Rightarrow> 'db \<Rightarrow> CatalogError + u32" where
  "load_format_version S db =
     rbind (db_get S db (key_system SYSTEM_CATALOG_FORMAT_VERSION)) (\<lambda>d.
       case d of Some data \<Rightarrow> map_err ValueErr (decode_format_version data) | None \<Rightarrow> Inr 0)"

definition count_tag :: "'db slatedb \<Rightarrow> 'db \<Rightarrow> u8 \<Rightarrow> CatalogError + u64" where
  "count_tag S db tag =
     rbind (map_err classify_slatedb_error (sdb_scan_prefix S db (prefix_for_tag tag))) (\<lambda>(kvs, err).
       case err of None \<Rightarrow> Inr (of_nat (length kvs)) | Some e \<Rightarrow> Inl (SlateDb e))"

definition latest_snapshot_info :: "'db slatedb \<Rightarrow> codecs \<Rightarrow> 'db \<Rightarrow> u64 \<Rightarrow> CatalogError + u64 \<times> string" where
  "latest_snapshot_info S C db latest =
     (if latest > 0 then
        rbind (db_get S db (key_snapshot latest)) (\<lambda>d.
          case d of
            Some data \<Rightarrow> rbind (map_err ValueErr (decode_value (pb_SnapshotRow C) data)) (\<lambda>row.
              Inr (sn_schema_version row, sn_snapshot_time row))
          | None \<Rightarrow> Inr (0, []))
      else Inr (0, []))"

definition inspect_snapshot :: "'db slatedb \<Rightarrow> codecs \<Rightarrow> 'db \<Rightarrow> CatalogError + InspectResult" where
  "inspect_snapshot S C db =
     rbind (load_or_zero S db (key_counter COUNTER_NEXT_SNAPSHOT_ID)) (\<lambda>next_snapshot_id.
     rbind (load_or_zero S db (key_counter COUNTER_NEXT_CATALOG_ID)) (\<lambda>next_catalog_id.
     rbind (load_or_zero S db (key_counter COUNTER_NEXT_FILE_ID)) (\<lambda>next_file_id.
     let latest = saturating_sub next_snapshot_id 1 in
     rbind (latest_snapshot_info S C db latest) (\<lambda>(schema_version, snapshot_time).
     rbind (count_tag S db TAG_SCHEMA) (\<lambda>schema_count.
     rbind (count_tag S db TAG_TABLE) (\<lambda>table_count.
     rbind (count_tag S db TAG_COLUMN) (\<lambda>column_count.
     rbind (count_tag S db TAG_DATA_FILE) (\<lambda>data_file_count.
     rbind (count_tag S db TAG_DELETE_FILE) (\<lambda>delete_file_count.
     rbind (read_retain_from S db) (\<lambda>retain_from.
     rbind (load_or_zero S db (key_system SYSTEM_WRITER_EPOCH)) (\<lambda>writer_epoch.
     rbind (load_format_version S db) (\<lambda>format_version.
       Inr \<lparr>in_latest_snapshot_id = latest, in_schema_version = schema_version, in_snapshot_time = snapshot_time,
            in_next_snapshot_id = next_snapshot_id, in_next_catalog_id = next_catalog_id,
            in_next_file_id = next_file_id, in_schema_count = schema_count, in_table_count = table_count,
            in_column_count = column_count, in_data_file_count = data_file_count,
            in_delete_file_count = delete_file_count, in_retain_from = retain_from,
            in_writer_epoch = writer_epoch, in_format_version = format_version\<rparr>))))))))))))"

section \<open>Diagnosis\<close>

datatype FindingSeverity = P0 | P1 | P2

record DiagnosticFinding =
  dg_severity :: FindingSeverity
  dg_category :: string
  dg_message :: string

record DiagnoseReport =
  dr_format_version :: u32
  dr_writer_epoch :: u64
  dr_latest_snapshot_id :: u64
  dr_retain_from :: u64
  dr_schema_count :: u64
  dr_table_count :: u64
  dr_data_file_count :: u64
  dr_secondary_index_entries_checked :: u64
  dr_secondary_index_gaps :: u64
  dr_orphan_files :: "string list"
  dr_snapshot_gaps :: "u64 list"
  dr_findings :: "DiagnosticFinding list"
  dr_overall_status :: string

definition has_severity :: "FindingSeverity \<Rightarrow> DiagnosticFinding list \<Rightarrow> bool" where
  "has_severity sev findings \<longleftrightarrow> list_ex (\<lambda>f. dg_severity f = sev) findings"

definition DiagnoseReport_is_ok :: "DiagnoseReport \<Rightarrow> bool" where
  "DiagnoseReport_is_ok report \<longleftrightarrow> \<not> has_severity P0 (dr_findings report)"

definition index_finding :: "string \<Rightarrow> DiagnosticFinding" where
  "index_finding message = \<lparr>dg_severity = P1, dg_category = ''secondary-index'', dg_message = message\<rparr>"

definition index_key_of :: "DataFileRow \<Rightarrow> bytes" where
  "index_key_of row = key_data_file_by_snapshot (df_table_id row)
     (case df_begin_snapshot row of None \<Rightarrow> 0 | Some b \<Rightarrow> b) (df_data_file_id row)"

definition missing_index_finding :: "DataFileRow \<Rightarrow> DiagnosticFinding" where
  "missing_index_finding row = index_finding (''Data file '' @ show_u64 (df_data_file_id row) @ '' (table '' @
     show_u64 (df_table_id row) @ '', snap '' @ show_u64 (case df_begin_snapshot row of None \<Rightarrow> 0 | Some b \<Rightarrow> b) @
     '') has no secondary-index entry'')"

text \<open>The loop over the data files: the number of rows checked, the gaps and the findings so far. A row that does
  not decode is passed over.\<close>

fun check_index_rows ::
  "'db slatedb \<Rightarrow> codecs \<Rightarrow> 'db \<Rightarrow> kv list \<Rightarrow> u64 \<Rightarrow> u64 \<Rightarrow> DiagnosticFinding list
     \<Rightarrow> u64 \<times> u64 \<times> DiagnosticFinding list" where
  "check_index_rows S C db [] checked gaps findings = (checked, gaps, findings)"
| "check_index_rows S C db (kv # kvs) checked gaps findings =
     (case decode_value (pb_DataFileRow C) (snd kv) of
        Inl _ \<Rightarrow> check_index_rows S C db kvs checked gaps findings
      | Inr row \<Rightarrow>
          (case sdb_get S db (index_key_of row) of
             Inr None \<Rightarrow> check_index_rows S C db kvs (checked + 1) (gaps + 1)
               (if gaps + 1 \<le> 10 then findings @ [missing_index_finding row] else findings)
           | Inr (Some _) \<Rightarrow> check_index_rows S C db kvs (checked + 1) gaps findings
           | Inl e \<Rightarrow> check_index_rows S C db kvs (checked + 1) gaps
               (findings @ [index_finding (''Error checking secondary key: '' @ e)])))"

definition check_secondary_index ::
  "'db slatedb \<Rightarrow> codecs \<Rightarrow> 'db \<Rightarrow> DiagnosticFinding list \<Rightarrow> CatalogError + u64 \<times> u64 \<times> DiagnosticFinding list" where
  "check_secondary_index S C db findings =
     rbind (map_err classify_slatedb_error (sdb_scan_prefix S db (prefix_for_tag TAG_DATA_FILE))) (\<lambda>(kvs, err).
     case err of
       Some e \<Rightarrow> Inl (SlateDb e)
     | None \<Rightarrow>
         (case check_index_rows S C db kvs 0 0 findings of (checked, gaps, findings) \<Rightarrow>
            Inr (checked, gaps, if gaps > 10
              then findings @ [index_finding (show_u64 gaps @ '' total secondary-index gaps (first 10 detailed above)'')]
              else findings)))"

definition gap_finding :: "FindingSeverity \<Rightarrow> string \<Rightarrow> DiagnosticFinding" where
  "gap_finding sev message = \<lparr>dg_severity = sev, dg_category = ''snapshot-gaps'', dg_message = message\<rparr>"

fun snapshot_gap_loop ::
  "'db slatedb \<Rightarrow> 'db \<Rightarrow> nat list \<Rightarrow> nat \<Rightarrow> u64 list \<Rightarrow> DiagnosticFinding list \<Rightarrow> u64 list \<times> DiagnosticFinding list" where
  "snapshot_gap_loop S db [] scanned gaps findings = (gaps, findings)"
| "snapshot_gap_loop S db (i # ids) scanned gaps findings =
     (if scanned \<ge> 10000 then
        (gaps, findings @ [gap_finding P2 ''Snapshot gap scan truncated at 10,000 snapshots''])
      else
        (case sdb_get S db (key_snapshot (of_nat i)) of
           Inr None \<Rightarrow> snapshot_gap_loop S db ids (scanned + 1) (gaps @ [of_nat i]) findings
         | Inr (Some _) \<Rightarrow> snapshot_gap_loop S db ids (scanned + 1) gaps findings
         | Inl e \<Rightarrow> snapshot_gap_loop S db ids (scanned + 1) gaps
             (findings @ [gap_finding P1 (''Error reading snapshot '' @ show_nat i @ '': '' @ e)])))"

definition detect_snapshot_gaps ::
  "'db slatedb \<Rightarrow> 'db \<Rightarrow> u64 \<Rightarrow> u64 \<Rightarrow> DiagnosticFinding list \<Rightarrow> u64 list \<times> DiagnosticFinding list" where
  "detect_snapshot_gaps S db retain_from latest findings =
     (if latest = 0 then ([], findings)
      else
        (case snapshot_gap_loop S db [unat (max retain_from 1)..<Suc (unat latest)] 0 [] findings of (gaps, findings) \<Rightarrow>
           (gaps, if gaps \<noteq> [] then
              findings @ [gap_finding P1 (show_nat (length gaps) @ '' snapshot IDs missing between retain-from='' @
                show_u64 retain_from @ '' and latest='' @ show_u64 latest)]
            else findings)))"

definition detect_orphan_files ::
  "'db slatedb \<Rightarrow> codecs \<Rightarrow> (string \<Rightarrow> string + string list) \<Rightarrow> 'db \<Rightarrow> string \<Rightarrow> DiagnosticFinding list
     \<Rightarrow> CatalogError + string list \<times> DiagnosticFinding list" where
  "detect_orphan_files S C listing db data_root findings =
     rbind (collect_referenced_paths S C db) (\<lambda>referenced.
       case listing data_root of
         Inr objects \<Rightarrow>
           (let orphans = filter (\<lambda>p. ends_with p ''.parquet'' \<and> p \<notin> set referenced) objects in
            Inr (orphans, if orphans \<noteq> [] then
                findings @ [\<lparr>dg_severity = P2, dg_category = ''orphan-files'',
                  dg_message = show_nat (length orphans) @ '' orphan Parquet files found in '' @ data_root\<rparr>]
              else findings))
       | Inl e \<Rightarrow>
           Inr ([], findings @ [\<lparr>dg_severity = P2, dg_category = ''orphan-files'',
             dg_message = ''Error listing object store at '' @ data_root @ '': '' @ e\<rparr>]))"

definition overall_status :: "DiagnosticFinding list \<Rightarrow> string" where
  "overall_status findings =
     (if has_severity P0 findings then ''critical'' else if has_severity P1 findings then ''degraded'' else ''ok'')"

definition diagnose_catalog ::
  "'db slatedb \<Rightarrow> codecs \<Rightarrow> ((string \<Rightarrow> string + string list) \<times> string) option \<Rightarrow> 'db \<Rightarrow> CatalogError + DiagnoseReport" where
  "diagnose_catalog S C object_store db =
     rbind (inspect_snapshot S C db) (\<lambda>info.
     rbind (check_secondary_index S C db []) (\<lambda>(checked, gaps, findings).
     case detect_snapshot_gaps S db (in_retain_from info) (in_latest_snapshot_id info) findings of (snapshot_gaps, findings) \<Rightarrow>
     rbind (case object_store of
              Some (listing, data_root) \<Rightarrow> detect_orphan_files S C listing db data_root findings
            | None \<Rightarrow> Inr ([], findings)) (\<lambda>(orphan_files, findings).
       Inr \<lparr>dr_format_version = in_format_version info, dr_writer_epoch = in_writer_epoch info,
            dr_latest_snapshot_id = in_latest_snapshot_id info, dr_retain_from = in_retain_from info,
            dr_schema_count = in_schema_count info, dr_table_count = in_table_count info,
            dr_data_file_count = in_data_file_count info, dr_secondary_index_entries_checked = checked,
            dr_secondary_index_gaps = gaps, dr_orphan_files = orphan_files, dr_snapshot_gaps = snapshot_gaps,
            dr_findings = findings, dr_overall_status = overall_status findings\<rparr>)))"

section \<open>The report as text\<close>

definition severity_name :: "FindingSeverity \<Rightarrow> string" where
  "severity_name sev = (case sev of P0 \<Rightarrow> ''P0'' | P1 \<Rightarrow> ''P1'' | P2 \<Rightarrow> ''P2'')"

definition finding_line :: "DiagnosticFinding \<Rightarrow> string" where
  "finding_line f = ''['' @ severity_name (dg_severity f) @ ''] ['' @ dg_category f @ ''] '' @ dg_message f @ [CHR 10]"

definition format_report_text :: "(string \<Rightarrow> string) \<Rightarrow> DiagnoseReport \<Rightarrow> string" where
  "format_report_text to_uppercase report =
     ''=== RockLake Catalog Diagnostics ==='' @ [CHR 10, CHR 10] @
     ''Overall status:      '' @ to_uppercase (dr_overall_status report) @ [CHR 10] @
     ''Format version:      '' @ show_nat (unat (dr_format_version report)) @ [CHR 10] @
     ''Writer epoch:        '' @ show_u64 (dr_writer_epoch report) @ [CHR 10] @
     ''Latest snapshot:     '' @ show_u64 (dr_latest_snapshot_id report) @ [CHR 10] @
     ''Retain-from:         '' @ show_u64 (dr_retain_from report) @ [CHR 10] @
     ''Schemas:             '' @ show_u64 (dr_schema_count report) @ [CHR 10] @
     ''Tables:              '' @ show_u64 (dr_table_count report) @ [CHR 10] @
     ''Data files:          '' @ show_u64 (dr_data_file_count report) @ [CHR 10] @
     ''2nd-index checked:   '' @ show_u64 (dr_secondary_index_entries_checked report) @ '' ('' @
       show_u64 (dr_secondary_index_gaps report) @ '' gaps)'' @ [CHR 10] @
     ''Snapshot gaps:       '' @ show_nat (length (dr_snapshot_gaps report)) @ [CHR 10] @
     ''Orphan files:        '' @ show_nat (length (dr_orphan_files report)) @ [CHR 10] @
     (if dr_findings report \<noteq> [] then
        [CHR 10] @ ''--- Findings ---'' @ [CHR 10] @ concat (map finding_line (dr_findings report))
      else [CHR 10] @ ''No findings.'' @ [CHR 10])"

section \<open>Facts\<close>

lemma has_severity_append [simp]: "has_severity s (xs @ ys) \<longleftrightarrow> has_severity s xs \<or> has_severity s ys"
  by (simp add: has_severity_def)

lemma has_severity_simps [simp]:
  "\<not> has_severity s []" "has_severity s (f # fs) \<longleftrightarrow> dg_severity f = s \<or> has_severity s fs"
  by (simp_all add: has_severity_def)

text \<open>On a database that answers, a read is the content.\<close>

lemma sdb_get_view: "slatedb_ok S \<Longrightarrow> slatedb_available S \<Longrightarrow> sdb_get S db k = Inr (sdb_view S db k)"
  using sdb_get_available [of S db k] sdb_get_ok [of S db k] by auto

definition index_missing :: "codecs \<Rightarrow> (bytes \<Rightarrow> bytes option) \<Rightarrow> kv \<Rightarrow> bool" where
  "index_missing C m kv \<longleftrightarrow>
     (case decode_value (pb_DataFileRow C) (snd kv) of Inl _ \<Rightarrow> False | Inr row \<Rightarrow> m (index_key_of row) = None)"

lemma check_index_rows_spec:
  assumes "slatedb_ok S" "slatedb_available S"
  shows "check_index_rows S C db kvs checked gaps findings = (checked', gaps', findings') \<Longrightarrow>
    gaps' = gaps + of_nat (length (filter (index_missing C (sdb_view S db)) kvs)) \<and>
    (\<exists>fs. findings' = findings @ fs \<and> list_all (\<lambda>f. dg_severity f = P1) fs \<and>
      (filter (index_missing C (sdb_view S db)) kvs = [] \<longrightarrow> fs = []) \<and>
      (gaps = 0 \<longrightarrow> filter (index_missing C (sdb_view S db)) kvs \<noteq> [] \<longrightarrow> fs \<noteq> []))"
proof (induction kvs arbitrary: checked gaps findings)
  case (Cons kv kvs)
  show ?case
  proof (cases "decode_value (pb_DataFileRow C) (snd kv)")
    case (Inl e)
    with Cons show ?thesis by (simp add: index_missing_def)
  next
    case (Inr row)
    show ?thesis
    proof (cases "sdb_view S db (index_key_of row)")
      case None
      let ?new = "if gaps + 1 \<le> 10 then [missing_index_finding row] else []"
      from Cons.prems Inr None have "check_index_rows S C db kvs (checked + 1) (gaps + 1) (findings @ ?new) =
          (checked', gaps', findings')" by (simp add: sdb_get_view [OF assms] split: if_splits)
      from Cons.IH [OF this] obtain fs where "gaps' = gaps + 1 + of_nat (length (filter (index_missing C (sdb_view S db)) kvs))"
        "findings' = findings @ ?new @ fs" "list_all (\<lambda>f. dg_severity f = P1) fs" by auto
      moreover have "index_missing C (sdb_view S db) kv" using Inr None by (simp add: index_missing_def)
      moreover have "list_all (\<lambda>f. dg_severity f = P1) ?new"
        by (simp add: missing_index_finding_def index_finding_def)
      moreover have "?new \<noteq> []" if "gaps = 0" using that by simp
      ultimately show ?thesis by (intro conjI exI [of _ "?new @ fs"]) auto
    next
      case (Some v)
      with Inr have "\<not> index_missing C (sdb_view S db) kv" by (simp add: index_missing_def)
      moreover from Cons.prems Inr Some have "check_index_rows S C db kvs (checked + 1) gaps findings =
          (checked', gaps', findings')" by (simp add: sdb_get_view [OF assms])
      ultimately show ?thesis using Cons.IH by simp
    qed
  qed
qed simp

lemma snapshot_gap_loop_spec:
  assumes "slatedb_ok S" "slatedb_available S"
  shows "scanned + length ids \<le> 10000 \<Longrightarrow> snapshot_gap_loop S db ids scanned gaps findings =
    (gaps @ map of_nat (filter (\<lambda>i. sdb_view S db (key_snapshot (of_nat i)) = None) ids), findings)"
  by (induction ids arbitrary: scanned gaps) (auto simp: sdb_get_view [OF assms] split: option.splits)

lemma detect_snapshot_gaps_spec:
  assumes "slatedb_ok S" "slatedb_available S" "unat latest - unat (max retain_from 1) < 10000"
    and "detect_snapshot_gaps S db retain_from latest findings = (gaps, findings')"
  shows "set gaps = {s. max retain_from 1 \<le> s \<and> s \<le> latest \<and> sdb_view S db (key_snapshot s) = None}"
    and "\<exists>fs. findings' = findings @ fs \<and> list_all (\<lambda>f. dg_severity f = P1) fs \<and> (fs = [] \<longleftrightarrow> gaps = [])"
proof -
  let ?ids = "[unat (max retain_from 1)..<Suc (unat latest)]"
  let ?gaps = "map of_nat (filter (\<lambda>i. sdb_view S db (key_snapshot (of_nat i)) = None) ?ids) :: u64 list"
  have gaps: "gaps = (if latest = 0 then [] else ?gaps)"
    "findings' = findings @ (if gaps = [] then [] else [gap_finding P1 (show_nat (length gaps) @
       '' snapshot IDs missing between retain-from='' @ show_u64 retain_from @ '' and latest='' @ show_u64 latest)])"
    using assms(4) snapshot_gap_loop_spec [OF assms(1,2), of 0 ?ids db "[]" findings] assms(3)
    by (auto simp: detect_snapshot_gaps_def split: if_splits)
  then show "\<exists>fs. findings' = findings @ fs \<and> list_all (\<lambda>f. dg_severity f = P1) fs \<and> (fs = [] \<longleftrightarrow> gaps = [])"
    by (simp add: gap_finding_def)
  have ids: "s \<in> of_nat ` set ?ids \<longleftrightarrow> max retain_from 1 \<le> s \<and> s \<le> latest" for s :: u64
  proof
    assume "s \<in> of_nat ` set ?ids"
    then obtain i where i: "s = of_nat i" "unat (max retain_from 1) \<le> i" "i \<le> unat latest" by auto
    moreover have "unat (of_nat i :: u64) = i"
      using i(3) unsigned_less [of latest, where ?'a = nat] by (simp add: unat_of_nat)
    ultimately show "max retain_from 1 \<le> s \<and> s \<le> latest" by (simp add: word_le_nat_alt)
  next
    assume "max retain_from 1 \<le> s \<and> s \<le> latest"
    then have "unat s \<in> set ?ids" by (auto simp: word_le_nat_alt)
    then show "s \<in> of_nat ` set ?ids" by (intro image_eqI [of _ _ "unat s"]) simp_all
  qed
  show "set gaps = {s. max retain_from 1 \<le> s \<and> s \<le> latest \<and> sdb_view S db (key_snapshot s) = None}"
  proof (cases "latest = 0")
    case True
    then have "\<not> (max retain_from 1 \<le> s \<and> s \<le> latest)" for s by (auto simp: max_def word_le_nat_alt split: if_splits)
    with True gaps(1) show ?thesis by auto
  next
    case False
    then have "set gaps = {s \<in> of_nat ` set ?ids. sdb_view S db (key_snapshot s) = None}" using gaps(1) by auto
    with ids show ?thesis by blast
  qed
qed

definition unindexed_files :: "'db slatedb \<Rightarrow> codecs \<Rightarrow> 'db \<Rightarrow> kv set" where
  "unindexed_files S C db = {(k, v). prefix (prefix_for_tag TAG_DATA_FILE) k \<and> sdb_view S db k = Some v \<and>
     index_missing C (sdb_view S db) (k, v)}"

lemma list_all_severity: "list_all (\<lambda>f. dg_severity f = s) fs \<Longrightarrow> has_severity s' fs \<longleftrightarrow> s = s' \<and> fs \<noteq> []"
  by (induction fs) auto

lemma check_secondary_index_spec:
  assumes "slatedb_ok S" "slatedb_available S" "check_secondary_index S C db [] = Inr (checked, gaps, findings)"
  shows "gaps = of_nat (card (unindexed_files S C db)) \<and> list_all (\<lambda>f. dg_severity f = P1) findings \<and>
    (findings = [] \<longleftrightarrow> unindexed_files S C db = {})"
proof -
  obtain kvs where scan: "sdb_scan_prefix S db (prefix_for_tag TAG_DATA_FILE) = Inr (kvs, None)"
    using sdb_scan_prefix_available [OF assms(2)] by blast
  have listing: "prefix_listing (sdb_view S db) (prefix_for_tag TAG_DATA_FILE) kvs" by (rule sdb_scan_prefix_ok [OF assms(1) scan])
  let ?missing = "filter (index_missing C (sdb_view S db)) kvs"
  have set: "set ?missing = unindexed_files S C db"
    using listing by (auto simp: unindexed_files_def prefix_listing_def)
  have "distinct (map fst kvs)" using listing by (simp add: prefix_listing_def strict_sorted_iff)
  then have "distinct ?missing" by (simp add: distinct_map)
  with set have len: "length ?missing = card (unindexed_files S C db)" by (metis distinct_card)
  obtain checked' gaps' fs where rows: "check_index_rows S C db kvs 0 0 [] = (checked', gaps', fs)" by (cases "check_index_rows S C db kvs 0 0 []")
  have "?missing = [] \<longleftrightarrow> unindexed_files S C db = {}" using set by (metis set_empty)
  with check_index_rows_spec [OF assms(1,2) rows] len
  have fs: "gaps' = of_nat (card (unindexed_files S C db))" "list_all (\<lambda>f. dg_severity f = P1) fs"
    "fs = [] \<longleftrightarrow> unindexed_files S C db = {}" by auto
  have "gaps = gaps'" "findings = fs @ (if gaps' > 10 then [index_finding (show_u64 gaps' @
      '' total secondary-index gaps (first 10 detailed above)'')] else [])"
    using assms(3) scan rows by (auto simp: check_secondary_index_def split: if_splits)
  moreover have "fs \<noteq> []" if "gaps' > 10" using fs that by auto
  ultimately show ?thesis using fs by (auto simp: index_finding_def)
qed

lemma detect_orphan_findings:
  assumes "(case object_store of Some (listing, data_root) \<Rightarrow> detect_orphan_files S C listing db data_root findings
      | None \<Rightarrow> Inr ([], findings)) = Inr (orphans, findings')"
  shows "\<exists>more. findings' = findings @ more \<and> list_all (\<lambda>f. dg_severity f = P2) more"
proof (cases object_store)
  case (Some store)
  obtain listing data_root where store: "store = (listing, data_root)" by (cases store)
  with Some assms obtain referenced where "collect_referenced_paths S C db = Inr referenced"
    by (cases "collect_referenced_paths S C db") (auto simp: detect_orphan_files_def)
  with Some store assms show ?thesis
    by (cases "listing data_root") (auto simp: detect_orphan_files_def Let_def split: if_splits)
qed (use assms in simp)


text \<open>No check ever reports a finding of severity \<open>P0\<close>: the report is never critical, and \<open>is_ok\<close> holds of every
  report.\<close>

lemma finding_severities [simp]:
  "dg_severity (index_finding m) = P1" "dg_severity (missing_index_finding row) = P1" "dg_severity (gap_finding s m) = s"
  by (simp_all add: index_finding_def missing_index_finding_def gap_finding_def)

lemma check_index_rows_no_P0:
  "\<not> has_severity P0 findings \<Longrightarrow> \<not> has_severity P0 (snd (snd (check_index_rows S C db kvs checked gaps findings)))"
  by (induction kvs arbitrary: checked gaps findings) (simp_all split: sum.splits option.splits)

lemma snapshot_gap_loop_no_P0:
  "\<not> has_severity P0 findings \<Longrightarrow> \<not> has_severity P0 (snd (snapshot_gap_loop S db ids scanned gaps findings))"
  by (induction ids arbitrary: scanned gaps findings) (simp_all split: sum.splits option.splits)

lemma diagnose_never_critical:
  assumes "diagnose_catalog S C object_store db = Inr report"
  shows "DiagnoseReport_is_ok report"
proof -
  obtain info checked gaps fs1 where index: "inspect_snapshot S C db = Inr info"
    "check_secondary_index S C db [] = Inr (checked, gaps, fs1)"
    using assms by (cases "inspect_snapshot S C db"; cases "check_secondary_index S C db []")
      (auto simp: diagnose_catalog_def)
  obtain sgaps fs2 where snaps:
    "detect_snapshot_gaps S db (in_retain_from info) (in_latest_snapshot_id info) fs1 = (sgaps, fs2)"
    by (cases "detect_snapshot_gaps S db (in_retain_from info) (in_latest_snapshot_id info) fs1")
  let ?orphans = "case object_store of Some (listing, data_root) \<Rightarrow> detect_orphan_files S C listing db data_root fs2
      | None \<Rightarrow> Inr ([], fs2)"
  from assms index snaps obtain orphans fs3 where orphans: "?orphans = Inr (orphans, fs3)"
    by (cases ?orphans) (auto simp: diagnose_catalog_def)
  obtain kvs where rows: "sdb_scan_prefix S db (prefix_for_tag TAG_DATA_FILE) = Inr (kvs, None)"
    using index(2) by (cases "sdb_scan_prefix S db (prefix_for_tag TAG_DATA_FILE)")
      (auto simp: check_secondary_index_def split: option.splits)
  have "\<not> has_severity P0 (snd (snd (check_index_rows S C db kvs 0 0 [])))"
    by (rule check_index_rows_no_P0) simp
  then have "\<not> has_severity P0 fs1"
    using index(2) rows by (auto simp: check_secondary_index_def split: prod.splits if_splits)
  then have "\<not> has_severity P0 (snd (snapshot_gap_loop S db
      [unat (max (in_retain_from info) 1)..<Suc (unat (in_latest_snapshot_id info))] 0 [] fs1))"
    by (rule snapshot_gap_loop_no_P0)
  with \<open>\<not> has_severity P0 fs1\<close> have "\<not> has_severity P0 fs2"
    using snaps by (auto simp: detect_snapshot_gaps_def split: prod.splits if_splits)
  with detect_orphan_findings [OF orphans] have "\<not> has_severity P0 fs3" using list_all_severity by auto
  then show ?thesis
    using assms index snaps orphans by (auto simp: diagnose_catalog_def DiagnoseReport_is_ok_def)
qed

end
