(* ===== verification/Concrete_Export.thy ===== *)
theory Concrete_Export
  imports Concrete_Services Concrete_Auth Export_Tools Diagnose
begin

text \<open>
  Concrete runs of the export tools: a catalog of one data file that is exported and imported into an empty database,
  and the diagnosis of a catalog with missing snapshots.
\<close>

section \<open>Export and import\<close>

definition mem_batch :: "mem_db batch_writer" where
  "mem_batch db batch = (Inr (), fold (\<lambda>kv db. kv # db) batch db)"

definition hex_base64 :: base64 where
  "hex_base64 = \<lparr>b64_encode = hex_text,
     b64_decode = (\<lambda>s. case hex_bytes s of Some data \<Rightarrow> Inr data | None \<Rightarrow> Inl ''invalid'')\<rparr>"

lemma mem_batch_ok: "batch_ok mem_slatedb mem_batch" "batch_available mem_batch"
proof -
  have "map_of (fold (\<lambda>kv db. kv # db) batch db) = fold (\<lambda>(k, v) m. m(k \<mapsto> v)) batch (map_of db)" for batch db
    by (induction batch arbitrary: db) auto
  then show "batch_ok mem_slatedb mem_batch" by (auto simp: batch_ok_def mem_batch_def)
qed (simp add: batch_available_def mem_batch_def)

definition parted_file :: DataFileRow where
  "parted_file = \<lparr>df_data_file_id = 9, df_table_id = 5, df_path = ''a.parquet'', df_file_format = ''parquet'',
     df_record_count = 3, df_file_size_bytes = 70, df_footer_size = Some 8, df_encryption_key = None,
     df_begin_snapshot = Some 2, df_end_snapshot = None, df_file_order = None, df_path_is_relative = Some True,
     df_row_id_start = Some 40, df_partition_id = Some 1, df_mapping_id = None, df_partial_max = None\<rparr>"

definition one_file_db :: mem_db where
  "one_file_db = [(key_data_file 5 9, encode_value (pb_DataFileRow mem_codecs) parted_file)]"

definition file_row :: ExportedRow where
  "file_row = \<lparr>er_table = ''ducklake_data_file'', er_data = data_file_json parted_file\<rparr>"

definition file_json :: "ExportedRow json_codec" where
  "file_json = \<lparr>js_print = (\<lambda>row. if row = file_row then Inr ''{}'' else Inl ''unprintable''),
     js_parse = (\<lambda>text. if text = ''{}'' then Inr file_row else Inl ''syntax'')\<rparr>"

lemma mem_scan_single: "mem_scan [(k, v)] p = (if prefix p k then [(k, v)] else [])"
  by (rule prefix_listing_unique [OF mem_scan_listing]) (auto simp: prefix_listing_def)

lemma parted_file_decodes [simp]:
  "decode_value (pb_DataFileRow mem_codecs) (encode_value (pb_DataFileRow mem_codecs) parted_file) = Inr parted_file"
  using mem_codecs_ok by simp

lemma parted_file_live [simp]: "data_file_live (SnapshotId_new 2) parted_file"
  by (simp add: data_file_live_def parted_file_def SnapshotId_new_def)

lemma rows_of_simps [simp]: "ef_prefix (rows_of p c P name keep json) = p" "ef_counted (rows_of p c P name keep json) = c"
  by (simp_all add: rows_of_def)

lemma one_file_skip:
  "\<not> prefix (ef_prefix fam) (key_data_file 5 9) \<Longrightarrow>
     export_tables mem_slatedb J one_file_db (fam # fams) rows tables out =
     export_tables mem_slatedb J one_file_db fams rows (if ef_counted fam then tables + 1 else tables) out"
  by (simp add: one_file_db_def mem_scan_single bind_def lift_def ret_def)

lemma one_file_step:
  "prefix p (key_data_file 5 9) \<Longrightarrow> export_tables mem_slatedb file_json one_file_db
      (rows_of p True (pb_DataFileRow mem_codecs) ''ducklake_data_file''
        (data_file_live (SnapshotId_new 2)) (\<lambda>_. data_file_json) # fams) rows tables out =
     export_tables mem_slatedb file_json one_file_db fams (rows + 1) (tables + 1) (out @ [''{}''])"
proof -
  assume "prefix p (key_data_file 5 9)"
  then have "mem_scan one_file_db p = one_file_db"
    by (simp add: one_file_db_def mem_scan_single)
  then show ?thesis
    by (simp add: bind_def lift_def ret_def rows_of_def row_decoder_def one_file_db_def file_json_def file_row_def)
qed

lemma one_file_exported:
  "export_catalog mem_slatedb mem_codecs hex_base64 file_json one_file_db (Some 2) [] =
     (Inr \<lparr>xr_rows_exported = 1, xr_tables_exported = 26\<rparr>, [''{}''])"
proof -
  have "export_tables mem_slatedb file_json one_file_db (export_families mem_codecs hex_base64 (SnapshotId_new 2)) 0 0 [] =
      (Inr \<lparr>xr_rows_exported = 1, xr_tables_exported = 26\<rparr>, [''{}''])"
    unfolding export_families_def
    by (simp add: one_file_skip one_file_step key_data_file_def prefix_for_tag_def tag_defs export_tables.simps(1) ret_def del: export_tables.simps(2))
  then show ?thesis by (simp add: export_catalog_def export_snapshot_def bind_def lift_def del: export_tables.simps)
qed

lemma one_file_canonical: "canonical_catalog mem_codecs (sdb_view mem_slatedb one_file_db)"
  unfolding canonical_catalog_def carry_families_def
  by (auto simp: one_file_db_def carry_def carry_data_files_def key_data_file_def prefix_for_tag_def tag_defs
      split: if_splits) (simp_all add: parted_file_def)


section \<open>Diagnosis\<close>

text \<open>A catalog whose counter says that seven snapshots exist while only the last one is stored.\<close>

lemma lagging_diagnosed:
  "\<exists>report. diagnose_catalog mem_slatedb mem_codecs None (lagging_db 8) = Inr report \<and>
     dr_latest_snapshot_id report = 7 \<and> dr_retain_from report = 0"
proof -
  have row: "decode_value (pb_SnapshotRow mem_codecs) (encode_value (pb_SnapshotRow mem_codecs) snapshot7) = Inr snapshot7"
    using mem_codecs_ok by simp
  have get: "map_of (lagging_db 8) (key_snapshot 7) = Some (encode_value (pb_SnapshotRow mem_codecs) snapshot7)"
    "map_of (lagging_db 8) (key_system SYSTEM_RETAIN_FROM) = None"
    "map_of (lagging_db 8) (key_system SYSTEM_WRITER_EPOCH) = None"
    by (simp_all add: lagging_db_def counters_db_def key_simps tag_defs str_bytes_def)
  have scan: "mem_scan (lagging_db 8) (prefix_for_tag TAG_DELETE_FILE) = []"
    unfolding prefix_for_tag_def by (rule lagging_db_scan_none) (simp_all add: tag_defs)
  have latest: "saturating_sub (8 :: u64) 1 = 7" by (simp add: saturating_sub_def)
  have "\<exists>info. inspect_snapshot mem_slatedb mem_codecs (lagging_db 8) = Inr info \<and>
      in_latest_snapshot_id info = 7 \<and> in_retain_from info = 0"
    by (simp add: inspect_snapshot_def load_or_zero_def latest_snapshot_info_def count_tag_def load_format_version_def
        read_retain_from_def db_get_def get scan row latest Let_def)
  then show ?thesis
    by (auto simp: diagnose_catalog_def check_secondary_index_def split: prod.splits)
qed


end
